(* ===== verification/Chain_Prelude.thy ===== *)
theory Chain_Prelude
  imports Main "HOL-Library.Word"
begin

text \<open>
  The vocabulary the components share: Rust's machine integers as words with the
  saturating and checked operations the pallets call, the ordered map of the Rust
  standard library as a sorted association list, sums over the finite key types of
  the storage maps, and the outcome type of a fallible operation.
\<close>

section \<open>Machine integers\<close>

type_synonym u32 = "32 word"
type_synonym u64 = "64 word"
type_synonym u128 = "128 word"
type_synonym u256 = "256 word"

text \<open>
  The runtime's account identifier is the 20-byte address of an Ethereum signer, and its
  signed 128-bit integers are read as integers between \<open>-2\<^sup>1\<^sup>2\<^sup>7\<close> and
  \<open>2\<^sup>1\<^sup>2\<^sup>7 - 1\<close>.
\<close>

type_synonym account_id = "160 word"
type_synonym i128 = int

named_theorems unat_simps \<open>reading word operations as operations on natural numbers\<close>
named_theorems word_order \<open>order and equality of words through their values\<close>

declare word_le_nat_alt [word_order] word_less_nat_alt [word_order]
  word_unat_eq_iff [word_order]

definition saturating_add :: "'a::len word \<Rightarrow> 'a word \<Rightarrow> 'a word" where
  "saturating_add a b = (if unat a + unat b < 2 ^ LENGTH('a) then a + b else - 1)"

definition saturating_sub :: "'a::len word \<Rightarrow> 'a word \<Rightarrow> 'a word" where
  "saturating_sub a b = (if b \<le> a then a - b else 0)"

definition saturating_mul :: "'a::len word \<Rightarrow> 'a word \<Rightarrow> 'a word" where
  "saturating_mul a b = (if unat a * unat b < 2 ^ LENGTH('a) then a * b else - 1)"

definition checked_mul :: "'a::len word \<Rightarrow> 'a word \<Rightarrow> 'a word option" where
  "checked_mul a b = (if unat a * unat b < 2 ^ LENGTH('a) then Some (a * b) else None)"

definition checked_div :: "'a::len word \<Rightarrow> 'a word \<Rightarrow> 'a word option" where
  "checked_div a b = (if b = 0 then None else Some (a div b))"

text \<open>
  Conversions: \<open>U256::from\<close> of a \<open>u128\<close>, and \<open>try_into\<close> back, which fails on a value that
  does not fit.
\<close>

definition u256_from :: "u128 \<Rightarrow> u256" where
  "u256_from x = ucast x"

definition u256_try_into_u128 :: "u256 \<Rightarrow> u128 option" where
  "u256_try_into_u128 x = (if unat x < 2 ^ 128 then Some (ucast x) else None)"

text \<open>Signed saturation at 128 bits, and \<open>as i128\<close> on an unsigned value.\<close>

definition i128_clamp :: "int \<Rightarrow> i128" where
  "i128_clamp x = max (- (2 ^ 127)) (min (2 ^ 127 - 1) x)"

definition u128_as_i128 :: "u128 \<Rightarrow> i128" where
  "u128_as_i128 x = sint x"

lemma unat_max_word: "unat (- 1 :: 'a::len word) = 2 ^ LENGTH('a) - 1"
  by (simp add: unsigned_minus_1_eq_mask mask_eq_exp_minus_1)

lemma unat_lt_exp: "unat (a :: 'a::len word) < 2 ^ LENGTH('a)"
  by (rule unsigned_less)

lemma unat_le_exp: "unat (a :: 'a::len word) \<le> 2 ^ LENGTH('a) - 1"
  using unat_lt_exp [of a] by linarith

lemma unat_saturating_add [unat_simps]:
  "unat (saturating_add a b) = min (unat a + unat b) (2 ^ LENGTH('a) - 1)"
  for a b :: "'a::len word"
proof (cases "unat a + unat b < 2 ^ LENGTH('a)")
  case True
  then have "unat (a + b) = unat a + unat b"
    by (simp add: unat_add_lem)
  with True show ?thesis
    by (simp add: saturating_add_def)
next
  case False
  then show ?thesis
    by (simp add: saturating_add_def unat_max_word)
qed

lemma unat_saturating_sub [unat_simps]:
  "unat (saturating_sub a b) = unat a - unat b"
  by (auto simp: saturating_sub_def unat_sub word_le_nat_alt)

lemma unat_saturating_mul [unat_simps]:
  "unat (saturating_mul a b) = min (unat a * unat b) (2 ^ LENGTH('a) - 1)"
  for a b :: "'a::len word"
proof (cases "unat a * unat b < 2 ^ LENGTH('a)")
  case True
  then have "unat (a * b) = unat a * unat b"
    by (simp add: unat_mult_lem)
  with True show ?thesis
    by (simp add: saturating_mul_def)
next
  case False
  then show ?thesis
    by (simp add: saturating_mul_def unat_max_word)
qed

lemma saturating_sub_zero [simp]: "saturating_sub a 0 = a"
  by (simp add: saturating_sub_def)

lemma saturating_add_zero [simp]: "saturating_add a 0 = a"
  by (simp add: saturating_add_def unat_lt_exp)

lemma saturating_add_exact:
  "unat a + unat b < 2 ^ LENGTH('a) \<Longrightarrow> unat (saturating_add a b) = unat a + unat b"
  for a b :: "'a::len word"
  by (simp add: unat_saturating_add)

lemma saturating_sub_exact:
  "unat b \<le> unat a \<Longrightarrow> unat (saturating_sub a b) + unat b = unat a"
  by (simp add: unat_saturating_sub)

lemma unat_u256_from [unat_simps]: "unat (u256_from x) = unat x"
proof -
  have "unat x < 2 ^ 256"
    using unat_lt_exp [of x] by simp
  then show ?thesis
    by (simp add: u256_from_def unsigned_ucast_eq take_bit_nat_eq_self)
qed

lemma u256_try_into_Some:
  "u256_try_into_u128 x = Some y \<longleftrightarrow> unat x < 2 ^ 128 \<and> unat y = unat x"
  by (auto simp: u256_try_into_u128_def unsigned_ucast_eq take_bit_nat_eq_self word_unat_eq_iff)

lemma u256_try_into_None: "u256_try_into_u128 x = None \<longleftrightarrow> 2 ^ 128 \<le> unat x"
  by (auto simp: u256_try_into_u128_def)

lemma checked_mul_Some:
  "checked_mul a b = Some c \<longleftrightarrow>
     unat a * unat b < 2 ^ LENGTH('a) \<and> unat c = unat a * unat b"
  for a b c :: "'a::len word"
  by (auto simp: checked_mul_def word_unat_eq_iff unat_mult_lem)

lemma checked_div_Some:
  "checked_div a b = Some c \<longleftrightarrow> b \<noteq> 0 \<and> unat c = unat a div unat b"
  by (auto simp: checked_div_def word_unat_eq_iff unat_div)

lemma i128_clamp_bounds: "- (2 ^ 127) \<le> i128_clamp x" "i128_clamp x \<le> 2 ^ 127 - 1"
  by (auto simp: i128_clamp_def)

section \<open>Sums over the keys of a storage map\<close>

text \<open>
  A storage map whose absent entries read as a default is a total function. Its keys are
  words, so the total over all keys is a finite sum.
\<close>

definition total :: "('k::finite \<Rightarrow> 'a::len word) \<Rightarrow> nat" where
  "total f = (\<Sum>k\<in>UNIV. unat (f k))"

lemma sum_upd: "(\<Sum>x\<in>UNIV. (f(k := v)) x) + f k = (\<Sum>x\<in>UNIV. f x) + v"
  for f :: "'k::finite \<Rightarrow> nat"
proof -
  have "(\<Sum>x\<in>UNIV. (f(k := v)) x) = v + (\<Sum>x\<in>UNIV - {k}. f x)"
    by (subst sum.remove [of _ k]) (auto intro!: sum.cong)
  moreover have "(\<Sum>x\<in>UNIV. f x) = f k + (\<Sum>x\<in>UNIV - {k}. f x)"
    by (subst sum.remove [of _ k]) auto
  ultimately show ?thesis by simp
qed

lemma total_upd: "total (f(k := v)) + unat (f k) = total f + unat v"
proof -
  have "(\<lambda>x. unat ((f(k := v)) x)) = (\<lambda>x. unat (f x))(k := unat v)"
    by auto
  then show ?thesis
    using sum_upd [of "\<lambda>x. unat (f x)" k "unat v"] unfolding total_def by (simp only:)
qed

lemma total_ge: "unat (f k) \<le> total f"
  unfolding total_def by (rule member_le_sum) auto

lemma total_add:
  assumes "unat v = unat (f k) + d"
  shows "total (f(k := v)) = total f + d"
  using total_upd [of f k v] assms by simp

lemma total_sub:
  assumes "unat v + d = unat (f k)"
  shows "total (f(k := v)) + d = total f"
  using total_upd [of f k v] assms by simp

lemma total_const_zero [simp]: "total (\<lambda>_. 0) = 0"
  by (simp add: total_def)

section \<open>The ordered map of the standard library\<close>

text \<open>
  \<open>BTreeMap\<close> holds one value per key and iterates in the order of its keys: an association
  list, strictly sorted by key.
\<close>

type_synonym ('k, 'v) btree_map = "('k \<times> 'v) list"

definition btree_ok :: "('k::linorder, 'v) btree_map \<Rightarrow> bool" where
  "btree_ok m \<longleftrightarrow> sorted_wrt (<) (map fst m)"

fun btree_insert :: "'k::linorder \<Rightarrow> 'v \<Rightarrow> ('k, 'v) btree_map \<Rightarrow> ('k, 'v) btree_map" where
  "btree_insert k v [] = [(k, v)]"
| "btree_insert k v ((k', v') # m) =
     (if k < k' then (k, v) # (k', v') # m
      else if k = k' then (k, v) # m
      else (k', v') # btree_insert k v m)"

definition btree_remove :: "'k \<Rightarrow> ('k, 'v) btree_map \<Rightarrow> ('k, 'v) btree_map" where
  "btree_remove k m = filter (\<lambda>e. fst e \<noteq> k) m"

definition btree_contains_key :: "('k, 'v) btree_map \<Rightarrow> 'k \<Rightarrow> bool" where
  "btree_contains_key m k \<longleftrightarrow> k \<in> fst ` set m"

lemma btree_insert_keys: "fst ` set (btree_insert k v m) = insert k (fst ` set m)"
  by (induction k v m rule: btree_insert.induct) auto

lemma btree_ok_distinct: "btree_ok m \<Longrightarrow> distinct (map fst m)"
  by (simp add: btree_ok_def strict_sorted_iff)

lemma btree_ok_Nil [simp]: "btree_ok []"
  by (simp add: btree_ok_def)

lemma btree_ok_Cons:
  "btree_ok ((k, v) # m) \<longleftrightarrow> btree_ok m \<and> (\<forall>k'\<in>fst ` set m. k < k')"
  by (auto simp: btree_ok_def)

lemma btree_ok_insert: "btree_ok m \<Longrightarrow> btree_ok (btree_insert k v m)"
proof (induction k v m rule: btree_insert.induct)
  case (2 k v k' v' m)
  then show ?case
    by (auto simp: btree_ok_Cons btree_insert_keys simp flip: image_iff)
qed (simp add: btree_ok_def)

lemma btree_ok_remove: "btree_ok m \<Longrightarrow> btree_ok (btree_remove k m)"
proof (induction m)
  case (Cons e m)
  then show ?case
    by (cases e) (auto simp: btree_ok_Cons btree_remove_def)
qed (simp add: btree_remove_def)

lemma btree_get_insert:
  "btree_ok m \<Longrightarrow> map_of (btree_insert k v m) = (map_of m)(k \<mapsto> v)"
proof (induction k v m rule: btree_insert.induct)
  case (2 k v k' v' m)
  then show ?case
    by (auto simp: btree_ok_Cons fun_eq_iff)
qed simp

lemma btree_get_remove: "map_of (btree_remove k m) = (map_of m)(k := None)"
  by (induction m) (auto simp: btree_remove_def fun_eq_iff)

text \<open>The total of the values of a map, and how inserting and removing change it.\<close>

definition btree_total :: "('k, 'a::len word) btree_map \<Rightarrow> nat" where
  "btree_total m = (\<Sum>e\<leftarrow>m. unat (snd e))"

lemma btree_total_simps [simp]:
  "btree_total [] = 0"
  "btree_total ((k, v) # m) = unat v + btree_total m"
  by (simp_all add: btree_total_def)

lemma btree_total_insert_new:
  "k \<notin> fst ` set m \<Longrightarrow> btree_total (btree_insert k v m) = btree_total m + unat v"
  by (induction k v m rule: btree_insert.induct) auto

lemma btree_total_insert_old:
  assumes "btree_ok m" and "map_of m k = Some w"
  shows "btree_total (btree_insert k v m) + unat w = btree_total m + unat v"
  using assms
proof (induction k v m rule: btree_insert.induct)
  case (2 k v k' v' m)
  have "k' < k" if "k \<noteq> k'"
    using 2 that by (auto simp: btree_ok_Cons dest!: map_of_SomeD split: if_splits)
  then show ?case
    using 2 by (auto simp: btree_ok_Cons split: if_splits)
qed simp

lemma btree_total_filter:
  "btree_total (filter P m) + btree_total (filter (\<lambda>e. \<not> P e) m) = btree_total m"
  by (induction m) (auto simp: btree_total_def)

lemma btree_total_ge: "map_of m k = Some v \<Longrightarrow> unat v \<le> btree_total m"
  by (induction m) (auto split: if_splits)

end
