(* ===== verification/Fixed_Point.thy ===== *)
theory Fixed_Point
  imports Chain_Prelude
begin

text \<open>
  Fixed-point arithmetic of \<open>pallets/network/src/utilities/math.rs\<close>: percentages are
  \<open>u128\<close> values scaled by \<open>10\<^sup>1\<^sup>8\<close>, and products go through 256-bit
  intermediates. The lemmas read each routine as exact arithmetic on natural numbers,
  rounded down and capped at the largest \<open>u128\<close>.
\<close>

section \<open>The routines\<close>

definition PERCENTAGE_FACTOR :: u256 where
  "PERCENTAGE_FACTOR = 0xde0b6b3a7640000"

definition HALF_PERCENT :: u256 where
  "HALF_PERCENT = 0x06f05b59d3b20000"

definition percentage_factor_as_u128 :: u128 where
  "percentage_factor_as_u128 = 1000000000000000000"

definition percent_mul :: "u128 \<Rightarrow> u128 \<Rightarrow> u128" where
  "percent_mul x y =
     (if x = 0 \<or> y = 0 then 0
      else
        let x = u256_from x; y = u256_from y in
        if x > (- 1 - HALF_PERCENT) div y then 0
        else
          let result = x * y div PERCENTAGE_FACTOR in
          if result > u256_from (- 1) then - 1
          else case u256_try_into_u128 result of Some r \<Rightarrow> r | None \<Rightarrow> - 1)"

definition percent_div :: "u128 \<Rightarrow> u128 \<Rightarrow> u128" where
  "percent_div x y =
     (if x = 0 \<or> y = 0 then 0
      else
        let x = u256_from x; y = u256_from y;
            result = x * PERCENTAGE_FACTOR div y
        in case u256_try_into_u128 result of Some r \<Rightarrow> r | None \<Rightarrow> - 1)"

definition checked_mul_div :: "u256 \<Rightarrow> u256 \<Rightarrow> u256 \<Rightarrow> u256 option" where
  "checked_mul_div x y z =
     (if z = 0 then None
      else case checked_mul x y of None \<Rightarrow> None | Some p \<Rightarrow> checked_div p z)"

section \<open>What they compute\<close>

lemma unat_PERCENTAGE_FACTOR [unat_simps]: "unat PERCENTAGE_FACTOR = 10 ^ 18"
  by (simp add: PERCENTAGE_FACTOR_def)

lemma unat_HALF_PERCENT: "unat HALF_PERCENT = 5 * 10 ^ 17"
  by (simp add: HALF_PERCENT_def)

lemma unat_percentage_factor [unat_simps]: "unat percentage_factor_as_u128 = 10 ^ 18"
  by (simp add: percentage_factor_as_u128_def)

lemma u128_max: "unat (x :: u128) \<le> 2 ^ 128 - 1"
  using unat_le_exp [of x] by simp

lemma u128_product_bound: "unat (x :: u128) * unat (y :: u128) \<le> (2 ^ 128 - 1) * (2 ^ 128 - 1)"
  by (intro mult_le_mono u128_max)

lemma unat_u256_product:
  "unat (u256_from x * u256_from y) = unat x * unat y"
proof -
  have "unat x * unat y < 2 ^ 256"
    using u128_product_bound [of x y] by simp
  then show ?thesis
    by (simp add: unat_mult_lem [THEN iffD1] unat_simps)
qed

text \<open>The overflow guard of \<open>percent_mul\<close> never fires: a product of two \<open>u128\<close> values leaves room.\<close>

lemma percent_mul_guard_unreachable:
  assumes "y \<noteq> 0"
  shows "\<not> u256_from x > (- 1 - HALF_PERCENT) div u256_from y"
proof -
  have half: "unat (- 1 - HALF_PERCENT) = 2 ^ 256 - 1 - 5 * 10 ^ 17"
  proof -
    have "HALF_PERCENT \<le> - 1" by simp
    then show ?thesis
      by (simp add: unat_sub unat_max_word unat_HALF_PERCENT)
  qed
  have pos: "unat y > 0"
    using assms by (simp add: unat_gt_0)
  have "unat x * unat y \<le> 2 ^ 256 - 1 - 5 * 10 ^ 17"
    using u128_product_bound [of x y] by simp
  then have "unat x \<le> (2 ^ 256 - 1 - 5 * 10 ^ 17) div unat y"
    using pos by (simp add: less_eq_div_iff_mult_less_eq)
  then show ?thesis
    by (simp add: word_less_nat_alt unat_div half unat_simps not_less)
qed

lemma unat_percent_mul [unat_simps]:
  "unat (percent_mul x y) = min (unat x * unat y div 10 ^ 18) (2 ^ 128 - 1)"
proof (cases "x = 0 \<or> y = 0")
  case True
  then show ?thesis by (auto simp: percent_mul_def)
next
  case False
  let ?r = "u256_from x * u256_from y div PERCENTAGE_FACTOR"
  have r: "unat ?r = unat x * unat y div 10 ^ 18"
    by (simp add: unat_div unat_u256_product unat_simps)
  have m: "unat (- 1 :: u128) = 2 ^ 128 - 1"
    by (simp add: unat_max_word)
  show ?thesis
  proof (cases "unat ?r < 2 ^ 128")
    case True
    then obtain z where z: "u256_try_into_u128 ?r = Some z" "unat z = unat ?r"
      by (auto simp: u256_try_into_u128_def unsigned_ucast_eq take_bit_nat_eq_self)
    from True have "\<not> ?r > u256_from (- 1)"
      by (simp add: word_less_nat_alt unat_u256_from m)
    with False True z percent_mul_guard_unreachable [of y x] show ?thesis
      by (simp add: percent_mul_def Let_def r)
  next
    case big: False
    then have "?r > u256_from (- 1)"
      by (simp add: word_less_nat_alt unat_u256_from m)
    with False big percent_mul_guard_unreachable [of y x] show ?thesis
      by (simp add: percent_mul_def Let_def r m)
  qed
qed

lemma unat_percent_div [unat_simps]:
  "unat (percent_div x y) = min (unat x * 10 ^ 18 div unat y) (2 ^ 128 - 1)"
proof (cases "x = 0 \<or> y = 0")
  case True
  then show ?thesis by (auto simp: percent_div_def)
next
  case False
  let ?r = "u256_from x * PERCENTAGE_FACTOR div u256_from y"
  have "unat x * 10 ^ 18 < 2 ^ 256"
    using u128_max [of x] by simp
  then have r: "unat ?r = unat x * 10 ^ 18 div unat y"
    by (simp add: unat_div unat_mult_lem [THEN iffD1] unat_simps)
  have m: "unat (- 1 :: u128) = 2 ^ 128 - 1"
    by (simp add: unat_max_word)
  show ?thesis
  proof (cases "u256_try_into_u128 ?r")
    case None
    then have "2 ^ 128 \<le> unat ?r"
      by (simp only: u256_try_into_None)
    with False None show ?thesis
      by (simp add: percent_div_def Let_def r m)
  next
    case (Some z)
    then have "unat ?r < 2 ^ 128" and "unat z = unat ?r"
      by (simp_all only: u256_try_into_Some)
    with False Some show ?thesis
      by (simp add: percent_div_def Let_def r)
  qed
qed

lemma checked_mul_div_Some:
  "checked_mul_div x y z = Some w \<longleftrightarrow>
     z \<noteq> 0 \<and> unat x * unat y < 2 ^ 256 \<and> unat w = unat x * unat y div unat z"
proof (cases "checked_mul x y")
  case None
  then show ?thesis
    by (auto simp: checked_mul_div_def checked_mul_def split: if_splits)
next
  case (Some p)
  then have "unat p = unat x * unat y" "unat x * unat y < 2 ^ 256"
    by (auto simp: checked_mul_Some)
  with Some show ?thesis
    by (auto simp: checked_mul_div_def checked_div_Some)
qed

section \<open>Bounds, monotonicity and inversion\<close>

lemma percent_mul_le_nat: "unat (percent_mul x y) \<le> unat x * unat y div 10 ^ 18"
  by (simp add: unat_percent_mul)

lemma percent_mul_le:
  assumes "y \<le> percentage_factor_as_u128"
  shows "percent_mul x y \<le> x"
proof -
  have "unat y \<le> 10 ^ 18"
    using assms by (simp add: word_le_nat_alt unat_percentage_factor)
  then have "unat x * unat y \<le> unat x * 10 ^ 18"
    by (rule mult_le_mono2)
  then have "unat x * unat y div 10 ^ 18 \<le> unat x * 10 ^ 18 div 10 ^ 18"
    by (rule div_le_mono)
  then show ?thesis
    using percent_mul_le_nat [of x y] by (simp add: word_le_nat_alt)
qed

lemma percent_mul_one: "percent_mul x percentage_factor_as_u128 = x"
  using u128_max [of x] by (simp add: word_unat_eq_iff unat_simps)

lemma percent_mul_one_left: "percent_mul percentage_factor_as_u128 x = x"
  using u128_max [of x] by (simp add: word_unat_eq_iff unat_simps)

lemma percent_mul_mono:
  assumes "x \<le> x'" and "y \<le> y'"
  shows "percent_mul x y \<le> percent_mul x' y'"
proof -
  have "unat x * unat y \<le> unat x' * unat y'"
    using assms by (simp add: word_le_nat_alt mult_le_mono)
  then have "unat x * unat y div 10 ^ 18 \<le> unat x' * unat y' div 10 ^ 18"
    by (rule div_le_mono)
  then show ?thesis
    by (simp add: word_le_nat_alt unat_percent_mul)
qed

lemma percent_div_le_one:
  assumes "x \<le> y"
  shows "percent_div x y \<le> percentage_factor_as_u128"
proof -
  have "unat x * 10 ^ 18 div unat y \<le> 10 ^ 18"
  proof (cases "unat y = 0")
    case False
    have "unat x * 10 ^ 18 \<le> unat y * 10 ^ 18"
      using assms by (simp add: word_le_nat_alt)
    then have "unat x * 10 ^ 18 div unat y \<le> unat y * 10 ^ 18 div unat y"
      by (rule div_le_mono)
    with False show ?thesis by simp
  qed simp
  then show ?thesis
    by (simp add: word_le_nat_alt unat_simps)
qed

section \<open>Shares of a total\<close>

lemma sum_list_div_le: "(\<Sum>x\<leftarrow>xs. f x div k) \<le> (\<Sum>x\<leftarrow>xs. f x) div (k :: nat)"
proof (induction xs)
  case (Cons x xs)
  have "f x div k + (\<Sum>x\<leftarrow>xs. f x) div k \<le> (f x + (\<Sum>x\<leftarrow>xs. f x)) div k"
    by (simp add: div_add1_eq [of "f x"])
  with Cons show ?case by simp
qed simp

text \<open>Amounts divided in proportion to parts of a total, rounded down twice, add up to at most the whole.\<close>

lemma percent_shares_bound:
  assumes "(\<Sum>x\<leftarrow>xs. unat (f x)) = unat S"
  shows "(\<Sum>x\<leftarrow>xs. unat (percent_mul (percent_div (f x) S) R)) \<le> unat R"
proof -
  let ?p = "\<lambda>x. unat (f x) * 10 ^ 18 div unat S"
  have "unat (percent_mul (percent_div (f x) S) R) \<le> ?p x * unat R div 10 ^ 18" for x
  proof -
    have "unat (percent_div (f x) S) \<le> ?p x" by (simp add: unat_percent_div)
    then have "unat (percent_div (f x) S) * unat R div 10 ^ 18 \<le> ?p x * unat R div 10 ^ 18"
      by (intro div_le_mono mult_le_mono1)
    with percent_mul_le_nat show ?thesis by (rule order_trans)
  qed
  then have "(\<Sum>x\<leftarrow>xs. unat (percent_mul (percent_div (f x) S) R)) \<le> (\<Sum>x\<leftarrow>xs. ?p x * unat R div 10 ^ 18)"
    by (intro sum_list_mono) simp
  also have "\<dots> \<le> (\<Sum>x\<leftarrow>xs. ?p x * unat R) div 10 ^ 18" by (rule sum_list_div_le)
  also have "(\<Sum>x\<leftarrow>xs. ?p x * unat R) = (\<Sum>x\<leftarrow>xs. ?p x) * unat R" by (rule sum_list_mult_const)
  also have "(\<Sum>x\<leftarrow>xs. ?p x) * unat R div 10 ^ 18 \<le> unat R"
  proof -
    have "(\<Sum>x\<leftarrow>xs. ?p x) \<le> (\<Sum>x\<leftarrow>xs. unat (f x) * 10 ^ 18) div unat S" by (rule sum_list_div_le)
    also have "\<dots> = unat S * 10 ^ 18 div unat S" by (simp only: sum_list_mult_const assms)
    also have "\<dots> \<le> 10 ^ 18" by simp
    finally have "(\<Sum>x\<leftarrow>xs. ?p x) * unat R \<le> 10 ^ 18 * unat R" by (rule mult_le_mono1)
    then have "(\<Sum>x\<leftarrow>xs. ?p x) * unat R div 10 ^ 18 \<le> 10 ^ 18 * unat R div 10 ^ 18" by (rule div_le_mono)
    then show ?thesis by simp
  qed
  finally show ?thesis .
qed

end
