(* ===== verification/Network_Storage.thy ===== *)
theory Network_Storage
  imports Fixed_Point
begin

text \<open>
  The storage of the network pallet (\<open>pallets/network/src/lib.rs\<close>) that the staking
  operations read and write, the errors they return, the parts of the runtime they are
  parametric in, and the small helpers of \<open>utilities/misc.rs\<close> and
  \<open>stake/staking_utils.rs\<close> around them. A storage map with a default value is a total
  function, one without a default is a partial map, and a double map is keyed by pairs.
\<close>

section \<open>Data\<close>

type_synonym bytes = "8 word list"

datatype SubnetState = Registered | Active | SubnetPaused

record SubnetData =
  sd_id :: u32
  sd_friendly_id :: u32
  sd_name :: bytes
  sd_repo :: bytes
  sd_description :: bytes
  sd_misc :: bytes
  sd_state :: SubnetState
  sd_start_epoch :: u32

record DelegateAccount =
  da_account_id :: account_id
  da_rate :: u128

record IdentityData =
  idd_name :: "bytes option"
  idd_url :: "bytes option"
  idd_image :: "bytes option"
  idd_discord :: "bytes option"
  idd_x :: "bytes option"
  idd_telegram :: "bytes option"
  idd_github :: "bytes option"
  idd_hugging_face :: "bytes option"
  idd_description :: "bytes option"
  idd_misc :: "bytes option"

record ValidatorData =
  vd_id :: u32
  vd_hotkey :: account_id
  vd_delegate_reward_rate :: u128
  vd_last_delegate_reward_rate_update :: u32
  vd_delegate_account :: "DelegateAccount option"
  vd_identity :: "IdentityData option"

record OverwatchNode =
  own_id :: u32
  own_hotkey :: account_id

datatype QueuedSwapCall =
    SwapToSubnetDelegateStake account_id u32 u128
  | SwapToValidatorDelegateStake account_id u32 u128

record QueuedSwapItem =
  qs_id :: u32
  qs_call :: QueuedSwapCall
  qs_queued_at_block :: u32
  qs_execute_after_blocks :: u32

fun get_queue_balance :: "QueuedSwapCall \<Rightarrow> u128" where
  "get_queue_balance (SwapToSubnetDelegateStake _ _ balance) = balance"
| "get_queue_balance (SwapToValidatorDelegateStake _ _ balance) = balance"

text \<open>
  The variants of the pallet's error type that the modelled operations return, with the
  \<open>BadOrigin\<close> of an origin check. Those of subnet registration, of the owner's calls, of the
  administration and of overwatch nodes are grouped.
\<close>

datatype (plugins only: code size) SubnetError =
    InvalidAccess | InvalidMultiaddr | TooManyBootnodes | ColdkeyRegistrationWhitelist
  | NotSubnetOwner | SubnetNameExist | MaxSubnetsError | SubnetRepoExist
  | BootnodesEmpty | InvalidBootnodePeerId | InvalidSubnetMinStake
  | InvalidSubnetMaxStake | InvalidSubnetStakeParameters
  | InvalidMinDelegateStakePercentage | InvalidSubnetRegistrationInitialColdkeys
  | CostGreaterThanMaxCost | NotEnoughBalanceToRegisterSubnet
  | SubnetActivatedAlready | MinSubnetRegistrationEpochsNotMet
  | SubnetActivationConditionsNotMetYet

datatype (plugins only: code size) OwnerError =
    SubnetMustBeActive | SubnetPauseCooldownActive | SubnetMustBePaused
  | InvalidMinEmergencySubnetNodes | InvalidMaxEmergencySubnetNodes
  | InvalidChurnLimit | InvalidChurnLimitMultiplier | InvalidRegistrationQueueEpochs
  | InvalidIdleClassificationEpochs | InvalidIncludedClassificationEpochs
  | SubnetMustBeRegistering | InvalidValues | DelegateStakePercentageUpdateTooSoon
  | DelegateStakePercentageAbsDiffTooLarge | InvalidDelegateStakePercentage
  | InvalidMaxRegisteredNodes | NoPendingSubnetOwner | NotPendingSubnetOwner
  | InBootnodeAccessList | MaxSubnetBootnodeAccessError | NotInAccessList
  | InvalidTargetNodeRegistrationsPerEpoch | InvalidPercent
  | MinSubnetNodeReputationError | EmergencyValidatorsSet
  | InvalidAbsentDecreaseReputationFactor | InvalidIncludedIncreaseReputationFactor
  | InvalidBelowMinWeightDecreaseReputationFactor
  | InvalidNonAttestorDecreaseReputationFactor
  | InvalidNonConsensusAttestorDecreaseReputationFactor
  | InvalidNonValidatorAbsentDecreaseReputationFactor
  | InvalidValidatorNonConsensusSubnetNodeReputationFactor

datatype (plugins only: code size) AdminError =
    InvalidMaxSubnets | InvalidMaxBootnodes | InvalidMaxSubnetBootnodeAccess
  | InvalidMaxSubnetPauseEpochs | InvalidSuperMajorityAttestationRatio
  | InvalidMinDelegateStakeDeposit | InvalidOverwatchEpochLengthMultiplier
  | InvalidMinSubnetRegistrationEpochs | InvalidSubnetRegistrationEpochs
  | InvalidDelegateStakeCooldownEpochs | InvalidNodeDelegateStakeCooldownEpochs
  | InvalidStakeCooldownEpochs | InvalidMaxUnbondings | InvalidPerbillPercent
  | InvalidDelegateStakeSubnetRemovalInterval | InvalidValidatorRewardK
  | InvalidAttestorRewardExponent

datatype (plugins only: code size) OverwatchError =
    ColdkeyBlacklisted | NotCommitPeriod | CommitsEmpty | AlreadyCommitted
  | NotRevealPeriod | InvalidWeight | NoCommitFound | RevealMismatch
  | OverwatchEpochIsZero | MaxOverwatchNodesError | ColdkeyNotOverwatchQualified

datatype (plugins only: code size) Error =
    BadOrigin | Paused | InvalidSubnetId | InvalidSubnetNodeId | InvalidValidatorId
  | NotKeyOwner | InvalidAmount | AmountZero | CouldNotConvertToBalance
  | CouldNotConvertToShares | MinStakeNotReached | MaxStakeReached
  | NotEnoughBalanceToStake | NotEnoughBalance | BalanceWithdrawalError
  | TxRateLimitExceeded | NotEnoughStakeToWithdraw | SharesZero
  | MaxUnlockingsReached | NoStakeUnbondingsOrCooldownNotMet
  | MinDelegateStakeDepositNotReached | MinDelegateStake | TransferToSelfNotAllowed
  | SwapQueueFull | SwapCallNotFound | NoAvailableSlots | SubnetIsPaused
  | SubnetMustBeRegisteringOrActivated | MaxRegisteredNodes
  | ValidatorIdNotInWhitelist | MaxQueuedNodes | SubnetNodeUniqueParamTaken
  | MaxBurnAmountExceeded | ElectionSlotInsertFail | BalanceBurnError | InvalidPeerId
  | PeerIdExist | MultiaddrExist | MultiaddrInvalidVarint | MultiaddrInvalidProtocol
  | MultiaddrInvalidAddress | MultiaddrTruncated | InvalidValidator
  | SubnetEpochDataIsNone | NoElectedValidator | SubnetRewardsAlreadySubmitted
  | ScoreOverflow | InvalidSubnetNodeClassification
  | InvalidSubnetConsensusSubmission | AlreadyAttested | InvalidHotkeySubnetNodeId
  | ColdkeyMatchesHotkey | HotkeyHasOwner | InvalidDelegateRewardRate
  | MaxRewardRateUpdates | NoDelegateRewardRateChange
  | SurpassesMaxRewardRateDecrease | InvalidDelegateAccountParameters
  | DelegateAccountIdIsNone | DelegateAccountRateIsNone
  | DelegateAccountCannotBeHotkey | DelegateAccountCannotBeColdkey
  | InvalidDelegateAccountRate | ElectedValidatorCannotRemove
  | InvalidOverwatchNodeId | UniqueParameterTaken | SubnetErr SubnetError
  | OwnerErr OwnerError | AdminErr AdminError | OverwatchErr OverwatchError

section \<open>The runtime around the pallet\<close>

text \<open>
  The currency is the balances pallet of the framework: its state and operations are
  parameters. \<open>withdraw\<close> stands for \<open>Currency::withdraw\<close> with every reason but a tip and
  with \<open>KeepAlive\<close>, the only way the pallet calls it; \<open>None\<close> is its error.
\<close>

record 'c Currency =
  free_balance :: "'c \<Rightarrow> account_id \<Rightarrow> u128"
  minimum_balance :: u128
  total_issuance :: "'c \<Rightarrow> u128"
  ensure_can_withdraw :: "'c \<Rightarrow> account_id \<Rightarrow> u128 \<Rightarrow> u128 \<Rightarrow> bool"
  withdraw :: "'c \<Rightarrow> account_id \<Rightarrow> u128 \<Rightarrow> 'c option"
  deposit_creating :: "'c \<Rightarrow> account_id \<Rightarrow> u128 \<Rightarrow> 'c"

text \<open>The pallet's configuration: the currency and the constants the staking code reads.\<close>

record 'c Config =
  Cur :: "'c Currency"
  EpochLength :: u32
  DesignatedEpochSlots :: u32
  MaxSwapQueueLength :: nat

datatype RuntimeOrigin = Root | Signed account_id | Unsigned

definition ensure_signed :: "RuntimeOrigin \<Rightarrow> Error + account_id" where
  "ensure_signed origin = (case origin of Signed who \<Rightarrow> Inr who | _ \<Rightarrow> Inl BadOrigin)"

section \<open>Storage\<close>

text \<open>
  The storage is declared group by group, as the source does, each group extending the
  one before; \<open>network\<close> is the whole.
\<close>

record 'c network_system =
  block_number :: u32
  balances :: 'c
  TxPause :: bool
  TxRateLimit :: u32
  LastTxBlock :: "account_id \<Rightarrow> u32"

record 'c network_registry = "'c network_system" +
  SubnetsData :: "u32 \<rightharpoonup> SubnetData"
  ValidatorsData :: "u32 \<rightharpoonup> ValidatorData"
  ValidatorColdkey :: "u32 \<rightharpoonup> account_id"
  SubnetNodeValidatorId :: "u32 \<times> u32 \<rightharpoonup> u32"
  ValidatorSubnetNodes :: "u32 \<Rightarrow> (u32, u32 list) btree_map"
  SubnetNodeReputation :: "u32 \<times> u32 \<rightharpoonup> u128"

record 'c network_stake = "'c network_registry" +
  SubnetMinStakeBalance :: "u32 \<Rightarrow> u128"
  SubnetMaxStakeBalance :: "u32 \<Rightarrow> u128"
  NodeSubnetStake :: "u32 \<times> u32 \<Rightarrow> u128"
  TotalSubnetStake :: "u32 \<Rightarrow> u128"
  TotalStake :: u128

record 'c network_unbonding = "'c network_stake" +
  StakeCooldownEpochs :: u32
  StakeUnbondingLedger :: "account_id \<Rightarrow> (u32, u128) btree_map"
  TotalUnbondingBalance :: u128
  MaxUnbondings :: u32
  DelegateAccountStake :: "account_id \<Rightarrow> u128"
  TotalAccountDelegateStake :: u128

record 'c network_overwatch = "'c network_unbonding" +
  OverwatchNodes :: "u32 \<rightharpoonup> OverwatchNode"
  OverwatchNodeValidatorId :: "u32 \<rightharpoonup> u32"
  OverwatchNodeStakeBalance :: "u32 \<Rightarrow> u128"
  TotalOverwatchNodeStakeBalance :: u128
  OverwatchMinStakeBalance :: u128

record 'c network_delegate = "'c network_overwatch" +
  DelegateStakeCooldownEpochs :: u32
  MinDelegateStakeDeposit :: u128
  AccountSubnetDelegateStakeShares :: "account_id \<times> u32 \<Rightarrow> u128"
  TotalSubnetDelegateStakeShares :: "u32 \<Rightarrow> u128"
  TotalSubnetDelegateStakeBalance :: "u32 \<Rightarrow> u128"
  TotalDelegateStake :: u128
  SubnetNetFlow :: "u32 \<Rightarrow> i128"

record 'c network_validator = "'c network_delegate" +
  AccountValidatorDelegateStakeShares :: "account_id \<times> u32 \<Rightarrow> u128"
  ValidatorDelegateStakeShares :: "u32 \<Rightarrow> u128"
  ValidatorDelegateStakeBalance :: "u32 \<Rightarrow> u128"
  TotalValidatorDelegateStakeBalance :: u128
  TotalNodeDelegateStake :: u128

record 'c network = "'c network_validator" +
  SwapQueueOrder :: "u32 list"
  SwapCallQueue :: "u32 \<rightharpoonup> QueuedSwapItem"
  NextSwapQueueId :: u32
  MaxSwapQueueCallsPerBlock :: u32

text \<open>
  A fallible operation returns the storage it leaves behind together with its result: a
  write made before an error is still there. Only a dispatched call is transactional: the
  framework restores the storage when the call returns an error.
\<close>

type_synonym ('s, 'a) outcome = "'s \<times> (Error + 'a)"

definition dispatch :: "('s \<Rightarrow> ('s, 'a) outcome) \<Rightarrow> 's \<Rightarrow> ('s, 'a) outcome" where
  "dispatch call s = (case call s of (s', Inl e) \<Rightarrow> (s, Inl e) | (s', Inr a) \<Rightarrow> (s', Inr a))"

lemma dispatch_Inl: "dispatch call s = (s', Inl e) \<Longrightarrow> s' = s"
  by (auto simp: dispatch_def split: prod.splits sum.splits)

lemma dispatch_Inr: "dispatch call s = (s', Inr a) \<longleftrightarrow> call s = (s', Inr a)"
  by (auto simp: dispatch_def split: prod.splits sum.splits)

section \<open>Blocks, rate limit and pause\<close>

definition get_current_block_as_u32 :: "('c, 'm) network_scheme \<Rightarrow> u32" where
  "get_current_block_as_u32 s = block_number s"

definition get_tx_rate_limit :: "('c, 'm) network_scheme \<Rightarrow> u32" where
  "get_tx_rate_limit s = TxRateLimit s"

definition set_last_tx_block ::
  "account_id \<Rightarrow> u32 \<Rightarrow> ('c, 'm) network_scheme \<Rightarrow> ('c, 'm) network_scheme" where
  "set_last_tx_block key block s = s\<lparr>LastTxBlock := (LastTxBlock s)(key := block)\<rparr>"

definition get_last_tx_block :: "account_id \<Rightarrow> ('c, 'm) network_scheme \<Rightarrow> u32" where
  "get_last_tx_block key s = LastTxBlock s key"

definition exceeds_tx_rate_limit :: "u32 \<Rightarrow> u32 \<Rightarrow> ('c, 'm) network_scheme \<Rightarrow> bool" where
  "exceeds_tx_rate_limit prev_tx_block current_block s =
     (let rate_limit = get_tx_rate_limit s in
      if rate_limit = 0 \<or> prev_tx_block = 0 then False
      else current_block - prev_tx_block \<le> rate_limit)"

definition is_paused :: "('c, 'm) network_scheme \<Rightarrow> Error + unit" where
  "is_paused s = (if TxPause s then Inl Paused else Inr ())"

definition subnet_exists :: "u32 \<Rightarrow> ('c, 'm) network_scheme \<Rightarrow> bool" where
  "subnet_exists subnet_id s = (case SubnetsData s subnet_id of Some _ \<Rightarrow> True | None \<Rightarrow> False)"

section \<open>Coldkey balances\<close>

text \<open>The runtime's balance type is \<open>u128\<close>, so the conversion always succeeds.\<close>

definition u128_to_balance :: "u128 \<Rightarrow> u128 option" where
  "u128_to_balance input = Some input"

definition get_coldkey_balance ::
  "'c Config \<Rightarrow> account_id \<Rightarrow> ('c, 'm) network_scheme \<Rightarrow> u128" where
  "get_coldkey_balance cfg coldkey s = free_balance (Cur cfg) (balances s) coldkey"

definition can_remove_balance_from_coldkey_account ::
  "'c Config \<Rightarrow> account_id \<Rightarrow> u128 \<Rightarrow> ('c, 'm) network_scheme \<Rightarrow> bool" where
  "can_remove_balance_from_coldkey_account cfg coldkey amount s =
     (let current_balance = get_coldkey_balance cfg coldkey s in
      if amount > current_balance then False
      else ensure_can_withdraw (Cur cfg) (balances s) coldkey amount (current_balance - amount))"

definition remove_balance_from_coldkey_account ::
  "'c Config \<Rightarrow> account_id \<Rightarrow> u128 \<Rightarrow> ('c, 'm) network_scheme \<Rightarrow> ('c, 'm) network_scheme \<times> bool"
where
  "remove_balance_from_coldkey_account cfg coldkey amount s =
     (case withdraw (Cur cfg) (balances s) coldkey amount of
        Some c \<Rightarrow> (s\<lparr>balances := c\<rparr>, True)
      | None \<Rightarrow> (s, False))"

definition add_balance_to_coldkey_account ::
  "'c Config \<Rightarrow> account_id \<Rightarrow> u128 \<Rightarrow> ('c, 'm) network_scheme \<Rightarrow> ('c, 'm) network_scheme" where
  "add_balance_to_coldkey_account cfg coldkey amount s =
     s\<lparr>balances := deposit_creating (Cur cfg) (balances s) coldkey amount\<rparr>"

lemma ensure_signed_Inr: "ensure_signed origin = Inr who \<longleftrightarrow> origin = Signed who"
  by (cases origin) (auto simp: ensure_signed_def)

lemma remove_balance_True:
  "remove_balance_from_coldkey_account cfg who a s = (s', True) \<longleftrightarrow>
     (\<exists>c. withdraw (Cur cfg) (balances s) who a = Some c \<and> s' = s\<lparr>balances := c\<rparr>)"
  by (auto simp: remove_balance_from_coldkey_account_def split: option.splits)

lemmas call_splits = sum.splits option.splits if_splits prod.splits

section \<open>What is relied on of the currency\<close>

text \<open>
  The documented behaviour of the currency, on its well-formed states: a withdrawal takes
  the amount from the account and from the total issuance; a deposit adds it to both, or
  does nothing (a deposit below the existential deposit to a dead account, or one that
  would overflow).
\<close>

definition currency_laws :: "'c Currency \<Rightarrow> ('c \<Rightarrow> bool) \<Rightarrow> bool" where
  "currency_laws C ok \<longleftrightarrow>
     (\<forall>c who a c'. ok c \<longrightarrow> withdraw C c who a = Some c' \<longrightarrow>
        ok c' \<and> a \<le> free_balance C c who \<and>
        free_balance C c' = (free_balance C c)(who := free_balance C c who - a) \<and>
        unat (total_issuance C c') + unat a = unat (total_issuance C c)) \<and>
     (\<forall>c who a. ok c \<longrightarrow>
        ok (deposit_creating C c who a) \<and>
        (deposit_creating C c who a = c \<or>
         free_balance C (deposit_creating C c who a) =
           (free_balance C c)(who := free_balance C c who + a) \<and>
         unat (total_issuance C (deposit_creating C c who a)) =
           unat (total_issuance C c) + unat a))"

lemma withdraw_laws:
  assumes "currency_laws C ok" and "ok c" and "withdraw C c who a = Some c'"
  shows "ok c'" and "a \<le> free_balance C c who"
    and "free_balance C c' = (free_balance C c)(who := free_balance C c who - a)"
    and "unat (total_issuance C c') + unat a = unat (total_issuance C c)"
  using assms by (auto simp: currency_laws_def)

lemma deposit_laws:
  assumes "currency_laws C ok" and "ok c"
  shows "ok (deposit_creating C c who a)"
    and "unat (total_issuance C (deposit_creating C c who a)) \<le> unat (total_issuance C c) + unat a"
    and "unat (total_issuance C c) \<le> unat (total_issuance C (deposit_creating C c who a))"
proof -
  let ?d = "deposit_creating C c who a"
  have "ok ?d \<and> (?d = c \<or> unat (total_issuance C ?d) = unat (total_issuance C c) + unat a)"
    using assms unfolding currency_laws_def by blast
  then show "ok ?d" and "unat (total_issuance C ?d) \<le> unat (total_issuance C c) + unat a"
    and "unat (total_issuance C c) \<le> unat (total_issuance C ?d)"
    by (elim conjE disjE; simp)+
qed

text \<open>
  A concrete currency with these laws, for evaluating the model: the balance of every account
  beside the issuance, with no existential deposit.
\<close>

type_synonym simple_balances = "(account_id \<Rightarrow> u128) \<times> u128"

definition simple_currency :: "simple_balances Currency" where
  "simple_currency =
     \<lparr>free_balance = fst,
      minimum_balance = 1,
      total_issuance = snd,
      ensure_can_withdraw = (\<lambda>c who a new_balance. True),
      withdraw = (\<lambda>c who a.
        if a \<le> fst c who then Some ((fst c)(who := fst c who - a), snd c - a) else None),
      deposit_creating = (\<lambda>c who a.
        if unat (snd c) + unat a < 2 ^ 128 then ((fst c)(who := fst c who + a), snd c + a) else c)\<rparr>"

definition simple_ok :: "simple_balances \<Rightarrow> bool" where
  "simple_ok c \<longleftrightarrow> total (fst c) = unat (snd c)"

lemma simple_currency_simps [simp]:
  "free_balance simple_currency = fst"
  "minimum_balance simple_currency = 1"
  "total_issuance simple_currency = snd"
  "ensure_can_withdraw simple_currency c who a b"
  "withdraw simple_currency c who a =
     (if a \<le> fst c who then Some ((fst c)(who := fst c who - a), snd c - a) else None)"
  "deposit_creating simple_currency c who a =
     (if unat (snd c) + unat a < 2 ^ 128 then ((fst c)(who := fst c who + a), snd c + a) else c)"
  by (simp_all add: simple_currency_def)

lemma simple_currency_laws: "currency_laws simple_currency simple_ok"
proof -
  have w: "simple_ok ((fst c)(who := fst c who - a), snd c - a) \<and>
      unat (snd c - a) + unat a = unat (snd c)"
    if "simple_ok c" and "a \<le> fst c who" for c who a
  proof -
    have u: "unat (fst c who - a) + unat a = unat (fst c who)"
      using that(2) by (simp add: unat_sub word_le_nat_alt)
    have "unat a \<le> unat (snd c)"
      using that total_ge [of "fst c" who] by (simp add: simple_ok_def word_le_nat_alt)
    then have "unat (snd c - a) + unat a = unat (snd c)"
      by (simp add: unat_sub word_le_nat_alt)
    with total_sub [of _ _ "fst c" who, OF u] that(1) show ?thesis by (simp add: simple_ok_def)
  qed
  have d: "simple_ok ((fst c)(who := fst c who + a), snd c + a) \<and>
      unat (snd c + a) = unat (snd c) + unat a"
    if "simple_ok c" and "unat (snd c) + unat a < 2 ^ 128" for c who a
  proof -
    have "unat (fst c who) \<le> unat (snd c)"
      using that(1) total_ge [of "fst c" who] by (simp add: simple_ok_def)
    then have u: "unat (fst c who + a) = unat (fst c who) + unat a"
      using that(2) by (simp add: unat_add_lem [THEN iffD1])
    have "unat (snd c + a) = unat (snd c) + unat a"
      using that(2) by (simp add: unat_add_lem [THEN iffD1])
    with total_add [of _ "fst c" who, OF u] that(1) show ?thesis by (simp add: simple_ok_def)
  qed
  from w d show ?thesis by (auto simp: currency_laws_def)
qed

end
