(* ===== verification/Share_Math.thy ===== *)
theory Share_Math
  imports Network_Storage
begin

text \<open>
  Vault arithmetic of \<open>stake/staking_utils.rs\<close>: converting a balance to shares of a
  pool and back, with the virtual offset of ten shares against one unit of balance. The
  lemmas are what the staking pools rest on: rounding always favours the pool, so no
  conversion pays out more than the pool holds and the price of a share never falls.
\<close>

section \<open>The conversions\<close>

definition MIN_LIQUIDITY :: u128 where
  "MIN_LIQUIDITY = 1000"

definition convert_to_shares :: "u128 \<Rightarrow> u128 \<Rightarrow> u128 \<Rightarrow> u128" where
  "convert_to_shares balance total_shares total_balance =
     (if total_shares = 0 then balance
      else
        let balance = u256_from balance;
            total_shares = u256_from total_shares + u256_from 10;
            total_balance = u256_from total_balance + 1
        in case Option.bind (checked_mul_div balance total_shares total_balance) u256_try_into_u128
           of Some res \<Rightarrow> res | None \<Rightarrow> - 1)"

definition convert_to_balance :: "u128 \<Rightarrow> u128 \<Rightarrow> u128 \<Rightarrow> u128" where
  "convert_to_balance shares total_shares total_balance =
     (if total_shares = 0 then shares
      else
        let shares = u256_from shares;
            total_balance = u256_from total_balance + 1;
            total_shares = u256_from total_shares + u256_from 10
        in case Option.bind (checked_mul_div shares total_balance total_shares) u256_try_into_u128
           of Some res \<Rightarrow> res | None \<Rightarrow> - 1)"

section \<open>What they compute\<close>

lemma unat_u256_plus_10 [unat_simps]: "unat (u256_from x + u256_from 10) = unat x + 10"
proof -
  have "unat x + 10 < 2 ^ 256"
    using u128_max [of x] by simp
  then show ?thesis
    by (simp add: unat_add_lem [THEN iffD1] unat_simps)
qed

lemma unat_u256_plus_1 [unat_simps]: "unat (u256_from x + 1) = unat x + 1"
proof -
  have "unat x + 1 < 2 ^ 256"
    using u128_max [of x] by simp
  then show ?thesis
    by (simp add: unat_add_lem [THEN iffD1] unat_simps)
qed

text \<open>
  Both routes end in the same capped quotient. An overflowing product can only come with a
  divisor of at most \<open>2\<^sup>1\<^sup>2\<^sup>8\<close>, and then the quotient is over the cap as well.
\<close>

lemma checked_mul_div_exact:
  assumes "unat x * unat y < 2 ^ 256" and "z \<noteq> 0"
  obtains w where "checked_mul_div x y z = Some w" and "unat w = unat x * unat y div unat z"
proof -
  have "checked_mul_div x y z = Some (x * y div z)"
    using assms by (simp add: checked_mul_div_def checked_mul_def checked_div_def)
  moreover have "unat (x * y div z) = unat x * unat y div unat z"
    using assms by (simp add: unat_div unat_mult_lem [THEN iffD1])
  ultimately show thesis by (rule that)
qed

lemma capped_mul_div:
  fixes x y z :: u256
  assumes "z \<noteq> 0" and "unat x * unat y < 2 ^ 256 \<or> unat z \<le> 2 ^ 128"
  shows "unat (case Option.bind (checked_mul_div x y z) u256_try_into_u128
                of Some res \<Rightarrow> res | None \<Rightarrow> - 1) =
         min (unat x * unat y div unat z) (2 ^ 128 - 1)"
proof (cases "unat x * unat y < 2 ^ 256")
  case True
  then obtain w where w: "checked_mul_div x y z = Some w" "unat w = unat x * unat y div unat z"
    using assms(1) by (rule checked_mul_div_exact)
  show ?thesis
  proof (cases "u256_try_into_u128 w")
    case None
    then have "2 ^ 128 \<le> unat w" by (simp only: u256_try_into_None)
    with None w show ?thesis by (simp add: unat_max_word)
  next
    case (Some r)
    then have "unat w < 2 ^ 128" and "unat r = unat w" by (simp_all only: u256_try_into_Some)
    with Some w show ?thesis by simp
  qed
next
  case False
  then have None: "checked_mul_div x y z = None"
    using assms(1) by (simp add: checked_mul_div_def checked_mul_def)
  have z: "0 < unat z" "unat z \<le> 2 ^ 128"
    using assms False by (auto simp: unat_gt_0)
  have "2 ^ 128 * unat z \<le> 2 ^ 128 * 2 ^ 128"
    using z(2) by (rule mult_le_mono2)
  also have "\<dots> \<le> unat x * unat y"
    using False by simp
  finally have "2 ^ 128 \<le> unat x * unat y div unat z"
    using z(1) by (simp add: less_eq_div_iff_mult_less_eq)
  with None show ?thesis by (simp add: unat_max_word)
qed

lemma unat_convert_to_shares [unat_simps]:
  assumes "total_shares \<noteq> 0"
  shows "unat (convert_to_shares balance total_shares total_balance) =
         min (unat balance * (unat total_shares + 10) div (unat total_balance + 1)) (2 ^ 128 - 1)"
proof -
  have "unat (u256_from total_balance + 1) \<le> 2 ^ 128"
    using u128_max [of total_balance] by (simp add: unat_simps)
  moreover have "u256_from total_balance + 1 \<noteq> 0"
    by (metis unat_0 unat_u256_plus_1 add_is_0 one_neq_zero)
  ultimately show ?thesis
    using assms by (simp add: convert_to_shares_def Let_def capped_mul_div unat_simps)
qed

lemma unat_convert_to_balance [unat_simps]:
  assumes "total_shares \<noteq> 0"
  shows "unat (convert_to_balance shares total_shares total_balance) =
         min (unat shares * (unat total_balance + 1) div (unat total_shares + 10)) (2 ^ 128 - 1)"
proof -
  have "unat shares * (unat total_balance + 1) \<le> (2 ^ 128 - 1) * 2 ^ 128"
    using u128_max [of shares] u128_max [of total_balance] by (intro mult_le_mono) simp_all
  then have "unat (u256_from shares) * unat (u256_from total_balance + 1) < 2 ^ 256"
    by (simp add: unat_simps)
  moreover have "u256_from total_shares + u256_from 10 \<noteq> 0"
    by (metis unat_0 unat_u256_plus_10 add_is_0 zero_neq_numeral)
  ultimately show ?thesis
    using assms by (simp add: convert_to_balance_def Let_def capped_mul_div unat_simps)
qed

section \<open>Rounding favours the pool\<close>

lemma convert_to_shares_le:
  assumes "total_shares \<noteq> 0"
  shows "unat (convert_to_shares balance total_shares total_balance) * (unat total_balance + 1)
         \<le> unat balance * (unat total_shares + 10)"
proof -
  let ?q = "unat balance * (unat total_shares + 10) div (unat total_balance + 1)"
  have "unat (convert_to_shares balance total_shares total_balance) \<le> ?q"
    using assms by (simp add: unat_convert_to_shares)
  then have "unat (convert_to_shares balance total_shares total_balance) * (unat total_balance + 1)
      \<le> ?q * (unat total_balance + 1)"
    by (rule mult_le_mono1)
  also have "\<dots> \<le> unat balance * (unat total_shares + 10)"
    by (rule div_times_less_eq_dividend)
  finally show ?thesis .
qed

lemma convert_to_balance_le:
  assumes "total_shares \<noteq> 0"
  shows "unat (convert_to_balance shares total_shares total_balance) * (unat total_shares + 10)
         \<le> unat shares * (unat total_balance + 1)"
proof -
  let ?q = "unat shares * (unat total_balance + 1) div (unat total_shares + 10)"
  have "unat (convert_to_balance shares total_shares total_balance) \<le> ?q"
    using assms by (simp add: unat_convert_to_balance)
  then have "unat (convert_to_balance shares total_shares total_balance) * (unat total_shares + 10)
      \<le> ?q * (unat total_shares + 10)"
    by (rule mult_le_mono1)
  also have "\<dots> \<le> unat shares * (unat total_balance + 1)"
    by (rule div_times_less_eq_dividend)
  finally show ?thesis .
qed

text \<open>A holder of at most all shares redeems at most the balance of the pool.\<close>

lemma convert_to_balance_solvent:
  assumes "shares \<le> total_shares" and "total_shares \<noteq> 0"
  shows "convert_to_balance shares total_shares total_balance \<le> total_balance"
proof -
  let ?w = "unat (convert_to_balance shares total_shares total_balance)"
  have "?w * (unat total_shares + 10) \<le> unat shares * (unat total_balance + 1)"
    using assms(2) by (rule convert_to_balance_le)
  also have "\<dots> \<le> unat total_shares * (unat total_balance + 1)"
    using assms(1) by (intro mult_le_mono1) (simp add: word_le_nat_alt)
  also have "\<dots> < (unat total_balance + 1) * (unat total_shares + 10)"
    by (simp add: algebra_simps)
  finally have "?w < unat total_balance + 1"
    by (rule mult_less_cancel2 [THEN iffD1, THEN conjunct2])
  then show ?thesis
    by (simp add: word_le_nat_alt)
qed

end
