(* ===== verification/Stake_Interfaces.thy ===== *)
theory Stake_Interfaces
  imports Share_Math
begin

text \<open>
  The two contracts the staking code is built on, stated as interfaces and reasoned about
  once. A book keeps one balance per key beside a recorded total; a share pool lets
  accounts hold shares of a common balance. Each staking component provides its own
  storage maps and update functions for one or both.
\<close>

section \<open>Books: balances with a recorded total\<close>

locale book =
  fixes entry :: "'s \<Rightarrow> 'k::finite \<Rightarrow> u128"
    and recorded :: "'s \<Rightarrow> u128"
begin

definition balanced :: "'s \<Rightarrow> bool" where
  "balanced s \<longleftrightarrow> unat (recorded s) = total (entry s)"

lemma entry_le_recorded: "balanced s \<Longrightarrow> entry s k \<le> recorded s"
  using total_ge [of "entry s" k] by (simp add: balanced_def word_le_nat_alt)

end

locale credit_book = book entry recorded
  for entry :: "'s \<Rightarrow> 'k::finite \<Rightarrow> u128" and recorded :: "'s \<Rightarrow> u128" +
  fixes credit :: "'k \<Rightarrow> u128 \<Rightarrow> 's \<Rightarrow> 's"
  assumes entry_credit: "entry (credit k a s) = (entry s)(k := saturating_add (entry s k) a)"
    and recorded_credit: "recorded (credit k a s) = saturating_add (recorded s) a"
begin

lemma credit_exact:
  assumes "unat (recorded s) + unat a < 2 ^ 128"
  shows "unat (recorded (credit k a s)) = unat (recorded s) + unat a"
  using assms by (simp add: recorded_credit unat_saturating_add)

lemma credit_balanced:
  assumes "balanced s" and "unat (recorded s) + unat a < 2 ^ 128"
  shows "balanced (credit k a s)"
proof -
  have "unat (entry s k) \<le> unat (recorded s)"
    using entry_le_recorded [OF assms(1), of k] by (simp add: word_le_nat_alt)
  then have "unat (saturating_add (entry s k) a) = unat (entry s k) + unat a"
    using assms(2) by (simp add: unat_saturating_add)
  then have "total (entry (credit k a s)) = total (entry s) + unat a"
    by (simp add: entry_credit total_add)
  then show ?thesis
    using assms by (simp add: balanced_def credit_exact)
qed

lemma credit_entry_other: "k' \<noteq> k \<Longrightarrow> entry (credit k a s) k' = entry s k'"
  by (simp add: entry_credit)

end

locale debit_book = book entry recorded
  for entry :: "'s \<Rightarrow> 'k::finite \<Rightarrow> u128" and recorded :: "'s \<Rightarrow> u128" +
  fixes debit :: "'k \<Rightarrow> u128 \<Rightarrow> 's \<Rightarrow> 's"
  assumes entry_debit: "entry (debit k a s) = (entry s)(k := saturating_sub (entry s k) a)"
    and recorded_debit: "recorded (debit k a s) = saturating_sub (recorded s) a"
begin

lemma debit_exact:
  assumes "balanced s" and "a \<le> entry s k"
  shows "unat (recorded (debit k a s)) + unat a = unat (recorded s)"
proof -
  have "a \<le> recorded s"
    using assms entry_le_recorded [OF assms(1), of k] by (rule_tac order_trans)
  then show ?thesis
    by (simp add: recorded_debit unat_saturating_sub word_le_nat_alt)
qed

lemma debit_balanced:
  assumes "balanced s" and "a \<le> entry s k"
  shows "balanced (debit k a s)"
proof -
  have "unat (saturating_sub (entry s k) a) + unat a = unat (entry s k)"
    using assms(2) by (simp add: unat_saturating_sub word_le_nat_alt)
  then have "total (entry (debit k a s)) + unat a = total (entry s)"
    by (simp add: entry_debit total_sub)
  then show ?thesis
    using assms(1) debit_exact [OF assms] by (simp add: balanced_def)
qed

lemma debit_entry_other: "k' \<noteq> k \<Longrightarrow> entry (debit k a s) k' = entry s k'"
  by (simp add: entry_debit)

end

locale stake_book = credit_book entry recorded credit + debit_book entry recorded debit
  for entry :: "'s \<Rightarrow> 'k::finite \<Rightarrow> u128" and recorded :: "'s \<Rightarrow> u128"
    and credit :: "'k \<Rightarrow> u128 \<Rightarrow> 's \<Rightarrow> 's" and debit :: "'k \<Rightarrow> u128 \<Rightarrow> 's \<Rightarrow> 's"
begin

lemma debit_credit_entry:
  assumes "balanced s" and "unat (recorded s) + unat a < 2 ^ 128"
  shows "entry (debit k a (credit k a s)) = entry s"
proof -
  have "unat (entry s k) \<le> unat (recorded s)"
    using entry_le_recorded [OF assms(1), of k] by (simp add: word_le_nat_alt)
  then have "saturating_sub (saturating_add (entry s k) a) a = entry s k"
    using assms(2) by (simp add: word_unat_eq_iff unat_saturating_sub unat_saturating_add)
  then show ?thesis
    by (simp add: entry_debit entry_credit)
qed

end

section \<open>Arithmetic of a share price\<close>

text \<open>
  A pool with \<open>S\<close> shares and balance \<open>A\<close> issues \<open>n\<close> shares for \<open>a\<close>, or redeems \<open>n\<close> shares for
  \<open>w\<close>; the hypotheses are the rounding directions of the two conversions.
\<close>

lemma price_after_issue:
  fixes S A n a :: nat
  assumes "n * (A + 1) \<le> a * (S + 10)"
  shows "(A + 1) * (S + n + 10) \<le> (A + a + 1) * (S + 10)"
  using assms by (simp add: algebra_simps)

lemma price_after_redeem:
  fixes S A n w :: nat
  assumes "w * (S + 10) \<le> n * (A + 1)" and "w \<le> A" and "n \<le> S"
  shows "(A + 1) * (S - n + 10) \<le> (A - w + 1) * (S + 10)"
proof -
  obtain A' S' where "A = A' + w" and "S = S' + n"
    using assms(2,3) by (metis le_iff_add add.commute)
  with assms(1) show ?thesis by (simp add: algebra_simps)
qed

lemma bound_after_price:
  fixes S A S' A' K :: nat
  assumes "S + 10 \<le> K * (A + 1)" and "(A + 1) * (S' + 10) \<le> (A' + 1) * (S + 10)"
  shows "S' + 10 \<le> K * (A' + 1)"
proof -
  have "(A + 1) * (S' + 10) \<le> (A' + 1) * (K * (A + 1))"
    using assms(2) mult_le_mono2 [OF assms(1)] by (rule order_trans)
  then have "(A + 1) * (S' + 10) \<le> (A + 1) * (K * (A' + 1))"
    by (simp add: algebra_simps)
  then show ?thesis by (rule mult_le_cancel1 [THEN iffD1, rule_format]) simp
qed

lemma div_mono_cross:
  fixes x y x' y' :: nat
  assumes "x * y' \<le> x' * y" and "0 < y" and "0 < y'"
  shows "x div y \<le> x' div y'"
proof -
  have "x div y * y' * y = x div y * y * y'" by simp
  also have "\<dots> \<le> x * y'" by (rule mult_le_mono1) (rule div_times_less_eq_dividend)
  also note assms(1)
  finally have "x div y * y' \<le> x'" using assms(2) by simp
  then show ?thesis using assms(3) by (simp add: less_eq_div_iff_mult_less_eq)
qed

section \<open>Share pools\<close>

locale share_pool =
  fixes held :: "'s \<Rightarrow> account_id \<Rightarrow> u128"
    and issued :: "'s \<Rightarrow> u128"
    and assets :: "'s \<Rightarrow> u128"
    and issue :: "account_id \<Rightarrow> u128 \<Rightarrow> u128 \<Rightarrow> 's \<Rightarrow> 's"
    and redeem :: "account_id \<Rightarrow> u128 \<Rightarrow> u128 \<Rightarrow> 's \<Rightarrow> 's"
    and seed :: "'s \<Rightarrow> 's"
    and reward :: "u128 \<Rightarrow> 's \<Rightarrow> 's"
  assumes held_issue: "held (issue who a n s) = (held s)(who := saturating_add (held s who) n)"
    and issued_issue: "issued (issue who a n s) = saturating_add (issued s) n"
    and assets_issue: "assets (issue who a n s) = saturating_add (assets s) a"
    and held_redeem: "held (redeem who a n s) = (held s)(who := saturating_sub (held s who) n)"
    and issued_redeem: "issued (redeem who a n s) = saturating_sub (issued s) n"
    and assets_redeem: "assets (redeem who a n s) = saturating_sub (assets s) a"
    and held_seed: "held (seed s) = held s"
    and issued_seed: "issued (seed s) = saturating_add (issued s) MIN_LIQUIDITY"
    and assets_seed: "assets (seed s) = assets s"
    and held_reward: "held (reward a s) = held s"
    and issued_reward:
      "issued (reward a s) =
         (if assets s = 0 \<or> issued s = 0 then saturating_add (issued s) MIN_LIQUIDITY else issued s)"
    and assets_reward: "assets (reward a s) = saturating_add (assets s) a"
begin

lemmas pool_laws = held_issue issued_issue assets_issue held_redeem issued_redeem assets_redeem
  held_seed issued_seed assets_seed held_reward issued_reward assets_reward

text \<open>
  What a pool keeps: the shares the accounts hold, with the thousand dead shares once the pool
  has been opened, never exceed the issued shares, and a share is never worth less than about a
  thousandth of a unit, which bounds the issued shares by the balance.
\<close>

definition pool_ok :: "'s \<Rightarrow> bool" where
  "pool_ok s \<longleftrightarrow>
     total (held s) + (if issued s = 0 then 0 else 1000) \<le> unat (issued s) \<and>
     unat (issued s) + 10 \<le> 1010 * (unat (assets s) + 1)"

text \<open>The price of a share, with the virtual offset, has not fallen from \<open>s\<close> to \<open>s'\<close>.\<close>

definition price_le :: "'s \<Rightarrow> 's \<Rightarrow> bool" where
  "price_le s s' \<longleftrightarrow>
     (unat (assets s) + 1) * (unat (issued s') + 10) \<le> (unat (assets s') + 1) * (unat (issued s) + 10)"

text \<open>What an account would be paid for all its shares.\<close>

definition worth :: "'s \<Rightarrow> account_id \<Rightarrow> u128" where
  "worth s who = convert_to_balance (held s who) (issued s) (assets s)"

definition deposit :: "account_id \<Rightarrow> u128 \<Rightarrow> 's \<Rightarrow> 's" where
  "deposit who a s =
     issue who a (convert_to_shares a (issued s) (assets s)) (if issued s = 0 then seed s else s)"

lemma pool_ok_bound: "pool_ok s \<Longrightarrow> unat (issued s) + 10 \<le> 1010 * (unat (assets s) + 1)"
  by (simp only: pool_ok_def)

lemma price_keeps_bound:
  assumes "pool_ok s" and "price_le s s'"
  shows "unat (issued s') + 10 \<le> 1010 * (unat (assets s') + 1)"
  using pool_ok_bound [OF assms(1)] assms(2) [unfolded price_le_def] by (rule bound_after_price)

lemma pool_okI:
  assumes "total (held s) + (if issued s = 0 then 0 else 1000) \<le> unat (issued s)"
    and "unat (issued s) + 10 \<le> 1010 * (unat (assets s) + 1)"
  shows "pool_ok s"
  using assms by (simp add: pool_ok_def)

lemma held_le_issued: "pool_ok s \<Longrightarrow> held s who \<le> issued s"
  using total_ge [of "held s" who] by (auto simp: pool_ok_def word_le_nat_alt split: if_splits)

lemma worth_le_assets:
  assumes "pool_ok s"
  shows "worth s who \<le> assets s"
proof (cases "issued s = 0")
  case True
  then have "held s who = 0"
    using held_le_issued [OF assms, of who] by simp
  with True show ?thesis
    by (simp add: worth_def convert_to_balance_def)
next
  case False
  then show ?thesis
    unfolding worth_def using held_le_issued [OF assms] by (intro convert_to_balance_solvent)
qed

subsection \<open>Depositing\<close>

lemma deposit_opening:
  assumes "issued s = 0" and "unat a + 1000 < 2 ^ 128"
  shows "unat (issued (deposit who a s)) = unat a + 1000"
    and "held (deposit who a s) = (held s)(who := saturating_add (held s who) a)"
  using assms
  by (simp_all add: deposit_def convert_to_shares_def pool_laws unat_saturating_add MIN_LIQUIDITY_def)

lemma deposit_open:
  assumes "issued s \<noteq> 0"
  shows "deposit who a s = issue who a (convert_to_shares a (issued s) (assets s)) s"
  using assms by (simp add: deposit_def)

lemma assets_deposit:
  assumes "unat (assets s) + unat a < 2 ^ 128"
  shows "unat (assets (deposit who a s)) = unat (assets s) + unat a"
  using assms by (simp add: deposit_def pool_laws unat_saturating_add)

lemma deposit_no_overflow:
  assumes "pool_ok s" and "issued s \<noteq> 0" and "1010 * (unat (assets s) + unat a + 1) < 2 ^ 128"
  shows "unat (issued (deposit who a s)) =
           unat (issued s) + unat (convert_to_shares a (issued s) (assets s))"
    and "(unat (assets s) + 1) * (unat (issued (deposit who a s)) + 10)
           \<le> (unat (assets s) + unat a + 1) * (unat (issued s) + 10)"
proof -
  let ?n = "unat (convert_to_shares a (issued s) (assets s))"
  have p: "(unat (assets s) + 1) * (unat (issued s) + ?n + 10)
      \<le> (unat (assets s) + unat a + 1) * (unat (issued s) + 10)"
    by (rule price_after_issue) (rule convert_to_shares_le [OF assms(2)])
  have "unat (issued s) + ?n + 10 \<le> 1010 * (unat (assets s) + unat a + 1)"
    using pool_ok_bound [OF assms(1)] p by (rule bound_after_price)
  with assms(3) show e: "unat (issued (deposit who a s)) = unat (issued s) + ?n"
    by (simp add: deposit_open [OF assms(2)] pool_laws unat_saturating_add)
  show "(unat (assets s) + 1) * (unat (issued (deposit who a s)) + 10)
           \<le> (unat (assets s) + unat a + 1) * (unat (issued s) + 10)"
    using p by (simp add: e)
qed

lemma deposit_price:
  assumes "pool_ok s" and "issued s \<noteq> 0" and "1010 * (unat (assets s) + unat a + 1) < 2 ^ 128"
  shows "price_le s (deposit who a s)"
  using deposit_no_overflow(2) [OF assms, of who] assms(3)
  by (simp add: price_le_def assets_deposit)

lemma deposit_pool_ok:
  assumes "pool_ok s" and "1010 * (unat (assets s) + unat a + 1) < 2 ^ 128"
  shows "pool_ok (deposit who a s)"
proof (cases "issued s = 0")
  case True
  then have "total (held s) = 0" using assms(1) by (simp add: pool_ok_def)
  then have "held s who = 0" using total_ge [of "held s" who] by (simp add: unat_eq_zero)
  then have "total (held (deposit who a s)) = unat a"
    using assms(2) True \<open>total (held s) = 0\<close> by (simp add: deposit_opening(2) total_add unat_saturating_add)
  with True assms(2) show ?thesis
    by (auto simp: pool_ok_def deposit_opening(1) assets_deposit)
next
  case False
  let ?n = "convert_to_shares a (issued s) (assets s)"
  note e = deposit_no_overflow(1) [OF assms(1) False assms(2), of who]
  have "unat (held s who) \<le> unat (issued s)"
    using held_le_issued [OF assms(1)] by (simp add: word_le_nat_alt)
  then have "unat (saturating_add (held s who) ?n) = unat (held s who) + unat ?n"
    using e u128_max [of "issued (deposit who a s)"] by (simp add: unat_saturating_add)
  then have "total (held (deposit who a s)) = total (held s) + unat ?n"
    by (simp add: deposit_open [OF False] pool_laws total_add)
  moreover have "unat (issued (deposit who a s)) + 10 \<le> 1010 * (unat (assets (deposit who a s)) + 1)"
    using assms(1) deposit_price [OF assms(1) False assms(2)] by (rule price_keeps_bound)
  ultimately show ?thesis
    using assms(1) False e by (intro pool_okI) (auto simp: pool_ok_def)
qed

subsection \<open>Redeeming\<close>

lemma redeem_solvent:
  assumes "pool_ok s" and "n \<le> held s who"
  shows "convert_to_balance n (issued s) (assets s) \<le> assets s"
proof (cases "issued s = 0")
  case True
  then show ?thesis
    using assms held_le_issued [OF assms(1), of who] by (simp add: convert_to_balance_def)
next
  case False
  moreover have "n \<le> issued s"
    using assms(2) held_le_issued [OF assms(1), of who] by (rule order_trans)
  ultimately show ?thesis by (intro convert_to_balance_solvent)
qed

lemma redeem_exact:
  assumes "pool_ok s" and "n \<le> held s who" and "w = convert_to_balance n (issued s) (assets s)"
  shows "unat (assets (redeem who w n s)) + unat w = unat (assets s)"
    and "unat (issued (redeem who w n s)) + unat n = unat (issued s)"
    and "total (held (redeem who w n s)) + unat n = total (held s)"
proof -
  have "unat w \<le> unat (assets s)"
    using redeem_solvent [OF assms(1,2)] assms(3) by (simp add: word_le_nat_alt)
  then show "unat (assets (redeem who w n s)) + unat w = unat (assets s)"
    by (simp add: pool_laws unat_saturating_sub)
  have "unat n \<le> unat (issued s)"
    using assms(2) held_le_issued [OF assms(1), of who] by (simp add: word_le_nat_alt)
  then show "unat (issued (redeem who w n s)) + unat n = unat (issued s)"
    by (simp add: pool_laws unat_saturating_sub)
  have "unat (saturating_sub (held s who) n) + unat n = unat (held s who)"
    using assms(2) by (simp add: unat_saturating_sub word_le_nat_alt)
  then show "total (held (redeem who w n s)) + unat n = total (held s)"
    by (simp add: pool_laws total_sub)
qed

lemma redeem_price:
  assumes "pool_ok s" and "n \<le> held s who" and "w = convert_to_balance n (issued s) (assets s)"
  shows "price_le s (redeem who w n s)"
proof -
  note e = redeem_exact [OF assms]
  have a: "unat (assets (redeem who w n s)) = unat (assets s) - unat w"
    and i: "unat (issued (redeem who w n s)) = unat (issued s) - unat n"
    using e(1,2) by simp_all
  have "unat w * (unat (issued s) + 10) \<le> unat n * (unat (assets s) + 1)"
  proof (cases "issued s = 0")
    case True
    then have "n = 0" using e(2) by (simp add: unat_eq_zero)
    with True assms(3) show ?thesis by (simp add: convert_to_balance_def)
  next
    case False
    then show ?thesis unfolding assms(3) by (rule convert_to_balance_le)
  qed
  then show ?thesis
    unfolding price_le_def a i by (rule price_after_redeem) (use e in simp_all)
qed

lemma redeem_pool_ok:
  assumes "pool_ok s" and "n \<le> held s who" and "w = convert_to_balance n (issued s) (assets s)"
  shows "pool_ok (redeem who w n s)"
proof -
  note e = redeem_exact [OF assms]
  have "unat (issued (redeem who w n s)) + 10 \<le> 1010 * (unat (assets (redeem who w n s)) + 1)"
    using assms(1) redeem_price [OF assms] by (rule price_keeps_bound)
  moreover have "total (held (redeem who w n s)) + (if issued (redeem who w n s) = 0 then 0 else 1000)
      \<le> unat (issued (redeem who w n s))"
    using assms(1) e by (auto simp: pool_ok_def unat_eq_zero split: if_splits)
  ultimately show ?thesis by (rule pool_okI [rotated])
qed

subsection \<open>Transferring\<close>

text \<open>Shares move from one account to another when the first one holds them.\<close>

lemma transfer_exact:
  assumes "pool_ok s" and "n \<le> held s who"
  shows "issued (issue to 0 n (redeem who 0 n s)) = issued s"
    and "assets (issue to 0 n (redeem who 0 n s)) = assets s"
    and "total (held (issue to 0 n (redeem who 0 n s))) = total (held s)"
proof -
  have n: "unat n \<le> unat (held s who)" "unat (held s who) \<le> unat (issued s)"
    using assms held_le_issued [OF assms(1), of who] by (simp_all add: word_le_nat_alt)
  then show "issued (issue to 0 n (redeem who 0 n s)) = issued s"
    using u128_max [of "issued s"]
    by (simp add: pool_laws word_unat_eq_iff unat_saturating_add unat_saturating_sub)
  show "assets (issue to 0 n (redeem who 0 n s)) = assets s"
    using u128_max [of "assets s"]
    by (simp add: pool_laws word_unat_eq_iff unat_saturating_add unat_saturating_sub)
  let ?h = "held (redeem who 0 n s)"
  have "unat (saturating_sub (held s who) n) + unat n = unat (held s who)"
    using n by (simp add: unat_saturating_sub)
  then have h: "total ?h + unat n = total (held s)"
    by (simp add: held_redeem total_sub)
  moreover have "total (held s) \<le> unat (issued s)"
    using assms(1) by (simp add: pool_ok_def split: if_splits)
  ultimately have "unat (?h to) + unat n < 2 ^ 128"
    using total_ge [of ?h to] u128_max [of "issued s"] by simp
  then have "unat (saturating_add (?h to) n) = unat (?h to) + unat n"
    by (simp add: unat_saturating_add)
  then have "total (held (issue to 0 n (redeem who 0 n s))) = total ?h + unat n"
    by (simp add: held_issue total_add)
  with h show "total (held (issue to 0 n (redeem who 0 n s))) = total (held s)" by simp
qed

lemma transfer_pool_ok:
  assumes "pool_ok s" and "n \<le> held s who"
  shows "pool_ok (issue to 0 n (redeem who 0 n s))"
  using assms(1) transfer_exact [OF assms, of to] by (simp add: pool_ok_def)

subsection \<open>Rewarding, and what a holder keeps\<close>

lemma reward_pool_ok:
  assumes "pool_ok s" and "a \<noteq> 0" and "1010 * (unat (assets s) + unat a + 1) < 2 ^ 128"
  shows "pool_ok (reward a s)"
proof -
  have pos: "1 \<le> unat a" using assms(2) by (simp add: Suc_le_eq unat_gt_0)
  have A: "unat (assets (reward a s)) = unat (assets s) + unat a"
    using assms(3) by (simp add: pool_laws unat_saturating_add)
  have S: "unat (issued (reward a s)) =
      (if assets s = 0 \<or> issued s = 0 then unat (issued s) + 1000 else unat (issued s))"
    using assms(1,3) pos
    by (auto simp: pool_laws unat_saturating_add MIN_LIQUIDITY_def pool_ok_def unat_eq_zero)
  have "unat (issued (reward a s)) + 10 \<le> 1010 * (unat (assets (reward a s)) + 1)"
    using assms(1) pos by (auto simp: A S pool_ok_def)
  moreover have "total (held (reward a s)) + (if issued (reward a s) = 0 then 0 else 1000)
      \<le> unat (issued (reward a s))"
    using assms(1) S by (auto simp: held_reward pool_ok_def split: if_splits)
  ultimately show ?thesis by (rule pool_okI [rotated])
qed

lemma reward_price:
  assumes "pool_ok s" and "issued s \<noteq> 0" and "a \<noteq> 0"
    and "1010 * (unat (assets s) + unat a + 1) < 2 ^ 128"
  shows "price_le s (reward a s)"
proof -
  have pos: "1 \<le> unat a" using assms(3) by (simp add: Suc_le_eq unat_gt_0)
  have S: "1000 \<le> unat (issued s)" "unat (issued s) \<le> 1010 * unat (assets s) + 1000"
    using assms(1,2) by (simp_all add: pool_ok_def)
  have A: "unat (assets (reward a s)) = unat (assets s) + unat a"
    using assms(4) by (simp add: pool_laws unat_saturating_add)
  show ?thesis
  proof (cases "assets s = 0")
    case True
    then have "unat (issued (reward a s)) = unat (issued s) + 1000"
      using S by (simp add: pool_laws unat_saturating_add MIN_LIQUIDITY_def)
    moreover have "1 * (unat (issued s) + 10) \<le> unat a * (unat (issued s) + 10)"
      using pos by (rule mult_le_mono1)
    ultimately show ?thesis
      using True S A by (simp add: price_le_def algebra_simps)
  next
    case False
    then show ?thesis
      using assms(2) A by (simp add: price_le_def issued_reward)
  qed
qed

text \<open>While the price does not fall, the worth of an untouched holding does not fall either.\<close>

lemma worth_mono:
  assumes "price_le s s'" and "held s' who = held s who" and "issued s \<noteq> 0" and "issued s' \<noteq> 0"
  shows "worth s who \<le> worth s' who"
proof -
  have "(unat (held s who) * (unat (assets s) + 1)) * (unat (issued s') + 10)
      \<le> (unat (held s who) * (unat (assets s') + 1)) * (unat (issued s) + 10)"
    using mult_le_mono2 [OF assms(1) [unfolded price_le_def], of "unat (held s who)"]
    by (simp only: mult.assoc)
  then have "unat (held s who) * (unat (assets s) + 1) div (unat (issued s) + 10)
      \<le> unat (held s who) * (unat (assets s') + 1) div (unat (issued s') + 10)"
    by (rule div_mono_cross) simp_all
  then show ?thesis
    using assms(2-4) by (simp add: worth_def word_le_nat_alt unat_convert_to_balance)
qed

text \<open>No profit from depositing and redeeming at once.\<close>

lemma deposit_redeem_le:
  assumes "pool_ok s" and "issued s \<noteq> 0" and "1010 * (unat (assets s) + unat a + 1) < 2 ^ 128"
  shows "convert_to_balance (convert_to_shares a (issued s) (assets s))
           (issued (deposit who a s)) (assets (deposit who a s)) \<le> a"
proof -
  let ?n = "unat (convert_to_shares a (issued s) (assets s))"
  have i: "unat (issued (deposit who a s)) = unat (issued s) + ?n"
    by (rule deposit_no_overflow(1) [OF assms])
  then have ne: "issued (deposit who a s) \<noteq> 0"
    using assms(2) by (auto simp flip: unat_eq_zero)
  have "?n * (unat (assets s) + 1) \<le> unat a * (unat (issued s) + 10)"
    by (rule convert_to_shares_le [OF assms(2)])
  then have "?n * (unat (assets s) + unat a + 1) \<le> unat a * (unat (issued s) + ?n + 10)"
    by (simp add: algebra_simps)
  then have "?n * (unat (assets s) + unat a + 1) div (unat (issued s) + ?n + 10)
      \<le> unat a * (unat (issued s) + ?n + 10) div (unat (issued s) + ?n + 10)"
    by (rule div_le_mono)
  then show ?thesis
    using assms(3)
    by (simp add: word_le_nat_alt unat_convert_to_balance [OF ne] i assets_deposit)
qed

end

end
