(* ===== verification/Unbonding.thy ===== *)
theory Unbonding
  imports Stake_Interfaces
begin

text \<open>
  The unbonding ledger of \<open>stake/staking_utils.rs\<close>: withdrawn stake is owed to its
  account until a claim block, the amounts of one block are merged, and the number of
  entries of an account is bounded. The lemmas say that a claim pays exactly the matured
  entries, that the recorded total is the sum of what is owed, and that no step of the
  ledger creates money.
\<close>

section \<open>The operations\<close>

fun claim_loop ::
  "'c Config \<Rightarrow> account_id \<Rightarrow> u32 \<Rightarrow> (u32 \<times> u128) list \<Rightarrow>
   (u32, u128) btree_map \<Rightarrow> u32 \<Rightarrow> ('c, 'm) network_scheme \<Rightarrow>
   ('c, 'm) network_scheme \<times> (u32, u128) btree_map \<times> u32"
where
  "claim_loop cfg coldkey block [] unbondings_copy successful_unbondings s =
     (s, unbondings_copy, successful_unbondings)"
| "claim_loop cfg coldkey block ((unbonding_block, amount) # entries) unbondings_copy
     successful_unbondings s =
     (if block < unbonding_block then
        claim_loop cfg coldkey block entries unbondings_copy successful_unbondings s
      else case u128_to_balance amount of
        None \<Rightarrow>
          claim_loop cfg coldkey block entries (btree_remove unbonding_block unbondings_copy)
            successful_unbondings s
      | Some stake_to_be_added_as_currency \<Rightarrow>
          let s = add_balance_to_coldkey_account cfg coldkey stake_to_be_added_as_currency s;
              s = s\<lparr>TotalUnbondingBalance := saturating_sub (TotalUnbondingBalance s) amount\<rparr>
          in claim_loop cfg coldkey block entries (btree_remove unbonding_block unbondings_copy)
               (successful_unbondings + 1) s)"

definition do_claim_unbondings ::
  "'c Config \<Rightarrow> account_id \<Rightarrow> ('c, 'm) network_scheme \<Rightarrow> ('c, 'm) network_scheme \<times> u32"
where
  "do_claim_unbondings cfg coldkey s =
     (let block = get_current_block_as_u32 s;
          unbondings = StakeUnbondingLedger s coldkey;
          (s', unbondings_copy, successful_unbondings) =
            claim_loop cfg coldkey block unbondings unbondings 0 s
      in (if length unbondings \<noteq> length unbondings_copy
          then s'\<lparr>StakeUnbondingLedger := (StakeUnbondingLedger s')(coldkey := unbondings_copy)\<rparr>
          else s',
          successful_unbondings))"

definition prepare_unbonding_ledger_entry ::
  "'c Config \<Rightarrow> account_id \<Rightarrow> u128 \<Rightarrow> u32 \<Rightarrow> u32 \<Rightarrow> ('c, 'm) network_scheme \<Rightarrow>
   (('c, 'm) network_scheme, unit) outcome"
where
  "prepare_unbonding_ledger_entry cfg coldkey amount cooldown_blocks block s =
     (let claim_block = saturating_add block cooldown_blocks;
          max_unbondings = MaxUnbondings s;
          unbondings = StakeUnbondingLedger s coldkey
      in if btree_contains_key unbondings claim_block then (s, Inr ())
         else
           let s' = (if max_unbondings \<le> (of_nat (length unbondings) :: u32)
                     then fst (do_claim_unbondings cfg coldkey s) else s);
               unbondings = StakeUnbondingLedger s' coldkey
           in if btree_contains_key unbondings claim_block
                 \<or> (of_nat (length unbondings) :: u32) < max_unbondings
              then (s', Inr ())
              else (s', Inl MaxUnlockingsReached))"

definition insert_balance_to_unbonding_ledger ::
  "account_id \<Rightarrow> u128 \<Rightarrow> u32 \<Rightarrow> u32 \<Rightarrow> ('c, 'm) network_scheme \<Rightarrow> ('c, 'm) network_scheme"
where
  "insert_balance_to_unbonding_ledger coldkey amount cooldown_blocks block s =
     (let claim_block = saturating_add block cooldown_blocks;
          ledger = StakeUnbondingLedger s coldkey;
          ledger = (case map_of ledger claim_block of
                      Some v \<Rightarrow> btree_insert claim_block (saturating_add v amount) ledger
                    | None \<Rightarrow> btree_insert claim_block amount ledger)
      in s\<lparr>StakeUnbondingLedger := (StakeUnbondingLedger s)(coldkey := ledger),
           TotalUnbondingBalance := saturating_add (TotalUnbondingBalance s) amount\<rparr>)"

definition add_balance_to_unbonding_ledger ::
  "'c Config \<Rightarrow> account_id \<Rightarrow> u128 \<Rightarrow> u32 \<Rightarrow> u32 \<Rightarrow> ('c, 'm) network_scheme \<Rightarrow>
   (('c, 'm) network_scheme, unit) outcome"
where
  "add_balance_to_unbonding_ledger cfg coldkey amount cooldown_blocks block s =
     (case prepare_unbonding_ledger_entry cfg coldkey amount cooldown_blocks block s of
        (s', Inl e) \<Rightarrow> (s', Inl e)
      | (s', Inr _) \<Rightarrow>
          (insert_balance_to_unbonding_ledger coldkey amount cooldown_blocks block s', Inr ()))"

section \<open>A claim pays the matured entries\<close>

definition matured :: "u32 \<Rightarrow> (u32, u128) btree_map \<Rightarrow> (u32, u128) btree_map" where
  "matured block = filter (\<lambda>e. fst e \<le> block)"

definition unmatured :: "u32 \<Rightarrow> (u32, u128) btree_map \<Rightarrow> (u32, u128) btree_map" where
  "unmatured block = filter (\<lambda>e. block < fst e)"

text \<open>Crediting one amount to the currency, and the recorded total after paying a list.\<close>

definition pay ::
  "'c Config \<Rightarrow> account_id \<Rightarrow> (u32, u128) btree_map \<Rightarrow> 'c \<Rightarrow> 'c" where
  "pay cfg who = fold (\<lambda>e c. deposit_creating (Cur cfg) c who (snd e))"

definition release :: "(u32, u128) btree_map \<Rightarrow> u128 \<Rightarrow> u128" where
  "release = fold (\<lambda>e t. saturating_sub t (snd e))"

lemma claim_loop_eq:
  "claim_loop cfg who block es copy n s =
     (s\<lparr>balances := pay cfg who (matured block es) (balances s),
        TotalUnbondingBalance := release (matured block es) (TotalUnbondingBalance s)\<rparr>,
      filter (\<lambda>e. fst e \<notin> fst ` set (matured block es)) copy,
      n + of_nat (length (matured block es)))"
proof (induction cfg who block es copy n s rule: claim_loop.induct)
  case (2 cfg who block b a es copy n s)
  show ?case
  proof (cases "block < b")
    case True
    with 2(1) show ?thesis by (simp add: matured_def)
  next
    case False
    then have "b \<le> block" by simp
    moreover have "filter (\<lambda>e. fst e \<notin> K) (btree_remove b copy)
        = filter (\<lambda>e. fst e \<noteq> b \<and> fst e \<notin> K) copy" for K
      by (auto simp: btree_remove_def conj_commute)
    ultimately show ?thesis
      using 2(3) False
      by (simp add: matured_def pay_def release_def u128_to_balance_def Let_def
          add_balance_to_coldkey_account_def)
  qed
qed (simp add: matured_def pay_def release_def)

lemma not_matured_keys: "filter (\<lambda>e. fst e \<notin> fst ` set (matured block es)) es = unmatured block es"
  unfolding unmatured_def by (rule filter_cong) (auto simp: matured_def not_le)

lemma length_unmatured_eq: "length (unmatured block es) = length es \<Longrightarrow> unmatured block es = es"
  unfolding unmatured_def filter_id_conv by (metis length_filter_less less_irrefl)

lemma do_claim_unbondings_eq:
  "do_claim_unbondings cfg who s =
     (let block = block_number s; ledger = StakeUnbondingLedger s who
      in (s\<lparr>balances := pay cfg who (matured block ledger) (balances s),
            StakeUnbondingLedger := (StakeUnbondingLedger s)(who := unmatured block ledger),
            TotalUnbondingBalance := release (matured block ledger) (TotalUnbondingBalance s)\<rparr>,
          of_nat (length (matured block ledger))))"
  using length_unmatured_eq [of "block_number s" "StakeUnbondingLedger s who"]
  by (auto simp: do_claim_unbondings_def claim_loop_eq not_matured_keys Let_def
      get_current_block_as_u32_def)

section \<open>The ledger balances\<close>

definition owed :: "('c, 'm) network_scheme \<Rightarrow> nat" where
  "owed s = (\<Sum>a\<in>UNIV. btree_total (StakeUnbondingLedger s a))"

definition unbonding_ok :: "('c, 'm) network_scheme \<Rightarrow> bool" where
  "unbonding_ok s \<longleftrightarrow>
     (\<forall>a. btree_ok (StakeUnbondingLedger s a)) \<and> unat (TotalUnbondingBalance s) = owed s"

lemma ledger_sum_upd:
  "(\<Sum>a\<in>UNIV. btree_total ((l(who := m)) a)) + btree_total (l who)
     = (\<Sum>a\<in>UNIV. btree_total (l a)) + btree_total m"
  for l :: "account_id \<Rightarrow> (u32, u128) btree_map"
proof -
  have "(\<lambda>a. btree_total ((l(who := m)) a)) = (\<lambda>a. btree_total (l a))(who := btree_total m)"
    by auto
  then show ?thesis
    using sum_upd [of "\<lambda>a. btree_total (l a)" who "btree_total m"] by (simp only:)
qed

lemma owed_upd:
  "owed (s\<lparr>StakeUnbondingLedger := (StakeUnbondingLedger s)(who := l)\<rparr>)
     + btree_total (StakeUnbondingLedger s who) = owed s + btree_total l"
  using ledger_sum_upd [of "StakeUnbondingLedger s" who l] by (simp add: owed_def)

lemma owed_cong [simp]:
  "owed (s\<lparr>balances := c\<rparr>) = owed s"
  "owed (s\<lparr>TotalUnbondingBalance := t\<rparr>) = owed s"
  by (simp_all add: owed_def)

lemma owed_ge: "btree_total (StakeUnbondingLedger s who) \<le> owed s"
  unfolding owed_def by (rule member_le_sum) auto

lemma release_exact:
  "btree_total es \<le> unat t \<Longrightarrow> unat (release es t) + btree_total es = unat t"
proof (induction es arbitrary: t)
  case (Cons e es)
  then have "unat (release es (saturating_sub t (snd e))) + btree_total es
      = unat (saturating_sub t (snd e))"
    by (cases e) (simp add: unat_saturating_sub)
  with Cons.prems show ?case
    by (cases e) (simp add: release_def unat_saturating_sub)
qed (simp add: release_def)

lemma pay_laws:
  assumes "currency_laws (Cur cfg) ok" and "ok c"
  shows "ok (pay cfg who es c)"
    and "unat (total_issuance (Cur cfg) (pay cfg who es c))
           \<le> unat (total_issuance (Cur cfg) c) + btree_total es"
proof -
  have "ok (pay cfg who es c) \<and> unat (total_issuance (Cur cfg) (pay cfg who es c))
           \<le> unat (total_issuance (Cur cfg) c) + btree_total es"
    using assms(2)
  proof (induction es arbitrary: c)
    case (Cons e es)
    let ?c = "deposit_creating (Cur cfg) c who (snd e)"
    have "ok ?c" and le: "unat (total_issuance (Cur cfg) ?c)
        \<le> unat (total_issuance (Cur cfg) c) + unat (snd e)"
      using deposit_laws [OF assms(1) Cons.prems] by auto
    with Cons.IH [of ?c] show ?case
      by (cases e) (simp add: pay_def)
  qed (simp add: pay_def)
  then show "ok (pay cfg who es c)" and "unat (total_issuance (Cur cfg) (pay cfg who es c))
           \<le> unat (total_issuance (Cur cfg) c) + btree_total es"
    by simp_all
qed

lemma matured_total: "btree_total (matured b l) + btree_total (unmatured b l) = btree_total l"
  using btree_total_filter [of "\<lambda>e. fst e \<le> b" l]
  by (simp add: matured_def unmatured_def not_le)

lemma btree_ok_unmatured: "btree_ok l \<Longrightarrow> btree_ok (unmatured b l)"
proof (induction l)
  case (Cons e l)
  then show ?case by (cases e) (auto simp: btree_ok_Cons unmatured_def)
qed (simp add: unmatured_def)

lemma claim_owed:
  assumes "unbonding_ok s"
  shows "unbonding_ok (fst (do_claim_unbondings cfg who s))"
    and "owed (fst (do_claim_unbondings cfg who s))
           + btree_total (matured (block_number s) (StakeUnbondingLedger s who)) = owed s"
proof -
  let ?l = "StakeUnbondingLedger s who" and ?b = "block_number s"
  let ?s = "s\<lparr>StakeUnbondingLedger := (StakeUnbondingLedger s)(who := unmatured ?b ?l)\<rparr>"
  have o: "owed ?s + btree_total (matured ?b ?l) = owed s"
    using owed_upd [of s who "unmatured ?b ?l"] matured_total [of ?b ?l] by linarith
  have "owed (fst (do_claim_unbondings cfg who s)) = owed ?s"
    by (simp add: do_claim_unbondings_eq Let_def owed_def)
  with o show e: "owed (fst (do_claim_unbondings cfg who s)) + btree_total (matured ?b ?l) = owed s"
    by simp
  have "btree_total (matured ?b ?l) \<le> unat (TotalUnbondingBalance s)"
    using o assms by (simp add: unbonding_ok_def)
  then have "unat (release (matured ?b ?l) (TotalUnbondingBalance s)) + btree_total (matured ?b ?l)
      = unat (TotalUnbondingBalance s)"
    by (rule release_exact)
  with e assms show "unbonding_ok (fst (do_claim_unbondings cfg who s))"
    by (auto simp: unbonding_ok_def do_claim_unbondings_eq Let_def btree_ok_unmatured)
qed

lemma prepare_state:
  assumes "prepare_unbonding_ledger_entry cfg who a cooldown block s = (s', r)"
  shows "s' = s \<or> s' = fst (do_claim_unbondings cfg who s)"
  using assms by (auto simp: prepare_unbonding_ledger_entry_def Let_def split: if_splits)

lemma insert_owed:
  assumes "unbonding_ok s" and "unat (TotalUnbondingBalance s) + unat a < 2 ^ 128"
  shows "unbonding_ok (insert_balance_to_unbonding_ledger who a cooldown block s)"
    and "owed (insert_balance_to_unbonding_ledger who a cooldown block s) = owed s + unat a"
proof -
  let ?b = "saturating_add block cooldown" and ?l = "StakeUnbondingLedger s who"
  define l' where "l' = (case map_of ?l ?b of
      Some v \<Rightarrow> btree_insert ?b (saturating_add v a) ?l | None \<Rightarrow> btree_insert ?b a ?l)"
  have ok: "btree_ok ?l" using assms(1) by (simp add: unbonding_ok_def)
  have le: "btree_total ?l + unat a < 2 ^ 128"
    using assms owed_ge [of s who] by (simp add: unbonding_ok_def)
  have t: "btree_total l' = btree_total ?l + unat a"
  proof (cases "map_of ?l ?b")
    case None
    then have "?b \<notin> fst ` set ?l" by (rule map_of_eq_None_iff [THEN iffD1])
    with None show ?thesis
      unfolding l'_def by (simp add: btree_total_insert_new del: map_of_eq_None_iff)
  next
    case (Some v)
    then have "unat (saturating_add v a) = unat v + unat a"
      using le btree_total_ge [OF Some] by (simp add: unat_saturating_add)
    with btree_total_insert_old [OF ok Some, of "saturating_add v a"] Some show ?thesis
      unfolding l'_def by simp
  qed
  have e: "insert_balance_to_unbonding_ledger who a cooldown block s =
      s\<lparr>StakeUnbondingLedger := (StakeUnbondingLedger s)(who := l'),
        TotalUnbondingBalance := saturating_add (TotalUnbondingBalance s) a\<rparr>"
    by (simp add: insert_balance_to_unbonding_ledger_def l'_def Let_def)
  show o: "owed (insert_balance_to_unbonding_ledger who a cooldown block s) = owed s + unat a"
    using owed_upd [of s who l'] t by (simp add: e)
  have "btree_ok l'"
    using ok by (simp add: l'_def btree_ok_insert split: option.splits)
  with assms o show "unbonding_ok (insert_balance_to_unbonding_ledger who a cooldown block s)"
    by (auto simp: unbonding_ok_def e unat_saturating_add)
qed

section \<open>The number of entries stays bounded\<close>

lemma length_btree_insert:
  assumes "btree_ok m"
  shows "length (btree_insert k v m) = (if btree_contains_key m k then length m else Suc (length m))"
proof -
  have "length m' = card (fst ` set m')" if "btree_ok m'" for m' :: "('a::linorder \<times> 'b) list"
    using btree_ok_distinct [OF that] distinct_card by fastforce
  with assms btree_ok_insert [OF assms] show ?thesis
    by (simp add: btree_insert_keys btree_contains_key_def insert_absorb)
qed

lemma length_filter_mono: "length (unmatured b l) \<le> length l"
  by (simp add: unmatured_def)

lemma add_balance_entries:
  assumes "add_balance_to_unbonding_ledger cfg who a cooldown block s = (s', Inr ())"
    and "unbonding_ok s" and "length (StakeUnbondingLedger s who) \<le> unat (MaxUnbondings s)"
  shows "length (StakeUnbondingLedger s' who) \<le> unat (MaxUnbondings s)"
proof -
  let ?b = "saturating_add block cooldown"
  obtain s1 where p: "prepare_unbonding_ledger_entry cfg who a cooldown block s = (s1, Inr ())"
    and s': "s' = insert_balance_to_unbonding_ledger who a cooldown block s1"
    using assms(1)
    by (auto simp: add_balance_to_unbonding_ledger_def split: prod.splits sum.splits)
  let ?l = "StakeUnbondingLedger s1 who"
  have "s1 = s \<or> s1 = fst (do_claim_unbondings cfg who s)"
    using p by (rule prepare_state)
  then have ok: "btree_ok ?l" and len: "length ?l \<le> unat (MaxUnbondings s)"
    using assms(2,3) length_filter_mono [of "block_number s" "StakeUnbondingLedger s who"]
    by (auto simp: unbonding_ok_def do_claim_unbondings_eq Let_def btree_ok_unmatured)
  have room: "btree_contains_key ?l ?b \<or> (of_nat (length ?l) :: u32) < MaxUnbondings s"
    using p by (auto simp: prepare_unbonding_ledger_entry_def Let_def split: if_splits)
  have "length ?l < 2 ^ 32"
    using len unat_lt_exp [of "MaxUnbondings s"] by simp
  then have "unat (of_nat (length ?l) :: u32) = length ?l"
    by (simp add: unat_of_nat)
  with room have "btree_contains_key ?l ?b \<or> length ?l < unat (MaxUnbondings s)"
    by (simp add: word_less_nat_alt)
  then have "(if btree_contains_key ?l ?b then length ?l else Suc (length ?l))
      \<le> unat (MaxUnbondings s)"
    using len by auto
  moreover have "length (StakeUnbondingLedger s' who)
      = (if btree_contains_key ?l ?b then length ?l else Suc (length ?l))"
    using ok
    by (simp add: s' insert_balance_to_unbonding_ledger_def Let_def length_btree_insert
        split: option.split)
  ultimately show ?thesis by simp
qed

section \<open>The ledger as an interface\<close>

text \<open>
  What a staking component relies on: preparing an entry may pay matured entries out but
  creates no money, inserting an amount adds it to what is owed.
\<close>

locale payout_ledger =
  fixes valid :: "'s \<Rightarrow> bool"
    and liability :: "'s \<Rightarrow> nat"
    and cash :: "'s \<Rightarrow> nat"
    and prepare :: "account_id \<Rightarrow> 's \<Rightarrow> ('s, unit) outcome"
    and enter :: "account_id \<Rightarrow> u128 \<Rightarrow> 's \<Rightarrow> 's"
  assumes prepare_valid: "valid s \<Longrightarrow> prepare who s = (s', r) \<Longrightarrow> valid s'"
    and prepare_value: "valid s \<Longrightarrow> prepare who s = (s', r) \<Longrightarrow> liability s' + cash s' \<le> liability s + cash s"
    and prepare_liability: "valid s \<Longrightarrow> prepare who s = (s', r) \<Longrightarrow> liability s' \<le> liability s"
    and enter_valid: "valid s \<Longrightarrow> liability s + unat a < 2 ^ 128 \<Longrightarrow> valid (enter who a s)"
    and enter_liability:
      "valid s \<Longrightarrow> liability s + unat a < 2 ^ 128 \<Longrightarrow> liability (enter who a s) = liability s + unat a"
    and enter_cash: "cash (enter who a s) = cash s"

text \<open>
  A book whose entries are withdrawn through the ledger: prepare, debit, enter. The two parts
  touch different storage.
\<close>

locale bonded_stake =
  stake_book entry recorded credit debit + payout_ledger valid liability cash prepare enter
  for entry :: "'s \<Rightarrow> 'k::finite \<Rightarrow> u128" and recorded :: "'s \<Rightarrow> u128"
    and credit :: "'k \<Rightarrow> u128 \<Rightarrow> 's \<Rightarrow> 's" and debit :: "'k \<Rightarrow> u128 \<Rightarrow> 's \<Rightarrow> 's"
    and valid :: "'s \<Rightarrow> bool" and liability :: "'s \<Rightarrow> nat" and cash :: "'s \<Rightarrow> nat"
    and prepare :: "account_id \<Rightarrow> 's \<Rightarrow> ('s, unit) outcome"
    and enter :: "account_id \<Rightarrow> u128 \<Rightarrow> 's \<Rightarrow> 's" +
  assumes debit_valid: "valid (debit k a s) = valid s"
    and debit_liability: "liability (debit k a s) = liability s"
    and debit_cash: "cash (debit k a s) = cash s"
    and prepare_book: "prepare who s = (s', r) \<Longrightarrow> entry s' = entry s \<and> recorded s' = recorded s"
    and enter_book: "entry (enter who a s) = entry s \<and> recorded (enter who a s) = recorded s"
begin

lemma unbond:
  assumes "balanced s" and "valid s" and "a \<le> entry s k"
    and "liability s + cash s + unat (recorded s) < 2 ^ 128"
    and "prepare who s = (s1, Inr ())" and "s' = enter who a (debit k a s1)"
  shows "balanced s'" and "valid s'"
    and "liability s' + cash s' + unat (recorded s') \<le> liability s + cash s + unat (recorded s)"
    and "entry s' = (entry s)(k := entry s k - a)"
proof -
  let ?s2 = "debit k a s1"
  have book1: "entry s1 = entry s" "recorded s1 = recorded s"
    using prepare_book [OF assms(5)] by auto
  have v1: "valid s1" and val1: "liability s1 + cash s1 \<le> liability s + cash s"
    using prepare_valid [OF assms(2,5)] prepare_value [OF assms(2,5)] by auto
  have bal1: "balanced s1" and le1: "a \<le> entry s1 k"
    using assms(1,3) book1 by (simp_all add: balanced_def)
  have bal2: "balanced ?s2" and rec2: "unat (recorded ?s2) + unat a = unat (recorded s)"
    using debit_balanced [OF bal1 le1] debit_exact [OF bal1 le1] book1 by auto
  have room: "liability ?s2 + unat a < 2 ^ 128"
    using val1 rec2 assms(4) by (simp add: debit_liability)
  have v2: "valid ?s2" using v1 by (simp add: debit_valid)
  show "balanced s'"
    using bal2 enter_book [of who a ?s2] by (simp add: assms(6) balanced_def)
  show "valid s'" using enter_valid [OF v2 room] by (simp add: assms(6))
  show "liability s' + cash s' + unat (recorded s') \<le> liability s + cash s + unat (recorded s)"
    using enter_liability [OF v2 room, of who] enter_cash [of who a ?s2] enter_book [of who a ?s2] val1 rec2
    by (simp add: assms(6) debit_liability debit_cash)
  show "entry s' = (entry s)(k := entry s k - a)"
    using assms(3) enter_book [of who a ?s2] book1
    by (simp add: assms(6) entry_debit saturating_sub_def)
qed

end

text \<open>The unbonding ledger provides the interface, over any lawful currency.\<close>

definition cash_of :: "'c Config \<Rightarrow> ('c, 'm) network_scheme \<Rightarrow> nat" where
  "cash_of cfg s = unat (total_issuance (Cur cfg) (balances s))"

definition ledger_valid :: "'c Config \<Rightarrow> ('c \<Rightarrow> bool) \<Rightarrow> ('c, 'm) network_scheme \<Rightarrow> bool" where
  "ledger_valid cfg ok s \<longleftrightarrow> currency_laws (Cur cfg) ok \<and> ok (balances s) \<and> unbonding_ok s"

lemma claim_value:
  assumes "ledger_valid cfg ok s"
  shows "ledger_valid cfg ok (fst (do_claim_unbondings cfg who s))"
    and "owed (fst (do_claim_unbondings cfg who s)) + cash_of cfg (fst (do_claim_unbondings cfg who s))
           \<le> owed s + cash_of cfg s"
proof -
  let ?m = "matured (block_number s) (StakeUnbondingLedger s who)"
  have laws: "currency_laws (Cur cfg) ok" "ok (balances s)" and u: "unbonding_ok s"
    using assms by (auto simp: ledger_valid_def)
  have "balances (fst (do_claim_unbondings cfg who s)) = pay cfg who ?m (balances s)"
    by (simp add: do_claim_unbondings_eq Let_def)
  with laws u show "ledger_valid cfg ok (fst (do_claim_unbondings cfg who s))"
    and "owed (fst (do_claim_unbondings cfg who s)) + cash_of cfg (fst (do_claim_unbondings cfg who s))
           \<le> owed s + cash_of cfg s"
    using pay_laws [OF laws, of who ?m] claim_owed [OF u, of cfg who]
    by (simp_all add: ledger_valid_def cash_of_def)
qed

text \<open>What the preparation of an entry leaves alone, for every storage item outside the ledger.\<close>

lemma prepare_frame:
  assumes "prepare_unbonding_ledger_entry cfg who a cooldown block s = (s', r)"
  shows "\<exists>c l t. s' = s\<lparr>balances := c, StakeUnbondingLedger := l, TotalUnbondingBalance := t\<rparr>"
proof -
  have "\<exists>c l t. s = s\<lparr>balances := c, StakeUnbondingLedger := l, TotalUnbondingBalance := t\<rparr>"
    by (rule exI [of _ "balances s"], rule exI [of _ "StakeUnbondingLedger s"],
        rule exI [of _ "TotalUnbondingBalance s"]) simp
  moreover have "\<exists>c l t. fst (do_claim_unbondings cfg who s)
      = s\<lparr>balances := c, StakeUnbondingLedger := l, TotalUnbondingBalance := t\<rparr>"
    by (simp add: do_claim_unbondings_eq Let_def) blast
  ultimately show ?thesis
    using prepare_state [OF assms] by auto
qed

lemma ledger_valid_cong:
  assumes "balances s' = balances s" and "StakeUnbondingLedger s' = StakeUnbondingLedger s"
    and "TotalUnbondingBalance s' = TotalUnbondingBalance s"
  shows "ledger_valid cfg ok s' = ledger_valid cfg ok s" and "owed s' = owed s"
    and "cash_of cfg s' = cash_of cfg s"
  using assms by (simp_all add: ledger_valid_def unbonding_ok_def owed_def cash_of_def)

interpretation unbonding: payout_ledger
  "ledger_valid cfg ok" owed "cash_of cfg"
  "\<lambda>who. prepare_unbonding_ledger_entry cfg who amt cooldown block"
  "\<lambda>who a. insert_balance_to_unbonding_ledger who a cooldown block"
  for cfg :: "'c Config" and ok amt cooldown block
proof (unfold_locales, goal_cases)
  case (1 s who s' r)
  then show ?case using prepare_state [OF 1(2)] claim_value(1) by auto
next
  case (2 s who s' r)
  then show ?case using prepare_state [OF 2(2)] claim_value(2) by auto
next
  case (3 s who s' r)
  then have "unbonding_ok s" by (simp add: ledger_valid_def)
  with prepare_state [OF 3(2)] show ?case
    using claim_owed(2) [of s cfg who] by auto
next
  case (4 s a who)
  then show ?case
    using insert_owed(1) [of s a who]
    by (auto simp: ledger_valid_def unbonding_ok_def insert_balance_to_unbonding_ledger_def Let_def)
next
  case (5 s a who)
  then show ?case
    using insert_owed(2) [of s a who] by (simp add: ledger_valid_def unbonding_ok_def)
next
  case (6 who a s)
  then show ?case
    by (simp add: cash_of_def insert_balance_to_unbonding_ledger_def Let_def)
qed

end
