(* ===== verification/Delegate_Staking.thy ===== *)
theory Delegate_Staking
  imports Unbonding
begin

text \<open>
  Delegate staking to subnets (\<open>stake/delegate_staking.rs\<close>): accounts hold shares of a
  subnet's pool, deposits buy shares, withdrawals redeem them through the unbonding ledger
  or into the swap queue, and rewards or donations raise the balance of the pool.
\<close>

section \<open>The operations\<close>

text \<open>The result of the internal routines: storage, outcome, balance and shares.\<close>

type_synonym 's staked = "'s \<times> (Error + unit) \<times> u128 \<times> u128"

definition increase_account_delegate_stake ::
  "account_id \<Rightarrow> u32 \<Rightarrow> u128 \<Rightarrow> u128 \<Rightarrow> ('c, 'm) network_scheme \<Rightarrow> ('c, 'm) network_scheme"
where
  "increase_account_delegate_stake account_id subnet_id amount shares s =
     s\<lparr>AccountSubnetDelegateStakeShares :=
         (AccountSubnetDelegateStakeShares s)((account_id, subnet_id) :=
           saturating_add (AccountSubnetDelegateStakeShares s (account_id, subnet_id)) shares),
       TotalSubnetDelegateStakeBalance := (TotalSubnetDelegateStakeBalance s)(subnet_id :=
           saturating_add (TotalSubnetDelegateStakeBalance s subnet_id) amount),
       TotalSubnetDelegateStakeShares := (TotalSubnetDelegateStakeShares s)(subnet_id :=
           saturating_add (TotalSubnetDelegateStakeShares s subnet_id) shares),
       TotalDelegateStake := saturating_add (TotalDelegateStake s) amount,
       SubnetNetFlow := (SubnetNetFlow s)(subnet_id :=
           i128_clamp (SubnetNetFlow s subnet_id + u128_as_i128 amount))\<rparr>"

definition decrease_account_delegate_stake ::
  "account_id \<Rightarrow> u32 \<Rightarrow> u128 \<Rightarrow> u128 \<Rightarrow> ('c, 'm) network_scheme \<Rightarrow> ('c, 'm) network_scheme"
where
  "decrease_account_delegate_stake account_id subnet_id amount shares s =
     s\<lparr>AccountSubnetDelegateStakeShares :=
         (AccountSubnetDelegateStakeShares s)((account_id, subnet_id) :=
           saturating_sub (AccountSubnetDelegateStakeShares s (account_id, subnet_id)) shares),
       TotalSubnetDelegateStakeBalance := (TotalSubnetDelegateStakeBalance s)(subnet_id :=
           saturating_sub (TotalSubnetDelegateStakeBalance s subnet_id) amount),
       TotalSubnetDelegateStakeShares := (TotalSubnetDelegateStakeShares s)(subnet_id :=
           saturating_sub (TotalSubnetDelegateStakeShares s subnet_id) shares),
       TotalDelegateStake := saturating_sub (TotalDelegateStake s) amount,
       SubnetNetFlow := (SubnetNetFlow s)(subnet_id :=
           i128_clamp (SubnetNetFlow s subnet_id - u128_as_i128 amount))\<rparr>"

text \<open>The dead shares minted into a pool that has none.\<close>

definition mint_subnet_dead_shares ::
  "u32 \<Rightarrow> ('c, 'm) network_scheme \<Rightarrow> ('c, 'm) network_scheme" where
  "mint_subnet_dead_shares subnet_id s =
     s\<lparr>TotalSubnetDelegateStakeShares := (TotalSubnetDelegateStakeShares s)(subnet_id :=
         saturating_add (TotalSubnetDelegateStakeShares s subnet_id) MIN_LIQUIDITY)\<rparr>"

definition handle_increase_account_delegate_stake ::
  "account_id \<Rightarrow> u32 \<Rightarrow> u128 \<Rightarrow> ('c, 'm) network_scheme \<Rightarrow> ('c, 'm) network_scheme staked" where
  "handle_increase_account_delegate_stake account_id subnet_id delegate_stake_to_be_added s =
     (let total_subnet_delegated_stake_shares = TotalSubnetDelegateStakeShares s subnet_id;
          s = (if total_subnet_delegated_stake_shares = 0 then mint_subnet_dead_shares subnet_id s else s);
          total_subnet_delegated_stake_balance = TotalSubnetDelegateStakeBalance s subnet_id;
          delegate_stake_to_be_added_as_shares =
            convert_to_shares delegate_stake_to_be_added total_subnet_delegated_stake_shares
              total_subnet_delegated_stake_balance
      in if delegate_stake_to_be_added_as_shares = 0 then (s, Inl CouldNotConvertToShares, 0, 0)
         else (increase_account_delegate_stake account_id subnet_id delegate_stake_to_be_added
                 delegate_stake_to_be_added_as_shares s,
               Inr (), delegate_stake_to_be_added, delegate_stake_to_be_added_as_shares))"

definition perform_do_add_delegate_stake ::
  "'c Config \<Rightarrow> account_id \<Rightarrow> u32 \<Rightarrow> u128 \<Rightarrow> bool \<Rightarrow> ('c, 'm) network_scheme \<Rightarrow>
   ('c, 'm) network_scheme staked"
where
  "perform_do_add_delegate_stake cfg account_id subnet_id delegate_stake_to_be_added swap s =
     (case u128_to_balance delegate_stake_to_be_added of
        None \<Rightarrow> (s, Inl CouldNotConvertToBalance, 0, 0)
      | Some balance \<Rightarrow>
      if delegate_stake_to_be_added < MinDelegateStakeDeposit s
      then (s, Inl MinDelegateStakeDepositNotReached, 0, 0)
      else if \<not> swap \<and> \<not> can_remove_balance_from_coldkey_account cfg account_id balance s
      then (s, Inl NotEnoughBalanceToStake, 0, 0)
      else
      let block = get_current_block_as_u32 s in
      if exceeds_tx_rate_limit (get_last_tx_block account_id s) block s
      then (s, Inl TxRateLimitExceeded, 0, 0)
      else
      let (s, removed) =
            (if swap then (s, True) else remove_balance_from_coldkey_account cfg account_id balance s) in
      if \<not> removed then (s, Inl BalanceWithdrawalError, 0, 0)
      else handle_increase_account_delegate_stake account_id subnet_id delegate_stake_to_be_added s)"

definition do_add_delegate_stake ::
  "'c Config \<Rightarrow> RuntimeOrigin \<Rightarrow> u32 \<Rightarrow> u128 \<Rightarrow> ('c, 'm) network_scheme \<Rightarrow>
   (('c, 'm) network_scheme, unit) outcome"
where
  "do_add_delegate_stake cfg origin subnet_id delegate_stake_to_be_added s =
     (case ensure_signed origin of Inl e \<Rightarrow> (s, Inl e) | Inr account_id \<Rightarrow>
      case perform_do_add_delegate_stake cfg account_id subnet_id delegate_stake_to_be_added False s of
        (s, Inl e, _, _) \<Rightarrow> (s, Inl e)
      | (s, Inr _, balance, shares) \<Rightarrow>
          let block = get_current_block_as_u32 s
          in (set_last_tx_block account_id block s, Inr ()))"

definition perform_do_remove_subnet_delegate_stake ::
  "'c Config \<Rightarrow> account_id \<Rightarrow> u32 \<Rightarrow> u128 \<Rightarrow> bool \<Rightarrow> ('c, 'm) network_scheme \<Rightarrow>
   ('c, 'm) network_scheme staked"
where
  "perform_do_remove_subnet_delegate_stake cfg account_id subnet_id
       delegate_stake_shares_to_be_removed add_to_ledger s =
     (if delegate_stake_shares_to_be_removed = 0 then (s, Inl SharesZero, 0, 0)
      else
      let account_delegate_stake_shares = AccountSubnetDelegateStakeShares s (account_id, subnet_id) in
      if account_delegate_stake_shares < delegate_stake_shares_to_be_removed
      then (s, Inl NotEnoughStakeToWithdraw, 0, 0)
      else
      let total_subnet_delegated_stake_shares = TotalSubnetDelegateStakeShares s subnet_id;
          total_subnet_delegated_stake_balance = TotalSubnetDelegateStakeBalance s subnet_id;
          delegate_stake_to_be_removed =
            convert_to_balance delegate_stake_shares_to_be_removed
              total_subnet_delegated_stake_shares total_subnet_delegated_stake_balance in
      case u128_to_balance delegate_stake_to_be_removed of
        None \<Rightarrow> (s, Inl CouldNotConvertToBalance, 0, 0)
      | Some _ \<Rightarrow>
      let block = get_current_block_as_u32 s in
      if exceeds_tx_rate_limit (get_last_tx_block account_id s) block s
      then (s, Inl TxRateLimitExceeded, 0, 0)
      else
      let cooldown_blocks = DelegateStakeCooldownEpochs s * EpochLength cfg in
      case (if add_to_ledger
            then prepare_unbonding_ledger_entry cfg account_id delegate_stake_to_be_removed
                   cooldown_blocks block s
            else (s, Inr ())) of
        (s, Inl e) \<Rightarrow> (s, Inl e, 0, 0)
      | (s, Inr _) \<Rightarrow>
      let s = decrease_account_delegate_stake account_id subnet_id delegate_stake_to_be_removed
                delegate_stake_shares_to_be_removed s;
          s = (if add_to_ledger
               then insert_balance_to_unbonding_ledger account_id delegate_stake_to_be_removed
                      cooldown_blocks block s
               else s)
      in (s, Inr (), delegate_stake_to_be_removed, delegate_stake_shares_to_be_removed))"

definition do_remove_delegate_stake ::
  "'c Config \<Rightarrow> RuntimeOrigin \<Rightarrow> u32 \<Rightarrow> u128 \<Rightarrow> ('c, 'm) network_scheme \<Rightarrow>
   (('c, 'm) network_scheme, unit) outcome"
where
  "do_remove_delegate_stake cfg origin subnet_id delegate_stake_shares_to_be_removed s =
     (case ensure_signed origin of Inl e \<Rightarrow> (s, Inl e) | Inr account_id \<Rightarrow>
      case perform_do_remove_subnet_delegate_stake cfg account_id subnet_id
             delegate_stake_shares_to_be_removed True s of
        (s, Inl e, _, _) \<Rightarrow> (s, Inl e)
      | (s, Inr _, delegate_stake_to_be_removed, _) \<Rightarrow>
          let block = get_current_block_as_u32 s
          in (set_last_tx_block account_id block s, Inr ()))"

definition do_transfer_delegate_stake ::
  "RuntimeOrigin \<Rightarrow> u32 \<Rightarrow> account_id \<Rightarrow> u128 \<Rightarrow> ('c, 'm) network_scheme \<Rightarrow>
   (('c, 'm) network_scheme, unit) outcome"
where
  "do_transfer_delegate_stake origin subnet_id to_account_id delegate_stake_shares_to_transfer s =
     (case ensure_signed origin of Inl e \<Rightarrow> (s, Inl e) | Inr account_id \<Rightarrow>
      if account_id = to_account_id then (s, Inl TransferToSelfNotAllowed)
      else if delegate_stake_shares_to_transfer = 0 then (s, Inl NotEnoughStakeToWithdraw)
      else
      let total_subnet_delegated_stake_shares = TotalSubnetDelegateStakeShares s subnet_id;
          total_subnet_delegated_stake_balance = TotalSubnetDelegateStakeBalance s subnet_id;
          delegate_stake_to_be_transferred =
            convert_to_balance delegate_stake_shares_to_transfer
              total_subnet_delegated_stake_shares total_subnet_delegated_stake_balance in
      if delegate_stake_to_be_transferred < MinDelegateStakeDeposit s
      then (s, Inl MinDelegateStakeDepositNotReached)
      else
      let s = decrease_account_delegate_stake account_id subnet_id 0
                delegate_stake_shares_to_transfer s;
          s = increase_account_delegate_stake to_account_id subnet_id 0
                delegate_stake_shares_to_transfer s
      in (s, Inr ()))"

definition do_increase_delegate_stake ::
  "u32 \<Rightarrow> u128 \<Rightarrow> ('c, 'm) network_scheme \<Rightarrow> ('c, 'm) network_scheme" where
  "do_increase_delegate_stake subnet_id amount s =
     (let s = (if TotalSubnetDelegateStakeBalance s subnet_id = 0
                  \<or> TotalSubnetDelegateStakeShares s subnet_id = 0
               then mint_subnet_dead_shares subnet_id s else s)
      in s\<lparr>TotalSubnetDelegateStakeBalance := (TotalSubnetDelegateStakeBalance s)(subnet_id :=
             saturating_add (TotalSubnetDelegateStakeBalance s subnet_id) amount),
           TotalDelegateStake := saturating_add (TotalDelegateStake s) amount\<rparr>)"

definition convert_account_shares_to_balance ::
  "account_id \<Rightarrow> u32 \<Rightarrow> ('c, 'm) network_scheme \<Rightarrow> u128" where
  "convert_account_shares_to_balance account_id subnet_id s =
     (let account_delegate_stake_shares = AccountSubnetDelegateStakeShares s (account_id, subnet_id) in
      if account_delegate_stake_shares = 0 then 0
      else convert_to_balance account_delegate_stake_shares
             (TotalSubnetDelegateStakeShares s subnet_id)
             (TotalSubnetDelegateStakeBalance s subnet_id))"

section \<open>A subnet's pool as a share pool\<close>

interpretation subnet_pool: share_pool
  "\<lambda>s who. AccountSubnetDelegateStakeShares s (who, subnet_id)"
  "\<lambda>s. TotalSubnetDelegateStakeShares s subnet_id"
  "\<lambda>s. TotalSubnetDelegateStakeBalance s subnet_id"
  "\<lambda>who. increase_account_delegate_stake who subnet_id"
  "\<lambda>who. decrease_account_delegate_stake who subnet_id"
  "mint_subnet_dead_shares subnet_id"
  "do_increase_delegate_stake subnet_id"
  for subnet_id
  by unfold_locales
    (auto simp: increase_account_delegate_stake_def decrease_account_delegate_stake_def
      mint_subnet_dead_shares_def do_increase_delegate_stake_def Let_def)

text \<open>The balances of the pools against the recorded total of the network.\<close>

interpretation subnet_pool_book: stake_book
  TotalSubnetDelegateStakeBalance TotalDelegateStake
  "\<lambda>subnet_id a. increase_account_delegate_stake who subnet_id a n"
  "\<lambda>subnet_id a. decrease_account_delegate_stake who subnet_id a n"
  for who n
  by unfold_locales
    (auto simp: increase_account_delegate_stake_def decrease_account_delegate_stake_def)

interpretation subnet_reward_book: credit_book
  TotalSubnetDelegateStakeBalance TotalDelegateStake do_increase_delegate_stake
  by unfold_locales (auto simp: do_increase_delegate_stake_def mint_subnet_dead_shares_def Let_def)

abbreviation subnet_pool_ok :: "u32 \<Rightarrow> ('c, 'm) network_scheme \<Rightarrow> bool" where
  "subnet_pool_ok \<equiv> subnet_pool.pool_ok"

abbreviation subnet_deposit ::
  "u32 \<Rightarrow> account_id \<Rightarrow> u128 \<Rightarrow> ('c, 'm) network_scheme \<Rightarrow> ('c, 'm) network_scheme" where
  "subnet_deposit \<equiv> subnet_pool.deposit"

lemma handle_increase_account_delegate_stake_eq:
  "handle_increase_account_delegate_stake who subnet_id a s =
     (let n = convert_to_shares a (TotalSubnetDelegateStakeShares s subnet_id)
                (TotalSubnetDelegateStakeBalance s subnet_id)
      in if n = 0
         then (if TotalSubnetDelegateStakeShares s subnet_id = 0
               then mint_subnet_dead_shares subnet_id s else s, Inl CouldNotConvertToShares, 0, 0)
         else (subnet_deposit subnet_id who a s, Inr (), a, n))"
  by (simp add: handle_increase_account_delegate_stake_def subnet_pool.deposit_def Let_def
      mint_subnet_dead_shares_def)

section \<open>What a successful call did\<close>

lemma perform_do_add_delegate_stake_success:
  assumes "perform_do_add_delegate_stake cfg who subnet_id a swap s = (s', Inr (), b, n)"
  obtains s1 where "MinDelegateStakeDeposit s \<le> a"
    and "\<not> exceeds_tx_rate_limit (LastTxBlock s who) (block_number s) s"
    and "if swap then s1 = s
         else \<exists>c. withdraw (Cur cfg) (balances s) who a = Some c \<and> s1 = s\<lparr>balances := c\<rparr>"
    and "b = a" and "n \<noteq> 0"
    and "n = convert_to_shares a (TotalSubnetDelegateStakeShares s subnet_id)
               (TotalSubnetDelegateStakeBalance s subnet_id)"
    and "s' = subnet_deposit subnet_id who a s1"
  using assms
  by (auto simp: perform_do_add_delegate_stake_def handle_increase_account_delegate_stake_eq Let_def
      u128_to_balance_def get_current_block_as_u32_def get_last_tx_block_def not_less
      remove_balance_True split: call_splits)

lemma do_add_delegate_stake_success:
  assumes "do_add_delegate_stake cfg origin subnet_id a s = (s', Inr ())"
  obtains who s1 n where "origin = Signed who"
    and "perform_do_add_delegate_stake cfg who subnet_id a False s = (s1, Inr (), a, n)"
    and "s' = set_last_tx_block who (block_number s1) s1"
proof -
  obtain who s1 b n where "origin = Signed who"
    and p: "perform_do_add_delegate_stake cfg who subnet_id a False s = (s1, Inr (), b, n)"
    and "s' = set_last_tx_block who (block_number s1) s1"
    using assms
    by (auto simp: do_add_delegate_stake_def ensure_signed_Inr get_current_block_as_u32_def Let_def
        split: call_splits)
  moreover from p have "b = a" by (elim perform_do_add_delegate_stake_success)
  ultimately show ?thesis by (intro that) auto
qed

lemma perform_do_remove_subnet_delegate_stake_success:
  assumes "perform_do_remove_subnet_delegate_stake cfg who subnet_id n ledger s = (s', Inr (), w, m)"
  obtains s1 cooldown where "n \<noteq> 0" and "n \<le> AccountSubnetDelegateStakeShares s (who, subnet_id)"
    and "\<not> exceeds_tx_rate_limit (LastTxBlock s who) (block_number s) s"
    and "w = convert_to_balance n (TotalSubnetDelegateStakeShares s subnet_id)
               (TotalSubnetDelegateStakeBalance s subnet_id)"
    and "m = n" and "cooldown = DelegateStakeCooldownEpochs s * EpochLength cfg"
    and "if ledger then prepare_unbonding_ledger_entry cfg who w cooldown (block_number s) s = (s1, Inr ())
         else s1 = s"
    and "s' = (if ledger
               then insert_balance_to_unbonding_ledger who w cooldown (block_number s)
                      (decrease_account_delegate_stake who subnet_id w n s1)
               else decrease_account_delegate_stake who subnet_id w n s1)"
proof -
  let ?w = "convert_to_balance n (TotalSubnetDelegateStakeShares s subnet_id)
               (TotalSubnetDelegateStakeBalance s subnet_id)"
  let ?cooldown = "DelegateStakeCooldownEpochs s * EpochLength cfg"
  note e = assms [unfolded perform_do_remove_subnet_delegate_stake_def u128_to_balance_def Let_def
      get_current_block_as_u32_def get_last_tx_block_def option.case]
  have g: "n \<noteq> 0" "\<not> AccountSubnetDelegateStakeShares s (who, subnet_id) < n"
    "\<not> exceeds_tx_rate_limit (LastTxBlock s who) (block_number s) s"
    using e by (simp_all split: if_split_asm)
  show thesis
  proof (cases ledger)
    case True
    obtain s1 r where p: "prepare_unbonding_ledger_entry cfg who ?w ?cooldown (block_number s) s = (s1, r)"
      by (cases "prepare_unbonding_ledger_entry cfg who ?w ?cooldown (block_number s) s") auto
    show thesis
    proof (cases r)
      case (Inl err)
      with e g True show thesis by (simp add: p)
    next
      case (Inr u)
      with e g True have "w = ?w" "m = n"
        and "s' = insert_balance_to_unbonding_ledger who ?w ?cooldown (block_number s)
                    (decrease_account_delegate_stake who subnet_id ?w n s1)" by (auto simp: p)
      with g True Inr p show thesis by (intro that [of ?cooldown s1]) (simp_all add: not_less)
    qed
  next
    case False
    with e g have "w = ?w" "m = n" "s' = decrease_account_delegate_stake who subnet_id ?w n s" by auto
    with g False show thesis by (intro that [of ?cooldown s]) (simp_all add: not_less)
  qed
qed

lemma do_remove_delegate_stake_success:
  assumes "do_remove_delegate_stake cfg origin subnet_id n s = (s', Inr ())"
  obtains who s1 w m where "origin = Signed who"
    and "perform_do_remove_subnet_delegate_stake cfg who subnet_id n True s = (s1, Inr (), w, m)"
    and "s' = set_last_tx_block who (block_number s1) s1"
  using assms
  by (auto simp: do_remove_delegate_stake_def ensure_signed_Inr get_current_block_as_u32_def Let_def
      split: call_splits)

lemma do_transfer_delegate_stake_success:
  assumes "do_transfer_delegate_stake origin subnet_id to n s = (s', Inr ())"
  obtains who where "origin = Signed who" and "who \<noteq> to" and "n \<noteq> 0"
    and "MinDelegateStakeDeposit s \<le> convert_to_balance n (TotalSubnetDelegateStakeShares s subnet_id)
           (TotalSubnetDelegateStakeBalance s subnet_id)"
    and "s' = increase_account_delegate_stake to subnet_id 0 n
                (decrease_account_delegate_stake who subnet_id 0 n s)"
  using assms
  by (auto simp: do_transfer_delegate_stake_def ensure_signed_Inr Let_def not_less split: call_splits)

end
