(* ===== verification/Validator_Delegate_Staking.thy ===== *)
theory Validator_Delegate_Staking
  imports Delegate_Staking
begin

text \<open>
  Delegate staking to validators (\<open>stake/validator_delegate_staking.rs\<close>): the same share pool
  per validator, over storage of its own. It provides the same share pool interface as the
  pools of the subnets.
\<close>

section \<open>The operations\<close>

definition increase_account_validator_delegate_stake ::
  "account_id \<Rightarrow> u32 \<Rightarrow> u128 \<Rightarrow> u128 \<Rightarrow> ('c, 'm) network_scheme \<Rightarrow> ('c, 'm) network_scheme"
where
  "increase_account_validator_delegate_stake account_id validator_id amount shares s =
     s\<lparr>AccountValidatorDelegateStakeShares :=
         (AccountValidatorDelegateStakeShares s)((account_id, validator_id) :=
           saturating_add (AccountValidatorDelegateStakeShares s (account_id, validator_id)) shares),
       ValidatorDelegateStakeBalance := (ValidatorDelegateStakeBalance s)(validator_id :=
           saturating_add (ValidatorDelegateStakeBalance s validator_id) amount),
       ValidatorDelegateStakeShares := (ValidatorDelegateStakeShares s)(validator_id :=
           saturating_add (ValidatorDelegateStakeShares s validator_id) shares),
       TotalValidatorDelegateStakeBalance := saturating_add (TotalValidatorDelegateStakeBalance s) amount\<rparr>"

definition decrease_account_validator_delegate_stake ::
  "account_id \<Rightarrow> u32 \<Rightarrow> u128 \<Rightarrow> u128 \<Rightarrow> ('c, 'm) network_scheme \<Rightarrow> ('c, 'm) network_scheme"
where
  "decrease_account_validator_delegate_stake account_id validator_id amount shares s =
     s\<lparr>AccountValidatorDelegateStakeShares :=
         (AccountValidatorDelegateStakeShares s)((account_id, validator_id) :=
           saturating_sub (AccountValidatorDelegateStakeShares s (account_id, validator_id)) shares),
       ValidatorDelegateStakeBalance := (ValidatorDelegateStakeBalance s)(validator_id :=
           saturating_sub (ValidatorDelegateStakeBalance s validator_id) amount),
       ValidatorDelegateStakeShares := (ValidatorDelegateStakeShares s)(validator_id :=
           saturating_sub (ValidatorDelegateStakeShares s validator_id) shares),
       TotalValidatorDelegateStakeBalance := saturating_sub (TotalValidatorDelegateStakeBalance s) amount\<rparr>"

text \<open>The dead shares minted into a pool that has none.\<close>

definition mint_validator_dead_shares ::
  "u32 \<Rightarrow> ('c, 'm) network_scheme \<Rightarrow> ('c, 'm) network_scheme" where
  "mint_validator_dead_shares validator_id s =
     s\<lparr>ValidatorDelegateStakeShares := (ValidatorDelegateStakeShares s)(validator_id :=
         saturating_add (ValidatorDelegateStakeShares s validator_id) MIN_LIQUIDITY)\<rparr>"

definition handle_increase_account_validator_delegate_stake ::
  "account_id \<Rightarrow> u32 \<Rightarrow> u128 \<Rightarrow> ('c, 'm) network_scheme \<Rightarrow> ('c, 'm) network_scheme staked" where
  "handle_increase_account_validator_delegate_stake account_id validator_id delegate_stake_to_be_added s =
     (let total_validator_delegated_stake_shares = ValidatorDelegateStakeShares s validator_id;
          s = (if total_validator_delegated_stake_shares = 0 then mint_validator_dead_shares validator_id s else s);
          total_validator_delegated_stake_balance = ValidatorDelegateStakeBalance s validator_id;
          delegate_stake_to_be_added_as_shares =
            convert_to_shares delegate_stake_to_be_added total_validator_delegated_stake_shares
              total_validator_delegated_stake_balance
      in if delegate_stake_to_be_added_as_shares = 0 then (s, Inl CouldNotConvertToShares, 0, 0)
         else (increase_account_validator_delegate_stake account_id validator_id delegate_stake_to_be_added
                 delegate_stake_to_be_added_as_shares s,
               Inr (), delegate_stake_to_be_added, delegate_stake_to_be_added_as_shares))"

definition perform_do_add_validator_delegate_stake ::
  "'c Config \<Rightarrow> account_id \<Rightarrow> u32 \<Rightarrow> u128 \<Rightarrow> bool \<Rightarrow> ('c, 'm) network_scheme \<Rightarrow>
   ('c, 'm) network_scheme staked"
where
  "perform_do_add_validator_delegate_stake cfg account_id validator_id delegate_stake_to_be_added swap s =
     (case u128_to_balance delegate_stake_to_be_added of
        None \<Rightarrow> (s, Inl CouldNotConvertToBalance, 0, 0)
      | Some balance \<Rightarrow>
      if delegate_stake_to_be_added < MinDelegateStakeDeposit s
      then (s, Inl MinDelegateStakeDepositNotReached, 0, 0)
      else if \<not> swap \<and> \<not> can_remove_balance_from_coldkey_account cfg account_id balance s
      then (s, Inl NotEnoughBalanceToStake, 0, 0)
      else
      let block = get_current_block_as_u32 s in
      if exceeds_tx_rate_limit (get_last_tx_block account_id s) block s
      then (s, Inl TxRateLimitExceeded, 0, 0)
      else
      let (s, removed) =
            (if swap then (s, True) else remove_balance_from_coldkey_account cfg account_id balance s) in
      if \<not> removed then (s, Inl BalanceWithdrawalError, 0, 0)
      else handle_increase_account_validator_delegate_stake account_id validator_id delegate_stake_to_be_added s)"

definition do_add_validator_delegate_stake ::
  "'c Config \<Rightarrow> RuntimeOrigin \<Rightarrow> u32 \<Rightarrow> u128 \<Rightarrow> ('c, 'm) network_scheme \<Rightarrow>
   (('c, 'm) network_scheme, unit) outcome"
where
  "do_add_validator_delegate_stake cfg origin validator_id delegate_stake_to_be_added s =
     (case ensure_signed origin of Inl e \<Rightarrow> (s, Inl e) | Inr account_id \<Rightarrow>
      case perform_do_add_validator_delegate_stake cfg account_id validator_id delegate_stake_to_be_added False s of
        (s, Inl e, _, _) \<Rightarrow> (s, Inl e)
      | (s, Inr _, balance, shares) \<Rightarrow>
          let block = get_current_block_as_u32 s
          in (set_last_tx_block account_id block s, Inr ()))"

definition perform_do_remove_validator_delegate_stake ::
  "'c Config \<Rightarrow> account_id \<Rightarrow> u32 \<Rightarrow> u128 \<Rightarrow> bool \<Rightarrow> ('c, 'm) network_scheme \<Rightarrow>
   ('c, 'm) network_scheme staked"
where
  "perform_do_remove_validator_delegate_stake cfg account_id validator_id
       delegate_stake_shares_to_be_removed add_to_ledger s =
     (if delegate_stake_shares_to_be_removed = 0 then (s, Inl SharesZero, 0, 0)
      else
      let account_validator_delegate_stake_shares = AccountValidatorDelegateStakeShares s (account_id, validator_id) in
      if account_validator_delegate_stake_shares < delegate_stake_shares_to_be_removed
      then (s, Inl NotEnoughStakeToWithdraw, 0, 0)
      else
      let total_validator_delegated_stake_shares = ValidatorDelegateStakeShares s validator_id;
          total_validator_delegated_stake_balance = ValidatorDelegateStakeBalance s validator_id;
          delegate_stake_to_be_removed =
            convert_to_balance delegate_stake_shares_to_be_removed
              total_validator_delegated_stake_shares total_validator_delegated_stake_balance in
      case u128_to_balance delegate_stake_to_be_removed of
        None \<Rightarrow> (s, Inl CouldNotConvertToBalance, 0, 0)
      | Some _ \<Rightarrow>
      let block = get_current_block_as_u32 s in
      if exceeds_tx_rate_limit (get_last_tx_block account_id s) block s
      then (s, Inl TxRateLimitExceeded, 0, 0)
      else
      let cooldown_blocks = DelegateStakeCooldownEpochs s * EpochLength cfg in
      case (if add_to_ledger
            then prepare_unbonding_ledger_entry cfg account_id delegate_stake_to_be_removed
                   cooldown_blocks block s
            else (s, Inr ())) of
        (s, Inl e) \<Rightarrow> (s, Inl e, 0, 0)
      | (s, Inr _) \<Rightarrow>
      let s = decrease_account_validator_delegate_stake account_id validator_id delegate_stake_to_be_removed
                delegate_stake_shares_to_be_removed s;
          s = (if add_to_ledger
               then insert_balance_to_unbonding_ledger account_id delegate_stake_to_be_removed
                      cooldown_blocks block s
               else s)
      in (s, Inr (), delegate_stake_to_be_removed, delegate_stake_shares_to_be_removed))"

definition do_remove_validator_delegate_stake ::
  "'c Config \<Rightarrow> RuntimeOrigin \<Rightarrow> u32 \<Rightarrow> u128 \<Rightarrow> ('c, 'm) network_scheme \<Rightarrow>
   (('c, 'm) network_scheme, unit) outcome"
where
  "do_remove_validator_delegate_stake cfg origin validator_id delegate_stake_shares_to_be_removed s =
     (case ensure_signed origin of Inl e \<Rightarrow> (s, Inl e) | Inr account_id \<Rightarrow>
      case perform_do_remove_validator_delegate_stake cfg account_id validator_id
             delegate_stake_shares_to_be_removed True s of
        (s, Inl e, _, _) \<Rightarrow> (s, Inl e)
      | (s, Inr _, delegate_stake_to_be_removed, _) \<Rightarrow>
          let block = get_current_block_as_u32 s
          in (set_last_tx_block account_id block s, Inr ()))"

definition do_transfer_validator_delegate_stake ::
  "RuntimeOrigin \<Rightarrow> u32 \<Rightarrow> account_id \<Rightarrow> u128 \<Rightarrow> ('c, 'm) network_scheme \<Rightarrow>
   (('c, 'm) network_scheme, unit) outcome"
where
  "do_transfer_validator_delegate_stake origin validator_id to_account_id delegate_stake_shares_to_transfer s =
     (case ensure_signed origin of Inl e \<Rightarrow> (s, Inl e) | Inr account_id \<Rightarrow>
      if account_id = to_account_id then (s, Inl TransferToSelfNotAllowed)
      else if delegate_stake_shares_to_transfer = 0 then (s, Inl NotEnoughStakeToWithdraw)
      else
      let total_validator_delegated_stake_shares = ValidatorDelegateStakeShares s validator_id;
          total_validator_delegated_stake_balance = ValidatorDelegateStakeBalance s validator_id;
          delegate_stake_to_be_transferred =
            convert_to_balance delegate_stake_shares_to_transfer
              total_validator_delegated_stake_shares total_validator_delegated_stake_balance in
      if delegate_stake_to_be_transferred < MinDelegateStakeDeposit s
      then (s, Inl MinDelegateStakeDepositNotReached)
      else
      let s = decrease_account_validator_delegate_stake account_id validator_id 0
                delegate_stake_shares_to_transfer s;
          s = increase_account_validator_delegate_stake to_account_id validator_id 0
                delegate_stake_shares_to_transfer s
      in (s, Inr ()))"

definition do_increase_validator_delegate_stake ::
  "u32 \<Rightarrow> u128 \<Rightarrow> ('c, 'm) network_scheme \<Rightarrow> ('c, 'm) network_scheme" where
  "do_increase_validator_delegate_stake validator_id amount s =
     (let s = (if ValidatorDelegateStakeBalance s validator_id = 0
                  \<or> ValidatorDelegateStakeShares s validator_id = 0
               then mint_validator_dead_shares validator_id s else s)
      in s\<lparr>ValidatorDelegateStakeBalance := (ValidatorDelegateStakeBalance s)(validator_id :=
             saturating_add (ValidatorDelegateStakeBalance s validator_id) amount),
           TotalValidatorDelegateStakeBalance := saturating_add (TotalValidatorDelegateStakeBalance s) amount\<rparr>)"

section \<open>A validator's pool as a share pool\<close>

interpretation validator_pool: share_pool
  "\<lambda>s who. AccountValidatorDelegateStakeShares s (who, validator_id)"
  "\<lambda>s. ValidatorDelegateStakeShares s validator_id"
  "\<lambda>s. ValidatorDelegateStakeBalance s validator_id"
  "\<lambda>who. increase_account_validator_delegate_stake who validator_id"
  "\<lambda>who. decrease_account_validator_delegate_stake who validator_id"
  "mint_validator_dead_shares validator_id"
  "do_increase_validator_delegate_stake validator_id"
  for validator_id
  by unfold_locales
    (auto simp: increase_account_validator_delegate_stake_def decrease_account_validator_delegate_stake_def
      mint_validator_dead_shares_def do_increase_validator_delegate_stake_def Let_def)

text \<open>The balances of the pools against the recorded total of the network.\<close>

interpretation validator_pool_book: stake_book
  ValidatorDelegateStakeBalance TotalValidatorDelegateStakeBalance
  "\<lambda>validator_id a. increase_account_validator_delegate_stake who validator_id a n"
  "\<lambda>validator_id a. decrease_account_validator_delegate_stake who validator_id a n"
  for who n
  by unfold_locales
    (auto simp: increase_account_validator_delegate_stake_def decrease_account_validator_delegate_stake_def)

interpretation validator_reward_book: credit_book
  ValidatorDelegateStakeBalance TotalValidatorDelegateStakeBalance do_increase_validator_delegate_stake
  by unfold_locales (auto simp: do_increase_validator_delegate_stake_def mint_validator_dead_shares_def Let_def)

abbreviation validator_pool_ok :: "u32 \<Rightarrow> ('c, 'm) network_scheme \<Rightarrow> bool" where
  "validator_pool_ok \<equiv> validator_pool.pool_ok"

abbreviation validator_deposit ::
  "u32 \<Rightarrow> account_id \<Rightarrow> u128 \<Rightarrow> ('c, 'm) network_scheme \<Rightarrow> ('c, 'm) network_scheme" where
  "validator_deposit \<equiv> validator_pool.deposit"

lemma handle_increase_account_validator_delegate_stake_eq:
  "handle_increase_account_validator_delegate_stake who validator_id a s =
     (let n = convert_to_shares a (ValidatorDelegateStakeShares s validator_id)
                (ValidatorDelegateStakeBalance s validator_id)
      in if n = 0
         then (if ValidatorDelegateStakeShares s validator_id = 0
               then mint_validator_dead_shares validator_id s else s, Inl CouldNotConvertToShares, 0, 0)
         else (validator_deposit validator_id who a s, Inr (), a, n))"
  by (simp add: handle_increase_account_validator_delegate_stake_def validator_pool.deposit_def Let_def
      mint_validator_dead_shares_def)

section \<open>What a successful call did\<close>

lemma perform_do_add_validator_delegate_stake_success:
  assumes "perform_do_add_validator_delegate_stake cfg who validator_id a swap s = (s', Inr (), b, n)"
  obtains s1 where "MinDelegateStakeDeposit s \<le> a"
    and "\<not> exceeds_tx_rate_limit (LastTxBlock s who) (block_number s) s"
    and "if swap then s1 = s
         else \<exists>c. withdraw (Cur cfg) (balances s) who a = Some c \<and> s1 = s\<lparr>balances := c\<rparr>"
    and "b = a" and "n \<noteq> 0"
    and "n = convert_to_shares a (ValidatorDelegateStakeShares s validator_id)
               (ValidatorDelegateStakeBalance s validator_id)"
    and "s' = validator_deposit validator_id who a s1"
  using assms
  by (auto simp: perform_do_add_validator_delegate_stake_def handle_increase_account_validator_delegate_stake_eq Let_def
      u128_to_balance_def get_current_block_as_u32_def get_last_tx_block_def not_less
      remove_balance_True split: call_splits)

lemma do_add_validator_delegate_stake_success:
  assumes "do_add_validator_delegate_stake cfg origin validator_id a s = (s', Inr ())"
  obtains who s1 n where "origin = Signed who"
    and "perform_do_add_validator_delegate_stake cfg who validator_id a False s = (s1, Inr (), a, n)"
    and "s' = set_last_tx_block who (block_number s1) s1"
proof -
  obtain who s1 b n where "origin = Signed who"
    and p: "perform_do_add_validator_delegate_stake cfg who validator_id a False s = (s1, Inr (), b, n)"
    and "s' = set_last_tx_block who (block_number s1) s1"
    using assms
    by (auto simp: do_add_validator_delegate_stake_def ensure_signed_Inr get_current_block_as_u32_def Let_def
        split: call_splits)
  moreover from p have "b = a" by (elim perform_do_add_validator_delegate_stake_success)
  ultimately show ?thesis by (intro that) auto
qed

lemma perform_do_remove_validator_delegate_stake_success:
  assumes "perform_do_remove_validator_delegate_stake cfg who validator_id n ledger s = (s', Inr (), w, m)"
  obtains s1 cooldown where "n \<noteq> 0" and "n \<le> AccountValidatorDelegateStakeShares s (who, validator_id)"
    and "\<not> exceeds_tx_rate_limit (LastTxBlock s who) (block_number s) s"
    and "w = convert_to_balance n (ValidatorDelegateStakeShares s validator_id)
               (ValidatorDelegateStakeBalance s validator_id)"
    and "m = n" and "cooldown = DelegateStakeCooldownEpochs s * EpochLength cfg"
    and "if ledger then prepare_unbonding_ledger_entry cfg who w cooldown (block_number s) s = (s1, Inr ())
         else s1 = s"
    and "s' = (if ledger
               then insert_balance_to_unbonding_ledger who w cooldown (block_number s)
                      (decrease_account_validator_delegate_stake who validator_id w n s1)
               else decrease_account_validator_delegate_stake who validator_id w n s1)"
proof -
  let ?w = "convert_to_balance n (ValidatorDelegateStakeShares s validator_id)
               (ValidatorDelegateStakeBalance s validator_id)"
  let ?cooldown = "DelegateStakeCooldownEpochs s * EpochLength cfg"
  note e = assms [unfolded perform_do_remove_validator_delegate_stake_def u128_to_balance_def Let_def
      get_current_block_as_u32_def get_last_tx_block_def option.case]
  have g: "n \<noteq> 0" "\<not> AccountValidatorDelegateStakeShares s (who, validator_id) < n"
    "\<not> exceeds_tx_rate_limit (LastTxBlock s who) (block_number s) s"
    using e by (simp_all split: if_split_asm)
  show thesis
  proof (cases ledger)
    case True
    obtain s1 r where p: "prepare_unbonding_ledger_entry cfg who ?w ?cooldown (block_number s) s = (s1, r)"
      by (cases "prepare_unbonding_ledger_entry cfg who ?w ?cooldown (block_number s) s") auto
    show thesis
    proof (cases r)
      case (Inl err)
      with e g True show thesis by (simp add: p)
    next
      case (Inr u)
      with e g True have "w = ?w" "m = n"
        and "s' = insert_balance_to_unbonding_ledger who ?w ?cooldown (block_number s)
                    (decrease_account_validator_delegate_stake who validator_id ?w n s1)" by (auto simp: p)
      with g True Inr p show thesis by (intro that [of ?cooldown s1]) (simp_all add: not_less)
    qed
  next
    case False
    with e g have "w = ?w" "m = n" "s' = decrease_account_validator_delegate_stake who validator_id ?w n s" by auto
    with g False show thesis by (intro that [of ?cooldown s]) (simp_all add: not_less)
  qed
qed

lemma do_remove_validator_delegate_stake_success:
  assumes "do_remove_validator_delegate_stake cfg origin validator_id n s = (s', Inr ())"
  obtains who s1 w m where "origin = Signed who"
    and "perform_do_remove_validator_delegate_stake cfg who validator_id n True s = (s1, Inr (), w, m)"
    and "s' = set_last_tx_block who (block_number s1) s1"
  using assms
  by (auto simp: do_remove_validator_delegate_stake_def ensure_signed_Inr get_current_block_as_u32_def Let_def
      split: call_splits)

lemma do_transfer_validator_delegate_stake_success:
  assumes "do_transfer_validator_delegate_stake origin validator_id to n s = (s', Inr ())"
  obtains who where "origin = Signed who" and "who \<noteq> to" and "n \<noteq> 0"
    and "MinDelegateStakeDeposit s \<le> convert_to_balance n (ValidatorDelegateStakeShares s validator_id)
           (ValidatorDelegateStakeBalance s validator_id)"
    and "s' = increase_account_validator_delegate_stake to validator_id 0 n
                (decrease_account_validator_delegate_stake who validator_id 0 n s)"
  using assms
  by (auto simp: do_transfer_validator_delegate_stake_def ensure_signed_Inr Let_def not_less split: call_splits)

end
