(* ===== verification/Swap_Queue.thy ===== *)
theory Swap_Queue
  imports Validator_Delegate_Staking
begin

text \<open>
  The swap queue (\<open>stake/staking_queue.rs\<close>, \<open>stake/transfer_utils.rs\<close> and the block hook's
  part of \<open>lib.rs\<close>): stake withdrawn from one pool waits in a bounded first-in first-out queue
  until its delay has passed, and is then deposited in the pool the queued call names.
\<close>

section \<open>Entering the queue\<close>

text \<open>The three writes both routines that queue a call end with.\<close>

definition enqueue_item ::
  "QueuedSwapItem \<Rightarrow> ('c, 'm) network_scheme \<Rightarrow> ('c, 'm) network_scheme" where
  "enqueue_item queued_item s =
     (let swap_id = NextSwapQueueId s;
          s = s\<lparr>SwapQueueOrder := SwapQueueOrder s @ [swap_id]\<rparr>;
          s = s\<lparr>SwapCallQueue := (SwapCallQueue s)(swap_id \<mapsto> queued_item)\<rparr>
      in s\<lparr>NextSwapQueueId := saturating_add (NextSwapQueueId s) 1\<rparr>)"

definition queue_swap ::
  "'c Config \<Rightarrow> account_id \<Rightarrow> QueuedSwapCall \<Rightarrow> ('c, 'm) network_scheme \<Rightarrow>
   (('c, 'm) network_scheme, unit) outcome"
where
  "queue_swap cfg account_id call s =
     (let swap_id = NextSwapQueueId s;
          queued_item = \<lparr>qs_id = swap_id, qs_call = call,
            qs_queued_at_block = get_current_block_as_u32 s,
            qs_execute_after_blocks = EpochLength cfg\<rparr> in
      if \<not> length (SwapQueueOrder s) < MaxSwapQueueLength cfg then (s, Inl SwapQueueFull)
      else (enqueue_item queued_item s, Inr ()))"

definition queue_to_subnet_delegate_stake ::
  "'c Config \<Rightarrow> account_id \<Rightarrow> u32 \<Rightarrow> u128 \<Rightarrow> ('c, 'm) network_scheme \<Rightarrow>
   (('c, 'm) network_scheme, unit) outcome"
where
  "queue_to_subnet_delegate_stake cfg account_id to_subnet_id balance s =
     (let call = SwapToSubnetDelegateStake account_id to_subnet_id balance;
          swap_id = NextSwapQueueId s;
          queued_item = \<lparr>qs_id = swap_id, qs_call = call,
            qs_queued_at_block = get_current_block_as_u32 s,
            qs_execute_after_blocks = EpochLength cfg\<rparr> in
      if \<not> length (SwapQueueOrder s) < MaxSwapQueueLength cfg then (s, Inl SwapQueueFull)
      else (enqueue_item queued_item s, Inr ()))"

definition do_update_swap_queue ::
  "account_id \<Rightarrow> u32 \<Rightarrow> QueuedSwapCall \<Rightarrow> ('c, 'm) network_scheme \<Rightarrow>
   (('c, 'm) network_scheme, unit) outcome"
where
  "do_update_swap_queue key swap_id new_call s =
     (case SwapCallQueue s swap_id of
        None \<Rightarrow> (s, Inl SwapCallNotFound)
      | Some item \<Rightarrow>
      let call_balance = get_queue_balance (qs_call item) in
      case new_call of
        SwapToSubnetDelegateStake account_id to_subnet_id _ \<Rightarrow>
          if account_id \<noteq> key then (s, Inl NotKeyOwner)
          else if SubnetsData s to_subnet_id = None then (s, Inl InvalidSubnetId)
          else
            let item = item\<lparr>qs_call := SwapToSubnetDelegateStake account_id to_subnet_id call_balance\<rparr>
            in (s\<lparr>SwapCallQueue := (SwapCallQueue s)(swap_id \<mapsto> item)\<rparr>, Inr ())
      | SwapToValidatorDelegateStake account_id to_validator_id _ \<Rightarrow>
          if account_id \<noteq> key then (s, Inl NotKeyOwner)
          else if ValidatorsData s to_validator_id = None then (s, Inl InvalidValidatorId)
          else
            let item = item\<lparr>qs_call := SwapToValidatorDelegateStake account_id to_validator_id call_balance\<rparr>
            in (s\<lparr>SwapCallQueue := (SwapCallQueue s)(swap_id \<mapsto> item)\<rparr>, Inr ()))"

section \<open>Swaps: withdraw, then queue\<close>

definition do_swap_delegate_stake ::
  "'c Config \<Rightarrow> RuntimeOrigin \<Rightarrow> u32 \<Rightarrow> u32 \<Rightarrow> u128 \<Rightarrow> ('c, 'm) network_scheme \<Rightarrow>
   (('c, 'm) network_scheme, unit) outcome"
where
  "do_swap_delegate_stake cfg origin from_subnet_id to_subnet_id delegate_stake_shares_to_swap s =
     (case ensure_signed origin of Inl e \<Rightarrow> (s, Inl e) | Inr account_id \<Rightarrow>
      case perform_do_remove_subnet_delegate_stake cfg account_id from_subnet_id
             delegate_stake_shares_to_swap False s of
        (s, Inl e, _, _) \<Rightarrow> (s, Inl e)
      | (s, Inr _, balance, _) \<Rightarrow>
          queue_swap cfg account_id (SwapToSubnetDelegateStake account_id to_subnet_id balance) s)"

definition do_swap_from_validator_to_subnet ::
  "'c Config \<Rightarrow> RuntimeOrigin \<Rightarrow> u32 \<Rightarrow> u32 \<Rightarrow> u128 \<Rightarrow> ('c, 'm) network_scheme \<Rightarrow>
   (('c, 'm) network_scheme, unit) outcome"
where
  "do_swap_from_validator_to_subnet cfg origin from_validator_id to_subnet_id
       delegate_stake_shares_to_swap s =
     (case ensure_signed origin of Inl e \<Rightarrow> (s, Inl e) | Inr account_id \<Rightarrow>
      case perform_do_remove_validator_delegate_stake cfg account_id from_validator_id
             delegate_stake_shares_to_swap False s of
        (s, Inl e, _, _) \<Rightarrow> (s, Inl e)
      | (s, Inr _, balance, _) \<Rightarrow>
          queue_swap cfg account_id (SwapToSubnetDelegateStake account_id to_subnet_id balance) s)"

definition do_swap_from_subnet_to_validator ::
  "'c Config \<Rightarrow> RuntimeOrigin \<Rightarrow> u32 \<Rightarrow> u32 \<Rightarrow> u128 \<Rightarrow> ('c, 'm) network_scheme \<Rightarrow>
   (('c, 'm) network_scheme, unit) outcome"
where
  "do_swap_from_subnet_to_validator cfg origin from_subnet_id to_validator_id
       delegate_stake_shares_to_swap s =
     (case ensure_signed origin of Inl e \<Rightarrow> (s, Inl e) | Inr account_id \<Rightarrow>
      case perform_do_remove_subnet_delegate_stake cfg account_id from_subnet_id
             delegate_stake_shares_to_swap False s of
        (s, Inl e, _, _) \<Rightarrow> (s, Inl e)
      | (s, Inr _, balance, _) \<Rightarrow>
          queue_swap cfg account_id (SwapToValidatorDelegateStake account_id to_validator_id balance) s)"

definition do_swap_from_subnet_to_subnet ::
  "'c Config \<Rightarrow> RuntimeOrigin \<Rightarrow> u32 \<Rightarrow> u32 \<Rightarrow> u128 \<Rightarrow> ('c, 'm) network_scheme \<Rightarrow>
   (('c, 'm) network_scheme, unit) outcome"
where
  "do_swap_from_subnet_to_subnet cfg origin from_subnet_id to_subnet_id
       delegate_stake_shares_to_swap s =
     (case ensure_signed origin of Inl e \<Rightarrow> (s, Inl e) | Inr account_id \<Rightarrow>
      case perform_do_remove_subnet_delegate_stake cfg account_id from_subnet_id
             delegate_stake_shares_to_swap False s of
        (s, Inl e, _, _) \<Rightarrow> (s, Inl e)
      | (s, Inr _, balance, _) \<Rightarrow>
          queue_swap cfg account_id (SwapToSubnetDelegateStake account_id to_subnet_id balance) s)"

definition do_swap_from_validator_to_validator ::
  "'c Config \<Rightarrow> RuntimeOrigin \<Rightarrow> u32 \<Rightarrow> u32 \<Rightarrow> u128 \<Rightarrow> ('c, 'm) network_scheme \<Rightarrow>
   (('c, 'm) network_scheme, unit) outcome"
where
  "do_swap_from_validator_to_validator cfg origin from_validator_id to_validator_id
       delegate_stake_shares_to_swap s =
     (case ensure_signed origin of Inl e \<Rightarrow> (s, Inl e) | Inr account_id \<Rightarrow>
      case perform_do_remove_validator_delegate_stake cfg account_id from_validator_id
             delegate_stake_shares_to_swap False s of
        (s, Inl e, _, _) \<Rightarrow> (s, Inl e)
      | (s, Inr _, balance, _) \<Rightarrow>
          queue_swap cfg account_id (SwapToValidatorDelegateStake account_id to_validator_id balance) s)"

section \<open>Leaving the queue\<close>

text \<open>
  The weight meter of the framework, the database weights and the generated weight of a deposit
  are parameters.
\<close>

record ('w, 'k) Weights =
  db_reads :: "nat \<Rightarrow> 'k"
  db_writes :: "nat \<Rightarrow> 'k"
  db_reads_writes :: "nat \<Rightarrow> nat \<Rightarrow> 'k"
  from_parts :: "u64 \<Rightarrow> u64 \<Rightarrow> 'k"
  handle_increase_weight :: 'k
  consume :: "'k \<Rightarrow> 'w \<Rightarrow> 'w"
  can_consume :: "'k \<Rightarrow> 'w \<Rightarrow> bool"

definition execute_swap_call_internal ::
  "('w, 'k) Weights \<Rightarrow> QueuedSwapCall \<Rightarrow> 'w \<Rightarrow> ('c, 'm) network_scheme \<Rightarrow>
   ('c, 'm) network_scheme \<times> 'w \<times> bool"
where
  "execute_swap_call_internal W queued_call weight_meter s =
     (case queued_call of
        SwapToSubnetDelegateStake account_id to_subnet_id balance \<Rightarrow>
          if \<not> can_consume W (handle_increase_weight W) weight_meter then (s, weight_meter, False)
          else
            let weight_meter = consume W (handle_increase_weight W) weight_meter;
                (s, _, _, _) = handle_increase_account_delegate_stake account_id to_subnet_id balance s
            in (s, weight_meter, True)
      | SwapToValidatorDelegateStake account_id to_validator_id balance \<Rightarrow>
          if \<not> can_consume W (handle_increase_weight W) weight_meter then (s, weight_meter, False)
          else
            let (s, _, _, _) =
                  handle_increase_account_validator_delegate_stake account_id to_validator_id balance s
            in (s, weight_meter, True))"

text \<open>Removing the executed call from the head of the queue.\<close>

definition dequeue_head :: "('c, 'm) network_scheme \<Rightarrow> ('c, 'm) network_scheme" where
  "dequeue_head s =
     (case SwapQueueOrder s of
        [] \<Rightarrow> s
      | first_id # queue \<Rightarrow>
          s\<lparr>SwapQueueOrder := queue, SwapCallQueue := (SwapCallQueue s)(first_id := None)\<rparr>)"

text \<open>
  One turn of the loop of the block hook: the closure run on the queue order, which says
  whether to go on.
\<close>

definition execute_head ::
  "('w, 'k) Weights \<Rightarrow> u32 \<Rightarrow> 'w \<Rightarrow> ('c, 'm) network_scheme \<Rightarrow>
   ('c, 'm) network_scheme \<times> 'w \<times> bool"
where
  "execute_head W block weight_meter s =
     (case SwapQueueOrder s of
        [] \<Rightarrow> (s, weight_meter, False)
      | first_id # queue \<Rightarrow>
      let weight_meter = consume W (db_reads W 1) weight_meter in
      case SwapCallQueue s first_id of
        None \<Rightarrow> (s, weight_meter, False)
      | Some item \<Rightarrow>
      let blocks_passed = saturating_sub block (qs_queued_at_block item) in
      if blocks_passed \<ge> qs_execute_after_blocks item then
        case execute_swap_call_internal W (qs_call item) weight_meter s of
          (s, weight_meter, is_ok) \<Rightarrow>
          if \<not> is_ok then (s, weight_meter, False)
          else (dequeue_head s, consume W (db_writes W 1) weight_meter, True)
      else (s, weight_meter, False))"

text \<open>The loop runs while \<open>executed < max_executions\<close>; \<open>n\<close> is what is left of that bound.\<close>

fun execute_loop ::
  "('w, 'k) Weights \<Rightarrow> u32 \<Rightarrow> nat \<Rightarrow> 'w \<Rightarrow> ('c, 'm) network_scheme \<Rightarrow> ('c, 'm) network_scheme \<times> 'w"
where
  "execute_loop W block 0 weight_meter s = (s, weight_meter)"
| "execute_loop W block (Suc n) weight_meter s =
     (let weight_meter = consume W (from_parts W 1000 0) weight_meter;
          weight_meter = consume W (db_reads_writes W 1 1) weight_meter
      in case execute_head W block weight_meter s of
           (s, weight_meter, should_continue) \<Rightarrow>
             if \<not> should_continue then (s, weight_meter)
             else execute_loop W block n weight_meter s)"

definition execute_ready_swap_calls ::
  "('w, 'k) Weights \<Rightarrow> u32 \<Rightarrow> 'w \<Rightarrow> ('c, 'm) network_scheme \<Rightarrow> ('c, 'm) network_scheme \<times> 'w" where
  "execute_ready_swap_calls W block weight_meter s =
     (let max_executions = MaxSwapQueueCallsPerBlock s;
          weight_meter = consume W (db_reads W 1) weight_meter
      in execute_loop W block (unat max_executions) weight_meter s)"

section \<open>The queue as a list of items\<close>

text \<open>
  A queue kept as an order of identifiers beside a map from identifiers to items implements the
  plain list of pending items.
\<close>

locale id_queue =
  fixes order :: "'s \<Rightarrow> u32 list"
    and item :: "'s \<Rightarrow> u32 \<Rightarrow> 'i option"
    and next_id :: "'s \<Rightarrow> u32"
    and push :: "'i \<Rightarrow> 's \<Rightarrow> 's"
    and pop :: "'s \<Rightarrow> 's"
    and edit :: "u32 \<Rightarrow> 'i \<Rightarrow> 's \<Rightarrow> 's"
  assumes order_push: "order (push x s) = order s @ [next_id s]"
    and item_push: "item (push x s) = (item s)(next_id s \<mapsto> x)"
    and next_push: "next_id (push x s) = saturating_add (next_id s) 1"
    and order_pop: "order (pop s) = tl (order s)"
    and item_pop: "order s \<noteq> [] \<Longrightarrow> item (pop s) = (item s)(hd (order s) := None)"
    and next_pop: "next_id (pop s) = next_id s"
    and order_edit: "order (edit i x s) = order s"
    and item_edit: "item (edit i x s) = (item s)(i \<mapsto> x)"
    and next_edit: "next_id (edit i x s) = next_id s"
begin

definition wf :: "'s \<Rightarrow> bool" where
  "wf s \<longleftrightarrow> distinct (order s) \<and> dom (item s) = set (order s) \<and> (\<forall>i\<in>set (order s). i < next_id s)"

definition pending :: "'s \<Rightarrow> 'i list" where
  "pending s = map (\<lambda>i. the (item s i)) (order s)"

lemma wf_push:
  assumes "wf s" and "next_id s \<noteq> - 1"
  shows "wf (push x s)" and "pending (push x s) = pending s @ [x]"
proof -
  have fresh: "next_id s \<notin> set (order s)"
    using assms(1) by (auto simp: wf_def)
  have n: "unat (next_id s) + 1 < 2 ^ 32"
    using assms(2) unat_lt_exp [of "next_id s"] by (simp add: word_unat_eq_iff unat_max_word)
  have "next_id s < saturating_add (next_id s) 1"
    using n by (simp add: word_less_nat_alt unat_saturating_add)
  then show "wf (push x s)"
    using assms(1) fresh by (auto simp: wf_def order_push item_push next_push)
  show "pending (push x s) = pending s @ [x]"
    using fresh by (auto simp: pending_def order_push item_push)
qed

lemma wf_pop:
  assumes "wf s" and "order s \<noteq> []"
  shows "wf (pop s)" and "pending (pop s) = tl (pending s)"
proof -
  obtain i ids where o: "order s = i # ids" using assms(2) by (cases "order s") auto
  then have "i \<notin> set ids" using assms(1) by (simp add: wf_def)
  with o assms show "wf (pop s)" and "pending (pop s) = tl (pending s)"
    by (auto simp: wf_def pending_def order_pop item_pop next_pop)
qed

lemma wf_edit:
  assumes "wf s" and "k < length (order s)" and "order s ! k = i"
  shows "wf (edit i x s)" and "pending (edit i x s) = (pending s)[k := x]"
proof -
  show "wf (edit i x s)"
    using assms by (auto simp: wf_def order_edit item_edit next_edit)
  show "pending (edit i x s) = (pending s)[k := x]"
    using assms
    by (intro nth_equalityI)
      (auto simp: pending_def order_edit item_edit nth_list_update wf_def nth_eq_iff_index_eq)
qed

lemma head_pending:
  assumes "wf s" and "order s = i # ids"
  obtains x where "item s i = Some x" and "pending s = x # map (\<lambda>i. the (item s i)) ids"
proof -
  have "i \<in> dom (item s)" using assms by (simp add: wf_def)
  then obtain x where "item s i = Some x" by auto
  then show thesis using assms(2) by (intro that [of x]) (simp_all add: pending_def)
qed

end

interpretation swap_queue: id_queue
  SwapQueueOrder SwapCallQueue NextSwapQueueId enqueue_item dequeue_head
  "\<lambda>i x s. s\<lparr>SwapCallQueue := (SwapCallQueue s)(i \<mapsto> x)\<rparr>"
  by unfold_locales (auto simp: enqueue_item_def dequeue_head_def Let_def split: list.splits)

abbreviation swap_queue_ok :: "('c, 'm) network_scheme \<Rightarrow> bool" where
  "swap_queue_ok \<equiv> swap_queue.wf"

abbreviation pending_swaps :: "('c, 'm) network_scheme \<Rightarrow> QueuedSwapItem list" where
  "pending_swaps \<equiv> swap_queue.pending"

section \<open>Queueing and updating refine the list\<close>

definition new_swap_item ::
  "'c Config \<Rightarrow> QueuedSwapCall \<Rightarrow> ('c, 'm) network_scheme \<Rightarrow> QueuedSwapItem" where
  "new_swap_item cfg call s =
     \<lparr>qs_id = NextSwapQueueId s, qs_call = call, qs_queued_at_block = block_number s,
      qs_execute_after_blocks = EpochLength cfg\<rparr>"

lemma queue_swap_eq:
  "queue_swap cfg who call s =
     (if length (SwapQueueOrder s) < MaxSwapQueueLength cfg
      then (enqueue_item (new_swap_item cfg call s) s, Inr ()) else (s, Inl SwapQueueFull))"
  by (simp add: queue_swap_def new_swap_item_def get_current_block_as_u32_def Let_def)

lemma queue_to_subnet_delegate_stake_eq:
  "queue_to_subnet_delegate_stake cfg who subnet_id balance s =
     queue_swap cfg who (SwapToSubnetDelegateStake who subnet_id balance) s"
  by (simp add: queue_to_subnet_delegate_stake_def queue_swap_def Let_def)

text \<open>The call an update leaves behind: the new target with the balance that was queued.\<close>

fun redirect :: "QueuedSwapCall \<Rightarrow> u128 \<Rightarrow> QueuedSwapCall" where
  "redirect (SwapToSubnetDelegateStake who subnet_id _) balance =
     SwapToSubnetDelegateStake who subnet_id balance"
| "redirect (SwapToValidatorDelegateStake who validator_id _) balance =
     SwapToValidatorDelegateStake who validator_id balance"

fun call_account :: "QueuedSwapCall \<Rightarrow> account_id" where
  "call_account (SwapToSubnetDelegateStake who _ _) = who"
| "call_account (SwapToValidatorDelegateStake who _ _) = who"

fun call_target_exists :: "('c, 'm) network_scheme \<Rightarrow> QueuedSwapCall \<Rightarrow> bool" where
  "call_target_exists s (SwapToSubnetDelegateStake _ subnet_id _) = (SubnetsData s subnet_id \<noteq> None)"
| "call_target_exists s (SwapToValidatorDelegateStake _ validator_id _) =
     (ValidatorsData s validator_id \<noteq> None)"

lemma get_queue_balance_redirect [simp]: "get_queue_balance (redirect call balance) = balance"
  by (cases call) auto

lemma do_update_swap_queue_success:
  "do_update_swap_queue who i call s = (s', Inr ()) \<longleftrightarrow>
     call_account call = who \<and> call_target_exists s call \<and>
     (\<exists>it. SwapCallQueue s i = Some it \<and>
        s' = s\<lparr>SwapCallQueue := (SwapCallQueue s)(i \<mapsto>
               it\<lparr>qs_call := redirect call (get_queue_balance (qs_call it))\<rparr>)\<rparr>)"
  by (cases call) (auto simp: do_update_swap_queue_def Let_def split: option.splits)

section \<open>What the block hook executes\<close>

text \<open>The deposit of a queued call, whatever its outcome.\<close>

fun deliver_swap :: "QueuedSwapCall \<Rightarrow> ('c, 'm) network_scheme \<Rightarrow> ('c, 'm) network_scheme" where
  "deliver_swap (SwapToSubnetDelegateStake who subnet_id balance) s =
     fst (handle_increase_account_delegate_stake who subnet_id balance s)"
| "deliver_swap (SwapToValidatorDelegateStake who validator_id balance) s =
     fst (handle_increase_account_validator_delegate_stake who validator_id balance s)"

definition swap_ready :: "u32 \<Rightarrow> QueuedSwapItem \<Rightarrow> bool" where
  "swap_ready block it \<longleftrightarrow> qs_execute_after_blocks it \<le> saturating_sub block (qs_queued_at_block it)"

lemma deliver_frame [simp]:
  "SwapQueueOrder (deliver_swap call s) = SwapQueueOrder s"
  "SwapCallQueue (deliver_swap call s) = SwapCallQueue s"
  "NextSwapQueueId (deliver_swap call s) = NextSwapQueueId s"
  by (cases call; simp add: handle_increase_account_delegate_stake_def
      handle_increase_account_validator_delegate_stake_def increase_account_delegate_stake_def
      increase_account_validator_delegate_stake_def mint_subnet_dead_shares_def
      mint_validator_dead_shares_def Let_def)+

text \<open>What executing a call charges: the deposit in a validator's pool is not metered.\<close>

fun charge :: "('w, 'k) Weights \<Rightarrow> QueuedSwapCall \<Rightarrow> 'w \<Rightarrow> 'w" where
  "charge W (SwapToSubnetDelegateStake _ _ _) w = consume W (handle_increase_weight W) w"
| "charge W (SwapToValidatorDelegateStake _ _ _) w = w"

lemma execute_swap_call_internal_eq:
  "execute_swap_call_internal W call w s =
     (if can_consume W (handle_increase_weight W) w then (deliver_swap call s, charge W call w, True)
      else (s, w, False))"
  by (cases call) (auto simp: execute_swap_call_internal_def Let_def split: prod.splits)

lemma execute_head_True:
  assumes "execute_head W block w s = (s', w', True)"
  obtains i ids it where "SwapQueueOrder s = i # ids" and "SwapCallQueue s i = Some it"
    and "swap_ready block it" and "s' = dequeue_head (deliver_swap (qs_call it) s)"
proof -
  obtain i ids it where o: "SwapQueueOrder s = i # ids" "SwapCallQueue s i = Some it"
    and r: "swap_ready block it"
    using assms by (auto simp: execute_head_def swap_ready_def Let_def split: list.splits call_splits)
  have "s' = dequeue_head (deliver_swap (qs_call it) s)"
    using assms o r by (auto simp: execute_head_def swap_ready_def execute_swap_call_internal_eq Let_def split: if_splits)
  with o r show thesis by (rule that)
qed

lemma execute_head_False:
  assumes "execute_head W block w s = (s', w', False)"
  shows "s' = s"
    and "(\<And>k m. can_consume W k m) \<Longrightarrow> swap_queue_ok s \<Longrightarrow> SwapQueueOrder s = i # ids \<Longrightarrow>
         \<not> swap_ready block (the (SwapCallQueue s i))"
proof -
  have "s' = s \<and> ((\<forall>k m. can_consume W k m) \<longrightarrow> swap_queue_ok s \<longrightarrow> SwapQueueOrder s = i # ids \<longrightarrow>
         \<not> swap_ready block (the (SwapCallQueue s i)))" for i ids
  proof (cases "SwapQueueOrder s")
    case Nil
    with assms show ?thesis by (simp add: execute_head_def)
  next
    case (Cons j js)
    show ?thesis
    proof (cases "SwapCallQueue s j")
      case None
      then have "j \<notin> dom (SwapCallQueue s)" by auto
      with Cons None assms show ?thesis
        by (auto simp: execute_head_def swap_queue.wf_def Let_def)
    next
      case (Some it)
      from Cons Some assms show ?thesis
        by (auto simp: execute_head_def execute_swap_call_internal_eq swap_ready_def Let_def split: if_splits)
    qed
  qed
  then show "s' = s" and "(\<And>k m. can_consume W k m) \<Longrightarrow> swap_queue_ok s \<Longrightarrow> SwapQueueOrder s = i # ids \<Longrightarrow>
         \<not> swap_ready block (the (SwapCallQueue s i))"
    by blast+
qed

lemma deliver_queue [simp]:
  "swap_queue_ok (deliver_swap call s) = swap_queue_ok s"
  "pending_swaps (deliver_swap call s) = pending_swaps s"
  by (simp_all add: swap_queue.wf_def swap_queue.pending_def)

text \<open>Whatever every executed call keeps, the hook keeps.\<close>

lemma execute_loop_inv:
  assumes "P s"
    and step: "\<And>s i ids it. P s \<Longrightarrow> SwapQueueOrder s = i # ids \<Longrightarrow> SwapCallQueue s i = Some it \<Longrightarrow>
      swap_ready block it \<Longrightarrow> P (dequeue_head (deliver_swap (qs_call it) s))"
  shows "P (fst (execute_loop W block n w s))"
  using assms(1)
proof (induction n arbitrary: w s)
  case (Suc n)
  obtain s1 w1 go where h: "execute_head W block
      (consume W (db_reads_writes W 1 1) (consume W (from_parts W 1000 0) w)) s = (s1, w1, go)"
    by (metis prod_cases3)
  show ?case
  proof (cases go)
    case True
    with h have "P s1" using Suc.prems step by (metis execute_head_True)
    with Suc.IH True h show ?thesis by (simp add: Let_def)
  next
    case False
    then have h': "execute_head W block
        (consume W (db_reads_writes W 1 1) (consume W (from_parts W 1000 0) w)) s = (s1, w1, False)"
      using h by simp
    then have "s1 = s" by (rule execute_head_False(1))
    with h' Suc.prems show ?thesis by (simp add: Let_def)
  qed
qed simp

lemma execute_loop_fifo:
  assumes "swap_queue_ok s"
  shows "swap_queue_ok (fst (execute_loop W block n w s)) \<and>
    (\<exists>executed. pending_swaps s = executed @ pending_swaps (fst (execute_loop W block n w s)) \<and>
       length executed \<le> n \<and> (\<forall>it\<in>set executed. swap_ready block it) \<and>
       ((\<forall>k m. can_consume W k m) \<longrightarrow> length executed = n \<or>
          (case pending_swaps (fst (execute_loop W block n w s)) of
             [] \<Rightarrow> True | it # _ \<Rightarrow> \<not> swap_ready block it)))"
  using assms
proof (induction n arbitrary: w s)
  case (Suc n)
  obtain s1 w1 go where h: "execute_head W block
      (consume W (db_reads_writes W 1 1) (consume W (from_parts W 1000 0) w)) s = (s1, w1, go)"
    by (metis prod_cases3)
  show ?case
  proof (cases go)
    case True
    with h obtain i ids it where o: "SwapQueueOrder s = i # ids" "SwapCallQueue s i = Some it"
      "swap_ready block it" and s1: "s1 = dequeue_head (deliver_swap (qs_call it) s)"
      by (metis execute_head_True)
    obtain rest where p: "pending_swaps s = it # rest"
      using swap_queue.head_pending [OF Suc.prems o(1)] o(2) by force
    have "swap_queue_ok s1" and "pending_swaps s1 = rest"
      using swap_queue.wf_pop [of "deliver_swap (qs_call it) s"] Suc.prems o(1) p
      by (simp_all add: s1)
    with Suc.IH [of s1 w1] obtain executed where
      e: "swap_queue_ok (fst (execute_loop W block n w1 s1))"
      "rest = executed @ pending_swaps (fst (execute_loop W block n w1 s1))"
      "length executed \<le> n" "\<forall>it\<in>set executed. swap_ready block it"
      "(\<forall>k m. can_consume W k m) \<longrightarrow> length executed = n \<or>
          (case pending_swaps (fst (execute_loop W block n w1 s1)) of
             [] \<Rightarrow> True | it # _ \<Rightarrow> \<not> swap_ready block it)"
      by blast
    have "execute_loop W block (Suc n) w s = execute_loop W block n w1 s1"
      using h True by (simp add: Let_def)
    with e p o(3) show ?thesis
      by (intro conjI exI [of _ "it # executed"]) auto
  next
    case False
    then have h': "execute_head W block
        (consume W (db_reads_writes W 1 1) (consume W (from_parts W 1000 0) w)) s = (s1, w1, False)"
      using h by simp
    note execute_head_False(1) [OF h']
    with h' have r: "execute_loop W block (Suc n) w s = (s, w1)" by (simp add: Let_def)
    have "case pending_swaps s of [] \<Rightarrow> True | it # _ \<Rightarrow> \<not> swap_ready block it"
      if "\<forall>k m. can_consume W k m"
      using execute_head_False(2) [OF h'] Suc.prems that
      by (cases "SwapQueueOrder s") (simp_all add: swap_queue.pending_def)
    with Suc.prems show ?thesis unfolding r by (intro conjI exI [of _ "[]"]) auto
  qed
qed simp

end
