(* ===== verification/Node_Staking.thy ===== *)
theory Node_Staking
  imports Unbonding
begin

text \<open>
  Stake that subnet nodes bond in their subnet (\<open>stake/node_staking.rs\<close>): the owner of the
  validator behind a node adds to it within the subnet's limits, and removes it through the
  unbonding ledger.
\<close>

section \<open>The operations\<close>

definition increase_node_stake ::
  "u32 \<Rightarrow> u32 \<Rightarrow> u128 \<Rightarrow> ('c, 'm) network_scheme \<Rightarrow> ('c, 'm) network_scheme" where
  "increase_node_stake subnet_node_id subnet_id amount s =
     s\<lparr>NodeSubnetStake := (NodeSubnetStake s)((subnet_node_id, subnet_id) :=
         saturating_add (NodeSubnetStake s (subnet_node_id, subnet_id)) amount),
       TotalSubnetStake := (TotalSubnetStake s)(subnet_id :=
         saturating_add (TotalSubnetStake s subnet_id) amount),
       TotalStake := saturating_add (TotalStake s) amount\<rparr>"

definition decrease_node_stake ::
  "u32 \<Rightarrow> u32 \<Rightarrow> u128 \<Rightarrow> ('c, 'm) network_scheme \<Rightarrow> ('c, 'm) network_scheme" where
  "decrease_node_stake subnet_node_id subnet_id amount s =
     s\<lparr>NodeSubnetStake := (NodeSubnetStake s)((subnet_node_id, subnet_id) :=
         saturating_sub (NodeSubnetStake s (subnet_node_id, subnet_id)) amount),
       TotalSubnetStake := (TotalSubnetStake s)(subnet_id :=
         saturating_sub (TotalSubnetStake s subnet_id) amount),
       TotalStake := saturating_sub (TotalStake s) amount\<rparr>"

definition clean_validator_subnet_nodes ::
  "u32 \<Rightarrow> ('c, 'm) network_scheme \<Rightarrow> ('c, 'm) network_scheme" where
  "clean_validator_subnet_nodes validator_id s =
     (let nodes = ValidatorSubnetNodes s validator_id;
          subnets_to_remove = filter (\<lambda>subnet_id. \<not> subnet_exists subnet_id s) (map fst nodes)
      in s\<lparr>ValidatorSubnetNodes := (ValidatorSubnetNodes s)(validator_id :=
             fold btree_remove subnets_to_remove nodes)\<rparr>)"

definition do_add_node_stake ::
  "'c Config \<Rightarrow> RuntimeOrigin \<Rightarrow> u32 \<Rightarrow> u32 \<Rightarrow> u128 \<Rightarrow> ('c, 'm) network_scheme \<Rightarrow>
   (('c, 'm) network_scheme, unit) outcome"
where
  "do_add_node_stake cfg origin subnet_id subnet_node_id stake_to_be_added s =
     (case ensure_signed origin of Inl e \<Rightarrow> (s, Inl e) | Inr coldkey \<Rightarrow>
      if SubnetsData s subnet_id = None then (s, Inl InvalidSubnetId)
      else case SubnetNodeValidatorId s (subnet_id, subnet_node_id) of
        None \<Rightarrow> (s, Inl InvalidSubnetNodeId)
      | Some validator_id \<Rightarrow>
      case ValidatorColdkey s validator_id of
        None \<Rightarrow> (s, Inl InvalidValidatorId)
      | Some validator_coldkey \<Rightarrow>
      if coldkey \<noteq> validator_coldkey then (s, Inl NotKeyOwner)
      else if stake_to_be_added = 0 then (s, Inl InvalidAmount)
      else case u128_to_balance stake_to_be_added of
        None \<Rightarrow> (s, Inl CouldNotConvertToBalance)
      | Some balance \<Rightarrow>
      let node_stake_balance = NodeSubnetStake s (subnet_node_id, subnet_id) in
      if saturating_add node_stake_balance stake_to_be_added < SubnetMinStakeBalance s subnet_id
      then (s, Inl MinStakeNotReached)
      else if saturating_add node_stake_balance stake_to_be_added > SubnetMaxStakeBalance s subnet_id
      then (s, Inl MaxStakeReached)
      else if \<not> can_remove_balance_from_coldkey_account cfg coldkey balance s
      then (s, Inl NotEnoughBalanceToStake)
      else
      let block = get_current_block_as_u32 s in
      if exceeds_tx_rate_limit (get_last_tx_block coldkey s) block s
      then (s, Inl TxRateLimitExceeded)
      else
      let (s, removed) = remove_balance_from_coldkey_account cfg coldkey balance s in
      if \<not> removed then (s, Inl BalanceWithdrawalError)
      else
      let s = increase_node_stake subnet_node_id subnet_id stake_to_be_added s;
          s = set_last_tx_block coldkey block s
      in (s, Inr ()))"

definition do_remove_node_stake ::
  "'c Config \<Rightarrow> RuntimeOrigin \<Rightarrow> u32 \<Rightarrow> u32 \<Rightarrow> u128 \<Rightarrow> ('c, 'm) network_scheme \<Rightarrow>
   (('c, 'm) network_scheme, unit) outcome"
where
  "do_remove_node_stake cfg origin subnet_id subnet_node_id stake_to_be_removed s =
     (case ensure_signed origin of Inl e \<Rightarrow> (s, Inl e) | Inr coldkey \<Rightarrow>
      case SubnetNodeValidatorId s (subnet_id, subnet_node_id) of
        None \<Rightarrow> (s, Inl InvalidSubnetNodeId)
      | Some validator_id \<Rightarrow>
      case ValidatorColdkey s validator_id of
        None \<Rightarrow> (s, Inl InvalidValidatorId)
      | Some validator_coldkey \<Rightarrow>
      if coldkey \<noteq> validator_coldkey then (s, Inl NotKeyOwner)
      else
      let is_subnet_node = (SubnetNodeReputation s (subnet_id, subnet_node_id) \<noteq> None);
          node_stake_balance = NodeSubnetStake s (subnet_node_id, subnet_id) in
      if \<not> stake_to_be_removed > 0 then (s, Inl AmountZero)
      else if node_stake_balance < stake_to_be_removed then (s, Inl NotEnoughStakeToWithdraw)
      else if is_subnet_node
              \<and> saturating_sub node_stake_balance stake_to_be_removed < SubnetMinStakeBalance s subnet_id
      then (s, Inl MinStakeNotReached)
      else
      let should_clean_validator_subnet_nodes =
            (\<not> is_subnet_node \<and> stake_to_be_removed \<ge> node_stake_balance) in
      case u128_to_balance stake_to_be_removed of
        None \<Rightarrow> (s, Inl CouldNotConvertToBalance)
      | Some _ \<Rightarrow>
      let block = get_current_block_as_u32 s in
      if exceeds_tx_rate_limit (get_last_tx_block coldkey s) block s
      then (s, Inl TxRateLimitExceeded)
      else
      let cooldown_blocks = StakeCooldownEpochs s * EpochLength cfg in
      case prepare_unbonding_ledger_entry cfg coldkey stake_to_be_removed cooldown_blocks block s of
        (s, Inl e) \<Rightarrow> (s, Inl e)
      | (s, Inr _) \<Rightarrow>
      let s = (if should_clean_validator_subnet_nodes
               then clean_validator_subnet_nodes validator_id s else s);
          s = decrease_node_stake subnet_node_id subnet_id stake_to_be_removed s;
          s = insert_balance_to_unbonding_ledger coldkey stake_to_be_removed cooldown_blocks block s;
          s = set_last_tx_block coldkey block s
      in (s, Inr ()))"

section \<open>Node stake as a bonded book\<close>

text \<open>
  The same updates keep two books: the stake of all nodes against the network total, and, for
  each subnet, the stake of its nodes against the subnet total.
\<close>

interpretation node_stake: stake_book
  NodeSubnetStake TotalStake
  "\<lambda>k. increase_node_stake (fst k) (snd k)" "\<lambda>k. decrease_node_stake (fst k) (snd k)"
  by unfold_locales (auto simp: increase_node_stake_def decrease_node_stake_def)

interpretation subnet_stake: stake_book
  "\<lambda>s n. NodeSubnetStake s (n, subnet_id)" "\<lambda>s. TotalSubnetStake s subnet_id"
  "\<lambda>n. increase_node_stake n subnet_id" "\<lambda>n. decrease_node_stake n subnet_id"
  for subnet_id
  by unfold_locales (auto simp: increase_node_stake_def decrease_node_stake_def)

interpretation bonded_node: bonded_stake
  NodeSubnetStake TotalStake
  "\<lambda>k. increase_node_stake (fst k) (snd k)" "\<lambda>k. decrease_node_stake (fst k) (snd k)"
  "ledger_valid cfg ok" owed "cash_of cfg"
  "\<lambda>who. prepare_unbonding_ledger_entry cfg who amt cooldown block"
  "\<lambda>who a. insert_balance_to_unbonding_ledger who a cooldown block"
  for cfg :: "'c Config" and ok amt cooldown block
proof (unfold_locales, goal_cases)
  case (1 k a s)
  show ?case by (rule ledger_valid_cong(1)) (simp_all add: decrease_node_stake_def)
next
  case (2 k a s)
  show ?case by (rule ledger_valid_cong(2)) (simp_all add: decrease_node_stake_def)
next
  case (3 k a s)
  show ?case by (simp add: cash_of_def decrease_node_stake_def)
next
  case (4 who s s' r)
  then show ?case using prepare_frame by fastforce
next
  case (5 who a s)
  show ?case by (simp add: insert_balance_to_unbonding_ledger_def Let_def)
qed

section \<open>What a successful call did\<close>

lemma do_add_node_stake_success:
  assumes "do_add_node_stake cfg origin subnet_id node_id a s = (s', Inr ())"
  obtains coldkey validator_id c where "origin = Signed coldkey"
    and "SubnetsData s subnet_id \<noteq> None"
    and "SubnetNodeValidatorId s (subnet_id, node_id) = Some validator_id"
    and "ValidatorColdkey s validator_id = Some coldkey"
    and "a \<noteq> 0"
    and "SubnetMinStakeBalance s subnet_id \<le> saturating_add (NodeSubnetStake s (node_id, subnet_id)) a"
    and "saturating_add (NodeSubnetStake s (node_id, subnet_id)) a \<le> SubnetMaxStakeBalance s subnet_id"
    and "\<not> exceeds_tx_rate_limit (LastTxBlock s coldkey) (block_number s) s"
    and "withdraw (Cur cfg) (balances s) coldkey a = Some c"
    and "s' = set_last_tx_block coldkey (block_number s)
                (increase_node_stake node_id subnet_id a (s\<lparr>balances := c\<rparr>))"
  using assms
  by (auto simp: do_add_node_stake_def Let_def ensure_signed_Inr remove_balance_True
      u128_to_balance_def get_current_block_as_u32_def get_last_tx_block_def not_less
      split: call_splits)

lemma do_remove_node_stake_success:
  assumes "do_remove_node_stake cfg origin subnet_id node_id a s = (s', Inr ())"
  obtains coldkey validator_id s1 where "origin = Signed coldkey"
    and "SubnetNodeValidatorId s (subnet_id, node_id) = Some validator_id"
    and "ValidatorColdkey s validator_id = Some coldkey"
    and "a \<noteq> 0" and "a \<le> NodeSubnetStake s (node_id, subnet_id)"
    and "SubnetNodeReputation s (subnet_id, node_id) \<noteq> None \<Longrightarrow>
           SubnetMinStakeBalance s subnet_id \<le> saturating_sub (NodeSubnetStake s (node_id, subnet_id)) a"
    and "\<not> exceeds_tx_rate_limit (LastTxBlock s coldkey) (block_number s) s"
    and "prepare_unbonding_ledger_entry cfg coldkey a (StakeCooldownEpochs s * EpochLength cfg)
           (block_number s) s = (s1, Inr ())"
    and "s' = set_last_tx_block coldkey (block_number s)
                (insert_balance_to_unbonding_ledger coldkey a
                  (StakeCooldownEpochs s * EpochLength cfg) (block_number s)
                  (decrease_node_stake node_id subnet_id a
                    (if SubnetNodeReputation s (subnet_id, node_id) = None
                        \<and> NodeSubnetStake s (node_id, subnet_id) \<le> a
                     then clean_validator_subnet_nodes validator_id s1 else s1)))"
  using assms
  by (auto simp: do_remove_node_stake_def Let_def ensure_signed_Inr u128_to_balance_def
      get_current_block_as_u32_def get_last_tx_block_def not_less
      split: call_splits)

end
