(* ===== verification/Overwatch_Staking.thy ===== *)
theory Overwatch_Staking
  imports Unbonding
begin

text \<open>
  Stake bonded by overwatch nodes (\<open>stake/overwatch_node_staking.rs\<close>).
\<close>

section \<open>The operations\<close>

definition increase_overwatch_node_stake ::
  "u32 \<Rightarrow> u128 \<Rightarrow> ('c, 'm) network_scheme \<Rightarrow> ('c, 'm) network_scheme" where
  "increase_overwatch_node_stake overwatch_node_id amount s =
     s\<lparr>OverwatchNodeStakeBalance := (OverwatchNodeStakeBalance s)(overwatch_node_id :=
         saturating_add (OverwatchNodeStakeBalance s overwatch_node_id) amount),
       TotalOverwatchNodeStakeBalance := saturating_add (TotalOverwatchNodeStakeBalance s) amount\<rparr>"

definition decrease_overwatch_node_stake ::
  "u32 \<Rightarrow> u128 \<Rightarrow> ('c, 'm) network_scheme \<Rightarrow> ('c, 'm) network_scheme" where
  "decrease_overwatch_node_stake overwatch_node_id amount s =
     s\<lparr>OverwatchNodeStakeBalance := (OverwatchNodeStakeBalance s)(overwatch_node_id :=
         saturating_sub (OverwatchNodeStakeBalance s overwatch_node_id) amount),
       TotalOverwatchNodeStakeBalance := saturating_sub (TotalOverwatchNodeStakeBalance s) amount\<rparr>"

definition do_add_overwatch_node_stake ::
  "'c Config \<Rightarrow> RuntimeOrigin \<Rightarrow> u32 \<Rightarrow> u128 \<Rightarrow> ('c, 'm) network_scheme \<Rightarrow>
   (('c, 'm) network_scheme, unit) outcome"
where
  "do_add_overwatch_node_stake cfg origin overwatch_node_id stake_to_be_added s =
     (case ensure_signed origin of Inl e \<Rightarrow> (s, Inl e) | Inr coldkey \<Rightarrow>
      case OverwatchNodeValidatorId s overwatch_node_id of
        None \<Rightarrow> (s, Inl InvalidSubnetNodeId)
      | Some validator_id \<Rightarrow>
      case ValidatorColdkey s validator_id of
        None \<Rightarrow> (s, Inl InvalidValidatorId)
      | Some validator_coldkey \<Rightarrow>
      if coldkey \<noteq> validator_coldkey then (s, Inl NotKeyOwner)
      else if stake_to_be_added = 0 then (s, Inl InvalidAmount)
      else case u128_to_balance stake_to_be_added of
        None \<Rightarrow> (s, Inl CouldNotConvertToBalance)
      | Some balance \<Rightarrow>
      let account_stake_balance = OverwatchNodeStakeBalance s overwatch_node_id in
      if saturating_add account_stake_balance stake_to_be_added < OverwatchMinStakeBalance s
      then (s, Inl MinStakeNotReached)
      else if \<not> can_remove_balance_from_coldkey_account cfg coldkey balance s
      then (s, Inl NotEnoughBalanceToStake)
      else
      let (s, removed) = remove_balance_from_coldkey_account cfg coldkey balance s in
      if \<not> removed then (s, Inl BalanceWithdrawalError)
      else (increase_overwatch_node_stake overwatch_node_id stake_to_be_added s, Inr ()))"

definition do_remove_overwatch_node_stake ::
  "'c Config \<Rightarrow> RuntimeOrigin \<Rightarrow> u32 \<Rightarrow> bool \<Rightarrow> u128 \<Rightarrow> ('c, 'm) network_scheme \<Rightarrow>
   (('c, 'm) network_scheme, unit) outcome"
where
  "do_remove_overwatch_node_stake cfg origin overwatch_node_id is_overwatch_node stake_to_be_removed s =
     (case ensure_signed origin of Inl e \<Rightarrow> (s, Inl e) | Inr coldkey \<Rightarrow>
      case OverwatchNodeValidatorId s overwatch_node_id of
        None \<Rightarrow> (s, Inl InvalidSubnetNodeId)
      | Some validator_id \<Rightarrow>
      case ValidatorColdkey s validator_id of
        None \<Rightarrow> (s, Inl InvalidValidatorId)
      | Some validator_coldkey \<Rightarrow>
      if coldkey \<noteq> validator_coldkey then (s, Inl NotKeyOwner)
      else if \<not> stake_to_be_removed > 0 then (s, Inl AmountZero)
      else
      let account_stake_balance = OverwatchNodeStakeBalance s overwatch_node_id in
      if account_stake_balance < stake_to_be_removed then (s, Inl NotEnoughStakeToWithdraw)
      else if is_overwatch_node
              \<and> saturating_sub account_stake_balance stake_to_be_removed < OverwatchMinStakeBalance s
      then (s, Inl MinStakeNotReached)
      else case u128_to_balance stake_to_be_removed of
        None \<Rightarrow> (s, Inl CouldNotConvertToBalance)
      | Some _ \<Rightarrow>
      let block = get_current_block_as_u32 s;
          cooldown_blocks = StakeCooldownEpochs s * EpochLength cfg in
      case prepare_unbonding_ledger_entry cfg coldkey stake_to_be_removed cooldown_blocks block s of
        (s, Inl e) \<Rightarrow> (s, Inl e)
      | (s, Inr _) \<Rightarrow>
      let s = decrease_overwatch_node_stake overwatch_node_id stake_to_be_removed s;
          s = insert_balance_to_unbonding_ledger coldkey stake_to_be_removed cooldown_blocks block s
      in (s, Inr ()))"

section \<open>Overwatch stake as a bonded book\<close>

interpretation overwatch_stake: bonded_stake
  OverwatchNodeStakeBalance TotalOverwatchNodeStakeBalance
  increase_overwatch_node_stake decrease_overwatch_node_stake
  "ledger_valid cfg ok" owed "cash_of cfg"
  "\<lambda>who. prepare_unbonding_ledger_entry cfg who amt cooldown block"
  "\<lambda>who a. insert_balance_to_unbonding_ledger who a cooldown block"
  for cfg :: "'c Config" and ok amt cooldown block
proof (unfold_locales, goal_cases)
  case (1 k a s)
  show ?case by (simp add: increase_overwatch_node_stake_def)
next
  case (2 k a s)
  show ?case by (simp add: increase_overwatch_node_stake_def)
next
  case (3 k a s)
  show ?case by (simp add: decrease_overwatch_node_stake_def)
next
  case (4 k a s)
  show ?case by (simp add: decrease_overwatch_node_stake_def)
next
  case (5 k a s)
  show ?case by (rule ledger_valid_cong(1)) (simp_all add: decrease_overwatch_node_stake_def)
next
  case (6 k a s)
  show ?case by (rule ledger_valid_cong(2)) (simp_all add: decrease_overwatch_node_stake_def)
next
  case (7 k a s)
  show ?case by (simp add: cash_of_def decrease_overwatch_node_stake_def)
next
  case (8 who s s' r)
  then show ?case using prepare_frame by fastforce
next
  case (9 who a s)
  show ?case by (simp add: insert_balance_to_unbonding_ledger_def Let_def)
qed

lemma do_add_overwatch_node_stake_success:
  assumes "do_add_overwatch_node_stake cfg origin node_id a s = (s', Inr ())"
  obtains coldkey validator_id c where "origin = Signed coldkey"
    and "OverwatchNodeValidatorId s node_id = Some validator_id"
    and "ValidatorColdkey s validator_id = Some coldkey" and "a \<noteq> 0"
    and "OverwatchMinStakeBalance s \<le> saturating_add (OverwatchNodeStakeBalance s node_id) a"
    and "withdraw (Cur cfg) (balances s) coldkey a = Some c"
    and "s' = increase_overwatch_node_stake node_id a (s\<lparr>balances := c\<rparr>)"
  using assms
  by (auto simp: do_add_overwatch_node_stake_def Let_def ensure_signed_Inr remove_balance_True
      u128_to_balance_def not_less split: call_splits)

lemma do_remove_overwatch_node_stake_success:
  assumes "do_remove_overwatch_node_stake cfg origin node_id is_node a s = (s', Inr ())"
  obtains coldkey validator_id s1 where "origin = Signed coldkey"
    and "OverwatchNodeValidatorId s node_id = Some validator_id"
    and "ValidatorColdkey s validator_id = Some coldkey" and "a \<noteq> 0"
    and "a \<le> OverwatchNodeStakeBalance s node_id"
    and "is_node \<Longrightarrow> OverwatchMinStakeBalance s \<le> saturating_sub (OverwatchNodeStakeBalance s node_id) a"
    and "prepare_unbonding_ledger_entry cfg coldkey a (StakeCooldownEpochs s * EpochLength cfg)
           (block_number s) s = (s1, Inr ())"
    and "s' = insert_balance_to_unbonding_ledger coldkey a (StakeCooldownEpochs s * EpochLength cfg)
                (block_number s) (decrease_overwatch_node_stake node_id a s1)"
  using assms
  by (auto simp: do_remove_overwatch_node_stake_def Let_def ensure_signed_Inr u128_to_balance_def
      get_current_block_as_u32_def not_less split: call_splits)

end
