(* ===== verification/Delegate_Account.thy ===== *)
theory Delegate_Account
  imports Unbonding
begin

text \<open>
  Delegate accounts (\<open>stake/delegate_account.rs\<close>): the balances a validator's rewards are
  sent to, withdrawn through the unbonding ledger.
\<close>

section \<open>The operations\<close>

definition increase_delegate_account_balance ::
  "account_id \<Rightarrow> u128 \<Rightarrow> ('c, 'm) network_scheme \<Rightarrow> ('c, 'm) network_scheme" where
  "increase_delegate_account_balance account_id amount s =
     s\<lparr>DelegateAccountStake := (DelegateAccountStake s)(account_id :=
         saturating_add (DelegateAccountStake s account_id) amount),
       TotalAccountDelegateStake := saturating_add (TotalAccountDelegateStake s) amount\<rparr>"

definition decrease_delegate_account_balance ::
  "account_id \<Rightarrow> u128 \<Rightarrow> ('c, 'm) network_scheme \<Rightarrow> ('c, 'm) network_scheme" where
  "decrease_delegate_account_balance account_id amount s =
     s\<lparr>DelegateAccountStake := (DelegateAccountStake s)(account_id :=
         saturating_sub (DelegateAccountStake s account_id) amount),
       TotalAccountDelegateStake := saturating_sub (TotalAccountDelegateStake s) amount\<rparr>"

definition do_remove_delegate_account_balance ::
  "'c Config \<Rightarrow> RuntimeOrigin \<Rightarrow> u128 \<Rightarrow> ('c, 'm) network_scheme \<Rightarrow>
   (('c, 'm) network_scheme, unit) outcome"
where
  "do_remove_delegate_account_balance cfg origin amount_to_remove s =
     (case ensure_signed origin of Inl e \<Rightarrow> (s, Inl e) | Inr account_id \<Rightarrow>
      let account_delegate_balance = DelegateAccountStake s account_id in
      if \<not> amount_to_remove > 0 then (s, Inl AmountZero)
      else if account_delegate_balance < amount_to_remove then (s, Inl NotEnoughStakeToWithdraw)
      else case u128_to_balance amount_to_remove of
        None \<Rightarrow> (s, Inl CouldNotConvertToBalance)
      | Some _ \<Rightarrow>
      let block = get_current_block_as_u32 s;
          cooldown_blocks = StakeCooldownEpochs s * EpochLength cfg in
      case prepare_unbonding_ledger_entry cfg account_id amount_to_remove cooldown_blocks block s of
        (s, Inl e) \<Rightarrow> (s, Inl e)
      | (s, Inr _) \<Rightarrow>
      let s = decrease_delegate_account_balance account_id amount_to_remove s;
          s = insert_balance_to_unbonding_ledger account_id amount_to_remove cooldown_blocks block s
      in (s, Inr ()))"

section \<open>Delegate accounts as a bonded book\<close>

interpretation delegate_account: bonded_stake
  DelegateAccountStake TotalAccountDelegateStake
  increase_delegate_account_balance decrease_delegate_account_balance
  "ledger_valid cfg ok" owed "cash_of cfg"
  "\<lambda>who. prepare_unbonding_ledger_entry cfg who amt cooldown block"
  "\<lambda>who a. insert_balance_to_unbonding_ledger who a cooldown block"
  for cfg :: "'c Config" and ok amt cooldown block
proof (unfold_locales, goal_cases)
  case (1 k a s)
  show ?case by (simp add: increase_delegate_account_balance_def)
next
  case (2 k a s)
  show ?case by (simp add: increase_delegate_account_balance_def)
next
  case (3 k a s)
  show ?case by (simp add: decrease_delegate_account_balance_def)
next
  case (4 k a s)
  show ?case by (simp add: decrease_delegate_account_balance_def)
next
  case (5 k a s)
  show ?case by (rule ledger_valid_cong(1)) (simp_all add: decrease_delegate_account_balance_def)
next
  case (6 k a s)
  show ?case by (rule ledger_valid_cong(2)) (simp_all add: decrease_delegate_account_balance_def)
next
  case (7 k a s)
  show ?case by (simp add: cash_of_def decrease_delegate_account_balance_def)
next
  case (8 who s s' r)
  then show ?case using prepare_frame by fastforce
next
  case (9 who a s)
  show ?case by (simp add: insert_balance_to_unbonding_ledger_def Let_def)
qed

lemma do_remove_delegate_account_balance_success:
  assumes "do_remove_delegate_account_balance cfg origin a s = (s', Inr ())"
  obtains who s1 where "origin = Signed who" and "a \<noteq> 0" and "a \<le> DelegateAccountStake s who"
    and "prepare_unbonding_ledger_entry cfg who a (StakeCooldownEpochs s * EpochLength cfg)
           (block_number s) s = (s1, Inr ())"
    and "s' = insert_balance_to_unbonding_ledger who a (StakeCooldownEpochs s * EpochLength cfg)
                (block_number s) (decrease_delegate_account_balance who a s1)"
  using assms
  by (auto simp: do_remove_delegate_account_balance_def Let_def ensure_signed_Inr u128_to_balance_def
      get_current_block_as_u32_def not_less split: call_splits)

end
