(* ===== verification/Network_Invariant.thy ===== *)
theory Network_Invariant
  imports Swap_Queue Node_Staking Overwatch_Staking Delegate_Account
begin

text \<open>
  What the staking storage of the whole pallet keeps, and the value it holds. Every book
  agrees with its recorded total, every pool is solvent, the unbonding ledger and the swap
  queue are well formed; the value is the currency's issuance with everything the pallet has
  taken out of it. Each primitive update of a component moves a known amount in or out.
\<close>

section \<open>The invariant\<close>

definition book_ok :: "('k::finite \<Rightarrow> u128) \<Rightarrow> u128 \<Rightarrow> bool" where
  "book_ok entries recorded \<longleftrightarrow> unat recorded = total entries"

definition pool_inv :: "(account_id \<Rightarrow> u128) \<Rightarrow> u128 \<Rightarrow> u128 \<Rightarrow> bool" where
  "pool_inv held issued assets \<longleftrightarrow>
     total held + (if issued = 0 then 0 else 1000) \<le> unat issued \<and>
     unat issued + 10 \<le> 1010 * (unat assets + 1)"

definition pools_ok ::
  "(account_id \<times> u32 \<Rightarrow> u128) \<Rightarrow> (u32 \<Rightarrow> u128) \<Rightarrow> (u32 \<Rightarrow> u128) \<Rightarrow> u128 \<Rightarrow> bool" where
  "pools_ok shares issued assets recorded \<longleftrightarrow>
     book_ok assets recorded \<and> (\<forall>i. pool_inv (\<lambda>who. shares (who, i)) (issued i) (assets i))"

definition ledger_inv :: "(account_id \<Rightarrow> (u32, u128) btree_map) \<Rightarrow> u128 \<Rightarrow> bool" where
  "ledger_inv ledger recorded \<longleftrightarrow>
     (\<forall>a. btree_ok (ledger a)) \<and> unat recorded = (\<Sum>a\<in>UNIV. btree_total (ledger a))"

definition queue_inv :: "u32 list \<Rightarrow> (u32 \<rightharpoonup> QueuedSwapItem) \<Rightarrow> u32 \<Rightarrow> bool" where
  "queue_inv order items next_id \<longleftrightarrow>
     distinct order \<and> dom items = set order \<and> (\<forall>i\<in>set order. i < next_id)"

definition queued :: "u32 list \<Rightarrow> (u32 \<rightharpoonup> QueuedSwapItem) \<Rightarrow> nat" where
  "queued order items = (\<Sum>i\<leftarrow>order. unat (get_queue_balance (qs_call (the (items i)))))"

definition network_ok :: "'c Config \<Rightarrow> ('c \<Rightarrow> bool) \<Rightarrow> ('c, 'm) network_scheme \<Rightarrow> bool" where
  "network_ok cfg ok s \<longleftrightarrow>
     currency_laws (Cur cfg) ok \<and> ok (balances s) \<and> MinDelegateStakeDeposit s \<noteq> 0 \<and>
     ledger_inv (StakeUnbondingLedger s) (TotalUnbondingBalance s) \<and>
     book_ok (NodeSubnetStake s) (TotalStake s) \<and>
     (\<forall>i. book_ok (\<lambda>n. NodeSubnetStake s (n, i)) (TotalSubnetStake s i)) \<and>
     book_ok (OverwatchNodeStakeBalance s) (TotalOverwatchNodeStakeBalance s) \<and>
     book_ok (DelegateAccountStake s) (TotalAccountDelegateStake s) \<and>
     pools_ok (AccountSubnetDelegateStakeShares s) (TotalSubnetDelegateStakeShares s)
       (TotalSubnetDelegateStakeBalance s) (TotalDelegateStake s) \<and>
     pools_ok (AccountValidatorDelegateStakeShares s) (ValidatorDelegateStakeShares s)
       (ValidatorDelegateStakeBalance s) (TotalValidatorDelegateStakeBalance s) \<and>
     queue_inv (SwapQueueOrder s) (SwapCallQueue s) (NextSwapQueueId s)"

definition network_value :: "'c Config \<Rightarrow> ('c, 'm) network_scheme \<Rightarrow> nat" where
  "network_value cfg s =
     unat (total_issuance (Cur cfg) (balances s)) + unat (TotalUnbondingBalance s) +
     unat (TotalStake s) + unat (TotalOverwatchNodeStakeBalance s) +
     unat (TotalAccountDelegateStake s) + unat (TotalDelegateStake s) +
     unat (TotalValidatorDelegateStakeBalance s) + queued (SwapQueueOrder s) (SwapCallQueue s)"

text \<open>
  The assertion the moves are stated with: the storage is well formed and holds at most \<open>v\<close>.
  A value with headroom is far enough from the end of the integer range for every share
  computation; the real supply is below \<open>2\<^sup>9\<^sup>6\<close>.
\<close>

definition holds :: "'c Config \<Rightarrow> ('c \<Rightarrow> bool) \<Rightarrow> nat \<Rightarrow> ('c, 'm) network_scheme \<Rightarrow> bool" where
  "holds cfg ok v s \<longleftrightarrow> network_ok cfg ok s \<and> network_value cfg s \<le> v"

definition headroom :: "nat \<Rightarrow> bool" where
  "headroom v \<longleftrightarrow> 1010 * (v + 1) < 2 ^ 128"

lemmas holds_defs = holds_def network_ok_def network_value_def

lemma headroom_u128: "headroom v \<Longrightarrow> n \<le> v \<Longrightarrow> n < 2 ^ 128"
  by (simp add: headroom_def)

section \<open>The components in the invariant\<close>

lemma balanced_book_ok:
  "node_stake.balanced s \<longleftrightarrow> book_ok (NodeSubnetStake s) (TotalStake s)"
  "subnet_stake.balanced i s \<longleftrightarrow> book_ok (\<lambda>n. NodeSubnetStake s (n, i)) (TotalSubnetStake s i)"
  "overwatch_stake.balanced s \<longleftrightarrow> book_ok (OverwatchNodeStakeBalance s) (TotalOverwatchNodeStakeBalance s)"
  "delegate_account.balanced s \<longleftrightarrow> book_ok (DelegateAccountStake s) (TotalAccountDelegateStake s)"
  "subnet_pool_book.balanced s \<longleftrightarrow> book_ok (TotalSubnetDelegateStakeBalance s) (TotalDelegateStake s)"
  "validator_pool_book.balanced s \<longleftrightarrow>
     book_ok (ValidatorDelegateStakeBalance s) (TotalValidatorDelegateStakeBalance s)"
  by (simp_all add: book_ok_def book.balanced_def)

lemma subnet_pools_ok:
  "pools_ok (AccountSubnetDelegateStakeShares s) (TotalSubnetDelegateStakeShares s)
       (TotalSubnetDelegateStakeBalance s) (TotalDelegateStake s) \<longleftrightarrow>
     subnet_pool_book.balanced s \<and> (\<forall>i. subnet_pool_ok i s)"
  by (simp add: pools_ok_def balanced_book_ok subnet_pool.pool_ok_def pool_inv_def)

lemma validator_pools_ok:
  "pools_ok (AccountValidatorDelegateStakeShares s) (ValidatorDelegateStakeShares s)
       (ValidatorDelegateStakeBalance s) (TotalValidatorDelegateStakeBalance s) \<longleftrightarrow>
     validator_pool_book.balanced s \<and> (\<forall>i. validator_pool_ok i s)"
  by (simp add: pools_ok_def balanced_book_ok validator_pool.pool_ok_def pool_inv_def)

lemma ledger_inv_iff:
  "ledger_inv (StakeUnbondingLedger s) (TotalUnbondingBalance s) \<longleftrightarrow> unbonding_ok s"
  by (simp add: ledger_inv_def unbonding_ok_def owed_def)

lemma queue_inv_iff:
  "queue_inv (SwapQueueOrder s) (SwapCallQueue s) (NextSwapQueueId s) \<longleftrightarrow> swap_queue_ok s"
  by (simp add: queue_inv_def swap_queue.wf_def)

section \<open>Moves of the currency and the ledger\<close>

lemma holds_mono: "holds cfg ok v s \<Longrightarrow> v \<le> v' \<Longrightarrow> holds cfg ok v' s"
  by (simp add: holds_def)

lemma holds_set_last_tx_block [simp]:
  "holds cfg ok v (set_last_tx_block who block s) = holds cfg ok v s"
  by (simp add: holds_defs set_last_tx_block_def)

lemma holds_withdraw:
  assumes "holds cfg ok v s" and "withdraw (Cur cfg) (balances s) who a = Some c"
  shows "unat a \<le> v" and "holds cfg ok (v - unat a) (s\<lparr>balances := c\<rparr>)"
proof -
  have "currency_laws (Cur cfg) ok" and "ok (balances s)"
    using assms(1) by (auto simp: holds_defs)
  note w = withdraw_laws [OF this assms(2)]
  show "unat a \<le> v" and "holds cfg ok (v - unat a) (s\<lparr>balances := c\<rparr>)"
    using assms(1) w(1,4) by (auto simp: holds_defs)
qed

lemma ledger_valid_iff:
  "ledger_valid cfg ok s \<longleftrightarrow> currency_laws (Cur cfg) ok \<and> ok (balances s) \<and>
     ledger_inv (StakeUnbondingLedger s) (TotalUnbondingBalance s)"
  by (simp add: ledger_valid_def ledger_inv_iff)

lemma owed_recorded: "unbonding_ok s \<Longrightarrow> owed s = unat (TotalUnbondingBalance s)"
  by (simp add: unbonding_ok_def)

lemma holds_claim:
  assumes "holds cfg ok v s"
  shows "holds cfg ok v (fst (do_claim_unbondings cfg who s))"
proof -
  let ?s = "fst (do_claim_unbondings cfg who s)"
  have lv: "ledger_valid cfg ok s" using assms by (simp add: holds_defs ledger_valid_iff)
  have v: "ledger_valid cfg ok ?s" and le: "owed ?s + cash_of cfg ?s \<le> owed s + cash_of cfg s"
    using claim_value [OF lv] by auto
  have "unat (TotalUnbondingBalance ?s) + unat (total_issuance (Cur cfg) (balances ?s))
      \<le> unat (TotalUnbondingBalance s) + unat (total_issuance (Cur cfg) (balances s))"
    using le v lv by (simp add: ledger_valid_def owed_recorded cash_of_def)
  moreover have "\<exists>c l t. ?s = s\<lparr>balances := c, StakeUnbondingLedger := l, TotalUnbondingBalance := t\<rparr>"
    by (simp add: do_claim_unbondings_eq Let_def) blast
  ultimately show ?thesis
    using assms v unfolding ledger_valid_iff by (auto simp: holds_defs)
qed

lemma holds_prepare:
  assumes "holds cfg ok v s"
    and "prepare_unbonding_ledger_entry cfg who a cooldown block s = (s', r)"
  shows "holds cfg ok v s'"
  using prepare_state [OF assms(2)] assms(1) holds_claim [OF assms(1)] by auto

lemma holds_enter:
  assumes "holds cfg ok (v - unat a) s" and "unat a \<le> v" and "headroom v"
  shows "holds cfg ok v (insert_balance_to_unbonding_ledger who a cooldown block s)"
proof -
  let ?s = "insert_balance_to_unbonding_ledger who a cooldown block s"
  have lt: "unat (TotalUnbondingBalance s) + unat a < 2 ^ 128"
    using assms(1,2) by (intro headroom_u128 [OF assms(3)]) (auto simp: holds_defs)
  have u: "unbonding_ok s" using assms(1) by (simp add: holds_defs ledger_inv_iff)
  have "unbonding_ok ?s" using insert_owed(1) [OF u lt] by simp
  moreover have "unat (TotalUnbondingBalance ?s) = unat (TotalUnbondingBalance s) + unat a"
    using lt by (simp add: insert_balance_to_unbonding_ledger_def Let_def unat_saturating_add)
  moreover have "\<exists>l t. ?s = s\<lparr>StakeUnbondingLedger := l, TotalUnbondingBalance := t\<rparr>"
    by (simp add: insert_balance_to_unbonding_ledger_def Let_def) blast
  ultimately show ?thesis
    using assms(1,2) unfolding ledger_inv_iff [symmetric] by (auto simp: holds_defs)
qed

section \<open>Moves of the books\<close>

lemma credit_room:
  assumes "holds cfg ok (v - unat a) s" and "unat a \<le> v" and "headroom v"
  shows "unat (TotalStake s) + unat a < 2 ^ 128"
    and "unat (TotalOverwatchNodeStakeBalance s) + unat a < 2 ^ 128"
    and "unat (TotalAccountDelegateStake s) + unat a < 2 ^ 128"
    and "unat (TotalDelegateStake s) + unat a < 2 ^ 128"
    and "unat (TotalValidatorDelegateStakeBalance s) + unat a < 2 ^ 128"
    and "headroom (unat (TotalDelegateStake s) + unat a)"
    and "headroom (unat (TotalValidatorDelegateStakeBalance s) + unat a)"
  using assms by (auto simp: holds_def network_value_def headroom_def)

lemma subnet_stake_le:
  assumes "book_ok (NodeSubnetStake s) (TotalStake s)"
    and "book_ok (\<lambda>n. NodeSubnetStake s (n, i)) (TotalSubnetStake s i)"
  shows "unat (TotalSubnetStake s i) \<le> unat (TotalStake s)"
proof -
  have "(\<Sum>n\<in>UNIV. unat (NodeSubnetStake s (n, i))) = (\<Sum>k\<in>range (\<lambda>n. (n, i)). unat (NodeSubnetStake s k))"
    by (subst sum.reindex) (auto simp: inj_on_def)
  also have "\<dots> \<le> (\<Sum>k\<in>UNIV. unat (NodeSubnetStake s k))"
    by (rule sum_mono2) auto
  finally show ?thesis using assms by (simp add: book_ok_def total_def)
qed

lemma holds_increase_node_stake:
  assumes "holds cfg ok (v - unat a) s" and "unat a \<le> v" and "headroom v"
  shows "holds cfg ok v (increase_node_stake node_id subnet_id a s)"
proof -
  let ?s = "increase_node_stake node_id subnet_id a s"
  note room = credit_room(1) [OF assms]
  have b: "node_stake.balanced s" and b': "subnet_stake.balanced i s" for i
    using assms(1) by (auto simp: holds_defs balanced_book_ok)
  have "node_stake.balanced ?s"
    using node_stake.credit_balanced [OF b room, of "(node_id, subnet_id)"] by simp
  moreover have "subnet_stake.balanced i ?s" for i
  proof (cases "i = subnet_id")
    case True
    have "unat (TotalSubnetStake s subnet_id) + unat a < 2 ^ 128"
      using room b b' [of subnet_id] subnet_stake_le [of s subnet_id] by (simp add: balanced_book_ok)
    with True show ?thesis using subnet_stake.credit_balanced [OF b', of subnet_id a node_id] by simp
  next
    case False
    then show ?thesis using b' [of i] by (simp add: balanced_book_ok increase_node_stake_def)
  qed
  moreover have "unat (TotalStake ?s) = unat (TotalStake s) + unat a"
    using room by (simp add: increase_node_stake_def unat_saturating_add)
  ultimately show ?thesis
    using assms(1,2) unfolding balanced_book_ok
    by (auto simp: holds_def network_ok_def network_value_def increase_node_stake_def)
qed

lemma holds_decrease_node_stake:
  assumes "holds cfg ok v s" and "a \<le> NodeSubnetStake s (node_id, subnet_id)"
  shows "unat a \<le> v" and "holds cfg ok (v - unat a) (decrease_node_stake node_id subnet_id a s)"
proof -
  let ?s = "decrease_node_stake node_id subnet_id a s"
  have b: "node_stake.balanced s" and b': "subnet_stake.balanced i s" for i
    using assms(1) by (auto simp: holds_defs balanced_book_ok)
  have "node_stake.balanced ?s" and r: "unat (TotalStake ?s) + unat a = unat (TotalStake s)"
    using node_stake.debit_balanced [OF b, of a "(node_id, subnet_id)"]
      node_stake.debit_exact [OF b, of a "(node_id, subnet_id)"] assms(2) by simp_all
  moreover have "subnet_stake.balanced i ?s" for i
  proof (cases "i = subnet_id")
    case True
    with assms(2) show ?thesis using subnet_stake.debit_balanced [OF b', of a node_id subnet_id] by simp
  next
    case False
    then show ?thesis using b' [of i] by (simp add: balanced_book_ok decrease_node_stake_def)
  qed
  ultimately show "holds cfg ok (v - unat a) ?s" and "unat a \<le> v"
    using assms(1) unfolding balanced_book_ok
    by (auto simp: holds_def network_ok_def network_value_def decrease_node_stake_def)
qed

lemma holds_clean_validator_subnet_nodes [simp]:
  "holds cfg ok v (clean_validator_subnet_nodes validator_id s) = holds cfg ok v s"
  by (simp add: holds_defs clean_validator_subnet_nodes_def Let_def)

lemma clean_validator_subnet_nodes_stake [simp]:
  "NodeSubnetStake (clean_validator_subnet_nodes validator_id s) = NodeSubnetStake s"
  by (simp add: clean_validator_subnet_nodes_def Let_def)

lemma holds_increase_overwatch_node_stake:
  assumes "holds cfg ok (v - unat a) s" and "unat a \<le> v" and "headroom v"
  shows "holds cfg ok v (increase_overwatch_node_stake node_id a s)"
proof -
  have b: "overwatch_stake.balanced s" using assms(1) by (auto simp: holds_defs balanced_book_ok)
  note overwatch_stake.credit_balanced [OF b credit_room(2) [OF assms], of node_id]
    overwatch_stake.credit_exact [OF credit_room(2) [OF assms], of node_id]
  then show ?thesis
    using assms(1,2) unfolding balanced_book_ok
    by (auto simp: holds_defs increase_overwatch_node_stake_def)
qed

lemma holds_decrease_overwatch_node_stake:
  assumes "holds cfg ok v s" and "a \<le> OverwatchNodeStakeBalance s node_id"
  shows "unat a \<le> v" and "holds cfg ok (v - unat a) (decrease_overwatch_node_stake node_id a s)"
proof -
  have b: "overwatch_stake.balanced s" using assms(1) by (auto simp: holds_defs balanced_book_ok)
  note overwatch_stake.debit_balanced [OF b assms(2)] overwatch_stake.debit_exact [OF b assms(2)]
  then show "unat a \<le> v" and "holds cfg ok (v - unat a) (decrease_overwatch_node_stake node_id a s)"
    using assms(1) unfolding balanced_book_ok
    by (auto simp: holds_defs decrease_overwatch_node_stake_def)
qed

lemma holds_decrease_delegate_account_balance:
  assumes "holds cfg ok v s" and "a \<le> DelegateAccountStake s who"
  shows "unat a \<le> v" and "holds cfg ok (v - unat a) (decrease_delegate_account_balance who a s)"
proof -
  have b: "delegate_account.balanced s" using assms(1) by (auto simp: holds_defs balanced_book_ok)
  note delegate_account.debit_balanced [OF b assms(2)] delegate_account.debit_exact [OF b assms(2)]
  then show "unat a \<le> v" and "holds cfg ok (v - unat a) (decrease_delegate_account_balance who a s)"
    using assms(1) unfolding balanced_book_ok
    by (auto simp: holds_defs decrease_delegate_account_balance_def)
qed


section \<open>Moves of the pools\<close>

text \<open>Updating one pool leaves the others alone.\<close>

lemmas subnet_pool_updates = increase_account_delegate_stake_def decrease_account_delegate_stake_def
  mint_subnet_dead_shares_def do_increase_delegate_stake_def subnet_pool.deposit_def

lemma subnet_pool_other:
  assumes "j \<noteq> i"
  shows "subnet_pool_ok j (decrease_account_delegate_stake who i a n s) = subnet_pool_ok j s"
    and "subnet_pool_ok j (mint_subnet_dead_shares i s) = subnet_pool_ok j s"
    and "subnet_pool_ok j (do_increase_delegate_stake i a s) = subnet_pool_ok j s"
    and "subnet_pool_ok j (subnet_deposit i who a s) = subnet_pool_ok j s"
  using assms by (simp_all add: subnet_pool.pool_ok_def subnet_pool_updates Let_def)

lemma holds_subnet_pools:
  assumes "holds cfg ok v s"
  shows "subnet_pool_book.balanced s" and "subnet_pool_ok i s"
    and "unat (TotalSubnetDelegateStakeBalance s i) \<le> unat (TotalDelegateStake s)"
proof -
  show b: "subnet_pool_book.balanced s" and "subnet_pool_ok i s"
    using assms unfolding holds_defs subnet_pools_ok by auto
  show "unat (TotalSubnetDelegateStakeBalance s i) \<le> unat (TotalDelegateStake s)"
    using subnet_pool_book.entry_le_recorded [OF b] by (simp add: word_le_nat_alt)
qed

lemma subnet_pool_room:
  assumes "holds cfg ok (v - unat a) s" and "unat a \<le> v" and "headroom v"
  shows "1010 * (unat (TotalSubnetDelegateStakeBalance s i) + unat a + 1) < 2 ^ 128"
  using credit_room(6) [OF assms] holds_subnet_pools(3) [OF assms(1), of i]
  by (simp add: headroom_def)

lemma holds_subnet_deposit:
  assumes "holds cfg ok (v - unat a) s" and "unat a \<le> v" and "headroom v"
  shows "holds cfg ok v (subnet_deposit subnet_id who a s)"
proof -
  let ?s = "subnet_deposit subnet_id who a s"
  note b = holds_subnet_pools [OF assms(1)] and room = credit_room(4) [OF assms]
  have "subnet_pool_ok i ?s" for i
    using b(2) [of i] subnet_pool.deposit_pool_ok [OF b(2) subnet_pool_room [OF assms]]
    by (cases "i = subnet_id") (auto simp: subnet_pool_other)
  moreover have "subnet_pool_book.balanced ?s"
    using b(1) room unfolding subnet_pool.deposit_def
    by (intro subnet_pool_book.credit_balanced) (auto simp: balanced_book_ok mint_subnet_dead_shares_def)
  ultimately have "pools_ok (AccountSubnetDelegateStakeShares ?s) (TotalSubnetDelegateStakeShares ?s)
       (TotalSubnetDelegateStakeBalance ?s) (TotalDelegateStake ?s)"
    by (simp add: subnet_pools_ok)
  moreover have "unat (TotalDelegateStake ?s) = unat (TotalDelegateStake s) + unat a"
    using room by (simp add: subnet_pool_updates unat_saturating_add)
  ultimately show ?thesis
    using assms(1,2)
    by (cases "TotalSubnetDelegateStakeShares s subnet_id = 0")
      (auto simp: holds_defs subnet_pool_updates)
qed

lemma holds_subnet_redeem:
  assumes "holds cfg ok v s" and "n \<le> AccountSubnetDelegateStakeShares s (who, subnet_id)"
    and "w = convert_to_balance n (TotalSubnetDelegateStakeShares s subnet_id)
               (TotalSubnetDelegateStakeBalance s subnet_id)"
  shows "unat w \<le> v"
    and "holds cfg ok (v - unat w) (decrease_account_delegate_stake who subnet_id w n s)"
proof -
  let ?s = "decrease_account_delegate_stake who subnet_id w n s"
  note b = holds_subnet_pools [OF assms(1)]
  have le: "w \<le> TotalSubnetDelegateStakeBalance s subnet_id"
    using subnet_pool.redeem_solvent [OF b(2) assms(2)] by (simp add: assms(3))
  have "subnet_pool_ok i ?s" for i
    using b(2) [of i] subnet_pool.redeem_pool_ok [OF b(2) assms(2,3)]
    by (cases "i = subnet_id") (auto simp: subnet_pool_other)
  moreover have "subnet_pool_book.balanced ?s" and
    "unat (TotalDelegateStake ?s) + unat w = unat (TotalDelegateStake s)"
    using subnet_pool_book.debit_balanced [OF b(1) le] subnet_pool_book.debit_exact [OF b(1) le] by auto
  ultimately have "pools_ok (AccountSubnetDelegateStakeShares ?s) (TotalSubnetDelegateStakeShares ?s)
       (TotalSubnetDelegateStakeBalance ?s) (TotalDelegateStake ?s)"
    and "unat (TotalDelegateStake ?s) + unat w = unat (TotalDelegateStake s)"
    by (simp_all add: subnet_pools_ok)
  then show "unat w \<le> v" and "holds cfg ok (v - unat w) ?s"
    using assms(1) by (auto simp: holds_defs decrease_account_delegate_stake_def)
qed

lemma holds_subnet_transfer:
  assumes "holds cfg ok v s" and "n \<le> AccountSubnetDelegateStakeShares s (who, subnet_id)"
  shows "holds cfg ok v (increase_account_delegate_stake to subnet_id 0 n
           (decrease_account_delegate_stake who subnet_id 0 n s))"
proof -
  let ?s = "increase_account_delegate_stake to subnet_id 0 n
              (decrease_account_delegate_stake who subnet_id 0 n s)"
  note b = holds_subnet_pools [OF assms(1)]
  have "subnet_pool_ok i ?s" for i
    using b(2) [of i] subnet_pool.transfer_pool_ok [OF b(2) assms(2), of to]
    by (cases "i = subnet_id")
      (auto simp: subnet_pool.pool_ok_def increase_account_delegate_stake_def
        decrease_account_delegate_stake_def)
  moreover have e: "saturating_sub x 0 = x" "saturating_add x 0 = x" for x :: u128
    using u128_max [of x] by (simp_all add: word_unat_eq_iff unat_saturating_add unat_saturating_sub)
  then have "TotalSubnetDelegateStakeBalance ?s = TotalSubnetDelegateStakeBalance s"
    "TotalDelegateStake ?s = TotalDelegateStake s"
    by (simp_all add: subnet_pool_updates)
  then have "subnet_pool_book.balanced ?s"
    using b(1) by (simp add: balanced_book_ok)
  ultimately have "pools_ok (AccountSubnetDelegateStakeShares ?s) (TotalSubnetDelegateStakeShares ?s)
       (TotalSubnetDelegateStakeBalance ?s) (TotalDelegateStake ?s)"
    by (simp add: subnet_pools_ok)
  then show ?thesis
    using assms(1) e
    by (auto simp: holds_defs increase_account_delegate_stake_def decrease_account_delegate_stake_def)
qed

lemma holds_subnet_reward:
  assumes "holds cfg ok (v - unat a) s" and "unat a \<le> v" and "headroom v" and "a \<noteq> 0"
  shows "holds cfg ok v (do_increase_delegate_stake subnet_id a s)"
proof -
  let ?s = "do_increase_delegate_stake subnet_id a s"
  note b = holds_subnet_pools [OF assms(1)] and room = credit_room(4) [OF assms(1-3)]
  have "subnet_pool_ok i ?s" for i
    using b(2) [of i] subnet_pool.reward_pool_ok [OF b(2) assms(4) subnet_pool_room [OF assms(1-3)]]
    by (cases "i = subnet_id") (auto simp: subnet_pool_other)
  moreover have "subnet_pool_book.balanced ?s" and
    "unat (TotalDelegateStake ?s) = unat (TotalDelegateStake s) + unat a"
    using subnet_reward_book.credit_balanced [OF b(1) room] subnet_reward_book.credit_exact [OF room] by auto
  ultimately have "pools_ok (AccountSubnetDelegateStakeShares ?s) (TotalSubnetDelegateStakeShares ?s)
       (TotalSubnetDelegateStakeBalance ?s) (TotalDelegateStake ?s)"
    and "unat (TotalDelegateStake ?s) = unat (TotalDelegateStake s) + unat a"
    by (simp_all add: subnet_pools_ok)
  then show ?thesis
    using assms(1,2)
    by (cases "TotalSubnetDelegateStakeBalance s subnet_id = 0
           \<or> TotalSubnetDelegateStakeShares s subnet_id = 0")
      (auto simp: holds_defs subnet_pool_updates Let_def)
qed

lemma holds_subnet_seed:
  assumes "holds cfg ok v s" and "TotalSubnetDelegateStakeShares s subnet_id = 0"
  shows "holds cfg ok v (mint_subnet_dead_shares subnet_id s)"
proof -
  let ?s = "mint_subnet_dead_shares subnet_id s"
  note b = holds_subnet_pools [OF assms(1)]
  have "subnet_pool_ok subnet_id ?s"
    using b(2) [of subnet_id] assms(2)
    by (simp add: subnet_pool.pool_ok_def mint_subnet_dead_shares_def unat_saturating_add MIN_LIQUIDITY_def)
  then have "subnet_pool_ok i ?s" for i
    using b(2) [of i] by (cases "i = subnet_id") (auto simp: subnet_pool_other)
  moreover have "subnet_pool_book.balanced ?s"
    using b(1) by (simp add: balanced_book_ok mint_subnet_dead_shares_def)
  ultimately have "pools_ok (AccountSubnetDelegateStakeShares ?s) (TotalSubnetDelegateStakeShares ?s)
       (TotalSubnetDelegateStakeBalance ?s) (TotalDelegateStake ?s)"
    by (simp add: subnet_pools_ok)
  then show ?thesis using assms(1) by (auto simp: holds_defs mint_subnet_dead_shares_def)
qed

lemma holds_handle_increase_subnet:
  assumes "holds cfg ok (v - unat a) s" and "unat a \<le> v" and "headroom v"
  shows "holds cfg ok v (fst (handle_increase_account_delegate_stake who subnet_id a s))"
  using holds_subnet_deposit [OF assms] holds_subnet_seed [OF holds_mono [OF assms(1)], of v]
    holds_mono [OF assms(1), of v]
  by (simp add: handle_increase_account_delegate_stake_eq Let_def)

text \<open>The same moves for the pools of the validators.\<close>

lemmas validator_pool_updates = increase_account_validator_delegate_stake_def decrease_account_validator_delegate_stake_def
  mint_validator_dead_shares_def do_increase_validator_delegate_stake_def validator_pool.deposit_def

lemma validator_pool_other:
  assumes "j \<noteq> i"
  shows "validator_pool_ok j (decrease_account_validator_delegate_stake who i a n s) = validator_pool_ok j s"
    and "validator_pool_ok j (mint_validator_dead_shares i s) = validator_pool_ok j s"
    and "validator_pool_ok j (do_increase_validator_delegate_stake i a s) = validator_pool_ok j s"
    and "validator_pool_ok j (validator_deposit i who a s) = validator_pool_ok j s"
  using assms by (simp_all add: validator_pool.pool_ok_def validator_pool_updates Let_def)

lemma holds_validator_pools:
  assumes "holds cfg ok v s"
  shows "validator_pool_book.balanced s" and "validator_pool_ok i s"
    and "unat (ValidatorDelegateStakeBalance s i) \<le> unat (TotalValidatorDelegateStakeBalance s)"
proof -
  show b: "validator_pool_book.balanced s" and "validator_pool_ok i s"
    using assms unfolding holds_defs validator_pools_ok by auto
  show "unat (ValidatorDelegateStakeBalance s i) \<le> unat (TotalValidatorDelegateStakeBalance s)"
    using validator_pool_book.entry_le_recorded [OF b] by (simp add: word_le_nat_alt)
qed

lemma validator_pool_room:
  assumes "holds cfg ok (v - unat a) s" and "unat a \<le> v" and "headroom v"
  shows "1010 * (unat (ValidatorDelegateStakeBalance s i) + unat a + 1) < 2 ^ 128"
  using credit_room(7) [OF assms] holds_validator_pools(3) [OF assms(1), of i]
  by (simp add: headroom_def)

lemma holds_validator_deposit:
  assumes "holds cfg ok (v - unat a) s" and "unat a \<le> v" and "headroom v"
  shows "holds cfg ok v (validator_deposit validator_id who a s)"
proof -
  let ?s = "validator_deposit validator_id who a s"
  note b = holds_validator_pools [OF assms(1)] and room = credit_room(5) [OF assms]
  have "validator_pool_ok i ?s" for i
    using b(2) [of i] validator_pool.deposit_pool_ok [OF b(2) validator_pool_room [OF assms]]
    by (cases "i = validator_id") (auto simp: validator_pool_other)
  moreover have "validator_pool_book.balanced ?s"
    using b(1) room unfolding validator_pool.deposit_def
    by (intro validator_pool_book.credit_balanced) (auto simp: balanced_book_ok mint_validator_dead_shares_def)
  ultimately have "pools_ok (AccountValidatorDelegateStakeShares ?s) (ValidatorDelegateStakeShares ?s)
       (ValidatorDelegateStakeBalance ?s) (TotalValidatorDelegateStakeBalance ?s)"
    by (simp add: validator_pools_ok)
  moreover have "unat (TotalValidatorDelegateStakeBalance ?s) = unat (TotalValidatorDelegateStakeBalance s) + unat a"
    using room by (simp add: validator_pool_updates unat_saturating_add)
  ultimately show ?thesis
    using assms(1,2)
    by (cases "ValidatorDelegateStakeShares s validator_id = 0")
      (auto simp: holds_defs validator_pool_updates)
qed

lemma holds_validator_redeem:
  assumes "holds cfg ok v s" and "n \<le> AccountValidatorDelegateStakeShares s (who, validator_id)"
    and "w = convert_to_balance n (ValidatorDelegateStakeShares s validator_id)
               (ValidatorDelegateStakeBalance s validator_id)"
  shows "unat w \<le> v"
    and "holds cfg ok (v - unat w) (decrease_account_validator_delegate_stake who validator_id w n s)"
proof -
  let ?s = "decrease_account_validator_delegate_stake who validator_id w n s"
  note b = holds_validator_pools [OF assms(1)]
  have le: "w \<le> ValidatorDelegateStakeBalance s validator_id"
    using validator_pool.redeem_solvent [OF b(2) assms(2)] by (simp add: assms(3))
  have "validator_pool_ok i ?s" for i
    using b(2) [of i] validator_pool.redeem_pool_ok [OF b(2) assms(2,3)]
    by (cases "i = validator_id") (auto simp: validator_pool_other)
  moreover have "validator_pool_book.balanced ?s" and
    "unat (TotalValidatorDelegateStakeBalance ?s) + unat w = unat (TotalValidatorDelegateStakeBalance s)"
    using validator_pool_book.debit_balanced [OF b(1) le] validator_pool_book.debit_exact [OF b(1) le] by auto
  ultimately have "pools_ok (AccountValidatorDelegateStakeShares ?s) (ValidatorDelegateStakeShares ?s)
       (ValidatorDelegateStakeBalance ?s) (TotalValidatorDelegateStakeBalance ?s)"
    and "unat (TotalValidatorDelegateStakeBalance ?s) + unat w = unat (TotalValidatorDelegateStakeBalance s)"
    by (simp_all add: validator_pools_ok)
  then show "unat w \<le> v" and "holds cfg ok (v - unat w) ?s"
    using assms(1) by (auto simp: holds_defs decrease_account_validator_delegate_stake_def)
qed

lemma holds_validator_transfer:
  assumes "holds cfg ok v s" and "n \<le> AccountValidatorDelegateStakeShares s (who, validator_id)"
  shows "holds cfg ok v (increase_account_validator_delegate_stake to validator_id 0 n
           (decrease_account_validator_delegate_stake who validator_id 0 n s))"
proof -
  let ?s = "increase_account_validator_delegate_stake to validator_id 0 n
              (decrease_account_validator_delegate_stake who validator_id 0 n s)"
  note b = holds_validator_pools [OF assms(1)]
  have "validator_pool_ok i ?s" for i
    using b(2) [of i] validator_pool.transfer_pool_ok [OF b(2) assms(2), of to]
    by (cases "i = validator_id")
      (auto simp: validator_pool.pool_ok_def increase_account_validator_delegate_stake_def
        decrease_account_validator_delegate_stake_def)
  moreover have e: "saturating_sub x 0 = x" "saturating_add x 0 = x" for x :: u128
    using u128_max [of x] by (simp_all add: word_unat_eq_iff unat_saturating_add unat_saturating_sub)
  then have "ValidatorDelegateStakeBalance ?s = ValidatorDelegateStakeBalance s"
    "TotalValidatorDelegateStakeBalance ?s = TotalValidatorDelegateStakeBalance s"
    by (simp_all add: validator_pool_updates)
  then have "validator_pool_book.balanced ?s"
    using b(1) by (simp add: balanced_book_ok)
  ultimately have "pools_ok (AccountValidatorDelegateStakeShares ?s) (ValidatorDelegateStakeShares ?s)
       (ValidatorDelegateStakeBalance ?s) (TotalValidatorDelegateStakeBalance ?s)"
    by (simp add: validator_pools_ok)
  then show ?thesis
    using assms(1) e
    by (auto simp: holds_defs increase_account_validator_delegate_stake_def decrease_account_validator_delegate_stake_def)
qed

lemma holds_validator_reward:
  assumes "holds cfg ok (v - unat a) s" and "unat a \<le> v" and "headroom v" and "a \<noteq> 0"
  shows "holds cfg ok v (do_increase_validator_delegate_stake validator_id a s)"
proof -
  let ?s = "do_increase_validator_delegate_stake validator_id a s"
  note b = holds_validator_pools [OF assms(1)] and room = credit_room(5) [OF assms(1-3)]
  have "validator_pool_ok i ?s" for i
    using b(2) [of i] validator_pool.reward_pool_ok [OF b(2) assms(4) validator_pool_room [OF assms(1-3)]]
    by (cases "i = validator_id") (auto simp: validator_pool_other)
  moreover have "validator_pool_book.balanced ?s" and
    "unat (TotalValidatorDelegateStakeBalance ?s) = unat (TotalValidatorDelegateStakeBalance s) + unat a"
    using validator_reward_book.credit_balanced [OF b(1) room] validator_reward_book.credit_exact [OF room] by auto
  ultimately have "pools_ok (AccountValidatorDelegateStakeShares ?s) (ValidatorDelegateStakeShares ?s)
       (ValidatorDelegateStakeBalance ?s) (TotalValidatorDelegateStakeBalance ?s)"
    and "unat (TotalValidatorDelegateStakeBalance ?s) = unat (TotalValidatorDelegateStakeBalance s) + unat a"
    by (simp_all add: validator_pools_ok)
  then show ?thesis
    using assms(1,2)
    by (cases "ValidatorDelegateStakeBalance s validator_id = 0
           \<or> ValidatorDelegateStakeShares s validator_id = 0")
      (auto simp: holds_defs validator_pool_updates Let_def)
qed

lemma holds_validator_seed:
  assumes "holds cfg ok v s" and "ValidatorDelegateStakeShares s validator_id = 0"
  shows "holds cfg ok v (mint_validator_dead_shares validator_id s)"
proof -
  let ?s = "mint_validator_dead_shares validator_id s"
  note b = holds_validator_pools [OF assms(1)]
  have "validator_pool_ok validator_id ?s"
    using b(2) [of validator_id] assms(2)
    by (simp add: validator_pool.pool_ok_def mint_validator_dead_shares_def unat_saturating_add MIN_LIQUIDITY_def)
  then have "validator_pool_ok i ?s" for i
    using b(2) [of i] by (cases "i = validator_id") (auto simp: validator_pool_other)
  moreover have "validator_pool_book.balanced ?s"
    using b(1) by (simp add: balanced_book_ok mint_validator_dead_shares_def)
  ultimately have "pools_ok (AccountValidatorDelegateStakeShares ?s) (ValidatorDelegateStakeShares ?s)
       (ValidatorDelegateStakeBalance ?s) (TotalValidatorDelegateStakeBalance ?s)"
    by (simp add: validator_pools_ok)
  then show ?thesis using assms(1) by (auto simp: holds_defs mint_validator_dead_shares_def)
qed

lemma holds_handle_increase_validator:
  assumes "holds cfg ok (v - unat a) s" and "unat a \<le> v" and "headroom v"
  shows "holds cfg ok v (fst (handle_increase_account_validator_delegate_stake who validator_id a s))"
  using holds_validator_deposit [OF assms] holds_validator_seed [OF holds_mono [OF assms(1)], of v]
    holds_mono [OF assms(1), of v]
  by (simp add: handle_increase_account_validator_delegate_stake_eq Let_def)

section \<open>Moves of the queue\<close>

lemma holds_enqueue:
  assumes "holds cfg ok (v - unat (get_queue_balance (qs_call it))) s"
    and "unat (get_queue_balance (qs_call it)) \<le> v" and "NextSwapQueueId s \<noteq> - 1"
  shows "holds cfg ok v (enqueue_item it s)"
proof -
  let ?s = "enqueue_item it s"
  have q: "swap_queue_ok s" using assms(1) by (simp add: holds_defs queue_inv_iff)
  then have "NextSwapQueueId s \<notin> set (SwapQueueOrder s)" by (auto simp: swap_queue.wf_def)
  then have "queued (SwapQueueOrder ?s) (SwapCallQueue ?s)
      = queued (SwapQueueOrder s) (SwapCallQueue s) + unat (get_queue_balance (qs_call it))"
    by (auto simp: queued_def enqueue_item_def Let_def intro!: arg_cong [where f = sum_list])
  moreover have "queue_inv (SwapQueueOrder ?s) (SwapCallQueue ?s) (NextSwapQueueId ?s)"
    using swap_queue.wf_push(1) [OF q assms(3)] by (simp add: queue_inv_iff)
  ultimately show ?thesis
    using assms(1,2) by (auto simp: holds_defs enqueue_item_def Let_def)
qed

lemma holds_dequeue:
  assumes "holds cfg ok v s" and "SwapQueueOrder s = i # ids" and "SwapCallQueue s i = Some it"
  shows "unat (get_queue_balance (qs_call it)) \<le> v"
    and "holds cfg ok (v - unat (get_queue_balance (qs_call it))) (dequeue_head s)"
proof -
  let ?s = "dequeue_head s"
  have q: "swap_queue_ok s" using assms(1) by (simp add: holds_defs queue_inv_iff)
  then have "i \<notin> set ids" using assms(2) by (auto simp: swap_queue.wf_def)
  then have "queued (SwapQueueOrder ?s) (SwapCallQueue ?s) + unat (get_queue_balance (qs_call it))
      = queued (SwapQueueOrder s) (SwapCallQueue s)"
    using assms(2,3)
    by (auto simp: queued_def dequeue_head_def intro!: arg_cong [where f = sum_list])
  moreover have "queue_inv (SwapQueueOrder ?s) (SwapCallQueue ?s) (NextSwapQueueId ?s)"
    using swap_queue.wf_pop(1) [OF q] assms(2) by (simp add: queue_inv_iff)
  ultimately show "unat (get_queue_balance (qs_call it)) \<le> v"
    and "holds cfg ok (v - unat (get_queue_balance (qs_call it))) ?s"
    using assms(1,2) by (auto simp: holds_defs dequeue_head_def)
qed

lemma holds_edit:
  assumes "holds cfg ok v s" and "SwapCallQueue s i = Some it"
    and "get_queue_balance (qs_call it') = get_queue_balance (qs_call it)"
  shows "holds cfg ok v (s\<lparr>SwapCallQueue := (SwapCallQueue s)(i \<mapsto> it')\<rparr>)"
proof -
  have "queued (SwapQueueOrder s) ((SwapCallQueue s)(i \<mapsto> it')) = queued (SwapQueueOrder s) (SwapCallQueue s)"
    unfolding queued_def using assms(2,3) by (intro arg_cong [where f = sum_list] map_cong) auto
  then show ?thesis
    using assms(1,2) by (auto simp: holds_defs queue_inv_def)
qed

lemma dequeue_deliver: "dequeue_head (deliver_swap call s) = deliver_swap call (dequeue_head s)"
  by (cases call; cases "SwapQueueOrder s")
    (simp_all add: dequeue_head_def handle_increase_account_delegate_stake_def
      handle_increase_account_validator_delegate_stake_def subnet_pool_updates validator_pool_updates
      Let_def)

lemma holds_deliver:
  assumes "holds cfg ok (v - unat (get_queue_balance call)) s"
    and "unat (get_queue_balance call) \<le> v" and "headroom v"
  shows "holds cfg ok v (deliver_swap call s)"
  using holds_handle_increase_subnet [OF assms] holds_handle_increase_validator [OF assms]
  by (cases call) simp_all

lemma holds_execute_ready_swap_calls:
  assumes "holds cfg ok v s" and "headroom v"
  shows "holds cfg ok v (fst (execute_ready_swap_calls W block w s))"
  unfolding execute_ready_swap_calls_def Let_def
proof (rule execute_loop_inv)
  show "holds cfg ok v s" by (rule assms(1))
next
  fix s :: "('a, 'b) network_scheme" and i ids it
  assume "holds cfg ok v s" and "SwapQueueOrder s = i # ids" and "SwapCallQueue s i = Some it"
  from holds_dequeue [OF this] show "holds cfg ok v (dequeue_head (deliver_swap (qs_call it) s))"
    using assms(2) by (simp add: dequeue_deliver holds_deliver)
qed

end
