(* ===== verification/Staking_Calls.thy ===== *)
theory Staking_Calls
  imports Network_Invariant
begin

text \<open>
  The dispatchable staking calls of the pallet (\<open>lib.rs\<close>), with the pause and existence
  checks they make before the operations of the components, and the runs of the chain they
  make up together with the block hook.
\<close>

section \<open>The calls\<close>

definition add_node_stake ::
  "'c Config \<Rightarrow> RuntimeOrigin \<Rightarrow> u32 \<Rightarrow> u32 \<Rightarrow> u128 \<Rightarrow> ('c, 'm) network_scheme \<Rightarrow>
   (('c, 'm) network_scheme, unit) outcome"
where
  "add_node_stake cfg origin subnet_id subnet_node_id stake_to_be_added s =
     (case ensure_signed origin of Inl e \<Rightarrow> (s, Inl e) | Inr _ \<Rightarrow>
      case is_paused s of Inl e \<Rightarrow> (s, Inl e) | Inr _ \<Rightarrow>
      do_add_node_stake cfg origin subnet_id subnet_node_id stake_to_be_added s)"

definition remove_node_stake ::
  "'c Config \<Rightarrow> RuntimeOrigin \<Rightarrow> u32 \<Rightarrow> u32 \<Rightarrow> u128 \<Rightarrow> ('c, 'm) network_scheme \<Rightarrow>
   (('c, 'm) network_scheme, unit) outcome"
where
  "remove_node_stake cfg origin subnet_id subnet_node_id stake_to_be_removed s =
     (case ensure_signed origin of Inl e \<Rightarrow> (s, Inl e) | Inr coldkey \<Rightarrow>
      case is_paused s of Inl e \<Rightarrow> (s, Inl e) | Inr _ \<Rightarrow>
      do_remove_node_stake cfg origin subnet_id subnet_node_id stake_to_be_removed s)"

definition add_delegate_stake ::
  "'c Config \<Rightarrow> RuntimeOrigin \<Rightarrow> u32 \<Rightarrow> u128 \<Rightarrow> ('c, 'm) network_scheme \<Rightarrow>
   (('c, 'm) network_scheme, unit) outcome"
where
  "add_delegate_stake cfg origin subnet_id stake_to_be_added s =
     (case ensure_signed origin of Inl e \<Rightarrow> (s, Inl e) | Inr account_id \<Rightarrow>
      case is_paused s of Inl e \<Rightarrow> (s, Inl e) | Inr _ \<Rightarrow>
      if SubnetsData s subnet_id = None then (s, Inl InvalidSubnetId)
      else do_add_delegate_stake cfg origin subnet_id stake_to_be_added s)"

definition swap_from_subnet_to_subnet ::
  "'c Config \<Rightarrow> RuntimeOrigin \<Rightarrow> u32 \<Rightarrow> u32 \<Rightarrow> u128 \<Rightarrow> ('c, 'm) network_scheme \<Rightarrow>
   (('c, 'm) network_scheme, unit) outcome"
where
  "swap_from_subnet_to_subnet cfg origin from_subnet_id to_subnet_id delegate_stake_shares_to_swap s =
     (case is_paused s of Inl e \<Rightarrow> (s, Inl e) | Inr _ \<Rightarrow>
      if SubnetsData s to_subnet_id = None then (s, Inl InvalidSubnetId)
      else do_swap_from_subnet_to_subnet cfg origin from_subnet_id to_subnet_id
             delegate_stake_shares_to_swap s)"

definition transfer_delegate_stake ::
  "RuntimeOrigin \<Rightarrow> u32 \<Rightarrow> account_id \<Rightarrow> u128 \<Rightarrow> ('c, 'm) network_scheme \<Rightarrow>
   (('c, 'm) network_scheme, unit) outcome"
where
  "transfer_delegate_stake origin subnet_id to_account_id delegate_stake_shares_to_transfer s =
     (case is_paused s of Inl e \<Rightarrow> (s, Inl e) | Inr _ \<Rightarrow>
      do_transfer_delegate_stake origin subnet_id to_account_id delegate_stake_shares_to_transfer s)"

definition remove_delegate_stake ::
  "'c Config \<Rightarrow> RuntimeOrigin \<Rightarrow> u32 \<Rightarrow> u128 \<Rightarrow> ('c, 'm) network_scheme \<Rightarrow>
   (('c, 'm) network_scheme, unit) outcome"
where
  "remove_delegate_stake cfg origin subnet_id shares_to_be_removed s =
     (case is_paused s of Inl e \<Rightarrow> (s, Inl e) | Inr _ \<Rightarrow>
      do_remove_delegate_stake cfg origin subnet_id shares_to_be_removed s)"

definition donate_delegate_stake ::
  "'c Config \<Rightarrow> RuntimeOrigin \<Rightarrow> u32 \<Rightarrow> u128 \<Rightarrow> ('c, 'm) network_scheme \<Rightarrow>
   (('c, 'm) network_scheme, unit) outcome"
where
  "donate_delegate_stake cfg origin subnet_id amount s =
     (case ensure_signed origin of Inl e \<Rightarrow> (s, Inl e) | Inr account_id \<Rightarrow>
      case is_paused s of Inl e \<Rightarrow> (s, Inl e) | Inr _ \<Rightarrow>
      if SubnetsData s subnet_id = None then (s, Inl InvalidSubnetId)
      else if \<not> amount \<ge> MinDelegateStakeDeposit s then (s, Inl MinDelegateStake)
      else case u128_to_balance amount of None \<Rightarrow> (s, Inl CouldNotConvertToBalance)
      | Some amount_as_balance \<Rightarrow>
      if \<not> can_remove_balance_from_coldkey_account cfg account_id amount_as_balance s
      then (s, Inl NotEnoughBalance)
      else
      let (s, removed) = remove_balance_from_coldkey_account cfg account_id amount_as_balance s in
      if \<not> removed then (s, Inl BalanceWithdrawalError)
      else (do_increase_delegate_stake subnet_id amount s, Inr ()))"

definition add_validator_delegate_stake ::
  "'c Config \<Rightarrow> RuntimeOrigin \<Rightarrow> u32 \<Rightarrow> u128 \<Rightarrow> ('c, 'm) network_scheme \<Rightarrow>
   (('c, 'm) network_scheme, unit) outcome"
where
  "add_validator_delegate_stake cfg origin validator_id delegate_stake_to_be_added s =
     (case is_paused s of Inl e \<Rightarrow> (s, Inl e) | Inr _ \<Rightarrow>
      if ValidatorsData s validator_id = None then (s, Inl InvalidValidatorId)
      else do_add_validator_delegate_stake cfg origin validator_id delegate_stake_to_be_added s)"

definition transfer_validator_delegate_stake ::
  "RuntimeOrigin \<Rightarrow> u32 \<Rightarrow> account_id \<Rightarrow> u128 \<Rightarrow> ('c, 'm) network_scheme \<Rightarrow>
   (('c, 'm) network_scheme, unit) outcome"
where
  "transfer_validator_delegate_stake origin validator_id to_account_id
       validator_delegate_stake_shares_to_transfer s =
     (case is_paused s of Inl e \<Rightarrow> (s, Inl e) | Inr _ \<Rightarrow>
      do_transfer_validator_delegate_stake origin validator_id to_account_id
        validator_delegate_stake_shares_to_transfer s)"

definition remove_validator_delegate_stake ::
  "'c Config \<Rightarrow> RuntimeOrigin \<Rightarrow> u32 \<Rightarrow> u128 \<Rightarrow> ('c, 'm) network_scheme \<Rightarrow>
   (('c, 'm) network_scheme, unit) outcome"
where
  "remove_validator_delegate_stake cfg origin validator_id
       validator_delegate_stake_shares_to_be_removed s =
     (case is_paused s of Inl e \<Rightarrow> (s, Inl e) | Inr _ \<Rightarrow>
      do_remove_validator_delegate_stake cfg origin validator_id
        validator_delegate_stake_shares_to_be_removed s)"

definition swap_from_validator_to_validator ::
  "'c Config \<Rightarrow> RuntimeOrigin \<Rightarrow> u32 \<Rightarrow> u32 \<Rightarrow> u128 \<Rightarrow> ('c, 'm) network_scheme \<Rightarrow>
   (('c, 'm) network_scheme, unit) outcome"
where
  "swap_from_validator_to_validator cfg origin from_validator_id to_validator_id stake_to_be_removed s =
     (case ensure_signed origin of Inl e \<Rightarrow> (s, Inl e) | Inr coldkey \<Rightarrow>
      case is_paused s of Inl e \<Rightarrow> (s, Inl e) | Inr _ \<Rightarrow>
      do_swap_from_validator_to_validator cfg origin from_validator_id to_validator_id
        stake_to_be_removed s)"

definition donate_validator_delegate_stake ::
  "'c Config \<Rightarrow> RuntimeOrigin \<Rightarrow> u32 \<Rightarrow> u128 \<Rightarrow> ('c, 'm) network_scheme \<Rightarrow>
   (('c, 'm) network_scheme, unit) outcome"
where
  "donate_validator_delegate_stake cfg origin validator_id amount s =
     (case ensure_signed origin of Inl e \<Rightarrow> (s, Inl e) | Inr account_id \<Rightarrow>
      case is_paused s of Inl e \<Rightarrow> (s, Inl e) | Inr _ \<Rightarrow>
      if ValidatorsData s validator_id = None then (s, Inl InvalidSubnetNodeId)
      else if \<not> amount \<ge> MinDelegateStakeDeposit s then (s, Inl MinDelegateStake)
      else case u128_to_balance amount of None \<Rightarrow> (s, Inl CouldNotConvertToBalance)
      | Some amount_as_balance \<Rightarrow>
      if \<not> can_remove_balance_from_coldkey_account cfg account_id amount_as_balance s
      then (s, Inl NotEnoughBalance)
      else
      let (s, removed) = remove_balance_from_coldkey_account cfg account_id amount_as_balance s in
      if \<not> removed then (s, Inl BalanceWithdrawalError)
      else (do_increase_validator_delegate_stake validator_id amount s, Inr ()))"

definition swap_from_validator_to_subnet ::
  "'c Config \<Rightarrow> RuntimeOrigin \<Rightarrow> u32 \<Rightarrow> u32 \<Rightarrow> u128 \<Rightarrow> ('c, 'm) network_scheme \<Rightarrow>
   (('c, 'm) network_scheme, unit) outcome"
where
  "swap_from_validator_to_subnet cfg origin from_validator_id to_subnet_id
       node_delegate_stake_shares_to_swap s =
     (case is_paused s of Inl e \<Rightarrow> (s, Inl e) | Inr _ \<Rightarrow>
      if SubnetsData s to_subnet_id = None then (s, Inl InvalidSubnetId)
      else do_swap_from_validator_to_subnet cfg origin from_validator_id to_subnet_id
             node_delegate_stake_shares_to_swap s)"

definition swap_from_subnet_to_validator ::
  "'c Config \<Rightarrow> RuntimeOrigin \<Rightarrow> u32 \<Rightarrow> u32 \<Rightarrow> u128 \<Rightarrow> ('c, 'm) network_scheme \<Rightarrow>
   (('c, 'm) network_scheme, unit) outcome"
where
  "swap_from_subnet_to_validator cfg origin from_subnet_id to_validator_id
       subnet_delegate_stake_shares_to_swap s =
     (case is_paused s of Inl e \<Rightarrow> (s, Inl e) | Inr _ \<Rightarrow>
      if ValidatorsData s to_validator_id = None then (s, Inl InvalidValidatorId)
      else do_swap_from_subnet_to_validator cfg origin from_subnet_id to_validator_id
             subnet_delegate_stake_shares_to_swap s)"

definition update_swap_queue ::
  "RuntimeOrigin \<Rightarrow> u32 \<Rightarrow> QueuedSwapCall \<Rightarrow> ('c, 'm) network_scheme \<Rightarrow>
   (('c, 'm) network_scheme, unit) outcome"
where
  "update_swap_queue origin swap_id new_call s =
     (case ensure_signed origin of Inl e \<Rightarrow> (s, Inl e) | Inr account_id \<Rightarrow>
      do_update_swap_queue account_id swap_id new_call s)"

definition remove_delegate_account_balance ::
  "'c Config \<Rightarrow> RuntimeOrigin \<Rightarrow> u128 \<Rightarrow> ('c, 'm) network_scheme \<Rightarrow>
   (('c, 'm) network_scheme, unit) outcome"
where
  "remove_delegate_account_balance cfg origin amount_to_remove s =
     (case ensure_signed origin of Inl e \<Rightarrow> (s, Inl e) | Inr account_id \<Rightarrow>
      case is_paused s of Inl e \<Rightarrow> (s, Inl e) | Inr _ \<Rightarrow>
      do_remove_delegate_account_balance cfg origin amount_to_remove s)"

definition claim_unbondings ::
  "'c Config \<Rightarrow> RuntimeOrigin \<Rightarrow> ('c, 'm) network_scheme \<Rightarrow> (('c, 'm) network_scheme, unit) outcome"
where
  "claim_unbondings cfg origin s =
     (case ensure_signed origin of Inl e \<Rightarrow> (s, Inl e) | Inr coldkey \<Rightarrow>
      case is_paused s of Inl e \<Rightarrow> (s, Inl e) | Inr _ \<Rightarrow>
      let (s, successful_unbondings) = do_claim_unbondings cfg coldkey s in
      if \<not> successful_unbondings > 0 then (s, Inl NoStakeUnbondingsOrCooldownNotMet)
      else (s, Inr ()))"

definition add_overwatch_node_stake ::
  "'c Config \<Rightarrow> RuntimeOrigin \<Rightarrow> u32 \<Rightarrow> u128 \<Rightarrow> ('c, 'm) network_scheme \<Rightarrow>
   (('c, 'm) network_scheme, unit) outcome"
where
  "add_overwatch_node_stake cfg origin overwatch_node_id stake_to_be_added s =
     (case ensure_signed origin of Inl e \<Rightarrow> (s, Inl e) | Inr coldkey \<Rightarrow>
      case is_paused s of Inl e \<Rightarrow> (s, Inl e) | Inr _ \<Rightarrow>
      do_add_overwatch_node_stake cfg origin overwatch_node_id stake_to_be_added s)"

definition remove_overwatch_node_stake ::
  "'c Config \<Rightarrow> RuntimeOrigin \<Rightarrow> u32 \<Rightarrow> u128 \<Rightarrow> ('c, 'm) network_scheme \<Rightarrow>
   (('c, 'm) network_scheme, unit) outcome"
where
  "remove_overwatch_node_stake cfg origin overwatch_node_id stake_to_be_removed s =
     (case ensure_signed origin of Inl e \<Rightarrow> (s, Inl e) | Inr coldkey \<Rightarrow>
      case is_paused s of Inl e \<Rightarrow> (s, Inl e) | Inr _ \<Rightarrow>
      let is_overwatch_node = (case OverwatchNodes s overwatch_node_id of Some _ \<Rightarrow> True | None \<Rightarrow> False)
      in do_remove_overwatch_node_stake cfg origin overwatch_node_id is_overwatch_node
           stake_to_be_removed s)"

section \<open>Dispatching\<close>

datatype StakingCall =
    AddNodeStake u32 u32 u128
  | RemoveNodeStake u32 u32 u128
  | AddDelegateStake u32 u128
  | SwapFromSubnetToSubnet u32 u32 u128
  | TransferDelegateStake u32 account_id u128
  | RemoveDelegateStake u32 u128
  | DonateDelegateStake u32 u128
  | AddValidatorDelegateStake u32 u128
  | TransferValidatorDelegateStake u32 account_id u128
  | RemoveValidatorDelegateStake u32 u128
  | SwapFromValidatorToValidator u32 u32 u128
  | DonateValidatorDelegateStake u32 u128
  | SwapFromValidatorToSubnet u32 u32 u128
  | SwapFromSubnetToValidator u32 u32 u128
  | UpdateSwapQueue u32 QueuedSwapCall
  | RemoveDelegateAccountBalance u128
  | ClaimUnbondings
  | AddOverwatchNodeStake u32 u128
  | RemoveOverwatchNodeStake u32 u128

fun call_body ::
  "'c Config \<Rightarrow> RuntimeOrigin \<Rightarrow> StakingCall \<Rightarrow> ('c, 'm) network_scheme \<Rightarrow>
   (('c, 'm) network_scheme, unit) outcome"
where
  "call_body cfg origin (AddNodeStake i n a) = add_node_stake cfg origin i n a"
| "call_body cfg origin (RemoveNodeStake i n a) = remove_node_stake cfg origin i n a"
| "call_body cfg origin (AddDelegateStake i a) = add_delegate_stake cfg origin i a"
| "call_body cfg origin (SwapFromSubnetToSubnet i j n) = swap_from_subnet_to_subnet cfg origin i j n"
| "call_body cfg origin (TransferDelegateStake i to n) = transfer_delegate_stake origin i to n"
| "call_body cfg origin (RemoveDelegateStake i n) = remove_delegate_stake cfg origin i n"
| "call_body cfg origin (DonateDelegateStake i a) = donate_delegate_stake cfg origin i a"
| "call_body cfg origin (AddValidatorDelegateStake i a) = add_validator_delegate_stake cfg origin i a"
| "call_body cfg origin (TransferValidatorDelegateStake i to n) =
     transfer_validator_delegate_stake origin i to n"
| "call_body cfg origin (RemoveValidatorDelegateStake i n) = remove_validator_delegate_stake cfg origin i n"
| "call_body cfg origin (SwapFromValidatorToValidator i j n) =
     swap_from_validator_to_validator cfg origin i j n"
| "call_body cfg origin (DonateValidatorDelegateStake i a) = donate_validator_delegate_stake cfg origin i a"
| "call_body cfg origin (SwapFromValidatorToSubnet i j n) = swap_from_validator_to_subnet cfg origin i j n"
| "call_body cfg origin (SwapFromSubnetToValidator i j n) = swap_from_subnet_to_validator cfg origin i j n"
| "call_body cfg origin (UpdateSwapQueue i c) = update_swap_queue origin i c"
| "call_body cfg origin (RemoveDelegateAccountBalance a) = remove_delegate_account_balance cfg origin a"
| "call_body cfg origin ClaimUnbondings = claim_unbondings cfg origin"
| "call_body cfg origin (AddOverwatchNodeStake n a) = add_overwatch_node_stake cfg origin n a"
| "call_body cfg origin (RemoveOverwatchNodeStake n a) = remove_overwatch_node_stake cfg origin n a"

definition dispatch_call ::
  "'c Config \<Rightarrow> RuntimeOrigin \<Rightarrow> StakingCall \<Rightarrow> ('c, 'm) network_scheme \<Rightarrow>
   (('c, 'm) network_scheme, unit) outcome"
where
  "dispatch_call cfg origin call = dispatch (call_body cfg origin call)"

section \<open>Every call keeps the invariant and creates no value\<close>

lemma prepare_keeps:
  assumes "prepare_unbonding_ledger_entry cfg who a cooldown block s = (s', r)"
  shows "NodeSubnetStake s' = NodeSubnetStake s"
    and "OverwatchNodeStakeBalance s' = OverwatchNodeStakeBalance s"
    and "DelegateAccountStake s' = DelegateAccountStake s"
    and "AccountSubnetDelegateStakeShares s' = AccountSubnetDelegateStakeShares s"
    and "TotalSubnetDelegateStakeShares s' = TotalSubnetDelegateStakeShares s"
    and "TotalSubnetDelegateStakeBalance s' = TotalSubnetDelegateStakeBalance s"
    and "AccountValidatorDelegateStakeShares s' = AccountValidatorDelegateStakeShares s"
    and "ValidatorDelegateStakeShares s' = ValidatorDelegateStakeShares s"
    and "ValidatorDelegateStakeBalance s' = ValidatorDelegateStakeBalance s"
  using prepare_frame [OF assms] by auto

lemma holds_do_add_node_stake:
  assumes "holds cfg ok v s" and "headroom v"
    and "do_add_node_stake cfg origin subnet_id node_id a s = (s', Inr ())"
  shows "holds cfg ok v s'"
  using assms(3)
proof (rule do_add_node_stake_success)
  fix coldkey c
  assume w: "withdraw (Cur cfg) (balances s) coldkey a = Some c"
    and s': "s' = set_last_tx_block coldkey (block_number s)
      (increase_node_stake node_id subnet_id a (s\<lparr>balances := c\<rparr>))"
  show ?thesis
    using holds_withdraw [OF assms(1) w] assms(2) by (simp add: s' holds_increase_node_stake)
qed

lemma holds_do_remove_node_stake:
  assumes "holds cfg ok v s" and "headroom v"
    and "do_remove_node_stake cfg origin subnet_id node_id a s = (s', Inr ())"
  shows "holds cfg ok v s'"
  using assms(3)
proof (rule do_remove_node_stake_success)
  fix coldkey validator_id and s1 :: "('a, 'b) network_scheme"
  let ?cooldown = "StakeCooldownEpochs s * EpochLength cfg"
  let ?s2 = "if SubnetNodeReputation s (subnet_id, node_id) = None
      \<and> NodeSubnetStake s (node_id, subnet_id) \<le> a
    then clean_validator_subnet_nodes validator_id s1 else s1"
  assume le: "a \<le> NodeSubnetStake s (node_id, subnet_id)"
    and p: "prepare_unbonding_ledger_entry cfg coldkey a ?cooldown (block_number s) s = (s1, Inr ())"
    and s': "s' = set_last_tx_block coldkey (block_number s)
      (insert_balance_to_unbonding_ledger coldkey a ?cooldown (block_number s)
        (decrease_node_stake node_id subnet_id a ?s2))"
  have h: "holds cfg ok v ?s2" using holds_prepare [OF assms(1) p] by simp
  have "a \<le> NodeSubnetStake ?s2 (node_id, subnet_id)" using le prepare_keeps(1) [OF p] by simp
  note holds_decrease_node_stake [OF h this]
  then show ?thesis using assms(2) by (simp add: s' holds_enter)
qed

lemma holds_do_add_overwatch_node_stake:
  assumes "holds cfg ok v s" and "headroom v"
    and "do_add_overwatch_node_stake cfg origin node_id a s = (s', Inr ())"
  shows "holds cfg ok v s'"
  using assms(3)
proof (rule do_add_overwatch_node_stake_success)
  fix coldkey c
  assume w: "withdraw (Cur cfg) (balances s) coldkey a = Some c"
    and s': "s' = increase_overwatch_node_stake node_id a (s\<lparr>balances := c\<rparr>)"
  show ?thesis
    using holds_withdraw [OF assms(1) w] assms(2) by (simp add: s' holds_increase_overwatch_node_stake)
qed

lemma holds_do_remove_overwatch_node_stake:
  assumes "holds cfg ok v s" and "headroom v"
    and "do_remove_overwatch_node_stake cfg origin node_id is_node a s = (s', Inr ())"
  shows "holds cfg ok v s'"
  using assms(3)
proof (rule do_remove_overwatch_node_stake_success)
  fix coldkey s1
  let ?cooldown = "StakeCooldownEpochs s * EpochLength cfg"
  assume le: "a \<le> OverwatchNodeStakeBalance s node_id"
    and p: "prepare_unbonding_ledger_entry cfg coldkey a ?cooldown (block_number s) s = (s1, Inr ())"
    and s': "s' = insert_balance_to_unbonding_ledger coldkey a ?cooldown (block_number s)
      (decrease_overwatch_node_stake node_id a s1)"
  have "a \<le> OverwatchNodeStakeBalance s1 node_id" using le prepare_keeps(2) [OF p] by simp
  note holds_decrease_overwatch_node_stake [OF holds_prepare [OF assms(1) p] this]
  then show ?thesis using assms(2) by (simp add: s' holds_enter)
qed

lemma holds_do_remove_delegate_account_balance:
  assumes "holds cfg ok v s" and "headroom v"
    and "do_remove_delegate_account_balance cfg origin a s = (s', Inr ())"
  shows "holds cfg ok v s'"
  using assms(3)
proof (rule do_remove_delegate_account_balance_success)
  fix who s1
  let ?cooldown = "StakeCooldownEpochs s * EpochLength cfg"
  assume le: "a \<le> DelegateAccountStake s who"
    and p: "prepare_unbonding_ledger_entry cfg who a ?cooldown (block_number s) s = (s1, Inr ())"
    and s': "s' = insert_balance_to_unbonding_ledger who a ?cooldown (block_number s)
      (decrease_delegate_account_balance who a s1)"
  have "a \<le> DelegateAccountStake s1 who" using le prepare_keeps(3) [OF p] by simp
  note holds_decrease_delegate_account_balance [OF holds_prepare [OF assms(1) p] this]
  then show ?thesis using assms(2) by (simp add: s' holds_enter)
qed

lemma holds_do_add_delegate_stake:
  assumes "holds cfg ok v s" and "headroom v"
    and "do_add_delegate_stake cfg origin subnet_id a s = (s', Inr ())"
  shows "holds cfg ok v s'"
  using assms(3)
proof (rule do_add_delegate_stake_success)
  fix who s2 n
  assume "perform_do_add_delegate_stake cfg who subnet_id a False s = (s2, Inr (), a, n)"
    and s': "s' = set_last_tx_block who (block_number s2) s2"
  then obtain c where w: "withdraw (Cur cfg) (balances s) who a = Some c"
    and s2: "s2 = subnet_deposit subnet_id who a (s\<lparr>balances := c\<rparr>)"
    by (elim perform_do_add_delegate_stake_success) auto
  show ?thesis
    using holds_withdraw [OF assms(1) w] assms(2) by (simp add: s' s2 holds_subnet_deposit)
qed

lemma holds_do_remove_delegate_stake:
  assumes "holds cfg ok v s" and "headroom v"
    and "do_remove_delegate_stake cfg origin subnet_id n s = (s', Inr ())"
  shows "holds cfg ok v s'"
  using assms(3)
proof (rule do_remove_delegate_stake_success)
  fix who s2 w m
  assume "perform_do_remove_subnet_delegate_stake cfg who subnet_id n True s = (s2, Inr (), w, m)"
    and s': "s' = set_last_tx_block who (block_number s2) s2"
  then show ?thesis
  proof (elim perform_do_remove_subnet_delegate_stake_success)
    fix s1 cooldown
    assume le: "n \<le> AccountSubnetDelegateStakeShares s (who, subnet_id)"
      and w: "w = convert_to_balance n (TotalSubnetDelegateStakeShares s subnet_id)
               (TotalSubnetDelegateStakeBalance s subnet_id)"
      and "if True then prepare_unbonding_ledger_entry cfg who w cooldown (block_number s) s = (s1, Inr ())
           else s1 = s"
      and "s2 = (if True then insert_balance_to_unbonding_ledger who w cooldown (block_number s)
                  (decrease_account_delegate_stake who subnet_id w n s1)
                else decrease_account_delegate_stake who subnet_id w n s1)"
    then have p: "prepare_unbonding_ledger_entry cfg who w cooldown (block_number s) s = (s1, Inr ())"
      and s2: "s2 = insert_balance_to_unbonding_ledger who w cooldown (block_number s)
                  (decrease_account_delegate_stake who subnet_id w n s1)" by simp_all
    have "n \<le> AccountSubnetDelegateStakeShares s1 (who, subnet_id)"
      and "w = convert_to_balance n (TotalSubnetDelegateStakeShares s1 subnet_id)
               (TotalSubnetDelegateStakeBalance s1 subnet_id)"
      using le w prepare_keeps(4-6) [OF p] by simp_all
    note holds_subnet_redeem [OF holds_prepare [OF assms(1) p] this]
    then show ?thesis using assms(2) by (simp add: s' s2 holds_enter)
  qed
qed

lemma holds_swap_from_subnet:
  assumes "holds cfg ok v s" and "NextSwapQueueId s \<noteq> - 1"
    and "perform_do_remove_subnet_delegate_stake cfg who subnet_id n False s = (s1, Inr (), w, m)"
    and "queue_swap cfg who call s1 = (s', Inr ())" and "get_queue_balance call = w"
  shows "holds cfg ok v s'"
  using assms(3)
proof (rule perform_do_remove_subnet_delegate_stake_success)
  fix s2 :: "('a, 'b) network_scheme" and cooldown
  assume le: "n \<le> AccountSubnetDelegateStakeShares s (who, subnet_id)"
    and w: "w = convert_to_balance n (TotalSubnetDelegateStakeShares s subnet_id)
             (TotalSubnetDelegateStakeBalance s subnet_id)"
    and "if False then prepare_unbonding_ledger_entry cfg who w cooldown (block_number s) s = (s2, Inr ())
         else s2 = s"
    and "s1 = (if False then insert_balance_to_unbonding_ledger who w cooldown (block_number s)
                (decrease_account_delegate_stake who subnet_id w n s2)
              else decrease_account_delegate_stake who subnet_id w n s2)"
  then have s1: "s1 = decrease_account_delegate_stake who subnet_id w n s" by simp
  have "s' = enqueue_item (new_swap_item cfg call s1) s1"
    using assms(4) by (simp add: queue_swap_eq split: if_splits)
  moreover have "NextSwapQueueId s1 \<noteq> - 1"
    using assms(2) by (simp add: s1 decrease_account_delegate_stake_def)
  ultimately show ?thesis
    using holds_subnet_redeem [OF assms(1) le w] assms(5)
    by (simp add: holds_enqueue new_swap_item_def flip: s1)
qed

lemma holds_donate_delegate_stake:
  assumes "holds cfg ok v s" and "headroom v"
    and "donate_delegate_stake cfg origin subnet_id a s = (s', Inr ())"
  shows "holds cfg ok v s'"
proof -
  obtain who c where w: "withdraw (Cur cfg) (balances s) who a = Some c"
    and m: "MinDelegateStakeDeposit s \<le> a"
    and s': "s' = do_increase_delegate_stake subnet_id a (s\<lparr>balances := c\<rparr>)"
    using assms(3)
    by (auto simp: donate_delegate_stake_def u128_to_balance_def remove_balance_True Let_def
        split: call_splits)
  have "MinDelegateStakeDeposit s \<noteq> 0" using assms(1) by (auto simp: holds_defs)
  with m have "a \<noteq> 0" by auto
  then show ?thesis
    using holds_withdraw [OF assms(1) w] assms(2) by (simp add: s' holds_subnet_reward)
qed

text \<open>The same for the pools of the validators.\<close>

lemma holds_do_add_validator_delegate_stake:
  assumes "holds cfg ok v s" and "headroom v"
    and "do_add_validator_delegate_stake cfg origin validator_id a s = (s', Inr ())"
  shows "holds cfg ok v s'"
  using assms(3)
proof (rule do_add_validator_delegate_stake_success)
  fix who s2 n
  assume "perform_do_add_validator_delegate_stake cfg who validator_id a False s = (s2, Inr (), a, n)"
    and s': "s' = set_last_tx_block who (block_number s2) s2"
  then obtain c where w: "withdraw (Cur cfg) (balances s) who a = Some c"
    and s2: "s2 = validator_deposit validator_id who a (s\<lparr>balances := c\<rparr>)"
    by (elim perform_do_add_validator_delegate_stake_success) auto
  show ?thesis
    using holds_withdraw [OF assms(1) w] assms(2) by (simp add: s' s2 holds_validator_deposit)
qed

lemma holds_do_remove_validator_delegate_stake:
  assumes "holds cfg ok v s" and "headroom v"
    and "do_remove_validator_delegate_stake cfg origin validator_id n s = (s', Inr ())"
  shows "holds cfg ok v s'"
  using assms(3)
proof (rule do_remove_validator_delegate_stake_success)
  fix who s2 w m
  assume "perform_do_remove_validator_delegate_stake cfg who validator_id n True s = (s2, Inr (), w, m)"
    and s': "s' = set_last_tx_block who (block_number s2) s2"
  then show ?thesis
  proof (elim perform_do_remove_validator_delegate_stake_success)
    fix s1 cooldown
    assume le: "n \<le> AccountValidatorDelegateStakeShares s (who, validator_id)"
      and w: "w = convert_to_balance n (ValidatorDelegateStakeShares s validator_id)
               (ValidatorDelegateStakeBalance s validator_id)"
      and "if True then prepare_unbonding_ledger_entry cfg who w cooldown (block_number s) s = (s1, Inr ())
           else s1 = s"
      and "s2 = (if True then insert_balance_to_unbonding_ledger who w cooldown (block_number s)
                  (decrease_account_validator_delegate_stake who validator_id w n s1)
                else decrease_account_validator_delegate_stake who validator_id w n s1)"
    then have p: "prepare_unbonding_ledger_entry cfg who w cooldown (block_number s) s = (s1, Inr ())"
      and s2: "s2 = insert_balance_to_unbonding_ledger who w cooldown (block_number s)
                  (decrease_account_validator_delegate_stake who validator_id w n s1)" by simp_all
    have "n \<le> AccountValidatorDelegateStakeShares s1 (who, validator_id)"
      and "w = convert_to_balance n (ValidatorDelegateStakeShares s1 validator_id)
               (ValidatorDelegateStakeBalance s1 validator_id)"
      using le w prepare_keeps(7-9) [OF p] by simp_all
    note holds_validator_redeem [OF holds_prepare [OF assms(1) p] this]
    then show ?thesis using assms(2) by (simp add: s' s2 holds_enter)
  qed
qed

lemma holds_swap_from_validator:
  assumes "holds cfg ok v s" and "NextSwapQueueId s \<noteq> - 1"
    and "perform_do_remove_validator_delegate_stake cfg who validator_id n False s = (s1, Inr (), w, m)"
    and "queue_swap cfg who call s1 = (s', Inr ())" and "get_queue_balance call = w"
  shows "holds cfg ok v s'"
  using assms(3)
proof (rule perform_do_remove_validator_delegate_stake_success)
  fix s2 :: "('a, 'b) network_scheme" and cooldown
  assume le: "n \<le> AccountValidatorDelegateStakeShares s (who, validator_id)"
    and w: "w = convert_to_balance n (ValidatorDelegateStakeShares s validator_id)
             (ValidatorDelegateStakeBalance s validator_id)"
    and "if False then prepare_unbonding_ledger_entry cfg who w cooldown (block_number s) s = (s2, Inr ())
         else s2 = s"
    and "s1 = (if False then insert_balance_to_unbonding_ledger who w cooldown (block_number s)
                (decrease_account_validator_delegate_stake who validator_id w n s2)
              else decrease_account_validator_delegate_stake who validator_id w n s2)"
  then have s1: "s1 = decrease_account_validator_delegate_stake who validator_id w n s" by simp
  have "s' = enqueue_item (new_swap_item cfg call s1) s1"
    using assms(4) by (simp add: queue_swap_eq split: if_splits)
  moreover have "NextSwapQueueId s1 \<noteq> - 1"
    using assms(2) by (simp add: s1 decrease_account_validator_delegate_stake_def)
  ultimately show ?thesis
    using holds_validator_redeem [OF assms(1) le w] assms(5)
    by (simp add: holds_enqueue new_swap_item_def flip: s1)
qed

lemma holds_donate_validator_delegate_stake:
  assumes "holds cfg ok v s" and "headroom v"
    and "donate_validator_delegate_stake cfg origin validator_id a s = (s', Inr ())"
  shows "holds cfg ok v s'"
proof -
  obtain who c where w: "withdraw (Cur cfg) (balances s) who a = Some c"
    and m: "MinDelegateStakeDeposit s \<le> a"
    and s': "s' = do_increase_validator_delegate_stake validator_id a (s\<lparr>balances := c\<rparr>)"
    using assms(3)
    by (auto simp: donate_validator_delegate_stake_def u128_to_balance_def remove_balance_True Let_def
        split: call_splits)
  have "MinDelegateStakeDeposit s \<noteq> 0" using assms(1) by (auto simp: holds_defs)
  with m have "a \<noteq> 0" by auto
  then show ?thesis
    using holds_withdraw [OF assms(1) w] assms(2) by (simp add: s' holds_validator_reward)
qed

text \<open>
  The one guard a call lacks: a transfer does not check that the caller holds the shares it
  transfers. The other calls are covered by their own checks.
\<close>

fun covered :: "RuntimeOrigin \<Rightarrow> StakingCall \<Rightarrow> ('c, 'm) network_scheme \<Rightarrow> bool" where
  "covered (Signed who) (TransferDelegateStake i to n) s =
     (n \<le> AccountSubnetDelegateStakeShares s (who, i))"
| "covered (Signed who) (TransferValidatorDelegateStake i to n) s =
     (n \<le> AccountValidatorDelegateStakeShares s (who, i))"
| "covered _ _ _ = True"

lemmas do_swap_defs = do_swap_from_validator_to_subnet_def do_swap_from_subnet_to_validator_def
  do_swap_from_subnet_to_subnet_def do_swap_from_validator_to_validator_def

lemma holds_do_swap:
  assumes "holds cfg ok v s" and "NextSwapQueueId s \<noteq> - 1"
  shows "do_swap_from_subnet_to_subnet cfg origin i j n s = (s', Inr ()) \<Longrightarrow> holds cfg ok v s'"
    and "do_swap_from_subnet_to_validator cfg origin i j n s = (s', Inr ()) \<Longrightarrow> holds cfg ok v s'"
    and "do_swap_from_validator_to_subnet cfg origin i j n s = (s', Inr ()) \<Longrightarrow> holds cfg ok v s'"
    and "do_swap_from_validator_to_validator cfg origin i j n s = (s', Inr ()) \<Longrightarrow> holds cfg ok v s'"
  by (auto simp: do_swap_defs split: call_splits
      dest: holds_swap_from_subnet [OF assms] holds_swap_from_validator [OF assms])

lemma is_paused_Inr: "is_paused s = Inr u \<longleftrightarrow> \<not> TxPause s"
  by (simp add: is_paused_def)

lemmas guarded_call_defs = add_node_stake_def remove_node_stake_def add_delegate_stake_def
  swap_from_subnet_to_subnet_def remove_delegate_stake_def add_validator_delegate_stake_def
  remove_validator_delegate_stake_def swap_from_validator_to_validator_def
  swap_from_validator_to_subnet_def swap_from_subnet_to_validator_def update_swap_queue_def
  remove_delegate_account_balance_def add_overwatch_node_stake_def remove_overwatch_node_stake_def

lemmas holds_operations = holds_do_add_node_stake holds_do_remove_node_stake
  holds_do_add_delegate_stake holds_do_remove_delegate_stake holds_donate_delegate_stake
  holds_do_add_validator_delegate_stake holds_do_remove_validator_delegate_stake
  holds_donate_validator_delegate_stake holds_do_remove_delegate_account_balance
  holds_do_add_overwatch_node_stake holds_do_remove_overwatch_node_stake

lemma holds_do_transfer:
  assumes "holds cfg ok v s"
  shows "do_transfer_delegate_stake origin i to n s = (s', Inr ()) \<Longrightarrow>
      covered origin (TransferDelegateStake i to n) s \<Longrightarrow> holds cfg ok v s'"
    and "do_transfer_validator_delegate_stake origin i to n s = (s', Inr ()) \<Longrightarrow>
      covered origin (TransferValidatorDelegateStake i to n) s \<Longrightarrow> holds cfg ok v s'"
  using holds_subnet_transfer [OF assms] holds_validator_transfer [OF assms]
  by (auto elim!: do_transfer_delegate_stake_success do_transfer_validator_delegate_stake_success)

lemma holds_claim_unbondings:
  assumes "holds cfg ok v s" and "claim_unbondings cfg origin s = (s', Inr ())"
  shows "holds cfg ok v s'"
proof -
  obtain who k where "do_claim_unbondings cfg who s = (s', k)"
    using assms(2) by (auto simp: claim_unbondings_def Let_def split: call_splits)
  with holds_claim [OF assms(1), of who] show ?thesis by simp
qed

lemma holds_call_body:
  assumes "holds cfg ok v s" and "headroom v" and "NextSwapQueueId s \<noteq> - 1"
    and "covered origin call s" and "call_body cfg origin call s = (s', Inr ())"
  shows "holds cfg ok v s'"
proof (cases call)
  case (TransferDelegateStake i to n)
  with assms(4,5) holds_do_transfer(1) [OF assms(1), of origin i to n] show ?thesis
    by (auto simp: transfer_delegate_stake_def split: sum.splits)
next
  case (TransferValidatorDelegateStake i to n)
  with assms(4,5) holds_do_transfer(2) [OF assms(1), of origin i to n] show ?thesis
    by (auto simp: transfer_validator_delegate_stake_def split: sum.splits)
next
  case (UpdateSwapQueue i c)
  with assms(1,5) show ?thesis
    by (auto simp: update_swap_queue_def do_update_swap_queue_success split: sum.splits
        intro!: holds_edit)
next
  case ClaimUnbondings
  with assms(1,5) show ?thesis by (auto intro: holds_claim_unbondings)
qed (use assms(5) in \<open>auto simp: guarded_call_defs Let_def split: sum.splits if_splits
      intro: holds_operations [OF assms(1,2)] holds_do_swap [OF assms(1,3)]\<close>)

lemma holds_dispatch_call:
  assumes "holds cfg ok v s" and "headroom v" and "NextSwapQueueId s \<noteq> - 1"
    and "covered origin call s" and "dispatch_call cfg origin call s = (s', r)"
  shows "holds cfg ok v s'"
proof (cases r)
  case (Inl e)
  with assms(1,5) show ?thesis by (auto simp: dispatch_call_def dest: dispatch_Inl)
next
  case (Inr u)
  with assms show ?thesis
    by (auto simp: dispatch_call_def dispatch_Inr intro: holds_call_body [OF assms(1-4)])
qed

section \<open>Runs of the chain\<close>

text \<open>
  What happens on the chain, as far as staking goes: a dispatched call of any origin, with any result, or
  a new block whose hook executes the queued calls that are ready.
\<close>

datatype StakingEvent = Dispatched RuntimeOrigin StakingCall | NewBlock

inductive staking_step ::
  "'c Config \<Rightarrow> ('w, 'k) Weights \<Rightarrow> ('c, 'm) network_scheme \<Rightarrow> StakingEvent \<Rightarrow> ('c, 'm) network_scheme \<Rightarrow> bool"
  for cfg W
where
  Call: "dispatch_call cfg origin call s = (s', r) \<Longrightarrow> staking_step cfg W s (Dispatched origin call) s'"
| Block: "execute_ready_swap_calls W (block_number s + 1) w (s\<lparr>block_number := block_number s + 1\<rparr>)
      = (s', w') \<Longrightarrow> staking_step cfg W s NewBlock s'"

inductive_cases staking_stepE: "staking_step cfg W s e s'"

inductive staking_run ::
  "'c Config \<Rightarrow> ('w, 'k) Weights \<Rightarrow> ('c, 'm) network_scheme \<Rightarrow> StakingEvent list \<Rightarrow> ('c, 'm) network_scheme \<Rightarrow> bool"
  for cfg W s
where
  Start: "staking_run cfg W s [] s"
| Step: "staking_run cfg W s es t \<Longrightarrow> staking_step cfg W t e u \<Longrightarrow> staking_run cfg W s (es @ [e]) u"

text \<open>
  What the code does not check of a call: that the sender of a transfer has the shares, and that there is
  another identifier for a queued swap.
\<close>

fun event_covered :: "StakingEvent \<Rightarrow> ('c, 'm) network_scheme \<Rightarrow> bool" where
  "event_covered (Dispatched origin call) s = (covered origin call s \<and> NextSwapQueueId s \<noteq> - 1)"
| "event_covered NewBlock s = True"

definition run_covered ::
  "'c Config \<Rightarrow> ('w, 'k) Weights \<Rightarrow> ('c, 'm) network_scheme \<Rightarrow> StakingEvent list \<Rightarrow> bool" where
  "run_covered cfg W s es \<longleftrightarrow>
     (\<forall>xs e ys t. es = xs @ e # ys \<longrightarrow> staking_run cfg W s xs t \<longrightarrow> event_covered e t)"

lemma holds_next_block [simp]: "holds cfg ok v (s\<lparr>block_number := b\<rparr>) = holds cfg ok v s"
  by (simp add: holds_defs)

lemma holds_staking_step:
  assumes "holds cfg ok v s" and "headroom v" and "event_covered e s" and "staking_step cfg W s e s'"
  shows "holds cfg ok v s'"
  using assms(4)
proof (rule staking_stepE)
  fix origin call r
  assume "e = Dispatched origin call" and "dispatch_call cfg origin call s = (s', r)"
  then show ?thesis using assms(3) by (auto intro: holds_dispatch_call [OF assms(1,2)])
next
  fix w w'
  assume "execute_ready_swap_calls W (block_number s + 1) w (s\<lparr>block_number := block_number s + 1\<rparr>)
    = (s', w')"
  with holds_execute_ready_swap_calls [of cfg ok v "s\<lparr>block_number := block_number s + 1\<rparr>" W
      "block_number s + 1" w] assms(1,2)
  show ?thesis by simp
qed

lemma run_covered_prefix: "run_covered cfg W s (es @ fs) \<Longrightarrow> run_covered cfg W s es"
  unfolding run_covered_def by (metis append.assoc append_Cons)

lemma run_covered_last:
  assumes "run_covered cfg W s (es @ [e])" and "staking_run cfg W s es t"
  shows "event_covered e t"
  using assms unfolding run_covered_def by blast

lemma staking_run_Nil [simp]: "staking_run cfg W s [] t \<longleftrightarrow> t = s"
  by (auto intro: Start elim: staking_run.cases)

lemma holds_staking_run:
  assumes "staking_run cfg W s es s'" and "run_covered cfg W s es" and "holds cfg ok v s" and "headroom v"
  shows "holds cfg ok v s'"
  using assms(1,2)
proof induction
  case (Step es t e u)
  then show ?case
    using holds_staking_step [OF _ assms(4)] run_covered_prefix run_covered_last by blast
qed (rule assms(3))

end
