(* ===== verification/Network_Metrics.thy ===== *)
theory Network_Metrics
  imports Network_Invariant
begin

text \<open>
  Figures the network computes from its storage (\<open>utilities/misc.rs\<close>,
  \<open>utilities/delegate_staking.rs\<close>): the circulating supply, the average size of a subnet, and
  the delegate stake a subnet needs to stay live, which grows with its electable nodes. The
  storage read here and by the reputation code extends the storage of the staking code.
\<close>

section \<open>Storage\<close>

record SubnetReputationFactors =
  absent_decrease :: u128
  included_increase :: u128
  below_min_weight_decrease :: u128
  non_attestor_decrease :: u128
  non_consensus_attestor_decrease :: u128
  validator_absent_decrease :: u128
  validator_non_consensus_decrease :: u128

record PendingSubnetReputationFactors =
  effective_subnet_epoch :: u32
  pending_factors :: SubnetReputationFactors

record SubnetReputationFactorSchedule =
  srf_current :: SubnetReputationFactors
  srf_pending :: "PendingSubnetReputationFactors option"

record Reputation =
  start_epoch :: u32
  score :: u128
  lifetime_node_count :: u32
  total_active_nodes :: u32
  total_increases :: u32
  total_decreases :: u32
  average_attestation :: u128
  last_validator_epoch :: u32
  ow_score :: u128

record 'c network_consensus = "'c network" +
  TotalActiveSubnets :: u32
  TotalActiveNodes :: u32
  MinSubnetNodes :: u32
  MaxSubnetNodes :: u32
  MaxMinDelegateStakeMultiplier :: u128
  MinSubnetDelegateStakeFactor :: u128
  SubnetNodeElectionSlots :: "u32 \<Rightarrow> u32 list"
  ValidatorReputation :: "u32 \<rightharpoonup> Reputation"
  SubnetReputation :: "u32 \<Rightarrow> u128"
  SubnetReputationFactorSchedules :: "u32 \<Rightarrow> SubnetReputationFactorSchedule"

section \<open>The figures\<close>

text \<open>The runtime's balance type is \<open>u128\<close>, so this conversion always succeeds too.\<close>

definition balance_to_u128 :: "u128 \<Rightarrow> u128 option" where
  "balance_to_u128 input = Some input"

definition get_total_network_issuance :: "'c Config \<Rightarrow> ('c, 'm) network_scheme \<Rightarrow> u128" where
  "get_total_network_issuance cfg s =
     (let total_issuance = total_issuance (Cur cfg) (balances s);
          total_staked = TotalStake s;
          total_delegate_staked = TotalDelegateStake s;
          total_node_delegate_staked = TotalNodeDelegateStake s;
          unbonding_balance = TotalUnbondingBalance s;
          delegate_account_balance = TotalAccountDelegateStake s
      in saturating_add (saturating_add (saturating_add (saturating_add (saturating_add
           total_issuance total_staked) total_delegate_staked) total_node_delegate_staked)
           unbonding_balance) delegate_account_balance)"

definition get_avg_nodes_per_subnet :: "('c, 'm) network_consensus_scheme \<Rightarrow> u128" where
  "get_avg_nodes_per_subnet s =
     (let subnets = TotalActiveSubnets s; nodes = TotalActiveNodes s
      in percent_div (ucast nodes) (ucast subnets))"

definition add_balance_to_treasury ::
  "'c Config \<Rightarrow> account_id \<Rightarrow> u128 \<Rightarrow> ('c, 'm) network_scheme \<Rightarrow> ('c, 'm) network_scheme" where
  "add_balance_to_treasury cfg treasury_account amount s =
     s\<lparr>balances := deposit_creating (Cur cfg) (balances s) treasury_account amount\<rparr>"

definition burn ::
  "'c Config \<Rightarrow> account_id \<Rightarrow> u128 \<Rightarrow> ('c, 'm) network_scheme \<Rightarrow> ('c, 'm) network_scheme \<times> bool" where
  "burn cfg who amount s = remove_balance_from_coldkey_account cfg who amount s"

text \<open>A set of the values has as many elements as the slice.\<close>

definition are_all_unique :: "'v::linorder list \<Rightarrow> bool" where
  "are_all_unique values = (length (sorted_list_of_set (set values)) = length values)"

definition get_subnet_min_delegate_staking_multiplier ::
  "u32 \<Rightarrow> ('c, 'm) network_consensus_scheme \<Rightarrow> u128" where
  "get_subnet_min_delegate_staking_multiplier electable_node_count s =
     (let min_nodes = MinSubnetNodes s;
          max_nodes = MaxSubnetNodes s;
          min_multiplier = percentage_factor_as_u128;
          max_multiplier = MaxMinDelegateStakeMultiplier s in
      if electable_node_count \<le> min_nodes then min_multiplier
      else if electable_node_count \<ge> max_nodes then max_multiplier
      else
      let node_delta = saturating_sub electable_node_count min_nodes;
          range = saturating_sub max_nodes min_nodes;
          ratio = percent_div (ucast node_delta) (ucast range);
          delta = saturating_sub max_multiplier min_multiplier
      in saturating_add min_multiplier (percent_mul ratio delta))"

definition get_min_subnet_delegate_stake_balance ::
  "'c Config \<Rightarrow> u32 \<Rightarrow> ('c, 'm) network_consensus_scheme \<Rightarrow> u128" where
  "get_min_subnet_delegate_stake_balance cfg subnet_id s =
     (let total_network_issuance = get_total_network_issuance cfg s;
          factor = MinSubnetDelegateStakeFactor s;
          base_min = percent_mul total_network_issuance factor;
          electable_node_count = of_nat (length (SubnetNodeElectionSlots s subnet_id)) :: u32;
          multiplier = get_subnet_min_delegate_staking_multiplier electable_node_count s
      in percent_mul base_min multiplier)"

section \<open>What they compute\<close>

lemma are_all_unique_iff: "are_all_unique xs \<longleftrightarrow> distinct xs"
  by (auto simp: are_all_unique_def distinct_card card_distinct)

lemma unat_get_total_network_issuance:
  assumes "network_value cfg s + unat (TotalNodeDelegateStake s) < 2 ^ 128"
  shows "unat (get_total_network_issuance cfg s) =
     unat (total_issuance (Cur cfg) (balances s)) + unat (TotalStake s) + unat (TotalDelegateStake s)
       + unat (TotalNodeDelegateStake s) + unat (TotalUnbondingBalance s)
       + unat (TotalAccountDelegateStake s)"
  using assms by (simp add: get_total_network_issuance_def network_value_def Let_def unat_saturating_add)

lemma unat_u32_as_u128: "unat (ucast x :: u128) = unat x" for x :: u32
proof -
  have "unat x < 2 ^ 128" using unat_lt_exp [of x] by simp
  then show ?thesis by (simp add: unsigned_ucast_eq take_bit_nat_eq_self)
qed

lemma saturating_add_mono:
  fixes a b c :: u128
  shows "b \<le> c \<Longrightarrow> saturating_add a b \<le> saturating_add a c"
  by (simp add: word_le_nat_alt unat_saturating_add)

lemma unat_node_ratio:
  fixes a b :: u32
  assumes "a \<le> b"
  shows "unat (percent_div (ucast a :: u128) (ucast b)) = unat a * 10 ^ 18 div unat b"
proof -
  have "percent_div (ucast a :: u128) (ucast b) \<le> percentage_factor_as_u128"
    using assms by (intro percent_div_le_one) (simp add: word_le_nat_alt unat_u32_as_u128)
  then have "min (unat a * 10 ^ 18 div unat b) (2 ^ 128 - 1) \<le> 10 ^ 18"
    by (simp add: word_le_nat_alt unat_percent_div unat_percentage_factor unat_u32_as_u128)
  then have "unat a * 10 ^ 18 div unat b \<le> 2 ^ 128 - 1"
    by (simp add: min_def split: if_splits)
  then show ?thesis by (simp add: unat_percent_div unat_u32_as_u128)
qed

lemma multiplier_bounds:
  assumes "percentage_factor_as_u128 \<le> MaxMinDelegateStakeMultiplier s"
  shows "percentage_factor_as_u128 \<le> get_subnet_min_delegate_staking_multiplier n s"
    and "get_subnet_min_delegate_staking_multiplier n s \<le> MaxMinDelegateStakeMultiplier s"
proof -
  let ?one = percentage_factor_as_u128 and ?max = "MaxMinDelegateStakeMultiplier s"
  let ?ratio = "percent_div (ucast (saturating_sub n (MinSubnetNodes s)) :: u128)
      (ucast (saturating_sub (MaxSubnetNodes s) (MinSubnetNodes s)))"
  let ?d = "percent_mul ?ratio (saturating_sub ?max ?one)"
  have "?d \<le> saturating_sub ?max ?one" if "n < MaxSubnetNodes s"
  proof -
    have "?ratio \<le> ?one"
      using that
      by (intro percent_div_le_one)
        (simp add: word_le_nat_alt word_less_nat_alt unat_u32_as_u128 unat_saturating_sub)
    then have "?d \<le> percent_mul ?one (saturating_sub ?max ?one)"
      by (intro percent_mul_mono) auto
    then show ?thesis by (simp add: percent_mul_one_left)
  qed
  then have "n < MaxSubnetNodes s \<Longrightarrow> unat ?one + unat ?d \<le> unat ?max"
    using assms by (fastforce simp: word_le_nat_alt unat_saturating_sub)
  then show "?one \<le> get_subnet_min_delegate_staking_multiplier n s"
    and "get_subnet_min_delegate_staking_multiplier n s \<le> ?max"
    using assms u128_max [of ?max]
    by (auto simp: get_subnet_min_delegate_staking_multiplier_def Let_def word_le_nat_alt
        unat_saturating_add not_le word_less_nat_alt)
qed

lemma multiplier_mono:
  assumes "percentage_factor_as_u128 \<le> MaxMinDelegateStakeMultiplier s" and "n \<le> m"
  shows "get_subnet_min_delegate_staking_multiplier n s \<le> get_subnet_min_delegate_staking_multiplier m s"
proof (cases "n \<le> MinSubnetNodes s \<or> MaxSubnetNodes s \<le> m")
  case True
  then show ?thesis
    using multiplier_bounds [OF assms(1), of n] multiplier_bounds [OF assms(1), of m] assms(2)
    by (auto simp: get_subnet_min_delegate_staking_multiplier_def Let_def split: if_splits)
next
  case False
  let ?k = "unat (saturating_sub (MaxSubnetNodes s) (MinSubnetNodes s))"
  define r where "r x = percent_div (ucast (saturating_sub x (MinSubnetNodes s)) :: u128)
      (ucast (saturating_sub (MaxSubnetNodes s) (MinSubnetNodes s)))" for x
  have r: "unat (r x) = (unat x - unat (MinSubnetNodes s)) * 10 ^ 18 div ?k" if "x \<le> MaxSubnetNodes s" for x
    unfolding r_def using that
    by (subst unat_node_ratio) (simp_all add: word_le_nat_alt unat_saturating_sub diff_le_mono)
  have "unat (r n) \<le> unat (r m)"
    using False assms(2)
    by (simp add: r word_le_nat_alt not_le word_less_nat_alt div_le_mono diff_le_mono)
  then have "percent_mul (r n) d \<le> percent_mul (r m) d" for d
    by (intro percent_mul_mono) (simp_all add: word_le_nat_alt)
  with False assms(2) show ?thesis
    by (auto simp: get_subnet_min_delegate_staking_multiplier_def Let_def r_def
        intro!: saturating_add_mono)
qed

end
