(* ===== verification/Reputation_Scores.thy ===== *)
theory Reputation_Scores
  imports Network_Metrics
begin

text \<open>
  Reputations of validators, subnets and subnet nodes (\<open>utilities/reputation.rs\<close>): scores
  between zero and one, at eighteen decimals, that rise and fall by configured factors, and the
  running average of a validator's attestations. The floating-point unit and \<open>libm\<close>'s power
  function are parameters: the scores are clamped whatever they return.
\<close>

section \<open>Floating point\<close>

text \<open>
  The double-precision operations the code uses: the casts from and to \<open>u128\<close> (truncating and
  saturating), sum, product and quotient, the literal \<open>1e18\<close>, and \<open>libm::pow\<close>.
\<close>

record 'f F64 =
  f64_of_u128 :: "u128 \<Rightarrow> 'f"
  f64_as_u128 :: "'f \<Rightarrow> u128"
  f64_add :: "'f \<Rightarrow> 'f \<Rightarrow> 'f"
  f64_mul :: "'f \<Rightarrow> 'f \<Rightarrow> 'f"
  f64_div :: "'f \<Rightarrow> 'f \<Rightarrow> 'f"
  f64_1e18 :: 'f
  libm_pow :: "'f \<Rightarrow> 'f \<Rightarrow> 'f"

definition percentage_factor_as_f64 :: "('f, 'x) F64_scheme \<Rightarrow> 'f" where
  "percentage_factor_as_f64 F = f64_1e18 F"

definition get_percent_as_f64 :: "('f, 'x) F64_scheme \<Rightarrow> u128 \<Rightarrow> 'f" where
  "get_percent_as_f64 F v = f64_div F (f64_of_u128 F v) (f64_of_u128 F percentage_factor_as_u128)"

definition pow_f64 :: "('f, 'x) F64_scheme \<Rightarrow> 'f \<Rightarrow> 'f \<Rightarrow> 'f" where
  "pow_f64 F x e = libm_pow F x e"

section \<open>Scores\<close>

definition unwrap_or :: "'a option \<Rightarrow> 'a \<Rightarrow> 'a" where
  "unwrap_or x d = (case x of Some y \<Rightarrow> y | None \<Rightarrow> d)"

definition increase_rep :: "('f, 'x) F64_scheme \<Rightarrow> u128 \<Rightarrow> u128 \<Rightarrow> u128 option \<Rightarrow> u128" where
  "increase_rep F prev_reputation factor_1 factor_2 =
     (let one = percentage_factor_as_u128 in
      if prev_reputation = one then prev_reputation
      else
      let factor = percent_mul factor_1 (unwrap_or factor_2 one);
          one_f64 = get_percent_as_f64 F one;
          factor_f64 = get_percent_as_f64 F factor;
          prev_reputation_f64 = get_percent_as_f64 F prev_reputation;
          x = pow_f64 F prev_reputation_f64 (f64_add F one_f64 factor_f64);
          increase = f64_mul F x factor_f64
      in min (f64_as_u128 F (f64_mul F (f64_add F prev_reputation_f64 increase)
                (percentage_factor_as_f64 F)))
             percentage_factor_as_u128)"

definition decrease_rep :: "u128 \<Rightarrow> u128 \<Rightarrow> u128 option \<Rightarrow> u128" where
  "decrease_rep prev_reputation factor_1 factor_2 =
     (if prev_reputation = 0 then prev_reputation
      else
      let one = percentage_factor_as_u128;
          factor = percent_mul factor_1 (unwrap_or factor_2 one);
          delta = percent_mul prev_reputation factor
      in min (saturating_sub prev_reputation delta) one)"

definition get_non_consensus_attestor_factor :: "u128 \<Rightarrow> u128 \<Rightarrow> u128 \<Rightarrow> u128 \<Rightarrow> u128" where
  "get_non_consensus_attestor_factor non_consensus_attestor_decrease_factor attestation_ratio
       min_attestation_percentage percentage_factor =
     percent_mul non_consensus_attestor_decrease_factor
       (saturating_sub percentage_factor (percent_div attestation_ratio min_attestation_percentage))"

section \<open>Validators\<close>

text \<open>
  The part the two updates of a validator share: the epochs, and the average over all its
  elections, where the counters already include this one.
\<close>

definition record_election :: "u128 \<Rightarrow> u32 \<Rightarrow> Reputation \<Rightarrow> Reputation" where
  "record_election attestation_percentage epoch validator_reputation =
     (let r = validator_reputation\<lparr>last_validator_epoch := epoch\<rparr>;
          r = (if start_epoch r = 0 then r\<lparr>start_epoch := epoch\<rparr> else r);
          prev_total = ucast (saturating_sub (saturating_add (total_increases r) (total_decreases r)) 1)
            :: u128
      in r\<lparr>average_attestation :=
             (if prev_total = 0 then attestation_percentage
              else saturating_add (saturating_mul (average_attestation r) prev_total)
                     attestation_percentage div (prev_total + 1))\<rparr>)"

definition increase_validator_reputation ::
  "('f, 'x) F64_scheme \<Rightarrow> u32 \<Rightarrow> u128 \<Rightarrow> u128 \<Rightarrow> u128 \<Rightarrow> u32 \<Rightarrow>
   ('c, 'm) network_consensus_scheme \<Rightarrow> ('c, 'm) network_consensus_scheme"
where
  "increase_validator_reputation F validator_id attestation_percentage min_attestation_percentage
       increase_weight_factor epoch s =
     (case ValidatorReputation s validator_id of
        None \<Rightarrow> s
      | Some validator_reputation \<Rightarrow>
      if attestation_percentage < min_attestation_percentage then s
      else
      let current_score = score validator_reputation;
          new_score = increase_rep F current_score increase_weight_factor None;
          r = validator_reputation\<lparr>score := new_score\<rparr>;
          r = r\<lparr>total_increases := total_increases r + 1\<rparr>;
          r = record_election attestation_percentage epoch r
      in s\<lparr>ValidatorReputation := (ValidatorReputation s)(validator_id \<mapsto> r)\<rparr>)"

definition decrease_validator_reputation ::
  "u32 \<Rightarrow> u128 \<Rightarrow> u128 \<Rightarrow> u128 \<Rightarrow> u32 \<Rightarrow>
   ('c, 'm) network_consensus_scheme \<Rightarrow> ('c, 'm) network_consensus_scheme"
where
  "decrease_validator_reputation validator_id attestation_percentage min_attestation_percentage
       decrease_weight_factor epoch s =
     (case ValidatorReputation s validator_id of
        None \<Rightarrow> s
      | Some validator_reputation \<Rightarrow>
      if attestation_percentage \<ge> min_attestation_percentage then s
      else
      let current_score = score validator_reputation;
          new_score = decrease_rep current_score decrease_weight_factor None;
          r = validator_reputation\<lparr>score := new_score\<rparr>;
          r = r\<lparr>total_decreases := total_decreases r + 1\<rparr>;
          r = record_election attestation_percentage epoch r
      in s\<lparr>ValidatorReputation := (ValidatorReputation s)(validator_id \<mapsto> r)\<rparr>)"

section \<open>Subnets and nodes\<close>

definition factors_for_epoch :: "SubnetReputationFactorSchedule \<Rightarrow> u32 \<Rightarrow> SubnetReputationFactors" where
  "factors_for_epoch self evaluated_subnet_epoch =
     (case srf_pending self of
        Some pending \<Rightarrow>
          if effective_subnet_epoch pending \<le> evaluated_subnet_epoch then pending_factors pending
          else srf_current self
      | None \<Rightarrow> srf_current self)"

definition pending_after ::
  "SubnetReputationFactorSchedule \<Rightarrow> u32 \<Rightarrow> PendingSubnetReputationFactors option" where
  "pending_after self current_subnet_epoch =
     (case srf_pending self of
        Some pending \<Rightarrow>
          if effective_subnet_epoch pending > current_subnet_epoch then Some pending else None
      | None \<Rightarrow> None)"

definition get_reputation_factors_for_epoch ::
  "u32 \<Rightarrow> u32 \<Rightarrow> ('c, 'm) network_consensus_scheme \<Rightarrow> SubnetReputationFactors" where
  "get_reputation_factors_for_epoch subnet_id evaluated_subnet_epoch s =
     factors_for_epoch (SubnetReputationFactorSchedules s subnet_id) evaluated_subnet_epoch"

definition increase_subnet_reputation ::
  "('f, 'x) F64_scheme \<Rightarrow> u32 \<Rightarrow> u128 \<Rightarrow> u128 \<Rightarrow> ('c, 'm) network_consensus_scheme \<Rightarrow>
   ('c, 'm) network_consensus_scheme"
where
  "increase_subnet_reputation F subnet_id factor_1 factor_2 s =
     s\<lparr>SubnetReputation := (SubnetReputation s)(subnet_id :=
         increase_rep F (SubnetReputation s subnet_id) factor_1 (Some factor_2))\<rparr>"

definition decrease_subnet_reputation ::
  "u32 \<Rightarrow> u128 \<Rightarrow> u128 option \<Rightarrow> ('c, 'm) network_consensus_scheme \<Rightarrow>
   ('c, 'm) network_consensus_scheme"
where
  "decrease_subnet_reputation subnet_id factor_1 factor_2 s =
     s\<lparr>SubnetReputation := (SubnetReputation s)(subnet_id :=
         decrease_rep (SubnetReputation s subnet_id) factor_1 factor_2)\<rparr>"

definition increase_node_reputation ::
  "('f, 'x) F64_scheme \<Rightarrow> u32 \<Rightarrow> u32 \<Rightarrow> u128 \<Rightarrow> ('c, 'm) network_consensus_scheme \<Rightarrow>
   ('c, 'm) network_consensus_scheme"
where
  "increase_node_reputation F subnet_id subnet_node_id factor s =
     (case SubnetNodeReputation s (subnet_id, subnet_node_id) of
        None \<Rightarrow> s
      | Some prev_reputation \<Rightarrow>
          s\<lparr>SubnetNodeReputation := (SubnetNodeReputation s)((subnet_id, subnet_node_id) \<mapsto>
              increase_rep F prev_reputation factor None)\<rparr>)"

definition increase_and_return_node_reputation ::
  "('f, 'x) F64_scheme \<Rightarrow> u32 \<Rightarrow> u32 \<Rightarrow> u128 \<Rightarrow> u128 \<Rightarrow> u128 option \<Rightarrow> ('c, 'm) network_consensus_scheme \<Rightarrow>
   ('c, 'm) network_consensus_scheme \<times> u128"
where
  "increase_and_return_node_reputation F subnet_id subnet_node_id current_reputation factor_1 factor_2 s =
     (case SubnetNodeReputation s (subnet_id, subnet_node_id) of
        None \<Rightarrow> (s, current_reputation)
      | Some _ \<Rightarrow>
          let reputation = increase_rep F current_reputation factor_1 factor_2
          in (s\<lparr>SubnetNodeReputation := (SubnetNodeReputation s)((subnet_id, subnet_node_id) \<mapsto>
                 reputation)\<rparr>, reputation))"

definition decrease_and_return_node_reputation ::
  "u32 \<Rightarrow> u32 \<Rightarrow> u128 \<Rightarrow> u128 \<Rightarrow> u128 option \<Rightarrow> ('c, 'm) network_consensus_scheme \<Rightarrow>
   ('c, 'm) network_consensus_scheme \<times> u128"
where
  "decrease_and_return_node_reputation subnet_id subnet_node_id current_reputation factor_1 factor_2 s =
     (case SubnetNodeReputation s (subnet_id, subnet_node_id) of
        None \<Rightarrow> (s, current_reputation)
      | Some _ \<Rightarrow>
          let reputation = decrease_rep current_reputation factor_1 factor_2
          in (s\<lparr>SubnetNodeReputation := (SubnetNodeReputation s)((subnet_id, subnet_node_id) \<mapsto>
                 reputation)\<rparr>, reputation))"

section \<open>Scores stay between zero and one\<close>

lemma increase_rep_le_one: "increase_rep F r f g \<le> percentage_factor_as_u128"
  by (simp add: increase_rep_def Let_def)

lemma decrease_rep_le_one: "decrease_rep r f g \<le> percentage_factor_as_u128"
  by (simp add: decrease_rep_def Let_def)

lemma saturating_sub_le: "saturating_sub a b \<le> a" for a b :: u128
  by (simp add: word_le_nat_alt unat_saturating_sub)

lemma decrease_rep_le: "decrease_rep r f g \<le> r"
  by (auto simp: decrease_rep_def Let_def intro: min.coboundedI1 saturating_sub_le)

lemma decrease_rep_exact:
  assumes "r \<le> percentage_factor_as_u128" and "f \<le> percentage_factor_as_u128"
  shows "unat (decrease_rep r f None) = unat r - unat r * unat f div 10 ^ 18"
proof -
  have "unat r \<le> 10 ^ 18" using assms(1) by (simp add: word_le_nat_alt unat_simps)
  moreover have "percent_mul r f \<le> r" by (rule percent_mul_le [OF assms(2)])
  then have "min (unat r * unat f div 10 ^ 18) (2 ^ 128 - 1) \<le> unat r"
    by (simp add: word_le_nat_alt unat_percent_mul)
  with \<open>unat r \<le> 10 ^ 18\<close> have "unat r * unat f div 10 ^ 18 \<le> 2 ^ 128 - 1"
    by (auto simp: min_def split: if_splits)
  ultimately show ?thesis
    by (auto simp: decrease_rep_def Let_def unwrap_or_def percent_mul_one unat_saturating_sub
        unat_percent_mul min_def word_le_nat_alt unat_percentage_factor)
qed

text \<open>The running average of a validator, over the elections counted so far.\<close>

definition elections :: "Reputation \<Rightarrow> nat" where
  "elections r = unat (total_increases r) + unat (total_decreases r)"

lemma record_election_average:
  assumes "average_attestation r \<le> percentage_factor_as_u128" and "a \<le> percentage_factor_as_u128"
    and "0 < elections r" and "elections r < 2 ^ 32"
  shows "unat (average_attestation (record_election a epoch r)) =
     (if elections r = 1 then unat a
      else (unat (average_attestation r) * (elections r - 1) + unat a) div elections r)"
proof -
  let ?p = "ucast (saturating_sub (saturating_add (total_increases r) (total_decreases r)) 1) :: u128"
  have p: "unat ?p = elections r - 1"
    using assms(4) by (simp add: unat_u32_as_u128 unat_saturating_sub unat_saturating_add elections_def)
  have p1: "unat (?p + 1) = elections r"
    using p assms(3,4) by (subst unat_add_lem [THEN iffD1]) auto
  have A: "unat (average_attestation r) \<le> 10 ^ 18" "unat a \<le> 10 ^ 18"
    using assms(1,2) by (simp_all add: word_le_nat_alt unat_simps)
  have "unat (average_attestation r) * (elections r - 1) \<le> 10 ^ 18 * 2 ^ 32"
    using A(1) assms(4) by (intro mult_le_mono) auto
  then have m: "unat (saturating_add (saturating_mul (average_attestation r) ?p) a)
      = unat (average_attestation r) * (elections r - 1) + unat a"
    using A(2) by (simp add: unat_saturating_add unat_saturating_mul p)
  have z: "?p = 0 \<longleftrightarrow> elections r = 1"
    using p assms(3) by (auto simp: unat_eq_zero [symmetric])
  show ?thesis
    by (simp add: record_election_def Let_def z m p1 unat_div)
qed

lemma weighted_average_le:
  fixes x y n m :: nat
  assumes "x \<le> m" and "y \<le> m" and "0 < n"
  shows "(x * (n - 1) + y) div n \<le> m"
proof -
  have "x * (n - 1) + y \<le> m * (n - 1) + m"
    using assms by (intro add_mono mult_le_mono1) auto
  also have "\<dots> = m * n" using assms(3) by (cases n) auto
  finally show ?thesis
    using div_le_mono [of "x * (n - 1) + y" "m * n" n] assms(3) by simp
qed

lemma record_election_bound:
  assumes "average_attestation r \<le> percentage_factor_as_u128" and "a \<le> percentage_factor_as_u128"
    and "0 < elections r" and "elections r < 2 ^ 32"
  shows "average_attestation (record_election a epoch r) \<le> percentage_factor_as_u128"
  using weighted_average_le [of "unat (average_attestation r)" "10 ^ 18" "unat a" "elections r"] assms
  by (simp add: word_le_nat_alt record_election_average unat_percentage_factor)

lemma record_election_score [simp]: "score (record_election a epoch r) = score r"
  by (simp add: record_election_def Let_def)

section \<open>The invariant of the reputations\<close>

definition reputations_ok :: "('c, 'm) network_consensus_scheme \<Rightarrow> bool" where
  "reputations_ok s \<longleftrightarrow>
     (\<forall>i r. ValidatorReputation s i = Some r \<longrightarrow>
        score r \<le> percentage_factor_as_u128 \<and> average_attestation r \<le> percentage_factor_as_u128) \<and>
     (\<forall>i. SubnetReputation s i \<le> percentage_factor_as_u128) \<and>
     (\<forall>k r. SubnetNodeReputation s k = Some r \<longrightarrow> r \<le> percentage_factor_as_u128)"

lemma elections_increase:
  assumes "elections r < 2 ^ 32 - 1"
  shows "elections (r\<lparr>score := x, total_increases := total_increases r + 1\<rparr>) = Suc (elections r)"
    and "elections (r\<lparr>score := x, total_decreases := total_decreases r + 1\<rparr>) = Suc (elections r)"
proof -
  have "unat (w + 1) = unat w + 1" if "unat w < 2 ^ 32 - 1" for w :: u32
    using that by (subst unat_add_lem [THEN iffD1]) auto
  then show "elections (r\<lparr>score := x, total_increases := total_increases r + 1\<rparr>) = Suc (elections r)"
    and "elections (r\<lparr>score := x, total_decreases := total_decreases r + 1\<rparr>) = Suc (elections r)"
    using assms by (simp_all add: elections_def)
qed

lemma increase_validator_reputations_ok:
  assumes "reputations_ok s" and "a \<le> percentage_factor_as_u128"
    and "\<And>r. ValidatorReputation s i = Some r \<Longrightarrow> elections r < 2 ^ 32 - 1"
  shows "reputations_ok (increase_validator_reputation F i a m f epoch s)"
proof (cases "ValidatorReputation s i")
  case (Some r)
  let ?r = "r\<lparr>score := increase_rep F (score r) f None, total_increases := total_increases r + 1\<rparr>"
  have "average_attestation (record_election a epoch ?r) \<le> percentage_factor_as_u128"
    using assms(1,2) assms(3) [OF Some] Some elections_increase(1) [OF assms(3) [OF Some]]
    by (intro record_election_bound) (auto simp: reputations_ok_def)
  with assms(1) Some show ?thesis
    by (auto simp: reputations_ok_def increase_validator_reputation_def Let_def increase_rep_le_one)
qed (use assms(1) in \<open>simp add: increase_validator_reputation_def\<close>)

lemma decrease_validator_reputations_ok:
  assumes "reputations_ok s" and "a \<le> percentage_factor_as_u128"
    and "\<And>r. ValidatorReputation s i = Some r \<Longrightarrow> elections r < 2 ^ 32 - 1"
  shows "reputations_ok (decrease_validator_reputation i a m f epoch s)"
proof (cases "ValidatorReputation s i")
  case (Some r)
  let ?r = "r\<lparr>score := decrease_rep (score r) f None, total_decreases := total_decreases r + 1\<rparr>"
  have "average_attestation (record_election a epoch ?r) \<le> percentage_factor_as_u128"
    using assms(1,2) assms(3) [OF Some] Some elections_increase(2) [OF assms(3) [OF Some]]
    by (intro record_election_bound) (auto simp: reputations_ok_def)
  with assms(1) Some show ?thesis
    by (auto simp: reputations_ok_def decrease_validator_reputation_def Let_def decrease_rep_le_one)
qed (use assms(1) in \<open>simp add: decrease_validator_reputation_def\<close>)

lemma subnet_node_reputations_ok:
  assumes "reputations_ok s"
  shows "reputations_ok (increase_subnet_reputation F i f g s)"
    and "reputations_ok (decrease_subnet_reputation i f h s)"
    and "reputations_ok (increase_node_reputation F i j f s)"
    and "reputations_ok (fst (increase_and_return_node_reputation F i j r f h s))"
    and "reputations_ok (fst (decrease_and_return_node_reputation i j r f h s))"
  using assms
  by (auto simp: reputations_ok_def increase_subnet_reputation_def decrease_subnet_reputation_def
      increase_node_reputation_def increase_and_return_node_reputation_def
      decrease_and_return_node_reputation_def increase_rep_le_one decrease_rep_le_one Let_def
      split: option.splits)

end
