(* ===== verification/Epochs.thy ===== *)
theory Epochs
  imports Reputation_Scores
begin

text \<open>
  Epochs and elections (\<open>utilities/era.rs\<close>, \<open>utilities/randomness.rs\<close>): the blockchain's epochs,
  the epochs of a subnet, which start at its slot, the progress within them, and the election of
  a subnet's validator by a bounded random index. The outer option of a result is \<open>None\<close> where
  the code panics, on a division by zero.
\<close>

section \<open>Storage\<close>

record SubnetEpochData =
  subnet_epoch :: u32
  subnet_epoch_progression :: u128

record EmergencySubnetValidatorData =
  subnet_node_ids :: "u32 list"
  target_emergency_validators_epochs :: u32
  max_emergency_validators_epoch :: u32
  total_epochs :: u32

record 'c network_epochs = "'c network_consensus" +
  SubnetSlot :: "u32 \<rightharpoonup> u32"
  OverwatchEpochLengthMultiplier :: u32
  OverwatchCommitCutoffPercent :: u128
  SubnetElectedValidator :: "u32 \<times> u32 \<rightharpoonup> u32"
  EmergencySubnetNodeElectionData :: "u32 \<rightharpoonup> EmergencySubnetValidatorData"

section \<open>Epoch arithmetic\<close>

definition saturating_div :: "u32 \<Rightarrow> u32 \<Rightarrow> u32 option" where
  "saturating_div a b = (if b = 0 then None else Some (a div b))"

definition checked_rem :: "u32 \<Rightarrow> u32 \<Rightarrow> u32 option" where
  "checked_rem a b = (if b = 0 then None else Some (a mod b))"

definition get_current_epoch_as_u32 :: "'c Config \<Rightarrow> ('c, 'm) network_scheme \<Rightarrow> u32 option" where
  "get_current_epoch_as_u32 cfg s =
     (let current_block = get_current_block_as_u32 s; epoch_length = EpochLength cfg
      in saturating_div current_block epoch_length)"

definition get_current_epoch_with_block_as_u32 :: "'c Config \<Rightarrow> u32 \<Rightarrow> u32 option" where
  "get_current_epoch_with_block_as_u32 cfg current_block = saturating_div current_block (EpochLength cfg)"

definition get_current_overwatch_epoch_as_u32 ::
  "'c Config \<Rightarrow> ('c, 'm) network_epochs_scheme \<Rightarrow> u32 option" where
  "get_current_overwatch_epoch_as_u32 cfg s =
     (let current_block = get_current_block_as_u32 s;
          epoch_length = EpochLength cfg;
          multiplier = OverwatchEpochLengthMultiplier s
      in saturating_div current_block (saturating_mul epoch_length multiplier))"

definition get_current_epochs_as_u32 ::
  "'c Config \<Rightarrow> ('c, 'm) network_epochs_scheme \<Rightarrow> (u32 \<times> u32) option" where
  "get_current_epochs_as_u32 cfg s =
     (let current_block = get_current_block_as_u32 s;
          epoch_length = EpochLength cfg;
          multiplier = OverwatchEpochLengthMultiplier s
      in case saturating_div current_block epoch_length of None \<Rightarrow> None | Some epoch \<Rightarrow>
         case saturating_div current_block (saturating_mul epoch_length multiplier) of
           None \<Rightarrow> None | Some overwatch_epoch \<Rightarrow> Some (epoch, overwatch_epoch))"

definition in_overwatch_commit_period ::
  "'c Config \<Rightarrow> ('c, 'm) network_epochs_scheme \<Rightarrow> bool option" where
  "in_overwatch_commit_period cfg s =
     (let current_block = get_current_block_as_u32 s;
          epoch_length = EpochLength cfg;
          multiplier = OverwatchEpochLengthMultiplier s;
          overwatch_epoch_length = saturating_mul epoch_length multiplier in
      case saturating_div current_block overwatch_epoch_length of None \<Rightarrow> None
      | Some current_overwatch_epoch \<Rightarrow>
      let cutoff_percentage = OverwatchCommitCutoffPercent s;
          block_increase_cutoff = percent_mul (ucast overwatch_epoch_length) cutoff_percentage;
          epoch_cutoff_block =
            overwatch_epoch_length * current_overwatch_epoch + ucast block_increase_cutoff
      in Some (current_block < epoch_cutoff_block))"

definition subnet_slot_or_zero :: "u32 \<Rightarrow> ('c, 'm) network_epochs_scheme \<Rightarrow> u32" where
  "subnet_slot_or_zero subnet_id s = (case SubnetSlot s subnet_id of Some slot \<Rightarrow> slot | None \<Rightarrow> 0)"

definition get_current_subnet_epoch_as_u32 ::
  "'c Config \<Rightarrow> u32 \<Rightarrow> ('c, 'm) network_epochs_scheme \<Rightarrow> u32 option" where
  "get_current_subnet_epoch_as_u32 cfg subnet_id s =
     (let epoch_length = EpochLength cfg;
          subnet_slot = subnet_slot_or_zero subnet_id s in
      if subnet_slot = 0 then Some 0
      else
      let current_block = get_current_block_as_u32 s in
      if current_block < subnet_slot then Some 0
      else
      let offset_block = saturating_sub current_block subnet_slot
      in saturating_div offset_block epoch_length)"

definition get_subnet_epoch_progression ::
  "'c Config \<Rightarrow> u32 \<Rightarrow> ('c, 'm) network_epochs_scheme \<Rightarrow> u128 option" where
  "get_subnet_epoch_progression cfg subnet_id s =
     (let epoch_length = EpochLength cfg;
          subnet_slot = subnet_slot_or_zero subnet_id s in
      if subnet_slot = 0 then Some 0
      else
      let current_block = get_current_block_as_u32 s in
      if current_block < subnet_slot then Some 0
      else
      let offset_block = saturating_sub current_block subnet_slot in
      case checked_rem offset_block epoch_length of None \<Rightarrow> None
      | Some blocks_into_epoch \<Rightarrow> Some (percent_div (ucast blocks_into_epoch) (ucast epoch_length)))"

definition can_propose_or_attest_attestation ::
  "'c Config \<Rightarrow> u32 \<Rightarrow> ('c, 'm) network_epochs_scheme \<Rightarrow> bool option" where
  "can_propose_or_attest_attestation cfg subnet_id s =
     (let epoch_length = EpochLength cfg;
          subnet_slot = subnet_slot_or_zero subnet_id s in
      if subnet_slot = 0 then Some False
      else
      let current_block = get_current_block_as_u32 s in
      if current_block < subnet_slot then Some False
      else
      let offset_block = saturating_sub current_block subnet_slot in
      case saturating_div offset_block epoch_length of None \<Rightarrow> None
      | Some current_subnet_epoch \<Rightarrow>
      let last_epoch_block = subnet_slot + (current_subnet_epoch + 1) * epoch_length
      in Some (current_block < last_epoch_block))"

definition attestor_subnet_epoch_data ::
  "'c Config \<Rightarrow> u32 \<Rightarrow> u32 \<Rightarrow> ('c, 'm) network_epochs_scheme \<Rightarrow> SubnetEpochData option option" where
  "attestor_subnet_epoch_data cfg subnet_id block_proposed s =
     (let epoch_length = EpochLength cfg;
          subnet_slot = subnet_slot_or_zero subnet_id s in
      if subnet_slot = 0 then Some None
      else
      let current_block = get_current_block_as_u32 s in
      if current_block < block_proposed then Some None
      else
      let proposed_offset = saturating_sub block_proposed subnet_slot in
      case saturating_div proposed_offset epoch_length of None \<Rightarrow> None
      | Some the_subnet_epoch \<Rightarrow>
      let blocks_since_submission = saturating_sub current_block block_proposed in
      case checked_rem proposed_offset epoch_length of None \<Rightarrow> None
      | Some blocks_into_epoch \<Rightarrow>
      let remaining_blocks_in_epoch = saturating_sub epoch_length blocks_into_epoch;
          progress_from_submission =
            (if blocks_since_submission \<ge> remaining_blocks_in_epoch then percentage_factor_as_u128
             else percent_div (ucast blocks_since_submission) (ucast remaining_blocks_in_epoch))
      in Some (Some \<lparr>subnet_epoch = the_subnet_epoch,
                     subnet_epoch_progression = progress_from_submission\<rparr>))"

definition get_current_subnet_epoch_data ::
  "'c Config \<Rightarrow> u32 \<Rightarrow> ('c, 'm) network_epochs_scheme \<Rightarrow> SubnetEpochData option option" where
  "get_current_subnet_epoch_data cfg subnet_id s =
     (let epoch_length = EpochLength cfg;
          subnet_slot = subnet_slot_or_zero subnet_id s in
      if subnet_slot = 0 then Some None
      else
      let current_block = get_current_block_as_u32 s in
      if current_block < subnet_slot then Some None
      else
      let offset_block = saturating_sub current_block subnet_slot in
      case saturating_div offset_block epoch_length of None \<Rightarrow> None
      | Some the_subnet_epoch \<Rightarrow>
      case checked_rem offset_block epoch_length of None \<Rightarrow> None
      | Some blocks_into_epoch \<Rightarrow>
      Some (Some \<lparr>subnet_epoch = the_subnet_epoch,
                  subnet_epoch_progression =
                    percent_div (ucast blocks_into_epoch) (ucast epoch_length)\<rparr>))"

section \<open>Bounded random indices\<close>

text \<open>
  The randomness source, the encoding and the hash are the framework's: a parameter gives the
  hash for a domain, a modulus and an attempt.
\<close>

type_synonym 'd entropy = "'d \<Rightarrow> u64 \<Rightarrow> u32 \<Rightarrow> bytes"

definition from_le_bytes :: "bytes \<Rightarrow> u64" where
  "from_le_bytes bs = foldr (\<lambda>b acc. acc * 256 + ucast b) bs 0"

definition first_u64_from_hash :: "bytes \<Rightarrow> u64" where
  "first_u64_from_hash hash = from_le_bytes (take 8 (take 8 hash @ replicate 8 0))"

fun random_index_loop :: "(u32 \<Rightarrow> u64) \<Rightarrow> u64 \<Rightarrow> u64 \<Rightarrow> u32 list \<Rightarrow> u64 \<Rightarrow> u32 option" where
  "random_index_loop value_of modulus rejection_zone [] fallback = Some (ucast (fallback mod modulus))"
| "random_index_loop value_of modulus rejection_zone (attempt # attempts) fallback =
     (let value = value_of attempt in
      if value < rejection_zone then Some (ucast (value mod modulus))
      else random_index_loop value_of modulus rejection_zone attempts value)"

definition MAX_RANDOM_INDEX_ATTEMPTS :: nat where
  "MAX_RANDOM_INDEX_ATTEMPTS = 8"

definition get_bounded_random_index :: "'d entropy \<Rightarrow> 'd \<Rightarrow> u32 \<Rightarrow> u32 option" where
  "get_bounded_random_index E domain upper_bound =
     (if upper_bound = 0 then None
      else if upper_bound = 1 then Some 0
      else
      let modulus = ucast upper_bound;
          rejection_zone = - 1 - ((- 1) mod modulus)
      in random_index_loop (\<lambda>attempt. first_u64_from_hash (E domain modulus attempt)) modulus rejection_zone
           (map of_nat [0..<MAX_RANDOM_INDEX_ATTEMPTS]) 0)"

section \<open>Electing a validator\<close>

definition elect_validator ::
  "(u32 \<times> u32 \<times> u32) entropy \<Rightarrow> u32 \<Rightarrow> u32 \<Rightarrow> u32 \<Rightarrow>
   ('c, 'm) network_epochs_scheme \<Rightarrow> ('c, 'm) network_epochs_scheme"
where
  "elect_validator E subnet_id the_subnet_epoch block s =
     (if SubnetElectedValidator s (subnet_id, the_subnet_epoch) \<noteq> None then s
      else
      let (s, slot_list) =
        (case EmergencySubnetNodeElectionData s subnet_id of
           Some emergency_validator_data \<Rightarrow>
             if total_epochs emergency_validator_data
                  > target_emergency_validators_epochs emergency_validator_data
                \<or> the_subnet_epoch > max_emergency_validators_epoch emergency_validator_data
             then (s\<lparr>EmergencySubnetNodeElectionData :=
                      (EmergencySubnetNodeElectionData s)(subnet_id := None)\<rparr>,
                   SubnetNodeElectionSlots s subnet_id)
             else (s, subnet_node_ids emergency_validator_data)
         | None \<Rightarrow> (s, SubnetNodeElectionSlots s subnet_id)) in
      if slot_list = [] then s
      else case get_bounded_random_index E (subnet_id, the_subnet_epoch, block)
                  (of_nat (length slot_list)) of
        None \<Rightarrow> s
      | Some idx \<Rightarrow>
      if unat idx < length slot_list
      then s\<lparr>SubnetElectedValidator := (SubnetElectedValidator s)((subnet_id, the_subnet_epoch) \<mapsto>
               slot_list ! unat idx)\<rparr>
      else s)"

section \<open>What the epochs are\<close>

lemma unat_div_mod_u32:
  fixes a b :: u32
  shows "unat (a div b) = unat a div unat b" and "unat (a mod b) = unat a mod unat b"
  by (simp_all add: unat_div unat_mod)

text \<open>A subnet that has a slot, at a block not before it, in a chain with an epoch length.\<close>

definition subnet_started :: "'c Config \<Rightarrow> u32 \<Rightarrow> ('c, 'm) network_epochs_scheme \<Rightarrow> bool" where
  "subnet_started cfg subnet_id s \<longleftrightarrow>
     EpochLength cfg \<noteq> 0 \<and> subnet_slot_or_zero subnet_id s \<noteq> 0 \<and>
     \<not> block_number s < subnet_slot_or_zero subnet_id s"

lemma subnet_epoch_started:
  assumes "subnet_started cfg subnet_id s"
  obtains e where "get_current_subnet_epoch_as_u32 cfg subnet_id s = Some e"
    and "unat e = (unat (block_number s) - unat (subnet_slot_or_zero subnet_id s)) div unat (EpochLength cfg)"
proof -
  let ?e = "saturating_sub (block_number s) (subnet_slot_or_zero subnet_id s) div EpochLength cfg"
  have "get_current_subnet_epoch_as_u32 cfg subnet_id s = Some ?e"
    using assms
    by (simp add: get_current_subnet_epoch_as_u32_def subnet_started_def saturating_div_def Let_def
        get_current_block_as_u32_def)
  then show thesis by (rule that) (simp add: unat_div_mod_u32 unat_saturating_sub)
qed

lemma progression_started:
  assumes "subnet_started cfg subnet_id s"
  obtains p where "get_subnet_epoch_progression cfg subnet_id s = Some p"
    and "unat p = (unat (block_number s) - unat (subnet_slot_or_zero subnet_id s)) mod unat (EpochLength cfg)
           * 10 ^ 18 div unat (EpochLength cfg)"
proof -
  let ?o = "saturating_sub (block_number s) (subnet_slot_or_zero subnet_id s)"
  let ?p = "percent_div (ucast (?o mod EpochLength cfg) :: u128) (ucast (EpochLength cfg))"
  have "get_subnet_epoch_progression cfg subnet_id s = Some ?p"
    using assms
    by (simp add: get_subnet_epoch_progression_def subnet_started_def checked_rem_def Let_def
        get_current_block_as_u32_def)
  moreover have "?o mod EpochLength cfg \<le> EpochLength cfg"
    using assms by (simp add: word_le_nat_alt unat_div_mod_u32 subnet_started_def unat_gt_0 less_imp_le)
  ultimately show thesis
    by (intro that [of ?p]) (simp_all add: unat_node_ratio unat_div_mod_u32 unat_saturating_sub)
qed

text \<open>The cutoff block of an overwatch epoch, counted within the epoch.\<close>

lemma in_overwatch_commit_period_eq:
  assumes "L = saturating_mul (EpochLength cfg) (OverwatchEpochLengthMultiplier s)" and "L \<noteq> 0"
    and "cutoff = unat L * unat (OverwatchCommitCutoffPercent s) div 10 ^ 18"
    and "unat (block_number s) + cutoff < 2 ^ 32"
  shows "in_overwatch_commit_period cfg s = Some (unat (block_number s) mod unat L < cutoff)"
proof -
  let ?b = "block_number s"
  let ?c = "percent_mul (ucast L) (OverwatchCommitCutoffPercent s)"
  have c: "unat ?c = cutoff"
    using assms(3,4) by (simp add: unat_percent_mul unat_u32_as_u128)
  then have uc: "unat (ucast ?c :: u32) = cutoff"
    using assms(4) by (simp add: unsigned_ucast_eq take_bit_nat_eq_self)
  have m: "unat (L * (?b div L)) = unat L * (unat ?b div unat L)"
    using unat_lt_exp [of ?b] by (subst unat_mult_lem [THEN iffD1])
      (auto simp: unat_div_mod_u32 intro: le_less_trans [OF times_div_less_eq_dividend])
  have "unat L * (unat ?b div unat L) + cutoff < 2 ^ 32"
    using assms(4) times_div_less_eq_dividend [of "unat L" "unat ?b"] by linarith
  then have "unat (L * (?b div L) + ucast ?c) = unat L * (unat ?b div unat L) + cutoff"
    using m uc by (subst unat_add_lem [THEN iffD1]) simp_all
  moreover have "unat L * (unat ?b div unat L) + unat ?b mod unat L = unat ?b"
    by simp
  ultimately have "?b < L * (?b div L) + ucast ?c \<longleftrightarrow> unat ?b mod unat L < cutoff"
    unfolding word_less_nat_alt by linarith
  then show ?thesis
    using assms(2)
    by (simp add: in_overwatch_commit_period_def saturating_div_def Let_def get_current_block_as_u32_def
        flip: assms(1))
qed

section \<open>Random indices\<close>

lemma random_index_loop_bound:
  fixes n :: u32
  assumes "n \<noteq> 0"
  obtains i where "random_index_loop f (ucast n) z attempts fb = Some i" and "i < n"
proof -
  have "\<exists>i. random_index_loop f (ucast n) z attempts fb = Some i \<and> i < n"
  proof (induction attempts arbitrary: fb)
    have lt: "ucast (v mod ucast n :: u64) < n" for v
    proof -
      have n: "unat (ucast n :: u64) = unat n"
        using unat_lt_exp [of n] by (simp add: unsigned_ucast_eq take_bit_nat_eq_self)
      then have "unat (v mod ucast n) < unat n"
        using assms by (simp add: unat_mod unat_gt_0)
      moreover from this have "unat (ucast (v mod ucast n) :: u32) = unat (v mod ucast n)"
        using unat_lt_exp [of n] by (simp add: unsigned_ucast_eq take_bit_nat_eq_self)
      ultimately show ?thesis by (simp add: word_less_nat_alt)
    qed
    case Nil
    show ?case using lt by simp
    case (Cons a attempts)
    then show ?case using lt by (simp add: Let_def)
  qed
  then show thesis using that by blast
qed

lemma get_bounded_random_index_bound:
  "get_bounded_random_index E d n = None \<longleftrightarrow> n = 0"
  "get_bounded_random_index E d n = Some i \<Longrightarrow> i < n"
proof -
  obtain j where "n \<noteq> 0 \<longrightarrow> get_bounded_random_index E d n = Some j \<and> j < n"
  proof (cases "n = 0 \<or> n = 1")
    case False
    then obtain j where "get_bounded_random_index E d n = Some j" "j < n"
      by (auto simp: get_bounded_random_index_def Let_def elim: random_index_loop_bound)
    then show thesis using that by blast
  qed (auto intro: that [of 0] simp: get_bounded_random_index_def)
  moreover have "get_bounded_random_index E d 0 = None" by (simp add: get_bounded_random_index_def)
  ultimately show "get_bounded_random_index E d n = None \<longleftrightarrow> n = 0"
    and "get_bounded_random_index E d n = Some i \<Longrightarrow> i < n"
    by (cases "n = 0"; simp)+
qed

text \<open>
  The rejection zone is a multiple of the modulus, so the accepted values fall on every index
  equally often.
\<close>

lemma card_residues:
  fixes m i k :: nat
  assumes "i < m"
  shows "card {v. v < k * m \<and> v mod m = i} = k"
proof -
  have "{v. v < k * m \<and> v mod m = i} = (\<lambda>q. q * m + i) ` {..<k}"
  proof (intro equalityI subsetI)
    fix v assume "v \<in> {v. v < k * m \<and> v mod m = i}"
    then have "v < k * m" "v = v div m * m + i" by (auto simp: mod_div_mult_eq mult.commute)
    moreover from this have "v div m < k" using less_mult_imp_div_less by blast
    ultimately show "v \<in> (\<lambda>q. q * m + i) ` {..<k}" by auto
  next
    fix v assume "v \<in> (\<lambda>q. q * m + i) ` {..<k}"
    then obtain q where "q < k" and v: "v = q * m + i" by auto
    then have "Suc q * m \<le> k * m" by (intro mult_le_mono1) simp
    with assms v show "v \<in> {v. v < k * m \<and> v mod m = i}" by simp
  qed
  moreover have "inj_on (\<lambda>q. q * m + i) {..<k}" using assms by (auto simp: inj_on_def)
  ultimately show ?thesis by (simp add: card_image)
qed

lemma accepted_values_card:
  fixes n j :: u32
  assumes "j < n"
  shows "card {v :: u64. v < - 1 - (- 1) mod ucast n \<and> ucast (v mod ucast n) = j} = (2 ^ 64 - 1) div unat n"
proof -
  let ?z = "- 1 - (- 1) mod ucast n :: u64" and ?k = "(2 ^ 64 - 1) div unat n"
  let ?S = "{v :: u64. v < ?z \<and> ucast (v mod ucast n) = j}"
  have n: "unat (ucast n :: u64) = unat n"
    using unat_lt_exp [of n] by (simp add: unsigned_ucast_eq take_bit_nat_eq_self)
  have n0: "0 < unat n" using assms by (simp add: word_less_nat_alt)
  have max: "unat (- 1 :: u64) = 2 ^ 64 - 1" by (simp add: unsigned_minus_1_eq_mask mask_eq_exp_minus_1)
  have z: "unat ?z = ?k * unat n"
    using minus_mod_eq_div_mult [of "2 ^ 64 - 1" "unat n"]
    by (simp add: unat_sub word_le_nat_alt unat_mod n max)
  have m: "unat (ucast (v mod ucast n) :: u32) = unat v mod unat n" for v :: u64
  proof -
    have "unat v mod unat n < 2 ^ 32" using n0 unat_lt_exp [of n] by (simp add: less_trans [OF mod_less_divisor])
    moreover have "unat (v mod ucast n) = unat v mod unat n" by (simp only: unat_mod n)
    ultimately show ?thesis by (simp add: unsigned_ucast_eq take_bit_nat_eq_self)
  qed
  have "unat ` ?S = {v. v < ?k * unat n \<and> v mod unat n = unat j}"
  proof (intro equalityI subsetI)
    fix x assume "x \<in> {v. v < ?k * unat n \<and> v mod unat n = unat j}"
    then have x: "x < unat ?z" "x mod unat n = unat j" using z by auto
    then have ux: "unat (of_nat x :: u64) = x" using unat_lt_exp [of ?z] by (simp add: unat_of_nat)
    with x have "of_nat x \<in> ?S" by (simp add: word_less_nat_alt word_unat_eq_iff m)
    then show "x \<in> unat ` ?S" by (rule rev_image_eqI) (rule ux [symmetric])
  next
    fix x assume "x \<in> unat ` ?S"
    then obtain v where "v < ?z" "ucast (v mod ucast n) = j" "x = unat v" by blast
    then show "x \<in> {v. v < ?k * unat n \<and> v mod unat n = unat j}"
      using m [of v] z by (simp add: word_less_nat_alt)
  qed
  then have "card (unat ` ?S) = ?k" using card_residues [of "unat j" "unat n" ?k] assms
    by (simp add: word_less_nat_alt)
  moreover have "inj_on unat ?S" by (simp add: inj_on_def word_unat_eq_iff)
  ultimately show ?thesis by (simp add: card_image)
qed

lemma elect_validator_elected:
  assumes "SubnetElectedValidator s (i, e) = None"
    and "SubnetElectedValidator (elect_validator E i e b s) (i, e) = Some v"
  shows "v \<in> set (SubnetNodeElectionSlots s i) \<or>
    (\<exists>d. EmergencySubnetNodeElectionData s i = Some d \<and> v \<in> set (subnet_node_ids d) \<and>
       total_epochs d \<le> target_emergency_validators_epochs d \<and> e \<le> max_emergency_validators_epoch d)"
  using assms
  by (auto simp: elect_validator_def Let_def not_less split: option.splits if_splits)

end
