(* ===== verification/Concrete_Network.thy ===== *)
theory Concrete_Network
  imports Staking_Calls Epochs
begin

text \<open>
  A small concrete network on which the model is evaluated: accounts 1 and 2 have free balance, account 1 is
  the coldkey of validator 7, which runs node 3 of subnet 5 and overwatch node 2; nothing is
  staked, queued or unbonding yet.
\<close>

definition example_config :: "simple_balances Config" where
  "example_config = \<lparr>Cur = simple_currency, EpochLength = 100, DesignatedEpochSlots = 3, MaxSwapQueueLength = 4\<rparr>"

definition example_subnet :: SubnetData where
  "example_subnet =
     \<lparr>sd_id = 5, sd_friendly_id = 1, sd_name = [], sd_repo = [], sd_description = [], sd_misc = [],
      sd_state = Active, sd_start_epoch = 0\<rparr>"

definition example_validator :: ValidatorData where
  "example_validator =
     \<lparr>vd_id = 7, vd_hotkey = 11, vd_delegate_reward_rate = 0, vd_last_delegate_reward_rate_update = 0,
      vd_delegate_account = None, vd_identity = None\<rparr>"

definition example_network :: "simple_balances network_epochs" where
  "example_network =
     \<lparr>block_number = 1000, balances = ((\<lambda>_. 0)(1 := 10 ^ 24, 2 := 10 ^ 24), 2 * 10 ^ 24),
      TxPause = False, TxRateLimit = 0, LastTxBlock = (\<lambda>_. 0),
      SubnetsData = [5 \<mapsto> example_subnet], ValidatorsData = [7 \<mapsto> example_validator],
      ValidatorColdkey = [7 \<mapsto> 1], SubnetNodeValidatorId = [(5, 3) \<mapsto> 7],
      ValidatorSubnetNodes = (\<lambda>_. []), SubnetNodeReputation = [(5, 3) \<mapsto> 10 ^ 18],
      SubnetMinStakeBalance = (\<lambda>_. 100), SubnetMaxStakeBalance = (\<lambda>_. 10 ^ 21),
      NodeSubnetStake = (\<lambda>_. 0), TotalSubnetStake = (\<lambda>_. 0), TotalStake = 0,
      StakeCooldownEpochs = 2, StakeUnbondingLedger = (\<lambda>_. []), TotalUnbondingBalance = 0,
      MaxUnbondings = 4, DelegateAccountStake = (\<lambda>_. 0), TotalAccountDelegateStake = 0,
      OverwatchNodes = [2 \<mapsto> \<lparr>own_id = 2, own_hotkey = 11\<rparr>], OverwatchNodeValidatorId = [2 \<mapsto> 7],
      OverwatchNodeStakeBalance = (\<lambda>_. 0), TotalOverwatchNodeStakeBalance = 0,
      OverwatchMinStakeBalance = 100,
      DelegateStakeCooldownEpochs = 2, MinDelegateStakeDeposit = 1000,
      AccountSubnetDelegateStakeShares = (\<lambda>_. 0), TotalSubnetDelegateStakeShares = (\<lambda>_. 0),
      TotalSubnetDelegateStakeBalance = (\<lambda>_. 0), TotalDelegateStake = 0, SubnetNetFlow = (\<lambda>_. 0),
      AccountValidatorDelegateStakeShares = (\<lambda>_. 0), ValidatorDelegateStakeShares = (\<lambda>_. 0),
      ValidatorDelegateStakeBalance = (\<lambda>_. 0), TotalValidatorDelegateStakeBalance = 0,
      TotalNodeDelegateStake = 0,
      SwapQueueOrder = [], SwapCallQueue = (\<lambda>_. None), NextSwapQueueId = 0,
      MaxSwapQueueCallsPerBlock = 2,
      TotalActiveSubnets = 1, TotalActiveNodes = 1, MinSubnetNodes = 10, MaxSubnetNodes = 100,
      MaxMinDelegateStakeMultiplier = 5 * 10 ^ 18, MinSubnetDelegateStakeFactor = 10 ^ 15,
      SubnetNodeElectionSlots = (\<lambda>_. [3]), ValidatorReputation = (\<lambda>_. None),
      SubnetReputation = (\<lambda>_. 10 ^ 18),
      SubnetReputationFactorSchedules = (\<lambda>_. \<lparr>srf_current =
        \<lparr>absent_decrease = 0, included_increase = 0, below_min_weight_decrease = 0,
         non_attestor_decrease = 0, non_consensus_attestor_decrease = 0,
         validator_absent_decrease = 0, validator_non_consensus_decrease = 0\<rparr>, srf_pending = None\<rparr>),
      SubnetSlot = [5 \<mapsto> 250], OverwatchEpochLengthMultiplier = 2,
      OverwatchCommitCutoffPercent = 8 * 10 ^ 17, SubnetElectedValidator = (\<lambda>_. None),
      EmergencySubnetNodeElectionData = (\<lambda>_. None)\<rparr>"

lemma total_zero [simp]: "total (\<lambda>_. 0) = 0"
  by (simp add: total_def)

lemma example_balances_ok: "simple_ok ((\<lambda>_. 0)(1 := 10 ^ 24, 2 := 10 ^ 24), 2 * 10 ^ 24)"
  using total_upd [of "\<lambda>_ :: account_id. 0 :: u128" 1 "10 ^ 24"]
    total_upd [of "(\<lambda>_ :: account_id. 0 :: u128)(1 := 10 ^ 24)" 2 "10 ^ 24"] by (simp add: simple_ok_def)

lemma example_network_ok: "network_ok example_config simple_ok example_network"
  using example_balances_ok
  by (simp add: network_ok_def example_network_def example_config_def simple_currency_laws
      ledger_inv_def btree_ok_def book_ok_def pools_ok_def pool_inv_def queue_inv_def)

lemma example_network_value: "network_value example_config example_network = 2 * 10 ^ 24"
  by (simp add: network_value_def example_network_def example_config_def queued_def)

lemma example_headroom: "headroom (network_value example_config example_network)"
  by (simp add: headroom_def example_network_value)

lemmas example_defs = example_network_def example_config_def

end
