(* ===== verification/Staking_Properties.thy ===== *)
theory Staking_Properties
  imports Concrete_Network
begin

text \<open>
  The correctness properties of the staking components, each followed by an application to
  the concrete network.
\<close>

section \<open>Evaluating the model\<close>

lemmas eval_calls = dispatch_call_def dispatch_def ensure_signed_def is_paused_def
  get_current_block_as_u32_def get_last_tx_block_def set_last_tx_block_def exceeds_tx_rate_limit_def
  get_tx_rate_limit_def u128_to_balance_def can_remove_balance_from_coldkey_account_def
  get_coldkey_balance_def remove_balance_from_coldkey_account_def add_balance_to_coldkey_account_def

lemmas eval_subnet_pool = add_delegate_stake_def remove_delegate_stake_def donate_delegate_stake_def
  transfer_delegate_stake_def do_add_delegate_stake_def do_remove_delegate_stake_def
  do_transfer_delegate_stake_def perform_do_add_delegate_stake_def
  perform_do_remove_subnet_delegate_stake_def handle_increase_account_delegate_stake_def
  increase_account_delegate_stake_def decrease_account_delegate_stake_def
  mint_subnet_dead_shares_def do_increase_delegate_stake_def

lemmas eval_ledger = prepare_unbonding_ledger_entry_def insert_balance_to_unbonding_ledger_def
  btree_contains_key_def

lemmas eval_math = convert_to_shares_def convert_to_balance_def checked_mul_div_def checked_mul_def
  checked_div_def u256_from_def u256_try_into_u128_def saturating_add_def saturating_sub_def
  MIN_LIQUIDITY_def

lemma is_paused_False: "is_paused s = Inr u \<longleftrightarrow> \<not> TxPause s"
  by (simp add: is_paused_def)

section \<open>Shares of a pool\<close>

text \<open>
  C8: the two conversions of the vault compute the exact capped quotients with the virtual offset
  of ten shares against one unit, for all arguments: neither the 256-bit products nor the casts
  back to 128 bits wrap.
\<close>

theorem conversions_exact:
  "unat (convert_to_shares a S A) =
     (if S = 0 then unat a else min (unat a * (unat S + 10) div (unat A + 1)) (2 ^ 128 - 1)) \<and>
   unat (convert_to_balance n S A) =
     (if S = 0 then unat n else min (unat n * (unat A + 1) div (unat S + 10)) (2 ^ 128 - 1))"
  using unat_convert_to_shares [of S a A] unat_convert_to_balance [of S n A]
  by (cases "S = 0") (simp_all add: convert_to_shares_def convert_to_balance_def)

text \<open>What a successful withdrawal did to the pool, whatever was paid out on the way.\<close>

lemma remove_delegate_stake_pool:
  assumes "dispatch_call cfg (Signed who) (RemoveDelegateStake i n) s = (s', Inr ())"
    and "w = convert_to_balance n (TotalSubnetDelegateStakeShares s i) (TotalSubnetDelegateStakeBalance s i)"
  shows "n \<le> AccountSubnetDelegateStakeShares s (who, i)"
    and "AccountSubnetDelegateStakeShares s' =
           AccountSubnetDelegateStakeShares (decrease_account_delegate_stake who i w n s)"
    and "TotalSubnetDelegateStakeShares s' =
           TotalSubnetDelegateStakeShares (decrease_account_delegate_stake who i w n s)"
    and "TotalSubnetDelegateStakeBalance s' =
           TotalSubnetDelegateStakeBalance (decrease_account_delegate_stake who i w n s)"
proof -
  have "do_remove_delegate_stake cfg (Signed who) i n s = (s', Inr ())"
    using assms(1) by (simp add: dispatch_call_def dispatch_Inr remove_delegate_stake_def split: sum.splits)
  then obtain s2 w' m where p: "perform_do_remove_subnet_delegate_stake cfg who i n True s = (s2, Inr (), w', m)"
    and s': "s' = set_last_tx_block who (block_number s2) s2"
    by (elim do_remove_delegate_stake_success) auto
  from p obtain s1 cooldown where le: "n \<le> AccountSubnetDelegateStakeShares s (who, i)" and w': "w' = w"
    and pr: "prepare_unbonding_ledger_entry cfg who w cooldown (block_number s) s = (s1, Inr ())"
    and s2: "s2 = insert_balance_to_unbonding_ledger who w cooldown (block_number s)
      (decrease_account_delegate_stake who i w n s1)"
    by (elim perform_do_remove_subnet_delegate_stake_success) (auto simp: assms(2))
  note k = prepare_keeps(4-6) [OF pr]
  show "n \<le> AccountSubnetDelegateStakeShares s (who, i)" by (rule le)
  show "AccountSubnetDelegateStakeShares s' =
           AccountSubnetDelegateStakeShares (decrease_account_delegate_stake who i w n s)"
    and "TotalSubnetDelegateStakeShares s' =
           TotalSubnetDelegateStakeShares (decrease_account_delegate_stake who i w n s)"
    and "TotalSubnetDelegateStakeBalance s' =
           TotalSubnetDelegateStakeBalance (decrease_account_delegate_stake who i w n s)"
    by (simp_all add: s' s2 k set_last_tx_block_def insert_balance_to_unbonding_ledger_def Let_def
        decrease_account_delegate_stake_def)
qed

lemma network_ok_holds: "network_ok cfg ok s \<Longrightarrow> holds cfg ok (network_value cfg s) s"
  by (simp add: holds_def)

lemma network_pools:
  assumes "network_ok cfg ok s"
  shows "subnet_pool_ok i s" and "validator_pool_ok i s"
  using holds_subnet_pools(2) holds_validator_pools(2) network_ok_holds [OF assms] by blast+

text \<open>
  C4: a successful withdrawal of delegate stake in a well-formed network redeems exactly the
  shares it names, which the caller holds, for the balance the vault says, which the pool has:
  no subtraction saturates.
\<close>

theorem remove_delegate_stake_exact:
  assumes "network_ok cfg ok s"
    and "dispatch_call cfg (Signed who) (RemoveDelegateStake i n) s = (s', Inr ())"
  shows "n \<le> AccountSubnetDelegateStakeShares s (who, i) \<and>
    AccountSubnetDelegateStakeShares s' = (AccountSubnetDelegateStakeShares s)
      ((who, i) := AccountSubnetDelegateStakeShares s (who, i) - n) \<and>
    unat (TotalSubnetDelegateStakeShares s' i) + unat n = unat (TotalSubnetDelegateStakeShares s i) \<and>
    unat (TotalSubnetDelegateStakeBalance s' i)
      + unat (convert_to_balance n (TotalSubnetDelegateStakeShares s i) (TotalSubnetDelegateStakeBalance s i))
      = unat (TotalSubnetDelegateStakeBalance s i)"
proof -
  note r = remove_delegate_stake_pool [OF assms(2) refl]
  note e = subnet_pool.redeem_exact [OF network_pools(1) [OF assms(1)] r(1) refl]
  show ?thesis
    using r e(1,2) by (simp add: decrease_account_delegate_stake_def saturating_sub_def)
qed

definition example_staked :: "simple_balances network_epochs" where
  "example_staked = fst (dispatch_call example_config (Signed 1) (AddDelegateStake 5 5000) example_network)"

lemma example_staked_ok:
  "network_ok example_config simple_ok example_staked"
  "headroom (network_value example_config example_staked)"
proof -
  have "holds example_config simple_ok (2 * 10 ^ 24) example_network"
    using example_network_ok example_network_value by (simp add: holds_def)
  then have "holds example_config simple_ok (2 * 10 ^ 24) example_staked"
    unfolding example_staked_def
    by (rule holds_dispatch_call) (auto simp: headroom_def example_network_def prod_eq_iff)
  then show "network_ok example_config simple_ok example_staked"
    and "headroom (network_value example_config example_staked)"
    by (auto simp: holds_def headroom_def)
qed

lemma example_staked_eq:
  "example_staked = example_network\<lparr>balances := ((\<lambda>_. 0)(2 := 10 ^ 24, 1 := 10 ^ 24 - 5000), 2 * 10 ^ 24 - 5000),
     LastTxBlock := (\<lambda>_. 0)(1 := 1000),
     AccountSubnetDelegateStakeShares := (\<lambda>_. 0)((1, 5) := 5000),
     TotalSubnetDelegateStakeShares := (\<lambda>_. 0)(5 := 6000),
     TotalSubnetDelegateStakeBalance := (\<lambda>_. 0)(5 := 5000),
     TotalDelegateStake := 5000, SubnetNetFlow := (\<lambda>_. 0)(5 := 5000)\<rparr>"
  by (simp add: example_staked_def eval_calls eval_subnet_pool eval_math Let_def example_defs
      i128_clamp_def u128_as_i128_def)

text \<open>Applied: account 1 deposits 5000 and takes half of its shares back.\<close>

theorem remove_delegate_stake_exact_witness:
  "snd (dispatch_call example_config (Signed 1) (RemoveDelegateStake 5 2500) example_staked) = Inr () \<and>
   unat (TotalSubnetDelegateStakeShares (fst (dispatch_call example_config (Signed 1)
     (RemoveDelegateStake 5 2500) example_staked)) 5) + 2500 = 6000"
proof -
  have r: "snd (dispatch_call example_config (Signed 1) (RemoveDelegateStake 5 2500) example_staked) = Inr ()"
    by (simp add: example_staked_eq eval_calls eval_subnet_pool eval_math eval_ledger Let_def example_defs)
  show ?thesis
    using r remove_delegate_stake_exact [OF example_staked_ok(1), of 1 5 2500
        "fst (dispatch_call example_config (Signed 1) (RemoveDelegateStake 5 2500) example_staked)"]
    by (simp add: prod_eq_iff example_staked_eq example_network_def)
qed

text \<open>
  C5: a withdrawal goes through. If the network is not paused, the caller withdraws a number of shares that
  is not zero and that it holds, is not rate limited and has fewer entries still unbonding than the
  limit, the call succeeds: matured entries are paid out when they are in the way.
\<close>

theorem remove_delegate_stake_succeeds:
  assumes "\<not> TxPause s" and "n \<noteq> 0" and "n \<le> AccountSubnetDelegateStakeShares s (who, i)"
    and "\<not> exceeds_tx_rate_limit (LastTxBlock s who) (block_number s) s"
    and "length (filter (\<lambda>e. block_number s < fst e) (StakeUnbondingLedger s who)) < unat (MaxUnbondings s)"
  shows "snd (dispatch_call cfg (Signed who) (RemoveDelegateStake i n) s) = Inr ()"
proof -
  have "snd (prepare_unbonding_ledger_entry cfg who w cooldown block s) = Inr ()" for w cooldown block
  proof -
    have "length (unmatured (block_number s) (StakeUnbondingLedger s who)) < unat (MaxUnbondings s)"
      using assms(5) by (simp add: unmatured_def)
    then have "(of_nat (length (unmatured (block_number s) (StakeUnbondingLedger s who))) :: u32)
        < MaxUnbondings s"
      using unat_lt_exp [of "MaxUnbondings s"] by (simp add: word_less_nat_alt unat_of_nat)
    then show ?thesis
      by (auto simp: prepare_unbonding_ledger_entry_def Let_def do_claim_unbondings_eq not_le)
  qed
  then obtain s1 where "prepare_unbonding_ledger_entry cfg who
      (convert_to_balance n (TotalSubnetDelegateStakeShares s i) (TotalSubnetDelegateStakeBalance s i))
      (DelegateStakeCooldownEpochs s * EpochLength cfg) (block_number s) s = (s1, Inr ())"
    by (metis prod.collapse)
  moreover have "\<not> AccountSubnetDelegateStakeShares s (who, i) < n"
    using assms(3) by simp
  ultimately show ?thesis
    using assms(1,2,4)
    by (simp add: eval_calls remove_delegate_stake_def do_remove_delegate_stake_def
        perform_do_remove_subnet_delegate_stake_def Let_def del: exceeds_tx_rate_limit_def)
qed

text \<open>Applied: account 1 takes all its shares back.\<close>

theorem remove_delegate_stake_succeeds_witness:
  "snd (dispatch_call example_config (Signed 1) (RemoveDelegateStake 5 5000) example_staked) = Inr ()"
  by (rule remove_delegate_stake_succeeds)
    (simp_all add: example_staked_eq example_network_def exceeds_tx_rate_limit_def get_tx_rate_limit_def)

section \<open>Holders of a pool\<close>

lemma subnet_worth_eq:
  "TotalSubnetDelegateStakeShares s i \<noteq> 0 \<Longrightarrow>
     convert_account_shares_to_balance who i s = subnet_pool.worth i s who"
  by (auto simp: convert_account_shares_to_balance_def subnet_pool.worth_def Let_def word_unat_eq_iff
      unat_convert_to_balance)

text \<open>The successful calls on the pool of a subnet, as moves of the pool.\<close>

lemma add_delegate_stake_pool:
  assumes "dispatch_call cfg (Signed who) (AddDelegateStake i a) s = (s', Inr ())"
  obtains c where "withdraw (Cur cfg) (balances s) who a = Some c"
    and "s' = set_last_tx_block who (block_number s) (subnet_deposit i who a (s\<lparr>balances := c\<rparr>))"
proof -
  have "do_add_delegate_stake cfg (Signed who) i a s = (s', Inr ())"
    using assms
    by (simp add: dispatch_call_def dispatch_Inr add_delegate_stake_def split: sum.splits if_splits)
  then obtain s2 n where p: "perform_do_add_delegate_stake cfg who i a False s = (s2, Inr (), a, n)"
    and s': "s' = set_last_tx_block who (block_number s2) s2"
    by (elim do_add_delegate_stake_success) auto
  from p obtain c where "withdraw (Cur cfg) (balances s) who a = Some c"
    and "s2 = subnet_deposit i who a (s\<lparr>balances := c\<rparr>)"
    by (elim perform_do_add_delegate_stake_success) auto
  moreover from this have "block_number s2 = block_number s"
    by (simp add: subnet_pool_updates)
  ultimately show thesis using s' by (intro that) simp_all
qed

lemma donate_delegate_stake_pool:
  assumes "dispatch_call cfg (Signed who) (DonateDelegateStake i a) s = (s', Inr ())"
  obtains c where "withdraw (Cur cfg) (balances s) who a = Some c"
    and "MinDelegateStakeDeposit s \<le> a"
    and "s' = do_increase_delegate_stake i a (s\<lparr>balances := c\<rparr>)"
  using assms
  by (auto simp: dispatch_call_def dispatch_Inr donate_delegate_stake_def u128_to_balance_def
      remove_balance_True ensure_signed_def Let_def split: call_splits)

lemma subnet_pool_cong:
  assumes "AccountSubnetDelegateStakeShares s' = AccountSubnetDelegateStakeShares s"
    and "TotalSubnetDelegateStakeShares s' = TotalSubnetDelegateStakeShares s"
    and "TotalSubnetDelegateStakeBalance s' = TotalSubnetDelegateStakeBalance s"
  shows "subnet_pool_ok i s' = subnet_pool_ok i s"
    and "subnet_pool.price_le i t s' = subnet_pool.price_le i t s"
    and "subnet_pool.price_le i s' t = subnet_pool.price_le i s t"
  using assms by (simp_all add: subnet_pool.pool_ok_def subnet_pool.price_le_def)

lemma subnet_call_price:
  assumes "network_ok cfg ok s" and "headroom (network_value cfg s)"
    and "TotalSubnetDelegateStakeShares s i \<noteq> 0"
    and "call \<in> {AddDelegateStake i a, RemoveDelegateStake i n, DonateDelegateStake i a}"
    and "dispatch_call cfg (Signed who) call s = (s', Inr ())"
  shows "subnet_pool.price_le i s s'"
proof -
  let ?v = "network_value cfg s"
  note h = network_ok_holds [OF assms(1)]
  note pool = holds_subnet_pools(2) [OF h, of i]
  have room: "1010 * (unat (TotalSubnetDelegateStakeBalance s i) + unat a + 1) < 2 ^ 128"
    if "withdraw (Cur cfg) (balances s) who a = Some c" for c
    using subnet_pool_room [OF holds_withdraw(2) [OF h that] holds_withdraw(1) [OF h that] assms(2), of i]
    by simp
  from assms(4) consider "call = AddDelegateStake i a" | "call = RemoveDelegateStake i n"
    | "call = DonateDelegateStake i a" by auto
  then show ?thesis
  proof cases
    case 1
    obtain c where w: "withdraw (Cur cfg) (balances s) who a = Some c"
      and s': "s' = set_last_tx_block who (block_number s) (subnet_deposit i who a (s\<lparr>balances := c\<rparr>))"
      using assms(5) [unfolded 1] by (rule add_delegate_stake_pool)
    have "subnet_pool.price_le i (s\<lparr>balances := c\<rparr>) (subnet_deposit i who a (s\<lparr>balances := c\<rparr>))"
      using pool assms(3) room [OF w] by (intro subnet_pool.deposit_price) (simp_all add: subnet_pool.pool_ok_def)
    then show ?thesis by (simp add: s' set_last_tx_block_def subnet_pool.price_le_def)
  next
    case 2
    note r = remove_delegate_stake_pool [OF assms(5) [unfolded 2] refl]
    show ?thesis
      using subnet_pool.redeem_price [OF pool r(1) refl] by (simp add: subnet_pool_cong [OF r(2-4)])
  next
    case 3
    obtain c where w: "withdraw (Cur cfg) (balances s) who a = Some c"
      and m: "MinDelegateStakeDeposit s \<le> a" and s': "s' = do_increase_delegate_stake i a (s\<lparr>balances := c\<rparr>)"
      using assms(5) [unfolded 3] by (rule donate_delegate_stake_pool)
    moreover have "MinDelegateStakeDeposit s \<noteq> 0" using assms(1) by (simp add: network_ok_def)
    ultimately have "a \<noteq> 0" by auto
    then have "subnet_pool.price_le i (s\<lparr>balances := c\<rparr>) s'"
      unfolding s' using pool assms(3) room [OF w]
      by (intro subnet_pool.reward_price) (simp_all add: subnet_pool.pool_ok_def)
    then show ?thesis by (simp add: subnet_pool.price_le_def)
  qed
qed

lemma subnet_call_frame:
  assumes "network_ok cfg ok s" and "TotalSubnetDelegateStakeShares s i \<noteq> 0"
    and "call \<in> {AddDelegateStake i a, RemoveDelegateStake i n, DonateDelegateStake i a}"
    and "dispatch_call cfg (Signed who) call s = (s', Inr ())" and "other \<noteq> who"
  shows "AccountSubnetDelegateStakeShares s' (other, i) = AccountSubnetDelegateStakeShares s (other, i)"
    and "TotalSubnetDelegateStakeShares s' i \<noteq> 0"
proof -
  have pos: "saturating_add (TotalSubnetDelegateStakeShares s i) x \<noteq> 0" for x
    using assms(2) by (auto simp: word_unat_eq_iff unat_saturating_add)
  have "AccountSubnetDelegateStakeShares s' (other, i) = AccountSubnetDelegateStakeShares s (other, i)
      \<and> TotalSubnetDelegateStakeShares s' i \<noteq> 0"
    using assms(3)
  proof (elim insertE emptyE)
    assume c: "call = AddDelegateStake i a"
    show ?thesis
      using assms(4) [unfolded c]
      by (rule add_delegate_stake_pool)
        (use assms(2,5) pos in \<open>simp add: set_last_tx_block_def subnet_pool_updates\<close>)
  next
    assume c: "call = RemoveDelegateStake i n"
    note r = remove_delegate_stake_pool [OF assms(4) [unfolded c] refl]
    note pool = network_pools(1) [OF assms(1), of i]
    have "unat (TotalSubnetDelegateStakeShares s' i) + unat n = unat (TotalSubnetDelegateStakeShares s i)"
      using subnet_pool.redeem_exact(2) [OF pool r(1) refl] r(3) by simp
    moreover have "unat n + 1000 \<le> unat (TotalSubnetDelegateStakeShares s i)"
      using pool r(1) assms(2) total_ge [of "\<lambda>w. AccountSubnetDelegateStakeShares s (w, i)" who]
      by (simp add: subnet_pool.pool_ok_def word_le_nat_alt)
    ultimately show ?thesis
      using assms(5) by (auto simp: r(2) decrease_account_delegate_stake_def unat_eq_zero [symmetric])
  next
    assume c: "call = DonateDelegateStake i a"
    show ?thesis
      using assms(4) [unfolded c]
      by (rule donate_delegate_stake_pool) (use assms(2) pos in \<open>simp add: subnet_pool_updates Let_def\<close>)
  qed
  then show "AccountSubnetDelegateStakeShares s' (other, i) = AccountSubnetDelegateStakeShares s (other, i)"
    and "TotalSubnetDelegateStakeShares s' i \<noteq> 0" by simp_all
qed

text \<open>
  C3: nobody is diluted. Whatever another account deposits in an open pool, withdraws from it or
  donates to it, what the shares of an account are worth does not fall.
\<close>

theorem others_not_diluted:
  assumes "network_ok cfg ok s" and "headroom (network_value cfg s)"
    and "TotalSubnetDelegateStakeShares s i \<noteq> 0"
    and "call \<in> {AddDelegateStake i a, RemoveDelegateStake i n, DonateDelegateStake i a}"
    and "dispatch_call cfg (Signed who) call s = (s', Inr ())" and "other \<noteq> who"
  shows "convert_account_shares_to_balance other i s \<le> convert_account_shares_to_balance other i s'"
proof -
  note f = subnet_call_frame [OF assms(1,3-6)]
  show ?thesis
    unfolding subnet_worth_eq [OF assms(3)] subnet_worth_eq [OF f(2)]
    by (rule subnet_pool.worth_mono [OF subnet_call_price [OF assms(1-5)] f(1) assms(3) f(2)])
qed

text \<open>Applied: account 2 donates 2000 to the pool account 1 has shares of.\<close>

theorem others_not_diluted_witness:
  "snd (dispatch_call example_config (Signed 2) (DonateDelegateStake 5 2000) example_staked) = Inr () \<and>
   convert_account_shares_to_balance 1 5 example_staked
     \<le> convert_account_shares_to_balance 1 5 (fst (dispatch_call example_config (Signed 2)
         (DonateDelegateStake 5 2000) example_staked))"
proof -
  have r: "snd (dispatch_call example_config (Signed 2) (DonateDelegateStake 5 2000) example_staked) = Inr ()"
    by (simp add: example_staked_eq eval_calls eval_subnet_pool Let_def example_defs)
  have "TotalSubnetDelegateStakeShares example_staked 5 \<noteq> 0"
    by (simp add: example_staked_eq)
  note others_not_diluted [OF example_staked_ok this, of "DonateDelegateStake 5 2000" 2000 0 2
      "fst (dispatch_call example_config (Signed 2) (DonateDelegateStake 5 2000) example_staked)" 1]
  with r show ?thesis by (simp add: prod_eq_iff)
qed

text \<open>
  No profit from a deposit. The shares a deposit buys in an open pool are worth at most the
  deposit right after it.
\<close>

lemma add_delegate_stake_no_profit:
  assumes "network_ok cfg ok s" and "headroom (network_value cfg s)"
    and "TotalSubnetDelegateStakeShares s i \<noteq> 0"
    and "dispatch_call cfg (Signed who) (AddDelegateStake i a) s = (s', Inr ())"
  shows "convert_to_balance
      (AccountSubnetDelegateStakeShares s' (who, i) - AccountSubnetDelegateStakeShares s (who, i))
      (TotalSubnetDelegateStakeShares s' i) (TotalSubnetDelegateStakeBalance s' i) \<le> a"
proof -
  let ?n = "convert_to_shares a (TotalSubnetDelegateStakeShares s i) (TotalSubnetDelegateStakeBalance s i)"
  note h = network_ok_holds [OF assms(1)]
  obtain c where w: "withdraw (Cur cfg) (balances s) who a = Some c"
    and s': "s' = set_last_tx_block who (block_number s) (subnet_deposit i who a (s\<lparr>balances := c\<rparr>))"
    using assms(4) by (rule add_delegate_stake_pool)
  let ?s = "s\<lparr>balances := c\<rparr>"
  have room: "1010 * (unat (TotalSubnetDelegateStakeBalance ?s i) + unat a + 1) < 2 ^ 128"
    using subnet_pool_room [OF holds_withdraw(2) [OF h w] holds_withdraw(1) [OF h w] assms(2), of i] .
  have pool: "subnet_pool_ok i ?s"
    using network_pools(1) [OF assms(1), of i] by (simp add: subnet_pool.pool_ok_def)
  have open_s: "TotalSubnetDelegateStakeShares ?s i \<noteq> 0" using assms(3) by simp
  have "unat (AccountSubnetDelegateStakeShares s (who, i)) + unat ?n
      \<le> unat (TotalSubnetDelegateStakeShares (subnet_deposit i who a ?s) i)"
    using subnet_pool.deposit_no_overflow(1) [OF pool open_s room, of who]
      subnet_pool.held_le_issued [OF pool, of who] by (simp add: word_le_nat_alt)
  then have "saturating_add (AccountSubnetDelegateStakeShares s (who, i)) ?n
      = AccountSubnetDelegateStakeShares s (who, i) + ?n"
    using u128_max [of "TotalSubnetDelegateStakeShares (subnet_deposit i who a ?s) i"]
    by (simp add: saturating_add_def)
  then have "AccountSubnetDelegateStakeShares s' (who, i) - AccountSubnetDelegateStakeShares s (who, i) = ?n"
    using assms(3) by (simp add: s' set_last_tx_block_def subnet_pool_updates)
  with subnet_pool.deposit_redeem_le [OF pool open_s room, of who] show ?thesis
    by (simp add: s' set_last_tx_block_def)
qed

text \<open>Applied: a second deposit of 3000 by account 1.\<close>

lemma add_delegate_stake_no_profit_example:
  "snd (dispatch_call example_config (Signed 1) (AddDelegateStake 5 3000) example_staked) = Inr () \<and>
   (let s' = fst (dispatch_call example_config (Signed 1) (AddDelegateStake 5 3000) example_staked) in
    convert_to_balance (AccountSubnetDelegateStakeShares s' (1, 5)
        - AccountSubnetDelegateStakeShares example_staked (1, 5))
      (TotalSubnetDelegateStakeShares s' 5) (TotalSubnetDelegateStakeBalance s' 5) \<le> 3000)"
proof -
  have r: "snd (dispatch_call example_config (Signed 1) (AddDelegateStake 5 3000) example_staked) = Inr ()"
    by (simp add: example_staked_eq eval_calls eval_subnet_pool eval_math Let_def example_defs)
  have "TotalSubnetDelegateStakeShares example_staked 5 \<noteq> 0"
    by (simp add: example_staked_eq)
  note add_delegate_stake_no_profit [OF example_staked_ok this, of 1 3000
      "fst (dispatch_call example_config (Signed 1) (AddDelegateStake 5 3000) example_staked)"]
  with r show ?thesis by (simp add: prod_eq_iff Let_def)
qed

section \<open>Unbonding\<close>

text \<open>
  A claim pays exactly the entries whose block has come, each to the caller, and keeps the
  others; with nothing due it fails and changes nothing.
\<close>

lemma claim_unbondings_exact:
  assumes "\<not> TxPause s" and "length (StakeUnbondingLedger s who) < 2 ^ 32"
  shows "dispatch_call cfg (Signed who) ClaimUnbondings s =
    (let due = filter (\<lambda>e. fst e \<le> block_number s) (StakeUnbondingLedger s who);
         rest = filter (\<lambda>e. block_number s < fst e) (StakeUnbondingLedger s who)
     in if due = [] then (s, Inl NoStakeUnbondingsOrCooldownNotMet)
        else (s\<lparr>balances := fold (\<lambda>e c. deposit_creating (Cur cfg) c who (snd e)) due (balances s),
                StakeUnbondingLedger := (StakeUnbondingLedger s)(who := rest),
                TotalUnbondingBalance := fold (\<lambda>e t. saturating_sub t (snd e)) due (TotalUnbondingBalance s)\<rparr>,
              Inr ()))"
proof -
  have "length (matured (block_number s) (StakeUnbondingLedger s who)) < 2 ^ 32"
    unfolding matured_def using assms(2) length_filter_le order_le_less_trans by blast
  then have "0 < (of_nat (length (matured (block_number s) (StakeUnbondingLedger s who))) :: u32)
      \<longleftrightarrow> matured (block_number s) (StakeUnbondingLedger s who) \<noteq> []"
    by (auto simp: word_less_nat_alt unat_of_nat)
  then show ?thesis
    using assms(1)
    by (simp add: dispatch_call_def dispatch_def claim_unbondings_def ensure_signed_def is_paused_def
        do_claim_unbondings_eq Let_def pay_def release_def flip: matured_def unmatured_def)
qed

definition example_unbonding :: "simple_balances network_epochs" where
  "example_unbonding = (fst (dispatch_call example_config (Signed 1) (RemoveDelegateStake 5 2500)
     example_staked))\<lparr>block_number := 1200\<rparr>"

lemma example_unbonding_ledger:
  "StakeUnbondingLedger example_unbonding 1 = [(1200, 2080)]" "\<not> TxPause example_unbonding"
  "block_number example_unbonding = 1200"
  by (simp_all add: example_unbonding_def example_staked_eq eval_calls eval_subnet_pool eval_math
      eval_ledger Let_def example_defs)

text \<open>Applied: the 2500 shares withdrawn at block 1000 are paid as 2080 at block 1200.\<close>

lemma claim_unbondings_exact_example:
  "snd (dispatch_call example_config (Signed 1) ClaimUnbondings example_unbonding) = Inr () \<and>
   StakeUnbondingLedger (fst (dispatch_call example_config (Signed 1) ClaimUnbondings example_unbonding)) 1 = []"
  using claim_unbondings_exact [of example_unbonding 1 example_config]
  by (simp add: example_unbonding_ledger Let_def)

text \<open>
  An account never has more entries unbonding than the limit: adding one that would exceed it
  first pays the matured ones out, and fails otherwise.
\<close>

lemma unbonding_entries_bounded:
  assumes "unbonding_ok s" and "length (StakeUnbondingLedger s who) \<le> unat (MaxUnbondings s)"
    and "add_balance_to_unbonding_ledger cfg who a cooldown block s = (s', Inr ())"
  shows "length (StakeUnbondingLedger s' who) \<le> unat (MaxUnbondings s)"
  by (rule add_balance_entries [OF assms(3,1,2)])

text \<open>Applied: a second entry for account 1.\<close>

lemma unbonding_entries_bounded_example:
  "snd (add_balance_to_unbonding_ledger example_config 1 40 50 1000 example_network) = Inr () \<and>
   length (StakeUnbondingLedger (fst (add_balance_to_unbonding_ledger example_config 1 40 50 1000
     example_network)) 1) \<le> 4"
proof -
  have r: "snd (add_balance_to_unbonding_ledger example_config 1 40 50 1000 example_network) = Inr ()"
    by (simp add: add_balance_to_unbonding_ledger_def eval_ledger Let_def example_defs)
  have "unbonding_ok example_network"
    using example_network_ok by (simp add: network_ok_def ledger_inv_iff)
  note unbonding_entries_bounded [OF this, of 1 example_config 40 50 1000
      "fst (add_balance_to_unbonding_ledger example_config 1 40 50 1000 example_network)"]
  with r show ?thesis by (simp add: prod_eq_iff example_network_def)
qed

section \<open>The swap queue\<close>

text \<open>
  C6: the block hook executes swaps first in, first out: it takes a prefix of the pending swaps, no
  more than the limit per block, each only after its delay. With weight left it stops only at the
  limit, at the end of the queue or at a swap that is not ready, so a ready swap is never starved.
\<close>

theorem swap_queue_fifo:
  assumes "swap_queue_ok s"
  shows "swap_queue_ok (fst (execute_ready_swap_calls W block w s)) \<and>
    (\<exists>executed. pending_swaps s = executed @ pending_swaps (fst (execute_ready_swap_calls W block w s)) \<and>
       length executed \<le> unat (MaxSwapQueueCallsPerBlock s) \<and>
       (\<forall>it\<in>set executed. qs_execute_after_blocks it \<le> saturating_sub block (qs_queued_at_block it)) \<and>
       ((\<forall>k m. can_consume W k m) \<longrightarrow> length executed = unat (MaxSwapQueueCallsPerBlock s) \<or>
          (case pending_swaps (fst (execute_ready_swap_calls W block w s)) of
             [] \<Rightarrow> True
           | it # _ \<Rightarrow> \<not> qs_execute_after_blocks it \<le> saturating_sub block (qs_queued_at_block it))))"
  using execute_loop_fifo [OF assms, of W block "unat (MaxSwapQueueCallsPerBlock s)"
      "consume W (db_reads W 1) w"]
  unfolding execute_ready_swap_calls_def Let_def swap_ready_def .

definition example_queued :: "simple_balances network_epochs" where
  "example_queued = (fst (dispatch_call example_config (Signed 1) (SwapFromSubnetToValidator 5 7 2500)
     example_staked))"

lemmas eval_queue = swap_from_subnet_to_validator_def do_swap_from_subnet_to_validator_def
  queue_swap_def enqueue_item_def

lemma example_queued_eq:
  "SwapQueueOrder example_queued = [0]"
  "SwapCallQueue example_queued = [0 \<mapsto>
     \<lparr>qs_id = 0, qs_call = SwapToValidatorDelegateStake 1 7 2080, qs_queued_at_block = 1000,
      qs_execute_after_blocks = 100\<rparr>]"
  "NextSwapQueueId example_queued = 1" "MaxSwapQueueCallsPerBlock example_queued = 2"
  by (simp_all add: example_queued_def example_staked_eq eval_calls eval_subnet_pool eval_math
      eval_queue Let_def example_defs)

lemma example_queued_ok: "swap_queue_ok example_queued"
  by (simp add: swap_queue.wf_def example_queued_eq)

definition example_weights :: "(unit, unit) Weights" where
  "example_weights = \<lparr>db_reads = (\<lambda>_. ()), db_writes = (\<lambda>_. ()), db_reads_writes = (\<lambda>_ _. ()),
     from_parts = (\<lambda>_ _. ()), handle_increase_weight = (), consume = (\<lambda>_ w. w),
     can_consume = (\<lambda>_ _. True)\<rparr>"

text \<open>Applied: the swap account 1 queued at block 1000 leaves the queue at block 1100.\<close>

theorem swap_queue_fifo_witness:
  "pending_swaps (fst (execute_ready_swap_calls example_weights 1100 () example_queued)) = []"
proof -
  let ?it = "\<lparr>qs_id = 0, qs_call = SwapToValidatorDelegateStake 1 7 2080, qs_queued_at_block = 1000,
      qs_execute_after_blocks = 100\<rparr>"
  let ?p = "pending_swaps (fst (execute_ready_swap_calls example_weights 1100 () example_queued))"
  have p: "pending_swaps example_queued = [?it]"
    by (simp add: swap_queue.pending_def example_queued_eq)
  from swap_queue_fifo [OF example_queued_ok, of example_weights 1100 "()"] obtain executed where
    "[?it] = executed @ ?p" "length executed = 2 \<or> (case ?p of [] \<Rightarrow> True
       | it # _ \<Rightarrow> \<not> qs_execute_after_blocks it \<le> saturating_sub 1100 (qs_queued_at_block it))"
    unfolding p example_queued_eq by (auto simp: example_weights_def)
  then show ?thesis
    by (cases executed; cases ?p) (auto simp: saturating_sub_def)
qed

end
