(* ===== verification/Staking_Guards.thy ===== *)
theory Staking_Guards
  imports Staking_Properties
begin

text \<open>
  What the staking calls refuse: calls while the network is paused, by strangers, over or under
  the limits, or too soon after the last one. Then the queue as a list, and the guards that are
  missing, each shown on a concrete run.
\<close>

section \<open>Refusals\<close>

text \<open>
  While the network is paused every staking call fails and changes nothing, but for the update
  of a queued swap, which does not look at the pause.
\<close>

lemma paused_calls_fail:
  assumes "TxPause s" and "\<forall>i c. call \<noteq> UpdateSwapQueue i c"
  shows "\<exists>e. dispatch_call cfg origin call s = (s, Inl e)"
proof (cases call)
  case (UpdateSwapQueue i c)
  with assms(2) show ?thesis by blast
qed (use assms(1) in \<open>auto simp: dispatch_call_def dispatch_def is_paused_def guarded_call_defs
      transfer_delegate_stake_def donate_delegate_stake_def transfer_validator_delegate_stake_def
      donate_validator_delegate_stake_def claim_unbondings_def split: sum.split\<close>)

text \<open>
  Stake is added to a node only by the coldkey of the validator behind it, in a subnet that
  exists, and leaves the node's stake within the limits of the subnet, with exactly the amount
  added.
\<close>

lemma add_node_stake_limits:
  assumes "network_ok cfg ok s" and "headroom (network_value cfg s)"
    and "dispatch_call cfg (Signed who) (AddNodeStake i n a) s = (s', Inr ())"
  shows "SubnetsData s i \<noteq> None \<and>
    (\<exists>v. SubnetNodeValidatorId s (i, n) = Some v \<and> ValidatorColdkey s v = Some who) \<and>
    unat (NodeSubnetStake s' (n, i)) = unat (NodeSubnetStake s (n, i)) + unat a \<and>
    SubnetMinStakeBalance s i \<le> NodeSubnetStake s' (n, i) \<and>
    NodeSubnetStake s' (n, i) \<le> SubnetMaxStakeBalance s i"
proof -
  have "do_add_node_stake cfg (Signed who) i n a s = (s', Inr ())"
    using assms(3) by (simp add: dispatch_call_def dispatch_Inr add_node_stake_def split: sum.splits)
  then show ?thesis
  proof (rule do_add_node_stake_success)
    fix coldkey v c
    assume g: "Signed who = Signed coldkey" "SubnetsData s i \<noteq> None"
      "SubnetNodeValidatorId s (i, n) = Some v" "ValidatorColdkey s v = Some coldkey"
      "SubnetMinStakeBalance s i \<le> saturating_add (NodeSubnetStake s (n, i)) a"
      "saturating_add (NodeSubnetStake s (n, i)) a \<le> SubnetMaxStakeBalance s i"
      and w: "withdraw (Cur cfg) (balances s) coldkey a = Some c"
      and s': "s' = set_last_tx_block coldkey (block_number s) (increase_node_stake n i a (s\<lparr>balances := c\<rparr>))"
    note h = network_ok_holds [OF assms(1)]
    have "unat (TotalStake s) + unat a < 2 ^ 128"
      using credit_room(1) [OF holds_withdraw(2,1) [OF h w] assms(2)] by simp
    moreover have "node_stake.balanced s" using assms(1) by (simp add: network_ok_def balanced_book_ok)
    then have "NodeSubnetStake s (n, i) \<le> TotalStake s" by (rule node_stake.entry_le_recorded)
    ultimately have "unat (saturating_add (NodeSubnetStake s (n, i)) a) = unat (NodeSubnetStake s (n, i)) + unat a"
      by (simp add: unat_saturating_add word_le_nat_alt)
    with g s' show ?thesis by (simp add: set_last_tx_block_def increase_node_stake_def)
  qed
qed

text \<open>Applied: account 1 stakes 500 on node 3 of subnet 5.\<close>

lemma add_node_stake_limits_example:
  "snd (dispatch_call example_config (Signed 1) (AddNodeStake 5 3 500) example_network) = Inr () \<and>
   unat (NodeSubnetStake (fst (dispatch_call example_config (Signed 1) (AddNodeStake 5 3 500)
     example_network)) (3, 5)) = 500"
proof -
  have r: "snd (dispatch_call example_config (Signed 1) (AddNodeStake 5 3 500) example_network) = Inr ()"
    by (simp add: eval_calls add_node_stake_def do_add_node_stake_def saturating_add_def Let_def example_defs)
  note add_node_stake_limits [OF example_network_ok example_headroom, of 1 5 3 500
      "fst (dispatch_call example_config (Signed 1) (AddNodeStake 5 3 500) example_network)"]
  with r show ?thesis by (simp add: prod_eq_iff example_network_def)
qed

text \<open>
  Stake is taken from a node only by the coldkey behind it, never more than the node has, and a
  node that is still in the subnet keeps the minimum; the amount leaves the books exactly.
\<close>

lemma remove_node_stake_limits:
  assumes "network_ok cfg ok s"
    and "dispatch_call cfg (Signed who) (RemoveNodeStake i n a) s = (s', Inr ())"
  shows "(\<exists>v. SubnetNodeValidatorId s (i, n) = Some v \<and> ValidatorColdkey s v = Some who) \<and>
    unat (NodeSubnetStake s' (n, i)) + unat a = unat (NodeSubnetStake s (n, i)) \<and>
    unat (TotalStake s') + unat a = unat (TotalStake s) \<and>
    (SubnetNodeReputation s (i, n) \<noteq> None \<longrightarrow> SubnetMinStakeBalance s i \<le> NodeSubnetStake s' (n, i))"
proof -
  have "do_remove_node_stake cfg (Signed who) i n a s = (s', Inr ())"
    using assms(2) by (simp add: dispatch_call_def dispatch_Inr remove_node_stake_def split: sum.splits)
  then show ?thesis
  proof (rule do_remove_node_stake_success)
    fix coldkey v and s1 :: "('a, 'b) network_scheme"
    let ?cooldown = "StakeCooldownEpochs s * EpochLength cfg"
    let ?s2 = "if SubnetNodeReputation s (i, n) = None \<and> NodeSubnetStake s (n, i) \<le> a
      then clean_validator_subnet_nodes v s1 else s1"
    assume g: "Signed who = Signed coldkey" "SubnetNodeValidatorId s (i, n) = Some v"
      "ValidatorColdkey s v = Some coldkey" "a \<le> NodeSubnetStake s (n, i)"
      "SubnetNodeReputation s (i, n) \<noteq> None \<Longrightarrow>
         SubnetMinStakeBalance s i \<le> saturating_sub (NodeSubnetStake s (n, i)) a"
      and p: "prepare_unbonding_ledger_entry cfg coldkey a ?cooldown (block_number s) s = (s1, Inr ())"
      and s': "s' = set_last_tx_block coldkey (block_number s)
        (insert_balance_to_unbonding_ledger coldkey a ?cooldown (block_number s)
          (decrease_node_stake n i a ?s2))"
    have e: "NodeSubnetStake s1 = NodeSubnetStake s" "TotalStake s1 = TotalStake s"
      using prepare_frame [OF p] by auto
    have "NodeSubnetStake s' (n, i) = saturating_sub (NodeSubnetStake s (n, i)) a"
      "TotalStake s' = saturating_sub (TotalStake s) a"
      by (simp_all add: s' e set_last_tx_block_def insert_balance_to_unbonding_ledger_def Let_def
          decrease_node_stake_def clean_validator_subnet_nodes_def)
    moreover have b: "node_stake.balanced s" using assms(1) by (simp add: network_ok_def balanced_book_ok)
    have "a \<le> TotalStake s"
      using g(4) node_stake.entry_le_recorded [OF b, of "(n, i)"] by (rule order_trans)
    ultimately show ?thesis
      using g by (simp add: unat_saturating_sub word_le_nat_alt)
  qed
qed

text \<open>Applied: account 1 takes 300 of its 500 back.\<close>

lemma remove_node_stake_limits_example:
  "let s = fst (dispatch_call example_config (Signed 1) (AddNodeStake 5 3 500) example_network);
       r = dispatch_call example_config (Signed 1) (RemoveNodeStake 5 3 300) s
   in snd r = Inr () \<and> unat (NodeSubnetStake (fst r) (3, 5)) + 300 = 500"
proof -
  let ?s = "fst (dispatch_call example_config (Signed 1) (AddNodeStake 5 3 500) example_network)"
  have h: "holds example_config simple_ok (2 * 10 ^ 24) example_network"
    using example_network_ok example_network_value by (simp add: holds_def)
  have "holds example_config simple_ok (2 * 10 ^ 24) ?s"
    using h by (rule holds_dispatch_call) (auto simp: headroom_def example_network_def prod_eq_iff)
  then have ok: "network_ok example_config simple_ok ?s" by (simp add: holds_def)
  have n: "NodeSubnetStake ?s (3, 5) = 500"
    by (simp add: eval_calls add_node_stake_def do_add_node_stake_def increase_node_stake_def
        saturating_add_def Let_def example_defs)
  have r: "snd (dispatch_call example_config (Signed 1) (RemoveNodeStake 5 3 300) ?s) = Inr ()"
    by (simp add: eval_calls eval_ledger add_node_stake_def do_add_node_stake_def increase_node_stake_def
        remove_node_stake_def do_remove_node_stake_def
        saturating_add_def saturating_sub_def Let_def example_defs)
  show ?thesis
    using r n remove_node_stake_limits [OF ok, of 1 5 3 300
        "fst (dispatch_call example_config (Signed 1) (RemoveNodeStake 5 3 300) ?s)"]
    by (simp add: prod_eq_iff Let_def)
qed

section \<open>The rate limit\<close>

text \<open>The calls that both check and set the block of the caller's last transaction.\<close>

fun rate_limited :: "StakingCall \<Rightarrow> bool" where
  "rate_limited (AddNodeStake _ _ _) = True"
| "rate_limited (RemoveNodeStake _ _ _) = True"
| "rate_limited (AddDelegateStake _ _) = True"
| "rate_limited (RemoveDelegateStake _ _) = True"
| "rate_limited (AddValidatorDelegateStake _ _) = True"
| "rate_limited (RemoveValidatorDelegateStake _ _) = True"
| "rate_limited _ = False"

definition stamped :: "account_id \<Rightarrow> ('c, 'm) network_scheme \<Rightarrow> ('c, 'm) network_scheme \<Rightarrow> bool" where
  "stamped who s s' \<longleftrightarrow> \<not> exceeds_tx_rate_limit (LastTxBlock s who) (block_number s) s \<and>
     LastTxBlock s' who = block_number s \<and> TxRateLimit s' = TxRateLimit s"

lemma stampedI:
  assumes "\<not> exceeds_tx_rate_limit (LastTxBlock s who) (block_number s) s"
    and "s' = set_last_tx_block who (block_number s) t" and "TxRateLimit t = TxRateLimit s"
  shows "stamped who s s'"
  using assms by (simp add: stamped_def set_last_tx_block_def)

lemma prepare_clock:
  assumes "prepare_unbonding_ledger_entry cfg who a cooldown block s = (s', r)"
  shows "TxRateLimit s' = TxRateLimit s" and "block_number s' = block_number s"
  using prepare_frame [OF assms] by auto

lemmas clock_frame = increase_node_stake_def decrease_node_stake_def clean_validator_subnet_nodes_def
  insert_balance_to_unbonding_ledger_def subnet_pool_updates validator_pool_updates Let_def

lemma stamped_delegate:
  assumes "do_add_delegate_stake cfg (Signed who) i a s = (s', Inr ())
    \<or> do_remove_delegate_stake cfg (Signed who) i n s = (s', Inr ())"
  shows "stamped who s s'"
  using assms
proof
  assume "do_add_delegate_stake cfg (Signed who) i a s = (s', Inr ())"
  then obtain s2 m where p: "perform_do_add_delegate_stake cfg who i a False s = (s2, Inr (), a, m)"
    and s': "s' = set_last_tx_block who (block_number s2) s2"
    by (elim do_add_delegate_stake_success) auto
  from p obtain c where l: "\<not> exceeds_tx_rate_limit (LastTxBlock s who) (block_number s) s"
    and s2: "s2 = subnet_deposit i who a (s\<lparr>balances := c\<rparr>)"
    by (elim perform_do_add_delegate_stake_success) auto
  have "block_number s2 = block_number s" "TxRateLimit s2 = TxRateLimit s" by (simp_all add: s2 clock_frame)
  with l s' show ?thesis by (intro stampedI [where t = s2]) auto
next
  assume "do_remove_delegate_stake cfg (Signed who) i n s = (s', Inr ())"
  then obtain s2 w m where p: "perform_do_remove_subnet_delegate_stake cfg who i n True s = (s2, Inr (), w, m)"
    and s': "s' = set_last_tx_block who (block_number s2) s2"
    by (elim do_remove_delegate_stake_success) auto
  from p obtain s1 cooldown where l: "\<not> exceeds_tx_rate_limit (LastTxBlock s who) (block_number s) s"
    and pr: "prepare_unbonding_ledger_entry cfg who w cooldown (block_number s) s = (s1, Inr ())"
    and s2: "s2 = insert_balance_to_unbonding_ledger who w cooldown (block_number s)
      (decrease_account_delegate_stake who i w n s1)"
    by (elim perform_do_remove_subnet_delegate_stake_success) auto
  have "block_number s2 = block_number s" "TxRateLimit s2 = TxRateLimit s"
    using prepare_clock [OF pr] by (simp_all add: s2 clock_frame)
  with l s' show ?thesis by (intro stampedI [where t = s2]) auto
qed

lemma stamped_validator:
  assumes "do_add_validator_delegate_stake cfg (Signed who) i a s = (s', Inr ())
    \<or> do_remove_validator_delegate_stake cfg (Signed who) i n s = (s', Inr ())"
  shows "stamped who s s'"
  using assms
proof
  assume "do_add_validator_delegate_stake cfg (Signed who) i a s = (s', Inr ())"
  then obtain s2 m where p: "perform_do_add_validator_delegate_stake cfg who i a False s = (s2, Inr (), a, m)"
    and s': "s' = set_last_tx_block who (block_number s2) s2"
    by (elim do_add_validator_delegate_stake_success) auto
  from p obtain c where l: "\<not> exceeds_tx_rate_limit (LastTxBlock s who) (block_number s) s"
    and s2: "s2 = validator_deposit i who a (s\<lparr>balances := c\<rparr>)"
    by (elim perform_do_add_validator_delegate_stake_success) auto
  have "block_number s2 = block_number s" "TxRateLimit s2 = TxRateLimit s" by (simp_all add: s2 clock_frame)
  with l s' show ?thesis by (intro stampedI [where t = s2]) auto
next
  assume "do_remove_validator_delegate_stake cfg (Signed who) i n s = (s', Inr ())"
  then obtain s2 w m where p: "perform_do_remove_validator_delegate_stake cfg who i n True s = (s2, Inr (), w, m)"
    and s': "s' = set_last_tx_block who (block_number s2) s2"
    by (elim do_remove_validator_delegate_stake_success) auto
  from p obtain s1 cooldown where l: "\<not> exceeds_tx_rate_limit (LastTxBlock s who) (block_number s) s"
    and pr: "prepare_unbonding_ledger_entry cfg who w cooldown (block_number s) s = (s1, Inr ())"
    and s2: "s2 = insert_balance_to_unbonding_ledger who w cooldown (block_number s)
      (decrease_account_validator_delegate_stake who i w n s1)"
    by (elim perform_do_remove_validator_delegate_stake_success) auto
  have "block_number s2 = block_number s" "TxRateLimit s2 = TxRateLimit s"
    using prepare_clock [OF pr] by (simp_all add: s2 clock_frame)
  with l s' show ?thesis by (intro stampedI [where t = s2]) auto
qed

lemma stamped_node:
  assumes "do_add_node_stake cfg (Signed who) i n a s = (s', Inr ())
    \<or> do_remove_node_stake cfg (Signed who) i n a s = (s', Inr ())"
  shows "stamped who s s'"
  using assms
proof
  assume "do_add_node_stake cfg (Signed who) i n a s = (s', Inr ())"
  then show ?thesis
    by (rule do_add_node_stake_success) (auto simp: clock_frame intro!: stampedI)
next
  assume "do_remove_node_stake cfg (Signed who) i n a s = (s', Inr ())"
  then show ?thesis
    by (rule do_remove_node_stake_success) (auto simp: clock_frame dest: prepare_clock intro!: stampedI)
qed

lemma rate_limited_stamped:
  assumes "rate_limited call" and "dispatch_call cfg (Signed who) call s = (s', Inr ())"
  shows "stamped who s s'"
  using assms
  by (cases call)
    (auto simp: dispatch_call_def dispatch_Inr guarded_call_defs ensure_signed_def split: sum.splits if_splits
      intro: stamped_node stamped_delegate stamped_validator)

text \<open>
  After a rate-limited call at block \<open>b\<close>, every rate-limited call of the same account fails up
  to and including block \<open>b\<close> plus the limit.
\<close>

lemma rate_limit_holds:
  assumes "rate_limited call" and "dispatch_call cfg (Signed who) call s = (s', Inr ())"
    and "TxRateLimit s \<noteq> 0" and "block_number s \<noteq> 0" and "d \<le> TxRateLimit s"
    and "rate_limited call'" and "t = s'\<lparr>block_number := block_number s + d\<rparr>"
  shows "\<exists>e. dispatch_call cfg (Signed who) call' t = (t, Inl e)"
proof -
  have "stamped who s s'" using assms(1,2) by (rule rate_limited_stamped)
  then have "exceeds_tx_rate_limit (LastTxBlock t who) (block_number t) t"
    using assms(3-5,7) by (simp add: stamped_def exceeds_tx_rate_limit_def get_tx_rate_limit_def)
  then have "\<not> stamped who t t'" for t' by (simp add: stamped_def)
  then have "dispatch_call cfg (Signed who) call' t \<noteq> (t', Inr ())" for t'
    using rate_limited_stamped [OF assms(6)] by blast
  moreover obtain t' r where d: "dispatch_call cfg (Signed who) call' t = (t', r)" by fastforce
  ultimately obtain e where "r = Inl e" by (cases r) auto
  with d dispatch_Inl [of "call_body cfg (Signed who) call'" t] show ?thesis
    by (auto simp: dispatch_call_def)
qed

text \<open>Applied: with a limit of ten blocks, a deposit at block 1000 blocks a withdrawal at block 1010.\<close>

lemma rate_limit_holds_example:
  "\<exists>e. snd (dispatch_call example_config (Signed 1) (RemoveDelegateStake 5 100)
     (example_staked\<lparr>TxRateLimit := 10, block_number := 1010\<rparr>)) = Inl e"
proof -
  let ?s = "example_network\<lparr>TxRateLimit := 10\<rparr>"
  have "dispatch_call example_config (Signed 1) (AddDelegateStake 5 5000) ?s
      = (example_staked\<lparr>TxRateLimit := 10\<rparr>, Inr ())"
    by (simp add: example_staked_eq eval_calls eval_subnet_pool eval_math Let_def example_defs
      i128_clamp_def u128_as_i128_def)
  from rate_limit_holds [OF _ this, of 10 "RemoveDelegateStake 5 100"] show ?thesis
    by (force simp: example_network_def)
qed

section \<open>The queue as a list\<close>

text \<open>
  C7: queueing a swap appends it to the pending swaps, with the current block and the delay of one
  epoch; a full queue refuses it and is left as it is.
\<close>

theorem queue_swap_refines:
  assumes "swap_queue_ok s" and "NextSwapQueueId s \<noteq> - 1"
  shows "if length (pending_swaps s) < MaxSwapQueueLength cfg
    then snd (queue_swap cfg who call s) = Inr () \<and>
      swap_queue_ok (fst (queue_swap cfg who call s)) \<and>
      pending_swaps (fst (queue_swap cfg who call s)) = pending_swaps s @
        [\<lparr>qs_id = NextSwapQueueId s, qs_call = call, qs_queued_at_block = block_number s,
          qs_execute_after_blocks = EpochLength cfg\<rparr>]
    else queue_swap cfg who call s = (s, Inl SwapQueueFull)"
  using swap_queue.wf_push [OF assms]
  by (simp add: queue_swap_eq new_swap_item_def swap_queue.pending_def)

text \<open>Applied: a second swap behind the queued one.\<close>

theorem queue_swap_refines_witness:
  "length (pending_swaps (fst (queue_swap example_config 1 (SwapToSubnetDelegateStake 1 5 40) example_queued)))
     = 2"
  using queue_swap_refines [OF example_queued_ok, of example_config 1 "SwapToSubnetDelegateStake 1 5 40"]
  by (simp add: example_queued_eq swap_queue.pending_def example_config_def)

text \<open>
  Updating a queued swap replaces its target in place: the pending swaps keep their order, and
  the swap its identifier, its balance and its block.
\<close>

lemma update_swap_queue_in_place:
  assumes "swap_queue_ok s" and "dispatch_call cfg (Signed who) (UpdateSwapQueue i call) s = (s', Inr ())"
  shows "swap_queue_ok s' \<and>
    (\<exists>k it it'. k < length (pending_swaps s) \<and> pending_swaps s ! k = it \<and>
       pending_swaps s' = (pending_swaps s)[k := it'] \<and>
       qs_id it' = qs_id it \<and> qs_queued_at_block it' = qs_queued_at_block it \<and>
       qs_execute_after_blocks it' = qs_execute_after_blocks it \<and>
       get_queue_balance (qs_call it') = get_queue_balance (qs_call it))"
proof -
  obtain it where it: "SwapCallQueue s i = Some it"
    and s': "s' = s\<lparr>SwapCallQueue := (SwapCallQueue s)(i \<mapsto>
               it\<lparr>qs_call := redirect call (get_queue_balance (qs_call it))\<rparr>)\<rparr>"
    using assms(2)
    by (auto simp: dispatch_call_def dispatch_Inr update_swap_queue_def ensure_signed_def
        do_update_swap_queue_success)
  have "i \<in> set (SwapQueueOrder s)" using assms(1) it by (auto simp: swap_queue.wf_def)
  then obtain k where k: "k < length (SwapQueueOrder s)" "SwapQueueOrder s ! k = i"
    by (auto simp: in_set_conv_nth)
  note e = swap_queue.wf_edit [OF assms(1) k]
  have "pending_swaps s ! k = it" using k it by (simp add: swap_queue.pending_def)
  with e k show ?thesis
    unfolding s'
    by (intro conjI exI [of _ k] exI [of _ it]
        exI [of _ "it\<lparr>qs_call := redirect call (get_queue_balance (qs_call it))\<rparr>"])
      (simp_all add: swap_queue.pending_def)
qed

text \<open>Applied: account 1 redirects its swap to subnet 5.\<close>

lemma update_swap_queue_in_place_example:
  "snd (dispatch_call example_config (Signed 1) (UpdateSwapQueue 0 (SwapToSubnetDelegateStake 1 5 0))
     example_queued) = Inr () \<and>
   swap_queue_ok (fst (dispatch_call example_config (Signed 1)
     (UpdateSwapQueue 0 (SwapToSubnetDelegateStake 1 5 0)) example_queued))"
proof -
  have sub: "SubnetsData example_queued = [5 \<mapsto> example_subnet]"
    by (simp add: example_queued_def example_staked_eq eval_calls eval_subnet_pool eval_math
      eval_queue Let_def example_defs)
  have r: "snd (dispatch_call example_config (Signed 1) (UpdateSwapQueue 0 (SwapToSubnetDelegateStake 1 5 0))
     example_queued) = Inr ()"
    by (simp add: eval_calls update_swap_queue_def do_update_swap_queue_def example_queued_eq sub Let_def)
  note update_swap_queue_in_place [OF example_queued_ok, of example_config 1 0
      "SwapToSubnetDelegateStake 1 5 0" "fst (dispatch_call example_config (Signed 1)
        (UpdateSwapQueue 0 (SwapToSubnetDelegateStake 1 5 0)) example_queued)"]
  with r show ?thesis by (simp add: prod_eq_iff)
qed

section \<open>Guards that are missing\<close>

text \<open>
  C35: an update of a queued swap is not checked against the account that queued it: any account can
  name itself in a new call and take over the balance of the swap.
\<close>

theorem update_swap_queue_takes_over:
  assumes "SwapCallQueue s i = Some it" and "SubnetsData s j \<noteq> None"
  shows "snd (dispatch_call cfg (Signed thief) (UpdateSwapQueue i (SwapToSubnetDelegateStake thief j x)) s)
      = Inr () \<and>
    SwapCallQueue (fst (dispatch_call cfg (Signed thief)
      (UpdateSwapQueue i (SwapToSubnetDelegateStake thief j x)) s)) i
      = Some (it\<lparr>qs_call := SwapToSubnetDelegateStake thief j (get_queue_balance (qs_call it))\<rparr>)"
  using assms
  by (auto simp: dispatch_call_def dispatch_def update_swap_queue_def ensure_signed_def
      do_update_swap_queue_def Let_def)

text \<open>Applied: account 2 takes over the swap of account 1.\<close>

theorem update_swap_queue_takes_over_witness:
  "SwapCallQueue (fst (dispatch_call example_config (Signed 2)
     (UpdateSwapQueue 0 (SwapToSubnetDelegateStake 2 5 0)) example_queued)) 0
   = Some \<lparr>qs_id = 0, qs_call = SwapToSubnetDelegateStake 2 5 2080, qs_queued_at_block = 1000,
       qs_execute_after_blocks = 100\<rparr>"
proof -
  have "SubnetsData example_queued 5 \<noteq> None"
    by (simp add: example_queued_def example_staked_eq eval_calls eval_subnet_pool eval_math
      eval_queue Let_def example_defs)
  from update_swap_queue_takes_over [OF _ this, of 0 _ example_config 2 0] show ?thesis
    by (simp add: example_queued_eq)
qed

text \<open>
  C34: a transfer of delegate stake is not checked against the shares of the caller: an account without
  any shares of a pool can credit shares to another account, while the issued shares and the balance
  of the pool stay as they are, so the shares of the accounts no longer add up to the issued ones.
\<close>

theorem transfer_creates_shares:
  assumes "\<not> TxPause s" and "to \<noteq> who" and "n \<noteq> 0" and "n \<le> TotalSubnetDelegateStakeShares s i"
    and "AccountSubnetDelegateStakeShares s (who, i) = 0"
    and "unat (AccountSubnetDelegateStakeShares s (to, i)) + unat n < 2 ^ 128"
    and "MinDelegateStakeDeposit s \<le> convert_to_balance n (TotalSubnetDelegateStakeShares s i)
           (TotalSubnetDelegateStakeBalance s i)"
    and "s' = fst (dispatch_call cfg (Signed who) (TransferDelegateStake i to n) s)"
  shows "snd (dispatch_call cfg (Signed who) (TransferDelegateStake i to n) s) = Inr () \<and>
    total (\<lambda>a. AccountSubnetDelegateStakeShares s' (a, i))
      = total (\<lambda>a. AccountSubnetDelegateStakeShares s (a, i)) + unat n \<and>
    TotalSubnetDelegateStakeShares s' i = TotalSubnetDelegateStakeShares s i \<and>
    TotalSubnetDelegateStakeBalance s' i = TotalSubnetDelegateStakeBalance s i"
proof -
  let ?h = "\<lambda>a. AccountSubnetDelegateStakeShares s (a, i)"
  have e: "dispatch_call cfg (Signed who) (TransferDelegateStake i to n) s =
      (increase_account_delegate_stake to i 0 n (decrease_account_delegate_stake who i 0 n s), Inr ())"
    using assms(1-3,7)
    by (simp add: dispatch_call_def dispatch_def transfer_delegate_stake_def is_paused_def
        do_transfer_delegate_stake_def ensure_signed_def Let_def not_less)
  have z: "saturating_sub 0 n = (0 :: u128)" "saturating_sub x 0 = x" "saturating_add x 0 = x" for x :: u128
    using u128_max [of x] by (simp_all add: word_unat_eq_iff unat_saturating_add unat_saturating_sub)
  have "saturating_add (saturating_sub (TotalSubnetDelegateStakeShares s i) n) n
      = TotalSubnetDelegateStakeShares s i"
    using assms(4) u128_max [of "TotalSubnetDelegateStakeShares s i"]
    by (simp add: word_unat_eq_iff unat_saturating_add unat_saturating_sub word_le_nat_alt)
  moreover have "(\<lambda>a. AccountSubnetDelegateStakeShares s' (a, i)) = ?h(to := saturating_add (?h to) n)"
    using assms(2,5,8) by (auto simp: e z subnet_pool_updates)
  moreover have "total (?h(to := saturating_add (?h to) n)) = total ?h + unat n"
    using assms(6) by (intro total_add) (simp add: unat_saturating_add)
  ultimately show ?thesis
    using assms(8) by (simp add: e z subnet_pool_updates)
qed

text \<open>Applied: account 2, without shares, transfers 5000 shares to account 3.\<close>

theorem transfer_creates_shares_witness:
  "snd (dispatch_call example_config (Signed 2) (TransferDelegateStake 5 3 5000) example_staked) = Inr () \<and>
   total (\<lambda>a. AccountSubnetDelegateStakeShares (fst (dispatch_call example_config (Signed 2)
     (TransferDelegateStake 5 3 5000) example_staked)) (a, 5))
     = total (\<lambda>a. AccountSubnetDelegateStakeShares example_staked (a, 5)) + 5000"
  using transfer_creates_shares [of example_staked 3 2 5000 5 _ example_config, OF _ _ _ _ _ _ _ refl]
  by (simp add: example_staked_eq example_network_def word_le_nat_alt unat_convert_to_balance)

text \<open>
  A ready swap whose balance buys less than one share of its target pool leaves the queue without
  any effect on the pool: its balance is in no account, pool or queue any more.
\<close>

lemma small_swap_is_lost:
  assumes "SwapQueueOrder s = i # ids" and "SwapCallQueue s i = Some it"
    and "qs_call it = SwapToSubnetDelegateStake who j a"
    and "qs_execute_after_blocks it \<le> saturating_sub block (qs_queued_at_block it)"
    and "can_consume W (handle_increase_weight W) (consume W (db_reads W 1) w)"
    and "TotalSubnetDelegateStakeShares s j \<noteq> 0"
    and "unat a * (unat (TotalSubnetDelegateStakeShares s j) + 10) < unat (TotalSubnetDelegateStakeBalance s j) + 1"
  shows "fst (execute_head W block w s) = s\<lparr>SwapQueueOrder := ids, SwapCallQueue := (SwapCallQueue s)(i := None)\<rparr>"
proof -
  have "convert_to_shares a (TotalSubnetDelegateStakeShares s j) (TotalSubnetDelegateStakeBalance s j) = 0"
    using assms(6,7) by (simp add: word_unat_eq_iff unat_convert_to_shares)
  then have "deliver_swap (qs_call it) s = s"
    using assms(3,6) by (simp add: handle_increase_account_delegate_stake_eq Let_def)
  with assms show ?thesis
    by (simp add: execute_head_def execute_swap_call_internal_eq Let_def dequeue_head_def)
qed

definition example_rich_pool :: "simple_balances network_epochs" where
  "example_rich_pool = example_network\<lparr>TotalSubnetDelegateStakeShares := (\<lambda>_. 0)(5 := 1000),
     TotalSubnetDelegateStakeBalance := (\<lambda>_. 0)(5 := 10 ^ 24), TotalDelegateStake := 10 ^ 24,
     SwapQueueOrder := [0], SwapCallQueue := [0 \<mapsto> \<lparr>qs_id = 0,
       qs_call = SwapToSubnetDelegateStake 1 5 (9 * 10 ^ 20), qs_queued_at_block = 900,
       qs_execute_after_blocks = 100\<rparr>], NextSwapQueueId := 1\<rparr>"

text \<open>
  Applied: a pool opened by a donation of a million tokens, and a swap of nine hundred tokens into it.
\<close>

lemma small_swap_is_lost_example:
  "fst (execute_head example_weights 1000 () example_rich_pool)
   = example_rich_pool\<lparr>SwapQueueOrder := [], SwapCallQueue := (SwapCallQueue example_rich_pool)(0 := None)\<rparr>"
  using small_swap_is_lost [of example_rich_pool 0 "[]" _ 1 5 "9 * 10 ^ 20" 1000 example_weights "()"]
  by (simp add: example_rich_pool_def example_weights_def saturating_sub_def)

end
