(* ===== verification/Consensus_Properties.thy ===== *)
theory Consensus_Properties
  imports Complex_Main Staking_Properties
begin

text \<open>
  The correctness properties of the network's figures, of the reputations, of the epochs and of the
  election of validators.
\<close>

section \<open>Fixed point\<close>

text \<open>
  The two fixed-point operations of the pallet compute the exact quotients at eighteen decimals,
  rounded down and capped at the largest 128-bit value; the overflow branch of the product, which
  would return zero, is never taken.
\<close>

lemma percent_exact:
  "unat (percent_mul x y) = min (unat x * unat y div 10 ^ 18) (2 ^ 128 - 1) \<and>
   unat (percent_div x y) = min (unat x * 10 ^ 18 div unat y) (2 ^ 128 - 1)"
  by (simp add: unat_percent_mul unat_percent_div)

section \<open>Figures of the network\<close>

text \<open>
  The circulating supply the network computes leaves out what the pallet holds as overwatch
  stake, as delegate stake of validators and in the swap queue: these are exactly what is missing
  from the value of the network.
\<close>

lemma circulating_supply_gap:
  assumes "network_value cfg s < 2 ^ 128" and "TotalNodeDelegateStake s = 0"
  shows "unat (get_total_network_issuance cfg s) + unat (TotalOverwatchNodeStakeBalance s)
      + unat (TotalValidatorDelegateStakeBalance s) + queued (SwapQueueOrder s) (SwapCallQueue s)
    = network_value cfg s"
  using assms unat_get_total_network_issuance [of cfg s] by (simp add: network_value_def)

text \<open>Applied: the 2080 that account 1 has in the swap queue are not in the circulating supply.\<close>

lemma circulating_supply_gap_example:
  "unat (get_total_network_issuance example_config example_queued) + 2080
     = network_value example_config example_queued"
proof -
  have "holds example_config simple_ok (network_value example_config example_staked) example_queued"
    unfolding example_queued_def
    by (rule holds_dispatch_call [OF network_ok_holds [OF example_staked_ok(1)] example_staked_ok(2)])
      (simp_all add: example_staked_eq example_network_def prod_eq_iff)
  then have "network_value example_config example_queued < 2 ^ 128"
    using example_staked_ok(2) by (simp add: holds_def headroom_def)
  moreover have "TotalNodeDelegateStake example_queued = 0" "TotalOverwatchNodeStakeBalance example_queued = 0"
    "TotalValidatorDelegateStakeBalance example_queued = 0"
    by (simp_all add: example_queued_def example_staked_eq eval_calls eval_subnet_pool eval_math
        eval_queue Let_def example_defs)
  ultimately show ?thesis
    using circulating_supply_gap [of example_config example_queued]
    by (simp add: queued_def example_queued_eq)
qed

text \<open>
  The delegate stake multiplier of a subnet lies between one and the configured maximum, grows
  with the number of electable nodes, is one up to the minimum number of nodes and the maximum from
  the maximum number on.
\<close>

lemma delegate_multiplier_interpolates:
  assumes "percentage_factor_as_u128 \<le> MaxMinDelegateStakeMultiplier s" and "n \<le> m"
  shows "percentage_factor_as_u128 \<le> get_subnet_min_delegate_staking_multiplier n s \<and>
    get_subnet_min_delegate_staking_multiplier n s \<le> get_subnet_min_delegate_staking_multiplier m s \<and>
    get_subnet_min_delegate_staking_multiplier m s \<le> MaxMinDelegateStakeMultiplier s \<and>
    (n \<le> MinSubnetNodes s \<longrightarrow>
       get_subnet_min_delegate_staking_multiplier n s = percentage_factor_as_u128) \<and>
    (MinSubnetNodes s < n \<longrightarrow> MaxSubnetNodes s \<le> n \<longrightarrow>
       get_subnet_min_delegate_staking_multiplier n s = MaxMinDelegateStakeMultiplier s)"
  using multiplier_bounds [OF assms(1)] multiplier_mono [OF assms]
  by (auto simp: get_subnet_min_delegate_staking_multiplier_def Let_def)

text \<open>Applied: 55 electable nodes between the bounds of 10 and 100 ask for 300 percent.\<close>

lemma delegate_multiplier_interpolates_example:
  "get_subnet_min_delegate_staking_multiplier 55 example_network = 3 * 10 ^ 18 \<and>
   get_subnet_min_delegate_staking_multiplier 55 example_network \<le> 5 * 10 ^ 18"
proof
  show "get_subnet_min_delegate_staking_multiplier 55 example_network = 3 * 10 ^ 18"
    by (simp add: get_subnet_min_delegate_staking_multiplier_def example_network_def Let_def
        word_unat_eq_iff unat_saturating_add unat_percent_mul unat_percent_div saturating_sub_def
        percentage_factor_as_u128_def)
  show "get_subnet_min_delegate_staking_multiplier 55 example_network \<le> 5 * 10 ^ 18"
    using delegate_multiplier_interpolates [of example_network 55 55]
    by (simp add: example_network_def percentage_factor_as_u128_def)
qed

section \<open>Reputations\<close>

text \<open>
  C32: no update takes a reputation out of the range from zero to one, whatever the floating-point unit
  returns: neither the scores and averages of validators, nor the reputations of subnets and nodes.
\<close>

theorem reputations_stay_bounded:
  assumes "reputations_ok s" and "a \<le> percentage_factor_as_u128"
    and "\<And>r. ValidatorReputation s i = Some r \<Longrightarrow>
           unat (total_increases r) + unat (total_decreases r) < 2 ^ 32 - 1"
  shows "reputations_ok (increase_validator_reputation F i a m f epoch s) \<and>
    reputations_ok (decrease_validator_reputation i a m f epoch s) \<and>
    reputations_ok (increase_subnet_reputation F i f g s) \<and>
    reputations_ok (decrease_subnet_reputation i f h s) \<and>
    reputations_ok (increase_node_reputation F i j f s) \<and>
    reputations_ok (fst (increase_and_return_node_reputation F i j r f h s)) \<and>
    reputations_ok (fst (decrease_and_return_node_reputation i j r f h s))"
  using assms
  by (intro conjI increase_validator_reputations_ok decrease_validator_reputations_ok
      subnet_node_reputations_ok) (simp_all add: elections_def)

definition example_f64 :: "rat F64" where
  "example_f64 = \<lparr>f64_of_u128 = (\<lambda>x. of_nat (unat x)), f64_as_u128 = (\<lambda>x. of_int \<lfloor>x\<rfloor>),
     f64_add = (+), f64_mul = (*), f64_div = (/), f64_1e18 = 10 ^ 18, libm_pow = (\<lambda>x y. x)\<rparr>"

definition example_reputation :: Reputation where
  "example_reputation = \<lparr>start_epoch = 1, score = 5 * 10 ^ 17, lifetime_node_count = 1,
     total_active_nodes = 1, total_increases = 2, total_decreases = 1, average_attestation = 9 * 10 ^ 17,
     last_validator_epoch = 4, ow_score = 0\<rparr>"

definition example_rated :: "simple_balances network_epochs" where
  "example_rated = example_network\<lparr>ValidatorReputation := [7 \<mapsto> example_reputation]\<rparr>"

lemma example_rated_ok: "reputations_ok example_rated"
  by (simp add: reputations_ok_def example_rated_def example_network_def example_reputation_def
      percentage_factor_as_u128_def)

text \<open>Applied: validator 7 is elected once more, with an attestation of 70 percent.\<close>

theorem reputations_stay_bounded_witness:
  "reputations_ok (increase_validator_reputation example_f64 7 (7 * 10 ^ 17) (66 * 10 ^ 16) (10 ^ 17) 9
     example_rated)"
  using reputations_stay_bounded [OF example_rated_ok, of "7 * 10 ^ 17" 7 example_f64 "66 * 10 ^ 16" "10 ^ 17" 9]
  by (simp add: example_rated_def example_reputation_def percentage_factor_as_u128_def)

text \<open>
  The average attestation of a validator is the running average: after an election with a low
  attestation it is the old average weighted with the elections before, and this one.
\<close>

lemma attestation_average_exact:
  assumes "ValidatorReputation s i = Some r" and "a < m" and "a \<le> percentage_factor_as_u128"
    and "average_attestation r \<le> percentage_factor_as_u128"
    and "k = unat (total_increases r) + unat (total_decreases r)" and "0 < k" and "k < 2 ^ 32 - 1"
  shows "\<exists>r'. ValidatorReputation (decrease_validator_reputation i a m f epoch s) i = Some r' \<and>
    unat (average_attestation r') = (unat (average_attestation r) * k + unat a) div (k + 1) \<and>
    unat (total_decreases r') = unat (total_decreases r) + 1 \<and>
    score r' \<le> score r"
proof -
  let ?r = "r\<lparr>score := decrease_rep (score r) f None, total_decreases := total_decreases r + 1\<rparr>"
  have k: "elections ?r = Suc k"
    using elections_increase(2) [of r] assms(5,7) by (simp add: elections_def)
  have "unat (average_attestation (record_election a epoch ?r))
      = (unat (average_attestation r) * k + unat a) div (k + 1)"
    using record_election_average [of ?r a epoch] assms k by simp
  moreover have "unat (total_decreases r + 1) = unat (total_decreases r) + 1"
    using assms(5,7) by (subst unat_add_lem [THEN iffD1]) auto
  moreover have "total_decreases (record_election a epoch ?r) = total_decreases r + 1"
    by (simp add: record_election_def Let_def)
  moreover have "\<not> m \<le> a" using assms(2) by simp
  ultimately show ?thesis
    using assms(1) by (simp add: decrease_validator_reputation_def Let_def decrease_rep_le)
qed

text \<open>Applied: a fourth election of validator 7 with an attestation of 50 percent.\<close>

lemma attestation_average_exact_example:
  "\<exists>r'. ValidatorReputation (decrease_validator_reputation 7 (5 * 10 ^ 17) (66 * 10 ^ 16) (10 ^ 17) 9
      example_rated) 7 = Some r' \<and> unat (average_attestation r') = 8 * 10 ^ 17"
  using attestation_average_exact [of example_rated 7 example_reputation "5 * 10 ^ 17" "66 * 10 ^ 16" 3
      "10 ^ 17" 9]
  by (auto simp: example_rated_def example_reputation_def percentage_factor_as_u128_def)

section \<open>Epochs\<close>

text \<open>
  The epoch and the progression of a started subnet locate the current block: it lies in the
  epoch's blocks, counted from the subnet's slot, and the progression is the exact fraction of the
  epoch that has passed, below one.
\<close>

lemma subnet_epoch_locates_block:
  assumes "EpochLength cfg \<noteq> 0" and "SubnetSlot s i = Some slot" and "slot \<noteq> 0"
    and "slot \<le> block_number s"
  shows "\<exists>e p. get_current_subnet_epoch_as_u32 cfg i s = Some e \<and>
    get_subnet_epoch_progression cfg i s = Some p \<and>
    get_current_subnet_epoch_data cfg i s = Some (Some \<lparr>subnet_epoch = e, subnet_epoch_progression = p\<rparr>) \<and>
    unat slot + unat e * unat (EpochLength cfg) \<le> unat (block_number s) \<and>
    unat (block_number s) < unat slot + (unat e + 1) * unat (EpochLength cfg) \<and>
    unat p = (unat (block_number s) - (unat slot + unat e * unat (EpochLength cfg))) * 10 ^ 18
      div unat (EpochLength cfg) \<and>
    p < percentage_factor_as_u128"
proof -
  let ?L = "unat (EpochLength cfg)" and ?o = "unat (block_number s) - unat slot"
  have st: "subnet_started cfg i s" and slot: "subnet_slot_or_zero i s = slot"
    using assms by (simp_all add: subnet_started_def subnet_slot_or_zero_def)
  obtain e where e: "get_current_subnet_epoch_as_u32 cfg i s = Some e" "unat e = ?o div ?L"
    using subnet_epoch_started [OF st] slot by auto
  obtain p where p: "get_subnet_epoch_progression cfg i s = Some p" "unat p = ?o mod ?L * 10 ^ 18 div ?L"
    using progression_started [OF st] slot by auto
  have L: "0 < ?L" using assms(1) by (simp add: unat_gt_0)
  have le: "unat slot \<le> unat (block_number s)" using assms(4) by (simp add: word_le_nat_alt)
  have "get_current_subnet_epoch_data cfg i s = Some (Some \<lparr>subnet_epoch = e, subnet_epoch_progression = p\<rparr>)"
    using e(1) p(1) st
    by (auto simp: get_current_subnet_epoch_data_def get_current_subnet_epoch_as_u32_def
        get_subnet_epoch_progression_def subnet_started_def Let_def get_current_block_as_u32_def
        split: option.splits)
  moreover have eL: "unat e * ?L + ?o mod ?L = ?o" unfolding e(2) by simp
  then have "unat slot + unat e * ?L \<le> unat (block_number s)" using le by linarith
  moreover have "?o mod ?L = unat (block_number s) - (unat slot + unat e * ?L)" using eL by linarith
  moreover have "?o mod ?L < ?L" using L by simp
  then have "unat p < 10 ^ 18" using L p(2) by (simp add: div_less_iff_less_mult)
  then have "p < percentage_factor_as_u128" by (simp add: word_less_nat_alt unat_percentage_factor)
  ultimately show ?thesis
    using e(1) p \<open>?o mod ?L < ?L\<close> by (intro exI [of _ e] exI [of _ p]) simp
qed

text \<open>Applied: subnet 5, with slot 250, at block 1000.\<close>

lemma subnet_epoch_locates_block_example:
  "\<exists>e p. get_current_subnet_epoch_as_u32 example_config 5 example_network = Some e \<and>
    get_subnet_epoch_progression example_config 5 example_network = Some p \<and>
    250 + unat e * 100 \<le> 1000 \<and> 1000 < 250 + (unat e + 1) * 100 \<and>
    unat p = (1000 - (250 + unat e * 100)) * 10 ^ 18 div 100"
proof -
  have "EpochLength example_config = 100" "SubnetSlot example_network 5 = Some 250"
    "block_number example_network = 1000"
    by (simp_all add: example_defs)
  then show ?thesis
    using subnet_epoch_locates_block [of example_config example_network 5 250] by auto
qed

text \<open>
  A started subnet may always propose and attest: the block the check compares with is the first
  of the next epoch, so the check, which means to exclude the last block of an epoch, never fails.
\<close>

lemma can_propose_in_every_block:
  assumes "EpochLength cfg \<noteq> 0" and "SubnetSlot s i = Some slot" and "slot \<noteq> 0"
    and "slot \<le> block_number s" and "unat (block_number s) + unat (EpochLength cfg) < 2 ^ 32"
  shows "can_propose_or_attest_attestation cfg i s = Some True"
proof -
  let ?L = "EpochLength cfg" and ?o = "saturating_sub (block_number s) slot"
  let ?n = "unat ?o div unat ?L + 1"
  have L: "0 < unat ?L" using assms(1) by (simp add: unat_gt_0)
  have o: "unat ?o = unat (block_number s) - unat slot" "unat slot \<le> unat (block_number s)"
    using assms(4) by (simp_all add: unat_saturating_sub word_le_nat_alt)
  have le: "unat ?o div unat ?L * unat ?L \<le> unat ?o" by simp
  have lt: "unat ?o < ?n * unat ?L"
    using L by (simp add: dividend_less_div_times add.commute)
  have "?n * unat ?L = unat ?o div unat ?L * unat ?L + unat ?L" by simp
  then have bound: "unat slot + ?n * unat ?L < 2 ^ 32" using le o assms(5) by linarith
  have "unat ?o div unat ?L \<le> unat ?o div unat ?L * unat ?L" using L by simp
  then have "?n < 2 ^ 32" using bound \<open>?n * unat ?L = _\<close> L by linarith
  then have d: "unat (?o div ?L + 1) = ?n"
    by (subst unat_add_lem [THEN iffD1]) (simp_all add: unat_div_mod_u32)
  have "unat ((?o div ?L + 1) * ?L) = ?n * unat ?L"
    using bound d by (subst unat_mult_lem [THEN iffD1]) simp_all
  then have "unat (slot + (?o div ?L + 1) * ?L) = unat slot + ?n * unat ?L"
    using bound by (subst unat_add_lem [THEN iffD1]) simp_all
  then have "block_number s < slot + (?o div ?L + 1) * ?L"
    using lt o by (simp add: word_less_nat_alt)
  moreover have "\<not> block_number s < slot" using assms(4) by simp
  ultimately show ?thesis
    using assms(1-3)
    by (simp add: can_propose_or_attest_attestation_def subnet_slot_or_zero_def saturating_div_def
        get_current_block_as_u32_def Let_def)
qed

text \<open>Applied: at block 1049, the last of the epoch of subnet 5.\<close>

lemma can_propose_in_every_block_example:
  "can_propose_or_attest_attestation example_config 5 (example_network\<lparr>block_number := 1049\<rparr>) = Some True"
  by (rule can_propose_in_every_block [of _ _ _ 250]) (simp_all add: example_defs)

text \<open>
  Overwatch nodes may commit in the first part of the overwatch epoch and in no other block: the
  period ends at the cutoff, the configured percentage of the epoch rounded down.
\<close>

lemma overwatch_commit_period:
  assumes "saturating_mul (EpochLength cfg) (OverwatchEpochLengthMultiplier s) = L" and "L \<noteq> 0"
    and "cutoff = unat L * unat (OverwatchCommitCutoffPercent s) div 10 ^ 18"
    and "unat (block_number s) + cutoff < 2 ^ 32"
  shows "in_overwatch_commit_period cfg s = Some (unat (block_number s) mod unat L < cutoff)"
  by (rule in_overwatch_commit_period_eq [OF assms(1) [symmetric] assms(2-4)])

text \<open>Applied: with an overwatch epoch of 200 blocks and a cutoff of 80 percent, at block 1000.\<close>

lemma overwatch_commit_period_example:
  "in_overwatch_commit_period example_config example_network = Some True"
  using overwatch_commit_period [of example_config example_network 200 160]
  by (simp add: example_defs saturating_mul_def)

section \<open>Elections\<close>

text \<open>
  A bounded random index lies below its bound, and the hash values the sampling accepts fall on
  every index equally often, \<open>u64::MAX\<close> divided by the bound many on each: there is no modulo bias
  among them.
\<close>

lemma random_index_fair:
  assumes "get_bounded_random_index E d n = Some i" and "j < n"
    and "z = - 1 - (- 1) mod ucast n"
  shows "i < n \<and>
    card {v. v < z \<and> random_index_loop (\<lambda>_. v) (ucast n) z (attempt # attempts) fallback = Some j}
      = (2 ^ 64 - 1) div unat n"
proof
  show "i < n" using assms(1) by (rule get_bounded_random_index_bound(2))
  show "card {v. v < z \<and> random_index_loop (\<lambda>_. v) (ucast n) z (attempt # attempts) fallback = Some j}
      = (2 ^ 64 - 1) div unat n"
    using accepted_values_card [OF assms(2)] unfolding assms(3) by (simp add: Let_def cong: conj_cong)
qed

text \<open>Applied: three slots.\<close>

lemma random_index_fair_example:
  "get_bounded_random_index (\<lambda>_ _ _. [7]) () 3 = Some 1 \<and>
   card {v. v < - 1 \<and> random_index_loop (\<lambda>_. v) 3 (- 1) [0] 0 = Some (2 :: u32)} = (2 ^ 64 - 1) div (3 :: nat)"
proof
  have "((\<lambda>acc. acc * 256) ^^ k) 0 = (0 :: u64)" for k by (induction k) simp_all
  then have "first_u64_from_hash [7] = 7" by (simp add: first_u64_from_hash_def from_le_bytes_def)
  then show r: "get_bounded_random_index (\<lambda>_ _ _. [7]) () 3 = Some 1"
    by (simp add: get_bounded_random_index_def MAX_RANDOM_INDEX_ATTEMPTS_def Let_def upt_rec)
  show "card {v. v < - 1 \<and> random_index_loop (\<lambda>_. v) 3 (- 1) [0] 0 = Some (2 :: u32)}
      = (2 ^ 64 - 1) div (3 :: nat)"
    using random_index_fair [OF r, of 2 "- 1" 0 "[]" 0] by simp
qed

text \<open>
  C33: an election picks a validator for the epoch whenever its slots are not empty: from the emergency
  validators while their period lasts and from the election slots otherwise. An epoch that has its
  validator keeps it: a second election changes nothing.
\<close>

theorem election_picks_a_slot:
  assumes "slots = (case EmergencySubnetNodeElectionData s i of
      Some d \<Rightarrow> if total_epochs d \<le> target_emergency_validators_epochs d \<and> e \<le> max_emergency_validators_epoch d
                then subnet_node_ids d else SubnetNodeElectionSlots s i
    | None \<Rightarrow> SubnetNodeElectionSlots s i)"
    and "slots \<noteq> []" and "length slots < 2 ^ 32" and "SubnetElectedValidator s (i, e) = None"
  shows "\<exists>v \<in> set slots. SubnetElectedValidator (elect_validator E i e b s) (i, e) = Some v \<and>
    elect_validator E' i e b' (elect_validator E i e b s) = elect_validator E i e b s"
proof -
  let ?n = "of_nat (length slots) :: u32"
  have n: "unat ?n = length slots"
    using assms(3) by (simp add: unat_of_nat)
  then have "?n \<noteq> 0" using assms(2) by (auto simp flip: unat_eq_zero)
  then obtain idx where idx: "get_bounded_random_index E (i, e, b) ?n = Some idx"
    using get_bounded_random_index_bound(1) [of E "(i, e, b)" ?n] by fastforce
  then have lt: "unat idx < length slots"
    using get_bounded_random_index_bound(2) [OF idx] n by (simp add: word_less_nat_alt)
  have elected: "SubnetElectedValidator (elect_validator E i e b s) (i, e) = Some (slots ! unat idx)"
    using idx lt assms(1,2,4)
    by (auto simp: elect_validator_def Let_def not_less split: option.splits if_splits)
  then have "elect_validator E' i e b' (elect_validator E i e b s) = elect_validator E i e b s"
    unfolding elect_validator_def [of E'] by simp
  with elected lt show ?thesis by auto
qed

text \<open>Applied: the election of subnet 5, whose only slot is node 3.\<close>

theorem election_picks_a_slot_witness:
  "SubnetElectedValidator (elect_validator (\<lambda>_ _ _. []) 5 7 1000 example_network) (5, 7) = Some 3"
  using election_picks_a_slot [OF refl, of example_network 5 7 "\<lambda>_ _ _. []" 1000 "\<lambda>_ _ _. []" 1000]
  by (auto simp: example_network_def)

end
