(* ===== verification/Atomic_Swap.thy ===== *)
theory Atomic_Swap
  imports Network_Storage
begin

text \<open>
  The atomic swap pallet (\<open>pallets/atomic-swap/src/lib.rs\<close>): a source locks funds for a target
  under the hash of a secret; the target claims them with the secret, or the source takes them
  back after the end block. The hash functions, the reservable currency and, as in the source,
  the swap action are parameters; the balance action is the one the pallet provides.
\<close>

section \<open>Data\<close>

type_synonym HashedProof = "256 word"

datatype HashType = Blake2256 | Keccak256 | Sha2256

record 'a PendingSwap =
  ps_source :: account_id
  ps_hash_type :: HashType
  ps_action :: 'a
  ps_end_block :: u32

datatype AtomicSwapError =
    AlreadyExist | InvalidProof | ProofTooLarge | SourceMismatch | AlreadyClaimed | NotExist
  | ClaimActionMismatch | DurationNotPassed | SwapBadOrigin | ReserveFailed

text \<open>The trait of swap actions: reserve may fail, claim reports whether it succeeded.\<close>

record ('a, 'c) SwapAction =
  sa_reserve :: "'a \<Rightarrow> account_id \<Rightarrow> 'c \<Rightarrow> 'c option"
  sa_claim :: "'a \<Rightarrow> account_id \<Rightarrow> account_id \<Rightarrow> 'c \<Rightarrow> 'c \<times> bool"
  sa_cancel :: "'a \<Rightarrow> account_id \<Rightarrow> 'c \<Rightarrow> 'c"

record ('a, 'c) SwapConfig =
  swap_action :: "('a, 'c) SwapAction"
  ProofLimit :: u32
  blake2_256 :: "bytes \<Rightarrow> HashedProof"
  keccak_256 :: "bytes \<Rightarrow> HashedProof"
  sha2_256 :: "bytes \<Rightarrow> HashedProof"

record ('a, 'c) swap_state =
  swap_block :: u32
  swap_currency :: 'c
  PendingSwaps :: "account_id \<times> HashedProof \<rightharpoonup> 'a PendingSwap"

type_synonym ('a, 'c) swap_outcome = "('a, 'c) swap_state \<times> (AtomicSwapError + unit)"

definition ensure_signed_swap :: "RuntimeOrigin \<Rightarrow> AtomicSwapError + account_id" where
  "ensure_signed_swap origin = (case origin of Signed who \<Rightarrow> Inr who | _ \<Rightarrow> Inl SwapBadOrigin)"

section \<open>The calls\<close>

definition create_swap ::
  "('a, 'c) SwapConfig \<Rightarrow> RuntimeOrigin \<Rightarrow> account_id \<Rightarrow> HashedProof \<Rightarrow> HashType \<Rightarrow> 'a \<Rightarrow> u32 \<Rightarrow>
   ('a, 'c) swap_state \<Rightarrow> ('a, 'c) swap_outcome"
where
  "create_swap cfg origin target hashed_proof hash_type action duration s =
     (case ensure_signed_swap origin of Inl e \<Rightarrow> (s, Inl e) | Inr source \<Rightarrow>
      if PendingSwaps s (target, hashed_proof) \<noteq> None then (s, Inl AlreadyExist)
      else case sa_reserve (swap_action cfg) action source (swap_currency s) of
        None \<Rightarrow> (s, Inl ReserveFailed)
      | Some c \<Rightarrow>
      let swap = \<lparr>ps_source = source, ps_hash_type = hash_type, ps_action = action,
                   ps_end_block = swap_block s + duration\<rparr>
      in (s\<lparr>swap_currency := c,
            PendingSwaps := (PendingSwaps s)((target, hashed_proof) \<mapsto> swap)\<rparr>, Inr ()))"

definition hash_proof :: "('a, 'c) SwapConfig \<Rightarrow> HashType \<Rightarrow> bytes \<Rightarrow> HashedProof" where
  "hash_proof cfg hash_type proof_bytes =
     (if hash_type = Blake2256 then blake2_256 cfg proof_bytes
      else if hash_type = Keccak256 then keccak_256 cfg proof_bytes
      else if hash_type = Sha2256 then sha2_256 cfg proof_bytes
      else 0)"

definition claim_swap ::
  "('a, 'c) SwapConfig \<Rightarrow> RuntimeOrigin \<Rightarrow> bytes \<Rightarrow> HashType \<Rightarrow> 'a \<Rightarrow>
   ('a, 'c) swap_state \<Rightarrow> ('a, 'c) swap_outcome"
where
  "claim_swap cfg origin proof_bytes hash_type action s =
     (if \<not> length proof_bytes \<le> unat (ProofLimit cfg) then (s, Inl ProofTooLarge)
      else case ensure_signed_swap origin of Inl e \<Rightarrow> (s, Inl e) | Inr target \<Rightarrow>
      let hashed_proof = hash_proof cfg hash_type proof_bytes in
      case PendingSwaps s (target, hashed_proof) of
        None \<Rightarrow> (s, Inl InvalidProof)
      | Some swap \<Rightarrow>
      if ps_action swap \<noteq> action then (s, Inl ClaimActionMismatch)
      else
      let (c, succeeded) = sa_claim (swap_action cfg) (ps_action swap) (ps_source swap) target
                             (swap_currency s)
      in (s\<lparr>swap_currency := c,
            PendingSwaps := (PendingSwaps s)((target, hashed_proof) := None)\<rparr>, Inr ()))"

definition cancel_swap ::
  "('a, 'c) SwapConfig \<Rightarrow> RuntimeOrigin \<Rightarrow> account_id \<Rightarrow> HashedProof \<Rightarrow>
   ('a, 'c) swap_state \<Rightarrow> ('a, 'c) swap_outcome"
where
  "cancel_swap cfg origin target hashed_proof s =
     (case ensure_signed_swap origin of Inl e \<Rightarrow> (s, Inl e) | Inr source \<Rightarrow>
      case PendingSwaps s (target, hashed_proof) of
        None \<Rightarrow> (s, Inl NotExist)
      | Some swap \<Rightarrow>
      if ps_source swap \<noteq> source then (s, Inl SourceMismatch)
      else if \<not> swap_block s \<ge> ps_end_block swap then (s, Inl DurationNotPassed)
      else
      let c = sa_cancel (swap_action cfg) (ps_action swap) (ps_source swap) (swap_currency s)
      in (s\<lparr>swap_currency := c,
            PendingSwaps := (PendingSwaps s)((target, hashed_proof) := None)\<rparr>, Inr ()))"

section \<open>The balance action\<close>

text \<open>
  The reservable currency of the framework: repatriating and unreserving take as much as there
  is, and say what was missing.
\<close>

record 'c Reservable =
  free_of :: "'c \<Rightarrow> account_id \<Rightarrow> u128"
  reserved_of :: "'c \<Rightarrow> account_id \<Rightarrow> u128"
  reserve :: "'c \<Rightarrow> account_id \<Rightarrow> u128 \<Rightarrow> 'c option"
  repatriate_reserved :: "'c \<Rightarrow> account_id \<Rightarrow> account_id \<Rightarrow> u128 \<Rightarrow> ('c \<times> u128) option"
  unreserve :: "'c \<Rightarrow> account_id \<Rightarrow> u128 \<Rightarrow> 'c \<times> u128"

datatype BalanceSwapAction = BalanceSwapAction (bsa_value: u128)

definition bsa_reserve :: "'c Reservable \<Rightarrow> BalanceSwapAction \<Rightarrow> account_id \<Rightarrow> 'c \<Rightarrow> 'c option" where
  "bsa_reserve R action source c = reserve R c source (bsa_value action)"

definition bsa_claim ::
  "'c Reservable \<Rightarrow> BalanceSwapAction \<Rightarrow> account_id \<Rightarrow> account_id \<Rightarrow> 'c \<Rightarrow> 'c \<times> bool" where
  "bsa_claim R action source target c =
     (case repatriate_reserved R c source target (bsa_value action) of
        Some (c', _) \<Rightarrow> (c', True)
      | None \<Rightarrow> (c, False))"

definition bsa_cancel :: "'c Reservable \<Rightarrow> BalanceSwapAction \<Rightarrow> account_id \<Rightarrow> 'c \<Rightarrow> 'c" where
  "bsa_cancel R action source c = fst (unreserve R c source (bsa_value action))"

definition balance_swap_action :: "'c Reservable \<Rightarrow> (BalanceSwapAction, 'c) SwapAction" where
  "balance_swap_action R =
     \<lparr>sa_reserve = bsa_reserve R, sa_claim = bsa_claim R, sa_cancel = bsa_cancel R\<rparr>"

text \<open>
  Its documented behaviour, on well-formed states: a reservation moves the amount from free to
  reserved; the other two move a reserved amount to the free balance of the target, or of the
  account itself.
\<close>

definition reservable_laws :: "'c Reservable \<Rightarrow> ('c \<Rightarrow> bool) \<Rightarrow> bool" where
  "reservable_laws R ok \<longleftrightarrow>
     (\<forall>c who a c'. ok c \<longrightarrow> reserve R c who a = Some c' \<longrightarrow> ok c' \<and>
        a \<le> free_of R c who \<and>
        free_of R c' = (free_of R c)(who := free_of R c who - a) \<and>
        unat (reserved_of R c' who) = unat (reserved_of R c who) + unat a \<and>
        (\<forall>x. x \<noteq> who \<longrightarrow> reserved_of R c' x = reserved_of R c x)) \<and>
     (\<forall>c who to a c' missing. ok c \<longrightarrow> a \<le> reserved_of R c who \<longrightarrow>
        repatriate_reserved R c who to a = Some (c', missing) \<longrightarrow> ok c' \<and> missing = 0 \<and>
        reserved_of R c' = (reserved_of R c)(who := reserved_of R c who - a) \<and>
        free_of R c' = (free_of R c)(to := free_of R c to + a)) \<and>
     (\<forall>c who a. ok c \<longrightarrow> a \<le> reserved_of R c who \<longrightarrow>
        ok (fst (unreserve R c who a)) \<and> snd (unreserve R c who a) = 0 \<and>
        reserved_of R (fst (unreserve R c who a)) =
          (reserved_of R c)(who := reserved_of R c who - a) \<and>
        free_of R (fst (unreserve R c who a)) = (free_of R c)(who := free_of R c who + a))"

lemma reserve_laws:
  assumes "reservable_laws R ok" and "ok c" and "reserve R c who a = Some c'"
  shows "ok c'" and "a \<le> free_of R c who"
    and "free_of R c' = (free_of R c)(who := free_of R c who - a)"
    and "unat (reserved_of R c' x) = (if x = who then unat (reserved_of R c who) + unat a
           else unat (reserved_of R c x))"
proof -
  have "ok c' \<and> a \<le> free_of R c who \<and>
      free_of R c' = (free_of R c)(who := free_of R c who - a) \<and>
      unat (reserved_of R c' who) = unat (reserved_of R c who) + unat a \<and>
      (\<forall>x. x \<noteq> who \<longrightarrow> reserved_of R c' x = reserved_of R c x)"
    by (rule assms(1) [unfolded reservable_laws_def, THEN conjunct1, rule_format, OF assms(2,3)])
  then show "ok c'" and "a \<le> free_of R c who"
    and "free_of R c' = (free_of R c)(who := free_of R c who - a)"
    and "unat (reserved_of R c' x) = (if x = who then unat (reserved_of R c who) + unat a
           else unat (reserved_of R c x))"
    by simp_all
qed

lemma repatriate_laws:
  assumes "reservable_laws R ok" and "ok c" and "a \<le> reserved_of R c who"
    and "repatriate_reserved R c who to a = Some (c', missing)"
  shows "ok c'" and "missing = 0"
    and "reserved_of R c' = (reserved_of R c)(who := reserved_of R c who - a)"
    and "free_of R c' = (free_of R c)(to := free_of R c to + a)"
  using assms(1) [unfolded reservable_laws_def, THEN conjunct2, THEN conjunct1, rule_format,
      OF assms(2-4)] by auto

lemma unreserve_laws:
  assumes "reservable_laws R ok" and "ok c" and "a \<le> reserved_of R c who"
  shows "ok (fst (unreserve R c who a))"
    and "reserved_of R (fst (unreserve R c who a)) = (reserved_of R c)(who := reserved_of R c who - a)"
    and "free_of R (fst (unreserve R c who a)) = (free_of R c)(who := free_of R c who + a)"
  using assms(1) [unfolded reservable_laws_def, THEN conjunct2, THEN conjunct2, rule_format,
      OF assms(2,3)] by auto

section \<open>Escrow\<close>

text \<open>
  What the pallet relies on of a swap action: it holds for a source the amount of every action
  reserved and not yet claimed or cancelled.
\<close>

locale escrow =
  fixes valid :: "'c \<Rightarrow> bool"
    and held :: "'c \<Rightarrow> account_id \<Rightarrow> nat"
    and amount :: "'a \<Rightarrow> nat"
    and act :: "('a, 'c) SwapAction"
  assumes reserve_held: "valid c \<Longrightarrow> sa_reserve act a src c = Some c' \<Longrightarrow>
      valid c' \<and> held c' = (held c)(src := held c src + amount a)"
    and claim_held: "valid c \<Longrightarrow> amount a \<le> held c src \<Longrightarrow> sa_claim act a src to c = (c', b) \<Longrightarrow>
      valid c' \<and> held c' = (if b then (held c)(src := held c src - amount a) else held c)"
    and cancel_held: "valid c \<Longrightarrow> amount a \<le> held c src \<Longrightarrow>
      valid (sa_cancel act a src c) \<and> held (sa_cancel act a src c) = (held c)(src := held c src - amount a)"
begin

text \<open>What the pending swaps of a source lock, and that it is held.\<close>

definition locked :: "(account_id \<times> HashedProof \<rightharpoonup> 'a PendingSwap) \<Rightarrow> account_id \<Rightarrow> nat" where
  "locked pending src =
     (\<Sum>k\<in>UNIV. case pending k of
        Some p \<Rightarrow> if ps_source p = src then amount (ps_action p) else 0 | None \<Rightarrow> 0)"

definition backed :: "('a, 'c) swap_state \<Rightarrow> bool" where
  "backed s \<longleftrightarrow> valid (swap_currency s) \<and>
     (\<forall>src. locked (PendingSwaps s) src \<le> held (swap_currency s) src)"

lemma locked_upd:
  "locked (m(k := x)) src + (case m k of
        Some p \<Rightarrow> if ps_source p = src then amount (ps_action p) else 0 | None \<Rightarrow> 0)
   = locked m src + (case x of
        Some p \<Rightarrow> if ps_source p = src then amount (ps_action p) else 0 | None \<Rightarrow> 0)"
proof -
  let ?g = "\<lambda>y. case y of Some p \<Rightarrow> if ps_source p = src then amount (ps_action p) else 0 | None \<Rightarrow> 0"
  have "(\<lambda>i. ?g ((m(k := x)) i)) = (\<lambda>i. ?g (m i))(k := ?g x)" by auto
  then show ?thesis
    using sum_upd [of "\<lambda>i. ?g (m i)" k "?g x"] unfolding locked_def by (simp only:)
qed

lemma locked_le: "m k = Some p \<Longrightarrow> amount (ps_action p) \<le> locked m (ps_source p)"
  using locked_upd [of m k None "ps_source p"] by simp

lemma backed_held:
  assumes "backed s" and "PendingSwaps s k = Some p"
  shows "valid (swap_currency s)" and "amount (ps_action p) \<le> held (swap_currency s) (ps_source p)"
  using assms locked_le [of "PendingSwaps s" k p] by (auto simp: backed_def intro: order_trans)

lemma backed_create:
  assumes "backed s" and "PendingSwaps s k = None"
    and "sa_reserve act a src (swap_currency s) = Some c" and "ps_source p = src" and "ps_action p = a"
  shows "backed (s\<lparr>swap_currency := c, PendingSwaps := (PendingSwaps s)(k \<mapsto> p)\<rparr>)"
proof -
  have "valid c" and h: "held c = (held (swap_currency s))(src := held (swap_currency s) src + amount a)"
    using reserve_held assms(1,3) by (auto simp: backed_def)
  moreover have "locked ((PendingSwaps s)(k \<mapsto> p)) x \<le> held c x" for x
    using locked_upd [of "PendingSwaps s" k "Some p" x] assms
    by (auto simp: backed_def h)
  ultimately show ?thesis by (simp add: backed_def)
qed

lemma backed_release:
  assumes "backed s" and "PendingSwaps s k = Some p" and "valid c"
    and "held c = (held (swap_currency s))(ps_source p :=
           held (swap_currency s) (ps_source p) - amount (ps_action p))
         \<or> held c = held (swap_currency s)"
  shows "backed (s\<lparr>swap_currency := c, PendingSwaps := (PendingSwaps s)(k := None)\<rparr>)"
proof -
  have "locked ((PendingSwaps s)(k := None)) x \<le> held c x" for x
  proof -
    have "locked (PendingSwaps s) x \<le> held (swap_currency s) x"
      using assms(1) by (simp add: backed_def)
    then show ?thesis
      using locked_upd [of "PendingSwaps s" k None x] assms(2,4) by auto
  qed
  with assms(3) show ?thesis by (simp add: backed_def)
qed

end

definition escrow_valid :: "'c Reservable \<Rightarrow> ('c \<Rightarrow> bool) \<Rightarrow> 'c \<Rightarrow> bool" where
  "escrow_valid R ok c \<longleftrightarrow> reservable_laws R ok \<and> ok c"

interpretation balance_escrow: escrow
  "escrow_valid R ok" "\<lambda>c who. unat (reserved_of R c who)" "\<lambda>a. unat (bsa_value a)"
  "balance_swap_action R"
  for R :: "'c Reservable" and ok
proof (unfold_locales, goal_cases)
  case (1 c a src c')
  then have "reservable_laws R ok" "ok c" "reserve R c src (bsa_value a) = Some c'"
    by (simp_all add: escrow_valid_def balance_swap_action_def bsa_reserve_def)
  with reserve_laws [OF this] show ?case by (auto simp: escrow_valid_def)
next
  case (2 c a src to c' b)
  then have laws: "reservable_laws R ok" "ok c" "bsa_value a \<le> reserved_of R c src"
    by (simp_all add: escrow_valid_def word_le_nat_alt)
  show ?case
  proof (cases "repatriate_reserved R c src to (bsa_value a)")
    case None
    with 2 show ?thesis by (simp add: balance_swap_action_def bsa_claim_def)
  next
    case (Some r)
    then obtain missing where "b" and r: "repatriate_reserved R c src to (bsa_value a) = Some (c', missing)"
      using 2(3) by (cases r) (auto simp: balance_swap_action_def bsa_claim_def)
    with laws repatriate_laws [OF laws r] show ?thesis by (auto simp: escrow_valid_def unat_sub)
  qed
next
  case (3 c a src)
  then have laws: "reservable_laws R ok" "ok c" "bsa_value a \<le> reserved_of R c src"
    by (simp_all add: escrow_valid_def word_le_nat_alt)
  with unreserve_laws [OF laws] show ?case
    by (auto simp: escrow_valid_def balance_swap_action_def bsa_cancel_def unat_sub)
qed

abbreviation swaps_backed ::
  "'c Reservable \<Rightarrow> ('c \<Rightarrow> bool) \<Rightarrow> (BalanceSwapAction, 'c) swap_state \<Rightarrow> bool" where
  "swaps_backed \<equiv> balance_escrow.backed"

section \<open>What a successful call did\<close>

lemma ensure_signed_swap_Inr: "ensure_signed_swap origin = Inr who \<longleftrightarrow> origin = Signed who"
  by (cases origin) (auto simp: ensure_signed_swap_def)

lemma create_swap_success:
  "create_swap cfg origin target h hash_type a duration s = (s', Inr ()) \<longleftrightarrow>
     (\<exists>source c. origin = Signed source \<and> PendingSwaps s (target, h) = None \<and>
        sa_reserve (swap_action cfg) a source (swap_currency s) = Some c \<and>
        s' = s\<lparr>swap_currency := c, PendingSwaps := (PendingSwaps s)((target, h) \<mapsto>
               \<lparr>ps_source = source, ps_hash_type = hash_type, ps_action = a,
                ps_end_block = swap_block s + duration\<rparr>)\<rparr>)"
  by (cases origin) (auto simp: create_swap_def ensure_signed_swap_def Let_def split: call_splits)

lemma claim_swap_success:
  "claim_swap cfg origin p hash_type a s = (s', Inr ()) \<longleftrightarrow>
     length p \<le> unat (ProofLimit cfg) \<and>
     (\<exists>target swap. origin = Signed target \<and>
        PendingSwaps s (target, hash_proof cfg hash_type p) = Some swap \<and> ps_action swap = a \<and>
        s' = s\<lparr>swap_currency := fst (sa_claim (swap_action cfg) a (ps_source swap) target (swap_currency s)),
               PendingSwaps := (PendingSwaps s)((target, hash_proof cfg hash_type p) := None)\<rparr>)"
  by (cases origin) (auto simp: claim_swap_def ensure_signed_swap_def Let_def split: call_splits)

lemma cancel_swap_success:
  "cancel_swap cfg origin target h s = (s', Inr ()) \<longleftrightarrow>
     (\<exists>source swap. origin = Signed source \<and> PendingSwaps s (target, h) = Some swap \<and>
        ps_source swap = source \<and> ps_end_block swap \<le> swap_block s \<and>
        s' = s\<lparr>swap_currency := sa_cancel (swap_action cfg) (ps_action swap) source (swap_currency s),
               PendingSwaps := (PendingSwaps s)((target, h) := None)\<rparr>)"
  by (cases origin) (auto simp: cancel_swap_def ensure_signed_swap_def Let_def not_le split: call_splits)

section \<open>Runs of the pallet\<close>

datatype 'a SwapCall =
    CreateSwap account_id HashedProof HashType 'a u32
  | ClaimSwap bytes HashType 'a
  | CancelSwap account_id HashedProof

fun swap_call ::
  "('a, 'c) SwapConfig \<Rightarrow> RuntimeOrigin \<Rightarrow> 'a SwapCall \<Rightarrow> ('a, 'c) swap_state \<Rightarrow> ('a, 'c) swap_outcome"
where
  "swap_call cfg origin (CreateSwap target h t a d) = create_swap cfg origin target h t a d"
| "swap_call cfg origin (ClaimSwap p t a) = claim_swap cfg origin p t a"
| "swap_call cfg origin (CancelSwap target h) = cancel_swap cfg origin target h"

text \<open>A successful call, or the passing of a block; a failed call is rolled back.\<close>

inductive swap_step ::
  "('a, 'c) SwapConfig \<Rightarrow> ('a, 'c) swap_state \<Rightarrow> ('a, 'c) swap_state \<Rightarrow> bool" for cfg
where
  SwapCalled: "swap_call cfg origin call s = (s', Inr ()) \<Longrightarrow> swap_step cfg s s'"
| SwapBlock: "swap_step cfg s (s\<lparr>swap_block := swap_block s + 1\<rparr>)"

inductive_cases swap_stepE: "swap_step cfg s s'"

lemma create_swap_backed:
  assumes "swaps_backed R ok s" and "swap_action cfg = balance_swap_action R"
    and "create_swap cfg origin target h t a d s = (s', Inr ())"
  shows "swaps_backed R ok s'"
  using assms(3) balance_escrow.backed_create [OF assms(1)]
  by (auto simp: create_swap_success assms(2))

lemma claim_swap_backed:
  assumes "swaps_backed R ok s" and "swap_action cfg = balance_swap_action R"
    and "claim_swap cfg origin p t a s = (s', Inr ())"
  shows "swaps_backed R ok s'"
proof -
  obtain target swap where m: "PendingSwaps s (target, hash_proof cfg t p) = Some swap"
    and "ps_action swap = a"
    and s': "s' = s\<lparr>swap_currency := fst (sa_claim (swap_action cfg) a (ps_source swap) target (swap_currency s)),
               PendingSwaps := (PendingSwaps s)((target, hash_proof cfg t p) := None)\<rparr>"
    using assms(3) unfolding claim_swap_success by blast
  obtain c b where c: "sa_claim (balance_swap_action R) a (ps_source swap) target (swap_currency s) = (c, b)"
    by (cases "sa_claim (balance_swap_action R) a (ps_source swap) target (swap_currency s)") auto
  note held = balance_escrow.backed_held [OF assms(1) m]
  note balance_escrow.claim_held [OF held(1) _ c] and held(2)
  then show ?thesis
    using balance_escrow.backed_release [OF assms(1) m, of c] \<open>ps_action swap = a\<close>
    by (simp add: s' assms(2) c split: if_splits)
qed

lemma cancel_swap_backed:
  assumes "swaps_backed R ok s" and "swap_action cfg = balance_swap_action R"
    and "cancel_swap cfg origin target h s = (s', Inr ())"
  shows "swaps_backed R ok s'"
proof -
  obtain swap where m: "PendingSwaps s (target, h) = Some swap"
    and s': "s' = s\<lparr>swap_currency := sa_cancel (swap_action cfg) (ps_action swap) (ps_source swap) (swap_currency s),
               PendingSwaps := (PendingSwaps s)((target, h) := None)\<rparr>"
    using assms(3) unfolding cancel_swap_success by blast
  note held = balance_escrow.backed_held [OF assms(1) m]
  from balance_escrow.cancel_held [OF held] show ?thesis
    using balance_escrow.backed_release [OF assms(1) m] by (simp add: s' assms(2))
qed

lemma swap_step_backed:
  assumes "swap_action cfg = balance_swap_action R" and "swap_step cfg s s'" and "swaps_backed R ok s"
  shows "swaps_backed R ok s'"
  using assms(2)
proof (rule swap_stepE)
  fix origin call
  assume "swap_call cfg origin call s = (s', Inr ())"
  with assms(1,3) show ?thesis
    by (cases call) (auto intro: create_swap_backed claim_swap_backed cancel_swap_backed)
qed (use assms(3) in \<open>simp add: balance_escrow.backed_def\<close>)

text \<open>
  A concrete reservable currency with these laws, for evaluating the model: the free and the
  reserved balance of every account.
\<close>

type_synonym simple_accounts = "(account_id \<Rightarrow> u128) \<times> (account_id \<Rightarrow> u128)"

definition simple_reservable :: "simple_accounts Reservable" where
  "simple_reservable =
     \<lparr>free_of = fst, reserved_of = snd,
      reserve = (\<lambda>c who a.
        if a \<le> fst c who \<and> unat (snd c who) + unat a < 2 ^ 128
        then Some ((fst c)(who := fst c who - a), (snd c)(who := snd c who + a)) else None),
      repatriate_reserved = (\<lambda>c who to a.
        let m = min a (snd c who)
        in Some (((fst c)(to := fst c to + m), (snd c)(who := snd c who - m)), a - m)),
      unreserve = (\<lambda>c who a.
        let m = min a (snd c who)
        in (((fst c)(who := fst c who + m), (snd c)(who := snd c who - m)), a - m))\<rparr>"

lemma simple_reservable_laws: "reservable_laws simple_reservable (\<lambda>c. True)"
  by (auto simp: reservable_laws_def simple_reservable_def Let_def min_absorb1 unat_add_lem [THEN iffD1]
      split: if_splits)

end
