(* ===== verification/Author_Subsidy.thy ===== *)
theory Author_Subsidy
  imports Network_Storage
begin

text \<open>
  The author subsidy pallet (\<open>pallets/author-subsidy/src/lib.rs\<close>): every block pays its author a
  fixed emission. Finding the author in the digest and mapping its address to an account are the
  framework's, and are parameters.
\<close>

record ('c, 'd) SubsidyConfig =
  SubsidyCurrency :: "'c Currency"
  find_author :: "'d list \<Rightarrow> 160 word option"
  into_account_id :: "160 word \<Rightarrow> account_id"
  AuthorBlockEmissions :: u128

text \<open>
  The hook at the start of a block, on the currency and the pre-runtime logs of its digest: an
  unknown author is the default address, zero, and the emission fits the balance type.
\<close>

definition subsidy_on_initialize :: "('c, 'd) SubsidyConfig \<Rightarrow> 'd list \<Rightarrow> 'c \<Rightarrow> 'c" where
  "subsidy_on_initialize cfg pre_runtime_digests c =
     (let author = (case find_author cfg pre_runtime_digests of Some a \<Rightarrow> a | None \<Rightarrow> 0);
          account_id = into_account_id cfg author;
          block_reward = AuthorBlockEmissions cfg
      in deposit_creating (SubsidyCurrency cfg) c account_id block_reward)"

lemma subsidy_issuance:
  assumes "currency_laws (SubsidyCurrency cfg) ok" and "ok c"
  shows "ok (subsidy_on_initialize cfg d c)"
    and "unat (total_issuance (SubsidyCurrency cfg) (subsidy_on_initialize cfg d c))
           \<le> unat (total_issuance (SubsidyCurrency cfg) c) + unat (AuthorBlockEmissions cfg)"
  using deposit_laws [OF assms] by (auto simp: subsidy_on_initialize_def Let_def)

end
