(* ===== verification/Swap_Properties.thy ===== *)
theory Swap_Properties
  imports Atomic_Swap Author_Subsidy
begin

text \<open>
  What the atomic swap pallet and the author subsidy guarantee: every pending swap stays backed by
  reserved funds, a swap is paid once and exactly, a refund needs the source and the end block. Then
  the two corners where the pallet's promise ends: an end block that wraps, and a claim whose
  transfer fails.
\<close>

section \<open>An example\<close>

text \<open>The hash of a proof is its length; account 1 has 1000, and locks 300 for account 2.\<close>

definition example_swaps :: "(BalanceSwapAction, simple_accounts) SwapConfig" where
  "example_swaps =
     \<lparr>swap_action = balance_swap_action simple_reservable, ProofLimit = 64,
      blake2_256 = (\<lambda>p. of_nat (length p)), keccak_256 = (\<lambda>p. of_nat (length p)),
      sha2_256 = (\<lambda>p. of_nat (length p))\<rparr>"

definition example_swap_state :: "(BalanceSwapAction, simple_accounts) swap_state" where
  "example_swap_state =
     \<lparr>swap_block = 10, swap_currency = ((\<lambda>_. 0)(1 := 1000), \<lambda>_. 0), PendingSwaps = (\<lambda>_. None)\<rparr>"

definition example_pending :: "(BalanceSwapAction, simple_accounts) swap_state" where
  "example_pending =
     fst (create_swap example_swaps (Signed 1) 2 3 Sha2256 (BalanceSwapAction 300) 5 example_swap_state)"

lemmas example_swap_defs = example_swaps_def example_swap_state_def simple_reservable_def
  balance_swap_action_def bsa_reserve_def bsa_claim_def bsa_cancel_def ensure_signed_swap_def

lemma example_swap_action [simp]: "swap_action example_swaps = balance_swap_action simple_reservable"
  by (simp add: example_swaps_def)

lemma example_backed: "swaps_backed simple_reservable (\<lambda>_. True) example_swap_state"
  by (simp add: balance_escrow.backed_def balance_escrow.locked_def escrow_valid_def
      simple_reservable_laws example_swap_state_def)

lemma example_created:
  "create_swap example_swaps (Signed 1) 2 3 Sha2256 (BalanceSwapAction 300) 5 example_swap_state
     = (example_pending, Inr ())"
  by (simp add: prod_eq_iff example_pending_def create_swap_def example_swap_defs Let_def)

lemma example_pending_eq:
  "example_pending =
     \<lparr>swap_block = 10, swap_currency = ((\<lambda>_. 0)(1 := 700), (\<lambda>_. 0)(1 := 300)),
      PendingSwaps = [(2, 3) \<mapsto> \<lparr>ps_source = 1, ps_hash_type = Sha2256,
        ps_action = BalanceSwapAction 300, ps_end_block = 15\<rparr>]\<rparr>"
  by (simp add: example_pending_def create_swap_def example_swap_defs Let_def)

lemma example_pending_backed: "swaps_backed simple_reservable (\<lambda>_. True) example_pending"
  using create_swap_backed [OF example_backed _ example_created] by simp

section \<open>Escrow\<close>

text \<open>
  C31: in every state a run of the pallet reaches, the reserved balance of each account covers the
  sum of all swaps pending from it, so a pending swap can always be paid from its own reserve.
\<close>

theorem pending_swaps_stay_backed:
  assumes "swap_action cfg = balance_swap_action R" and "swaps_backed R ok s" and "(swap_step cfg)\<^sup>*\<^sup>* s s'"
  shows "swaps_backed R ok s' \<and>
    (\<Sum>k\<in>UNIV. case PendingSwaps s' k of
        Some p \<Rightarrow> if ps_source p = src then unat (bsa_value (ps_action p)) else 0 | None \<Rightarrow> 0)
      \<le> unat (reserved_of R (swap_currency s') src)"
proof -
  have "swaps_backed R ok s'"
    using assms(3,2) by (induction rule: rtranclp_induct) (auto intro: swap_step_backed [OF assms(1)])
  then show ?thesis by (simp add: balance_escrow.backed_def balance_escrow.locked_def)
qed

text \<open>Applied: from nothing pending, through one swap and one block.\<close>

theorem pending_swaps_stay_backed_witness:
  "(swap_step example_swaps)\<^sup>*\<^sup>* example_swap_state (example_pending\<lparr>swap_block := 11\<rparr>) \<and>
   swaps_backed simple_reservable (\<lambda>_. True) (example_pending\<lparr>swap_block := 11\<rparr>)"
proof
  have "swap_step example_swaps example_swap_state example_pending"
    by (rule SwapCalled [of _ "Signed 1" "CreateSwap 2 3 Sha2256 (BalanceSwapAction 300) 5"])
      (simp add: example_created)
  moreover have "swap_step example_swaps example_pending (example_pending\<lparr>swap_block := 11\<rparr>)"
    using SwapBlock [of example_swaps example_pending] by (simp add: example_pending_eq)
  ultimately show r: "(swap_step example_swaps)\<^sup>*\<^sup>* example_swap_state (example_pending\<lparr>swap_block := 11\<rparr>)"
    by simp
  show "swaps_backed simple_reservable (\<lambda>_. True) (example_pending\<lparr>swap_block := 11\<rparr>)"
    using pending_swaps_stay_backed [OF example_swap_action example_backed r] by blast
qed

text \<open>
  C30: a swap created under the hash of a proof is claimed with that proof, in any block: when the
  transfer succeeds, what left the free balance of the source is on the free balance of the target,
  the reserves and the pending swaps are back to what they were, and a second claim is refused.
\<close>

theorem create_claim_roundtrip:
  assumes "swap_action cfg = balance_swap_action R" and "reservable_laws R ok" and "ok (swap_currency s)"
    and "create_swap cfg (Signed src) tgt (hash_proof cfg t p) t (BalanceSwapAction v) d s = (s1, Inr ())"
    and "length p \<le> unat (ProofLimit cfg)"
    and "repatriate_reserved R (swap_currency s1) src tgt v \<noteq> None"
  shows "\<exists>s2. claim_swap cfg (Signed tgt) p t (BalanceSwapAction v) (s1\<lparr>swap_block := b\<rparr>) = (s2, Inr ()) \<and>
    free_of R (swap_currency s2) = (let f = (free_of R (swap_currency s))(src := free_of R (swap_currency s) src - v)
       in f(tgt := f tgt + v)) \<and>
    reserved_of R (swap_currency s2) = reserved_of R (swap_currency s) \<and>
    PendingSwaps s2 = PendingSwaps s \<and>
    claim_swap cfg (Signed tgt) p t (BalanceSwapAction v) s2 = (s2, Inl InvalidProof)"
proof -
  let ?h = "hash_proof cfg t p" and ?a = "BalanceSwapAction v"
  obtain c where none: "PendingSwaps s (tgt, ?h) = None" and r: "reserve R (swap_currency s) src v = Some c"
    and s1: "s1 = s\<lparr>swap_currency := c, PendingSwaps := (PendingSwaps s)((tgt, ?h) \<mapsto>
      \<lparr>ps_source = src, ps_hash_type = t, ps_action = ?a, ps_end_block = swap_block s + d\<rparr>)\<rparr>"
    using assms(4) by (auto simp: create_swap_success assms(1) balance_swap_action_def bsa_reserve_def)
  note R = reserve_laws [OF assms(2,3) r]
  obtain c2 m where c2: "repatriate_reserved R c src tgt v = Some (c2, m)"
    using assms(6) s1 by auto
  have le: "v \<le> reserved_of R c src" using R(4) [of src] by (simp add: word_le_nat_alt)
  note P = repatriate_laws [OF assms(2) R(1) le c2]
  let ?s2 = "s\<lparr>swap_block := b, swap_currency := c2\<rparr>"
  have pend: "(PendingSwaps s)((tgt, ?h) := None) = PendingSwaps s" using none by auto
  have res: "reserved_of R c2 x = reserved_of R (swap_currency s) x" for x
    using R(4) [of x] le by (cases "x = src") (auto simp: P(3) unat_sub intro: word_unat_eq_iff [THEN iffD2])
  show ?thesis
  proof (intro exI [of _ ?s2] conjI)
    show "claim_swap cfg (Signed tgt) p t ?a (s1\<lparr>swap_block := b\<rparr>) = (?s2, Inr ())"
      using assms(5) c2 pend
      by (simp add: claim_swap_def ensure_signed_swap_def s1 assms(1) balance_swap_action_def bsa_claim_def)
    show "free_of R (swap_currency ?s2) = (let f = (free_of R (swap_currency s))
        (src := free_of R (swap_currency s) src - v) in f(tgt := f tgt + v))"
      by (simp add: P(4) R(3) Let_def)
    show "claim_swap cfg (Signed tgt) p t ?a ?s2 = (?s2, Inl InvalidProof)"
      using assms(5) none by (simp add: claim_swap_def ensure_signed_swap_def)
  qed (auto simp: res)
qed

text \<open>Applied: account 2 claims the 300 with the proof of length 3.\<close>

theorem create_claim_roundtrip_witness:
  "\<exists>s2. claim_swap example_swaps (Signed 2) [9, 9, 9] Sha2256 (BalanceSwapAction 300)
     (example_pending\<lparr>swap_block := 12\<rparr>) = (s2, Inr ()) \<and>
     fst (swap_currency s2) 1 = 700 \<and> fst (swap_currency s2) 2 = 300 \<and> snd (swap_currency s2) 1 = 0"
proof -
  have h: "hash_proof example_swaps Sha2256 [9, 9, 9] = 3"
    by (simp add: hash_proof_def example_swaps_def)
  have "repatriate_reserved simple_reservable (swap_currency example_pending) 1 2 300 \<noteq> None"
    by (simp add: simple_reservable_def Let_def)
  then obtain s2 where "claim_swap example_swaps (Signed 2) [9, 9, 9] Sha2256 (BalanceSwapAction 300)
      (example_pending\<lparr>swap_block := 12\<rparr>) = (s2, Inr ())"
    and "fst (swap_currency s2) = (let f = (fst (swap_currency example_swap_state))
      (1 := fst (swap_currency example_swap_state) 1 - 300) in f(2 := f 2 + 300))"
    and "snd (swap_currency s2) = snd (swap_currency example_swap_state)"
    using create_claim_roundtrip [OF example_swap_action simple_reservable_laws, where s = example_swap_state
        and src = 1 and tgt = 2 and t = Sha2256 and p = "[9, 9, 9]" and v = 300 and d = 5
        and ?s1.0 = example_pending and b = 12] h example_created
    by (auto simp: example_swaps_def simple_reservable_def)
  then show ?thesis by (intro exI [of _ s2]) (simp add: example_swap_state_def Let_def)
qed

text \<open>
  Only the source gets a refund, and not before the end block: anyone else, and the source
  earlier, gets an error that changes nothing; the source's cancellation in time returns exactly the
  amount of the swap from its reserve to its free balance and removes the swap.
\<close>

lemma cancel_swap_refunds:
  assumes "swap_action cfg = balance_swap_action R" and "swaps_backed R ok s"
    and "PendingSwaps s (tgt, h) = Some p" and "v = bsa_value (ps_action p)" and "src = ps_source p"
  shows "(who \<noteq> src \<longrightarrow> cancel_swap cfg (Signed who) tgt h s = (s, Inl SourceMismatch)) \<and>
    (swap_block s < ps_end_block p \<longrightarrow> cancel_swap cfg (Signed src) tgt h s = (s, Inl DurationNotPassed)) \<and>
    (ps_end_block p \<le> swap_block s \<longrightarrow> (\<exists>s'. cancel_swap cfg (Signed src) tgt h s = (s', Inr ()) \<and>
       free_of R (swap_currency s') = (free_of R (swap_currency s))(src := free_of R (swap_currency s) src + v) \<and>
       reserved_of R (swap_currency s') =
         (reserved_of R (swap_currency s))(src := reserved_of R (swap_currency s) src - v) \<and>
       PendingSwaps s' = (PendingSwaps s)((tgt, h) := None)))"
proof -
  note held = balance_escrow.backed_held [OF assms(2,3)]
  then have "reservable_laws R ok" "ok (swap_currency s)" "v \<le> reserved_of R (swap_currency s) src"
    using assms(4,5) by (simp_all add: escrow_valid_def word_le_nat_alt)
  note U = unreserve_laws [OF this]
  show ?thesis
    using assms U
    by (simp add: cancel_swap_def ensure_signed_swap_def balance_swap_action_def bsa_cancel_def Let_def
        linorder_not_less)
qed

text \<open>Applied: the swap of account 1 ends at block 15; account 2 cannot cancel it.\<close>

lemma cancel_swap_refunds_example:
  "cancel_swap example_swaps (Signed 2) 2 3 example_pending = (example_pending, Inl SourceMismatch) \<and>
   cancel_swap example_swaps (Signed 1) 2 3 example_pending = (example_pending, Inl DurationNotPassed)"
  using cancel_swap_refunds [OF example_swap_action example_pending_backed, where who = 2 and tgt = 2 and h = 3
      and p = "\<lparr>ps_source = 1, ps_hash_type = Sha2256, ps_action = BalanceSwapAction 300, ps_end_block = 15\<rparr>"]
  by (simp add: example_pending_eq)

section \<open>Where the promise ends\<close>

text \<open>
  A duration that takes the end block past the last block number wraps: the swap it creates can
  be cancelled at once, in the block of its creation, although its duration has not passed.
\<close>

lemma end_block_wraps:
  assumes "create_swap cfg (Signed src) tgt h t a d s = (s1, Inr ())"
    and "2 ^ 32 \<le> unat (swap_block s) + unat d"
  shows "\<exists>s2. cancel_swap cfg (Signed src) tgt h s1 = (s2, Inr ())"
proof -
  have "unat (swap_block s + d) = unat (swap_block s) + unat d - 2 ^ 32"
    using assms(2) unat_lt_exp [of "swap_block s"] unat_lt_exp [of d]
    by (simp add: unat_word_ariths mod_if)
  then have "swap_block s + d \<le> swap_block s"
    using unat_lt_exp [of d] by (simp add: word_le_nat_alt)
  then show ?thesis
    using assms(1) by (auto simp: create_swap_success cancel_swap_def ensure_signed_swap_def Let_def)
qed

text \<open>Applied: a swap of the largest duration.\<close>

lemma end_block_wraps_example:
  "\<exists>s1 s2. create_swap example_swaps (Signed 1) 2 3 Sha2256 (BalanceSwapAction 300) (2 ^ 32 - 1)
      example_swap_state = (s1, Inr ()) \<and> cancel_swap example_swaps (Signed 1) 2 3 s1 = (s2, Inr ())"
proof -
  obtain s1 where c: "create_swap example_swaps (Signed 1) 2 3 Sha2256 (BalanceSwapAction 300) (2 ^ 32 - 1)
      example_swap_state = (s1, Inr ())"
    by (simp add: create_swap_def example_swap_defs Let_def)
  from end_block_wraps [OF c] show ?thesis using c by (auto simp: example_swap_state_def)
qed

text \<open>
  C36: a claim whose transfer fails still removes the swap: the target gets nothing, and the source,
  whose funds stay reserved, can no longer cancel.
\<close>

theorem failed_claim_strands_funds:
  assumes "swap_action cfg = balance_swap_action R"
    and "PendingSwaps s (tgt, hash_proof cfg t p) = Some sw" and "length p \<le> unat (ProofLimit cfg)"
    and "repatriate_reserved R (swap_currency s) (ps_source sw) tgt (bsa_value (ps_action sw)) = None"
  shows "\<exists>s'. claim_swap cfg (Signed tgt) p t (ps_action sw) s = (s', Inr ()) \<and>
    swap_currency s' = swap_currency s \<and>
    cancel_swap cfg (Signed who) tgt (hash_proof cfg t p) s' = (s', Inl NotExist)"
  using assms
  by (simp add: claim_swap_def cancel_swap_def ensure_signed_swap_def balance_swap_action_def bsa_claim_def Let_def)

text \<open>Applied: with a currency that refuses every transfer of a reserve.\<close>

theorem failed_claim_strands_funds_witness:
  "\<exists>s'. claim_swap (example_swaps\<lparr>swap_action := balance_swap_action
        (simple_reservable\<lparr>repatriate_reserved := \<lambda>_ _ _ _. None\<rparr>)\<rparr>)
      (Signed 2) [9, 9, 9] Sha2256 (BalanceSwapAction 300) example_pending = (s', Inr ()) \<and>
    swap_currency s' = swap_currency example_pending"
  using failed_claim_strands_funds [of "example_swaps\<lparr>swap_action := balance_swap_action
        (simple_reservable\<lparr>repatriate_reserved := \<lambda>_ _ _ _. None\<rparr>)\<rparr>"
      "simple_reservable\<lparr>repatriate_reserved := \<lambda>_ _ _ _. None\<rparr>" example_pending 2 Sha2256 "[9, 9, 9]"
      "\<lparr>ps_source = 1, ps_hash_type = Sha2256, ps_action = BalanceSwapAction 300, ps_end_block = 15\<rparr>" 1]
  by (auto simp: example_pending_eq hash_proof_def example_swaps_def)

section \<open>The author subsidy\<close>

text \<open>
  Over any sequence of blocks the subsidy mints at most its emission per block, and whatever a
  block mints is on the balance of the account of its author, every other balance unchanged.
\<close>

lemma subsidy_mints_for_authors:
  assumes "currency_laws (SubsidyCurrency cfg) ok" and "ok c"
  shows "unat (total_issuance (SubsidyCurrency cfg) (fold (subsidy_on_initialize cfg) ds c))
      \<le> unat (total_issuance (SubsidyCurrency cfg) c) + length ds * unat (AuthorBlockEmissions cfg) \<and>
    (subsidy_on_initialize cfg d c = c \<or>
     (\<exists>author. author = (case find_author cfg d of Some a \<Rightarrow> a | None \<Rightarrow> 0) \<and>
        free_balance (SubsidyCurrency cfg) (subsidy_on_initialize cfg d c) =
          (free_balance (SubsidyCurrency cfg) c)(into_account_id cfg author :=
             free_balance (SubsidyCurrency cfg) c (into_account_id cfg author) + AuthorBlockEmissions cfg)))"
proof
  show "unat (total_issuance (SubsidyCurrency cfg) (fold (subsidy_on_initialize cfg) ds c))
      \<le> unat (total_issuance (SubsidyCurrency cfg) c) + length ds * unat (AuthorBlockEmissions cfg)"
    using assms(2)
  proof (induction ds arbitrary: c)
    case (Cons d ds)
    from subsidy_issuance [OF assms(1) Cons.prems, of d] Cons.IH [of "subsidy_on_initialize cfg d c"]
    show ?case by simp
  qed simp
  show "subsidy_on_initialize cfg d c = c \<or>
     (\<exists>author. author = (case find_author cfg d of Some a \<Rightarrow> a | None \<Rightarrow> 0) \<and>
        free_balance (SubsidyCurrency cfg) (subsidy_on_initialize cfg d c) =
          (free_balance (SubsidyCurrency cfg) c)(into_account_id cfg author :=
             free_balance (SubsidyCurrency cfg) c (into_account_id cfg author) + AuthorBlockEmissions cfg))"
    using assms unfolding currency_laws_def subsidy_on_initialize_def Let_def by blast
qed

text \<open>Applied: three blocks of account 1 at 5 a block, on an empty chain.\<close>

lemma subsidy_mints_for_authors_example:
  "unat (snd (fold (subsidy_on_initialize \<lparr>SubsidyCurrency = simple_currency, find_author = \<lambda>_. Some 1,
      into_account_id = \<lambda>a. a, AuthorBlockEmissions = 5\<rparr>) [[], [], [()]] (\<lambda>_. 0, 0))) \<le> 15"
  using subsidy_mints_for_authors [of "\<lparr>SubsidyCurrency = simple_currency, find_author = \<lambda>_. Some 1,
      into_account_id = \<lambda>a. a, AuthorBlockEmissions = 5\<rparr>" simple_ok "(\<lambda>_. 0, 0)" "[[], [], [()]]"]
  by (simp add: simple_currency_laws simple_ok_def total_def)

end
