(* ===== verification/Multiaddr.thy ===== *)
theory Multiaddr
  imports Network_Storage
begin

text \<open>
  The binary multiaddresses a node announces (\<open>utilities/multiaddr.rs\<close>) and the check of peer
  identifiers (\<open>utilities/keys.rs\<close>). The runtime is compiled to 32-bit WebAssembly without overflow
  checks, so \<open>usize\<close> is a 32-bit word whose addition wraps. The loop that verifies an address is a
  partial function: \<open>None\<close> says that it does not return.
\<close>

unbundle bit_operations_syntax

section \<open>Variable length integers\<close>

type_synonym usize = "32 word"

function encode_varint :: "u64 \<Rightarrow> bytes \<Rightarrow> bytes" where
  "encode_varint value out =
     (if value \<ge> 0x80 then encode_varint (drop_bit 7 value) (out @ [ucast value OR 0x80])
      else out @ [ucast value])"
  by auto
termination
proof (relation "measure (\<lambda>(value, out). unat value)", goal_cases)
  case (2 v out)
  then have "unat v div 128 < unat v" by (simp add: word_le_nat_alt)
  then show ?case by (simp add: drop_bit_eq_div unat_div)
qed simp

declare encode_varint.simps [simp del]

fun decode_varint_loop :: "bytes \<Rightarrow> u64 \<Rightarrow> nat \<Rightarrow> usize \<Rightarrow> (u64 \<times> usize) option" where
  "decode_varint_loop [] value shift i = None"
| "decode_varint_loop (byte # input) value shift i =
     (let value = value OR push_bit shift (ucast (byte AND 0x7F));
          i = i + 1 in
      if byte AND 0x80 = 0 then Some (value, i)
      else
      let shift = shift + 7 in
      if shift > 63 then None else decode_varint_loop input value shift i)"

definition decode_varint :: "bytes \<Rightarrow> (u64 \<times> usize) option" where
  "decode_varint input = decode_varint_loop input 0 0 0"

section \<open>Verifying an address\<close>

datatype MultiaddrError = InvalidVarint | InvalidProtocol | InvalidAddress | Truncated

abbreviation (input) "IP4 \<equiv> 4 :: u64"
abbreviation (input) "IP6 \<equiv> 41 :: u64"
abbreviation (input) "TCP \<equiv> 6 :: u64"
abbreviation (input) "UDP \<equiv> 17 :: u64"
abbreviation (input) "DNS4 \<equiv> 54 :: u64"
abbreviation (input) "DNS6 \<equiv> 55 :: u64"
abbreviation (input) "DNSADDR \<equiv> 56 :: u64"
abbreviation (input) "P2P \<equiv> 421 :: u64"
abbreviation (input) "WS \<equiv> 477 :: u64"
abbreviation (input) "WSS \<equiv> 478 :: u64"

definition bytes_len :: "bytes \<Rightarrow> usize" where
  "bytes_len bytes = of_nat (length bytes)"

definition advance :: "bytes \<Rightarrow> usize \<Rightarrow> usize \<Rightarrow> MultiaddrError + usize" where
  "advance bytes i len = (if i + len > bytes_len bytes then Inl Truncated else Inr (i + len))"

text \<open>One turn of the loop: the next position and the protocol just read.\<close>

definition verify_component :: "bytes \<Rightarrow> usize \<Rightarrow> MultiaddrError + (usize \<times> u64)" where
  "verify_component bytes i =
     (case decode_varint (drop (unat i) bytes) of None \<Rightarrow> Inl InvalidVarint | Some (proto, read) \<Rightarrow>
      let i = i + read;
          next_i =
           (if proto = IP4 then advance bytes i 4
            else if proto = IP6 then advance bytes i 16
            else if proto = TCP \<or> proto = UDP then advance bytes i 2
            else if proto = WS \<or> proto = WSS then advance bytes i 0
            else if proto = DNS4 \<or> proto = DNS6 \<or> proto = DNSADDR \<or> proto = P2P
            then case decode_varint (drop (unat i) bytes) of None \<Rightarrow> Inl InvalidVarint
                 | Some (len, read) \<Rightarrow> advance bytes (i + read) (ucast len)
            else Inl InvalidProtocol)
      in case next_i of Inl e \<Rightarrow> Inl e | Inr i \<Rightarrow> Inr (i, proto))"

partial_function (option) verify_loop :: "bytes \<Rightarrow> usize \<Rightarrow> u64 \<Rightarrow> (MultiaddrError + u64) option" where
  "verify_loop bytes i last_proto =
     (if i < bytes_len bytes
      then case verify_component bytes i of Inl e \<Rightarrow> Some (Inl e)
           | Inr (i, proto) \<Rightarrow> verify_loop bytes i proto
      else Some (Inr last_proto))"

definition verify :: "bytes \<Rightarrow> (MultiaddrError + bytes) option" where
  "verify bytes =
     (case verify_loop bytes 0 0 of None \<Rightarrow> None
      | Some (Inl e) \<Rightarrow> Some (Inl e)
      | Some (Inr last_proto) \<Rightarrow>
          Some (if last_proto \<noteq> P2P then Inl InvalidProtocol else Inr bytes))"

section \<open>Peer identifiers\<close>

definition validate_peer_id :: "bytes \<Rightarrow> bool" where
  "validate_peer_id peer_id =
     (let len = length peer_id in
      if len < 32 \<or> len > 128 then False
      else
      let first = peer_id ! 0; second = peer_id ! 1
      in first = 49 \<or> (first = 81 \<and> second = 109) \<or> first = 102 \<or> first = 98 \<or> first = 122 \<or> first = 109)"

section \<open>Round trip of the integers\<close>

lemma push_bit_split:
  fixes v :: u64
  shows "push_bit s (v AND 127) OR push_bit (s + 7) (drop_bit 7 v) = push_bit s v"
proof (rule bit_word_eqI)
  fix n assume "n < LENGTH(64)"
  have m: "(127 :: u64) = mask 7" by (simp add: mask_eq_exp_minus_1)
  show "bit (push_bit s (v AND 127) OR push_bit (s + 7) (drop_bit 7 v)) n = bit (push_bit s v) n"
    unfolding m by (cases "n < s + 7") (auto simp: bit_simps)
qed

lemma low_bits_ucast: "ucast (((ucast v :: 8 word) OR 128) AND 127) = (v AND 127 :: u64)"
  and low_byte_ucast: "v < 128 \<Longrightarrow> ucast ((ucast v :: 8 word) AND 127) = (v :: u64)"
  and high_bit_set: "((ucast v :: 8 word) OR 128) AND 128 \<noteq> 0"
  and high_bit_clear: "v < 128 \<Longrightarrow> (ucast v :: 8 word) AND 128 = 0"
proof -
  have m: "(127 :: 8 word) = mask 7" "(127 :: u64) = mask 7"
    by (simp_all add: mask_eq_exp_minus_1)
  have h: "bit (128 :: 8 word) n \<longleftrightarrow> n = 7" "bit (128 :: u64) n \<longleftrightarrow> n = 7" for n
    using bit_exp_iff [where 'a = "8 word", of 7 n] bit_exp_iff [where 'a = u64, of 7 n] by auto
  show "ucast (((ucast v :: 8 word) OR 128) AND 127) = (v AND 127 :: u64)"
    unfolding m
  proof (rule bit_word_eqI)
    fix n :: nat
    assume "n < LENGTH(64)"
    show "bit (ucast (((ucast v :: 8 word) OR 128) AND mask 7) :: u64) n = bit (v AND mask 7) n"
      unfolding bit_ucast_iff bit_and_iff bit_or_iff bit_mask_iff h using \<open>n < LENGTH(64)\<close> by auto
  qed
  have "bit (((ucast v :: 8 word) OR 128) AND 128) 7" by (simp add: bit_simps h)
  then show "((ucast v :: 8 word) OR 128) AND 128 \<noteq> 0" by auto
  assume "v < 128"
  then have t: "take_bit 7 v = v" 
    by (simp add: word_unat_eq_iff unsigned_take_bit_eq take_bit_nat_eq_self word_less_nat_alt)
  then have b: "bit v n \<Longrightarrow> n < 7" for n by (metis bit_take_bit_iff)
  show "ucast ((ucast v :: 8 word) AND 127) = v"
    unfolding m by (rule bit_word_eqI) (auto simp: bit_simps h dest: b)
  show "(ucast v :: 8 word) AND 128 = 0"
    by (rule bit_word_eqI) (unfold bit_ucast_iff bit_and_iff h, auto dest: b)
qed

lemma drop_bit_bound:
  fixes v :: u64
  assumes "unat v < 2 ^ (64 - s)" and "128 \<le> v"
  shows "s + 7 < 64" and "unat (drop_bit 7 v) < 2 ^ (64 - (s + 7))"
proof -
  have "128 < (2 :: nat) ^ (64 - s)" using assms by (simp add: word_le_nat_alt)
  then have "(2 :: nat) ^ 7 < 2 ^ (64 - s)" by simp
  then have l: "7 < 64 - s" by (simp only: power_strict_increasing_iff)
  then show "s + 7 < 64" by simp
  have "64 - s = 64 - (s + 7) + 7" using l by simp
  then have "(2 :: nat) ^ (64 - s) = 2 ^ (64 - (s + 7)) * 2 ^ 7" by (metis power_add)
  with assms(1) show "unat (drop_bit 7 v) < 2 ^ (64 - (s + 7))"
    by (simp add: drop_bit_eq_div unat_div less_mult_imp_div_less)
qed

lemma encode_varint_append: "encode_varint v (xs @ out) = xs @ encode_varint v out"
proof (induction v out rule: encode_varint.induct)
  case (1 v out)
  then show ?case by (cases "128 \<le> v") (simp_all add: encode_varint.simps [of v])
qed

lemma encode_varint_Cons:
  "128 \<le> v \<Longrightarrow> encode_varint v [] = (ucast v OR 128) # encode_varint (drop_bit 7 v) []"
  "\<not> 128 \<le> v \<Longrightarrow> encode_varint v [] = [ucast v]"
  using encode_varint_append [of "drop_bit 7 v" "[ucast v OR 128]" "[]"]
  by (simp_all add: encode_varint.simps [of v])

lemma decode_loop_encode:
  "unat v < 2 ^ (64 - s) \<Longrightarrow>
   decode_varint_loop (encode_varint v [] @ rest) acc s i
     = Some (acc OR push_bit s v, i + of_nat (length (encode_varint v [])))"
proof (induction "unat v" arbitrary: v acc s i rule: less_induct)
  case less
  show ?case
  proof (cases "128 \<le> v")
    case True
    note b = drop_bit_bound [OF less.prems True]
    have "unat v div 128 < unat v" using True by (simp add: word_le_nat_alt)
    then have "unat (drop_bit 7 v) < unat v" by (simp add: drop_bit_eq_div unat_div)
    note IH = less.hyps [OF this b(2)]
    have "(acc OR push_bit s (v AND 127)) OR push_bit (s + 7) (drop_bit 7 v) = acc OR push_bit s v"
      using push_bit_split [of s v] by (simp only: or.assoc)
    then show ?thesis
      using True b(1) IH by (simp add: encode_varint_Cons Let_def low_bits_ucast high_bit_set add.assoc)
  next
    case False
    then show ?thesis
      by (simp add: encode_varint_Cons Let_def low_byte_ucast high_bit_clear not_le)
  qed
qed

lemma decode_encode_varint:
  "decode_varint (encode_varint v [] @ rest) = Some (v, of_nat (length (encode_varint v [])))"
  using decode_loop_encode [of v 0 rest 0 0] unat_lt_exp [of v] by (simp add: decode_varint_def)

lemma encode_varint_length: "0 < length (encode_varint v [])" "length (encode_varint v []) \<le> 10"
proof -
  show "0 < length (encode_varint v [])" by (cases "128 \<le> v") (simp_all add: encode_varint_Cons)
  have "unat v < 2 ^ (7 * Suc k) \<Longrightarrow> length (encode_varint v []) \<le> Suc k" for k v
  proof (induction k arbitrary: v)
    case 0
    then show ?case by (simp add: encode_varint_Cons word_le_nat_alt)
  next
    case (Suc k)
    show ?case
    proof (cases "128 \<le> v")
      case True
      have "unat (drop_bit 7 v) < 2 ^ (7 * Suc k)"
        using Suc.prems by (simp add: drop_bit_eq_div unat_div less_mult_imp_div_less power_add)
      with Suc.IH True show ?thesis by (simp add: encode_varint_Cons)
    qed (simp add: encode_varint_Cons)
  qed
  from this [of v 9] show "length (encode_varint v []) \<le> 10"
    using unat_lt_exp [of v] by simp
qed

section \<open>What an address is\<close>

text \<open>
  The format: an address is a sequence of components, a protocol and what follows it, read from the
  front of the bytes that are left; lengths are natural numbers.
\<close>

lemma decode_loop_read:
  "decode_varint_loop bs v s i = Some (v', r) \<Longrightarrow>
   \<exists>k. r = i + of_nat (Suc k) \<and> k < length bs \<and> 7 * k + s \<le> 63 + (if k = 0 then s else 0)"
proof (induction bs v s i rule: decode_varint_loop.induct)
  case (2 byte input v s i)
  show ?case
  proof (cases "byte AND 128 = 0")
    case True
    with "2.prems" show ?thesis by (intro exI [of _ 0]) (simp add: Let_def)
  next
    case False
    with "2.prems" have s: "\<not> 63 < s + 7"
      and d: "decode_varint_loop input (v OR push_bit s (ucast (byte AND 127))) (s + 7) (i + 1) = Some (v', r)"
      by (simp_all add: Let_def split: if_splits)
    from "2.IH" [OF refl refl False refl this] obtain k where "r = i + 1 + of_nat (Suc k)" "k < length input"
      "7 * k + (s + 7) \<le> 63 + (if k = 0 then s + 7 else 0)"
      by blast
    with s show ?thesis by (intro exI [of _ "Suc k"]) (auto simp: add.assoc split: if_splits)
  qed
qed simp

lemma decode_varint_read:
  assumes "decode_varint bs = Some (v, r)"
  shows "0 < unat r" and "unat r \<le> length bs"
proof -
  obtain k where r: "r = of_nat (Suc k)" and k: "k < length bs" "7 * k \<le> 63"
    using decode_loop_read [of bs 0 0 0 v r] assms by (auto simp: decode_varint_def split: if_splits)
  then have "unat r = Suc k" by (simp add: unat_of_nat del: of_nat_Suc)
  with k show "0 < unat r" and "unat r \<le> length bs" by simp_all
qed

definition payload_length :: "u64 \<Rightarrow> bytes \<Rightarrow> MultiaddrError + nat" where
  "payload_length proto bs =
     (if proto = IP4 then Inr 4
      else if proto = IP6 then Inr 16
      else if proto = TCP \<or> proto = UDP then Inr 2
      else if proto = WS \<or> proto = WSS then Inr 0
      else if proto = DNS4 \<or> proto = DNS6 \<or> proto = DNSADDR \<or> proto = P2P
      then case decode_varint bs of None \<Rightarrow> Inl InvalidVarint | Some (len, read) \<Rightarrow> Inr (unat read + unat len)
      else Inl InvalidProtocol)"

function parse_components :: "bytes \<Rightarrow> u64 \<Rightarrow> MultiaddrError + u64" where
  "parse_components bs last_proto =
     (if bs = [] then Inr last_proto
      else case decode_varint bs of None \<Rightarrow> Inl InvalidVarint | Some (proto, read) \<Rightarrow>
        case payload_length proto (drop (unat read) bs) of Inl e \<Rightarrow> Inl e | Inr n \<Rightarrow>
        if length bs < unat read + n then Inl Truncated
        else parse_components (drop (unat read + n) bs) proto)"
  by auto
termination
  by (relation "measure (\<lambda>(bs, p). length bs)") (auto dest: decode_varint_read(1))

declare parse_components.simps [simp del]

definition parse_multiaddr :: "bytes \<Rightarrow> MultiaddrError + bytes" where
  "parse_multiaddr bytes =
     (case parse_components bytes 0 of Inl e \<Rightarrow> Inl e
      | Inr last_proto \<Rightarrow> if last_proto \<noteq> P2P then Inl InvalidProtocol else Inr bytes)"

section \<open>The verification follows the format\<close>

lemma unat_bytes_len: "length bytes < 2 ^ 32 \<Longrightarrow> unat (bytes_len bytes) = length bytes"
  by (simp add: bytes_len_def unat_of_nat)

lemma advance_exact:
  assumes "length bytes < 2 ^ 32" and "unat i + n \<le> length bytes" and "unat len = n"
  shows "advance bytes i len = Inr (i + len)" and "unat (i + len) = unat i + n"
proof -
  show u: "unat (i + len) = unat i + n"
    using assms by (subst unat_add_lem [THEN iffD1]) auto
  then show "advance bytes i len = Inr (i + len)"
    using assms by (simp add: advance_def word_less_nat_alt unat_bytes_len)
qed

lemma advance_fixed:
  assumes "length bytes < 2 ^ 32" and "unat i + n \<le> length bytes"
  shows "\<exists>j. advance bytes i (of_nat n) = Inr j \<and> unat j = unat i + n"
  using advance_exact [OF assms, of "of_nat n"] assms by (simp add: unat_of_nat)

text \<open>One turn of the loop on a position that is in range agrees with the format.\<close>

lemma verify_component_parse:
  assumes "length bytes < 2 ^ 32" and "unat i \<le> length bytes"
    and "decode_varint (drop (unat i) bytes) = Some (proto, read)"
  shows "payload_length proto (drop (unat read) (drop (unat i) bytes)) = Inl e \<Longrightarrow> verify_component bytes i = Inl e"
    and "payload_length proto (drop (unat read) (drop (unat i) bytes)) = Inr n \<Longrightarrow>
      unat i + unat read + n \<le> length bytes \<Longrightarrow>
      \<exists>j. verify_component bytes i = Inr (j, proto) \<and> unat j = unat i + unat read + n"
proof -
  have "unat i + unat read \<le> length bytes"
    using decode_varint_read(2) [OF assms(3)] assms(2) by simp
  then have u: "unat (i + read) = unat i + unat read"
    using advance_exact(2) [OF assms(1), of i "unat read" read] by simp
  then have d: "drop (unat read) (drop (unat i) bytes) = drop (unat (i + read)) bytes"
    by (simp add: add.commute)
  show "verify_component bytes i = Inl e"
    if "payload_length proto (drop (unat read) (drop (unat i) bytes)) = Inl e"
    using that assms(3) unfolding d
    by (auto simp: verify_component_def payload_length_def Let_def split: if_splits option.splits)
  show "\<exists>j. verify_component bytes i = Inr (j, proto) \<and> unat j = unat i + unat read + n"
    if p: "payload_length proto (drop (unat read) (drop (unat i) bytes)) = Inr n"
      and le: "unat i + unat read + n \<le> length bytes"
  proof (cases "proto = DNS4 \<or> proto = DNS6 \<or> proto = DNSADDR \<or> proto = P2P")
    case True
    then obtain len r where dl: "decode_varint (drop (unat (i + read)) bytes) = Some (len, r)"
      and n: "n = unat r + unat len"
      using p unfolding d by (auto simp: payload_length_def split: option.splits)
    have r: "unat (i + read + r) = unat i + unat read + unat r"
      using advance_exact(2) [OF assms(1), of "i + read" "unat r" r] u le n by simp
    have "unat (ucast len :: usize) = unat len"
      using le n assms(1) by (simp add: unsigned_ucast_eq take_bit_nat_eq_self)
    with advance_exact [OF assms(1), of "i + read + r" "unat len" "ucast len"] r le n
    have "advance bytes (i + read + r) (ucast len) = Inr (i + read + r + ucast len)"
      and "unat (i + read + r + ucast len) = unat i + unat read + n" by simp_all
    with True assms(3) dl show ?thesis by (auto simp: verify_component_def Let_def)
  next
    case False
    with p have c: "proto = IP4 \<and> n = 4 \<or> proto = IP6 \<and> n = 16 \<or> (proto = TCP \<or> proto = UDP) \<and> n = 2 \<or>
        (proto = WS \<or> proto = WSS) \<and> n = 0"
      by (auto simp: payload_length_def split: if_splits)
    obtain j where "advance bytes (i + read) (of_nat n) = Inr j" "unat j = unat i + unat read + n"
      using advance_fixed [OF assms(1), of "i + read" n] u le by auto
    with c assms(3) show ?thesis by (auto simp: verify_component_def Let_def)
  qed
qed

lemma verify_loop_parse:
  assumes "length bytes < 2 ^ 32"
  shows "unat i \<le> length bytes \<Longrightarrow> parse_components (drop (unat i) bytes) last_proto \<noteq> Inl Truncated \<Longrightarrow>
    verify_loop bytes i last_proto = Some (parse_components (drop (unat i) bytes) last_proto)"
proof (induction "length bytes - unat i" arbitrary: i last_proto rule: less_induct)
  case less
  let ?bs = "drop (unat i) bytes"
  show ?case
  proof (cases "unat i < length bytes")
    case False
    then show ?thesis
      by (simp add: verify_loop.simps [of bytes i] word_less_nat_alt unat_bytes_len [OF assms]
          parse_components.simps [of "[]"])
  next
    case True
    then have lt: "i < bytes_len bytes" and ne: "?bs \<noteq> []"
      by (simp_all add: word_less_nat_alt unat_bytes_len [OF assms])
    note ps = parse_components.simps [of ?bs last_proto]
    show ?thesis
    proof (cases "decode_varint ?bs")
      case None
      with lt ne ps show ?thesis by (simp add: verify_loop.simps [of bytes i] verify_component_def)
    next
      case (Some pr)
      then obtain proto read where dv: "decode_varint ?bs = Some (proto, read)" by (cases pr) auto
      note vc = verify_component_parse [OF assms less.prems(1) dv]
      show ?thesis
      proof (cases "payload_length proto (drop (unat read) ?bs)")
        case (Inl e)
        with vc(1) lt ne dv ps show ?thesis by (simp add: verify_loop.simps [of bytes i])
      next
        case (Inr n)
        with less.prems(2) ne dv ps have "unat read + n \<le> length ?bs" by (simp split: if_splits)
        then have le: "unat i + unat read + n \<le> length bytes" using True by simp
        then obtain j where j: "verify_component bytes i = Inr (j, proto)" "unat j = unat i + unat read + n"
          using vc(2) [OF Inr] by blast
        have "drop (unat read + n) ?bs = drop (unat j) bytes" using j(2) by (simp add: ac_simps)
        moreover have "\<not> length ?bs < unat read + n" using le True by simp
        ultimately have "parse_components ?bs last_proto = parse_components (drop (unat j) bytes) proto"
          using ne dv ps Inr by simp
        moreover have "length bytes - unat j < length bytes - unat i"
          using j(2) le True decode_varint_read(1) [OF dv] by simp
        ultimately show ?thesis
          using less.hyps [of j proto] less.prems(2) j le lt by (simp add: verify_loop.simps [of bytes i])
      qed
    qed
  qed
qed

lemma verify_parse:
  assumes "length bytes < 2 ^ 32" and "parse_multiaddr bytes \<noteq> Inl Truncated"
  shows "verify bytes = Some (parse_multiaddr bytes)"
proof -
  have "parse_components bytes 0 \<noteq> Inl Truncated"
    using assms(2) by (auto simp: parse_multiaddr_def)
  with verify_loop_parse [OF assms(1), of 0 0] show ?thesis
    by (simp add: verify_def parse_multiaddr_def split: sum.split)
qed

end
