(* ===== verification/Multiaddr_Properties.thy ===== *)
theory Multiaddr_Properties
  imports Multiaddr
begin

text \<open>
  What the check of multiaddresses guarantees, and where it does not return.
\<close>

section \<open>Accepted addresses\<close>

text \<open>A component with its payload, and its bytes.\<close>

definition length_prefixed :: "u64 \<Rightarrow> bool" where
  "length_prefixed proto \<longleftrightarrow> proto = 54 \<or> proto = 55 \<or> proto = 56 \<or> proto = 421"

fun component_ok :: "u64 \<times> bytes \<Rightarrow> bool" where
  "component_ok (proto, payload) \<longleftrightarrow>
     proto = 4 \<and> length payload = 4 \<or> proto = 41 \<and> length payload = 16 \<or>
     (proto = 6 \<or> proto = 17) \<and> length payload = 2 \<or> (proto = 477 \<or> proto = 478) \<and> payload = [] \<or>
     length_prefixed proto \<and> length payload < 2 ^ 64"

fun component_bytes :: "u64 \<times> bytes \<Rightarrow> bytes" where
  "component_bytes (proto, payload) =
     encode_varint proto [] @
     (if length_prefixed proto then encode_varint (of_nat (length payload)) [] else []) @ payload"

lemma unat_encoded_length [simp]:
  "unat (of_nat (length (encode_varint v [])) :: usize) = length (encode_varint v [])"
  using encode_varint_length(2) [of v] by (simp add: unat_of_nat)

lemma parse_component:
  assumes "component_ok c"
  shows "parse_components (component_bytes c @ rest) p = parse_components rest (fst c)"
proof -
  obtain proto payload where c: "c = (proto, payload)" by (cases c)
  let ?tail = "(if length_prefixed proto then encode_varint (of_nat (length payload)) [] else []) @ payload @ rest"
  let ?r = "length (encode_varint proto [])"
  have bs: "component_bytes c @ rest = encode_varint proto [] @ ?tail" by (simp add: c)
  have n: "payload_length proto ?tail =
      Inr (length payload + (if length_prefixed proto then length (encode_varint (of_nat (length payload)) []) else 0))"
  proof (cases "length_prefixed proto")
    case True
    with assms have "unat (of_nat (length payload) :: u64) = length payload"
      by (auto simp: c length_prefixed_def unat_of_nat)
    with True show ?thesis by (auto simp: payload_length_def length_prefixed_def decode_encode_varint)
  qed (use assms in \<open>auto simp: c payload_length_def\<close>)
  have "parse_components (encode_varint proto [] @ ?tail) p = parse_components rest proto"
    using encode_varint_length(1) [of proto] n
    by (subst parse_components.simps) (simp add: decode_encode_varint)
  then show ?thesis unfolding bs by (simp add: c)
qed

lemma parse_concat:
  "\<forall>c \<in> set cs. component_ok c \<Longrightarrow>
   parse_components (concat (map component_bytes cs)) p = Inr (if cs = [] then p else fst (last cs))"
  by (induction cs arbitrary: p) (simp_all add: parse_component parse_components.simps [of "[]"])

text \<open>
  What is built from components is accepted: the bytes of any sequence of components with payloads
  of the right size that ends with a peer identifier verify, and a sequence with another end is an
  invalid protocol.
\<close>

lemma encoded_multiaddr_verifies:
  assumes "\<forall>c \<in> set cs. component_ok c" and "bytes = concat (map component_bytes cs)"
    and "length bytes < 2 ^ 32"
  shows "verify bytes = Some (if cs \<noteq> [] \<and> fst (last cs) = 421 then Inr bytes else Inl InvalidProtocol)"
  using parse_concat [OF assms(1), of 0] verify_parse [OF assms(3)] assms(2)
  by (simp add: parse_multiaddr_def split: if_splits)

text \<open>Applied: \<open>/ip4/127.0.0.1/tcp/443/p2p/...\<close> with a peer identifier of two bytes.\<close>

lemma encoded_multiaddr_verifies_example:
  "\<exists>bytes. bytes = concat (map component_bytes [(4, [127, 0, 0, 1]), (6, [1, 187]), (421, [18, 32])]) \<and>
     verify bytes = Some (Inr bytes)"
  using encoded_multiaddr_verifies [OF _ refl, of "[(4, [127, 0, 0, 1]), (6, [1, 187]), (421, [18, 32])]"]
    encode_varint_length(2) [of 4] encode_varint_length(2) [of 6] encode_varint_length(2) [of 421]
    encode_varint_length(2) [of 2]
  by (simp add: length_prefixed_def)

text \<open>
  C37: on addresses that are not truncated the check returns, with the verdict of the format: the
  wrapping positions and lengths of the implementation agree with natural numbers, and every error is
  the one the format names.
\<close>

theorem verify_follows_format:
  assumes "length bytes < 2 ^ 32" and "parse_multiaddr bytes \<noteq> Inl Truncated"
  shows "verify bytes = Some (parse_multiaddr bytes)"
  using assms by (rule verify_parse)

text \<open>
  Applied: \<open>/ip4/127.0.0.1/tcp/443/p2p/...\<close> is accepted; the same without its last component is refused,
  since it does not end with a peer identifier.
\<close>

theorem verify_follows_format_witness:
  "\<exists>bytes peer. bytes = concat (map component_bytes [(4, [127, 0, 0, 1]), (6, [1, 187])]) \<and>
     peer = component_bytes (421, [18, 32]) \<and> verify (bytes @ peer) = Some (Inr (bytes @ peer)) \<and>
     verify bytes = Some (Inl InvalidProtocol)"
proof -
  let ?cs = "[(4, [127, 0, 0, 1]), (6, [1, 187])] :: (u64 \<times> bytes) list"
  let ?bytes = "concat (map component_bytes ?cs)" and ?peer = "component_bytes (421, [18, 32])"
  have ok: "\<forall>c \<in> set (?cs @ [(421, [18, 32])]). component_ok c" "\<forall>c \<in> set ?cs. component_ok c"
    by (simp_all add: length_prefixed_def)
  have cat: "concat (map component_bytes (?cs @ [(421, [18, 32])])) = ?bytes @ ?peer" by (simp only: map_append concat_append) simp
  have p: "parse_multiaddr (?bytes @ ?peer) = Inr (?bytes @ ?peer)" "parse_multiaddr ?bytes = Inl InvalidProtocol"
    using parse_concat [OF ok(1), of 0, unfolded cat] parse_concat [OF ok(2), of 0]
    by (simp_all only: parse_multiaddr_def) simp_all
  have "length (?bytes @ ?peer) < 2 ^ 32" "length ?bytes < 2 ^ 32"
    using encode_varint_length(2) [of 4] encode_varint_length(2) [of 6] encode_varint_length(2) [of 421]
      encode_varint_length(2) [of 2] by (simp_all add: length_prefixed_def)
  then have "verify (?bytes @ ?peer) = Some (Inr (?bytes @ ?peer))" "verify ?bytes = Some (Inl InvalidProtocol)"
    using verify_follows_format [of "?bytes @ ?peer", unfolded p] verify_follows_format [of ?bytes, unfolded p]
    by simp_all
  then show ?thesis by blast
qed

section \<open>Addresses the check never finishes\<close>

lemma verify_component_back:
  assumes "bytes = 54 # encode_varint (2 ^ 32 - 6) [] @ rest" and "length bytes < 2 ^ 32"
  shows "verify_component bytes 0 = Inr (0, 54)"
proof -
  have l: "length (encode_varint (2 ^ 32 - 6) []) = 5"
    by (simp add: encode_varint_Cons drop_bit_eq_div)
  have "encode_varint 54 [] = [54]" by (simp add: encode_varint_Cons)
  then have d: "decode_varint bytes = Some (54, 1)"
    using decode_encode_varint [of 54 "encode_varint (2 ^ 32 - 6) [] @ rest"] assms(1) by simp
  have "decode_varint (drop 1 bytes) = Some (2 ^ 32 - 6, 5)"
    using decode_encode_varint [of "2 ^ 32 - 6" rest] assms(1) l by simp
  moreover have "\<not> bytes_len bytes < 4294967296" by (simp add: word_less_nat_alt)
  ultimately show ?thesis using d by (simp add: verify_component_def Let_def advance_def)
qed

lemma verify_loop_stuck:
  assumes "verify_component bytes i = Inr (i, p)" and "i < bytes_len bytes"
  shows "verify_loop bytes i q = None"
proof -
  have "\<not> (bs = bytes \<and> j = i)" if "verify_loop bs j q = Some r" for bs j q r
  proof (rule verify_loop.raw_induct [where P = "\<lambda>bs j q r. \<not> (bs = bytes \<and> j = i)", OF _ that])
    fix loop and bs :: bytes and j :: usize and q r
    assume "\<And>bs j q r. loop bs j q = Some r \<Longrightarrow> \<not> (bs = bytes \<and> j = i)"
      and "(if j < bytes_len bs then case verify_component bs j of Inl e \<Rightarrow> Some (Inl e)
          | Inr (j, proto) \<Rightarrow> loop bs j proto else Some (Inr q)) = Some r"
    with assms show "\<not> (bs = bytes \<and> j = i)" by fastforce
  qed
  then show ?thesis by (cases "verify_loop bytes i q") auto
qed

text \<open>
  C38: the check does not return on an address whose first component is a name of length \<open>2\<^sup>3\<^sup>2 - 6\<close>:
  adding the length wraps the position back to the start, which is not past the end, and the loop
  reads the same component again, for ever.
\<close>

theorem verify_diverges:
  assumes "bytes = 54 # encode_varint (2 ^ 32 - 6) [] @ rest" and "length bytes < 2 ^ 32"
  shows "verify bytes = None"
proof -
  have "0 < bytes_len bytes"
    using assms by (simp add: word_less_nat_alt unat_bytes_len)
  with verify_loop_stuck [OF verify_component_back [OF assms]] show ?thesis
    by (simp add: verify_def)
qed

text \<open>Applied: six bytes are enough.\<close>

theorem verify_diverges_witness: "verify [54, 250, 255, 255, 255, 15] = None"
proof -
  have "encode_varint (2 ^ 32 - 6) [] = [250, 255, 255, 255, 15]"
    by (simp add: encode_varint_Cons drop_bit_eq_div)
  with verify_diverges [of _ "[]"] show ?thesis by simp
qed

end
