(* ===== verification/Node_Storage.thy ===== *)
theory Node_Storage
  imports Epochs Multiaddr
begin

text \<open>
  Subnet nodes and what the network stores about them (\<open>lib.rs\<close>): their classes, the records of
  active, registered and queued nodes, the indices by peer identifier, multiaddress and unique
  parameter, the election slots with their inverse, the counters, the burn rates and the keys of
  validators.
\<close>

section \<open>Classes of nodes\<close>

datatype SubnetNodeClass = RegisteredClass | Idle | Included | Validator

fun class_repr :: "SubnetNodeClass \<Rightarrow> nat" where
  "class_repr RegisteredClass = 0"
| "class_repr Idle = 1"
| "class_repr Included = 2"
| "class_repr Validator = 3"

fun class_from_repr :: "nat \<Rightarrow> SubnetNodeClass option" where
  "class_from_repr n =
     (if n = 0 then Some RegisteredClass else if n = 1 then Some Idle else if n = 2 then Some Included
      else if n = 3 then Some Validator else None)"

text \<open>The derived order of the classes.\<close>

instantiation SubnetNodeClass :: linorder
begin

definition "c \<le> d \<longleftrightarrow> class_repr c \<le> class_repr d"

definition "c < d \<longleftrightarrow> class_repr c < class_repr d"

lemma class_repr_inject: "class_repr c = class_repr d \<longleftrightarrow> c = d"
  by (cases c; cases d) simp_all

instance
  by intro_classes
    (auto simp: less_eq_SubnetNodeClass_def less_SubnetNodeClass_def class_repr_inject simp flip: class_repr_inject)

end

definition next_class :: "SubnetNodeClass \<Rightarrow> SubnetNodeClass" where
  "next_class self =
     (let new_value = class_repr self + 1
      in case class_from_repr new_value of Some c \<Rightarrow> c | None \<Rightarrow> self)"

definition previous_class :: "SubnetNodeClass \<Rightarrow> SubnetNodeClass" where
  "previous_class self =
     (if self = RegisteredClass then RegisteredClass
      else let new_value = class_repr self - 1
           in case class_from_repr new_value of Some c \<Rightarrow> c | None \<Rightarrow> self)"

lemma next_class_simps [simp]:
  "next_class RegisteredClass = Idle" "next_class Idle = Included"
  "next_class Included = Validator" "next_class Validator = Validator"
  by (simp_all add: next_class_def)

record SubnetNodeClassification =
  node_class :: SubnetNodeClass
  class_start_epoch :: u32

section \<open>Nodes\<close>

type_synonym PeerId = bytes

record PeerInfo =
  peer_id :: PeerId
  peer_multiaddr :: "bytes option"

record SubnetNode =
  sn_id :: u32
  sn_validator_id :: u32
  sn_peer_info :: PeerInfo
  sn_bootnode_peer_info :: "PeerInfo option"
  sn_client_peer_info :: "PeerInfo option"
  sn_classification :: SubnetNodeClassification
  sn_unique :: "bytes option"
  sn_non_unique :: "bytes option"

definition has_classification :: "SubnetNode \<Rightarrow> SubnetNodeClass \<Rightarrow> u32 \<Rightarrow> bool" where
  "has_classification self required the_subnet_epoch \<longleftrightarrow>
     node_class (sn_classification self) \<ge> required \<and>
     class_start_epoch (sn_classification self) \<le> the_subnet_epoch"

definition DefaultColdkeyReputation :: Reputation where
  "DefaultColdkeyReputation =
     \<lparr>start_epoch = 0, score = 500000000000000000, lifetime_node_count = 0, total_active_nodes = 0,
      total_increases = 0, total_decreases = 0, average_attestation = 0, last_validator_epoch = 0,
      ow_score = 500000000000000\<rparr>"

section \<open>Storage\<close>

record 'c network_slots = "'c network_epochs" +
  SlotAssignment :: "u32 \<rightharpoonup> u32"
  AssignedSlots :: "u32 set"
  NodeSlotIndex :: "u32 \<times> u32 \<rightharpoonup> u32"
  TotalSubnetElectableNodes :: "u32 \<Rightarrow> u32"
  TotalElectableNodes :: u32

record 'c network_nodes = "'c network_slots" +
  SubnetNodesData :: "u32 \<times> u32 \<rightharpoonup> SubnetNode"
  RegisteredSubnetNodesData :: "u32 \<times> u32 \<rightharpoonup> SubnetNode"
  SubnetNodeQueue :: "u32 \<Rightarrow> SubnetNode list"
  PeerIdSubnetNodeId :: "u32 \<times> PeerId \<rightharpoonup> u32"
  BootnodePeerIdSubnetNodeId :: "u32 \<times> PeerId \<rightharpoonup> u32"
  ClientPeerIdSubnetNodeId :: "u32 \<times> PeerId \<rightharpoonup> u32"
  MultiaddrSubnetNodeId :: "u32 \<times> bytes \<rightharpoonup> u32"
  UniqueParamSubnetNodeId :: "u32 \<times> bytes \<rightharpoonup> u32"
  PeerIdOverwatchNodeId :: "u32 \<times> PeerId \<rightharpoonup> u32"
  SubnetNodeIdHotkey :: "u32 \<times> u32 \<rightharpoonup> account_id"
  SubnetNodeIdleConsecutiveEpochs :: "u32 \<times> u32 \<Rightarrow> u32"
  SubnetNodeConsecutiveIncludedEpochs :: "u32 \<times> u32 \<Rightarrow> u32"
  TotalSubnetNodeUids :: "u32 \<Rightarrow> u32"
  TotalSubnetNodes :: "u32 \<Rightarrow> u32"
  TotalNodes :: u32
  TotalActiveSubnetNodes :: "u32 \<Rightarrow> u32"
  MaxRegisteredNodesOf :: "u32 \<Rightarrow> u32"
  NodeRegistrationInitialValidatorIds :: "u32 \<rightharpoonup> (u32, u32) btree_map"
  InitialValidatorData :: "u32 \<rightharpoonup> (u32, u32) btree_map"
  SubnetRegistrationEpoch :: "u32 \<rightharpoonup> u32"
  SubnetRegistrationEpochs :: u32
  SubnetEnactmentEpochs :: u32

record 'c network_burn = "'c network_nodes" +
  CurrentNodeBurnRate :: "u32 \<Rightarrow> u128"
  BaseNodeBurnAmount :: u128
  MinNodeBurnRate :: u128
  MaxNodeBurnRate :: u128
  NodeBurnRateAlpha :: "u32 \<Rightarrow> u128"
  TargetNodeRegistrationsPerEpoch :: "u32 \<Rightarrow> u32"
  NodeRegistrationsThisEpoch :: "u32 \<Rightarrow> u32"

record 'c network_keys = "'c network_burn" +
  TotalValidatorIds :: u32
  ValidatorIdHotkey :: "u32 \<rightharpoonup> account_id"
  ColdkeyValidatorId :: "account_id \<rightharpoonup> u32"
  ValidatorColdkeyHotkey :: "account_id \<rightharpoonup> account_id"
  HotkeyValidatorId :: "account_id \<rightharpoonup> u32"
  MaxRewardRateDecrease :: u128
  NodeRewardRateUpdatePeriod :: u32
  MaxDelegateStakePercentage :: u128

record AttestEntry =
  at_block :: u32
  attestor_progress :: u128
  at_reward_factor :: u128
  at_data :: "bytes option"

record SubnetNodeConsensusData =
  cd_subnet_node_id :: u32
  cd_score :: u128

record ConsensusData =
  cs_validator_id :: u32
  cs_block :: u32
  cs_validator_epoch_progress :: u128
  cs_validator_reward_factor :: u128
  cs_validator_ids :: "u32 list"
  cs_attests :: "(u32, AttestEntry) btree_map"
  cs_subnet_nodes :: "SubnetNode list"
  cs_prioritize_queue_node_id :: "u32 option"
  cs_remove_queue_node_id :: "u32 option"
  cs_data :: "SubnetNodeConsensusData list"
  cs_args :: "bytes option"

record DistributionData =
  subnets_emissions :: u128
  subnet_weights :: "(u32, u128) btree_map"

record 'c network_rewards = "'c network_keys" +
  SubnetConsensusSubmission :: "u32 \<times> u32 \<rightharpoonup> ConsensusData"
  QueueImmunityEpochs :: "u32 \<Rightarrow> u32"
  ValidatorRewardMidpoint :: u128
  ValidatorRewardK :: u64
  AttestorMinRewardFactor :: u128
  AttestorRewardExponent :: u64
  MinAttestationPercentage :: u128
  SuperMajorityAttestationRatio :: u128
  BaseValidatorReward :: u128
  BaseSlashPercentage :: u128
  MaxSlashAmount :: u128
  MinSubnetNodeReputation :: "u32 \<Rightarrow> u128"
  IdleClassificationEpochs :: "u32 \<Rightarrow> u32"
  IncludedClassificationEpochs :: "u32 \<Rightarrow> u32"
  SubnetNodeMinWeightDecreaseReputationThreshold :: "u32 \<Rightarrow> u128"
  InConsensusSubnetReputationFactor :: u128
  NotInConsensusSubnetReputationFactor :: u128
  ValidatorAbsentSubnetReputationFactor :: u128
  ValidatorReputationIncreaseFactor :: u128
  ValidatorReputationDecreaseFactor :: u128
  RewardsCapacitor :: "u32 \<Rightarrow> u128"
  SubnetOwner :: "u32 \<rightharpoonup> account_id"
  SubnetOwnerPercentage :: u128
  SubnetDelegateStakeRewardsPercentage :: "u32 \<Rightarrow> u128"
  FinalSubnetEmissionWeights :: "u32 \<rightharpoonup> DistributionData"
  ChurnLimit :: "u32 \<Rightarrow> u32"
  ChurnLimitMultiplier :: "u32 \<Rightarrow> u32"
  SubnetNodeQueueEpochs :: "u32 \<Rightarrow> u32"

end
