(* ===== verification/Election_Slots.thy ===== *)
theory Election_Slots
  imports Node_Storage
begin

text \<open>
  Slots: the block of an epoch in which a subnet is served (\<open>utilities/subnet.rs\<close>), and the list of a
  subnet's nodes that can be elected, with the index of every node in it
  (\<open>utilities/subnet_node.rs\<close>). A node leaves the list by swapping the last one into its place.
\<close>

section \<open>Subnet slots\<close>

definition get_available_subnet_slot :: "'c Config \<Rightarrow> ('c, 'm) network_slots_scheme \<Rightarrow> Error + u32" where
  "get_available_subnet_slot cfg s =
     (let epoch_length = EpochLength cfg;
          max_slots = epoch_length - DesignatedEpochSlots cfg;
          assigned_slots = AssignedSlots s in
      if \<not> of_nat (card assigned_slots) < max_slots then Inl NoAvailableSlots
      else case find (\<lambda>slot. slot \<notin> assigned_slots)
                  (map of_nat [unat (DesignatedEpochSlots cfg)..<unat epoch_length]) of
             None \<Rightarrow> Inl NoAvailableSlots
           | Some free_slot \<Rightarrow> Inr free_slot)"

definition insert_subnet_slot_assignment ::
  "u32 \<Rightarrow> u32 \<Rightarrow> ('c, 'm) network_slots_scheme \<Rightarrow> ('c, 'm) network_slots_scheme" where
  "insert_subnet_slot_assignment subnet_id free_slot s =
     s\<lparr>AssignedSlots := insert free_slot (AssignedSlots s),
       SubnetSlot := (SubnetSlot s)(subnet_id \<mapsto> free_slot),
       SlotAssignment := (SlotAssignment s)(free_slot \<mapsto> subnet_id)\<rparr>"

definition assign_subnet_slot ::
  "'c Config \<Rightarrow> u32 \<Rightarrow> ('c, 'm) network_slots_scheme \<Rightarrow> (('c, 'm) network_slots_scheme, u32) outcome" where
  "assign_subnet_slot cfg subnet_id s =
     (case get_available_subnet_slot cfg s of Inl e \<Rightarrow> (s, Inl e)
      | Inr free_slot \<Rightarrow> (insert_subnet_slot_assignment subnet_id free_slot s, Inr free_slot))"

definition free_slot_of_subnet ::
  "u32 \<Rightarrow> ('c, 'm) network_slots_scheme \<Rightarrow> ('c, 'm) network_slots_scheme" where
  "free_slot_of_subnet subnet_id s =
     (case SubnetSlot s subnet_id of None \<Rightarrow> s
      | Some slot \<Rightarrow>
          s\<lparr>SubnetSlot := (SubnetSlot s)(subnet_id := None),
            SlotAssignment := (SlotAssignment s)(slot := None),
            AssignedSlots := AssignedSlots s - {slot}\<rparr>)"

section \<open>Election slots\<close>

definition can_insert_node_into_election_slot :: "u32 \<Rightarrow> u32 \<Rightarrow> ('c, 'm) network_slots_scheme \<Rightarrow> bool" where
  "can_insert_node_into_election_slot subnet_id subnet_node_id s \<longleftrightarrow>
     \<not> subnet_node_id \<in> set (SubnetNodeElectionSlots s subnet_id)"

text \<open>Pushing a node that is not in the list, shared by registration and graduation.\<close>

definition push_election_slot ::
  "u32 \<Rightarrow> u32 \<Rightarrow> ('c, 'm) network_slots_scheme \<Rightarrow> ('c, 'm) network_slots_scheme" where
  "push_election_slot subnet_id subnet_node_id s =
     (let slot_list = SubnetNodeElectionSlots s subnet_id;
          idx = of_nat (length slot_list)
      in s\<lparr>SubnetNodeElectionSlots := (SubnetNodeElectionSlots s)(subnet_id := slot_list @ [subnet_node_id]),
           NodeSlotIndex := (NodeSlotIndex s)((subnet_id, subnet_node_id) \<mapsto> idx),
           TotalSubnetElectableNodes := (TotalSubnetElectableNodes s)(subnet_id :=
             saturating_add (TotalSubnetElectableNodes s subnet_id) 1),
           TotalElectableNodes := saturating_add (TotalElectableNodes s) 1\<rparr>)"

definition insert_node_into_election_slot ::
  "u32 \<Rightarrow> u32 \<Rightarrow> ('c, 'm) network_slots_scheme \<Rightarrow> ('c, 'm) network_slots_scheme \<times> bool" where
  "insert_node_into_election_slot subnet_id subnet_node_id s =
     (if \<not> subnet_node_id \<in> set (SubnetNodeElectionSlots s subnet_id)
      then (push_election_slot subnet_id subnet_node_id s, True)
      else (s, False))"

fun position :: "('a \<Rightarrow> bool) \<Rightarrow> 'a list \<Rightarrow> nat option" where
  "position P [] = None"
| "position P (x # xs) = (if P x then Some 0 else map_option Suc (position P xs))"

definition swap_remove :: "nat \<Rightarrow> 'a list \<Rightarrow> 'a list" where
  "swap_remove pos xs = butlast (xs[pos := last xs])"

definition remove_node_from_election_slot ::
  "u32 \<Rightarrow> u32 \<Rightarrow> ('c, 'm) network_slots_scheme \<Rightarrow> ('c, 'm) network_slots_scheme \<times> bool" where
  "remove_node_from_election_slot subnet_id subnet_node_id s =
     (let slot_list = SubnetNodeElectionSlots s subnet_id in
      case position (\<lambda>node_id. node_id = subnet_node_id) slot_list of
        None \<Rightarrow> (s, False)
      | Some pos \<Rightarrow>
      let last_idx = length slot_list - 1;
          slot_list = swap_remove pos slot_list;
          s = (if pos \<noteq> last_idx
               then s\<lparr>NodeSlotIndex := (NodeSlotIndex s)((subnet_id, slot_list ! pos) \<mapsto> of_nat pos)\<rparr>
               else s)
      in (s\<lparr>SubnetNodeElectionSlots := (SubnetNodeElectionSlots s)(subnet_id := slot_list),
            NodeSlotIndex := (NodeSlotIndex s)((subnet_id, subnet_node_id) := None),
            TotalSubnetElectableNodes := (TotalSubnetElectableNodes s)(subnet_id :=
              saturating_sub (TotalSubnetElectableNodes s subnet_id) 1),
            TotalElectableNodes := saturating_sub (TotalElectableNodes s) 1\<rparr>, True))"

section \<open>The slot table\<close>

text \<open>
  The three views of the slots agree: a subnet has a slot exactly if the slot is assigned to it, and
  all assigned slots lie after the designated ones.
\<close>

definition slots_ok :: "'c Config \<Rightarrow> ('c, 'm) network_slots_scheme \<Rightarrow> bool" where
  "slots_ok cfg s \<longleftrightarrow>
     (\<forall>i k. SubnetSlot s i = Some k \<longleftrightarrow> SlotAssignment s k = Some i) \<and>
     AssignedSlots s = dom (SlotAssignment s) \<and>
     (\<forall>k \<in> AssignedSlots s. DesignatedEpochSlots cfg \<le> k \<and> k < EpochLength cfg)"

lemma find_SomeD: "find P xs = Some x \<Longrightarrow> P x \<and> x \<in> set xs"
  by (induction xs) (auto split: if_splits)

lemma slot_range:
  assumes "d \<le> (L :: u32)"
  shows "set (map of_nat [unat d..<unat L]) = {k :: u32. d \<le> k \<and> k < L}"
proof (intro equalityI subsetI)
  fix k :: u32 assume "k \<in> set (map of_nat [unat d..<unat L])"
  then obtain n where n: "k = of_nat n" "unat d \<le> n" "n < unat L" by auto
  then have "unat k = n" using unat_lt_exp [of L] by (simp add: unat_of_nat)
  with n show "k \<in> {k. d \<le> k \<and> k < L}" by (simp add: word_le_nat_alt word_less_nat_alt)
next
  fix k assume "k \<in> {k. d \<le> k \<and> k < L}"
  then have "unat k \<in> set [unat d..<unat L]" by (simp add: word_le_nat_alt word_less_nat_alt)
  then show "k \<in> set (map of_nat [unat d..<unat L])"
    unfolding set_map by (intro image_eqI [of _ _ "unat k"]) simp_all
qed

lemma card_slot_range:
  assumes "d \<le> (L :: u32)"
  shows "card {k :: u32. d \<le> k \<and> k < L} = unat L - unat d"
proof -
  have "inj_on (of_nat :: nat \<Rightarrow> u32) {unat d..<unat L}"
    using unat_lt_exp [of L] by (intro inj_onI) (auto dest!: arg_cong [of _ _ unat] simp: unat_of_nat)
  then show ?thesis
    unfolding slot_range [OF assms, symmetric] by (simp add: card_image)
qed

text \<open>A slot is found exactly if not all of them are taken.\<close>

lemma get_available_subnet_slot_free:
  assumes "slots_ok cfg s" and "DesignatedEpochSlots cfg \<le> EpochLength cfg"
  shows "get_available_subnet_slot cfg s = Inr k \<Longrightarrow>
      k \<notin> AssignedSlots s \<and> DesignatedEpochSlots cfg \<le> k \<and> k < EpochLength cfg"
    and "get_available_subnet_slot cfg s = Inl e \<longleftrightarrow> e = NoAvailableSlots \<and>
      AssignedSlots s = {k. DesignatedEpochSlots cfg \<le> k \<and> k < EpochLength cfg}"
proof -
  let ?d = "DesignatedEpochSlots cfg" and ?L = "EpochLength cfg" and ?A = "AssignedSlots s"
  let ?R = "{k. ?d \<le> k \<and> k < ?L}"
  have sub: "?A \<subseteq> ?R" using assms(1) by (auto simp: slots_ok_def)
  have R: "card ?R = unat ?L - unat ?d" by (rule card_slot_range [OF assms(2)])
  have m: "unat (?L - ?d) = card ?R" using assms(2) R by (simp add: unat_sub word_le_nat_alt)
  have "card ?A \<le> card ?R" using sub by (intro card_mono) auto
  then have c: "unat (of_nat (card ?A) :: u32) = card ?A"
    using R unat_lt_exp [of ?L] by (simp add: unat_of_nat)
  have full: "card ?A < card ?R \<longleftrightarrow> ?A \<noteq> ?R"
    using sub psubset_card_mono [of ?R ?A] by auto
  have f: "find (\<lambda>slot. slot \<notin> ?A) (map of_nat [unat ?d..<unat ?L]) = None \<longleftrightarrow> ?R \<subseteq> ?A"
    unfolding find_None_iff slot_range [OF assms(2)] by auto
  show "k \<notin> ?A \<and> ?d \<le> k \<and> k < ?L" if "get_available_subnet_slot cfg s = Inr k"
  proof -
    from that have "find (\<lambda>slot. slot \<notin> ?A) (map of_nat [unat ?d..<unat ?L]) = Some k"
      by (auto simp: get_available_subnet_slot_def Let_def split: if_splits option.splits)
    from find_SomeD [OF this] show ?thesis unfolding slot_range [OF assms(2)] by simp
  qed
  show "get_available_subnet_slot cfg s = Inl e \<longleftrightarrow> e = NoAvailableSlots \<and> ?A = ?R"
    using sub full f c m
    by (auto simp: get_available_subnet_slot_def Let_def word_less_nat_alt split: if_splits option.splits)
qed

lemma slots_ok_insert:
  assumes "slots_ok cfg s" and "SubnetSlot s i = None" and "k \<notin> AssignedSlots s"
    and "DesignatedEpochSlots cfg \<le> k" and "k < EpochLength cfg"
  shows "slots_ok cfg (insert_subnet_slot_assignment i k s)"
proof -
  have "SlotAssignment s k = None" using assms(1,3) by (auto simp: slots_ok_def)
  moreover have "SlotAssignment s k' \<noteq> Some i" for k' using assms(1,2) by (metis option.distinct(1) slots_ok_def)
  moreover have "SubnetSlot s i' \<noteq> Some k" for i' using assms(1) calculation(1) by (metis option.distinct(1) slots_ok_def)
  ultimately show ?thesis
    using assms by (auto simp: slots_ok_def insert_subnet_slot_assignment_def)
qed

lemma slots_ok_free:
  assumes "slots_ok cfg s"
  shows "slots_ok cfg (free_slot_of_subnet i s)"
proof (cases "SubnetSlot s i")
  case (Some k)
  have eq: "SubnetSlot s i = Some k \<longleftrightarrow> SlotAssignment s k = Some i" for i k
    using assms by (simp add: slots_ok_def)
  have a: "SlotAssignment s k' = Some i \<longleftrightarrow> k' = k" and b: "SubnetSlot s i' = Some k \<longleftrightarrow> i' = i" for i' k'
    using eq [of i k'] eq [of i' k] eq [of i k] Some by auto
  have f: "free_slot_of_subnet i s = s\<lparr>SubnetSlot := (SubnetSlot s)(i := None),
      SlotAssignment := (SlotAssignment s)(k := None), AssignedSlots := AssignedSlots s - {k}\<rparr>"
    by (simp add: free_slot_of_subnet_def Some)
  show ?thesis
    using assms a b unfolding f by (auto simp: slots_ok_def)
qed (use assms in \<open>simp add: free_slot_of_subnet_def\<close>)

section \<open>The list of electable nodes\<close>

text \<open>
  The list of a subnet has no node twice, the index of a node is its position, and the counters are the
  length of the list and the sum over all subnets.
\<close>

definition election_ok :: "('c, 'm) network_slots_scheme \<Rightarrow> bool" where
  "election_ok s \<longleftrightarrow>
     (\<forall>i. distinct (SubnetNodeElectionSlots s i) \<and>
          length (SubnetNodeElectionSlots s i) = unat (TotalSubnetElectableNodes s i) \<and>
          (\<forall>n k. NodeSlotIndex s (i, n) = Some k \<longleftrightarrow>
             unat k < length (SubnetNodeElectionSlots s i) \<and> SubnetNodeElectionSlots s i ! unat k = n)) \<and>
     unat (TotalElectableNodes s) = total (TotalSubnetElectableNodes s)"

lemma position_None: "position P xs = None \<longleftrightarrow> (\<forall>x\<in>set xs. \<not> P x)"
  by (induction xs) auto

lemma position_Some: "position P xs = Some k \<Longrightarrow> k < length xs \<and> P (xs ! k)"
  by (induction xs arbitrary: k) (auto split: if_splits)

lemma swap_remove_length [simp]: "length (swap_remove k xs) = length xs - 1"
  by (simp add: swap_remove_def)

lemma swap_remove_nth:
  "j < length xs - 1 \<Longrightarrow> swap_remove k xs ! j = (if j = k then last xs else xs ! j)"
  by (simp add: swap_remove_def nth_butlast nth_list_update)

lemma swap_remove_distinct:
  assumes "distinct xs" and "k < length xs"
  shows "distinct (swap_remove k xs)" and "set (swap_remove k xs) = set xs - {xs ! k}"
proof -
  have ne: "xs \<noteq> []" using assms(2) by auto
  have l: "last xs = xs ! (length xs - 1)" using ne by (rule last_conv_nth)
  have d: "xs ! i = xs ! j \<longleftrightarrow> i = j" if "i < length xs" "j < length xs" for i j
    using assms(1) that by (rule nth_eq_iff_index_eq)
  show "distinct (swap_remove k xs)"
    unfolding distinct_conv_nth by (auto simp: swap_remove_nth l d)
  show "set (swap_remove k xs) = set xs - {xs ! k}"
  proof (intro equalityI subsetI)
    fix x assume "x \<in> set (swap_remove k xs)"
    then obtain j where "j < length xs - 1" "x = (if j = k then last xs else xs ! j)"
      by (auto simp: in_set_conv_nth swap_remove_nth)
    then show "x \<in> set xs - {xs ! k}" using assms(2) by (auto simp: l d split: if_splits)
  next
    fix x assume "x \<in> set xs - {xs ! k}"
    then obtain j where j: "j < length xs" "x = xs ! j" "j \<noteq> k" by (auto simp: in_set_conv_nth)
    show "x \<in> set (swap_remove k xs)"
    proof (cases "j = length xs - 1")
      case True
      then have "swap_remove k xs ! k = x" using j assms(2) by (simp add: swap_remove_nth l)
      then show ?thesis using True j assms(2) by (auto simp: in_set_conv_nth intro!: exI [of _ k])
    next
      case False
      then have "swap_remove k xs ! j = x" using j by (simp add: swap_remove_nth)
      then show ?thesis using False j by (auto simp: in_set_conv_nth intro!: exI [of _ j])
    qed
  qed
qed

text \<open>Where the nodes are after one was removed: the last one has moved.\<close>

lemma swap_remove_index:
  assumes "distinct xs" and "p < length xs"
  shows "j < length xs - 1 \<and> swap_remove p xs ! j = m \<longleftrightarrow>
    m \<noteq> xs ! p \<and> (if p \<noteq> length xs - 1 \<and> m = last xs then j = p else j < length xs \<and> xs ! j = m)"
proof -
  have l: "last xs = xs ! (length xs - 1)" using assms(2) by (intro last_conv_nth) auto
  have e: "a < length xs \<Longrightarrow> b < length xs \<Longrightarrow> xs ! a = xs ! b \<longleftrightarrow> a = b" for a b
    using assms(1) by (rule nth_eq_iff_index_eq)
  have z: "length xs - 1 < length xs" using assms(2) by simp
  show ?thesis
  proof (cases "j < length xs - 1")
    case True
    then have "j < length xs" by simp
    with True e [OF this assms(2)] e [OF this z] e [OF assms(2) z] show ?thesis
      by (auto simp: swap_remove_nth l)
  next
    case False
    with e [OF assms(2) z] z assms(2) show ?thesis
      by (cases "j = length xs - 1") (auto simp: l)
  qed
qed

lemma unat_suc_lt:
  fixes x :: "'a::len word"
  assumes "x \<noteq> - 1"
  shows "unat x + 1 < 2 ^ LENGTH('a)"
proof -
  have "unat x \<noteq> unat (- 1 :: 'a word)" using assms by (simp add: word_unat_eq_iff)
  then show ?thesis using unat_le_exp [of x] unfolding unat_max_word by simp
qed

lemma election_ok_push:
  assumes "election_ok s" and "n \<notin> set (SubnetNodeElectionSlots s i)" and "TotalElectableNodes s \<noteq> - 1"
  shows "election_ok (push_election_slot i n s)"
proof -
  let ?xs = "SubnetNodeElectionSlots s i" and ?c = "TotalSubnetElectableNodes s"
  have t: "unat (TotalElectableNodes s) = total ?c" and len: "length ?xs = unat (?c i)"
    and idx: "NodeSlotIndex s (i, m) = Some k \<longleftrightarrow> unat k < length ?xs \<and> ?xs ! unat k = m" for m k
    using assms(1) by (simp_all add: election_ok_def)
  have T: "unat (TotalElectableNodes s) + 1 < 2 ^ 32"
    using unat_suc_lt [OF assms(3)] by simp
  then have lt: "unat (?c i) + 1 < 2 ^ 32" using t total_ge [of ?c i] by simp
  have u: "unat (saturating_add (?c i) 1) = unat (?c i) + 1"
    "unat (saturating_add (TotalElectableNodes s) 1) = unat (TotalElectableNodes s) + 1"
    using T lt by (simp_all add: unat_saturating_add)
  have "total (?c(i := saturating_add (?c i) 1)) = total ?c + 1"
    using total_upd [of ?c i "saturating_add (?c i) 1"] u by simp
  moreover have o: "unat (of_nat (length ?xs) :: u32) = length ?xs" using lt len by (simp add: unat_of_nat)
  moreover have "NodeSlotIndex (push_election_slot i n s) (i, m) = Some k \<longleftrightarrow>
      unat k < length (?xs @ [n]) \<and> (?xs @ [n]) ! unat k = m" for m k
  proof (cases "m = n")
    case True
    have "?xs ! unat k \<noteq> n" if "unat k < length ?xs" using assms(2) that by (metis nth_mem)
    then show ?thesis
      using True o by (auto simp: push_election_slot_def Let_def nth_append less_Suc_eq word_unat_eq_iff)
  next
    case False
    then show ?thesis using idx by (auto simp: push_election_slot_def Let_def nth_append less_Suc_eq)
  qed
  ultimately show ?thesis
    using assms u t len by (simp add: election_ok_def push_election_slot_def Let_def)
qed

lemma election_ok_remove:
  assumes "election_ok s" and "remove_node_from_election_slot i n s = (s', b)"
  shows "election_ok s'" and "b \<longleftrightarrow> n \<in> set (SubnetNodeElectionSlots s i)"
    and "set (SubnetNodeElectionSlots s' i) = set (SubnetNodeElectionSlots s i) - {n}"
proof -
  let ?xs = "SubnetNodeElectionSlots s i" and ?c = "TotalSubnetElectableNodes s"
  have t: "unat (TotalElectableNodes s) = total ?c" and len: "length ?xs = unat (?c i)" and d: "distinct ?xs"
    and idx: "NodeSlotIndex s (i, m) = Some k \<longleftrightarrow> unat k < length ?xs \<and> ?xs ! unat k = m" for m k
    using assms(1) by (simp_all add: election_ok_def)
  have "election_ok s' \<and> (b \<longleftrightarrow> n \<in> set ?xs) \<and> set (SubnetNodeElectionSlots s' i) = set ?xs - {n}"
  proof (cases "position (\<lambda>m. m = n) ?xs")
    case None
    with assms show ?thesis
      by (auto simp: remove_node_from_election_slot_def Let_def position_None)
  next
    case (Some p)
    then have p: "p < length ?xs" "?xs ! p = n" by (auto dest: position_Some)
    let ?ys = "swap_remove p ?xs"
    note sr = swap_remove_distinct [OF d p(1)]
    have pos: "0 < unat (?c i)" using p(1) len by simp
    then have T: "0 < unat (TotalElectableNodes s)" using t total_ge [of ?c i] by simp
    have u: "unat (saturating_sub (?c i) 1) = unat (?c i) - 1"
      "unat (saturating_sub (TotalElectableNodes s) 1) = unat (TotalElectableNodes s) - 1"
      by (simp_all add: unat_saturating_sub)
    have "total (?c(i := saturating_sub (?c i) 1)) = total ?c - 1"
      using total_upd [of ?c i "saturating_sub (?c i) 1"] u pos by simp
    moreover have pw: "unat (of_nat p :: u32) = p" using p(1) len unat_lt_exp [of "?c i"] by (simp add: unat_of_nat)
    moreover have "NodeSlotIndex s' (i, m) = Some k \<longleftrightarrow> unat k < length ?ys \<and> ?ys ! unat k = m" for m k
    proof -
      have n': "NodeSlotIndex s' (i, m) =
          (if m = n then None else if p \<noteq> length ?xs - 1 \<and> m = last ?xs then Some (of_nat p)
           else NodeSlotIndex s (i, m))"
        using assms(2) Some p(1)
        by (auto simp: remove_node_from_election_slot_def Let_def swap_remove_nth split: if_splits)
      have "Some (of_nat p :: u32) = Some k \<longleftrightarrow> unat k = p" using pw by auto
      then show ?thesis
        using swap_remove_index [OF d p(1), of "unat k" m] idx [of m k] p(2) unfolding n' by auto
    qed
    moreover have s': "b" "SubnetNodeElectionSlots s' = (SubnetNodeElectionSlots s)(i := ?ys)"
      "TotalSubnetElectableNodes s' = ?c(i := saturating_sub (?c i) 1)"
      "TotalElectableNodes s' = saturating_sub (TotalElectableNodes s) 1"
      "i' \<noteq> i \<Longrightarrow> NodeSlotIndex s' (i', m) = NodeSlotIndex s (i', m)" for i' m
      using assms(2) Some by (auto simp: remove_node_from_election_slot_def Let_def)
    ultimately have "election_ok s'"
      using assms(1) u t len sr(1) pos T unfolding election_ok_def by simp
    with s' sr(2) p show ?thesis by (auto dest: nth_mem)
  qed
  then show "election_ok s'" and "b \<longleftrightarrow> n \<in> set ?xs"
    and "set (SubnetNodeElectionSlots s' i) = set ?xs - {n}" by blast+
qed

end
