(* ===== verification/Validator_Registry.thy ===== *)
theory Validator_Registry
  imports Election_Slots
begin

text \<open>
  Validators and their keys (\<open>lib.rs\<close>, \<open>utilities/validator.rs\<close>): registration, the change of the coldkey,
  the hotkey, the reward rate, the delegate account and the identity. Five maps relate validators,
  coldkeys and hotkeys.
\<close>

section \<open>Who owns a validator\<close>

definition ensure_canonical_validator_coldkey ::
  "account_id \<Rightarrow> u32 \<Rightarrow> ('c, 'm) network_keys_scheme \<Rightarrow> Error + unit" where
  "ensure_canonical_validator_coldkey coldkey validator_id s =
     (if ColdkeyValidatorId s coldkey \<noteq> Some validator_id then Inl NotKeyOwner
      else if ValidatorColdkey s validator_id \<noteq> Some coldkey then Inl NotKeyOwner
      else Inr ())"

definition get_canonical_validator_id_for_coldkey ::
  "account_id \<Rightarrow> ('c, 'm) network_keys_scheme \<Rightarrow> Error + u32" where
  "get_canonical_validator_id_for_coldkey coldkey s =
     (case ColdkeyValidatorId s coldkey of None \<Rightarrow> Inl NotKeyOwner | Some validator_id \<Rightarrow>
      case ensure_canonical_validator_coldkey coldkey validator_id s of Inl e \<Rightarrow> Inl e
      | Inr _ \<Rightarrow> Inr validator_id)"

definition ensure_canonical_validator_hotkey ::
  "u32 \<Rightarrow> account_id \<Rightarrow> account_id \<Rightarrow> ('c, 'm) network_keys_scheme \<Rightarrow> Error + unit" where
  "ensure_canonical_validator_hotkey validator_id coldkey hotkey s =
     (case ensure_canonical_validator_coldkey coldkey validator_id s of Inl e \<Rightarrow> Inl e | Inr _ \<Rightarrow>
      if ValidatorIdHotkey s validator_id \<noteq> Some hotkey then Inl NotKeyOwner
      else if ValidatorColdkeyHotkey s coldkey \<noteq> Some hotkey then Inl NotKeyOwner
      else case ValidatorsData s validator_id of None \<Rightarrow> Inl InvalidValidatorId | Some data \<Rightarrow>
      if vd_hotkey data \<noteq> hotkey then Inl NotKeyOwner
      else if HotkeyValidatorId s hotkey \<noteq> Some validator_id then Inl NotKeyOwner
      else Inr ())"

definition get_canonical_validator_hotkey ::
  "u32 \<Rightarrow> account_id \<Rightarrow> ('c, 'm) network_keys_scheme \<Rightarrow> Error + account_id" where
  "get_canonical_validator_hotkey validator_id coldkey s =
     (case ensure_canonical_validator_coldkey coldkey validator_id s of Inl e \<Rightarrow> Inl e | Inr _ \<Rightarrow>
      case ValidatorIdHotkey s validator_id of None \<Rightarrow> Inl InvalidValidatorId | Some hotkey \<Rightarrow>
      case ensure_canonical_validator_hotkey validator_id coldkey hotkey s of Inl e \<Rightarrow> Inl e
      | Inr _ \<Rightarrow> Inr hotkey)"

section \<open>Registration\<close>

definition validate_validator_delegate_account ::
  "DelegateAccount \<Rightarrow> account_id \<Rightarrow> account_id \<Rightarrow> Error + unit" where
  "validate_validator_delegate_account delegate_account hotkey coldkey =
     (if da_account_id delegate_account = hotkey then Inl DelegateAccountCannotBeHotkey
      else if da_account_id delegate_account = coldkey then Inl DelegateAccountCannotBeColdkey
      else if \<not> (da_rate delegate_account \<le> percentage_factor_as_u128 \<and> da_rate delegate_account > 0)
      then Inl InvalidDelegateAccountRate
      else Inr ())"

definition do_register_validator ::
  "RuntimeOrigin \<Rightarrow> account_id \<Rightarrow> u128 \<Rightarrow> DelegateAccount option \<Rightarrow> IdentityData option \<Rightarrow>
   ('c, 'm) network_keys_scheme \<Rightarrow> (('c, 'm) network_keys_scheme, unit) outcome"
where
  "do_register_validator origin hotkey delegate_reward_rate delegate_account identity s =
     (case ensure_signed origin of Inl e \<Rightarrow> (s, Inl e) | Inr coldkey \<Rightarrow>
      if coldkey = hotkey then (s, Inl ColdkeyMatchesHotkey)
      else if ValidatorColdkeyHotkey s coldkey \<noteq> None then (s, Inl NotKeyOwner)
      else if HotkeyValidatorId s hotkey \<noteq> None then (s, Inl NotKeyOwner)
      else case (case delegate_account of None \<Rightarrow> Inr ()
                 | Some a \<Rightarrow> validate_validator_delegate_account a hotkey coldkey) of
        Inl e \<Rightarrow> (s, Inl e)
      | Inr _ \<Rightarrow>
      let s = s\<lparr>TotalValidatorIds := TotalValidatorIds s + 1\<rparr>;
          validator_id = TotalValidatorIds s;
          validator_data = \<lparr>vd_id = validator_id, vd_hotkey = hotkey,
            vd_delegate_reward_rate = delegate_reward_rate, vd_last_delegate_reward_rate_update = 0,
            vd_delegate_account = delegate_account, vd_identity = identity\<rparr>
      in (s\<lparr>ValidatorIdHotkey := (ValidatorIdHotkey s)(validator_id \<mapsto> hotkey),
            ValidatorsData := (ValidatorsData s)(validator_id \<mapsto> validator_data),
            ColdkeyValidatorId := (ColdkeyValidatorId s)(coldkey \<mapsto> validator_id),
            ValidatorColdkey := (ValidatorColdkey s)(validator_id \<mapsto> coldkey),
            ValidatorColdkeyHotkey := (ValidatorColdkeyHotkey s)(coldkey \<mapsto> hotkey),
            HotkeyValidatorId := (HotkeyValidatorId s)(hotkey \<mapsto> validator_id)\<rparr>, Inr ()))"

definition register_validator ::
  "RuntimeOrigin \<Rightarrow> account_id \<Rightarrow> u128 \<Rightarrow> DelegateAccount option \<Rightarrow> IdentityData option \<Rightarrow>
   ('c, 'm) network_keys_scheme \<Rightarrow> (('c, 'm) network_keys_scheme, unit) outcome"
where
  "register_validator origin hotkey delegate_reward_rate delegate_account identity s =
     (case is_paused s of Inl e \<Rightarrow> (s, Inl e)
      | Inr _ \<Rightarrow> do_register_validator origin hotkey delegate_reward_rate delegate_account identity s)"

section \<open>Changing keys\<close>

definition update_validator_coldkey ::
  "RuntimeOrigin \<Rightarrow> u32 \<Rightarrow> account_id \<Rightarrow> ('c, 'm) network_keys_scheme \<Rightarrow>
   (('c, 'm) network_keys_scheme, unit) outcome"
where
  "update_validator_coldkey origin validator_id new_coldkey s =
     (case ensure_signed origin of Inl e \<Rightarrow> (s, Inl e) | Inr coldkey \<Rightarrow>
      case is_paused s of Inl e \<Rightarrow> (s, Inl e) | Inr _ \<Rightarrow>
      case ensure_canonical_validator_coldkey coldkey validator_id s of Inl e \<Rightarrow> (s, Inl e) | Inr _ \<Rightarrow>
      if new_coldkey = coldkey then (s, Inl NotKeyOwner)
      else case ValidatorIdHotkey s validator_id of None \<Rightarrow> (s, Inl InvalidValidatorId)
      | Some current_hotkey \<Rightarrow>
      if new_coldkey = current_hotkey then (s, Inl ColdkeyMatchesHotkey)
      else if ColdkeyValidatorId s new_coldkey \<noteq> None then (s, Inl NotKeyOwner)
      else if ValidatorColdkeyHotkey s new_coldkey \<noteq> None then (s, Inl NotKeyOwner)
      else if HotkeyValidatorId s new_coldkey \<noteq> None then (s, Inl NotKeyOwner)
      else (s\<lparr>ColdkeyValidatorId := (ColdkeyValidatorId s)(coldkey := None, new_coldkey \<mapsto> validator_id),
              ValidatorColdkey := (ValidatorColdkey s)(validator_id \<mapsto> new_coldkey),
              ValidatorColdkeyHotkey :=
                (ValidatorColdkeyHotkey s)(coldkey := None, new_coldkey \<mapsto> current_hotkey)\<rparr>, Inr ()))"

definition update_validator_hotkey ::
  "RuntimeOrigin \<Rightarrow> u32 \<Rightarrow> account_id \<Rightarrow> ('c, 'm) network_keys_scheme \<Rightarrow>
   (('c, 'm) network_keys_scheme, unit) outcome"
where
  "update_validator_hotkey origin validator_id new_hotkey s =
     (case ensure_signed origin of Inl e \<Rightarrow> (s, Inl e) | Inr coldkey \<Rightarrow>
      case is_paused s of Inl e \<Rightarrow> (s, Inl e) | Inr _ \<Rightarrow>
      case get_canonical_validator_hotkey validator_id coldkey s of Inl e \<Rightarrow> (s, Inl e)
      | Inr current_hotkey \<Rightarrow>
      if new_hotkey = coldkey then (s, Inl ColdkeyMatchesHotkey)
      else if new_hotkey = current_hotkey then (s, Inr ())
      else if ColdkeyValidatorId s new_hotkey \<noteq> None then (s, Inl HotkeyHasOwner)
      else if ValidatorColdkeyHotkey s new_hotkey \<noteq> None then (s, Inl HotkeyHasOwner)
      else if HotkeyValidatorId s new_hotkey \<noteq> None then (s, Inl HotkeyHasOwner)
      else
      let s = s\<lparr>HotkeyValidatorId := (HotkeyValidatorId s)(current_hotkey := None),
                ValidatorIdHotkey := (ValidatorIdHotkey s)(validator_id \<mapsto> new_hotkey),
                ValidatorColdkeyHotkey := (ValidatorColdkeyHotkey s)(coldkey \<mapsto> new_hotkey)\<rparr> in
      case ValidatorsData s validator_id of None \<Rightarrow> (s, Inl InvalidValidatorId)
      | Some params \<Rightarrow>
          (s\<lparr>ValidatorsData := (ValidatorsData s)(validator_id \<mapsto> params\<lparr>vd_hotkey := new_hotkey\<rparr>),
             HotkeyValidatorId := (HotkeyValidatorId s)(new_hotkey \<mapsto> validator_id)\<rparr>, Inr ()))"

section \<open>Reward rate, delegate account and identity\<close>

definition perform_update_validator_delegate_reward_rate ::
  "ValidatorData option \<Rightarrow> u32 \<Rightarrow> u128 \<Rightarrow> u32 \<Rightarrow> u128 \<Rightarrow> Error + ValidatorData" where
  "perform_update_validator_delegate_reward_rate maybe_params block new_delegate_reward_rate
       reward_rate_update_period max_reward_rate_decrease =
     (case maybe_params of None \<Rightarrow> Inl InvalidSubnetNodeId | Some params \<Rightarrow>
      let curr_delegate_reward_rate = vd_delegate_reward_rate params in
      if \<not> block - vd_last_delegate_reward_rate_update params \<ge> reward_rate_update_period
      then Inl MaxRewardRateUpdates
      else if new_delegate_reward_rate = curr_delegate_reward_rate then Inl NoDelegateRewardRateChange
      else if \<not> new_delegate_reward_rate > curr_delegate_reward_rate
              \<and> \<not> curr_delegate_reward_rate - new_delegate_reward_rate \<le> max_reward_rate_decrease
      then Inl SurpassesMaxRewardRateDecrease
      else Inr (params\<lparr>vd_last_delegate_reward_rate_update := block,
                       vd_delegate_reward_rate := new_delegate_reward_rate\<rparr>))"

definition do_update_validator_delegate_reward_rate ::
  "u32 \<Rightarrow> u128 \<Rightarrow> ('c, 'm) network_keys_scheme \<Rightarrow> (('c, 'm) network_keys_scheme, unit) outcome" where
  "do_update_validator_delegate_reward_rate validator_id new_delegate_reward_rate s =
     (let block = get_current_block_as_u32 s;
          max_reward_rate_decrease = MaxRewardRateDecrease s;
          reward_rate_update_period = NodeRewardRateUpdatePeriod s in
      if \<not> (new_delegate_reward_rate \<le> percentage_factor_as_u128
             \<and> new_delegate_reward_rate \<le> MaxDelegateStakePercentage s)
      then (s, Inl InvalidDelegateRewardRate)
      else case perform_update_validator_delegate_reward_rate (ValidatorsData s validator_id) block
                  new_delegate_reward_rate reward_rate_update_period max_reward_rate_decrease of
        Inl e \<Rightarrow> (s, Inl e)
      | Inr params \<Rightarrow> (s\<lparr>ValidatorsData := (ValidatorsData s)(validator_id \<mapsto> params)\<rparr>, Inr ()))"

definition update_validator_delegate_reward_rate ::
  "RuntimeOrigin \<Rightarrow> u32 \<Rightarrow> u128 \<Rightarrow> ('c, 'm) network_keys_scheme \<Rightarrow>
   (('c, 'm) network_keys_scheme, unit) outcome"
where
  "update_validator_delegate_reward_rate origin validator_id new_delegate_reward_rate s =
     (case ensure_signed origin of Inl e \<Rightarrow> (s, Inl e) | Inr coldkey \<Rightarrow>
      case is_paused s of Inl e \<Rightarrow> (s, Inl e) | Inr _ \<Rightarrow>
      case ensure_canonical_validator_coldkey coldkey validator_id s of Inl e \<Rightarrow> (s, Inl e)
      | Inr _ \<Rightarrow> do_update_validator_delegate_reward_rate validator_id new_delegate_reward_rate s)"

definition perform_update_validator_delegate_account ::
  "account_id \<Rightarrow> ValidatorData option \<Rightarrow> account_id option \<Rightarrow> u128 option \<Rightarrow> Error + ValidatorData" where
  "perform_update_validator_delegate_account validator_coldkey maybe_params delegate_account_id
       delegate_rate =
     (case maybe_params of None \<Rightarrow> Inl InvalidValidatorId | Some params \<Rightarrow>
      if delegate_account_id = None \<and> delegate_rate = None then Inl InvalidDelegateAccountParameters
      else case (case delegate_account_id of Some i \<Rightarrow> Inr i
                 | None \<Rightarrow> (case vd_delegate_account params of Some existing \<Rightarrow> Inr (da_account_id existing)
                            | None \<Rightarrow> Inl DelegateAccountIdIsNone)) of
        Inl e \<Rightarrow> Inl e
      | Inr account_id \<Rightarrow>
      case (case delegate_rate of Some r \<Rightarrow> Inr r
            | None \<Rightarrow> (case vd_delegate_account params of Some existing \<Rightarrow> Inr (da_rate existing)
                       | None \<Rightarrow> Inl DelegateAccountRateIsNone)) of
        Inl e \<Rightarrow> Inl e
      | Inr rate \<Rightarrow>
      let delegate_account = \<lparr>da_account_id = account_id, da_rate = rate\<rparr> in
      case validate_validator_delegate_account delegate_account (vd_hotkey params) validator_coldkey of
        Inl e \<Rightarrow> Inl e
      | Inr _ \<Rightarrow> Inr (params\<lparr>vd_delegate_account := Some delegate_account\<rparr>))"

definition do_update_validator_delegate_account ::
  "u32 \<Rightarrow> account_id \<Rightarrow> account_id option \<Rightarrow> u128 option \<Rightarrow> ('c, 'm) network_keys_scheme \<Rightarrow>
   (('c, 'm) network_keys_scheme, unit) outcome"
where
  "do_update_validator_delegate_account validator_id validator_coldkey delegate_account_id delegate_rate s =
     (case perform_update_validator_delegate_account validator_coldkey (ValidatorsData s validator_id)
             delegate_account_id delegate_rate of
        Inl e \<Rightarrow> (s, Inl e)
      | Inr params \<Rightarrow> (s\<lparr>ValidatorsData := (ValidatorsData s)(validator_id \<mapsto> params)\<rparr>, Inr ()))"

definition update_validator_delegate_account ::
  "RuntimeOrigin \<Rightarrow> u32 \<Rightarrow> account_id option \<Rightarrow> u128 option \<Rightarrow> ('c, 'm) network_keys_scheme \<Rightarrow>
   (('c, 'm) network_keys_scheme, unit) outcome"
where
  "update_validator_delegate_account origin validator_id delegate_account_id delegate_rate s =
     (case ensure_signed origin of Inl e \<Rightarrow> (s, Inl e) | Inr coldkey \<Rightarrow>
      case is_paused s of Inl e \<Rightarrow> (s, Inl e) | Inr _ \<Rightarrow>
      case ValidatorColdkey s validator_id of None \<Rightarrow> (s, Inl InvalidValidatorId)
      | Some validator_coldkey \<Rightarrow>
      if validator_coldkey \<noteq> coldkey then (s, Inl NotKeyOwner)
      else do_update_validator_delegate_account validator_id validator_coldkey delegate_account_id
             delegate_rate s)"

definition do_update_validator_identity ::
  "RuntimeOrigin \<Rightarrow> u32 \<Rightarrow> IdentityData option \<Rightarrow> ('c, 'm) network_keys_scheme \<Rightarrow>
   (('c, 'm) network_keys_scheme, unit) outcome"
where
  "do_update_validator_identity origin validator_id identity s =
     (case ensure_signed origin of Inl e \<Rightarrow> (s, Inl e) | Inr coldkey \<Rightarrow>
      case ValidatorColdkey s validator_id of None \<Rightarrow> (s, Inl InvalidValidatorId)
      | Some validator_coldkey \<Rightarrow>
      if coldkey \<noteq> validator_coldkey then (s, Inl NotKeyOwner)
      else case ValidatorsData s validator_id of None \<Rightarrow> (s, Inr ())
      | Some params \<Rightarrow>
          (s\<lparr>ValidatorsData := (ValidatorsData s)(validator_id \<mapsto> params\<lparr>vd_identity := identity\<rparr>)\<rparr>, Inr ()))"

definition update_validator_identity ::
  "RuntimeOrigin \<Rightarrow> u32 \<Rightarrow> IdentityData option \<Rightarrow> ('c, 'm) network_keys_scheme \<Rightarrow>
   (('c, 'm) network_keys_scheme, unit) outcome"
where
  "update_validator_identity origin validator_id identity s =
     (case is_paused s of Inl e \<Rightarrow> (s, Inl e)
      | Inr _ \<Rightarrow> do_update_validator_identity origin validator_id identity s)"

section \<open>The keys agree\<close>

text \<open>
  Validators, coldkeys and hotkeys correspond one to one, in all five maps, and identifiers are handed
  out in order.
\<close>

definition keys_ok :: "('c, 'm) network_keys_scheme \<Rightarrow> bool" where
  "keys_ok s \<longleftrightarrow>
     (\<forall>v k. ValidatorColdkey s v = Some k \<longleftrightarrow> ColdkeyValidatorId s k = Some v) \<and>
     (\<forall>v h. ValidatorIdHotkey s v = Some h \<longleftrightarrow> HotkeyValidatorId s h = Some v) \<and>
     (\<forall>k. ValidatorColdkeyHotkey s k = Option.bind (ColdkeyValidatorId s k) (ValidatorIdHotkey s)) \<and>
     (\<forall>v. (ValidatorsData s v = None \<longleftrightarrow> ValidatorIdHotkey s v = None) \<and>
          (ValidatorColdkey s v = None \<longleftrightarrow> ValidatorIdHotkey s v = None)) \<and>
     (\<forall>v d. ValidatorsData s v = Some d \<longrightarrow> vd_id d = v \<and> ValidatorIdHotkey s v = Some (vd_hotkey d)) \<and>
     (\<forall>v. TotalValidatorIds s < v \<longrightarrow> ValidatorsData s v = None)"

text \<open>What the registry stores about one validator when the books agree.\<close>

lemma keys_okD:
  assumes "keys_ok s"
  shows "ValidatorColdkey s v = Some k \<longleftrightarrow> ColdkeyValidatorId s k = Some v"
    and "ValidatorIdHotkey s v = Some h \<longleftrightarrow> HotkeyValidatorId s h = Some v"
    and "ValidatorColdkeyHotkey s k = Option.bind (ColdkeyValidatorId s k) (ValidatorIdHotkey s)"
    and "ValidatorsData s v = None \<longleftrightarrow> ValidatorIdHotkey s v = None"
    and "ValidatorColdkey s v = None \<longleftrightarrow> ValidatorIdHotkey s v = None"
    and "ValidatorsData s v = Some d \<Longrightarrow> vd_id d = v"
    and "ValidatorsData s v = Some d \<Longrightarrow> ValidatorIdHotkey s v = Some (vd_hotkey d)"
    and "TotalValidatorIds s < v \<Longrightarrow> ValidatorsData s v = None"
  using assms unfolding keys_ok_def by blast+

lemma keys_okI:
  assumes "\<And>v k. ValidatorColdkey s v = Some k \<longleftrightarrow> ColdkeyValidatorId s k = Some v"
    and "\<And>v h. ValidatorIdHotkey s v = Some h \<longleftrightarrow> HotkeyValidatorId s h = Some v"
    and "\<And>k. ValidatorColdkeyHotkey s k = Option.bind (ColdkeyValidatorId s k) (ValidatorIdHotkey s)"
    and "\<And>v. (ValidatorsData s v = None \<longleftrightarrow> ValidatorIdHotkey s v = None) \<and>
          (ValidatorColdkey s v = None \<longleftrightarrow> ValidatorIdHotkey s v = None)"
    and "\<And>v d. ValidatorsData s v = Some d \<Longrightarrow> vd_id d = v \<and> ValidatorIdHotkey s v = Some (vd_hotkey d)"
    and "\<And>v. TotalValidatorIds s < v \<Longrightarrow> ValidatorsData s v = None"
  shows "keys_ok s"
  using assms unfolding keys_ok_def by blast

lemma keys_ok_unused_coldkey:
  assumes "keys_ok s"
  shows "ValidatorColdkeyHotkey s k = None \<longleftrightarrow> ColdkeyValidatorId s k = None"
proof (cases "ColdkeyValidatorId s k")
  case (Some v)
  then have "ValidatorColdkey s v \<noteq> None" using keys_okD(1) [OF assms, of v k] by simp
  with Some show ?thesis using keys_okD(5) [OF assms, of v] by (simp add: keys_okD(3) [OF assms])
qed (simp add: keys_okD(3) [OF assms])

lemma keys_ok_fresh_id:
  assumes "keys_ok s" and "TotalValidatorIds s \<noteq> - 1"
  shows "ValidatorsData s (TotalValidatorIds s + 1) = None"
    and "ValidatorColdkey s (TotalValidatorIds s + 1) = None"
    and "ValidatorIdHotkey s (TotalValidatorIds s + 1) = None"
proof -
  have "TotalValidatorIds s < TotalValidatorIds s + 1" 
    using unat_suc_lt [OF assms(2)] by (simp add: word_less_nat_alt unat_word_ariths)
  then show "ValidatorsData s (TotalValidatorIds s + 1) = None" by (rule keys_okD(8) [OF assms(1)])
  then show "ValidatorIdHotkey s (TotalValidatorIds s + 1) = None"
    and "ValidatorColdkey s (TotalValidatorIds s + 1) = None"
    by (simp_all add: keys_okD(4,5) [OF assms(1)])
qed

lemma keys_ok_new_validator:
  fixes s :: "('c, 'm) network_keys_scheme"
  assumes "keys_ok s" and "ColdkeyValidatorId s k = None" and "HotkeyValidatorId s h = None"
    and "ValidatorsData s v = None" and "TotalValidatorIds s < v" and "vd_id d = v" and "vd_hotkey d = h"
  shows "keys_ok (s\<lparr>TotalValidatorIds := v, ValidatorIdHotkey := (ValidatorIdHotkey s)(v \<mapsto> h),
     ValidatorsData := (ValidatorsData s)(v \<mapsto> d), ColdkeyValidatorId := (ColdkeyValidatorId s)(k \<mapsto> v),
     ValidatorColdkey := (ValidatorColdkey s)(v \<mapsto> k),
     ValidatorColdkeyHotkey := (ValidatorColdkeyHotkey s)(k \<mapsto> h),
     HotkeyValidatorId := (HotkeyValidatorId s)(h \<mapsto> v)\<rparr>)"
proof -
  note ok = keys_okD [OF assms(1)]
  have n: "ValidatorIdHotkey s v = None" "ValidatorColdkey s v = None" using assms(4) ok(4,5) by simp_all
  have c: "ColdkeyValidatorId s w \<noteq> Some v" "HotkeyValidatorId s w' \<noteq> Some v" for w w'
    using n ok(1,2) [of v] by simp_all
  show ?thesis
  proof (rule keys_okI, goal_cases)
    case (1 w k') then show ?case using ok(1) [of w k'] c assms(2) by auto
  next
    case (2 w h') then show ?case using ok(2) [of w h'] c assms(3) by auto
  next
    case (3 k') then show ?case using c by (auto simp: ok(3) split: bind_splits)
  next
    case (4 w) then show ?case using ok(4,5) [of w] by auto
  next
    case (5 w e) then show ?case using ok(6,7) [of w e] assms(6,7) by (auto split: if_splits)
  next
    case (6 w) then show ?case using ok(8) [of w] assms(5) by (auto dest: order.strict_trans)
  qed
qed

text \<open>Coldkeys and hotkeys are unique.\<close>

lemma keys_ok_unique:
  assumes "keys_ok s"
  shows "ColdkeyValidatorId s k = Some v \<Longrightarrow> ColdkeyValidatorId s k' = Some v \<longleftrightarrow> k' = k"
    and "HotkeyValidatorId s h = Some v \<Longrightarrow> HotkeyValidatorId s h' = Some v \<longleftrightarrow> h' = h"
  using keys_okD(1,2) [OF assms, of v] by (metis option.inject)+

lemma keys_ok_new_coldkey:
  assumes "keys_ok s" and "ColdkeyValidatorId s c = Some v" and "ColdkeyValidatorId s k = None"
    and "ValidatorIdHotkey s v = Some h"
  shows "keys_ok (s\<lparr>ColdkeyValidatorId := (ColdkeyValidatorId s)(c := None, k \<mapsto> v),
     ValidatorColdkey := (ValidatorColdkey s)(v \<mapsto> k),
     ValidatorColdkeyHotkey := (ValidatorColdkeyHotkey s)(c := None, k \<mapsto> h)\<rparr>)"
proof -
  note ok = keys_okD [OF assms(1)] and c = keys_ok_unique(1) [OF assms(1,2)]
  show ?thesis
  proof (rule keys_okI, goal_cases)
    case (1 w k') then show ?case using ok(1) [of w k'] c [of k'] assms(2,3) by auto
  next
    case (2 w h') then show ?case using ok(2) by simp
  next
    case (3 k') then show ?case using assms(4) by (simp add: ok(3))
  next
    case (4 w) then show ?case using ok(4,5) [of w] assms(4) by auto
  next
    case (5 w e) then show ?case using ok(6,7) [of w e] by simp
  next
    case (6 w) then show ?case using ok(8) [of w] by simp
  qed
qed

lemma keys_ok_new_hotkey:
  assumes "keys_ok s" and "ColdkeyValidatorId s c = Some v" and "HotkeyValidatorId s k = None"
    and "ValidatorIdHotkey s v = Some h" and "ValidatorsData s v = Some d"
  shows "keys_ok (s\<lparr>ValidatorIdHotkey := (ValidatorIdHotkey s)(v \<mapsto> k),
     ValidatorColdkeyHotkey := (ValidatorColdkeyHotkey s)(c \<mapsto> k),
     ValidatorsData := (ValidatorsData s)(v \<mapsto> d\<lparr>vd_hotkey := k\<rparr>),
     HotkeyValidatorId := (HotkeyValidatorId s)(h := None, k \<mapsto> v)\<rparr>)"
proof -
  note ok = keys_okD [OF assms(1)] and c = keys_ok_unique(1) [OF assms(1,2)]
  have h: "HotkeyValidatorId s h = Some v" using assms(4) ok(2) by simp
  show ?thesis
  proof (rule keys_okI, goal_cases)
    case (1 w k') then show ?case using ok(1) by simp
  next
    case (2 w h') then show ?case using ok(2) [of w h'] keys_ok_unique(2) [OF assms(1) h, of h'] h assms(3) by auto
  next
    case (3 k') then show ?case using c [of k'] assms(2) by (auto simp: ok(3) split: bind_splits)
  next
    case (4 w) then show ?case using ok(4,5) [of w] assms(4) by auto
  next
    case (5 w e) then show ?case using ok(6,7) [of w] assms(5) by (auto split: if_splits)
  next
    case (6 w) then show ?case using ok(8) [of w] assms(5) by auto
  qed
qed

lemma keys_ok_new_data:
  assumes "keys_ok s" and "ValidatorsData s v = Some d" and "vd_id d' = vd_id d" and "vd_hotkey d' = vd_hotkey d"
  shows "keys_ok (s\<lparr>ValidatorsData := (ValidatorsData s)(v \<mapsto> d')\<rparr>)"
proof -
  note ok = keys_okD [OF assms(1)]
  show ?thesis
  proof (rule keys_okI, goal_cases)
    case (1 w k') then show ?case using ok(1) by simp
  next
    case (2 w h') then show ?case using ok(2) by simp
  next
    case (3 k') then show ?case by (simp add: ok(3))
  next
    case (4 w) then show ?case using ok(4,5) [of w] assms(2) by auto
  next
    case (5 w e) then show ?case using ok(6,7) [of w] assms(2-4) by (auto split: if_splits)
  next
    case (6 w) then show ?case using ok(8) [of w] assms(2) by auto
  qed
qed

section \<open>The calls keep them agreeing\<close>

datatype RegistryCall =
    RegisterValidator account_id u128 "DelegateAccount option" "IdentityData option"
  | UpdateValidatorColdkey u32 account_id
  | UpdateValidatorHotkey u32 account_id
  | UpdateValidatorDelegateRewardRate u32 u128
  | UpdateValidatorDelegateAccount u32 "account_id option" "u128 option"
  | UpdateValidatorIdentity u32 "IdentityData option"

fun registry_call_body ::
  "RuntimeOrigin \<Rightarrow> RegistryCall \<Rightarrow> ('c, 'm) network_keys_scheme \<Rightarrow> (('c, 'm) network_keys_scheme, unit) outcome"
where
  "registry_call_body origin (RegisterValidator h r a i) = register_validator origin h r a i"
| "registry_call_body origin (UpdateValidatorColdkey v k) = update_validator_coldkey origin v k"
| "registry_call_body origin (UpdateValidatorHotkey v h) = update_validator_hotkey origin v h"
| "registry_call_body origin (UpdateValidatorDelegateRewardRate v r) =
     update_validator_delegate_reward_rate origin v r"
| "registry_call_body origin (UpdateValidatorDelegateAccount v a r) =
     update_validator_delegate_account origin v a r"
| "registry_call_body origin (UpdateValidatorIdentity v i) = update_validator_identity origin v i"

definition dispatch_registry_call ::
  "RuntimeOrigin \<Rightarrow> RegistryCall \<Rightarrow> ('c, 'm) network_keys_scheme \<Rightarrow> (('c, 'm) network_keys_scheme, unit) outcome"
where
  "dispatch_registry_call origin call = dispatch (registry_call_body origin call)"

lemma keys_ok_register_validator:
  assumes "keys_ok s" and "TotalValidatorIds s \<noteq> - 1"
    and "register_validator origin h r a i s = (s', Inr u)"
  shows "keys_ok s'"
proof -
  from assms(3) obtain k where "ValidatorColdkeyHotkey s k = None" and h: "HotkeyValidatorId s h = None"
    and s': "s' = s\<lparr>TotalValidatorIds := TotalValidatorIds s + 1,
       ValidatorIdHotkey := (ValidatorIdHotkey s)(TotalValidatorIds s + 1 \<mapsto> h),
       ValidatorsData := (ValidatorsData s)(TotalValidatorIds s + 1 \<mapsto>
         \<lparr>vd_id = TotalValidatorIds s + 1, vd_hotkey = h, vd_delegate_reward_rate = r,
          vd_last_delegate_reward_rate_update = 0, vd_delegate_account = a, vd_identity = i\<rparr>),
       ColdkeyValidatorId := (ColdkeyValidatorId s)(k \<mapsto> TotalValidatorIds s + 1),
       ValidatorColdkey := (ValidatorColdkey s)(TotalValidatorIds s + 1 \<mapsto> k),
       ValidatorColdkeyHotkey := (ValidatorColdkeyHotkey s)(k \<mapsto> h),
       HotkeyValidatorId := (HotkeyValidatorId s)(h \<mapsto> TotalValidatorIds s + 1)\<rparr>"
    by (auto simp: register_validator_def do_register_validator_def Let_def split: sum.splits if_splits)
  then have "ColdkeyValidatorId s k = None" by (simp add: keys_ok_unused_coldkey [OF assms(1)])
  moreover have "TotalValidatorIds s < TotalValidatorIds s + 1"
    using unat_suc_lt [OF assms(2)] by (simp add: word_less_nat_alt unat_word_ariths)
  ultimately show ?thesis unfolding s'
    by (intro keys_ok_new_validator [OF assms(1) _ h keys_ok_fresh_id(1) [OF assms(1,2)]]) simp_all
qed

lemma keys_ok_update_validator_coldkey:
  assumes "keys_ok s" and "update_validator_coldkey origin v k s = (s', Inr u)"
  shows "keys_ok s'"
  using assms(2) keys_ok_new_coldkey [OF assms(1)]
  by (auto simp: update_validator_coldkey_def ensure_canonical_validator_coldkey_def
      split: sum.splits if_splits option.splits)

lemma keys_ok_update_validator_hotkey:
  assumes "keys_ok s" and "update_validator_hotkey origin v k s = (s', Inr u)"
  shows "keys_ok s'"
  using assms(2) keys_ok_new_hotkey [OF assms(1)] assms(1)
  by (auto simp: update_validator_hotkey_def get_canonical_validator_hotkey_def Let_def
      ensure_canonical_validator_coldkey_def split: sum.splits if_splits option.splits)

lemma keys_ok_update_data:
  assumes "keys_ok s"
  shows "update_validator_delegate_reward_rate origin v r s = (s', Inr u) \<Longrightarrow> keys_ok s'"
    and "update_validator_delegate_account origin v a q s = (s', Inr u) \<Longrightarrow> keys_ok s'"
    and "update_validator_identity origin v i s = (s', Inr u) \<Longrightarrow> keys_ok s'"
  using assms keys_ok_new_data [OF assms]
  by (auto simp: update_validator_delegate_reward_rate_def do_update_validator_delegate_reward_rate_def
      perform_update_validator_delegate_reward_rate_def update_validator_delegate_account_def
      do_update_validator_delegate_account_def perform_update_validator_delegate_account_def
      update_validator_identity_def do_update_validator_identity_def Let_def
      split: sum.splits if_splits option.splits)

lemma keys_ok_dispatch:
  assumes "keys_ok s" and "TotalValidatorIds s \<noteq> - 1" and "dispatch_registry_call origin call s = (s', r)"
  shows "keys_ok s'"
proof (cases r)
  case (Inl e)
  with assms(1,3) show ?thesis by (auto simp: dispatch_registry_call_def dest: dispatch_Inl)
next
  case (Inr u)
  with assms(3) have "registry_call_body origin call s = (s', Inr u)"
    by (simp add: dispatch_registry_call_def dispatch_Inr)
  then show ?thesis
    by (cases call) (auto intro: keys_ok_register_validator [OF assms(1,2)] keys_ok_update_validator_coldkey
        [OF assms(1)] keys_ok_update_validator_hotkey [OF assms(1)] keys_ok_update_data [OF assms(1)])
qed

text \<open>The owner of a validator always finds its hotkey.\<close>

lemma canonical_hotkey_exists:
  assumes "keys_ok s" and "ensure_canonical_validator_coldkey k v s = Inr ()"
  shows "\<exists>h. get_canonical_validator_hotkey v k s = Inr h \<and> (\<forall>w. HotkeyValidatorId s h = Some w \<longleftrightarrow> w = v)"
proof -
  note ok = keys_okD [OF assms(1)]
  have k: "ColdkeyValidatorId s k = Some v" and "ValidatorColdkey s v = Some k"
    using assms(2) by (auto simp: ensure_canonical_validator_coldkey_def split: if_splits)
  then obtain h where h: "ValidatorIdHotkey s v = Some h" using ok(5) [of v] by auto
  moreover obtain d where "ValidatorsData s v = Some d" using h ok(4) [of v] by auto
  moreover have "HotkeyValidatorId s h = Some v" using h ok(2) by simp
  ultimately show ?thesis
    using assms(2) k ok(7) by (auto simp: get_canonical_validator_hotkey_def
        ensure_canonical_validator_hotkey_def ok(3))
qed

end
