(* ===== verification/Concrete_Nodes.thy ===== *)
theory Concrete_Nodes
  imports Concrete_Network Validator_Registry
begin

text \<open>
  The concrete network with its nodes: node 3 of subnet 5 belongs to validator 7 (coldkey 1, hotkey
  11) and is electable; the subnet is served in slot 25; validators have identifiers up to 7.
\<close>

definition example_node :: SubnetNode where
  "example_node =
     \<lparr>sn_id = 3, sn_validator_id = 7, sn_peer_info = \<lparr>peer_id = [1], peer_multiaddr = None\<rparr>,
      sn_bootnode_peer_info = None, sn_client_peer_info = None,
      sn_classification = \<lparr>node_class = Validator, class_start_epoch = 0\<rparr>,
      sn_unique = None, sn_non_unique = None\<rparr>"

definition example_slots :: "simple_balances network_slots" where
  "example_slots = network_epochs.extend (example_network\<lparr>SubnetNodeElectionSlots := (\<lambda>_. [])(5 := [3]),
       SubnetSlot := [5 \<mapsto> 25]\<rparr>)
     (network_slots.fields [25 \<mapsto> 5] {25} [(5, 3) \<mapsto> 0] ((\<lambda>_. 0)(5 := 1)) 1)"

definition example_nodes :: "simple_balances network_nodes" where
  "example_nodes = network_slots.extend example_slots
     (network_nodes.fields [(5, 3) \<mapsto> example_node] (\<lambda>_. None) (\<lambda>_. []) [(5, [1]) \<mapsto> 3] (\<lambda>_. None)
        (\<lambda>_. None) (\<lambda>_. None) (\<lambda>_. None) (\<lambda>_. None) [(5, 3) \<mapsto> 11] (\<lambda>_. 0) (\<lambda>_. 0)
        ((\<lambda>_. 0)(5 := 3)) ((\<lambda>_. 0)(5 := 1)) 1 ((\<lambda>_. 0)(5 := 1)) (\<lambda>_. 16) (\<lambda>_. None) (\<lambda>_. None)
        [5 \<mapsto> 0] 10 5)"

definition example_burn :: "simple_balances network_burn" where
  "example_burn = network_nodes.extend example_nodes
     (network_burn.fields (\<lambda>_. 10 ^ 18) 1000 (10 ^ 17) (5 * 10 ^ 18) (\<lambda>_. 10 ^ 17) (\<lambda>_. 4) (\<lambda>_. 0))"

definition example_keys :: "simple_balances network_keys" where
  "example_keys = network_burn.extend example_burn
     (network_keys.fields 7 [7 \<mapsto> 11] [1 \<mapsto> 7] [1 \<mapsto> 11] [11 \<mapsto> 7] (10 ^ 16) 100 (95 * 10 ^ 16))"

lemmas example_extends = network_epochs.extend_def network_slots.extend_def network_nodes.extend_def
  network_burn.extend_def network_slots.fields_def network_nodes.fields_def network_burn.fields_def
  network_keys.fields_def

lemmas example_state = example_keys_def example_burn_def example_nodes_def example_slots_def
  example_network_def example_extends

lemma example_slots_ok: "slots_ok example_config example_keys"
  by (auto simp: slots_ok_def example_state example_config_def split: if_splits)

lemma example_election_ok: "election_ok example_keys"
proof -
  have "total ((\<lambda>_ :: u32. 0 :: u32)(5 := 1)) = 1"
    using total_upd [of "\<lambda>_ :: u32. 0 :: u32" 5 1] by simp
  then show ?thesis
    by (auto simp: election_ok_def example_state unat_eq_zero split: if_splits)
qed

lemma example_keys_ok: "keys_ok example_keys"
  by (auto simp: keys_ok_def example_state example_validator_def split: if_splits bind_splits)

end
