(* ===== verification/Node_Properties.thy ===== *)
theory Node_Properties
  imports Concrete_Nodes
begin

text \<open>
  What the registry of validators, the slot table and the election slots guarantee.
\<close>

section \<open>Validators\<close>

text \<open>
  C39: validators, coldkeys and hotkeys stay in one-to-one correspondence, in all five maps that relate
  them, whatever registry call any origin makes (registration, a new coldkey, a new hotkey, a new
  reward rate, delegate account or identity), successful or not, as long as identifiers last.
\<close>

theorem validator_keys_agree:
  assumes "keys_ok s" and "TotalValidatorIds s \<noteq> - 1" and "dispatch_registry_call origin call s = (s', r)"
  shows "keys_ok s' \<and> (\<forall>k v. ensure_canonical_validator_coldkey k v s' = Inr () \<longrightarrow>
     (\<exists>h. get_canonical_validator_hotkey v k s' = Inr h \<and> (\<forall>w. HotkeyValidatorId s' h = Some w \<longleftrightarrow> w = v)))"
proof -
  have ok: "keys_ok s'" by (rule keys_ok_dispatch [OF assms])
  have "\<exists>h. get_canonical_validator_hotkey v k s' = Inr h \<and> (\<forall>w. HotkeyValidatorId s' h = Some w \<longleftrightarrow> w = v)"
    if c: "ensure_canonical_validator_coldkey k v s' = Inr ()" for k v
    by (rule canonical_hotkey_exists [OF ok c])
  with ok show ?thesis by blast
qed

text \<open>Applied: the validator of coldkey 1 takes hotkey 12.\<close>

theorem validator_keys_agree_witness:
  "\<exists>s'. dispatch_registry_call (Signed 1) (UpdateValidatorHotkey 7 12) example_keys = (s', Inr ()) \<and>
     keys_ok s' \<and> HotkeyValidatorId s' 12 = Some 7 \<and> HotkeyValidatorId s' 11 = None"
proof -
  let ?s' = "fst (dispatch_registry_call (Signed 1) (UpdateValidatorHotkey 7 12) example_keys)"
  have d: "dispatch_registry_call (Signed 1) (UpdateValidatorHotkey 7 12) example_keys = (?s', Inr ())"
    and "HotkeyValidatorId ?s' 12 = Some 7" and "HotkeyValidatorId ?s' 11 = None"
    by (simp_all add: dispatch_registry_call_def dispatch_def update_validator_hotkey_def ensure_signed_def
        is_paused_def get_canonical_validator_hotkey_def ensure_canonical_validator_hotkey_def
        ensure_canonical_validator_coldkey_def Let_def example_state example_validator_def)
  moreover have "keys_ok ?s'"
    using validator_keys_agree [OF example_keys_ok _ d] by (simp add: example_state)
  ultimately show ?thesis by blast
qed

section \<open>Slots\<close>

text \<open>
  A subnet gets a slot exactly if one is left. The slot is not one of the designated slots at the
  start of an epoch, no other subnet has it, and the three views of the slot table still agree; if
  every slot is taken the call fails and changes nothing.
\<close>

lemma assign_subnet_slot_sound_and_complete:
  assumes "slots_ok cfg s" and "DesignatedEpochSlots cfg \<le> EpochLength cfg" and "SubnetSlot s i = None"
    and "assign_subnet_slot cfg i s = (s', r)"
  shows "slots_ok cfg s' \<and>
    (case r of
       Inl e \<Rightarrow> s' = s \<and> AssignedSlots s = {k. DesignatedEpochSlots cfg \<le> k \<and> k < EpochLength cfg}
     | Inr k \<Rightarrow> SubnetSlot s' i = Some k \<and> DesignatedEpochSlots cfg \<le> k \<and> k < EpochLength cfg \<and>
         (\<forall>j. j \<noteq> i \<longrightarrow> SubnetSlot s' j = SubnetSlot s j \<and> SubnetSlot s j \<noteq> Some k))"
proof (cases "get_available_subnet_slot cfg s")
  case (Inl e)
  with get_available_subnet_slot_free(2) [OF assms(1,2), of e]
  have "AssignedSlots s = {k. DesignatedEpochSlots cfg \<le> k \<and> k < EpochLength cfg}" by blast
  moreover have "s' = s" "r = Inl e" using Inl assms(4) by (simp_all add: assign_subnet_slot_def)
  ultimately show ?thesis using assms(1) by simp
next
  case (Inr k)
  note free = get_available_subnet_slot_free(1) [OF assms(1,2) Inr]
  then have "SlotAssignment s k = None" using assms(1) by (auto simp: slots_ok_def)
  then have "SubnetSlot s j \<noteq> Some k" for j using assms(1) by (simp add: slots_ok_def)
  moreover have "slots_ok cfg (insert_subnet_slot_assignment i k s)"
    using slots_ok_insert [OF assms(1,3)] free by blast
  moreover have "r = Inr k" "s' = insert_subnet_slot_assignment i k s"
    using Inr assms(4) by (simp_all add: assign_subnet_slot_def)
  ultimately show ?thesis
    using free by (simp add: insert_subnet_slot_assignment_def)
qed

text \<open>Applied: subnet 6 gets the first slot after the designated ones.\<close>

lemma assign_subnet_slot_sound_and_complete_example:
  "\<exists>s'. assign_subnet_slot example_config 6 example_keys = (s', Inr 3) \<and> slots_ok example_config s'"
proof -
  have "DesignatedEpochSlots example_config \<le> EpochLength example_config" "SubnetSlot example_keys 6 = None"
    by (simp_all add: example_config_def example_state)
  note a = assign_subnet_slot_sound_and_complete [OF example_slots_ok this]
  have "get_available_subnet_slot example_config example_keys = Inr 3"
    by (simp add: get_available_subnet_slot_def example_config_def example_state upt_rec)
  then have d: "assign_subnet_slot example_config 6 example_keys =
      (insert_subnet_slot_assignment 6 3 example_keys, Inr 3)"
    by (simp add: assign_subnet_slot_def)
  from a [OF d] d show ?thesis by blast
qed

text \<open>
  C40: the list of a subnet's electable nodes, the index of every node in it and the counters stay
  consistent. A node that is not in the list is inserted at its end, and one that is there is refused. The
  removal of a node puts the last one into its place and drops the last place: this node and no other is
  gone, also from the index. The lists of the other subnets do not change. The network-wide counter is
  below its maximum.
\<close>

theorem election_slots_consistent:
  assumes "election_ok s" and "TotalElectableNodes s \<noteq> - 1"
    and "insert_node_into_election_slot i n s = (s1, b1)" and "remove_node_from_election_slot i n s = (s2, b2)"
  shows "election_ok s1 \<and> b1 = (n \<notin> set (SubnetNodeElectionSlots s i)) \<and>
    SubnetNodeElectionSlots s1 =
      (SubnetNodeElectionSlots s)(i := SubnetNodeElectionSlots s i @ (if b1 then [n] else [])) \<and>
    election_ok s2 \<and> b2 = (n \<in> set (SubnetNodeElectionSlots s i)) \<and>
    (if b2
     then \<exists>k < length (SubnetNodeElectionSlots s i). SubnetNodeElectionSlots s i ! k = n \<and>
       SubnetNodeElectionSlots s2 = (SubnetNodeElectionSlots s)(i :=
         butlast ((SubnetNodeElectionSlots s i)[k := last (SubnetNodeElectionSlots s i)]))
     else SubnetNodeElectionSlots s2 = SubnetNodeElectionSlots s) \<and>
    set (SubnetNodeElectionSlots s2 i) = set (SubnetNodeElectionSlots s i) - {n} \<and> NodeSlotIndex s2 (i, n) = None"
proof -
  let ?xs = "SubnetNodeElectionSlots s i"
  note rem = election_ok_remove [OF assms(1,4)]
  have "NodeSlotIndex s2 (i, n) = None"
    using rem(1,3) by (cases "NodeSlotIndex s2 (i, n)") (auto simp: election_ok_def dest: nth_mem)
  moreover have "election_ok s1 \<and> b1 = (n \<notin> set ?xs) \<and>
      SubnetNodeElectionSlots s1 = (SubnetNodeElectionSlots s)(i := ?xs @ (if b1 then [n] else []))"
    using election_ok_push [OF assms(1) _ assms(2)] assms(1,3)
    by (auto simp: insert_node_into_election_slot_def push_election_slot_def Let_def split: if_splits)
  moreover have "b2 = (n \<in> set ?xs) \<and> (if b2
     then \<exists>k < length ?xs. ?xs ! k = n \<and>
       SubnetNodeElectionSlots s2 = (SubnetNodeElectionSlots s)(i := butlast (?xs[k := last ?xs]))
     else SubnetNodeElectionSlots s2 = SubnetNodeElectionSlots s)"
  proof (cases "position (\<lambda>m. m = n) ?xs")
    case None
    then have "n \<notin> set ?xs" by (auto simp: position_None)
    then show ?thesis using None assms(4) by (simp add: remove_node_from_election_slot_def)
  next
    case (Some k)
    then have k: "k < length ?xs" "?xs ! k = n" by (auto dest: position_Some)
    have "b2" "SubnetNodeElectionSlots s2 = (SubnetNodeElectionSlots s)(i := butlast (?xs[k := last ?xs]))"
      using assms(4) Some by (auto simp: remove_node_from_election_slot_def swap_remove_def Let_def)
    then show ?thesis using k nth_mem [OF k(1)] by auto
  qed
  ultimately show ?thesis using rem by simp
qed

text \<open>Applied: node 9 beside node 3 of subnet 5.\<close>

theorem election_slots_consistent_witness:
  "SubnetNodeElectionSlots (fst (insert_node_into_election_slot 5 9 example_keys)) 5 = [3, 9] \<and>
   SubnetNodeElectionSlots (fst (remove_node_from_election_slot 5 3 example_keys)) 5 = [] \<and>
   election_ok (fst (remove_node_from_election_slot 5 3 example_keys))"
proof -
  have t: "TotalElectableNodes example_keys \<noteq> - 1" and l: "SubnetNodeElectionSlots example_keys 5 = [3]"
    by (simp_all add: example_state)
  from election_slots_consistent [OF example_election_ok t surjective_pairing surjective_pairing, of 5 9]
    election_slots_consistent [OF example_election_ok t surjective_pairing surjective_pairing, of 5 3]
  show ?thesis by (auto simp: l)
qed

end
