(* ===== verification/Subnet_Nodes.thy ===== *)
theory Subnet_Nodes
  imports Validator_Registry
begin

text \<open>
  Subnet nodes (\<open>utilities/subnet_node.rs\<close>, \<open>utilities/subnet.rs\<close> and the registration in \<open>lib.rs\<close>):
  their registration, activation, graduation and removal, the updates of their peer infos and parameters,
  the indices by which they are found and the burn rate of registrations. A check of a multiaddress may
  run forever; an operation that makes one returns an option, with \<open>None\<close> if it does not return.
\<close>

section \<open>The state of a subnet\<close>

definition is_subnet_registering :: "u32 \<Rightarrow> SubnetState \<Rightarrow> u32 \<Rightarrow> ('c, 'm) network_nodes_scheme \<Rightarrow> bool" where
  "is_subnet_registering subnet_id state epoch s =
     (if state \<noteq> Registered then False
      else case SubnetRegistrationEpoch s subnet_id of
        Some registered_epoch \<Rightarrow>
          let max_registration_epoch = saturating_add registered_epoch (SubnetRegistrationEpochs s)
          in epoch \<le> max_registration_epoch
      | None \<Rightarrow> False)"

definition is_subnet_in_enactment :: "u32 \<Rightarrow> SubnetState \<Rightarrow> u32 \<Rightarrow> ('c, 'm) network_nodes_scheme \<Rightarrow> bool" where
  "is_subnet_in_enactment subnet_id state epoch s =
     (if state \<noteq> Registered then False
      else case SubnetRegistrationEpoch s subnet_id of
        Some registered_epoch \<Rightarrow>
          let max_registration_epoch = saturating_add registered_epoch (SubnetRegistrationEpochs s);
              max_enactment_epoch = saturating_add max_registration_epoch (SubnetEnactmentEpochs s)
          in epoch > max_registration_epoch \<and> epoch \<le> max_enactment_epoch
      | None \<Rightarrow> False)"

definition is_subnet_registered :: "u32 \<Rightarrow> ('c, 'm) network_scheme \<Rightarrow> bool option" where
  "is_subnet_registered subnet_id s =
     (case SubnetsData s subnet_id of Some subnet \<Rightarrow> Some (sd_state subnet = Registered) | None \<Rightarrow> None)"

definition is_subnet_active :: "u32 \<Rightarrow> ('c, 'm) network_scheme \<Rightarrow> bool option" where
  "is_subnet_active subnet_id s =
     (case SubnetsData s subnet_id of Some subnet \<Rightarrow> Some (sd_state subnet = Active) | None \<Rightarrow> None)"

definition subnet_active_and_live :: "SubnetData \<Rightarrow> u32 \<Rightarrow> bool" where
  "subnet_active_and_live subnet epoch \<longleftrightarrow> sd_state subnet = Active \<and> sd_start_epoch subnet \<le> epoch"

definition is_subnet_active_and_live :: "u32 \<Rightarrow> u32 \<Rightarrow> ('c, 'm) network_scheme \<Rightarrow> bool option" where
  "is_subnet_active_and_live subnet_id epoch s =
     (case SubnetsData s subnet_id of Some subnet \<Rightarrow> Some (subnet_active_and_live subnet epoch)
      | None \<Rightarrow> None)"

definition is_subnet_paused :: "u32 \<Rightarrow> ('c, 'm) network_scheme \<Rightarrow> bool option" where
  "is_subnet_paused subnet_id s =
     (case SubnetsData s subnet_id of Some subnet \<Rightarrow> Some (sd_state subnet = SubnetPaused) | None \<Rightarrow> None)"

section \<open>Who owns an address\<close>

text \<open>A later index is looked at only if the earlier ones do not know the peer.\<close>

definition is_owner_of_peer_or_ownerless ::
  "u32 \<Rightarrow> u32 \<Rightarrow> u32 \<Rightarrow> PeerId \<Rightarrow> ('c, 'm) network_nodes_scheme \<Rightarrow> bool" where
  "is_owner_of_peer_or_ownerless subnet_id subnet_node_id overwatch_node_id peer s =
     (case PeerIdSubnetNodeId s (subnet_id, peer) of
        Some peer_subnet_node_id \<Rightarrow> peer_subnet_node_id = subnet_node_id
      | None \<Rightarrow>
      case BootnodePeerIdSubnetNodeId s (subnet_id, peer) of
        Some bootnode_subnet_node_id \<Rightarrow> bootnode_subnet_node_id = subnet_node_id
      | None \<Rightarrow>
      case ClientPeerIdSubnetNodeId s (subnet_id, peer) of
        Some client_subnet_node_id \<Rightarrow> client_subnet_node_id = subnet_node_id
      | None \<Rightarrow>
      case PeerIdOverwatchNodeId s (subnet_id, peer) of
        Some peer_overwatch_node_id \<Rightarrow> peer_overwatch_node_id = overwatch_node_id
      | None \<Rightarrow> True)"

definition is_owner_of_multiaddr_or_ownerless ::
  "u32 \<Rightarrow> u32 \<Rightarrow> bytes \<Rightarrow> ('c, 'm) network_nodes_scheme \<Rightarrow> bool" where
  "is_owner_of_multiaddr_or_ownerless subnet_id subnet_node_id multiaddr s =
     (case MultiaddrSubnetNodeId s (subnet_id, multiaddr) of
        Some node_id \<Rightarrow> node_id = subnet_node_id
      | None \<Rightarrow> True)"

definition do_verify_multiaddr :: "bytes \<Rightarrow> (Error + unit) option" where
  "do_verify_multiaddr multiaddr =
     (case verify multiaddr of None \<Rightarrow> None
      | Some (Inr _) \<Rightarrow> Some (Inr ())
      | Some (Inl InvalidVarint) \<Rightarrow> Some (Inl MultiaddrInvalidVarint)
      | Some (Inl InvalidProtocol) \<Rightarrow> Some (Inl MultiaddrInvalidProtocol)
      | Some (Inl InvalidAddress) \<Rightarrow> Some (Inl MultiaddrInvalidAddress)
      | Some (Inl Truncated) \<Rightarrow> Some (Inl MultiaddrTruncated))"

definition validate_peer_info ::
  "u32 \<Rightarrow> u32 \<Rightarrow> u32 \<Rightarrow> PeerInfo \<Rightarrow> ('c, 'm) network_nodes_scheme \<Rightarrow> (Error + unit) option" where
  "validate_peer_info subnet_id subnet_node_id overwatch_node_id peer_info s =
     (if \<not> validate_peer_id (peer_id peer_info) then Some (Inl InvalidPeerId)
      else if \<not> is_owner_of_peer_or_ownerless subnet_id subnet_node_id overwatch_node_id
                 (peer_id peer_info) s
      then Some (Inl PeerIdExist)
      else case peer_multiaddr peer_info of
        None \<Rightarrow> Some (Inr ())
      | Some multiaddr \<Rightarrow>
      case do_verify_multiaddr multiaddr of
        None \<Rightarrow> None
      | Some (Inl e) \<Rightarrow> Some (Inl e)
      | Some (Inr _) \<Rightarrow>
          if \<not> is_owner_of_multiaddr_or_ownerless subnet_id subnet_node_id multiaddr s
          then Some (Inl MultiaddrExist)
          else Some (Inr ()))"

text \<open>Two multiaddresses that are both given are different.\<close>

definition multiaddrs_differ :: "bytes option \<Rightarrow> bytes option \<Rightarrow> bool" where
  "multiaddrs_differ a b = (case (a, b) of (Some x, Some y) \<Rightarrow> x \<noteq> y | _ \<Rightarrow> True)"

definition validate_registration_peer_infos ::
  "u32 \<Rightarrow> PeerInfo \<Rightarrow> PeerInfo option \<Rightarrow> PeerInfo option \<Rightarrow> ('c, 'm) network_nodes_scheme \<Rightarrow>
   (Error + unit) option"
where
  "validate_registration_peer_infos subnet_id peer_info bootnode_peer_info client_peer_info s =
     (case validate_peer_info subnet_id 0 0 peer_info s of
        None \<Rightarrow> None | Some (Inl e) \<Rightarrow> Some (Inl e) | Some (Inr _) \<Rightarrow>
      case (case bootnode_peer_info of None \<Rightarrow> Some (Inr ())
            | Some bootnode \<Rightarrow>
              case validate_peer_info subnet_id 0 0 bootnode s of
                None \<Rightarrow> None | Some (Inl e) \<Rightarrow> Some (Inl e) | Some (Inr _) \<Rightarrow>
              if \<not> peer_id bootnode \<noteq> peer_id peer_info then Some (Inl PeerIdExist)
              else if \<not> multiaddrs_differ (peer_multiaddr bootnode) (peer_multiaddr peer_info)
              then Some (Inl MultiaddrExist)
              else Some (Inr ())) of
        None \<Rightarrow> None | Some (Inl e) \<Rightarrow> Some (Inl e) | Some (Inr _) \<Rightarrow>
      case client_peer_info of None \<Rightarrow> Some (Inr ())
      | Some client \<Rightarrow>
        case validate_peer_info subnet_id 0 0 client s of
          None \<Rightarrow> None | Some (Inl e) \<Rightarrow> Some (Inl e) | Some (Inr _) \<Rightarrow>
        if \<not> peer_id client \<noteq> peer_id peer_info then Some (Inl PeerIdExist)
        else if \<not> (case bootnode_peer_info of Some bootnode \<Rightarrow> peer_id client \<noteq> peer_id bootnode
                    | None \<Rightarrow> True)
        then Some (Inl PeerIdExist)
        else if \<not> multiaddrs_differ (peer_multiaddr client) (peer_multiaddr peer_info)
        then Some (Inl MultiaddrExist)
        else if \<not> (case bootnode_peer_info of
                      Some bootnode \<Rightarrow> multiaddrs_differ (peer_multiaddr client) (peer_multiaddr bootnode)
                    | None \<Rightarrow> True)
        then Some (Inl MultiaddrExist)
        else Some (Inr ()))"

section \<open>Keys of nodes\<close>

definition get_subnet_node_hotkey :: "u32 \<Rightarrow> u32 \<Rightarrow> ('c, 'm) network_nodes_scheme \<Rightarrow> account_id option" where
  "get_subnet_node_hotkey subnet_id subnet_node_id s = SubnetNodeIdHotkey s (subnet_id, subnet_node_id)"

definition get_subnet_node_associated_coldkey_and_hotkey ::
  "u32 \<Rightarrow> u32 \<Rightarrow> ('c, 'm) network_keys_scheme \<Rightarrow> Error + account_id \<times> account_id" where
  "get_subnet_node_associated_coldkey_and_hotkey subnet_id subnet_node_id s =
     (case SubnetNodeValidatorId s (subnet_id, subnet_node_id) of None \<Rightarrow> Inl InvalidSubnetNodeId
      | Some validator_id \<Rightarrow>
      case ValidatorColdkey s validator_id of None \<Rightarrow> Inl InvalidValidatorId
      | Some validator_coldkey \<Rightarrow>
      case SubnetNodeIdHotkey s (subnet_id, subnet_node_id) of
        Some subnet_node_hotkey \<Rightarrow> Inr (validator_coldkey, subnet_node_hotkey)
      | None \<Rightarrow>
      case ValidatorIdHotkey s validator_id of None \<Rightarrow> Inl InvalidValidator
      | Some validator_hotkey \<Rightarrow> Inr (validator_coldkey, validator_hotkey))"

definition is_subnet_node_keys_owner :: "u32 \<Rightarrow> u32 \<Rightarrow> account_id \<Rightarrow> ('c, 'm) network_keys_scheme \<Rightarrow> bool" where
  "is_subnet_node_keys_owner subnet_id subnet_node_id key s =
     (case get_subnet_node_associated_coldkey_and_hotkey subnet_id subnet_node_id s of
        Inr (coldkey, hotkey) \<Rightarrow> key = hotkey \<or> key = coldkey
      | Inl _ \<Rightarrow> False)"

definition get_hotkey_associated_subnet_node ::
  "u32 \<Rightarrow> u32 \<Rightarrow> u32 \<Rightarrow> account_id \<Rightarrow> ('c, 'm) network_keys_scheme \<Rightarrow> Error + u32" where
  "get_hotkey_associated_subnet_node subnet_id subnet_node_id validator_id hotkey s =
     (case SubnetNodesData s (subnet_id, subnet_node_id) of None \<Rightarrow> Inl InvalidSubnetNodeId
      | Some subnet_node \<Rightarrow>
      if \<not> sn_validator_id subnet_node = validator_id then Inl InvalidValidator
      else case SubnetNodeIdHotkey s (subnet_id, subnet_node_id) of
        Some subnet_node_hotkey \<Rightarrow>
          if \<not> subnet_node_hotkey = hotkey then Inl InvalidHotkeySubnetNodeId else Inr subnet_node_id
      | None \<Rightarrow>
      case ValidatorIdHotkey s validator_id of None \<Rightarrow> Inl InvalidValidator
      | Some validator_hotkey \<Rightarrow>
      if \<not> validator_hotkey = hotkey then Inl InvalidValidator else Inr subnet_node_id)"

definition get_subnet_node_associated_hotkey ::
  "u32 \<Rightarrow> u32 \<Rightarrow> ('c, 'm) network_keys_scheme \<Rightarrow> Error + account_id" where
  "get_subnet_node_associated_hotkey subnet_id subnet_node_id s =
     (case SubnetNodeIdHotkey s (subnet_id, subnet_node_id) of
        Some subnet_node_hotkey \<Rightarrow> Inr subnet_node_hotkey
      | None \<Rightarrow>
      case SubnetNodeValidatorId s (subnet_id, subnet_node_id) of None \<Rightarrow> Inl InvalidSubnetNodeId
      | Some validator_id \<Rightarrow>
      case ValidatorIdHotkey s validator_id of None \<Rightarrow> Inl InvalidValidator
      | Some validator_hotkey \<Rightarrow> Inr validator_hotkey)"

definition get_subnet_node_associated_coldkey ::
  "u32 \<Rightarrow> u32 \<Rightarrow> ('c, 'm) network_scheme \<Rightarrow> Error + account_id" where
  "get_subnet_node_associated_coldkey subnet_id subnet_node_id s =
     (case SubnetNodeValidatorId s (subnet_id, subnet_node_id) of None \<Rightarrow> Inl InvalidSubnetNodeId
      | Some validator_id \<Rightarrow>
      case ValidatorColdkey s validator_id of None \<Rightarrow> Inl InvalidValidatorId
      | Some validator_coldkey \<Rightarrow> Inr validator_coldkey)"

section \<open>Indices\<close>

text \<open>The multiaddress of a peer info enters or leaves its index.\<close>

definition insert_multiaddr ::
  "u32 \<Rightarrow> bytes option \<Rightarrow> u32 \<Rightarrow> ('c, 'm) network_nodes_scheme \<Rightarrow> ('c, 'm) network_nodes_scheme" where
  "insert_multiaddr subnet_id maybe_multiaddr subnet_node_id s =
     (case maybe_multiaddr of None \<Rightarrow> s
      | Some multiaddr \<Rightarrow>
          s\<lparr>MultiaddrSubnetNodeId := (MultiaddrSubnetNodeId s)((subnet_id, multiaddr) \<mapsto> subnet_node_id)\<rparr>)"

definition remove_multiaddr ::
  "u32 \<Rightarrow> bytes option \<Rightarrow> ('c, 'm) network_nodes_scheme \<Rightarrow> ('c, 'm) network_nodes_scheme" where
  "remove_multiaddr subnet_id maybe_multiaddr s =
     (case maybe_multiaddr of None \<Rightarrow> s
      | Some multiaddr \<Rightarrow>
          s\<lparr>MultiaddrSubnetNodeId := (MultiaddrSubnetNodeId s)((subnet_id, multiaddr) := None)\<rparr>)"

definition insert_peer_info ::
  "u32 \<Rightarrow> PeerInfo \<Rightarrow> u32 \<Rightarrow> ('c, 'm) network_nodes_scheme \<Rightarrow> ('c, 'm) network_nodes_scheme" where
  "insert_peer_info subnet_id peer_info subnet_node_id s =
     insert_multiaddr subnet_id (peer_multiaddr peer_info) subnet_node_id
       (s\<lparr>PeerIdSubnetNodeId := (PeerIdSubnetNodeId s)((subnet_id, peer_id peer_info) \<mapsto> subnet_node_id)\<rparr>)"

definition remove_peer_info ::
  "u32 \<Rightarrow> PeerInfo \<Rightarrow> ('c, 'm) network_nodes_scheme \<Rightarrow> ('c, 'm) network_nodes_scheme" where
  "remove_peer_info subnet_id peer_info s =
     remove_multiaddr subnet_id (peer_multiaddr peer_info)
       (s\<lparr>PeerIdSubnetNodeId := (PeerIdSubnetNodeId s)((subnet_id, peer_id peer_info) := None)\<rparr>)"

definition insert_bootnode_peer_info ::
  "u32 \<Rightarrow> PeerInfo option \<Rightarrow> u32 \<Rightarrow> ('c, 'm) network_nodes_scheme \<Rightarrow> ('c, 'm) network_nodes_scheme" where
  "insert_bootnode_peer_info subnet_id bootnode_peer_info subnet_node_id s =
     (case bootnode_peer_info of None \<Rightarrow> s
      | Some peer_info \<Rightarrow>
          insert_multiaddr subnet_id (peer_multiaddr peer_info) subnet_node_id
            (s\<lparr>BootnodePeerIdSubnetNodeId :=
                (BootnodePeerIdSubnetNodeId s)((subnet_id, peer_id peer_info) \<mapsto> subnet_node_id)\<rparr>))"

definition remove_bootnode_peer_info ::
  "u32 \<Rightarrow> PeerInfo option \<Rightarrow> ('c, 'm) network_nodes_scheme \<Rightarrow> ('c, 'm) network_nodes_scheme" where
  "remove_bootnode_peer_info subnet_id bootnode_peer_info s =
     (case bootnode_peer_info of None \<Rightarrow> s
      | Some peer_info \<Rightarrow>
          remove_multiaddr subnet_id (peer_multiaddr peer_info)
            (s\<lparr>BootnodePeerIdSubnetNodeId :=
                (BootnodePeerIdSubnetNodeId s)((subnet_id, peer_id peer_info) := None)\<rparr>))"

definition insert_client_peer_info ::
  "u32 \<Rightarrow> PeerInfo option \<Rightarrow> u32 \<Rightarrow> ('c, 'm) network_nodes_scheme \<Rightarrow> ('c, 'm) network_nodes_scheme" where
  "insert_client_peer_info subnet_id client_peer_info subnet_node_id s =
     (case client_peer_info of None \<Rightarrow> s
      | Some peer_info \<Rightarrow>
          insert_multiaddr subnet_id (peer_multiaddr peer_info) subnet_node_id
            (s\<lparr>ClientPeerIdSubnetNodeId :=
                (ClientPeerIdSubnetNodeId s)((subnet_id, peer_id peer_info) \<mapsto> subnet_node_id)\<rparr>))"

definition remove_client_peer_info ::
  "u32 \<Rightarrow> PeerInfo option \<Rightarrow> ('c, 'm) network_nodes_scheme \<Rightarrow> ('c, 'm) network_nodes_scheme" where
  "remove_client_peer_info subnet_id client_peer_info s =
     (case client_peer_info of None \<Rightarrow> s
      | Some peer_info \<Rightarrow>
          remove_multiaddr subnet_id (peer_multiaddr peer_info)
            (s\<lparr>ClientPeerIdSubnetNodeId :=
                (ClientPeerIdSubnetNodeId s)((subnet_id, peer_id peer_info) := None)\<rparr>))"

definition insert_unique ::
  "u32 \<Rightarrow> bytes option \<Rightarrow> u32 \<Rightarrow> ('c, 'm) network_nodes_scheme \<Rightarrow> ('c, 'm) network_nodes_scheme" where
  "insert_unique subnet_id maybe_unique subnet_node_id s =
     (case maybe_unique of None \<Rightarrow> s
      | Some unique \<Rightarrow>
          s\<lparr>UniqueParamSubnetNodeId := (UniqueParamSubnetNodeId s)((subnet_id, unique) \<mapsto> subnet_node_id)\<rparr>)"

definition remove_unique ::
  "u32 \<Rightarrow> bytes option \<Rightarrow> ('c, 'm) network_nodes_scheme \<Rightarrow> ('c, 'm) network_nodes_scheme" where
  "remove_unique subnet_id maybe_unique s =
     (case maybe_unique of None \<Rightarrow> s
      | Some unique \<Rightarrow>
          s\<lparr>UniqueParamSubnetNodeId := (UniqueParamSubnetNodeId s)((subnet_id, unique) := None)\<rparr>)"

section \<open>Removal\<close>

definition reputation_of :: "u32 \<Rightarrow> ('c, 'm) network_consensus_scheme \<Rightarrow> Reputation" where
  "reputation_of validator_id s =
     (case ValidatorReputation s validator_id of None \<Rightarrow> DefaultColdkeyReputation | Some rep \<Rightarrow> rep)"

definition remove_validator_subnet_node ::
  "u32 \<Rightarrow> u32 \<Rightarrow> (u32, u32 list) btree_map \<Rightarrow> (u32, u32 list) btree_map" where
  "remove_validator_subnet_node subnet_id subnet_node_id node_map =
     (case map_of node_map subnet_id of None \<Rightarrow> node_map
      | Some nodes \<Rightarrow>
          let nodes = filter (\<lambda>n. n \<noteq> subnet_node_id) nodes
          in if nodes = [] then btree_remove subnet_id node_map
             else btree_insert subnet_id nodes node_map)"

definition common_remove_subnet_node ::
  "u32 \<Rightarrow> u32 \<Rightarrow> SubnetNode \<Rightarrow> ('c, 'm) network_nodes_scheme \<Rightarrow> ('c, 'm) network_nodes_scheme" where
  "common_remove_subnet_node subnet_id subnet_node_id subnet_node s =
     (let s = remove_unique subnet_id (sn_unique subnet_node) s;
          s = remove_peer_info subnet_id (sn_peer_info subnet_node) s;
          s = remove_bootnode_peer_info subnet_id (sn_bootnode_peer_info subnet_node) s;
          s = remove_client_peer_info subnet_id (sn_client_peer_info subnet_node) s;
          v = sn_validator_id subnet_node;
          rep = reputation_of v s
      in s\<lparr>SubnetNodeIdHotkey := (SubnetNodeIdHotkey s)((subnet_id, subnet_node_id) := None),
           SubnetNodeReputation := (SubnetNodeReputation s)((subnet_id, subnet_node_id) := None),
           SubnetNodeIdleConsecutiveEpochs :=
             (SubnetNodeIdleConsecutiveEpochs s)((subnet_id, subnet_node_id) := 0),
           SubnetNodeConsecutiveIncludedEpochs :=
             (SubnetNodeConsecutiveIncludedEpochs s)((subnet_id, subnet_node_id) := 0),
           ValidatorSubnetNodes := (ValidatorSubnetNodes s)(v :=
             remove_validator_subnet_node subnet_id subnet_node_id (ValidatorSubnetNodes s v)),
           ValidatorReputation := (ValidatorReputation s)(v \<mapsto>
             rep\<lparr>total_active_nodes := saturating_sub (total_active_nodes rep) 1\<rparr>),
           TotalSubnetNodes := (TotalSubnetNodes s)(subnet_id := saturating_sub (TotalSubnetNodes s subnet_id) 1),
           TotalNodes := saturating_sub (TotalNodes s) 1\<rparr>)"

definition remove_active_subnet_node ::
  "u32 \<Rightarrow> u32 \<Rightarrow> ('c, 'm) network_nodes_scheme \<Rightarrow> ('c, 'm) network_nodes_scheme" where
  "remove_active_subnet_node subnet_id subnet_node_id s =
     (case SubnetNodesData s (subnet_id, subnet_node_id) of None \<Rightarrow> s
      | Some subnet_node \<Rightarrow>
      let s = s\<lparr>SubnetNodesData := (SubnetNodesData s)((subnet_id, subnet_node_id) := None)\<rparr>;
          s = common_remove_subnet_node subnet_id subnet_node_id subnet_node s;
          s = (if node_class (sn_classification subnet_node) = Validator
               then fst (remove_node_from_election_slot subnet_id subnet_node_id s) else s)
      in s\<lparr>TotalActiveSubnetNodes := (TotalActiveSubnetNodes s)(subnet_id :=
             saturating_sub (TotalActiveSubnetNodes s subnet_id) 1),
           TotalActiveNodes := saturating_sub (TotalActiveNodes s) 1,
           EmergencySubnetNodeElectionData := (EmergencySubnetNodeElectionData s)(subnet_id :=
             map_option (\<lambda>data. data\<lparr>subnet_node_ids := filter (\<lambda>n. n \<noteq> subnet_node_id)
                                                  (subnet_node_ids data)\<rparr>)
               (EmergencySubnetNodeElectionData s subnet_id))\<rparr>)"

definition remove_registered_subnet_node ::
  "u32 \<Rightarrow> u32 \<Rightarrow> ('c, 'm) network_nodes_scheme \<Rightarrow> ('c, 'm) network_nodes_scheme" where
  "remove_registered_subnet_node subnet_id subnet_node_id s =
     (case RegisteredSubnetNodesData s (subnet_id, subnet_node_id) of None \<Rightarrow> s
      | Some subnet_node \<Rightarrow>
      let s = s\<lparr>RegisteredSubnetNodesData :=
                (RegisteredSubnetNodesData s)((subnet_id, subnet_node_id) := None)\<rparr>;
          s = common_remove_subnet_node subnet_id subnet_node_id subnet_node s
      in s\<lparr>SubnetNodeQueue := (SubnetNodeQueue s)(subnet_id :=
             filter (\<lambda>node. sn_id node \<noteq> subnet_node_id) (SubnetNodeQueue s subnet_id))\<rparr>)"

definition perform_remove_subnet_node ::
  "u32 \<Rightarrow> u32 \<Rightarrow> ('c, 'm) network_nodes_scheme \<Rightarrow> ('c, 'm) network_nodes_scheme" where
  "perform_remove_subnet_node subnet_id subnet_node_id s =
     (if SubnetNodesData s (subnet_id, subnet_node_id) \<noteq> None
      then remove_active_subnet_node subnet_id subnet_node_id s
      else if RegisteredSubnetNodesData s (subnet_id, subnet_node_id) \<noteq> None
      then remove_registered_subnet_node subnet_id subnet_node_id s
      else s)"

definition is_chosen_validator :: "u32 \<Rightarrow> u32 \<Rightarrow> u32 \<Rightarrow> ('c, 'm) network_epochs_scheme \<Rightarrow> bool" where
  "is_chosen_validator subnet_id subnet_node_id the_subnet_epoch s =
     (case SubnetElectedValidator s (subnet_id, the_subnet_epoch) of
        Some validator_subnet_node_id \<Rightarrow> subnet_node_id = validator_subnet_node_id
      | None \<Rightarrow> False)"

definition do_remove_subnet_node_v2 ::
  "u32 \<Rightarrow> u32 \<Rightarrow> ('c, 'm) network_nodes_scheme \<Rightarrow> (('c, 'm) network_nodes_scheme, unit) outcome" where
  "do_remove_subnet_node_v2 subnet_id subnet_node_id s =
     (perform_remove_subnet_node subnet_id subnet_node_id s, Inr ())"

definition remove_subnet_node ::
  "'c Config \<Rightarrow> RuntimeOrigin \<Rightarrow> u32 \<Rightarrow> u32 \<Rightarrow> ('c, 'm) network_keys_scheme \<Rightarrow>
   (('c, 'm) network_keys_scheme, unit) outcome option"
where
  "remove_subnet_node cfg origin subnet_id subnet_node_id s =
     (case ensure_signed origin of Inl e \<Rightarrow> Some (s, Inl e) | Inr coldkey \<Rightarrow>
      case is_paused s of Inl e \<Rightarrow> Some (s, Inl e) | Inr _ \<Rightarrow>
      case get_canonical_validator_id_for_coldkey coldkey s of Inl e \<Rightarrow> Some (s, Inl e)
      | Inr validator_id \<Rightarrow>
      if \<not> SubnetNodeValidatorId s (subnet_id, subnet_node_id) = Some validator_id
      then Some (s, Inl NotKeyOwner)
      else case get_current_subnet_epoch_as_u32 cfg subnet_id s of None \<Rightarrow> None
      | Some the_subnet_epoch \<Rightarrow>
      if is_chosen_validator subnet_id subnet_node_id the_subnet_epoch s
      then Some (s, Inl ElectedValidatorCannotRemove)
      else Some (do_remove_subnet_node_v2 subnet_id subnet_node_id s))"

end
