(* ===== verification/Node_Registration.thy ===== *)
theory Node_Registration
  imports Subnet_Nodes
begin

text \<open>
  Registration, activation and graduation of nodes, the burn rate of registrations
  (\<open>utilities/subnet_node.rs\<close>, \<open>lib.rs\<close>), the registration queue of a subnet (\<open>utilities/slot.rs\<close>) and
  the updates of a node's addresses and parameters.
\<close>

section \<open>Graduation\<close>

definition graduate_node :: "u32 \<Rightarrow> SubnetNode \<Rightarrow> SubnetNode" where
  "graduate_node the_start_epoch node_data =
     node_data\<lparr>sn_classification := \<lparr>node_class = next_class (node_class (sn_classification node_data)),
                                     class_start_epoch = the_start_epoch\<rparr>\<rparr>"

definition graduate_class ::
  "u32 \<Rightarrow> u32 \<Rightarrow> u32 \<Rightarrow> ('c, 'm) network_nodes_scheme \<Rightarrow> ('c, 'm) network_nodes_scheme \<times> bool" where
  "graduate_class subnet_id subnet_node_id the_start_epoch s =
     (case SubnetNodesData s (subnet_id, subnet_node_id) of
        Some node_data \<Rightarrow>
          (s\<lparr>SubnetNodesData := (SubnetNodesData s)((subnet_id, subnet_node_id) \<mapsto>
               graduate_node the_start_epoch node_data)\<rparr>, True)
      | None \<Rightarrow> (s, False))"

definition graduate_to_validator_class ::
  "u32 \<Rightarrow> u32 \<Rightarrow> u32 \<Rightarrow> ('c, 'm) network_nodes_scheme \<Rightarrow> ('c, 'm) network_nodes_scheme \<times> bool" where
  "graduate_to_validator_class subnet_id subnet_node_id the_start_epoch s =
     (if subnet_node_id \<in> set (SubnetNodeElectionSlots s subnet_id) then (s, False)
      else case SubnetNodesData s (subnet_id, subnet_node_id) of None \<Rightarrow> (s, False)
      | Some node_data \<Rightarrow>
          (push_election_slot subnet_id subnet_node_id
             (s\<lparr>SubnetNodesData := (SubnetNodesData s)((subnet_id, subnet_node_id) \<mapsto>
               graduate_node the_start_epoch node_data)\<rparr>), True))"

section \<open>The burn rate\<close>

text \<open>The operations on weights that the queue and the burn rate use besides those of the swap queue.\<close>

record ('w, 'k) Meters = "('w, 'k) Weights" +
  meter_new :: 'w
  weight_zero :: 'k
  weight_saturating_add :: "'k \<Rightarrow> 'k \<Rightarrow> 'k"

definition calculate_burn_amount :: "u32 \<Rightarrow> ('c, 'm) network_burn_scheme \<Rightarrow> u128" where
  "calculate_burn_amount subnet_id s =
     (let base_burn = BaseNodeBurnAmount s; burn_rate = CurrentNodeBurnRate s subnet_id
      in percent_mul base_burn burn_rate)"

definition record_registration :: "u32 \<Rightarrow> ('c, 'm) network_burn_scheme \<Rightarrow> ('c, 'm) network_burn_scheme" where
  "record_registration subnet_id s =
     (let current_count = NodeRegistrationsThisEpoch s subnet_id
      in s\<lparr>NodeRegistrationsThisEpoch :=
            (NodeRegistrationsThisEpoch s)(subnet_id := saturating_add current_count 1)\<rparr>)"

definition calculate_target_burn_rate :: "u32 \<Rightarrow> u32 \<Rightarrow> ('c, 'm) network_burn_scheme \<Rightarrow> u128" where
  "calculate_target_burn_rate registrations target s =
     (if registrations = 0 then MinNodeBurnRate s
      else if registrations \<ge> target then MaxNodeBurnRate s
      else
      let min_rate = MinNodeBurnRate s;
          max_rate = MaxNodeBurnRate s;
          ratio = percent_div (ucast registrations) (ucast target);
          rate_range = saturating_sub max_rate min_rate;
          rate_component = percent_mul rate_range ratio
      in saturating_add min_rate rate_component)"

definition update_burn_rate_for_epoch ::
  "('w, 'k, 'x) Weights_scheme \<Rightarrow> u32 \<Rightarrow> 'w \<Rightarrow> ('c, 'm) network_burn_scheme \<Rightarrow>
   ('c, 'm) network_burn_scheme \<times> 'w"
where
  "update_burn_rate_for_epoch W subnet_id weight_meter s =
     (if \<not> can_consume W (db_reads_writes W 9 2) weight_meter then (s, weight_meter)
      else
      let registrations = NodeRegistrationsThisEpoch s subnet_id;
          target = TargetNodeRegistrationsPerEpoch s subnet_id;
          previous_burn_rate = CurrentNodeBurnRate s subnet_id;
          alpha = NodeBurnRateAlpha s subnet_id;
          weight_meter = consume W (db_reads W 5) weight_meter;
          target_burn_rate = calculate_target_burn_rate registrations target s;
          weight_meter = consume W (db_reads W 2) weight_meter;
          precision = percentage_factor_as_u128;
          one_minus_alpha = saturating_sub precision alpha;
          alpha_component = percent_mul target_burn_rate alpha;
          previous_component = percent_mul previous_burn_rate one_minus_alpha;
          new_burn_rate = saturating_add alpha_component previous_component;
          min_rate = MinNodeBurnRate s;
          max_rate = MaxNodeBurnRate s;
          weight_meter = consume W (db_reads W 2) weight_meter;
          clamped_rate = min (max new_burn_rate min_rate) max_rate;
          weight_meter = consume W (db_writes W 2) weight_meter
      in (s\<lparr>CurrentNodeBurnRate := (CurrentNodeBurnRate s)(subnet_id := clamped_rate),
            NodeRegistrationsThisEpoch := (NodeRegistrationsThisEpoch s)(subnet_id := 0)\<rparr>,
          weight_meter))"

section \<open>Activation\<close>

definition do_activate_subnet_node ::
  "('w, 'k, 'x) Weights_scheme \<Rightarrow> u32 \<Rightarrow> u32 \<Rightarrow> SubnetState \<Rightarrow> SubnetNode \<Rightarrow> u32 \<Rightarrow> bool \<Rightarrow> 'w \<Rightarrow>
   ('c, 'm) network_nodes_scheme \<Rightarrow> ('c, 'm) network_nodes_scheme \<times> 'w \<times> bool"
where
  "do_activate_subnet_node W validator_id subnet_id subnet_state subnet_node the_subnet_epoch queue
       weight_meter s =
     (if subnet_state = Registered \<and> queue \<or> subnet_state = Active \<and> \<not> queue \<or> subnet_state = SubnetPaused
      then (s, weight_meter, False)
      else if \<not> can_consume W (db_reads_writes W 5 5) weight_meter then (s, weight_meter, False)
      else if queue \<and> node_class (sn_classification subnet_node) \<noteq> RegisteredClass
      then (s, weight_meter, True)
      else
      let weight_meter = consume W (db_reads_writes W 5 5) weight_meter;
          node_id = sn_id subnet_node;
          s = s\<lparr>RegisteredSubnetNodesData :=
                (RegisteredSubnetNodesData s)((subnet_id, node_id) := None)\<rparr>;
          subnet_node = subnet_node\<lparr>sn_classification :=
            \<lparr>node_class = Idle, class_start_epoch = the_subnet_epoch\<rparr>\<rparr>;
          fast_track = subnet_state = Registered \<and> \<not> queue;
          subnet_node = (if fast_track
            then subnet_node\<lparr>sn_classification :=
                   (sn_classification subnet_node)\<lparr>node_class := Validator\<rparr>\<rparr>
            else subnet_node);
          (s, inserted) = (if fast_track then insert_node_into_election_slot subnet_id node_id s
                           else (s, True)) in
      if \<not> inserted then (s, weight_meter, False)
      else
      let rep = reputation_of validator_id s
      in (s\<lparr>SubnetNodesData := (SubnetNodesData s)((subnet_id, node_id) \<mapsto> subnet_node),
            TotalActiveSubnetNodes := (TotalActiveSubnetNodes s)(subnet_id :=
              TotalActiveSubnetNodes s subnet_id + 1),
            TotalActiveNodes := TotalActiveNodes s + 1,
            ValidatorReputation := (ValidatorReputation s)(validator_id \<mapsto>
              rep\<lparr>lifetime_node_count := saturating_add (lifetime_node_count rep) 1,
                  total_active_nodes := saturating_add (total_active_nodes rep) 1\<rparr>)\<rparr>,
          weight_meter, True))"

definition perform_activate_subnet_node_v2 ::
  "('w, 'k, 'x) Meters_scheme \<Rightarrow> u32 \<Rightarrow> u32 \<Rightarrow> SubnetState \<Rightarrow> SubnetNode \<Rightarrow> u32 \<Rightarrow>
   ('c, 'm) network_nodes_scheme \<Rightarrow> (('c, 'm) network_nodes_scheme, unit) outcome"
where
  "perform_activate_subnet_node_v2 W validator_id subnet_id subnet_state subnet_node the_subnet_epoch s =
     (if \<not> TotalActiveSubnetNodes s subnet_id < MaxSubnetNodes s then (s, Inl MaxRegisteredNodes)
      else
      let (s, _, activated) = do_activate_subnet_node W validator_id subnet_id subnet_state subnet_node
            the_subnet_epoch False (meter_new W) s in
      if \<not> activated then (s, Inl ElectionSlotInsertFail) else (s, Inr ()))"

section \<open>Registration\<close>

text \<open>While a subnet registers, only listed validators register nodes, each up to its allowance.\<close>

definition check_registration_whitelist ::
  "u32 \<Rightarrow> u32 \<Rightarrow> ('c, 'm) network_nodes_scheme \<Rightarrow> Error + unit" where
  "check_registration_whitelist subnet_id validator_id s =
     (case NodeRegistrationInitialValidatorIds s subnet_id of None \<Rightarrow> Inr ()
      | Some initial_validator_data_map \<Rightarrow>
      case map_of initial_validator_data_map validator_id of
        None \<Rightarrow> Inl ValidatorIdNotInWhitelist
      | Some max_registrations \<Rightarrow>
      let current_registrations = (case InitialValidatorData s subnet_id of None \<Rightarrow> 0
            | Some m \<Rightarrow> (case map_of m validator_id of None \<Rightarrow> 0 | Some n \<Rightarrow> n)) in
      if \<not> current_registrations < max_registrations then Inl MaxRegisteredNodes else Inr ())"

text \<open>The burn fee and the stake: what is returned is the amount to burn.\<close>

definition check_registration_payment ::
  "'c Config \<Rightarrow> account_id \<Rightarrow> u32 \<Rightarrow> u32 \<Rightarrow> u128 \<Rightarrow> u128 \<Rightarrow> ('c, 'm) network_burn_scheme \<Rightarrow> Error + u128"
where
  "check_registration_payment cfg coldkey subnet_id subnet_node_id stake_to_be_added max_burn_amount s =
     (let burn_amount = calculate_burn_amount subnet_id s in
      if \<not> burn_amount \<le> max_burn_amount then Inl MaxBurnAmountExceeded
      else if \<not> stake_to_be_added \<noteq> 0 then Inl InvalidAmount
      else case u128_to_balance stake_to_be_added of None \<Rightarrow> Inl CouldNotConvertToBalance
      | Some stake_as_balance \<Rightarrow>
      case u128_to_balance burn_amount of None \<Rightarrow> Inl CouldNotConvertToBalance
      | Some burn_amount_as_balance \<Rightarrow>
      let node_stake_balance = NodeSubnetStake s (subnet_node_id, subnet_id) in
      if \<not> saturating_add node_stake_balance stake_to_be_added \<ge> SubnetMinStakeBalance s subnet_id
      then Inl MinStakeNotReached
      else if \<not> saturating_add node_stake_balance stake_to_be_added \<le> SubnetMaxStakeBalance s subnet_id
      then Inl MaxStakeReached
      else
      let total_withdrawal = saturating_add burn_amount stake_to_be_added in
      case u128_to_balance total_withdrawal of None \<Rightarrow> Inl CouldNotConvertToBalance
      | Some total_withdrawal_as_balance \<Rightarrow>
      if \<not> can_remove_balance_from_coldkey_account cfg coldkey total_withdrawal_as_balance s
      then Inl NotEnoughBalanceToStake
      else
      let remaining_balance = get_coldkey_balance cfg coldkey s - total_withdrawal_as_balance in
      if \<not> remaining_balance \<ge> minimum_balance (Cur cfg) then Inl NotEnoughBalanceToStake
      else if exceeds_tx_rate_limit (get_last_tx_block coldkey s) (get_current_block_as_u32 s) s
      then Inl TxRateLimitExceeded
      else Inr burn_amount)"

text \<open>The node enters the indices, the counters and the books.\<close>

definition insert_registration ::
  "account_id \<Rightarrow> u32 \<Rightarrow> SubnetNode \<Rightarrow> u128 \<Rightarrow> ('c, 'm) network_burn_scheme \<Rightarrow> ('c, 'm) network_burn_scheme"
where
  "insert_registration coldkey subnet_id subnet_node stake_to_be_added s =
     (let n = sn_id subnet_node;
          s = s\<lparr>TotalSubnetNodeUids := (TotalSubnetNodeUids s)(subnet_id := n)\<rparr>;
          s = insert_peer_info subnet_id (sn_peer_info subnet_node) n s;
          s = insert_bootnode_peer_info subnet_id (sn_bootnode_peer_info subnet_node) n s;
          s = insert_client_peer_info subnet_id (sn_client_peer_info subnet_node) n s;
          s = insert_unique subnet_id (sn_unique subnet_node) n s;
          s = record_registration subnet_id s;
          s = s\<lparr>SubnetNodeReputation := (SubnetNodeReputation s)((subnet_id, n) \<mapsto> percentage_factor_as_u128),
                TotalSubnetNodes := (TotalSubnetNodes s)(subnet_id := TotalSubnetNodes s subnet_id + 1),
                TotalNodes := TotalNodes s + 1,
                SubnetNodeValidatorId :=
                  (SubnetNodeValidatorId s)((subnet_id, n) \<mapsto> sn_validator_id subnet_node)\<rparr>;
          s = increase_node_stake n subnet_id stake_to_be_added s
      in set_last_tx_block coldkey (get_current_block_as_u32 s) s)"

definition count_initial_registration ::
  "u32 \<Rightarrow> u32 \<Rightarrow> ('c, 'm) network_nodes_scheme \<Rightarrow> ('c, 'm) network_nodes_scheme" where
  "count_initial_registration subnet_id validator_id s =
     (let m = (case InitialValidatorData s subnet_id of None \<Rightarrow> [] | Some m \<Rightarrow> m);
          n = (case map_of m validator_id of None \<Rightarrow> 1 | Some count \<Rightarrow> count + 1)
      in s\<lparr>InitialValidatorData := (InitialValidatorData s)(subnet_id \<mapsto> btree_insert validator_id n m)\<rparr>)"

definition insert_validator_subnet_node ::
  "u32 \<Rightarrow> u32 \<Rightarrow> (u32, u32 list) btree_map \<Rightarrow> (u32, u32 list) btree_map" where
  "insert_validator_subnet_node subnet_id subnet_node_id node_map =
     btree_insert subnet_id
       (insort_insert subnet_node_id (case map_of node_map subnet_id of None \<Rightarrow> [] | Some nodes \<Rightarrow> nodes))
       node_map"

text \<open>
  The call in three parts: who may register where, the payment, and the writes. It is transactional: an
  error leaves the storage as it was.
\<close>

definition admit_registration ::
  "'c Config \<Rightarrow> account_id \<Rightarrow> u32 \<Rightarrow> u32 \<Rightarrow> ('c, 'm) network_keys_scheme \<Rightarrow> (Error + SubnetData \<times> u32) option"
where
  "admit_registration cfg coldkey validator_id subnet_id s =
     (case ensure_canonical_validator_coldkey coldkey validator_id s of Inl e \<Rightarrow> Some (Inl e)
      | Inr _ \<Rightarrow>
      case SubnetsData s subnet_id of None \<Rightarrow> Some (Inl InvalidSubnetId) | Some subnet \<Rightarrow>
      if \<not> sd_state subnet \<noteq> SubnetPaused then Some (Inl SubnetIsPaused)
      else case get_current_epoch_as_u32 cfg s of None \<Rightarrow> None | Some epoch \<Rightarrow>
      if is_subnet_in_enactment subnet_id (sd_state subnet) epoch s
      then Some (Inl SubnetMustBeRegisteringOrActivated)
      else case get_current_subnet_epoch_as_u32 cfg subnet_id s of None \<Rightarrow> None
      | Some the_subnet_epoch \<Rightarrow>
      case check_registration_whitelist subnet_id validator_id s of Inl e \<Rightarrow> Some (Inl e)
      | Inr _ \<Rightarrow>
      if \<not> (of_nat (length (SubnetNodeQueue s subnet_id)) :: u32) \<le> MaxRegisteredNodesOf s subnet_id
      then Some (Inl MaxQueuedNodes)
      else Some (Inr (subnet, the_subnet_epoch)))"

definition pay_registration ::
  "'c Config \<Rightarrow> account_id \<Rightarrow> u128 \<Rightarrow> u128 \<Rightarrow> ('c, 'm) network_scheme \<Rightarrow> (('c, 'm) network_scheme, unit) outcome"
where
  "pay_registration cfg coldkey burn_amount stake_to_be_added s =
     (let (s, burned) = (if burn_amount > 0 then burn cfg coldkey burn_amount s else (s, True)) in
      if \<not> burned then (s, Inl BalanceBurnError)
      else
      let (s, withdrawn) = remove_balance_from_coldkey_account cfg coldkey stake_to_be_added s in
      if \<not> withdrawn then (s, Inl BalanceWithdrawalError) else (s, Inr ()))"

definition enter_registration ::
  "('w, 'k, 'x) Meters_scheme \<Rightarrow> account_id \<Rightarrow> u32 \<Rightarrow> SubnetState \<Rightarrow> SubnetNode \<Rightarrow> u32 \<Rightarrow> u128 \<Rightarrow>
   account_id option \<Rightarrow> ('c, 'm) network_burn_scheme \<Rightarrow> (('c, 'm) network_burn_scheme, unit) outcome"
where
  "enter_registration W coldkey subnet_id subnet_state subnet_node the_subnet_epoch stake_to_be_added
       hotkey s =
     (let n = sn_id subnet_node;
          validator_id = sn_validator_id subnet_node;
          s = insert_registration coldkey subnet_id subnet_node stake_to_be_added s;
          (s, activated) = (if subnet_state = Registered
            then perform_activate_subnet_node_v2 W validator_id subnet_id subnet_state subnet_node
                   the_subnet_epoch (count_initial_registration subnet_id validator_id s)
            else (s\<lparr>RegisteredSubnetNodesData := (RegisteredSubnetNodesData s)((subnet_id, n) \<mapsto> subnet_node),
                   SubnetNodeQueue := (SubnetNodeQueue s)(subnet_id :=
                     SubnetNodeQueue s subnet_id @ [subnet_node])\<rparr>, Inr ())) in
      case activated of Inl e \<Rightarrow> (s, Inl e) | Inr _ \<Rightarrow>
      let s = s\<lparr>ValidatorSubnetNodes := (ValidatorSubnetNodes s)(validator_id :=
                  insert_validator_subnet_node subnet_id n (ValidatorSubnetNodes s validator_id))\<rparr>
      in (case hotkey of None \<Rightarrow> s
          | Some node_hotkey \<Rightarrow>
              s\<lparr>SubnetNodeIdHotkey := (SubnetNodeIdHotkey s)((subnet_id, n) \<mapsto> node_hotkey)\<rparr>, Inr ()))"

definition commit_registration ::
  "('w, 'k, 'x) Meters_scheme \<Rightarrow> 'c Config \<Rightarrow> account_id \<Rightarrow> u32 \<Rightarrow> SubnetState \<Rightarrow> SubnetNode \<Rightarrow> u32 \<Rightarrow>
   account_id option \<Rightarrow> u128 \<Rightarrow> u128 \<Rightarrow> ('c, 'm) network_burn_scheme \<Rightarrow>
   (('c, 'm) network_burn_scheme, unit) outcome"
where
  "commit_registration W cfg coldkey subnet_id subnet_state subnet_node the_subnet_epoch hotkey
       stake_to_be_added max_burn_amount s =
     (case check_registration_payment cfg coldkey subnet_id (sn_id subnet_node) stake_to_be_added
             max_burn_amount s of Inl e \<Rightarrow> (s, Inl e)
      | Inr burn_amount \<Rightarrow>
      if subnet_state = Registered \<and> \<not> TotalActiveSubnetNodes s subnet_id < MaxSubnetNodes s
      then (s, Inl MaxRegisteredNodes)
      else if subnet_state = Registered
              \<and> \<not> can_insert_node_into_election_slot subnet_id (sn_id subnet_node) s
      then (s, Inl ElectionSlotInsertFail)
      else case pay_registration cfg coldkey burn_amount stake_to_be_added s of
        (s, Inl e) \<Rightarrow> (s, Inl e)
      | (s, Inr _) \<Rightarrow>
          enter_registration W coldkey subnet_id subnet_state subnet_node the_subnet_epoch
            stake_to_be_added hotkey s)"

definition do_register_subnet_node ::
  "('w, 'k, 'x) Meters_scheme \<Rightarrow> 'c Config \<Rightarrow> RuntimeOrigin \<Rightarrow> u32 \<Rightarrow> u32 \<Rightarrow> account_id option \<Rightarrow>
   PeerInfo \<Rightarrow> PeerInfo option \<Rightarrow> PeerInfo option \<Rightarrow> u128 \<Rightarrow> bytes option \<Rightarrow> bytes option \<Rightarrow> u128 \<Rightarrow>
   ('c, 'm) network_keys_scheme \<Rightarrow> (('c, 'm) network_keys_scheme, unit) outcome option"
where
  "do_register_subnet_node W cfg origin validator_id subnet_id hotkey peer_info bootnode_peer_info
       client_peer_info stake_to_be_added unique non_unique max_burn_amount s =
     (case ensure_signed origin of Inl e \<Rightarrow> Some (s, Inl e) | Inr coldkey \<Rightarrow>
      case admit_registration cfg coldkey validator_id subnet_id s of
        None \<Rightarrow> None | Some (Inl e) \<Rightarrow> Some (s, Inl e) | Some (Inr (subnet, the_subnet_epoch)) \<Rightarrow>
      let subnet_node_id = saturating_add (TotalSubnetNodeUids s subnet_id) 1 in
      case validate_registration_peer_infos subnet_id peer_info bootnode_peer_info client_peer_info s of
        None \<Rightarrow> None | Some (Inl e) \<Rightarrow> Some (s, Inl e) | Some (Inr _) \<Rightarrow>
      if \<not> (case unique of None \<Rightarrow> True
              | Some unique_param \<Rightarrow> UniqueParamSubnetNodeId s (subnet_id, unique_param) = None)
      then Some (s, Inl SubnetNodeUniqueParamTaken)
      else
      let subnet_node = \<lparr>sn_id = subnet_node_id, sn_validator_id = validator_id, sn_peer_info = peer_info,
            sn_bootnode_peer_info = bootnode_peer_info, sn_client_peer_info = client_peer_info,
            sn_classification = \<lparr>node_class = RegisteredClass, class_start_epoch = the_subnet_epoch + 1\<rparr>,
            sn_unique = unique, sn_non_unique = non_unique\<rparr>
      in Some (dispatch (commit_registration W cfg coldkey subnet_id (sd_state subnet) subnet_node
           the_subnet_epoch hotkey stake_to_be_added max_burn_amount) s))"

definition register_subnet_node ::
  "('w, 'k, 'x) Meters_scheme \<Rightarrow> 'c Config \<Rightarrow> RuntimeOrigin \<Rightarrow> u32 \<Rightarrow> u32 \<Rightarrow> account_id option \<Rightarrow>
   PeerInfo \<Rightarrow> PeerInfo option \<Rightarrow> PeerInfo option \<Rightarrow> u128 \<Rightarrow> bytes option \<Rightarrow> bytes option \<Rightarrow> u128 \<Rightarrow>
   ('c, 'm) network_keys_scheme \<Rightarrow> (('c, 'm) network_keys_scheme, unit) outcome option"
where
  "register_subnet_node W cfg origin validator_id subnet_id hotkey peer_info bootnode_peer_info
       client_peer_info stake_to_be_added unique non_unique max_burn_amount s =
     (case is_paused s of Inl e \<Rightarrow> Some (s, Inl e)
      | Inr _ \<Rightarrow> do_register_subnet_node W cfg origin validator_id subnet_id hotkey peer_info
          bootnode_peer_info client_peer_info stake_to_be_added unique non_unique max_burn_amount s)"

end
