(* ===== verification/Node_Updates.thy ===== *)
theory Node_Updates
  imports Node_Registration
begin

text \<open>
  The updates of a node's addresses and parameters (\<open>utilities/subnet_node.rs\<close>), with the calls that
  make them (\<open>lib.rs\<close>), and the queue of registered nodes, from which a subnet activates nodes at its
  slot (\<open>utilities/slot.rs\<close>). A queued node is a copy made at registration.
\<close>

section \<open>Addresses\<close>

definition perform_update_node_peer_id ::
  "u32 \<Rightarrow> u32 \<Rightarrow> SubnetNode \<Rightarrow> PeerInfo \<Rightarrow> ('c, 'm) network_nodes_scheme \<Rightarrow>
   (Error + ('c, 'm) network_nodes_scheme \<times> SubnetNode) option"
where
  "perform_update_node_peer_id subnet_id subnet_node_id params new_peer_info s =
     (case validate_peer_info subnet_id 0 0 new_peer_info s of
        None \<Rightarrow> None | Some (Inl e) \<Rightarrow> Some (Inl e) | Some (Inr _) \<Rightarrow>
      let s = remove_peer_info subnet_id (sn_peer_info params) s;
          s = insert_peer_info subnet_id new_peer_info subnet_node_id s
      in Some (Inr (s, params\<lparr>sn_peer_info := new_peer_info\<rparr>)))"

definition perform_update_node_bootnode_peer_id ::
  "u32 \<Rightarrow> u32 \<Rightarrow> SubnetNode \<Rightarrow> PeerInfo option \<Rightarrow> ('c, 'm) network_nodes_scheme \<Rightarrow>
   (Error + ('c, 'm) network_nodes_scheme \<times> SubnetNode) option"
where
  "perform_update_node_bootnode_peer_id subnet_id subnet_node_id params new_peer_info s =
     (case new_peer_info of
        Some peer_info \<Rightarrow>
          (case validate_peer_info subnet_id 0 0 peer_info s of
             None \<Rightarrow> None | Some (Inl e) \<Rightarrow> Some (Inl e) | Some (Inr _) \<Rightarrow>
           let s = remove_bootnode_peer_info subnet_id (sn_bootnode_peer_info params) s;
               s = insert_bootnode_peer_info subnet_id (Some peer_info) subnet_node_id s
           in Some (Inr (s, params\<lparr>sn_bootnode_peer_info := new_peer_info\<rparr>)))
      | None \<Rightarrow>
          let s = remove_bootnode_peer_info subnet_id (sn_bootnode_peer_info params) s
          in Some (Inr (s, params\<lparr>sn_bootnode_peer_info := new_peer_info\<rparr>)))"

definition perform_update_node_client_peer_id ::
  "u32 \<Rightarrow> u32 \<Rightarrow> SubnetNode \<Rightarrow> PeerInfo option \<Rightarrow> ('c, 'm) network_nodes_scheme \<Rightarrow>
   (Error + ('c, 'm) network_nodes_scheme \<times> SubnetNode) option"
where
  "perform_update_node_client_peer_id subnet_id subnet_node_id params new_peer_info s =
     (case new_peer_info of
        Some peer_info \<Rightarrow>
          (case validate_peer_info subnet_id 0 0 peer_info s of
             None \<Rightarrow> None | Some (Inl e) \<Rightarrow> Some (Inl e) | Some (Inr _) \<Rightarrow>
           let s = remove_client_peer_info subnet_id (sn_client_peer_info params) s;
               s = insert_client_peer_info subnet_id (Some peer_info) subnet_node_id s
           in Some (Inr (s, params\<lparr>sn_client_peer_info := new_peer_info\<rparr>)))
      | None \<Rightarrow>
          let s = remove_client_peer_info subnet_id (sn_client_peer_info params) s
          in Some (Inr (s, params\<lparr>sn_client_peer_info := new_peer_info\<rparr>)))"

section \<open>Parameters\<close>

definition perform_update_node_unique ::
  "u32 \<Rightarrow> u32 \<Rightarrow> SubnetNode \<Rightarrow> bytes option \<Rightarrow> ('c, 'm) network_nodes_scheme \<Rightarrow>
   Error + ('c, 'm) network_nodes_scheme \<times> SubnetNode"
where
  "perform_update_node_unique subnet_id subnet_node_id params unique s =
     (let s = remove_unique subnet_id (sn_unique params) s in
      case unique of None \<Rightarrow> Inr (s, params\<lparr>sn_unique := unique\<rparr>)
      | Some u \<Rightarrow>
      if (case UniqueParamSubnetNodeId s (subnet_id, u) of None \<Rightarrow> False
          | Some owner_subnet_node_id \<Rightarrow> \<not> owner_subnet_node_id = subnet_node_id)
      then Inl UniqueParameterTaken
      else Inr (insert_unique subnet_id unique subnet_node_id s, params\<lparr>sn_unique := unique\<rparr>))"

definition perform_update_node_non_unique ::
  "SubnetNode \<Rightarrow> bytes option \<Rightarrow> Error + SubnetNode" where
  "perform_update_node_non_unique params non_unique = Inr (params\<lparr>sn_non_unique := non_unique\<rparr>)"

section \<open>Finding the node to update\<close>

text \<open>
  The five updates look for the node among the active, then among the registered nodes, and write the
  new version back where it was; an error leaves the storage as it was when it is dispatched.
\<close>

definition update_stored_node ::
  "u32 \<Rightarrow> u32 \<Rightarrow>
   (SubnetNode \<Rightarrow> ('c, 'm) network_nodes_scheme \<Rightarrow> (Error + ('c, 'm) network_nodes_scheme \<times> SubnetNode) option) \<Rightarrow>
   ('c, 'm) network_nodes_scheme \<Rightarrow> (('c, 'm) network_nodes_scheme, unit) outcome option"
where
  "update_stored_node subnet_id subnet_node_id perform s =
     (case SubnetNodesData s (subnet_id, subnet_node_id) of
        Some params \<Rightarrow>
          (case perform params s of None \<Rightarrow> None | Some (Inl e) \<Rightarrow> Some (s, Inl e)
           | Some (Inr (s, params)) \<Rightarrow>
               Some (s\<lparr>SubnetNodesData := (SubnetNodesData s)((subnet_id, subnet_node_id) \<mapsto> params)\<rparr>, Inr ()))
      | None \<Rightarrow>
      case RegisteredSubnetNodesData s (subnet_id, subnet_node_id) of
        Some params \<Rightarrow>
          (case perform params s of None \<Rightarrow> None | Some (Inl e) \<Rightarrow> Some (s, Inl e)
           | Some (Inr (s, params)) \<Rightarrow>
               Some (s\<lparr>RegisteredSubnetNodesData :=
                 (RegisteredSubnetNodesData s)((subnet_id, subnet_node_id) \<mapsto> params)\<rparr>, Inr ()))
      | None \<Rightarrow> Some (s, Inl InvalidSubnetNodeId))"

text \<open>This one looks twice among the active nodes.\<close>

definition do_update_node_peer_info ::
  "u32 \<Rightarrow> u32 \<Rightarrow> PeerInfo \<Rightarrow> ('c, 'm) network_nodes_scheme \<Rightarrow>
   (('c, 'm) network_nodes_scheme, unit) outcome option"
where
  "do_update_node_peer_info subnet_id subnet_node_id new_peer_info s =
     (case SubnetNodesData s (subnet_id, subnet_node_id) of
        Some params \<Rightarrow>
          (case perform_update_node_peer_id subnet_id subnet_node_id params new_peer_info s of
             None \<Rightarrow> None | Some (Inl e) \<Rightarrow> Some (s, Inl e)
           | Some (Inr (s, params)) \<Rightarrow>
               Some (s\<lparr>SubnetNodesData := (SubnetNodesData s)((subnet_id, subnet_node_id) \<mapsto> params)\<rparr>, Inr ()))
      | None \<Rightarrow> Some (s, Inl InvalidSubnetNodeId))"

definition do_update_node_bootnode_peer_info ::
  "u32 \<Rightarrow> u32 \<Rightarrow> PeerInfo option \<Rightarrow> ('c, 'm) network_nodes_scheme \<Rightarrow>
   (('c, 'm) network_nodes_scheme, unit) outcome option"
where
  "do_update_node_bootnode_peer_info subnet_id subnet_node_id new_bootnode_peer_info =
     update_stored_node subnet_id subnet_node_id (\<lambda>params.
       perform_update_node_bootnode_peer_id subnet_id subnet_node_id params new_bootnode_peer_info)"

definition do_update_node_client_peer_info ::
  "u32 \<Rightarrow> u32 \<Rightarrow> PeerInfo option \<Rightarrow> ('c, 'm) network_nodes_scheme \<Rightarrow>
   (('c, 'm) network_nodes_scheme, unit) outcome option"
where
  "do_update_node_client_peer_info subnet_id subnet_node_id new_peer_info =
     update_stored_node subnet_id subnet_node_id (\<lambda>params.
       perform_update_node_client_peer_id subnet_id subnet_node_id params new_peer_info)"

definition do_update_node_unique ::
  "u32 \<Rightarrow> u32 \<Rightarrow> bytes option \<Rightarrow> ('c, 'm) network_nodes_scheme \<Rightarrow>
   (('c, 'm) network_nodes_scheme, unit) outcome option"
where
  "do_update_node_unique subnet_id subnet_node_id unique =
     update_stored_node subnet_id subnet_node_id (\<lambda>params s.
       Some (perform_update_node_unique subnet_id subnet_node_id params unique s))"

definition do_update_node_non_unique ::
  "u32 \<Rightarrow> u32 \<Rightarrow> bytes option \<Rightarrow> ('c, 'm) network_nodes_scheme \<Rightarrow>
   (('c, 'm) network_nodes_scheme, unit) outcome option"
where
  "do_update_node_non_unique subnet_id subnet_node_id non_unique =
     update_stored_node subnet_id subnet_node_id (\<lambda>params s.
       Some (case perform_update_node_non_unique params non_unique of Inl e \<Rightarrow> Inl e
             | Inr params \<Rightarrow> Inr (s, params)))"

section \<open>The calls\<close>

text \<open>The checks all five calls begin with.\<close>

definition ensure_node_coldkey ::
  "RuntimeOrigin \<Rightarrow> u32 \<Rightarrow> u32 \<Rightarrow> ('c, 'm) network_scheme \<Rightarrow> Error + unit" where
  "ensure_node_coldkey origin subnet_id subnet_node_id s =
     (case ensure_signed origin of Inl e \<Rightarrow> Inl e | Inr coldkey \<Rightarrow>
      case is_paused s of Inl e \<Rightarrow> Inl e | Inr _ \<Rightarrow>
      case get_subnet_node_associated_coldkey subnet_id subnet_node_id s of Inl e \<Rightarrow> Inl e
      | Inr validator_coldkey \<Rightarrow>
      if \<not> validator_coldkey = coldkey then Inl NotKeyOwner else Inr ())"

definition update_node_peer_info ::
  "RuntimeOrigin \<Rightarrow> u32 \<Rightarrow> u32 \<Rightarrow> PeerInfo \<Rightarrow> ('c, 'm) network_nodes_scheme \<Rightarrow>
   (('c, 'm) network_nodes_scheme, unit) outcome option"
where
  "update_node_peer_info origin subnet_id subnet_node_id new_peer_info s =
     (case ensure_node_coldkey origin subnet_id subnet_node_id s of Inl e \<Rightarrow> Some (s, Inl e)
      | Inr _ \<Rightarrow> do_update_node_peer_info subnet_id subnet_node_id new_peer_info s)"

definition update_node_bootnode_peer_info ::
  "RuntimeOrigin \<Rightarrow> u32 \<Rightarrow> u32 \<Rightarrow> PeerInfo option \<Rightarrow> ('c, 'm) network_nodes_scheme \<Rightarrow>
   (('c, 'm) network_nodes_scheme, unit) outcome option"
where
  "update_node_bootnode_peer_info origin subnet_id subnet_node_id new_peer_info s =
     (case ensure_node_coldkey origin subnet_id subnet_node_id s of Inl e \<Rightarrow> Some (s, Inl e)
      | Inr _ \<Rightarrow> do_update_node_bootnode_peer_info subnet_id subnet_node_id new_peer_info s)"

definition update_node_client_peer_info ::
  "RuntimeOrigin \<Rightarrow> u32 \<Rightarrow> u32 \<Rightarrow> PeerInfo option \<Rightarrow> ('c, 'm) network_nodes_scheme \<Rightarrow>
   (('c, 'm) network_nodes_scheme, unit) outcome option"
where
  "update_node_client_peer_info origin subnet_id subnet_node_id new_peer_info s =
     (case ensure_node_coldkey origin subnet_id subnet_node_id s of Inl e \<Rightarrow> Some (s, Inl e)
      | Inr _ \<Rightarrow> do_update_node_client_peer_info subnet_id subnet_node_id new_peer_info s)"

definition update_node_unique ::
  "RuntimeOrigin \<Rightarrow> u32 \<Rightarrow> u32 \<Rightarrow> bytes option \<Rightarrow> ('c, 'm) network_nodes_scheme \<Rightarrow>
   (('c, 'm) network_nodes_scheme, unit) outcome option"
where
  "update_node_unique origin subnet_id subnet_node_id unique s =
     (case ensure_node_coldkey origin subnet_id subnet_node_id s of Inl e \<Rightarrow> Some (s, Inl e)
      | Inr _ \<Rightarrow> do_update_node_unique subnet_id subnet_node_id unique s)"

definition update_node_non_unique ::
  "RuntimeOrigin \<Rightarrow> u32 \<Rightarrow> u32 \<Rightarrow> bytes option \<Rightarrow> ('c, 'm) network_nodes_scheme \<Rightarrow>
   (('c, 'm) network_nodes_scheme, unit) outcome option"
where
  "update_node_non_unique origin subnet_id subnet_node_id non_unique s =
     (case ensure_node_coldkey origin subnet_id subnet_node_id s of Inl e \<Rightarrow> Some (s, Inl e)
      | Inr _ \<Rightarrow> do_update_node_non_unique subnet_id subnet_node_id non_unique s)"

definition update_node_hotkey ::
  "RuntimeOrigin \<Rightarrow> u32 \<Rightarrow> u32 \<Rightarrow> account_id option \<Rightarrow> ('c, 'm) network_nodes_scheme \<Rightarrow>
   (('c, 'm) network_nodes_scheme, unit) outcome"
where
  "update_node_hotkey origin subnet_id subnet_node_id new_hotkey s =
     (case ensure_signed origin of Inl e \<Rightarrow> (s, Inl e) | Inr coldkey \<Rightarrow>
      case is_paused s of Inl e \<Rightarrow> (s, Inl e) | Inr _ \<Rightarrow>
      case get_subnet_node_associated_coldkey subnet_id subnet_node_id s of Inl e \<Rightarrow> (s, Inl e)
      | Inr node_coldkey \<Rightarrow>
      if \<not> coldkey = node_coldkey then (s, Inl InvalidValidator)
      else (s\<lparr>SubnetNodeIdHotkey := (SubnetNodeIdHotkey s)((subnet_id, subnet_node_id) := new_hotkey)\<rparr>,
            Inr ()))"

section \<open>The registration queue\<close>

text \<open>The loop over the first nodes of the queue, with the number of nodes activated so far.\<close>

fun registration_queue_loop ::
  "('w, 'k, 'x) Meters_scheme \<Rightarrow> u32 \<Rightarrow> u32 \<Rightarrow> u32 \<Rightarrow> SubnetNode list \<Rightarrow> nat \<Rightarrow> 'w \<Rightarrow>
   ('c, 'm) network_nodes_scheme \<Rightarrow> ('c, 'm) network_nodes_scheme \<times> 'w \<times> nat"
where
  "registration_queue_loop W subnet_id queue_epochs epoch [] activated w s = (s, w, activated)"
| "registration_queue_loop W subnet_id queue_epochs epoch (subnet_node # nodes) activated w s =
     (if class_start_epoch (sn_classification subnet_node) + queue_epochs \<ge> epoch then (s, w, activated)
      else
      let per_node_processing_weight = from_parts W 1500 0;
          per_node_cleanup_weight = from_parts W 500 0;
          storage_write_weight = (if activated = 0 then db_writes W 1 else weight_zero W);
          total_weight_needed = weight_saturating_add W (weight_saturating_add W (weight_saturating_add W
            per_node_processing_weight per_node_cleanup_weight) storage_write_weight)
            (db_reads_writes W 5 5) in
      if \<not> can_consume W total_weight_needed w then (s, w, activated)
      else
      let w = consume W per_node_processing_weight w;
          (s, w, active) = do_activate_subnet_node W (sn_validator_id subnet_node) subnet_id Active
            subnet_node epoch True w s in
      if \<not> active then (s, w, activated)
      else registration_queue_loop W subnet_id queue_epochs epoch nodes (activated + 1) w s)"

definition handle_registration_queue ::
  "('w, 'k, 'x) Meters_scheme \<Rightarrow> u32 \<Rightarrow> u32 \<Rightarrow> 'w \<Rightarrow> ('c, 'm) network_rewards_scheme \<Rightarrow>
   (('c, 'm) network_rewards_scheme \<times> 'w) option"
where
  "handle_registration_queue W subnet_id current_subnet_epoch w s =
     (if \<not> can_consume W (db_reads W 6) w then Some (s, w)
      else
      let churn_limit_multiplier = ChurnLimitMultiplier s subnet_id;
          w = consume W (db_reads W 1) w in
      case checked_rem current_subnet_epoch churn_limit_multiplier of None \<Rightarrow> None
      | Some r \<Rightarrow>
      if r \<noteq> 0 then Some (s, w)
      else
      let subnet_node_queue_epochs = SubnetNodeQueueEpochs s subnet_id;
          max_nodes = MaxSubnetNodes s;
          nodes_active = TotalActiveSubnetNodes s subnet_id;
          churn_limit = ChurnLimit s subnet_id;
          w = consume W (db_reads W 4) w;
          tk = (if saturating_sub max_nodes nodes_active < churn_limit
                then saturating_sub max_nodes nodes_active else churn_limit) in
      if \<not> can_consume W (db_reads W 1) w then Some (s, w)
      else
      let queue = SubnetNodeQueue s subnet_id;
          w = consume W (db_reads W 1) w in
      if queue = [] \<or> tk = 0 then Some (s, w)
      else if \<not> can_consume W (from_parts W 2000 0) w then Some (s, w)
      else
      let w = consume W (from_parts W 2000 0) w;
          (s, w, activated_nodes) = registration_queue_loop W subnet_id subnet_node_queue_epochs
            current_subnet_epoch (take (unat tk) queue) 0 w s in
      if activated_nodes > 0
      then let w = consume W (from_parts W (500 * of_nat activated_nodes) 0) w;
               w = consume W (db_writes W 1) w
           in Some (s\<lparr>SubnetNodeQueue := (SubnetNodeQueue s)(subnet_id := drop activated_nodes queue)\<rparr>, w)
      else Some (s, w))"

end
