(* ===== verification/Consensus_Submission.thy ===== *)
theory Consensus_Submission
  imports Node_Updates
begin

text \<open>
  The consensus of a subnet (\<open>consensus/subnet_validator.rs\<close>): the elected node submits scores once per
  epoch of the subnet, the validators attest to them, the reward factors of both fall with the
  progress of the epoch, and a node whose submission is not attested is slashed.
\<close>

section \<open>Canonical data\<close>

definition checked_add :: "'a::len word \<Rightarrow> 'a word \<Rightarrow> 'a word option" where
  "checked_add a b = (if unat a + unat b < 2 ^ LENGTH('a) then Some (a + b) else None)"

text \<open>The lowest score of every node, ordered by node.\<close>

fun lowest_scores :: "SubnetNodeConsensusData list \<Rightarrow> (u32, u128) btree_map \<Rightarrow> (u32, u128) btree_map" where
  "lowest_scores [] m = m"
| "lowest_scores (entry # data) m =
     lowest_scores data
       (case map_of m (cd_subnet_node_id entry) of
          None \<Rightarrow> btree_insert (cd_subnet_node_id entry) (cd_score entry) m
        | Some sc \<Rightarrow> if cd_score entry < sc then btree_insert (cd_subnet_node_id entry) (cd_score entry) m else m)"

fun push_scores ::
  "(u32, u128) btree_map \<Rightarrow> SubnetNodeConsensusData list \<Rightarrow> u128 \<Rightarrow> Error + SubnetNodeConsensusData list \<times> u128"
where
  "push_scores [] canonical_data weight_sum = Inr (canonical_data, weight_sum)"
| "push_scores ((n, sc) # m) canonical_data weight_sum =
     (case checked_add weight_sum sc of None \<Rightarrow> Inl ScoreOverflow
      | Some weight_sum \<Rightarrow>
          push_scores m (canonical_data @ [\<lparr>cd_subnet_node_id = n, cd_score = sc\<rparr>]) weight_sum)"

definition canonicalize_consensus_data_entries ::
  "SubnetNodeConsensusData list \<Rightarrow> Error + SubnetNodeConsensusData list \<times> u128" where
  "canonicalize_consensus_data_entries data = push_scores (lowest_scores data []) [] 0"

definition canonicalize_consensus_data_for_submission ::
  "u32 \<Rightarrow> u32 \<Rightarrow> SubnetNodeConsensusData list \<Rightarrow> ('c, 'm) network_nodes_scheme \<Rightarrow>
   Error + SubnetNodeConsensusData list \<times> u128"
where
  "canonicalize_consensus_data_for_submission subnet_id the_subnet_epoch data s =
     canonicalize_consensus_data_entries (filter (\<lambda>entry.
       case SubnetNodesData s (subnet_id, cd_subnet_node_id entry) of None \<Rightarrow> False
       | Some subnet_node \<Rightarrow> has_classification subnet_node Included the_subnet_epoch) data)"

definition canonicalize_consensus_validator_ids :: "u32 list \<Rightarrow> u32 list" where
  "canonicalize_consensus_validator_ids validator_ids = remdups_adj (sort validator_ids)"

section \<open>Reward factors\<close>

text \<open>The floating-point operations the curves use besides those of the reputations; a clamp to an empty range panics.\<close>

record 'f F64Curves = "'f F64" +
  f64_of_u64 :: "u64 \<Rightarrow> 'f"
  f64_sub :: "'f \<Rightarrow> 'f \<Rightarrow> 'f"
  f64_abs :: "'f \<Rightarrow> 'f"
  f64_less :: "'f \<Rightarrow> 'f \<Rightarrow> bool"
  f64_le :: "'f \<Rightarrow> 'f \<Rightarrow> bool"
  f64_clamp :: "'f \<Rightarrow> 'f \<Rightarrow> 'f \<Rightarrow> 'f option"
  f64_zero :: 'f
  f64_one :: 'f
  libm_exp :: "'f \<Rightarrow> 'f"

definition get_f64_as_percentage :: "('f, 'x) F64_scheme \<Rightarrow> 'f \<Rightarrow> u128" where
  "get_f64_as_percentage F v = f64_as_u128 F (f64_mul F v (f64_1e18 F))"

definition sigmoid_decreasing ::
  "('f, 'x) F64Curves_scheme \<Rightarrow> 'f \<Rightarrow> 'f \<Rightarrow> 'f \<Rightarrow> 'f \<Rightarrow> 'f \<Rightarrow> 'f option" where
  "sigmoid_decreasing F x mid k lo hi =
     (let c = f64_abs F (f64_sub F x mid);
          d = f64_mul F k c;
          e = libm_exp F d;
          sigmoid = (if f64_less F mid x then f64_div F (f64_one F) (f64_add F (f64_one F) e)
                     else f64_div F e (f64_add F (f64_one F) e))
      in f64_clamp F sigmoid lo hi)"

definition concave_down_decreasing ::
  "('f, 'x) F64Curves_scheme \<Rightarrow> 'f \<Rightarrow> 'f \<Rightarrow> 'f \<Rightarrow> 'f \<Rightarrow> 'f option" where
  "concave_down_decreasing F x lo hi pw =
     (let p = (if f64_le F pw (f64_zero F) then f64_one F else pw);
          curve = f64_sub F (f64_one F) (libm_pow F x p)
      in f64_clamp F (f64_add F lo (f64_mul F (f64_sub F hi lo) curve)) lo hi)"

definition get_validator_reward_multiplier ::
  "('f, 'x) F64Curves_scheme \<Rightarrow> u128 \<Rightarrow> ('c, 'm) network_rewards_scheme \<Rightarrow> u128 option" where
  "get_validator_reward_multiplier F progress s =
     map_option (\<lambda>y. min (get_f64_as_percentage F y) percentage_factor_as_u128)
       (sigmoid_decreasing F (get_percent_as_f64 F progress)
         (get_percent_as_f64 F (ValidatorRewardMidpoint s)) (f64_of_u64 F (ValidatorRewardK s))
         (f64_zero F) (f64_one F))"

definition get_attestor_reward_multiplier ::
  "('f, 'x) F64Curves_scheme \<Rightarrow> u128 \<Rightarrow> ('c, 'm) network_rewards_scheme \<Rightarrow> u128 option" where
  "get_attestor_reward_multiplier F progress s =
     map_option (\<lambda>y. min (get_f64_as_percentage F y) percentage_factor_as_u128)
       (concave_down_decreasing F (get_percent_as_f64 F progress)
         (get_percent_as_f64 F (AttestorMinRewardFactor s)) (f64_one F)
         (f64_of_u64 F (AttestorRewardExponent s)))"

definition get_validator_reward :: "u128 \<Rightarrow> u128 \<Rightarrow> ('c, 'm) network_rewards_scheme \<Rightarrow> u128" where
  "get_validator_reward attestation_percentage reward_factor s =
     (if MinAttestationPercentage s > attestation_percentage then 0
      else percent_mul (BaseValidatorReward s) reward_factor)"

section \<open>Submission\<close>

text \<open>
  A storage map is iterated in the order of its encoded keys: the little-endian bytes of the node
  identifiers.
\<close>

definition le_bytes :: "u32 \<Rightarrow> nat" where
  "le_bytes n = unat (n AND 255) * 2 ^ 24 + unat (drop_bit 8 n AND 255) * 2 ^ 16 +
     unat (drop_bit 16 n AND 255) * 2 ^ 8 + unat (drop_bit 24 n AND 255)"

definition iter_prefix_values :: "(u32 \<times> u32 \<rightharpoonup> 'v) \<Rightarrow> u32 \<Rightarrow> 'v list" where
  "iter_prefix_values m i = map (\<lambda>n. the (m (i, n))) (sort_key le_bytes (sorted_list_of_set {n. m (i, n) \<noteq> None}))"

definition get_active_classified_subnet_nodes ::
  "u32 \<Rightarrow> SubnetNodeClass \<Rightarrow> u32 \<Rightarrow> ('c, 'm) network_nodes_scheme \<Rightarrow> SubnetNode list" where
  "get_active_classified_subnet_nodes subnet_id classification the_subnet_epoch s =
     filter (\<lambda>subnet_node. has_classification subnet_node classification the_subnet_epoch)
       (iter_prefix_values (SubnetNodesData s) subnet_id)"

text \<open>One pass over the queue: is the node to prioritize there, and may the node to remove be removed.\<close>

fun check_queue_nodes ::
  "u32 option \<Rightarrow> u32 option \<Rightarrow> u32 \<Rightarrow> u32 \<Rightarrow> SubnetNode list \<Rightarrow> bool \<Rightarrow> bool \<Rightarrow> bool \<times> bool" where
  "check_queue_nodes prioritize remove immunity_epochs the_subnet_epoch [] prioritize_exists remove_allowed =
     (prioritize_exists, remove_allowed)"
| "check_queue_nodes prioritize remove immunity_epochs the_subnet_epoch (node # queue) prioritize_exists
       remove_allowed =
     (let prioritize_exists = (if prioritize = Some (sn_id node) then True else prioritize_exists);
          remove_allowed = (if remove = Some (sn_id node)
            then class_start_epoch (sn_classification node) + immunity_epochs \<le> the_subnet_epoch
            else remove_allowed) in
      if prioritize_exists \<and> (remove = None \<or> remove_allowed) then (prioritize_exists, remove_allowed)
      else check_queue_nodes prioritize remove immunity_epochs the_subnet_epoch queue prioritize_exists
             remove_allowed)"

definition qualify_queue_nodes ::
  "u32 \<Rightarrow> u32 \<Rightarrow> u32 option \<Rightarrow> u32 option \<Rightarrow> ('c, 'm) network_rewards_scheme \<Rightarrow> u32 option \<times> u32 option" where
  "qualify_queue_nodes subnet_id the_subnet_epoch prioritize remove s =
     (if prioritize \<noteq> None \<or> remove \<noteq> None
      then let (prioritize_exists, remove_allowed) =
                 check_queue_nodes prioritize remove (QueueImmunityEpochs s subnet_id) the_subnet_epoch
                   (SubnetNodeQueue s subnet_id) (prioritize = None) (remove = None)
           in (if \<not> prioritize_exists then None else prioritize, if \<not> remove_allowed then None else remove)
      else (prioritize, remove))"

definition consensus_validators :: "u32 \<Rightarrow> ('c, 'm) network_epochs_scheme \<Rightarrow> u32 list" where
  "consensus_validators subnet_id s =
     canonicalize_consensus_validator_ids
       (case EmergencySubnetNodeElectionData s subnet_id of
          Some emergency_validator_data \<Rightarrow> subnet_node_ids emergency_validator_data
        | None \<Rightarrow> SubnetNodeElectionSlots s subnet_id)"

text \<open>What is stored: the canonical scores, the nodes and validators of the moment, and the submitter's own attestation.\<close>

definition new_submission ::
  "u32 \<Rightarrow> SubnetEpochData \<Rightarrow> u32 \<Rightarrow> SubnetNodeConsensusData list \<Rightarrow> u32 option \<Rightarrow> u32 option \<Rightarrow>
   bytes option \<Rightarrow> bytes option \<Rightarrow> u128 \<Rightarrow> ('c, 'm) network_rewards_scheme \<Rightarrow> ConsensusData"
where
  "new_submission subnet_id epoch_data validator_subnet_node_id data prioritize_queue_node_id
       remove_queue_node_id args attest_data factor s =
     (let block = get_current_block_as_u32 s;
          attests = [(validator_subnet_node_id, \<lparr>at_block = block, attestor_progress = 0,
                       at_reward_factor = percentage_factor_as_u128, at_data = attest_data\<rparr>)];
          queue_nodes = qualify_queue_nodes subnet_id (subnet_epoch epoch_data) prioritize_queue_node_id
            remove_queue_node_id s
      in \<lparr>cs_validator_id = validator_subnet_node_id, cs_block = block,
          cs_validator_epoch_progress = subnet_epoch_progression epoch_data,
          cs_validator_reward_factor = factor,
          cs_validator_ids = consensus_validators subnet_id s, cs_attests = attests,
          cs_subnet_nodes =
            get_active_classified_subnet_nodes subnet_id Idle (subnet_epoch epoch_data) s,
          cs_prioritize_queue_node_id = fst queue_nodes, cs_remove_queue_node_id = snd queue_nodes,
          cs_data = data, cs_args = args\<rparr>)"

definition do_propose_attestation ::
  "('f, 'x) F64Curves_scheme \<Rightarrow> 'c Config \<Rightarrow> account_id \<Rightarrow> u32 \<Rightarrow> u32 \<Rightarrow> SubnetNodeConsensusData list \<Rightarrow>
   u32 option \<Rightarrow> u32 option \<Rightarrow> bytes option \<Rightarrow> bytes option \<Rightarrow> ('c, 'm) network_rewards_scheme \<Rightarrow>
   (('c, 'm) network_rewards_scheme, unit) outcome option"
where
  "do_propose_attestation F cfg hotkey subnet_id subnet_node_id data prioritize_queue_node_id
       remove_queue_node_id args attest_data s =
     (case get_subnet_node_associated_hotkey subnet_id subnet_node_id s of Inl e \<Rightarrow> Some (s, Inl e)
      | Inr node_hotkey \<Rightarrow>
      if \<not> node_hotkey = hotkey then Some (s, Inl InvalidValidator)
      else case get_current_subnet_epoch_data cfg subnet_id s of None \<Rightarrow> None
      | Some None \<Rightarrow> Some (s, Inl SubnetEpochDataIsNone)
      | Some (Some epoch_data) \<Rightarrow>
      let the_subnet_epoch = subnet_epoch epoch_data in
      case SubnetElectedValidator s (subnet_id, the_subnet_epoch) of None \<Rightarrow> Some (s, Inl NoElectedValidator)
      | Some validator_subnet_node_id \<Rightarrow>
      if \<not> subnet_node_id = validator_subnet_node_id then Some (s, Inl InvalidSubnetNodeId)
      else if SubnetConsensusSubmission s (subnet_id, the_subnet_epoch) \<noteq> None
      then Some (s, Inl SubnetRewardsAlreadySubmitted)
      else case canonicalize_consensus_data_for_submission subnet_id the_subnet_epoch data s of
        Inl e \<Rightarrow> Some (s, Inl e)
      | Inr (data, _) \<Rightarrow>
      case get_validator_reward_multiplier F (subnet_epoch_progression epoch_data) s of None \<Rightarrow> None
      | Some factor \<Rightarrow>
      Some (s\<lparr>SubnetConsensusSubmission :=
        (SubnetConsensusSubmission s)((subnet_id, the_subnet_epoch) \<mapsto>
          new_submission subnet_id epoch_data validator_subnet_node_id data prioritize_queue_node_id
            remove_queue_node_id args attest_data factor s)\<rparr>, Inr ()))"

section \<open>Attestation\<close>

definition insert_attestation ::
  "('f, 'x) F64Curves_scheme \<Rightarrow> 'c Config \<Rightarrow> u32 \<Rightarrow> u32 \<Rightarrow> bytes option \<Rightarrow> ConsensusData \<Rightarrow>
   ('c, 'm) network_rewards_scheme \<Rightarrow> (Error + ConsensusData) option"
where
  "insert_attestation F cfg subnet_id subnet_node_id data params s =
     (if \<not> subnet_node_id \<in> set (cs_validator_ids params) then Some (Inl InvalidValidatorId)
      else case attestor_subnet_epoch_data cfg subnet_id (cs_block params) s of None \<Rightarrow> None
      | Some None \<Rightarrow> Some (Inl SubnetEpochDataIsNone)
      | Some (Some epoch_data) \<Rightarrow>
      let progression = subnet_epoch_progression epoch_data in
      case get_attestor_reward_multiplier F progression s of None \<Rightarrow> None
      | Some factor \<Rightarrow>
      if map_of (cs_attests params) subnet_node_id \<noteq> None then Some (Inl AlreadyAttested)
      else Some (Inr (params\<lparr>cs_attests := btree_insert subnet_node_id
             \<lparr>at_block = get_current_block_as_u32 s, attestor_progress = progression,
              at_reward_factor = factor, at_data = data\<rparr> (cs_attests params)\<rparr>)))"

definition do_attest ::
  "('f, 'x) F64Curves_scheme \<Rightarrow> 'c Config \<Rightarrow> account_id \<Rightarrow> u32 \<Rightarrow> u32 \<Rightarrow> bytes option \<Rightarrow>
   ('c, 'm) network_rewards_scheme \<Rightarrow> (('c, 'm) network_rewards_scheme, unit) outcome option"
where
  "do_attest F cfg hotkey subnet_id subnet_node_id data s =
     (case get_current_subnet_epoch_as_u32 cfg subnet_id s of None \<Rightarrow> None | Some the_subnet_epoch \<Rightarrow>
      case get_subnet_node_associated_hotkey subnet_id subnet_node_id s of Inl e \<Rightarrow> Some (s, Inl e)
      | Inr node_hotkey \<Rightarrow>
      if \<not> node_hotkey = hotkey then Some (s, Inl InvalidValidator)
      else case SubnetNodesData s (subnet_id, subnet_node_id) of None \<Rightarrow> Some (s, Inl InvalidSubnetNodeId)
      | Some subnet_node \<Rightarrow>
      if \<not> has_classification subnet_node Validator the_subnet_epoch
      then Some (s, Inl InvalidSubnetNodeClassification)
      else case SubnetConsensusSubmission s (subnet_id, the_subnet_epoch) of
        None \<Rightarrow> Some (s, Inl InvalidSubnetConsensusSubmission)
      | Some params \<Rightarrow>
      case insert_attestation F cfg subnet_id subnet_node_id data params s of None \<Rightarrow> None
      | Some (Inl e) \<Rightarrow> Some (s, Inl e)
      | Some (Inr params) \<Rightarrow>
          Some (s\<lparr>SubnetConsensusSubmission :=
            (SubnetConsensusSubmission s)((subnet_id, the_subnet_epoch) \<mapsto> params)\<rparr>, Inr ()))"

text \<open>The two calls.\<close>

definition propose_attestation ::
  "('f, 'x) F64Curves_scheme \<Rightarrow> 'c Config \<Rightarrow> RuntimeOrigin \<Rightarrow> u32 \<Rightarrow> u32 \<Rightarrow> SubnetNodeConsensusData list \<Rightarrow>
   u32 option \<Rightarrow> u32 option \<Rightarrow> bytes option \<Rightarrow> bytes option \<Rightarrow> ('c, 'm) network_rewards_scheme \<Rightarrow>
   (('c, 'm) network_rewards_scheme, unit) outcome option"
where
  "propose_attestation F cfg origin subnet_id subnet_node_id data prioritize_queue_node_id
       remove_queue_node_id args attest_data s =
     (case ensure_signed origin of Inl e \<Rightarrow> Some (s, Inl e) | Inr hotkey \<Rightarrow>
      case is_paused s of Inl e \<Rightarrow> Some (s, Inl e) | Inr _ \<Rightarrow>
      do_propose_attestation F cfg hotkey subnet_id subnet_node_id data prioritize_queue_node_id
        remove_queue_node_id args attest_data s)"

definition attest ::
  "('f, 'x) F64Curves_scheme \<Rightarrow> 'c Config \<Rightarrow> RuntimeOrigin \<Rightarrow> u32 \<Rightarrow> u32 \<Rightarrow> bytes option \<Rightarrow>
   ('c, 'm) network_rewards_scheme \<Rightarrow> (('c, 'm) network_rewards_scheme, unit) outcome option"
where
  "attest F cfg origin subnet_id subnet_node_id data s =
     (case ensure_signed origin of Inl e \<Rightarrow> Some (s, Inl e) | Inr hotkey \<Rightarrow>
      case is_paused s of Inl e \<Rightarrow> Some (s, Inl e) | Inr _ \<Rightarrow>
      do_attest F cfg hotkey subnet_id subnet_node_id data s)"

section \<open>Slashing\<close>

text \<open>The benchmarked weights of what the distribution of rewards calls.\<close>

record ('w, 'k) RewardMeters = "('w, 'k) Meters" +
  info_remove_active_subnet_node :: "u32 \<Rightarrow> u32 \<Rightarrow> u32 \<Rightarrow> 'k"
  info_remove_registered_subnet_node :: "u32 \<Rightarrow> u32 \<Rightarrow> u32 \<Rightarrow> 'k"
  info_add_balance_to_coldkey_account :: 'k
  info_elect_validator :: "u32 \<Rightarrow> 'k"

definition validator_subnet_nodes_weight_params ::
  "u32 \<Rightarrow> u32 \<Rightarrow> ('c, 'm) network_scheme \<Rightarrow> u32 \<times> u32" where
  "validator_subnet_nodes_weight_params validator_id subnet_id s =
     (let validator_subnet_nodes = ValidatorSubnetNodes s validator_id;
          x = of_nat (length validator_subnet_nodes);
          c = (case map_of validator_subnet_nodes subnet_id of None \<Rightarrow> 0 | Some nodes \<Rightarrow> of_nat (length nodes))
      in (x, c))"

definition get_slash_amount ::
  "u128 \<Rightarrow> u128 \<Rightarrow> u128 \<Rightarrow> u128 \<Rightarrow> ('c, 'm) network_rewards_scheme \<Rightarrow> u128" where
  "get_slash_amount account_subnet_stake attestation_percentage min_attestation_percentage attestation_delta s =
     (let base_slash = percent_mul account_subnet_stake (BaseSlashPercentage s);
          slash_amount = percent_mul base_slash attestation_delta;
          max_slash = MaxSlashAmount s
      in if slash_amount > max_slash then max_slash else slash_amount)"

text \<open>The stake is decreased, then the reputations; a node below the minimum is removed.\<close>

definition decrease_slashed_node ::
  "u32 \<Rightarrow> u32 \<Rightarrow> u128 \<Rightarrow> u128 \<Rightarrow> ('c, 'm) network_consensus_scheme \<Rightarrow>
   ('c, 'm) network_consensus_scheme \<times> u128 option"
where
  "decrease_slashed_node subnet_id subnet_node_id factor attestation_delta s =
     (case SubnetNodeReputation s (subnet_id, subnet_node_id) of None \<Rightarrow> (s, None)
      | Some rep \<Rightarrow>
          let (s, reputation) = decrease_and_return_node_reputation subnet_id subnet_node_id rep factor
                (Some attestation_delta) s
          in (s, Some reputation))"

definition decrease_slashed_validator ::
  "u32 \<Rightarrow> u32 \<Rightarrow> u128 \<Rightarrow> u128 \<Rightarrow> u128 \<Rightarrow> u32 \<Rightarrow> ('c, 'm) network_consensus_scheme \<Rightarrow>
   ('c, 'm) network_consensus_scheme \<times> u32 option"
where
  "decrease_slashed_validator subnet_id subnet_node_id attestation_percentage min_attestation_percentage
       coldkey_reputation_decrease_factor epoch s =
     (case SubnetNodeValidatorId s (subnet_id, subnet_node_id) of None \<Rightarrow> (s, None)
      | Some validator_id \<Rightarrow>
          (decrease_validator_reputation validator_id attestation_percentage min_attestation_percentage
             coldkey_reputation_decrease_factor epoch s, Some validator_id))"

definition slash_validator ::
  "('w, 'k, 'x) RewardMeters_scheme \<Rightarrow> u32 \<Rightarrow> u32 \<Rightarrow> u128 \<Rightarrow> u128 \<Rightarrow> u128 \<Rightarrow> u128 \<Rightarrow> u32 \<Rightarrow> u32 \<Rightarrow> u128 \<Rightarrow>
   ('c, 'm) network_rewards_scheme \<Rightarrow> ('c, 'm) network_rewards_scheme \<times> 'k"
where
  "slash_validator W subnet_id subnet_node_id attestation_percentage min_attestation_percentage
       coldkey_reputation_decrease_factor min_validator_reputation electable_nodes epoch
       validator_non_consensus_reputation_factor s =
     (let weight = weight_zero W; add = weight_saturating_add W in
      if attestation_percentage \<ge> min_attestation_percentage then (s, weight)
      else
      let attestation_delta = saturating_sub percentage_factor_as_u128
            (percent_div attestation_percentage min_attestation_percentage);
          account_subnet_stake = NodeSubnetStake s (subnet_node_id, subnet_id);
          slash_amount = get_slash_amount account_subnet_stake attestation_percentage
            min_attestation_percentage attestation_delta s;
          (s, weight) = (if slash_amount > 0
            then (decrease_node_stake subnet_node_id subnet_id slash_amount s,
                  add (add weight (db_writes W 3)) (db_reads W 3))
            else (s, weight));
          (s, reputation) = decrease_slashed_node subnet_id subnet_node_id
            validator_non_consensus_reputation_factor attestation_delta s;
          weight = add (add weight (db_reads_writes W 2 1)) (db_reads W 1);
          (s, maybe_validator) = decrease_slashed_validator subnet_id subnet_node_id attestation_percentage
            min_attestation_percentage coldkey_reputation_decrease_factor epoch s in
      case (reputation, maybe_validator) of
        (Some reputation, Some validator_id) \<Rightarrow>
          if reputation < min_validator_reputation
          then let (x, c) = validator_subnet_nodes_weight_params validator_id subnet_id s
               in (remove_active_subnet_node subnet_id subnet_node_id s,
                   add (add weight (db_reads W 1)) (info_remove_active_subnet_node W x electable_nodes c))
          else (s, weight)
      | _ \<Rightarrow> (s, weight))"

end
