(* ===== verification/Node_Indices.thy ===== *)
theory Node_Indices
  imports Node_Updates
begin

text \<open>
  The indices by which a subnet's nodes are found. An index is exact if it maps a key to a node exactly
  when the node has the key; then no two nodes share one. The operations on the indices share a
  contract, the locale \<open>node_index\<close>, and every operation on nodes is a change of one node's keys.
\<close>

section \<open>The contract of an index\<close>

definition indexed :: "(u32 \<times> 'key \<rightharpoonup> u32) \<Rightarrow> u32 \<Rightarrow> (u32 \<Rightarrow> 'key set) \<Rightarrow> bool" where
  "indexed idx i keys \<longleftrightarrow> (\<forall>k n. idx (i, k) = Some n \<longleftrightarrow> k \<in> keys n)"

lemma indexed_unique: "indexed idx i keys \<Longrightarrow> k \<in> keys n \<Longrightarrow> k \<in> keys m \<Longrightarrow> n = m"
  unfolding indexed_def by (metis option.inject)

lemma indexed_free: "indexed idx i keys \<Longrightarrow> idx (i, k) = None \<longleftrightarrow> (\<forall>n. k \<notin> keys n)"
  unfolding indexed_def by (metis not_Some_eq)

text \<open>All keys of one node are replaced.\<close>

lemma indexed_set:
  assumes "indexed idx i keys" and "\<And>k m. k \<in> K \<Longrightarrow> m \<noteq> n \<Longrightarrow> k \<notin> keys m"
    and "\<And>k. idx' (i, k) = (if k \<in> K then Some n else if k \<in> keys n then None else idx (i, k))"
  shows "indexed idx' i (keys(n := K))"
  using assms(1,2) indexed_unique [OF assms(1)] by (auto simp: indexed_def assms(3))

locale node_index =
  fixes index :: "'s \<Rightarrow> u32 \<times> 'key \<rightharpoonup> u32"
    and ins :: "u32 \<Rightarrow> 'a \<Rightarrow> u32 \<Rightarrow> 's \<Rightarrow> 's"
    and del :: "u32 \<Rightarrow> 'a \<Rightarrow> 's \<Rightarrow> 's"
    and keys_of :: "'a \<Rightarrow> 'key set"
  assumes index_ins: "index (ins i a n s) (j, k) = (if j = i \<and> k \<in> keys_of a then Some n else index s (j, k))"
    and index_del: "index (del i a s) (j, k) = (if j = i \<and> k \<in> keys_of a then None else index s (j, k))"
begin

lemma indexed_ins:
  assumes "indexed (index s) i keys" and "\<And>k. k \<in> keys_of a \<Longrightarrow> index s (i, k) = None"
  shows "indexed (index (ins i a n s)) i (keys(n := keys n \<union> keys_of a))"
  using assms(1) assms(2) [unfolded indexed_free [OF assms(1)]]
  by (auto simp: indexed_def index_ins)

lemma indexed_del:
  assumes "indexed (index s) i keys" and "keys_of a \<subseteq> keys n"
  shows "indexed (index (del i a s)) i (keys(n := keys n - keys_of a))"
  using assms indexed_unique [OF assms(1)] by (auto simp: indexed_def index_del)

text \<open>Keys are replaced: the old ones go, then the new ones come.\<close>

lemma indexed_replace:
  assumes "indexed (index s) i keys" and "keys_of a \<subseteq> keys n"
    and "\<And>k. k \<in> keys_of b \<Longrightarrow> index s (i, k) = None"
  shows "indexed (index (ins i b n (del i a s))) i (keys(n := keys n - keys_of a \<union> keys_of b))"
proof -
  have "index (del i a s) (i, k) = None" if "k \<in> keys_of b" for k using assms(3) [OF that] by (simp add: index_del)
  with indexed_ins [OF indexed_del [OF assms(1,2)], of b n] show ?thesis by simp
qed

lemma index_other: "j \<noteq> i \<Longrightarrow> index (ins i a n s) (j, k) = index s (j, k)"
  "j \<noteq> i \<Longrightarrow> index (del i a s) (j, k) = index s (j, k)"
  by (simp_all add: index_ins index_del)

end

text \<open>The indices of the pallet, and the multiaddress index under the four operations that write it.\<close>

lemmas index_defs = insert_multiaddr_def remove_multiaddr_def insert_peer_info_def remove_peer_info_def
  insert_bootnode_peer_info_def remove_bootnode_peer_info_def insert_client_peer_info_def
  remove_client_peer_info_def insert_unique_def remove_unique_def

abbreviation info_peer :: "PeerInfo option \<Rightarrow> PeerId set" where
  "info_peer p \<equiv> peer_id ` set_option p"

definition info_addr :: "PeerInfo option \<Rightarrow> bytes set" where
  "info_addr p = (case p of None \<Rightarrow> {} | Some q \<Rightarrow> set_option (peer_multiaddr q))"

lemma info_addr_simps [simp]: "info_addr None = {}" "info_addr (Some q) = set_option (peer_multiaddr q)"
  by (simp_all add: info_addr_def)

interpretation peers: node_index PeerIdSubnetNodeId insert_peer_info remove_peer_info "\<lambda>p. {peer_id p}"
  by unfold_locales (auto simp: index_defs split: option.splits)

interpretation peer_addrs: node_index MultiaddrSubnetNodeId insert_peer_info remove_peer_info
  "\<lambda>p. set_option (peer_multiaddr p)"
  by unfold_locales (auto simp: index_defs split: option.splits)

interpretation bootnodes: node_index BootnodePeerIdSubnetNodeId insert_bootnode_peer_info
  remove_bootnode_peer_info info_peer
  by unfold_locales (auto simp: index_defs split: option.splits)

interpretation bootnode_addrs: node_index MultiaddrSubnetNodeId insert_bootnode_peer_info
  remove_bootnode_peer_info info_addr
  by unfold_locales (auto simp: index_defs info_addr_def split: option.splits)

interpretation clients: node_index ClientPeerIdSubnetNodeId insert_client_peer_info
  remove_client_peer_info info_peer
  by unfold_locales (auto simp: index_defs split: option.splits)

interpretation client_addrs: node_index MultiaddrSubnetNodeId insert_client_peer_info
  remove_client_peer_info info_addr
  by unfold_locales (auto simp: index_defs info_addr_def split: option.splits)

interpretation uniques: node_index UniqueParamSubnetNodeId insert_unique remove_unique set_option
  by unfold_locales (auto simp: index_defs split: option.splits)

text \<open>What these operations leave alone.\<close>

lemma index_frames [simp]:
  "PeerIdSubnetNodeId (insert_multiaddr i a n s) = PeerIdSubnetNodeId s"
  "BootnodePeerIdSubnetNodeId (insert_multiaddr i a n s) = BootnodePeerIdSubnetNodeId s"
  "ClientPeerIdSubnetNodeId (insert_multiaddr i a n s) = ClientPeerIdSubnetNodeId s"
  "UniqueParamSubnetNodeId (insert_multiaddr i a n s) = UniqueParamSubnetNodeId s"
  "SubnetNodesData (insert_multiaddr i a n s) = SubnetNodesData s"
  "RegisteredSubnetNodesData (insert_multiaddr i a n s) = RegisteredSubnetNodesData s"
  "SubnetNodeQueue (insert_multiaddr i a n s) = SubnetNodeQueue s"
  "TotalSubnetNodeUids (insert_multiaddr i a n s) = TotalSubnetNodeUids s"
  "PeerIdSubnetNodeId (remove_multiaddr i a s) = PeerIdSubnetNodeId s"
  "BootnodePeerIdSubnetNodeId (remove_multiaddr i a s) = BootnodePeerIdSubnetNodeId s"
  "ClientPeerIdSubnetNodeId (remove_multiaddr i a s) = ClientPeerIdSubnetNodeId s"
  "UniqueParamSubnetNodeId (remove_multiaddr i a s) = UniqueParamSubnetNodeId s"
  "SubnetNodesData (remove_multiaddr i a s) = SubnetNodesData s"
  "RegisteredSubnetNodesData (remove_multiaddr i a s) = RegisteredSubnetNodesData s"
  "SubnetNodeQueue (remove_multiaddr i a s) = SubnetNodeQueue s"
  "TotalSubnetNodeUids (remove_multiaddr i a s) = TotalSubnetNodeUids s"
  "BootnodePeerIdSubnetNodeId (insert_peer_info i p n s) = BootnodePeerIdSubnetNodeId s"
  "ClientPeerIdSubnetNodeId (insert_peer_info i p n s) = ClientPeerIdSubnetNodeId s"
  "UniqueParamSubnetNodeId (insert_peer_info i p n s) = UniqueParamSubnetNodeId s"
  "SubnetNodesData (insert_peer_info i p n s) = SubnetNodesData s"
  "RegisteredSubnetNodesData (insert_peer_info i p n s) = RegisteredSubnetNodesData s"
  "SubnetNodeQueue (insert_peer_info i p n s) = SubnetNodeQueue s"
  "TotalSubnetNodeUids (insert_peer_info i p n s) = TotalSubnetNodeUids s"
  "BootnodePeerIdSubnetNodeId (remove_peer_info i p s) = BootnodePeerIdSubnetNodeId s"
  "ClientPeerIdSubnetNodeId (remove_peer_info i p s) = ClientPeerIdSubnetNodeId s"
  "UniqueParamSubnetNodeId (remove_peer_info i p s) = UniqueParamSubnetNodeId s"
  "SubnetNodesData (remove_peer_info i p s) = SubnetNodesData s"
  "RegisteredSubnetNodesData (remove_peer_info i p s) = RegisteredSubnetNodesData s"
  "SubnetNodeQueue (remove_peer_info i p s) = SubnetNodeQueue s"
  "TotalSubnetNodeUids (remove_peer_info i p s) = TotalSubnetNodeUids s"
  "PeerIdSubnetNodeId (insert_bootnode_peer_info i q n s) = PeerIdSubnetNodeId s"
  "ClientPeerIdSubnetNodeId (insert_bootnode_peer_info i q n s) = ClientPeerIdSubnetNodeId s"
  "UniqueParamSubnetNodeId (insert_bootnode_peer_info i q n s) = UniqueParamSubnetNodeId s"
  "SubnetNodesData (insert_bootnode_peer_info i q n s) = SubnetNodesData s"
  "RegisteredSubnetNodesData (insert_bootnode_peer_info i q n s) = RegisteredSubnetNodesData s"
  "SubnetNodeQueue (insert_bootnode_peer_info i q n s) = SubnetNodeQueue s"
  "TotalSubnetNodeUids (insert_bootnode_peer_info i q n s) = TotalSubnetNodeUids s"
  "PeerIdSubnetNodeId (remove_bootnode_peer_info i q s) = PeerIdSubnetNodeId s"
  "ClientPeerIdSubnetNodeId (remove_bootnode_peer_info i q s) = ClientPeerIdSubnetNodeId s"
  "UniqueParamSubnetNodeId (remove_bootnode_peer_info i q s) = UniqueParamSubnetNodeId s"
  "SubnetNodesData (remove_bootnode_peer_info i q s) = SubnetNodesData s"
  "RegisteredSubnetNodesData (remove_bootnode_peer_info i q s) = RegisteredSubnetNodesData s"
  "SubnetNodeQueue (remove_bootnode_peer_info i q s) = SubnetNodeQueue s"
  "TotalSubnetNodeUids (remove_bootnode_peer_info i q s) = TotalSubnetNodeUids s"
  "PeerIdSubnetNodeId (insert_client_peer_info i q n s) = PeerIdSubnetNodeId s"
  "BootnodePeerIdSubnetNodeId (insert_client_peer_info i q n s) = BootnodePeerIdSubnetNodeId s"
  "UniqueParamSubnetNodeId (insert_client_peer_info i q n s) = UniqueParamSubnetNodeId s"
  "SubnetNodesData (insert_client_peer_info i q n s) = SubnetNodesData s"
  "RegisteredSubnetNodesData (insert_client_peer_info i q n s) = RegisteredSubnetNodesData s"
  "SubnetNodeQueue (insert_client_peer_info i q n s) = SubnetNodeQueue s"
  "TotalSubnetNodeUids (insert_client_peer_info i q n s) = TotalSubnetNodeUids s"
  "PeerIdSubnetNodeId (remove_client_peer_info i q s) = PeerIdSubnetNodeId s"
  "BootnodePeerIdSubnetNodeId (remove_client_peer_info i q s) = BootnodePeerIdSubnetNodeId s"
  "UniqueParamSubnetNodeId (remove_client_peer_info i q s) = UniqueParamSubnetNodeId s"
  "SubnetNodesData (remove_client_peer_info i q s) = SubnetNodesData s"
  "RegisteredSubnetNodesData (remove_client_peer_info i q s) = RegisteredSubnetNodesData s"
  "SubnetNodeQueue (remove_client_peer_info i q s) = SubnetNodeQueue s"
  "TotalSubnetNodeUids (remove_client_peer_info i q s) = TotalSubnetNodeUids s"
  "PeerIdSubnetNodeId (insert_unique i u n s) = PeerIdSubnetNodeId s"
  "BootnodePeerIdSubnetNodeId (insert_unique i u n s) = BootnodePeerIdSubnetNodeId s"
  "ClientPeerIdSubnetNodeId (insert_unique i u n s) = ClientPeerIdSubnetNodeId s"
  "MultiaddrSubnetNodeId (insert_unique i u n s) = MultiaddrSubnetNodeId s"
  "SubnetNodesData (insert_unique i u n s) = SubnetNodesData s"
  "RegisteredSubnetNodesData (insert_unique i u n s) = RegisteredSubnetNodesData s"
  "SubnetNodeQueue (insert_unique i u n s) = SubnetNodeQueue s"
  "TotalSubnetNodeUids (insert_unique i u n s) = TotalSubnetNodeUids s"
  "PeerIdSubnetNodeId (remove_unique i u s) = PeerIdSubnetNodeId s"
  "BootnodePeerIdSubnetNodeId (remove_unique i u s) = BootnodePeerIdSubnetNodeId s"
  "ClientPeerIdSubnetNodeId (remove_unique i u s) = ClientPeerIdSubnetNodeId s"
  "MultiaddrSubnetNodeId (remove_unique i u s) = MultiaddrSubnetNodeId s"
  "SubnetNodesData (remove_unique i u s) = SubnetNodesData s"
  "RegisteredSubnetNodesData (remove_unique i u s) = RegisteredSubnetNodesData s"
  "SubnetNodeQueue (remove_unique i u s) = SubnetNodeQueue s"
  "TotalSubnetNodeUids (remove_unique i u s) = TotalSubnetNodeUids s"
  by (simp_all add: index_defs split: option.split)


section \<open>Nodes and their keys\<close>

definition node_at :: "u32 \<Rightarrow> u32 \<Rightarrow> ('c, 'm) network_nodes_scheme \<Rightarrow> SubnetNode option" where
  "node_at i n s = (case SubnetNodesData s (i, n) of Some nd \<Rightarrow> Some nd
     | None \<Rightarrow> RegisteredSubnetNodesData s (i, n))"

definition node_addrs :: "SubnetNode \<Rightarrow> bytes set" where
  "node_addrs nd = set_option (peer_multiaddr (sn_peer_info nd)) \<union> info_addr (sn_bootnode_peer_info nd)
     \<union> info_addr (sn_client_peer_info nd)"

definition node_keys :: "(SubnetNode \<Rightarrow> 'key set) \<Rightarrow> u32 \<Rightarrow> ('c, 'm) network_nodes_scheme \<Rightarrow> u32 \<Rightarrow> 'key set" where
  "node_keys f i s n = (case node_at i n s of None \<Rightarrow> {} | Some nd \<Rightarrow> f nd)"

text \<open>The multiaddresses of the three roles of a node differ.\<close>

definition addrs_differ :: "SubnetNode \<Rightarrow> bool" where
  "addrs_differ nd \<longleftrightarrow>
     set_option (peer_multiaddr (sn_peer_info nd)) \<inter> info_addr (sn_bootnode_peer_info nd) = {} \<and>
     set_option (peer_multiaddr (sn_peer_info nd)) \<inter> info_addr (sn_client_peer_info nd) = {} \<and>
     info_addr (sn_bootnode_peer_info nd) \<inter> info_addr (sn_client_peer_info nd) = {}"

abbreviation peer_key :: "SubnetNode \<Rightarrow> PeerId set" where
  "peer_key nd \<equiv> {peer_id (sn_peer_info nd)}"

abbreviation bootnode_key :: "SubnetNode \<Rightarrow> PeerId set" where
  "bootnode_key nd \<equiv> info_peer (sn_bootnode_peer_info nd)"

abbreviation client_key :: "SubnetNode \<Rightarrow> PeerId set" where
  "client_key nd \<equiv> info_peer (sn_client_peer_info nd)"

abbreviation unique_key :: "SubnetNode \<Rightarrow> bytes set" where
  "unique_key nd \<equiv> set_option (sn_unique nd)"

text \<open>The five indices of a subnet are exact, and a peer identifier has one role.\<close>

definition subnet_indexed :: "u32 \<Rightarrow> ('c, 'm) network_nodes_scheme \<Rightarrow> bool" where
  "subnet_indexed i s \<longleftrightarrow>
     indexed (PeerIdSubnetNodeId s) i (node_keys peer_key i s) \<and>
     indexed (BootnodePeerIdSubnetNodeId s) i (node_keys bootnode_key i s) \<and>
     indexed (ClientPeerIdSubnetNodeId s) i (node_keys client_key i s) \<and>
     indexed (MultiaddrSubnetNodeId s) i (node_keys node_addrs i s) \<and>
     indexed (UniqueParamSubnetNodeId s) i (node_keys unique_key i s) \<and>
     (\<forall>p. (PeerIdSubnetNodeId s (i, p) = None \<or> BootnodePeerIdSubnetNodeId s (i, p) = None) \<and>
          (PeerIdSubnetNodeId s (i, p) = None \<or> ClientPeerIdSubnetNodeId s (i, p) = None) \<and>
          (BootnodePeerIdSubnetNodeId s (i, p) = None \<or> ClientPeerIdSubnetNodeId s (i, p) = None))"

text \<open>
  A node is active or registered, not both, under its own identifier, which is positive and has been
  handed out.
\<close>

definition node_ids_ok :: "u32 \<Rightarrow> ('c, 'm) network_nodes_scheme \<Rightarrow> bool" where
  "node_ids_ok i s \<longleftrightarrow>
     (\<forall>n nd. node_at i n s = Some nd \<longrightarrow>
        sn_id nd = n \<and> n \<noteq> 0 \<and> n \<le> TotalSubnetNodeUids s i \<and> addrs_differ nd) \<and>
     (\<forall>n. SubnetNodesData s (i, n) = None \<or> RegisteredSubnetNodesData s (i, n) = None)"

text \<open>The queue holds the registered nodes, each once, as they are stored and in the class they entered.\<close>

definition node_queue_ok :: "u32 \<Rightarrow> ('c, 'm) network_nodes_scheme \<Rightarrow> bool" where
  "node_queue_ok i s \<longleftrightarrow> distinct (map sn_id (SubnetNodeQueue s i)) \<and>
     (\<forall>nd \<in> set (SubnetNodeQueue s i). node_class (sn_classification nd) = RegisteredClass) \<and>
     (\<forall>n nd. RegisteredSubnetNodesData s (i, n) = Some nd \<longleftrightarrow>
        nd \<in> set (SubnetNodeQueue s i) \<and> sn_id nd = n)"

definition nodes_ok :: "('c, 'm) network_nodes_scheme \<Rightarrow> bool" where
  "nodes_ok s \<longleftrightarrow> (\<forall>i. subnet_indexed i s \<and> node_ids_ok i s \<and> node_queue_ok i s)"

text \<open>What the invariant says about single nodes: no two nodes of a subnet share a key.\<close>

lemma nodes_ok_unique:
  assumes "nodes_ok s" and "node_at i n s = Some a" and "node_at i m s = Some b" and "n \<noteq> m"
  shows "peer_id (sn_peer_info a) \<noteq> peer_id (sn_peer_info b)"
    and "bootnode_key a \<inter> bootnode_key b = {}"
    and "client_key a \<inter> client_key b = {}"
    and "node_addrs a \<inter> node_addrs b = {}"
    and "unique_key a \<inter> unique_key b = {}"
proof -
  have ix: "subnet_indexed i s" using assms(1) by (simp add: nodes_ok_def)
  have d: "f a \<inter> f b = {}" if "indexed idx i (node_keys f i s)" for f :: "SubnetNode \<Rightarrow> bytes set" and idx
    using indexed_unique [OF that, of _ n m] assms(2-4) by (auto simp: node_keys_def)
  note ix' = ix [unfolded subnet_indexed_def]
  show "peer_id (sn_peer_info a) \<noteq> peer_id (sn_peer_info b)" using d [of _ peer_key] ix' by blast
  show "bootnode_key a \<inter> bootnode_key b = {}" using d [of _ bootnode_key] ix' by blast
  show "client_key a \<inter> client_key b = {}" using d [of _ client_key] ix' by blast
  show "node_addrs a \<inter> node_addrs b = {}" using d [of _ node_addrs] ix' by blast
  show "unique_key a \<inter> unique_key b = {}" using d [of _ unique_key] ix' by blast
qed

section \<open>Frames\<close>

text \<open>An operation that leaves a subnet's nodes and indices alone keeps its invariant.\<close>

definition nodes_frame :: "u32 \<Rightarrow> ('c, 'm) network_nodes_scheme \<Rightarrow> ('d, 'k) network_nodes_scheme \<Rightarrow> bool" where
  "nodes_frame i s s' \<longleftrightarrow>
     (\<forall>k. SubnetNodesData s' (i, k) = SubnetNodesData s (i, k)) \<and>
     (\<forall>k. RegisteredSubnetNodesData s' (i, k) = RegisteredSubnetNodesData s (i, k)) \<and>
     (\<forall>k. PeerIdSubnetNodeId s' (i, k) = PeerIdSubnetNodeId s (i, k)) \<and>
     (\<forall>k. BootnodePeerIdSubnetNodeId s' (i, k) = BootnodePeerIdSubnetNodeId s (i, k)) \<and>
     (\<forall>k. ClientPeerIdSubnetNodeId s' (i, k) = ClientPeerIdSubnetNodeId s (i, k)) \<and>
     (\<forall>k. MultiaddrSubnetNodeId s' (i, k) = MultiaddrSubnetNodeId s (i, k)) \<and>
     (\<forall>k. UniqueParamSubnetNodeId s' (i, k) = UniqueParamSubnetNodeId s (i, k)) \<and>
     SubnetNodeQueue s' i = SubnetNodeQueue s i \<and> TotalSubnetNodeUids s' i = TotalSubnetNodeUids s i"

lemma nodes_frame_ok:
  assumes "nodes_frame i s s'"
  shows "subnet_indexed i s' = subnet_indexed i s" and "node_ids_ok i s' = node_ids_ok i s"
    and "node_queue_ok i s' = node_queue_ok i s"
proof -
  have at: "node_at i n s' = node_at i n s" for n using assms by (simp add: node_at_def nodes_frame_def split: option.splits)
  then have "node_keys f i s' = node_keys f i s" for f :: "SubnetNode \<Rightarrow> bytes set"
    by (simp add: node_keys_def fun_eq_iff)
  with assms show "subnet_indexed i s' = subnet_indexed i s"
    by (simp add: subnet_indexed_def indexed_def nodes_frame_def)
  from assms at show "node_ids_ok i s' = node_ids_ok i s" by (simp add: node_ids_ok_def nodes_frame_def)
  from assms show "node_queue_ok i s' = node_queue_ok i s" by (simp add: node_queue_ok_def nodes_frame_def)
qed

lemma nodes_ok_change:
  assumes "nodes_ok s" and "\<And>j. j \<noteq> i \<Longrightarrow> nodes_frame j s s'"
    and "subnet_indexed i s'" and "node_ids_ok i s'" and "node_queue_ok i s'"
  shows "nodes_ok s'"
  unfolding nodes_ok_def
proof
  fix j
  show "subnet_indexed j s' \<and> node_ids_ok j s' \<and> node_queue_ok j s'"
    using assms nodes_frame_ok [OF assms(2), of j] by (cases "j = i") (auto simp: nodes_ok_def)
qed

lemma nodes_ok_frame:
  assumes "nodes_ok s" and "\<And>j. nodes_frame j s s'"
  shows "nodes_ok s'"
  using assms(1) nodes_frame_ok [OF assms(2)] by (simp add: nodes_ok_def)

section \<open>Changing one node\<close>

lemma node_keys_change:
  assumes "node_at i n s' = new" and "\<And>m. m \<noteq> n \<Longrightarrow> node_at i m s' = node_at i m s"
  shows "node_keys f i s' = (node_keys f i s)(n := (case new of None \<Rightarrow> {} | Some nd \<Rightarrow> f nd))"
  using assms by (auto simp: node_keys_def fun_eq_iff)

text \<open>The roles of peer identifiers stay apart when the new identifiers are nobody's.\<close>

lemma subnet_indexedD:
  assumes "subnet_indexed i s"
  shows "indexed (PeerIdSubnetNodeId s) i (node_keys peer_key i s)"
    and "indexed (BootnodePeerIdSubnetNodeId s) i (node_keys bootnode_key i s)"
    and "indexed (ClientPeerIdSubnetNodeId s) i (node_keys client_key i s)"
    and "indexed (MultiaddrSubnetNodeId s) i (node_keys node_addrs i s)"
    and "indexed (UniqueParamSubnetNodeId s) i (node_keys unique_key i s)"
    and "PeerIdSubnetNodeId s (i, p) = None \<or> BootnodePeerIdSubnetNodeId s (i, p) = None"
    and "PeerIdSubnetNodeId s (i, p) = None \<or> ClientPeerIdSubnetNodeId s (i, p) = None"
    and "BootnodePeerIdSubnetNodeId s (i, p) = None \<or> ClientPeerIdSubnetNodeId s (i, p) = None"
  using assms by (simp_all add: subnet_indexed_def)

lemma subnet_indexed_change:
  assumes "node_at i n s' = new" and "\<And>m. m \<noteq> n \<Longrightarrow> node_at i m s' = node_at i m s"
    and "indexed (PeerIdSubnetNodeId s') i
      ((node_keys peer_key i s)(n := (case new of None \<Rightarrow> {} | Some nd \<Rightarrow> peer_key nd)))"
    and "indexed (BootnodePeerIdSubnetNodeId s') i
      ((node_keys bootnode_key i s)(n := (case new of None \<Rightarrow> {} | Some nd \<Rightarrow> bootnode_key nd)))"
    and "indexed (ClientPeerIdSubnetNodeId s') i
      ((node_keys client_key i s)(n := (case new of None \<Rightarrow> {} | Some nd \<Rightarrow> client_key nd)))"
    and "indexed (MultiaddrSubnetNodeId s') i
      ((node_keys node_addrs i s)(n := (case new of None \<Rightarrow> {} | Some nd \<Rightarrow> node_addrs nd)))"
    and "indexed (UniqueParamSubnetNodeId s') i
      ((node_keys unique_key i s)(n := (case new of None \<Rightarrow> {} | Some nd \<Rightarrow> unique_key nd)))"
    and "\<And>p. (PeerIdSubnetNodeId s' (i, p) = None \<or> BootnodePeerIdSubnetNodeId s' (i, p) = None) \<and>
          (PeerIdSubnetNodeId s' (i, p) = None \<or> ClientPeerIdSubnetNodeId s' (i, p) = None) \<and>
          (BootnodePeerIdSubnetNodeId s' (i, p) = None \<or> ClientPeerIdSubnetNodeId s' (i, p) = None)"
  shows "subnet_indexed i s'"
proof -
  have k: "node_keys f i s' = (node_keys f i s)(n := (case new of None \<Rightarrow> {} | Some nd \<Rightarrow> f nd))"
    for f :: "SubnetNode \<Rightarrow> bytes set"
    using assms(1,2) by (rule node_keys_change)
  show ?thesis using assms(3-8) unfolding subnet_indexed_def k by blast
qed

text \<open>What a successful check of a peer info has found.\<close>

lemma validate_peer_info_free:
  assumes "nodes_ok s" and "validate_peer_info i 0 0 p s = Some (Inr ())"
  shows "PeerIdSubnetNodeId s (i, peer_id p) = None" and "BootnodePeerIdSubnetNodeId s (i, peer_id p) = None"
    and "ClientPeerIdSubnetNodeId s (i, peer_id p) = None"
    and "a \<in> set_option (peer_multiaddr p) \<Longrightarrow> MultiaddrSubnetNodeId s (i, a) = None"
proof -
  have ix: "subnet_indexed i s" and "node_ids_ok i s" using assms(1) by (simp_all add: nodes_ok_def)
  then have "node_at i 0 s = None" by (cases "node_at i 0 s") (auto simp: node_ids_ok_def)
  then have "node_keys f i s 0 = {}" for f :: "SubnetNode \<Rightarrow> bytes set" by (simp add: node_keys_def)
  then have z: "PeerIdSubnetNodeId s (i, k) \<noteq> Some 0" "BootnodePeerIdSubnetNodeId s (i, k) \<noteq> Some 0"
    "ClientPeerIdSubnetNodeId s (i, k) \<noteq> Some 0" "MultiaddrSubnetNodeId s (i, k) \<noteq> Some 0" for k
    using subnet_indexedD(1-4) [OF ix] by (simp_all add: indexed_def)
  have "is_owner_of_peer_or_ownerless i 0 0 (peer_id p) s"
    using assms(2) by (auto simp: validate_peer_info_def split: if_splits)
  then have "PeerIdSubnetNodeId s (i, peer_id p) = None \<and> BootnodePeerIdSubnetNodeId s (i, peer_id p) = None \<and>
      ClientPeerIdSubnetNodeId s (i, peer_id p) = None"
    using z by (auto simp: is_owner_of_peer_or_ownerless_def split: option.splits)
  then show "PeerIdSubnetNodeId s (i, peer_id p) = None" "BootnodePeerIdSubnetNodeId s (i, peer_id p) = None"
    "ClientPeerIdSubnetNodeId s (i, peer_id p) = None" by blast+
  show "MultiaddrSubnetNodeId s (i, a) = None" if "a \<in> set_option (peer_multiaddr p)"
    using assms(2) that z by (auto simp: validate_peer_info_def is_owner_of_multiaddr_or_ownerless_def
        split: if_splits option.splits sum.splits)
qed

end
