(* ===== verification/Node_Lifecycle.thy ===== *)
theory Node_Lifecycle
  imports Node_Indices
begin

text \<open>
  The operations on nodes keep the indices exact: removal, the updates of an active node, registration,
  and activation from the queue.
\<close>

section \<open>Removal\<close>

lemma common_remove_indices:
  shows "PeerIdSubnetNodeId (common_remove_subnet_node i n nd s) (j, k) =
      (if j = i \<and> k \<in> peer_key nd then None else PeerIdSubnetNodeId s (j, k))"
    and "BootnodePeerIdSubnetNodeId (common_remove_subnet_node i n nd s) (j, k) =
      (if j = i \<and> k \<in> bootnode_key nd then None else BootnodePeerIdSubnetNodeId s (j, k))"
    and "ClientPeerIdSubnetNodeId (common_remove_subnet_node i n nd s) (j, k) =
      (if j = i \<and> k \<in> client_key nd then None else ClientPeerIdSubnetNodeId s (j, k))"
    and "MultiaddrSubnetNodeId (common_remove_subnet_node i n nd s) (j, a) =
      (if j = i \<and> a \<in> node_addrs nd then None else MultiaddrSubnetNodeId s (j, a))"
    and "UniqueParamSubnetNodeId (common_remove_subnet_node i n nd s) (j, u) =
      (if j = i \<and> u \<in> unique_key nd then None else UniqueParamSubnetNodeId s (j, u))"
  by (auto simp: common_remove_subnet_node_def Let_def peers.index_del bootnodes.index_del
      clients.index_del uniques.index_del client_addrs.index_del bootnode_addrs.index_del
      peer_addrs.index_del node_addrs_def)

lemma common_remove_frame [simp]:
  "SubnetNodesData (common_remove_subnet_node i n nd s) = SubnetNodesData s"
  "RegisteredSubnetNodesData (common_remove_subnet_node i n nd s) = RegisteredSubnetNodesData s"
  "SubnetNodeQueue (common_remove_subnet_node i n nd s) = SubnetNodeQueue s"
  "TotalSubnetNodeUids (common_remove_subnet_node i n nd s) = TotalSubnetNodeUids s"
  by (simp_all add: common_remove_subnet_node_def Let_def)

text \<open>A node's keys go with it, whatever else the removal writes.\<close>

lemma subnet_indexed_remove:
  assumes "subnet_indexed i s" and "node_at i n s = Some nd" and "node_at i n s' = None"
    and "\<And>m. m \<noteq> n \<Longrightarrow> node_at i m s' = node_at i m s"
    and "\<And>k. PeerIdSubnetNodeId s' (i, k) = (if k \<in> peer_key nd then None else PeerIdSubnetNodeId s (i, k))"
    and "\<And>k. BootnodePeerIdSubnetNodeId s' (i, k) =
      (if k \<in> bootnode_key nd then None else BootnodePeerIdSubnetNodeId s (i, k))"
    and "\<And>k. ClientPeerIdSubnetNodeId s' (i, k) =
      (if k \<in> client_key nd then None else ClientPeerIdSubnetNodeId s (i, k))"
    and "\<And>k. MultiaddrSubnetNodeId s' (i, k) =
      (if k \<in> node_addrs nd then None else MultiaddrSubnetNodeId s (i, k))"
    and "\<And>k. UniqueParamSubnetNodeId s' (i, k) =
      (if k \<in> unique_key nd then None else UniqueParamSubnetNodeId s (i, k))"
  shows "subnet_indexed i s'"
proof (rule subnet_indexed_change [OF assms(3,4)])
  note ix = subnet_indexedD [OF assms(1)]
  have k: "node_keys f i s n = f nd" for f :: "SubnetNode \<Rightarrow> bytes set" by (simp add: node_keys_def assms(2))
  show "indexed (PeerIdSubnetNodeId s') i
      ((node_keys peer_key i s)(n := (case None of None \<Rightarrow> {} | Some nd \<Rightarrow> peer_key nd)))"
    using ix(1) by (auto intro!: indexed_set simp: k assms(5))
  show "indexed (BootnodePeerIdSubnetNodeId s') i
      ((node_keys bootnode_key i s)(n := (case None of None \<Rightarrow> {} | Some nd \<Rightarrow> bootnode_key nd)))"
    using ix(2) by (auto intro!: indexed_set simp: k assms(6))
  show "indexed (ClientPeerIdSubnetNodeId s') i
      ((node_keys client_key i s)(n := (case None of None \<Rightarrow> {} | Some nd \<Rightarrow> client_key nd)))"
    using ix(3) by (auto intro!: indexed_set simp: k assms(7))
  show "indexed (MultiaddrSubnetNodeId s') i
      ((node_keys node_addrs i s)(n := (case None of None \<Rightarrow> {} | Some nd \<Rightarrow> node_addrs nd)))"
    using ix(4) by (auto intro!: indexed_set simp: k assms(8))
  show "indexed (UniqueParamSubnetNodeId s') i
      ((node_keys unique_key i s)(n := (case None of None \<Rightarrow> {} | Some nd \<Rightarrow> unique_key nd)))"
    using ix(5) by (auto intro!: indexed_set simp: k assms(9))
  show "(PeerIdSubnetNodeId s' (i, p) = None \<or> BootnodePeerIdSubnetNodeId s' (i, p) = None) \<and>
      (PeerIdSubnetNodeId s' (i, p) = None \<or> ClientPeerIdSubnetNodeId s' (i, p) = None) \<and>
      (BootnodePeerIdSubnetNodeId s' (i, p) = None \<or> ClientPeerIdSubnetNodeId s' (i, p) = None)" for p
    using ix(6-8) [of p] by (simp add: assms(5-7))
qed

text \<open>Election slots and emergency validators are none of the indices' business.\<close>

lemma remove_node_from_election_slot_frame [simp]:
  "SubnetNodesData (fst (remove_node_from_election_slot i n s)) = SubnetNodesData s"
  "RegisteredSubnetNodesData (fst (remove_node_from_election_slot i n s)) = RegisteredSubnetNodesData s"
  "PeerIdSubnetNodeId (fst (remove_node_from_election_slot i n s)) = PeerIdSubnetNodeId s"
  "BootnodePeerIdSubnetNodeId (fst (remove_node_from_election_slot i n s)) = BootnodePeerIdSubnetNodeId s"
  "ClientPeerIdSubnetNodeId (fst (remove_node_from_election_slot i n s)) = ClientPeerIdSubnetNodeId s"
  "MultiaddrSubnetNodeId (fst (remove_node_from_election_slot i n s)) = MultiaddrSubnetNodeId s"
  "UniqueParamSubnetNodeId (fst (remove_node_from_election_slot i n s)) = UniqueParamSubnetNodeId s"
  "SubnetNodeQueue (fst (remove_node_from_election_slot i n s)) = SubnetNodeQueue s"
  "TotalSubnetNodeUids (fst (remove_node_from_election_slot i n s)) = TotalSubnetNodeUids s"
  by (simp_all add: remove_node_from_election_slot_def Let_def split: option.split)

lemma node_ids_ok_remove:
  assumes "node_ids_ok i s"
    and "\<And>m. SubnetNodesData s' (i, m) = (if m = n then None else SubnetNodesData s (i, m))"
    and "\<And>m. RegisteredSubnetNodesData s' (i, m) = (if m = n then None else RegisteredSubnetNodesData s (i, m))"
    and "TotalSubnetNodeUids s' i = TotalSubnetNodeUids s i"
  shows "node_ids_ok i s'"
proof -
  have "node_at i m s' = (if m = n then None else node_at i m s)" for m by (simp add: node_at_def assms(2,3) split: option.split)
  then show ?thesis using assms(1) by (simp add: node_ids_ok_def assms(2-4))
qed

lemma remove_active_subnet_node_fields:
  assumes "SubnetNodesData s (i, n) = Some nd"
  shows "SubnetNodesData (remove_active_subnet_node i n s) = (SubnetNodesData s)((i, n) := None)"
    and "RegisteredSubnetNodesData (remove_active_subnet_node i n s) = RegisteredSubnetNodesData s"
    and "SubnetNodeQueue (remove_active_subnet_node i n s) = SubnetNodeQueue s"
    and "TotalSubnetNodeUids (remove_active_subnet_node i n s) = TotalSubnetNodeUids s"
    and "PeerIdSubnetNodeId (remove_active_subnet_node i n s) (j, k) =
      (if j = i \<and> k \<in> peer_key nd then None else PeerIdSubnetNodeId s (j, k))"
    and "BootnodePeerIdSubnetNodeId (remove_active_subnet_node i n s) (j, k) =
      (if j = i \<and> k \<in> bootnode_key nd then None else BootnodePeerIdSubnetNodeId s (j, k))"
    and "ClientPeerIdSubnetNodeId (remove_active_subnet_node i n s) (j, k) =
      (if j = i \<and> k \<in> client_key nd then None else ClientPeerIdSubnetNodeId s (j, k))"
    and "MultiaddrSubnetNodeId (remove_active_subnet_node i n s) (j, a) =
      (if j = i \<and> a \<in> node_addrs nd then None else MultiaddrSubnetNodeId s (j, a))"
    and "UniqueParamSubnetNodeId (remove_active_subnet_node i n s) (j, u) =
      (if j = i \<and> u \<in> unique_key nd then None else UniqueParamSubnetNodeId s (j, u))"
  by (simp_all add: remove_active_subnet_node_def assms Let_def common_remove_indices)

lemma remove_registered_subnet_node_fields:
  assumes "RegisteredSubnetNodesData s (i, n) = Some nd"
  shows "SubnetNodesData (remove_registered_subnet_node i n s) = SubnetNodesData s"
    and "RegisteredSubnetNodesData (remove_registered_subnet_node i n s) =
      (RegisteredSubnetNodesData s)((i, n) := None)"
    and "SubnetNodeQueue (remove_registered_subnet_node i n s) =
      (SubnetNodeQueue s)(i := filter (\<lambda>nd. sn_id nd \<noteq> n) (SubnetNodeQueue s i))"
    and "TotalSubnetNodeUids (remove_registered_subnet_node i n s) = TotalSubnetNodeUids s"
    and "PeerIdSubnetNodeId (remove_registered_subnet_node i n s) (j, k) =
      (if j = i \<and> k \<in> peer_key nd then None else PeerIdSubnetNodeId s (j, k))"
    and "BootnodePeerIdSubnetNodeId (remove_registered_subnet_node i n s) (j, k) =
      (if j = i \<and> k \<in> bootnode_key nd then None else BootnodePeerIdSubnetNodeId s (j, k))"
    and "ClientPeerIdSubnetNodeId (remove_registered_subnet_node i n s) (j, k) =
      (if j = i \<and> k \<in> client_key nd then None else ClientPeerIdSubnetNodeId s (j, k))"
    and "MultiaddrSubnetNodeId (remove_registered_subnet_node i n s) (j, a) =
      (if j = i \<and> a \<in> node_addrs nd then None else MultiaddrSubnetNodeId s (j, a))"
    and "UniqueParamSubnetNodeId (remove_registered_subnet_node i n s) (j, u) =
      (if j = i \<and> u \<in> unique_key nd then None else UniqueParamSubnetNodeId s (j, u))"
  by (simp_all add: remove_registered_subnet_node_def assms Let_def common_remove_indices)

lemma node_ids_disjoint:
  assumes "nodes_ok s"
  shows "SubnetNodesData s (i, n) = Some nd \<Longrightarrow> RegisteredSubnetNodesData s (i, n) = None"
    and "RegisteredSubnetNodesData s (i, n) = Some nd \<Longrightarrow> SubnetNodesData s (i, n) = None"
proof -
  have "node_ids_ok i s" using assms by (simp add: nodes_ok_def)
  then have "SubnetNodesData s (i, n) = None \<or> RegisteredSubnetNodesData s (i, n) = None"
    by (simp add: node_ids_ok_def)
  then show "SubnetNodesData s (i, n) = Some nd \<Longrightarrow> RegisteredSubnetNodesData s (i, n) = None"
    and "RegisteredSubnetNodesData s (i, n) = Some nd \<Longrightarrow> SubnetNodesData s (i, n) = None" by auto
qed

lemma nodes_ok_remove_active:
  assumes "nodes_ok s"
  shows "nodes_ok (remove_active_subnet_node i n s)"
proof (cases "SubnetNodesData s (i, n)")
  case (Some nd)
  let ?s = "remove_active_subnet_node i n s"
  note f = remove_active_subnet_node_fields [OF Some]
  have r: "RegisteredSubnetNodesData s (i, n) = None" by (rule node_ids_disjoint(1) [OF assms Some])
  have ok: "subnet_indexed i s" "node_ids_ok i s" "node_queue_ok i s" using assms by (simp_all add: nodes_ok_def)
  show ?thesis
  proof (rule nodes_ok_change [OF assms])
    show "nodes_frame j s ?s" if "j \<noteq> i" for j using that by (simp add: nodes_frame_def f)
    show "subnet_indexed i ?s"
      by (rule subnet_indexed_remove [OF ok(1), of n nd]) (simp_all add: node_at_def Some r f split: option.split)
    show "node_ids_ok i ?s" by (rule node_ids_ok_remove [OF ok(2), of _ n]) (simp_all add: f r)
    show "node_queue_ok i ?s" using ok(3) by (simp add: node_queue_ok_def f)
  qed
qed (simp add: remove_active_subnet_node_def assms)

lemma nodes_ok_remove_registered:
  assumes "nodes_ok s"
  shows "nodes_ok (remove_registered_subnet_node i n s)"
proof (cases "RegisteredSubnetNodesData s (i, n)")
  case (Some nd)
  let ?s = "remove_registered_subnet_node i n s"
  note f = remove_registered_subnet_node_fields [OF Some]
  have r: "SubnetNodesData s (i, n) = None" by (rule node_ids_disjoint(2) [OF assms Some])
  have ok: "subnet_indexed i s" "node_ids_ok i s" "node_queue_ok i s" using assms by (simp_all add: nodes_ok_def)
  show ?thesis
  proof (rule nodes_ok_change [OF assms])
    show "nodes_frame j s ?s" if "j \<noteq> i" for j using that by (simp add: nodes_frame_def f)
    show "subnet_indexed i ?s"
      by (rule subnet_indexed_remove [OF ok(1), of n nd]) (simp_all add: node_at_def Some r f split: option.split)
    show "node_ids_ok i ?s" by (rule node_ids_ok_remove [OF ok(2), of _ n]) (simp_all add: f r)
    show "node_queue_ok i ?s" using ok(3) by (auto simp: node_queue_ok_def f distinct_map_filter)
  qed
qed (simp add: remove_registered_subnet_node_def assms)

lemma nodes_ok_remove:
  assumes "nodes_ok s"
  shows "nodes_ok (perform_remove_subnet_node i n s)"
  using assms nodes_ok_remove_active [OF assms] nodes_ok_remove_registered [OF assms]
  by (simp add: perform_remove_subnet_node_def)

section \<open>Updates of an active node\<close>

text \<open>An active node is replaced by a version of itself; only its keys matter.\<close>

lemma nodes_ok_update_active:
  assumes "nodes_ok s" and "SubnetNodesData s (i, n) = Some nd"
    and "SubnetNodesData s' = (SubnetNodesData s)((i, n) \<mapsto> nd')" and "sn_id nd' = sn_id nd" and "addrs_differ nd'"
    and "RegisteredSubnetNodesData s' = RegisteredSubnetNodesData s"
    and "SubnetNodeQueue s' = SubnetNodeQueue s" and "TotalSubnetNodeUids s' = TotalSubnetNodeUids s"
    and "\<And>j. j \<noteq> i \<Longrightarrow> nodes_frame j s s'" and "subnet_indexed i s'"
  shows "nodes_ok s'"
proof (rule nodes_ok_change [OF assms(1), of i])
  have ok: "node_ids_ok i s" "node_queue_ok i s" using assms(1) by (simp_all add: nodes_ok_def)
  have "node_at i m s' = (if m = n then Some nd' else node_at i m s)" for m
    by (simp add: node_at_def assms(3,6) split: option.split)
  moreover have "node_at i n s = Some nd" by (simp add: node_at_def assms(2))
  ultimately show "node_ids_ok i s'"
    using ok(1) assms(2,5) node_ids_disjoint(1) [OF assms(1,2)] by (auto simp: node_ids_ok_def assms(3,4,6,8))
  show "node_queue_ok i s'" using ok(2) by (simp add: node_queue_ok_def assms(6,7))
qed (use assms in auto)

lemma addrs_of_indexed:
  assumes "nodes_ok s" and "node_at i n s = Some nd"
  shows "a \<in> node_addrs nd \<longleftrightarrow> MultiaddrSubnetNodeId s (i, a) = Some n"
    and "addrs_differ nd" and "node_keys f i s n = f nd"
proof -
  have "subnet_indexed i s" and ids: "node_ids_ok i s" using assms(1) by (simp_all add: nodes_ok_def)
  then show "a \<in> node_addrs nd \<longleftrightarrow> MultiaddrSubnetNodeId s (i, a) = Some n"
    using subnet_indexedD(4) [of i s] assms(2) by (simp add: indexed_def node_keys_def)
  show "addrs_differ nd" using ids assms(2) by (auto simp: node_ids_ok_def)
  show "node_keys f i s n = f nd" by (simp add: node_keys_def assms(2))
qed

lemma node_addrs_parts:
  "set_option (peer_multiaddr (sn_peer_info nd)) \<subseteq> node_addrs nd"
  "info_addr (sn_bootnode_peer_info nd) \<subseteq> node_addrs nd" "info_addr (sn_client_peer_info nd) \<subseteq> node_addrs nd"
  by (auto simp: node_addrs_def)

text \<open>The peer info of a node, its bootnode and its client are replaced.\<close>

lemma addrs_replace:
  assumes "addrs_differ nd" and "set_option (peer_multiaddr p) \<inter> node_addrs nd = {}"
  shows "addrs_differ (nd\<lparr>sn_peer_info := p\<rparr>)"
    and "node_addrs (nd\<lparr>sn_peer_info := p\<rparr>) =
      node_addrs nd - set_option (peer_multiaddr (sn_peer_info nd)) \<union> set_option (peer_multiaddr p)"
  using assms by (auto simp: addrs_differ_def node_addrs_def)

lemma addrs_replace_bootnode:
  assumes "addrs_differ nd" and "info_addr q \<inter> node_addrs nd = {}"
  shows "addrs_differ (nd\<lparr>sn_bootnode_peer_info := q\<rparr>)"
    and "node_addrs (nd\<lparr>sn_bootnode_peer_info := q\<rparr>) =
      node_addrs nd - info_addr (sn_bootnode_peer_info nd) \<union> info_addr q"
  using assms by (auto simp: addrs_differ_def node_addrs_def)

lemma addrs_replace_client:
  assumes "addrs_differ nd" and "info_addr q \<inter> node_addrs nd = {}"
  shows "addrs_differ (nd\<lparr>sn_client_peer_info := q\<rparr>)"
    and "node_addrs (nd\<lparr>sn_client_peer_info := q\<rparr>) =
      node_addrs nd - info_addr (sn_client_peer_info nd) \<union> info_addr q"
  using assms by (auto simp: addrs_differ_def node_addrs_def)

text \<open>The indices after the keys of an active node were replaced.\<close>

lemma subnet_indexed_update:
  assumes "subnet_indexed i s" and "SubnetNodesData s (i, n) = Some nd"
    and "SubnetNodesData s' = (SubnetNodesData s)((i, n) \<mapsto> nd')"
    and "RegisteredSubnetNodesData s' = RegisteredSubnetNodesData s"
    and "indexed (PeerIdSubnetNodeId s') i ((node_keys peer_key i s)(n := peer_key nd'))"
    and "indexed (BootnodePeerIdSubnetNodeId s') i ((node_keys bootnode_key i s)(n := bootnode_key nd'))"
    and "indexed (ClientPeerIdSubnetNodeId s') i ((node_keys client_key i s)(n := client_key nd'))"
    and "indexed (MultiaddrSubnetNodeId s') i ((node_keys node_addrs i s)(n := node_addrs nd'))"
    and "indexed (UniqueParamSubnetNodeId s') i ((node_keys unique_key i s)(n := unique_key nd'))"
    and "\<And>p. (PeerIdSubnetNodeId s' (i, p) = None \<or> BootnodePeerIdSubnetNodeId s' (i, p) = None) \<and>
          (PeerIdSubnetNodeId s' (i, p) = None \<or> ClientPeerIdSubnetNodeId s' (i, p) = None) \<and>
          (BootnodePeerIdSubnetNodeId s' (i, p) = None \<or> ClientPeerIdSubnetNodeId s' (i, p) = None)"
  shows "subnet_indexed i s'"
  by (rule subnet_indexed_change [of i n s' "Some nd'" s])
    (use assms(5-10) in \<open>simp_all add: node_at_def assms(3,4) split: option.split\<close>)

lemma node_key_kept:
  assumes "subnet_indexed i s" and "node_at i n s = Some nd"
  shows "peer_key nd' = peer_key nd \<Longrightarrow>
      indexed (PeerIdSubnetNodeId s) i ((node_keys peer_key i s)(n := peer_key nd'))"
    and "bootnode_key nd' = bootnode_key nd \<Longrightarrow>
      indexed (BootnodePeerIdSubnetNodeId s) i ((node_keys bootnode_key i s)(n := bootnode_key nd'))"
    and "client_key nd' = client_key nd \<Longrightarrow>
      indexed (ClientPeerIdSubnetNodeId s) i ((node_keys client_key i s)(n := client_key nd'))"
    and "node_addrs nd' = node_addrs nd \<Longrightarrow>
      indexed (MultiaddrSubnetNodeId s) i ((node_keys node_addrs i s)(n := node_addrs nd'))"
    and "unique_key nd' = unique_key nd \<Longrightarrow>
      indexed (UniqueParamSubnetNodeId s) i ((node_keys unique_key i s)(n := unique_key nd'))"
  using subnet_indexedD(1-5) [OF assms(1)] by (simp_all add: fun_upd_idem node_keys_def assms(2))

lemma nodes_ok_update_peer:
  assumes ok: "nodes_ok s" and a: "SubnetNodesData s (i, n) = Some nd"
    and v: "validate_peer_info i 0 0 p s = Some (Inr ())"
    and s1: "s1 = insert_peer_info i p n (remove_peer_info i (sn_peer_info nd) s)"
  shows "nodes_ok (s1\<lparr>SubnetNodesData := (SubnetNodesData s1)((i, n) \<mapsto> nd\<lparr>sn_peer_info := p\<rparr>)\<rparr>)"
proof -
  let ?nd = "nd\<lparr>sn_peer_info := p\<rparr>"
  have ix: "subnet_indexed i s" using ok by (simp add: nodes_ok_def)
  have at: "node_at i n s = Some nd" by (simp add: node_at_def a)
  note free = validate_peer_info_free [OF ok v] and nd = addrs_of_indexed [OF ok at]
  have "set_option (peer_multiaddr p) \<inter> node_addrs nd = {}" using free(4) nd(1) by fastforce
  note addrs = addrs_replace [OF nd(2) this]
  have P: "indexed (PeerIdSubnetNodeId s1) i ((node_keys peer_key i s)(n := peer_key ?nd))"
    using peers.indexed_replace [OF subnet_indexedD(1) [OF ix], of "sn_peer_info nd" n p] free(1)
    by (simp add: s1 nd(3))
  have M: "indexed (MultiaddrSubnetNodeId s1) i ((node_keys node_addrs i s)(n := node_addrs ?nd))"
    using peer_addrs.indexed_replace [OF subnet_indexedD(4) [OF ix], of "sn_peer_info nd" n p] free(4)
    by (simp add: s1 nd(3) addrs(2) node_addrs_parts)
  have roles: "PeerIdSubnetNodeId s1 (i, q) = (if q = peer_id p then Some n
      else if q = peer_id (sn_peer_info nd) then None else PeerIdSubnetNodeId s (i, q))" for q
    by (simp add: s1 peers.index_ins peers.index_del)
  note other = node_key_kept [OF ix at, of ?nd]
  have si: "subnet_indexed i (s1\<lparr>SubnetNodesData := (SubnetNodesData s1)((i, n) \<mapsto> ?nd)\<rparr>)"
    by (rule subnet_indexed_update [OF ix a, of _ ?nd])
      (use P M other free(2,3) subnet_indexedD(6-8) [OF ix] in \<open>simp_all add: roles, simp_all add: s1\<close>)
  show ?thesis
    by (rule nodes_ok_update_active [OF ok a, of _ ?nd, OF _ _ addrs(1) _ _ _ _ si])
      (simp_all add: s1 nodes_frame_def peers.index_other peer_addrs.index_other)
qed

lemma nodes_ok_update_bootnode:
  assumes ok: "nodes_ok s" and a: "SubnetNodesData s (i, n) = Some nd"
    and v: "\<And>p. q = Some p \<Longrightarrow> validate_peer_info i 0 0 p s = Some (Inr ())"
    and s1: "s1 = insert_bootnode_peer_info i q n (remove_bootnode_peer_info i (sn_bootnode_peer_info nd) s)"
  shows "nodes_ok (s1\<lparr>SubnetNodesData := (SubnetNodesData s1)((i, n) \<mapsto> nd\<lparr>sn_bootnode_peer_info := q\<rparr>)\<rparr>)"
proof -
  let ?nd = "nd\<lparr>sn_bootnode_peer_info := q\<rparr>"
  have ix: "subnet_indexed i s" using ok by (simp add: nodes_ok_def)
  have at: "node_at i n s = Some nd" by (simp add: node_at_def a)
  note nd = addrs_of_indexed [OF ok at]
  have free: "k \<in> info_peer q \<Longrightarrow> PeerIdSubnetNodeId s (i, k) = None \<and> BootnodePeerIdSubnetNodeId s (i, k) = None \<and>
      ClientPeerIdSubnetNodeId s (i, k) = None" "b \<in> info_addr q \<Longrightarrow> MultiaddrSubnetNodeId s (i, b) = None" for k b
    using validate_peer_info_free [OF ok v] by (auto simp: info_addr_def split: option.splits)
  have "info_addr q \<inter> node_addrs nd = {}" using free(2) nd(1) by fastforce
  note addrs = addrs_replace_bootnode [OF nd(2) this]
  have P: "indexed (BootnodePeerIdSubnetNodeId s1) i ((node_keys bootnode_key i s)(n := bootnode_key ?nd))"
    using bootnodes.indexed_replace [OF subnet_indexedD(2) [OF ix], of "sn_bootnode_peer_info nd" n q] free(1)
    by (simp add: s1 nd(3))
  have M: "indexed (MultiaddrSubnetNodeId s1) i ((node_keys node_addrs i s)(n := node_addrs ?nd))"
    using bootnode_addrs.indexed_replace [OF subnet_indexedD(4) [OF ix], of "sn_bootnode_peer_info nd" n q] free(2)
    by (simp add: s1 nd(3) addrs(2) node_addrs_parts)
  have roles: "BootnodePeerIdSubnetNodeId s1 (i, k) = (if k \<in> info_peer q then Some n
      else if k \<in> bootnode_key nd then None else BootnodePeerIdSubnetNodeId s (i, k))" for k
    by (simp add: s1 bootnodes.index_ins bootnodes.index_del)
  note other = node_key_kept [OF ix at, of ?nd]
  have si: "subnet_indexed i (s1\<lparr>SubnetNodesData := (SubnetNodesData s1)((i, n) \<mapsto> ?nd)\<rparr>)"
    by (rule subnet_indexed_update [OF ix a, of _ ?nd])
      (use P M other free(1) subnet_indexedD(6-8) [OF ix] in \<open>simp_all add: roles, simp_all add: s1\<close>)
  show ?thesis
    by (rule nodes_ok_update_active [OF ok a, of _ ?nd, OF _ _ addrs(1) _ _ _ _ si])
      (simp_all add: s1 nodes_frame_def bootnodes.index_other bootnode_addrs.index_other)
qed

lemma nodes_ok_update_client:
  assumes ok: "nodes_ok s" and a: "SubnetNodesData s (i, n) = Some nd"
    and v: "\<And>p. q = Some p \<Longrightarrow> validate_peer_info i 0 0 p s = Some (Inr ())"
    and s1: "s1 = insert_client_peer_info i q n (remove_client_peer_info i (sn_client_peer_info nd) s)"
  shows "nodes_ok (s1\<lparr>SubnetNodesData := (SubnetNodesData s1)((i, n) \<mapsto> nd\<lparr>sn_client_peer_info := q\<rparr>)\<rparr>)"
proof -
  let ?nd = "nd\<lparr>sn_client_peer_info := q\<rparr>"
  have ix: "subnet_indexed i s" using ok by (simp add: nodes_ok_def)
  have at: "node_at i n s = Some nd" by (simp add: node_at_def a)
  note nd = addrs_of_indexed [OF ok at]
  have free: "k \<in> info_peer q \<Longrightarrow> PeerIdSubnetNodeId s (i, k) = None \<and> BootnodePeerIdSubnetNodeId s (i, k) = None \<and>
      ClientPeerIdSubnetNodeId s (i, k) = None" "b \<in> info_addr q \<Longrightarrow> MultiaddrSubnetNodeId s (i, b) = None" for k b
    using validate_peer_info_free [OF ok v] by (auto simp: info_addr_def split: option.splits)
  have "info_addr q \<inter> node_addrs nd = {}" using free(2) nd(1) by fastforce
  note addrs = addrs_replace_client [OF nd(2) this]
  have P: "indexed (ClientPeerIdSubnetNodeId s1) i ((node_keys client_key i s)(n := client_key ?nd))"
    using clients.indexed_replace [OF subnet_indexedD(3) [OF ix], of "sn_client_peer_info nd" n q] free(1)
    by (simp add: s1 nd(3))
  have M: "indexed (MultiaddrSubnetNodeId s1) i ((node_keys node_addrs i s)(n := node_addrs ?nd))"
    using client_addrs.indexed_replace [OF subnet_indexedD(4) [OF ix], of "sn_client_peer_info nd" n q] free(2)
    by (simp add: s1 nd(3) addrs(2) node_addrs_parts)
  have roles: "ClientPeerIdSubnetNodeId s1 (i, k) = (if k \<in> info_peer q then Some n
      else if k \<in> client_key nd then None else ClientPeerIdSubnetNodeId s (i, k))" for k
    by (simp add: s1 clients.index_ins clients.index_del)
  note other = node_key_kept [OF ix at, of ?nd]
  have si: "subnet_indexed i (s1\<lparr>SubnetNodesData := (SubnetNodesData s1)((i, n) \<mapsto> ?nd)\<rparr>)"
    by (rule subnet_indexed_update [OF ix a, of _ ?nd])
      (use P M other free(1) subnet_indexedD(6-8) [OF ix] in \<open>simp_all add: roles, simp_all add: s1\<close>)
  show ?thesis
    by (rule nodes_ok_update_active [OF ok a, of _ ?nd, OF _ _ addrs(1) _ _ _ _ si])
      (simp_all add: s1 nodes_frame_def clients.index_other client_addrs.index_other)
qed

text \<open>A unique parameter is taken over only from the node itself.\<close>

lemma nodes_ok_update_unique:
  assumes ok: "nodes_ok s" and a: "SubnetNodesData s (i, n) = Some nd"
    and v: "\<And>u m. q = Some u \<Longrightarrow> UniqueParamSubnetNodeId (remove_unique i (sn_unique nd) s) (i, u) = Some m \<Longrightarrow> m = n"
    and s1: "s1 = insert_unique i q n (remove_unique i (sn_unique nd) s)"
  shows "nodes_ok (s1\<lparr>SubnetNodesData := (SubnetNodesData s1)((i, n) \<mapsto> nd\<lparr>sn_unique := q\<rparr>)\<rparr>)"
proof -
  let ?nd = "nd\<lparr>sn_unique := q\<rparr>" and ?s = "remove_unique i (sn_unique nd) s"
  have ix: "subnet_indexed i s" using ok by (simp add: nodes_ok_def)
  have at: "node_at i n s = Some nd" by (simp add: node_at_def a)
  note nd = addrs_of_indexed [OF ok at]
  have d: "indexed (UniqueParamSubnetNodeId ?s) i ((node_keys unique_key i s)(n := {}))"
    using uniques.indexed_del [OF subnet_indexedD(5) [OF ix], of "sn_unique nd" n] by (simp add: nd(3))
  have "UniqueParamSubnetNodeId ?s (i, u) = None" if "u \<in> set_option q" for u
  proof (rule ccontr)
    assume "UniqueParamSubnetNodeId ?s (i, u) \<noteq> None"
    then have "UniqueParamSubnetNodeId ?s (i, u) = Some n" using v [of u] that by auto
    with d show False by (simp add: indexed_def)
  qed
  then have U: "indexed (UniqueParamSubnetNodeId s1) i ((node_keys unique_key i s)(n := unique_key ?nd))"
    using uniques.indexed_ins [OF d, of q n] by (simp add: s1)
  have same: "addrs_differ ?nd" "node_addrs ?nd = node_addrs nd"
    using nd(2) by (simp_all add: addrs_differ_def node_addrs_def)
  note other = node_key_kept [OF ix at, of ?nd]
  have si: "subnet_indexed i (s1\<lparr>SubnetNodesData := (SubnetNodesData s1)((i, n) \<mapsto> ?nd)\<rparr>)"
    by (rule subnet_indexed_update [OF ix a, of _ ?nd])
      (use U other same(2) subnet_indexedD(6-8) [OF ix] in \<open>simp_all, simp_all add: s1\<close>)
  show ?thesis
    by (rule nodes_ok_update_active [OF ok a, of _ ?nd, OF _ _ same(1) _ _ _ _ si])
      (simp_all add: s1 nodes_frame_def uniques.index_other)
qed

text \<open>Anything else about a node may change freely.\<close>

lemma nodes_ok_update_other:
  assumes ok: "nodes_ok s" and a: "SubnetNodesData s (i, n) = Some nd"
    and nd': "sn_id nd' = sn_id nd" "sn_peer_info nd' = sn_peer_info nd"
      "sn_bootnode_peer_info nd' = sn_bootnode_peer_info nd"
      "sn_client_peer_info nd' = sn_client_peer_info nd" "sn_unique nd' = sn_unique nd"
  shows "nodes_ok (s\<lparr>SubnetNodesData := (SubnetNodesData s)((i, n) \<mapsto> nd')\<rparr>)"
proof -
  have ix: "subnet_indexed i s" using ok by (simp add: nodes_ok_def)
  have at: "node_at i n s = Some nd" by (simp add: node_at_def a)
  have same: "addrs_differ nd'" "node_addrs nd' = node_addrs nd"
    using addrs_of_indexed(2) [OF ok at] by (simp_all add: addrs_differ_def node_addrs_def nd')
  note other = node_key_kept [OF ix at, of nd']
  have si: "subnet_indexed i (s\<lparr>SubnetNodesData := (SubnetNodesData s)((i, n) \<mapsto> nd')\<rparr>)"
    by (rule subnet_indexed_update [OF ix a, of _ nd'])
      (use other same(2) subnet_indexedD(6-8) [OF ix] in \<open>simp_all add: nd'\<close>)
  show ?thesis
    by (rule nodes_ok_update_active [OF ok a, of _ nd', OF _ _ same(1) _ _ _ _ si])
      (simp_all add: nodes_frame_def nd')
qed

text \<open>The five update calls, on an active node.\<close>

lemma nodes_ok_update_calls:
  assumes ok: "nodes_ok s" and a: "SubnetNodesData s (i, n) = Some nd"
  shows "update_node_peer_info origin i n p s = Some (s', r) \<Longrightarrow> nodes_ok s'"
    and "update_node_bootnode_peer_info origin i n q s = Some (s', r) \<Longrightarrow> nodes_ok s'"
    and "update_node_client_peer_info origin i n q s = Some (s', r) \<Longrightarrow> nodes_ok s'"
    and "update_node_unique origin i n u s = Some (s', r) \<Longrightarrow> nodes_ok s'"
    and "update_node_non_unique origin i n u s = Some (s', r) \<Longrightarrow> nodes_ok s'"
proof -
  show "nodes_ok s'" if "update_node_peer_info origin i n p s = Some (s', r)"
    using that ok nodes_ok_update_peer [OF ok a _ refl]
    by (auto simp: update_node_peer_info_def do_update_node_peer_info_def a perform_update_node_peer_id_def Let_def
        split: sum.splits option.splits)
  show "nodes_ok s'" if "update_node_bootnode_peer_info origin i n q s = Some (s', r)"
    using that ok nodes_ok_update_bootnode [OF ok a _ refl, of q]
    by (auto simp: update_node_bootnode_peer_info_def do_update_node_bootnode_peer_info_def update_stored_node_def a
        perform_update_node_bootnode_peer_id_def Let_def insert_bootnode_peer_info_def split: sum.splits option.splits)
  show "nodes_ok s'" if "update_node_client_peer_info origin i n q s = Some (s', r)"
    using that ok nodes_ok_update_client [OF ok a _ refl, of q]
    by (auto simp: update_node_client_peer_info_def do_update_node_client_peer_info_def update_stored_node_def a
        perform_update_node_client_peer_id_def Let_def insert_client_peer_info_def split: sum.splits option.splits)
  show "nodes_ok s'" if "update_node_unique origin i n u s = Some (s', r)"
  proof -
    let ?s = "insert_unique i u n (remove_unique i (sn_unique nd) s)"
    have "s' = s \<or> (\<forall>v m. u = Some v \<longrightarrow> UniqueParamSubnetNodeId (remove_unique i (sn_unique nd) s) (i, v) = Some m \<longrightarrow> m = n)
        \<and> s' = ?s\<lparr>SubnetNodesData := (SubnetNodesData ?s)((i, n) \<mapsto> nd\<lparr>sn_unique := u\<rparr>)\<rparr>"
      using that
      by (cases u) (auto simp: update_node_unique_def do_update_node_unique_def update_stored_node_def a
          perform_update_node_unique_def Let_def insert_unique_def split: sum.splits option.splits if_splits)
    then show ?thesis using ok nodes_ok_update_unique [OF ok a _ refl, of u] by blast
  qed
  show "nodes_ok s'" if "update_node_non_unique origin i n u s = Some (s', r)"
    using that ok nodes_ok_update_other [OF ok a, of "nd\<lparr>sn_non_unique := u\<rparr>"]
    by (auto simp: update_node_non_unique_def do_update_node_non_unique_def update_stored_node_def a
        perform_update_node_non_unique_def split: sum.splits)
qed

section \<open>Activation\<close>

text \<open>Two states with the same indices and identifiers.\<close>

definition same_indices :: "('c, 'm) network_nodes_scheme \<Rightarrow> ('c, 'm) network_nodes_scheme \<Rightarrow> bool" where
  "same_indices s s' \<longleftrightarrow>
     PeerIdSubnetNodeId s' = PeerIdSubnetNodeId s \<and> BootnodePeerIdSubnetNodeId s' = BootnodePeerIdSubnetNodeId s \<and>
     ClientPeerIdSubnetNodeId s' = ClientPeerIdSubnetNodeId s \<and> MultiaddrSubnetNodeId s' = MultiaddrSubnetNodeId s \<and>
     UniqueParamSubnetNodeId s' = UniqueParamSubnetNodeId s \<and>
     TotalSubnetNodeUids s' = TotalSubnetNodeUids s"

lemma insert_node_into_election_slot_frame:
  "same_indices s (fst (insert_node_into_election_slot i n s))"
  "SubnetNodesData (fst (insert_node_into_election_slot i n s)) = SubnetNodesData s"
  "RegisteredSubnetNodesData (fst (insert_node_into_election_slot i n s)) = RegisteredSubnetNodesData s"
  "SubnetNodeQueue (fst (insert_node_into_election_slot i n s)) = SubnetNodeQueue s"
  by (simp_all add: insert_node_into_election_slot_def push_election_slot_def Let_def same_indices_def)

lemma do_activate_success:
  assumes "do_activate_subnet_node W v i st nd e q w s = (s', w', True)"
    and "\<not> (q \<and> node_class (sn_classification nd) \<noteq> RegisteredClass)"
  obtains c where "SubnetNodesData s' = (SubnetNodesData s)((i, sn_id nd) \<mapsto> nd\<lparr>sn_classification := c\<rparr>)"
    and "RegisteredSubnetNodesData s' = (RegisteredSubnetNodesData s)((i, sn_id nd) := None)"
    and "same_indices s s'" and "SubnetNodeQueue s' = SubnetNodeQueue s"
proof -
  let ?s = "s\<lparr>RegisteredSubnetNodesData := (RegisteredSubnetNodesData s)((i, sn_id nd) := None)\<rparr>"
  note f = insert_node_into_election_slot_frame [where s = ?s and i = i and n = "sn_id nd", unfolded same_indices_def]
  have "\<exists>c. SubnetNodesData s' = (SubnetNodesData s)((i, sn_id nd) \<mapsto> nd\<lparr>sn_classification := c\<rparr>) \<and>
      RegisteredSubnetNodesData s' = (RegisteredSubnetNodesData s)((i, sn_id nd) := None) \<and> same_indices s s' \<and>
      SubnetNodeQueue s' = SubnetNodeQueue s"
    using assms f
    by (cases "insert_node_into_election_slot i (sn_id nd) ?s")
      (auto simp: do_activate_subnet_node_def Let_def same_indices_def split: if_splits)
  then show ?thesis using that by blast
qed

lemma do_activate_failure:
  assumes "do_activate_subnet_node W v i Active nd e True w s = (s', w', False)"
  shows "s' = s"
  using assms by (auto simp: do_activate_subnet_node_def Let_def split: if_splits)

section \<open>Registration\<close>

lemma insert_registration_indices:
  shows "PeerIdSubnetNodeId (insert_registration who i nd a s) (j, k) =
      (if j = i \<and> k \<in> peer_key nd then Some (sn_id nd) else PeerIdSubnetNodeId s (j, k))"
    and "BootnodePeerIdSubnetNodeId (insert_registration who i nd a s) (j, k) =
      (if j = i \<and> k \<in> bootnode_key nd then Some (sn_id nd) else BootnodePeerIdSubnetNodeId s (j, k))"
    and "ClientPeerIdSubnetNodeId (insert_registration who i nd a s) (j, k) =
      (if j = i \<and> k \<in> client_key nd then Some (sn_id nd) else ClientPeerIdSubnetNodeId s (j, k))"
    and "MultiaddrSubnetNodeId (insert_registration who i nd a s) (j, b) =
      (if j = i \<and> b \<in> node_addrs nd then Some (sn_id nd) else MultiaddrSubnetNodeId s (j, b))"
    and "UniqueParamSubnetNodeId (insert_registration who i nd a s) (j, u) =
      (if j = i \<and> u \<in> unique_key nd then Some (sn_id nd) else UniqueParamSubnetNodeId s (j, u))"
    and "SubnetNodesData (insert_registration who i nd a s) = SubnetNodesData s"
    and "RegisteredSubnetNodesData (insert_registration who i nd a s) = RegisteredSubnetNodesData s"
    and "SubnetNodeQueue (insert_registration who i nd a s) = SubnetNodeQueue s"
    and "TotalSubnetNodeUids (insert_registration who i nd a s) = (TotalSubnetNodeUids s)(i := sn_id nd)"
  by (auto simp: insert_registration_def Let_def record_registration_def increase_node_stake_def
      set_last_tx_block_def peers.index_ins bootnodes.index_ins clients.index_ins uniques.index_ins
      client_addrs.index_ins bootnode_addrs.index_ins peer_addrs.index_ins node_addrs_def)

text \<open>The new identifier is nobody's.\<close>

lemma fresh_node:
  assumes "nodes_ok s" and "TotalSubnetNodeUids s i \<noteq> - 1" and "n = saturating_add (TotalSubnetNodeUids s i) 1"
  shows "node_at i n s = None" and "n \<noteq> 0" and "TotalSubnetNodeUids s i < n"
proof -
  have u: "unat n = unat (TotalSubnetNodeUids s i) + 1"
    using unat_suc_lt [OF assms(2)] by (simp add: assms(3) unat_saturating_add)
  then show lt: "TotalSubnetNodeUids s i < n" by (simp add: word_less_nat_alt)
  show "n \<noteq> 0" using u by auto
  have "node_ids_ok i s" using assms(1) by (simp add: nodes_ok_def)
  then have "n \<le> TotalSubnetNodeUids s i" if "node_at i n s = Some nd" for nd
    using that unfolding node_ids_ok_def by blast
  with lt show "node_at i n s = None" by (cases "node_at i n s") auto
qed

text \<open>What the checks of a registration have found about the keys of the new node.\<close>

definition keys_free :: "u32 \<Rightarrow> SubnetNode \<Rightarrow> ('c, 'm) network_nodes_scheme \<Rightarrow> bool" where
  "keys_free i nd s \<longleftrightarrow>
     (\<forall>k \<in> peer_key nd \<union> bootnode_key nd \<union> client_key nd. PeerIdSubnetNodeId s (i, k) = None \<and>
        BootnodePeerIdSubnetNodeId s (i, k) = None \<and> ClientPeerIdSubnetNodeId s (i, k) = None) \<and>
     peer_key nd \<inter> bootnode_key nd = {} \<and> peer_key nd \<inter> client_key nd = {} \<and>
     bootnode_key nd \<inter> client_key nd = {} \<and> addrs_differ nd \<and>
     (\<forall>a \<in> node_addrs nd. MultiaddrSubnetNodeId s (i, a) = None) \<and>
     (\<forall>u \<in> unique_key nd. UniqueParamSubnetNodeId s (i, u) = None)"

lemma multiaddrs_differ_iff: "multiaddrs_differ a b \<longleftrightarrow> set_option a \<inter> set_option b = {}"
  by (auto simp: multiaddrs_differ_def split: option.splits)

text \<open>A chain of checks succeeds if every one does.\<close>

lemma checks_succeed:
  "(case x of None \<Rightarrow> None | Some (Inl e) \<Rightarrow> Some (Inl e) | Some (Inr (u :: unit)) \<Rightarrow> y) = Some (Inr v) \<longleftrightarrow>
     x = Some (Inr ()) \<and> y = Some (Inr v)"
  "(if b then Some (Inl e) else y) = Some (Inr v) \<longleftrightarrow> \<not> b \<and> y = Some (Inr v)"
  by (auto split: option.splits sum.splits)

lemma validate_registration_free:
  assumes "nodes_ok s"
    and "validate_registration_peer_infos i (sn_peer_info nd) (sn_bootnode_peer_info nd) (sn_client_peer_info nd) s
      = Some (Inr ())"
    and "\<And>u. sn_unique nd = Some u \<Longrightarrow> UniqueParamSubnetNodeId s (i, u) = None"
  shows "keys_free i nd s"
proof -
  let ?p = "sn_peer_info nd"
  note chk = assms(2) [unfolded validate_registration_peer_infos_def checks_succeed]
  have p: "validate_peer_info i 0 0 ?p s = Some (Inr ())" using chk by blast
  have b: "validate_peer_info i 0 0 b s = Some (Inr ()) \<and> peer_id b \<noteq> peer_id ?p \<and>
      multiaddrs_differ (peer_multiaddr b) (peer_multiaddr ?p)" if "sn_bootnode_peer_info nd = Some b" for b
    using chk by (simp add: that checks_succeed)
  have c: "validate_peer_info i 0 0 c s = Some (Inr ()) \<and> peer_id c \<noteq> peer_id ?p \<and>
      multiaddrs_differ (peer_multiaddr c) (peer_multiaddr ?p) \<and>
      (\<forall>b. sn_bootnode_peer_info nd = Some b \<longrightarrow> peer_id c \<noteq> peer_id b \<and>
         multiaddrs_differ (peer_multiaddr c) (peer_multiaddr b))" if "sn_client_peer_info nd = Some c" for c
    using chk by (cases "sn_bootnode_peer_info nd") (simp_all add: that checks_succeed)
  have B: "info_addr (sn_bootnode_peer_info nd) \<inter> set_option (peer_multiaddr ?p) = {} \<and>
      peer_key nd \<inter> bootnode_key nd = {}"
  proof (cases "sn_bootnode_peer_info nd")
    case (Some q)
    with b [OF Some] show ?thesis by (simp add: multiaddrs_differ_iff)
  qed simp
  have C: "info_addr (sn_client_peer_info nd) \<inter> set_option (peer_multiaddr ?p) = {} \<and>
      peer_key nd \<inter> client_key nd = {}"
  proof (cases "sn_client_peer_info nd")
    case (Some q)
    with c [OF Some] show ?thesis by (simp add: multiaddrs_differ_iff)
  qed simp
  have D: "info_addr (sn_client_peer_info nd) \<inter> info_addr (sn_bootnode_peer_info nd) = {} \<and>
      bootnode_key nd \<inter> client_key nd = {}"
  proof (cases "sn_client_peer_info nd")
    case (Some q)
    with c [OF Some] show ?thesis by (cases "sn_bootnode_peer_info nd") (simp_all add: multiaddrs_differ_iff)
  qed simp
  have "\<forall>k \<in> peer_key nd \<union> bootnode_key nd \<union> client_key nd. PeerIdSubnetNodeId s (i, k) = None \<and>
        BootnodePeerIdSubnetNodeId s (i, k) = None \<and> ClientPeerIdSubnetNodeId s (i, k) = None"
    using validate_peer_info_free(1-3) [OF assms(1)] p b c by auto
  moreover have "MultiaddrSubnetNodeId s (i, a) = None" if "a \<in> node_addrs nd" for a
    using that validate_peer_info_free(4) [OF assms(1) p] validate_peer_info_free(4) [OF assms(1), of i _ a] b c
    by (auto simp: node_addrs_def info_addr_def split: option.splits)
  ultimately show ?thesis
    using B C D assms(3) by (auto simp: keys_free_def addrs_differ_def Int_commute)
qed

lemma indexed_add:
  assumes "indexed idx i keys" and "keys n = {}" and "\<And>k. k \<in> K \<Longrightarrow> idx (i, k) = None"
    and "\<And>k. idx' (i, k) = (if k \<in> K then Some n else idx (i, k))"
  shows "indexed idx' i (keys(n := K))"
proof (rule indexed_set [OF assms(1)])
  show "k \<notin> keys m" if "k \<in> K" for k m using assms(3) [OF that] by (simp add: indexed_free [OF assms(1)])
qed (simp add: assms(2,4))

lemma subnet_indexed_add:
  assumes ix: "subnet_indexed i s" and f: "keys_free i nd s" and new: "node_at i (sn_id nd) s = None"
    and at: "\<And>m. node_at i m s' = (if m = sn_id nd then Some (nd\<lparr>sn_classification := c\<rparr>) else node_at i m s)"
    and r: "same_indices (insert_registration who i nd a s) s'"
  shows "subnet_indexed i s'"
proof (rule subnet_indexed_change [of i "sn_id nd" s' "Some (nd\<lparr>sn_classification := c\<rparr>)" s])
  have none: "node_keys f i s (sn_id nd) = {}" for f :: "SubnetNode \<Rightarrow> bytes set" by (simp add: node_keys_def new)
  note keys = r [unfolded same_indices_def, simplified] and reg = insert_registration_indices [of who i nd a s]
  have [simp]: "node_addrs (nd\<lparr>sn_classification := c\<rparr>) = node_addrs nd" by (simp add: node_addrs_def)
  note ixs = subnet_indexedD [OF ix] and fr = f [unfolded keys_free_def]
  show "indexed (PeerIdSubnetNodeId s') i ((node_keys peer_key i s)(sn_id nd :=
      (case Some (nd\<lparr>sn_classification := c\<rparr>) of None \<Rightarrow> {} | Some nd \<Rightarrow> peer_key nd)))"
    using indexed_add [OF ixs(1) none, of "peer_key nd" "PeerIdSubnetNodeId s'"] fr by (simp add: keys reg)
  show "indexed (BootnodePeerIdSubnetNodeId s') i ((node_keys bootnode_key i s)(sn_id nd :=
      (case Some (nd\<lparr>sn_classification := c\<rparr>) of None \<Rightarrow> {} | Some nd \<Rightarrow> bootnode_key nd)))"
    using indexed_add [OF ixs(2) none, of "bootnode_key nd" "BootnodePeerIdSubnetNodeId s'"] fr by (simp add: keys reg)
  show "indexed (ClientPeerIdSubnetNodeId s') i ((node_keys client_key i s)(sn_id nd :=
      (case Some (nd\<lparr>sn_classification := c\<rparr>) of None \<Rightarrow> {} | Some nd \<Rightarrow> client_key nd)))"
    using indexed_add [OF ixs(3) none, of "client_key nd" "ClientPeerIdSubnetNodeId s'"] fr by (simp add: keys reg)
  show "indexed (MultiaddrSubnetNodeId s') i ((node_keys node_addrs i s)(sn_id nd :=
      (case Some (nd\<lparr>sn_classification := c\<rparr>) of None \<Rightarrow> {} | Some nd \<Rightarrow> node_addrs nd)))"
    using indexed_add [OF ixs(4) none, of "node_addrs nd" "MultiaddrSubnetNodeId s'"] fr by (simp add: keys reg)
  show "indexed (UniqueParamSubnetNodeId s') i ((node_keys unique_key i s)(sn_id nd :=
      (case Some (nd\<lparr>sn_classification := c\<rparr>) of None \<Rightarrow> {} | Some nd \<Rightarrow> unique_key nd)))"
    using indexed_add [OF ixs(5) none, of "unique_key nd" "UniqueParamSubnetNodeId s'"] fr by (simp add: keys reg)
  show "(PeerIdSubnetNodeId s' (i, p) = None \<or> BootnodePeerIdSubnetNodeId s' (i, p) = None) \<and>
      (PeerIdSubnetNodeId s' (i, p) = None \<or> ClientPeerIdSubnetNodeId s' (i, p) = None) \<and>
      (BootnodePeerIdSubnetNodeId s' (i, p) = None \<or> ClientPeerIdSubnetNodeId s' (i, p) = None)" for p
    using ixs(6-8) [of p] fr by (auto simp: keys reg)
qed (simp_all add: at)

text \<open>A new node, active at once or waiting in the queue.\<close>

lemma nodes_ok_add:
  assumes ok: "nodes_ok s" and f: "keys_free i nd s"
    and n: "sn_id nd = saturating_add (TotalSubnetNodeUids s i) 1" "TotalSubnetNodeUids s i \<noteq> - 1"
    and r: "same_indices (insert_registration who i nd a s) s'"
    and new: "SubnetNodesData s' = (SubnetNodesData s)((i, sn_id nd) \<mapsto> nd\<lparr>sn_classification := c\<rparr>) \<and>
        RegisteredSubnetNodesData s' = (RegisteredSubnetNodesData s)((i, sn_id nd) := None) \<and>
        SubnetNodeQueue s' = SubnetNodeQueue s \<or>
      SubnetNodesData s' = SubnetNodesData s \<and> c = sn_classification nd \<and>
        RegisteredSubnetNodesData s' = (RegisteredSubnetNodesData s)((i, sn_id nd) \<mapsto> nd) \<and>
        SubnetNodeQueue s' = (SubnetNodeQueue s)(i := SubnetNodeQueue s i @ [nd])"
    and cl: "node_class (sn_classification nd) = RegisteredClass"
  shows "nodes_ok s'"
proof (rule nodes_ok_change [OF ok])
  note fresh = fresh_node [OF ok n(2,1)]
  have ids: "node_ids_ok i s" and q: "node_queue_ok i s" and ix: "subnet_indexed i s"
    using ok by (simp_all add: nodes_ok_def)
  have none: "SubnetNodesData s (i, sn_id nd) = None" "RegisteredSubnetNodesData s (i, sn_id nd) = None"
    using fresh(1) by (simp_all add: node_at_def split: option.splits)
  have at: "node_at i m s' = (if m = sn_id nd then Some (nd\<lparr>sn_classification := c\<rparr>) else node_at i m s)" for m
    using new none by (auto simp: node_at_def split: option.splits)
  note keys = r [unfolded same_indices_def, simplified] and reg = insert_registration_indices [of who i nd a s]
  show "nodes_frame j s s'" if "j \<noteq> i" for j using that new by (auto simp: nodes_frame_def keys reg)
  show "subnet_indexed i s'" by (rule subnet_indexed_add [OF ix f fresh(1) at r])
  have "addrs_differ (nd\<lparr>sn_classification := c\<rparr>)" using f by (simp add: keys_free_def addrs_differ_def)
  moreover have idm: "sn_id nd' = m \<and> m \<noteq> 0 \<and> m \<le> sn_id nd \<and> addrs_differ nd'" if "node_at i m s = Some nd'" for m nd'
  proof -
    have "sn_id nd' = m \<and> m \<noteq> 0 \<and> m \<le> TotalSubnetNodeUids s i \<and> addrs_differ nd'"
      using that ids unfolding node_ids_ok_def by blast
    with fresh(3) show ?thesis by auto
  qed
  moreover have "TotalSubnetNodeUids s' i = sn_id nd" by (simp add: keys reg)
  moreover have "SubnetNodesData s' (i, m) = None \<or> RegisteredSubnetNodesData s' (i, m) = None" for m
    using new none ids by (cases "m = sn_id nd") (auto simp: node_ids_ok_def)
  ultimately show "node_ids_ok i s'"
    using fresh(2) unfolding node_ids_ok_def at by auto
  have R: "RegisteredSubnetNodesData s (i, m) = Some x \<longleftrightarrow> x \<in> set (SubnetNodeQueue s i) \<and> sn_id x = m" for m x
    using q by (simp add: node_queue_ok_def)
  have ne: "sn_id x \<noteq> sn_id nd" if "x \<in> set (SubnetNodeQueue s i)" for x
    using that R [of "sn_id nd" x] none(2) by auto
  show "node_queue_ok i s'" using new
  proof (elim disjE conjE)
    assume d: "RegisteredSubnetNodesData s' = (RegisteredSubnetNodesData s)((i, sn_id nd) := None)"
      "SubnetNodeQueue s' = SubnetNodeQueue s"
    have "RegisteredSubnetNodesData s' (i, m) = Some x \<longleftrightarrow> x \<in> set (SubnetNodeQueue s i) \<and> sn_id x = m" for m x
      using ne [of x] R [of m x] by (auto simp: d)
    then show ?thesis using q by (simp add: node_queue_ok_def d(2))
  next
    assume d: "RegisteredSubnetNodesData s' = (RegisteredSubnetNodesData s)((i, sn_id nd) \<mapsto> nd)"
      "SubnetNodeQueue s' = (SubnetNodeQueue s)(i := SubnetNodeQueue s i @ [nd])"
    have "RegisteredSubnetNodesData s' (i, m) = Some x \<longleftrightarrow> x \<in> set (SubnetNodeQueue s' i) \<and> sn_id x = m" for m x
      using ne [of x] R [of m x] by (auto simp: d)
    moreover have "distinct (map sn_id (SubnetNodeQueue s' i))"
      using q ne by (auto simp: node_queue_ok_def d(2) image_iff dest: ne)
    ultimately show ?thesis using q cl by (auto simp: node_queue_ok_def d(2))
  qed
qed

lemma pay_registration_frame:
  assumes "pay_registration cfg who b a s = (s', Inr u)"
  shows "\<exists>c. s' = s\<lparr>balances := c\<rparr>"
  using assms
  by (auto simp: pay_registration_def burn_def remove_balance_from_coldkey_account_def
      split: if_splits option.splits prod.splits)

text \<open>The two ways a node enters.\<close>

lemma enter_registration_success:
  assumes "enter_registration W who i st nd e a h s = (s', Inr ())"
  obtains c where "same_indices (insert_registration who i nd a s) s'"
    and "SubnetNodesData s' = (SubnetNodesData s)((i, sn_id nd) \<mapsto> nd\<lparr>sn_classification := c\<rparr>) \<and>
        RegisteredSubnetNodesData s' = (RegisteredSubnetNodesData s)((i, sn_id nd) := None) \<and>
        SubnetNodeQueue s' = SubnetNodeQueue s \<or>
      SubnetNodesData s' = SubnetNodesData s \<and> c = sn_classification nd \<and>
        RegisteredSubnetNodesData s' = (RegisteredSubnetNodesData s)((i, sn_id nd) \<mapsto> nd) \<and>
        SubnetNodeQueue s' = (SubnetNodeQueue s)(i := SubnetNodeQueue s i @ [nd])"
proof (cases "st = Registered")
  case True
  let ?s = "count_initial_registration i (sn_validator_id nd) (insert_registration who i nd a s)"
  from assms True obtain s1 w where "do_activate_subnet_node W (sn_validator_id nd) i st nd e False (meter_new W) ?s
      = (s1, w, True)"
    and s': "same_indices s1 s'" "SubnetNodesData s' = SubnetNodesData s1"
      "RegisteredSubnetNodesData s' = RegisteredSubnetNodesData s1" "SubnetNodeQueue s' = SubnetNodeQueue s1"
    by (auto simp: enter_registration_def perform_activate_subnet_node_v2_def Let_def same_indices_def
        split: prod.splits sum.splits if_splits option.splits)
  from do_activate_success [OF this(1)] obtain c where
    s1: "SubnetNodesData s1 = (SubnetNodesData ?s)((i, sn_id nd) \<mapsto> nd\<lparr>sn_classification := c\<rparr>)"
      "RegisteredSubnetNodesData s1 = (RegisteredSubnetNodesData ?s)((i, sn_id nd) := None)"
      "same_indices ?s s1" "SubnetNodeQueue s1 = SubnetNodeQueue ?s" by blast
  have c: "same_indices (insert_registration who i nd a s) ?s" "SubnetNodesData ?s = SubnetNodesData s"
    "RegisteredSubnetNodesData ?s = RegisteredSubnetNodesData s" "SubnetNodeQueue ?s = SubnetNodeQueue s"
    by (simp_all add: count_initial_registration_def Let_def same_indices_def insert_registration_indices)
  show ?thesis
    by (rule that [of c]) (use s' s1 c in \<open>auto simp: same_indices_def\<close>)
next
  case False
  show ?thesis
    by (rule that [of "sn_classification nd"])
      (use assms False in \<open>auto simp: enter_registration_def Let_def same_indices_def insert_registration_indices
        split: option.splits\<close>)
qed

lemma nodes_ok_balances: "nodes_ok (s\<lparr>balances := c\<rparr>) = nodes_ok s" "keys_free i nd (s\<lparr>balances := c\<rparr>) = keys_free i nd s"
  using nodes_ok_frame [of s "s\<lparr>balances := c\<rparr>"] nodes_ok_frame [of "s\<lparr>balances := c\<rparr>" s]
  by (auto simp: nodes_frame_def keys_free_def)

lemma nodes_ok_register:
  assumes ok: "nodes_ok s" and n: "TotalSubnetNodeUids s i \<noteq> - 1"
    and r: "register_subnet_node W cfg origin v i h p b c a u w m s = Some (s', r)"
  shows "nodes_ok s'"
proof (cases r)
  case (Inl e)
  with r ok show ?thesis
    by (auto simp: register_subnet_node_def do_register_subnet_node_def Let_def
        dest: dispatch_Inl split: sum.splits option.splits if_splits prod.splits)
next
  case (Inr x)
  then obtain who e and subnet :: SubnetData where
    va: "validate_registration_peer_infos i p b c s = Some (Inr ())"
    and uq: "case u of None \<Rightarrow> True | Some k \<Rightarrow> UniqueParamSubnetNodeId s (i, k) = None"
    and cm: "commit_registration W cfg who i (sd_state subnet)
       \<lparr>sn_id = saturating_add (TotalSubnetNodeUids s i) 1, sn_validator_id = v, sn_peer_info = p,
        sn_bootnode_peer_info = b, sn_client_peer_info = c,
        sn_classification = \<lparr>node_class = RegisteredClass, class_start_epoch = e + 1\<rparr>,
        sn_unique = u, sn_non_unique = w\<rparr> e h a m s = (s', Inr ())" (is "commit_registration _ _ _ _ _ ?nd _ _ _ _ _ = _")
    using r
    by (auto simp: register_subnet_node_def do_register_subnet_node_def Let_def dispatch_Inr
        split: sum.splits option.splits if_splits prod.splits)
  from cm obtain burn_amount bal where
    en: "enter_registration W who i (sd_state subnet) ?nd e a h (s\<lparr>balances := bal\<rparr>) = (s', Inr ())"
    by (auto simp: commit_registration_def split: sum.splits prod.splits if_splits dest!: pay_registration_frame)
  let ?s = "s\<lparr>balances := bal\<rparr>"
  from en obtain c where
    si: "same_indices (insert_registration who i ?nd a ?s) s'"
    and new: "SubnetNodesData s' = (SubnetNodesData ?s)((i, sn_id ?nd) \<mapsto> ?nd\<lparr>sn_classification := c\<rparr>) \<and>
        RegisteredSubnetNodesData s' = (RegisteredSubnetNodesData ?s)((i, sn_id ?nd) := None) \<and>
        SubnetNodeQueue s' = SubnetNodeQueue ?s \<or>
      SubnetNodesData s' = SubnetNodesData ?s \<and> c = sn_classification ?nd \<and>
        RegisteredSubnetNodesData s' = (RegisteredSubnetNodesData ?s)((i, sn_id ?nd) \<mapsto> ?nd) \<and>
        SubnetNodeQueue s' = (SubnetNodeQueue ?s)(i := SubnetNodeQueue ?s i @ [?nd])"
    by (rule enter_registration_success)
  have ok': "nodes_ok ?s" using ok by (simp only: nodes_ok_balances)
  have "keys_free i ?nd s"
    by (rule validate_registration_free [OF ok]) (use va uq in simp_all)
  then have kf: "keys_free i ?nd ?s" by (simp only: nodes_ok_balances)
  show ?thesis by (rule nodes_ok_add [OF ok' kf _ _ si new]) (simp_all add: n)
qed

section \<open>The registration queue\<close>

text \<open>The first node of the queue becomes active.\<close>

lemma nodes_ok_activate:
  assumes ok: "nodes_ok (s\<lparr>SubnetNodeQueue := (SubnetNodeQueue s)(i := nd # Q)\<rparr>)"
    and d: "SubnetNodesData s' = (SubnetNodesData s)((i, sn_id nd) \<mapsto> nd\<lparr>sn_classification := c\<rparr>)"
      "RegisteredSubnetNodesData s' = (RegisteredSubnetNodesData s)((i, sn_id nd) := None)"
      "same_indices s s'" "SubnetNodeQueue s' = SubnetNodeQueue s"
  shows "nodes_ok (s'\<lparr>SubnetNodeQueue := (SubnetNodeQueue s')(i := Q)\<rparr>)"
proof -
  let ?s = "s\<lparr>SubnetNodeQueue := (SubnetNodeQueue s)(i := nd # Q)\<rparr>"
    and ?s' = "s'\<lparr>SubnetNodeQueue := (SubnetNodeQueue s')(i := Q)\<rparr>"
  let ?nd = "nd\<lparr>sn_classification := c\<rparr>"
  have ix: "subnet_indexed i ?s" and ids: "node_ids_ok i ?s" and q: "node_queue_ok i ?s"
    using ok by (simp_all add: nodes_ok_def)
  have R: "RegisteredSubnetNodesData s (i, m) = Some x \<longleftrightarrow> x \<in> set (nd # Q) \<and> sn_id x = m" for m x
    using q by (simp add: node_queue_ok_def)
  have r: "RegisteredSubnetNodesData ?s (i, sn_id nd) = Some nd" using R by simp
  have a: "SubnetNodesData s (i, sn_id nd) = None" using node_ids_disjoint(2) [OF ok r] by simp
  have old: "node_at i (sn_id nd) ?s = Some nd" using r a by (simp add: node_at_def)
  have at: "node_at i m ?s' = (if m = sn_id nd then Some ?nd else node_at i m ?s)" for m
    by (simp add: node_at_def d(1,2) split: option.split)
  have [simp]: "node_addrs ?nd = node_addrs nd" by (simp add: node_addrs_def)
  note keys = d(3) [unfolded same_indices_def] and kept = node_key_kept [OF ix old, of ?nd]
  show ?thesis
  proof (rule nodes_ok_change [OF ok])
    show "nodes_frame j ?s ?s'" if "j \<noteq> i" for j using that by (auto simp: nodes_frame_def keys d)
    show "subnet_indexed i ?s'"
      by (rule subnet_indexed_change [of i "sn_id nd" ?s' "Some ?nd" ?s])
        (use kept subnet_indexedD(6-8) [OF ix] in \<open>simp_all add: at keys\<close>)
    have A: "addrs_differ ?nd" using addrs_of_indexed(2) [OF ok old] by (simp add: addrs_differ_def)
    have I: "sn_id x = m \<and> m \<noteq> 0 \<and> m \<le> TotalSubnetNodeUids s i \<and> addrs_differ x" if "node_at i m ?s = Some x" for m x
      using that ids unfolding node_ids_ok_def by auto
    have U: "TotalSubnetNodeUids ?s' i = TotalSubnetNodeUids s i" using keys by simp
    have D: "SubnetNodesData ?s' (i, m) = None \<or> RegisteredSubnetNodesData ?s' (i, m) = None" for m
      using ids by (auto simp: node_ids_ok_def d(1,2))
    have "sn_id x = m \<and> m \<noteq> 0 \<and> m \<le> TotalSubnetNodeUids s i \<and> addrs_differ x" if "node_at i m ?s' = Some x" for m x
      using that A I [OF old] I [of m x] unfolding at by (cases "m = sn_id nd") auto
    with D show "node_ids_ok i ?s'" unfolding node_ids_ok_def U by blast
    have "sn_id x \<noteq> sn_id nd" if "x \<in> set Q" for x using that q by (auto simp: node_queue_ok_def image_iff)
    then have "RegisteredSubnetNodesData s' (i, m) = Some x \<longleftrightarrow> x \<in> set Q \<and> sn_id x = m" for m x
      using R [of m x] by (auto simp: d(2))
    then show "node_queue_ok i ?s'" using q by (simp add: node_queue_ok_def)
  qed
qed

lemma registration_queue_loop_ok:
  assumes "nodes_ok (s\<lparr>SubnetNodeQueue := (SubnetNodeQueue s)(i := xs @ rest)\<rparr>)"
    and "registration_queue_loop W i qe e xs k w s = (s', w', k')"
  shows "nodes_ok (s'\<lparr>SubnetNodeQueue := (SubnetNodeQueue s')(i := drop (k' - k) (xs @ rest))\<rparr>) \<and>
    k \<le> k' \<and> k' - k \<le> length xs \<and> SubnetNodeQueue s' = SubnetNodeQueue s"
  using assms
proof (induction xs arbitrary: k w s)
  case (Cons nd xs)
  let ?w = "consume W (from_parts W 1500 0) w"
  obtain s1 w1 b where act: "do_activate_subnet_node W (sn_validator_id nd) i Active nd e True ?w s = (s1, w1, b)"
    by (rule prod_cases3)
  show ?case
  proof (cases "(s', w', k') = (s, w, k) \<or> (\<not> b \<and> s' = s1 \<and> k' = k)")
    case True
    then have "s' = s \<and> k' = k" using do_activate_failure [of W "sn_validator_id nd" i nd e ?w s s1 w1] act by auto
    with Cons.prems(1) show ?thesis by simp
  next
    case False
    then have b: b and loop: "registration_queue_loop W i qe e xs (k + 1) w1 s1 = (s', w', k')"
      using Cons.prems(2) act by (auto simp: Let_def split: if_splits)
    have "node_class (sn_classification nd) = RegisteredClass"
      using Cons.prems(1) by (auto simp: nodes_ok_def node_queue_ok_def dest: spec [of _ i])
    then obtain c where d: "SubnetNodesData s1 = (SubnetNodesData s)((i, sn_id nd) \<mapsto> nd\<lparr>sn_classification := c\<rparr>)"
        "RegisteredSubnetNodesData s1 = (RegisteredSubnetNodesData s)((i, sn_id nd) := None)"
        "same_indices s s1" "SubnetNodeQueue s1 = SubnetNodeQueue s"
      using act b by (auto elim: do_activate_success)
    have "nodes_ok (s1\<lparr>SubnetNodeQueue := (SubnetNodeQueue s1)(i := xs @ rest)\<rparr>)"
      using nodes_ok_activate [OF _ d, of "xs @ rest"] Cons.prems(1) unfolding append_Cons by blast
    note IH = Cons.IH [OF this loop]
    then have "k + 1 \<le> k'" by blast
    then have "k' - k = Suc (k' - (k + 1))" by simp
    with IH d(4) show ?thesis by (elim conjE) simp
  qed
qed simp

lemma nodes_ok_handle_registration_queue:
  assumes ok: "nodes_ok s" and h: "handle_registration_queue W i e w s = Some (s', w')"
  shows "nodes_ok s'"
proof -
  let ?Q = "SubnetNodeQueue s i"
  have "s' = s \<or> (\<exists>n qe w1 s1 w2 k. registration_queue_loop W i qe e (take n ?Q) 0 w1 s = (s1, w2, k) \<and>
      (s' = s1 \<and> k = 0 \<or> s' = s1\<lparr>SubnetNodeQueue := (SubnetNodeQueue s1)(i := drop k ?Q)\<rparr>))"
    using h by (auto simp: handle_registration_queue_def Let_def split: if_splits option.splits prod.splits) blast+
  then show ?thesis
  proof (elim disjE exE conjE)
    fix n qe w1 s1 w2 k
    assume loop: "registration_queue_loop W i qe e (take n ?Q) 0 w1 s = (s1, w2, k)"
    have "nodes_ok (s\<lparr>SubnetNodeQueue := (SubnetNodeQueue s)(i := take n ?Q @ drop n ?Q)\<rparr>)"
      using ok by simp
    note L = registration_queue_loop_ok [OF this loop]
    then have e: "SubnetNodeQueue s = SubnetNodeQueue s1" by simp
    show ?thesis if "s' = s1" "k = 0" using L that unfolding e by simp
    show ?thesis if "s' = s1\<lparr>SubnetNodeQueue := (SubnetNodeQueue s1)(i := drop k ?Q)\<rparr>"
      using L that by (elim conjE) simp
  qed (use ok in simp)
qed

end
