(* ===== verification/Concrete_Rewards.thy ===== *)
theory Concrete_Rewards
  imports Concrete_Nodes Node_Lifecycle
begin

text \<open>
  The concrete network with the parameters of consensus, rewards and the registration queue, and
  weights that always fit.
\<close>

definition example_rewards :: "simple_balances network_rewards" where
  "example_rewards = network_keys.extend example_keys
     (network_rewards.fields (\<lambda>_. None) (\<lambda>_. 2) (5 * 10 ^ 17) 10 (10 ^ 17) 2 (66 * 10 ^ 16)
        (875 * 10 ^ 15) (10 ^ 18) (10 ^ 16) (10 ^ 21) (\<lambda>_. 2 * 10 ^ 17) (\<lambda>_. 4) (\<lambda>_. 4) (\<lambda>_. 10 ^ 16)
        (10 ^ 16) (10 ^ 16) (10 ^ 16) (10 ^ 16) (10 ^ 16) (\<lambda>_. 0) [5 \<mapsto> 2] (10 ^ 17) (\<lambda>_. 10 ^ 17)
        (\<lambda>_. None) (\<lambda>_. 4) (\<lambda>_. 1) (\<lambda>_. 0))"

lemmas example_rewards_state = example_rewards_def example_state network_keys.extend_def
  network_rewards.fields_def

definition example_meters :: "(unit, unit) Meters" where
  "example_meters = \<lparr>db_reads = (\<lambda>_. ()), db_writes = (\<lambda>_. ()), db_reads_writes = (\<lambda>_ _. ()),
     from_parts = (\<lambda>_ _. ()), handle_increase_weight = (), consume = (\<lambda>_ w. w),
     can_consume = (\<lambda>_ _. True), meter_new = (), weight_zero = (), weight_saturating_add = (\<lambda>_ _. ())\<rparr>"

lemma example_rewards_network_ok: "network_ok example_config simple_ok example_rewards"
  using example_network_ok by (simp add: network_ok_def example_rewards_state)

lemma example_rewards_value: "network_value example_config example_rewards = 2 * 10 ^ 24"
  using example_network_value by (simp add: network_value_def example_rewards_state)

lemma example_nodes_ok: "nodes_ok example_rewards"
proof -
  have at: "node_at i n example_rewards = (if i = 5 \<and> n = 3 then Some example_node else None)" for i n
    by (auto simp: node_at_def example_rewards_state)
  then have k: "node_keys f i example_rewards n = (if i = 5 \<and> n = 3 then f example_node else {})"
    for f :: "SubnetNode \<Rightarrow> bytes set" and i n
    by (simp add: node_keys_def)
  have ix: "PeerIdSubnetNodeId example_rewards = [(5, [1]) \<mapsto> 3]"
      "BootnodePeerIdSubnetNodeId example_rewards = (\<lambda>_. None)"
      "ClientPeerIdSubnetNodeId example_rewards = (\<lambda>_. None)" "MultiaddrSubnetNodeId example_rewards = (\<lambda>_. None)"
      "UniqueParamSubnetNodeId example_rewards = (\<lambda>_. None)" "TotalSubnetNodeUids example_rewards 5 = 3"
      "RegisteredSubnetNodesData example_rewards = (\<lambda>_. None)"
    by (simp_all add: example_rewards_state)
  have "subnet_indexed i example_rewards" for i
    by (auto simp: subnet_indexed_def indexed_def k ix example_node_def node_addrs_def split: if_splits)
  moreover have "node_ids_ok i example_rewards" for i
    by (auto simp: node_ids_ok_def at ix example_node_def addrs_differ_def split: if_splits)
  moreover have "node_queue_ok i example_rewards" for i
    by (simp add: node_queue_ok_def example_rewards_state)
  ultimately show ?thesis by (simp add: nodes_ok_def)
qed

text \<open>Node 4 of subnet 5, which validator 7 registers.\<close>

definition example_peer :: PeerInfo where
  "example_peer = \<lparr>peer_id = replicate 40 49, peer_multiaddr = None\<rparr>"

definition example_register :: "(simple_balances network_rewards, unit) outcome option" where
  "example_register = register_subnet_node example_meters example_config (Signed 1) 7 5 None example_peer None None
     1000 (Some [8]) None (10 ^ 19) example_rewards"

definition example_new_node :: SubnetNode where
  "example_new_node = \<lparr>sn_id = 4, sn_validator_id = 7, sn_peer_info = example_peer, sn_bootnode_peer_info = None,
     sn_client_peer_info = None, sn_classification = \<lparr>node_class = RegisteredClass, class_start_epoch = 10\<rparr>,
     sn_unique = Some [8], sn_non_unique = None\<rparr>"

lemma example_admit:
  "admit_registration example_config 1 7 5 example_rewards = Some (Inr (example_subnet, 9))"
  by (simp add: admit_registration_def ensure_canonical_validator_coldkey_def get_current_epoch_as_u32_def
      is_subnet_in_enactment_def get_current_subnet_epoch_as_u32_def check_registration_whitelist_def
      example_rewards_state example_config_def example_subnet_def subnet_slot_or_zero_def
      get_current_block_as_u32_def saturating_div_def saturating_sub_def Let_def example_validator_def)

lemma example_validate: "validate_registration_peer_infos 5 example_peer None None example_rewards = Some (Inr ())"
  using arg_cong [of "replicate 40 49" "[1]" length]
  by (auto simp add: validate_registration_peer_infos_def validate_peer_info_def validate_peer_id_def example_peer_def
      is_owner_of_peer_or_ownerless_def example_rewards_state)

lemma example_payment:
  "check_registration_payment example_config 1 5 4 1000 (10 ^ 19) example_rewards = Inr 1000"
proof -
  have "percent_mul 1000 (10 ^ 18) = 1000" by (simp add: word_unat_eq_iff unat_percent_mul)
  then show ?thesis
    by (simp add: check_registration_payment_def calculate_burn_amount_def example_rewards_state
        example_config_def can_remove_balance_from_coldkey_account_def get_coldkey_balance_def
        exceeds_tx_rate_limit_def get_last_tx_block_def get_current_block_as_u32_def
        u128_to_balance_def saturating_add_def saturating_sub_def Let_def)
qed

definition example_paid :: "simple_balances network_rewards" where
  "example_paid = example_rewards\<lparr>balances := ((\<lambda>_. 0)(1 := 10 ^ 24 - 2000, 2 := 10 ^ 24), 2 * 10 ^ 24 - 2000)\<rparr>"

definition example_registered :: "simple_balances network_rewards" where
  "example_registered = fst (enter_registration example_meters 1 5 Active example_new_node 9 1000 None example_paid)"

lemma example_register_eq: "example_register = Some (example_registered, Inr ())"
proof -
  have p: "pay_registration example_config 1 1000 1000 example_rewards = (example_paid, Inr ())"
    by (simp add: pay_registration_def burn_def remove_balance_from_coldkey_account_def example_config_def
        example_paid_def example_rewards_state fun_upd_twist)
  have e: "enter_registration example_meters 1 5 Active example_new_node 9 1000 None example_paid =
      (example_registered, Inr ())"
    by (simp add: enter_registration_def example_registered_def Let_def)
  have "commit_registration example_meters example_config 1 5 Active example_new_node 9 None 1000 (10 ^ 19)
      example_rewards = (example_registered, Inr ())"
    using example_payment e [unfolded example_new_node_def]
    by (simp add: commit_registration_def p example_new_node_def)
  moreover have "saturating_add (TotalSubnetNodeUids example_rewards 5) 1 = 4"
    "UniqueParamSubnetNodeId example_rewards (5, [8]) = None" "TxPause example_rewards = False"
    by (simp_all add: example_rewards_state saturating_add_def)
  ultimately show ?thesis
    by (simp add: example_register_def register_subnet_node_def do_register_subnet_node_def is_paused_def
        ensure_signed_def example_admit example_validate example_new_node_def example_subnet_def dispatch_def Let_def)
qed

end
