(* ===== verification/Book_Frames.thy ===== *)
theory Book_Frames
  imports Network_Invariant Node_Updates
begin

text \<open>
  The storage in which the network keeps value and the shares of validators, and the operations on nodes
  that leave it alone.
\<close>

definition books where
  "books (s :: ('c, 'm) network_scheme) =
     ((balances s, MinDelegateStakeDeposit s, StakeUnbondingLedger s, TotalUnbondingBalance s),
      (NodeSubnetStake s, TotalStake s, TotalSubnetStake s),
      (OverwatchNodeStakeBalance s, TotalOverwatchNodeStakeBalance s, DelegateAccountStake s, TotalAccountDelegateStake s),
      (AccountSubnetDelegateStakeShares s, TotalSubnetDelegateStakeShares s, TotalSubnetDelegateStakeBalance s,
       TotalDelegateStake s),
      (AccountValidatorDelegateStakeShares s, ValidatorDelegateStakeShares s, ValidatorDelegateStakeBalance s,
       TotalValidatorDelegateStakeBalance s),
      (SwapQueueOrder s, SwapCallQueue s, NextSwapQueueId s, ValidatorsData s))"

lemma holds_books: "books s' = books s \<Longrightarrow> holds cfg ok v s' = holds cfg ok v s"
  by (simp add: books_def holds_defs)

lemma stake_books: "books s' = books s \<Longrightarrow> NodeSubnetStake s' = NodeSubnetStake s"
  by (simp add: books_def)

named_theorems book_frames

lemma books_fields [book_frames]:
  "books (s0\<lparr>LastTxBlock := x0\<rparr>) = books s0"
  "books (s1\<lparr>SubnetNodeValidatorId := x1\<rparr>) = books s1"
  "books (s2\<lparr>ValidatorSubnetNodes := x2\<rparr>) = books s2"
  "books (s3\<lparr>SubnetNodeReputation := x3\<rparr>) = books s3"
  "books (s4\<lparr>TotalActiveSubnets := x4\<rparr>) = books s4"
  "books (s5\<lparr>TotalActiveNodes := x5\<rparr>) = books s5"
  "books (s6\<lparr>SubnetNodeElectionSlots := x6\<rparr>) = books s6"
  "books (s7\<lparr>ValidatorReputation := x7\<rparr>) = books s7"
  "books (s8\<lparr>SubnetReputation := x8\<rparr>) = books s8"
  "books (s9\<lparr>SubnetElectedValidator := x9\<rparr>) = books s9"
  "books (s10\<lparr>EmergencySubnetNodeElectionData := x10\<rparr>) = books s10"
  "books (s11\<lparr>NodeSlotIndex := x11\<rparr>) = books s11"
  "books (s12\<lparr>TotalSubnetElectableNodes := x12\<rparr>) = books s12"
  "books (s13\<lparr>TotalElectableNodes := x13\<rparr>) = books s13"
  "books (s14\<lparr>SubnetNodesData := x14\<rparr>) = books s14"
  "books (s15\<lparr>RegisteredSubnetNodesData := x15\<rparr>) = books s15"
  "books (s16\<lparr>SubnetNodeQueue := x16\<rparr>) = books s16"
  "books (s17\<lparr>SubnetNodeIdHotkey := x17\<rparr>) = books s17"
  "books (s18\<lparr>SubnetNodeIdleConsecutiveEpochs := x18\<rparr>) = books s18"
  "books (s19\<lparr>SubnetNodeConsecutiveIncludedEpochs := x19\<rparr>) = books s19"
  "books (s20\<lparr>TotalSubnetNodeUids := x20\<rparr>) = books s20"
  "books (s21\<lparr>TotalSubnetNodes := x21\<rparr>) = books s21"
  "books (s22\<lparr>TotalNodes := x22\<rparr>) = books s22"
  "books (s23\<lparr>TotalActiveSubnetNodes := x23\<rparr>) = books s23"
  "books (s24\<lparr>InitialValidatorData := x24\<rparr>) = books s24"
  "books (s25\<lparr>CurrentNodeBurnRate := x25\<rparr>) = books s25"
  "books (s26\<lparr>NodeRegistrationsThisEpoch := x26\<rparr>) = books s26"
  "books (s27\<lparr>SubnetConsensusSubmission := x27\<rparr>) = books s27"
  "books (s28\<lparr>RewardsCapacitor := x28\<rparr>) = books s28"
  "books (s29\<lparr>FinalSubnetEmissionWeights := x29\<rparr>) = books s29"
  by (simp_all add: books_def)

lemma books_indices [book_frames]:
  "books (insert_multiaddr i a n s) = books s" "books (remove_multiaddr i a s) = books s"
  "books (insert_peer_info i p n s) = books s" "books (remove_peer_info i p s) = books s"
  "books (insert_bootnode_peer_info i q n s) = books s" "books (remove_bootnode_peer_info i q s) = books s"
  "books (insert_client_peer_info i q n s) = books s" "books (remove_client_peer_info i q s) = books s"
  "books (insert_unique i u n s) = books s" "books (remove_unique i u s) = books s"
  by (simp_all add: books_def insert_multiaddr_def remove_multiaddr_def insert_peer_info_def remove_peer_info_def
      insert_bootnode_peer_info_def remove_bootnode_peer_info_def insert_client_peer_info_def
      remove_client_peer_info_def insert_unique_def remove_unique_def Let_def split: option.split)

lemma books_slots [book_frames]:
  "books (fst (insert_node_into_election_slot i n s)) = books s"
  "books (fst (remove_node_from_election_slot i n s)) = books s"
  by (simp_all add: books_def insert_node_into_election_slot_def push_election_slot_def
      remove_node_from_election_slot_def Let_def split: option.split)

lemma books_registration [book_frames]:
  "books (count_initial_registration i w s) = books s"
  "books (record_registration i s) = books s"
  by (simp_all add: books_def count_initial_registration_def record_registration_def Let_def)

lemma books_activate [book_frames]:
  "books (fst (do_activate_subnet_node W v i st nd e q w s)) = books s"
  by (simp add: do_activate_subnet_node_def Let_def split_def book_frames)

lemma books_remove [book_frames]:
  "books (common_remove_subnet_node i n nd s) = books s"
  "books (remove_active_subnet_node i n s) = books s"
  "books (remove_registered_subnet_node i n s) = books s"
  "books (perform_remove_subnet_node i n s) = books s"
  by (simp_all add: common_remove_subnet_node_def remove_active_subnet_node_def remove_registered_subnet_node_def
      perform_remove_subnet_node_def Let_def book_frames split: option.split)

lemma books_graduate [book_frames]:
  "books (fst (graduate_class i n e s)) = books s"
  "books (fst (graduate_to_validator_class i n e s)) = books s"
  by (simp_all add: graduate_class_def graduate_to_validator_class_def push_election_slot_def Let_def book_frames
      split: option.split)

lemma books_queue [book_frames]:
  "books (fst (registration_queue_loop W i q e nodes k w s)) = books s"
proof (induction nodes arbitrary: k w s)
  case (Cons nd nodes)
  then show ?case by (simp add: Let_def split_def book_frames)
qed simp

lemma books_handle_registration_queue:
  "handle_registration_queue W i e w s = Some (s', w') \<Longrightarrow> books s' = books s"
  by (auto simp: handle_registration_queue_def Let_def split_def book_frames split: if_splits option.splits)

end
