(* ===== verification/Registration_Properties.thy ===== *)
theory Registration_Properties
  imports Concrete_Rewards Staking_Properties Book_Frames
begin

text \<open>
  What the life cycle of nodes guarantees: indices that name every node and nothing else, along every
  sequence of calls and queue runs; the value a registration moves; the range of the burn rate; and
  what an update of a queued node loses.
\<close>

section \<open>The indices along every run\<close>

text \<open>
  The calls on nodes, by any origin and with any result, and the queue of a subnet at its slot. The five
  updates are made on an active node.
\<close>

inductive node_step ::
  "('w, 'k, 'x) Meters_scheme \<Rightarrow> 'c Config \<Rightarrow> ('c, 'm) network_rewards_scheme \<Rightarrow> ('c, 'm) network_rewards_scheme \<Rightarrow> bool"
  for W cfg
where
  Register: "TotalSubnetNodeUids s i \<noteq> - 1 \<Longrightarrow>
    register_subnet_node W cfg origin v i h p b c a u w m s = Some (s', r) \<Longrightarrow> node_step W cfg s s'"
| Remove: "remove_subnet_node cfg origin i n s = Some (s', r) \<Longrightarrow> node_step W cfg s s'"
| Update_Peer: "SubnetNodesData s (i, n) = Some nd \<Longrightarrow>
    update_node_peer_info origin i n p s = Some (s', r) \<Longrightarrow> node_step W cfg s s'"
| Update_Bootnode: "SubnetNodesData s (i, n) = Some nd \<Longrightarrow>
    update_node_bootnode_peer_info origin i n q s = Some (s', r) \<Longrightarrow> node_step W cfg s s'"
| Update_Client: "SubnetNodesData s (i, n) = Some nd \<Longrightarrow>
    update_node_client_peer_info origin i n q s = Some (s', r) \<Longrightarrow> node_step W cfg s s'"
| Update_Unique: "SubnetNodesData s (i, n) = Some nd \<Longrightarrow>
    update_node_unique origin i n u s = Some (s', r) \<Longrightarrow> node_step W cfg s s'"
| Update_Non_Unique: "SubnetNodesData s (i, n) = Some nd \<Longrightarrow>
    update_node_non_unique origin i n u s = Some (s', r) \<Longrightarrow> node_step W cfg s s'"
| Update_Hotkey: "update_node_hotkey origin i n h s = (s', r) \<Longrightarrow> node_step W cfg s s'"
| Queue: "handle_registration_queue W i e w s = Some (s', w') \<Longrightarrow> node_step W cfg s s'"

lemma nodes_ok_remove_call:
  assumes "nodes_ok s" and "remove_subnet_node cfg origin i n s = Some (s', r)"
  shows "nodes_ok s'"
  using assms nodes_ok_remove [OF assms(1), of i n]
  by (auto simp: remove_subnet_node_def do_remove_subnet_node_v2_def split: sum.splits option.splits if_splits)

lemma nodes_ok_hotkey_call:
  assumes "nodes_ok s" and "update_node_hotkey origin i n h s = (s', r)"
  shows "nodes_ok s'"
proof -
  have "s' = s \<or> (\<exists>f. s' = s\<lparr>SubnetNodeIdHotkey := f\<rparr>)"
    using assms(2) by (auto simp: update_node_hotkey_def split: sum.splits if_splits)
  then show ?thesis using assms(1) nodes_ok_frame [of s s'] by (auto simp: nodes_frame_def)
qed

lemma nodes_ok_step: "node_step W cfg s s' \<Longrightarrow> nodes_ok s \<Longrightarrow> nodes_ok s'"
proof (induction rule: node_step.induct)
  case Register
  show ?case by (rule nodes_ok_register [OF Register(3,1,2)])
next
  case Remove
  show ?case by (rule nodes_ok_remove_call [OF Remove(2,1)])
next
  case Update_Peer
  show ?case by (rule nodes_ok_update_calls(1) [OF Update_Peer(3,1,2)])
next
  case Update_Bootnode
  show ?case by (rule nodes_ok_update_calls(2) [OF Update_Bootnode(3,1,2)])
next
  case Update_Client
  show ?case by (rule nodes_ok_update_calls(3) [OF Update_Client(3,1,2)])
next
  case Update_Unique
  show ?case by (rule nodes_ok_update_calls(4) [OF Update_Unique(3,1,2)])
next
  case Update_Non_Unique
  show ?case by (rule nodes_ok_update_calls(5) [OF Update_Non_Unique(3,1,2)])
next
  case Update_Hotkey
  show ?case by (rule nodes_ok_hotkey_call [OF Update_Hotkey(2,1)])
next
  case Queue
  show ?case by (rule nodes_ok_handle_registration_queue [OF Queue(2,1)])
qed

lemma nodes_ok_run: "(node_step W cfg)\<^sup>*\<^sup>* s s' \<Longrightarrow> nodes_ok s \<Longrightarrow> nodes_ok s'"
  by (induction rule: rtranclp_induct) (auto intro: nodes_ok_step)

text \<open>
  C27: along every sequence of registrations, removals, updates of active nodes, changes of hotkeys and runs
  of the registration queue, the five indices of a subnet name exactly the nodes that have the key:
  a peer identifier, bootnode identifier, client identifier, multiaddress or unique parameter leads to
  the one node that has it, and no two nodes of a subnet share any of them.
\<close>

theorem nodes_stay_indexed:
  assumes "nodes_ok s" and "(node_step W cfg)\<^sup>*\<^sup>* s s'"
  shows "nodes_ok s' \<and>
    (\<forall>i n a. node_at i n s' = Some a \<longrightarrow>
       PeerIdSubnetNodeId s' (i, peer_id (sn_peer_info a)) = Some n \<and>
       (\<forall>m b. m \<noteq> n \<longrightarrow> node_at i m s' = Some b \<longrightarrow>
          peer_id (sn_peer_info a) \<noteq> peer_id (sn_peer_info b) \<and> node_addrs a \<inter> node_addrs b = {} \<and>
          info_peer (sn_bootnode_peer_info a) \<inter> info_peer (sn_bootnode_peer_info b) = {} \<and>
          info_peer (sn_client_peer_info a) \<inter> info_peer (sn_client_peer_info b) = {} \<and>
          set_option (sn_unique a) \<inter> set_option (sn_unique b) = {}))"
proof -
  have ok: "nodes_ok s'" by (rule nodes_ok_run [OF assms(2,1)])
  have "PeerIdSubnetNodeId s' (i, peer_id (sn_peer_info a)) = Some n" if "node_at i n s' = Some a" for i n a
    using ok that by (auto simp: nodes_ok_def subnet_indexed_def indexed_def node_keys_def)
  then show ?thesis
    using ok nodes_ok_unique [OF ok] by (intro conjI allI impI) (assumption | rule not_sym | (simp; fail) | (simp add: neq_commute; fail))+
qed

text \<open>Applied: validator 7 registers node 4 beside node 3.\<close>

theorem nodes_stay_indexed_witness:
  "nodes_ok example_registered \<and> PeerIdSubnetNodeId example_registered (5, replicate 40 49) = Some 4"
proof -
  have "TotalSubnetNodeUids example_rewards 5 \<noteq> - 1" by (simp add: example_rewards_state)
  then have "node_step example_meters example_config example_rewards example_registered"
    using example_register_eq unfolding example_register_def by (rule node_step.Register)
  note run = nodes_stay_indexed [OF example_nodes_ok r_into_rtranclp [of "node_step example_meters example_config", OF this]]
  have "node_at 5 4 example_registered = Some example_new_node"
    by (simp add: example_registered_def enter_registration_def example_paid_def insert_registration_indices
        Let_def node_at_def example_rewards_state example_new_node_def)
  with run have "PeerIdSubnetNodeId example_registered (5, peer_id (sn_peer_info example_new_node)) = Some 4" by blast
  with run show ?thesis by (simp add: example_new_node_def example_peer_def)
qed

section \<open>The value of a registration\<close>

lemma holds_insert_registration:
  assumes "holds cfg ok (v - unat a) s" and "unat a \<le> v" and "headroom v"
  shows "holds cfg ok v (insert_registration who i nd a s)"
  unfolding insert_registration_def Let_def holds_set_last_tx_block
  by (intro holds_increase_node_stake [OF holds_books [THEN iffD2, OF _ assms(1)] assms(2,3)]) (simp add: book_frames)

lemma stake_increase:
  assumes "books s1 = books s"
  shows "NodeSubnetStake (set_last_tx_block who b (increase_node_stake n i a s1)) =
      (NodeSubnetStake s)((n, i) := saturating_add (NodeSubnetStake s (n, i)) a)"
  using stake_books [OF assms] by (simp add: increase_node_stake_def set_last_tx_block_def)

lemma stake_insert_registration:
  "NodeSubnetStake (insert_registration who i nd a s) = (NodeSubnetStake s)((sn_id nd, i) :=
      saturating_add (NodeSubnetStake s (sn_id nd, i)) a)"
  unfolding insert_registration_def Let_def
  by (subst stake_increase [of _ s]) (simp_all add: book_frames)

lemma books_enter_registration:
  "books (fst (enter_registration W who i st nd e a h s)) = books (insert_registration who i nd a s)"
  by (simp add: enter_registration_def perform_activate_subnet_node_v2_def Let_def split_def book_frames
      split: sum.split option.split)

lemma value_books: "books s' = books s \<Longrightarrow> network_value cfg s' = network_value cfg s"
  by (simp add: books_def network_value_def)

lemma balances_books: "books s' = books s \<Longrightarrow> balances s' = balances s"
  by (simp add: books_def)

lemma value_increase:
  assumes "books s1 = books s" and "unat (TotalStake s) + unat a < 2 ^ 128"
  shows "network_value cfg (set_last_tx_block who b (increase_node_stake n i a s1)) = network_value cfg s + unat a \<and>
    balances (set_last_tx_block who b (increase_node_stake n i a s1)) = balances s"
  using assms
  by (simp add: network_value_def set_last_tx_block_def increase_node_stake_def saturating_add_exact books_def)

lemma value_insert_registration:
  assumes "unat (TotalStake s) + unat a < 2 ^ 128"
  shows "network_value cfg (insert_registration who i nd a s) = network_value cfg s + unat a \<and>
    balances (insert_registration who i nd a s) = balances s"
  unfolding insert_registration_def Let_def
  by (rule value_increase [OF _ assms]) (simp add: book_frames)

text \<open>What the two withdrawals of a registration take, from whom, and what is left.\<close>

lemma pay_registration_exact:
  assumes "network_ok cfg ok s" and "pay_registration cfg who b a s = (s', Inr u)"
  shows "unat b + unat a \<le> unat (free_balance (Cur cfg) (balances s) who)"
    and "free_balance (Cur cfg) (balances s') =
      (free_balance (Cur cfg) (balances s))(who := free_balance (Cur cfg) (balances s) who - (b + a))"
    and "network_value cfg s' + unat b + unat a = network_value cfg s"
    and "network_ok cfg ok s'" and "NodeSubnetStake s' = NodeSubnetStake s"
proof -
  let ?C = "Cur cfg"
  obtain c c' where s': "s' = s\<lparr>balances := c'\<rparr>"
    and b: "if b > 0 then withdraw ?C (balances s) who b = Some c else c = balances s"
    and a: "withdraw ?C c who a = Some c'"
    using assms(2)
    by (auto simp: pay_registration_def burn_def remove_balance_from_coldkey_account_def
        split: if_splits option.splits prod.splits)
  have laws: "currency_laws ?C ok" "ok (balances s)" using assms(1) by (simp_all add: network_ok_def)
  have c: "ok c" "b \<le> free_balance ?C (balances s) who"
    "free_balance ?C c = (free_balance ?C (balances s))(who := free_balance ?C (balances s) who - b)"
    "unat (total_issuance ?C c) + unat b = unat (total_issuance ?C (balances s))"
    using b laws withdraw_laws [OF laws, of who b c] by (cases "b = 0"; auto simp: word_gt_0)+
  note w = withdraw_laws [OF laws(1) c(1) a]
  have "unat a \<le> unat (free_balance ?C (balances s) who) - unat b"
    using w(2) c(2,3) by (simp add: word_le_nat_alt unat_sub)
  then show "unat b + unat a \<le> unat (free_balance ?C (balances s) who)"
    using c(2) by (simp add: word_le_nat_alt)
  show "free_balance ?C (balances s') =
      (free_balance ?C (balances s))(who := free_balance ?C (balances s) who - (b + a))"
    using w(3) c(3) by (simp add: s' diff_diff_add)
  show "network_value cfg s' + unat b + unat a = network_value cfg s"
    using w(4) c(4) by (simp add: s' network_value_def)
  show "network_ok cfg ok s'" "NodeSubnetStake s' = NodeSubnetStake s"
    using assms(1) w(1) by (simp_all add: s' network_ok_def)
qed

lemma registration_payment:
  assumes "check_registration_payment cfg who i n a m s = Inr b"
  shows "b = calculate_burn_amount i s \<and> b \<le> m \<and> a \<noteq> 0 \<and>
    SubnetMinStakeBalance s i \<le> saturating_add (NodeSubnetStake s (n, i)) a \<and>
    saturating_add (NodeSubnetStake s (n, i)) a \<le> SubnetMaxStakeBalance s i"
  using assms by (auto simp: check_registration_payment_def Let_def split: if_splits option.splits)

lemma registration_commits:
  assumes "register_subnet_node W cfg origin v i h p b c a u w m s = Some (s', Inr ())"
  obtains who nd e and subnet :: SubnetData where "origin = Signed who" and "ValidatorColdkey s v = Some who"
    and "commit_registration W cfg who i (sd_state subnet) nd e h a m s = (s', Inr ())"
    and "sn_id nd = saturating_add (TotalSubnetNodeUids s i) 1"
proof -
  from assms obtain who e and subnet :: SubnetData where o: "origin = Signed who"
    and ad: "admit_registration cfg who v i s = Some (Inr (subnet, e))"
    and "commit_registration W cfg who i (sd_state subnet)
       \<lparr>sn_id = saturating_add (TotalSubnetNodeUids s i) 1, sn_validator_id = v, sn_peer_info = p,
        sn_bootnode_peer_info = b, sn_client_peer_info = c,
        sn_classification = \<lparr>node_class = RegisteredClass, class_start_epoch = e + 1\<rparr>,
        sn_unique = u, sn_non_unique = w\<rparr> e h a m s = (s', Inr ())"
    by (auto simp: register_subnet_node_def do_register_subnet_node_def Let_def dispatch_Inr ensure_signed_Inr
        split: sum.splits option.splits if_splits prod.splits)
  note cm = this(3)
  have "ValidatorColdkey s v = Some who"
    using ad by (auto simp: admit_registration_def ensure_canonical_validator_coldkey_def split: if_splits)
  from that [OF o this cm] show ?thesis by simp
qed

text \<open>
  C28: a registration moves exactly what it says, from balanced books with headroom. The signer, who is the coldkey of the validator, pays the
  burn fee, at most the amount it agreed to, and the stake: its free balance, which covers both, falls by
  exactly their sum, and no other balance changes. The stake is the new node's and lies within the
  subnet's limits, no other stake changes, every book still agrees with its total, and the value of the
  network falls by exactly the fee. A registration that fails changes nothing.
\<close>

theorem registration_moves_value:
  assumes "network_ok cfg ok s" and "headroom (network_value cfg s)"
    and "register_subnet_node W cfg origin v i h p b c a u w m s = Some (s', r)"
  shows "case r of Inl e \<Rightarrow> s' = s
    | Inr _ \<Rightarrow> \<exists>who. origin = Signed who \<and> ValidatorColdkey s v = Some who \<and> network_ok cfg ok s' \<and>
        unat (calculate_burn_amount i s) + unat a \<le> unat (free_balance (Cur cfg) (balances s) who) \<and>
        free_balance (Cur cfg) (balances s') = (free_balance (Cur cfg) (balances s))
          (who := free_balance (Cur cfg) (balances s) who - (calculate_burn_amount i s + a)) \<and>
        network_value cfg s' + unat (calculate_burn_amount i s) = network_value cfg s \<and>
        calculate_burn_amount i s \<le> m \<and>
        (let n = saturating_add (TotalSubnetNodeUids s i) 1
         in NodeSubnetStake s' = (NodeSubnetStake s)((n, i) := saturating_add (NodeSubnetStake s (n, i)) a) \<and>
            SubnetMinStakeBalance s i \<le> NodeSubnetStake s' (n, i) \<and>
            NodeSubnetStake s' (n, i) \<le> SubnetMaxStakeBalance s i)"
proof (cases r)
  case (Inl e)
  with assms(3) show ?thesis
    by (auto simp: register_subnet_node_def do_register_subnet_node_def Let_def
        dest: dispatch_Inl split: sum.splits option.splits if_splits prod.splits)
next
  case (Inr x)
  let ?v = "network_value cfg s" and ?b = "calculate_burn_amount i s"
  from assms(3) Inr have "register_subnet_node W cfg origin v i h p b c a u w m s = Some (s', Inr ())" by simp
  then obtain who nd e and subnet :: SubnetData where who: "origin = Signed who" "ValidatorColdkey s v = Some who"
    and cm: "commit_registration W cfg who i (sd_state subnet) nd e h a m s = (s', Inr ())"
    and n: "sn_id nd = saturating_add (TotalSubnetNodeUids s i) 1" by (rule registration_commits)
  from cm obtain s1 where
    ch: "check_registration_payment cfg who i (sn_id nd) a m s = Inr ?b"
    and pay: "pay_registration cfg who ?b a s = (s1, Inr ())"
    and en: "enter_registration W who i (sd_state subnet) nd e a h s1 = (s', Inr ())"
    by (auto simp: commit_registration_def split: sum.splits prod.splits if_splits dest: registration_payment)
  note paid = pay_registration_exact [OF assms(1) pay]
  have v1: "network_value cfg s1 = ?v - unat ?b - unat a" "unat ?b + unat a \<le> ?v" using paid(3) by simp_all
  have "unat (TotalStake s1) \<le> network_value cfg s1" by (simp add: network_value_def)
  then have "unat (TotalStake s1) + unat a < 2 ^ 128" using v1 assms(2) by (simp add: headroom_def)
  note ins = value_insert_registration [OF this, where who = who and i = i and nd = nd]
  have bk: "books s' = books (insert_registration who i nd a s1)"
    using books_enter_registration [of W who i "sd_state subnet" nd e a h s1] by (simp add: en)
  have "holds cfg ok (?v - unat ?b) (insert_registration who i nd a s1)"
    by (rule holds_insert_registration) (use paid(4) v1 assms(2) in \<open>auto simp: headroom_def holds_def\<close>)
  then have "holds cfg ok (?v - unat ?b) s'" by (simp only: holds_books [OF bk])
  then have "network_ok cfg ok s'" by (simp add: holds_def)
  moreover have "network_value cfg s' + unat ?b = ?v" using value_books [OF bk] ins v1 by simp
  moreover have "balances s' = balances s1" using balances_books [OF bk] ins by simp
  moreover have st: "NodeSubnetStake s' = (NodeSubnetStake s)((sn_id nd, i) := saturating_add (NodeSubnetStake s (sn_id nd, i)) a)"
    using stake_books [OF bk] paid(5) by (simp add: stake_insert_registration)
  ultimately show ?thesis
    using registration_payment [OF ch] who paid(1,2) unfolding Inr sum.case Let_def n [symmetric] by (simp add: st)
qed

text \<open>Applied: coldkey 1 burns 1000 and stakes 1000 on node 4.\<close>

theorem registration_moves_value_witness:
  "network_ok example_config simple_ok example_registered \<and>
   network_value example_config example_registered + 1000 = 2 * 10 ^ 24 \<and>
   free_balance (Cur example_config) (balances example_registered) 1 =
     free_balance (Cur example_config) (balances example_rewards) 1 - 2000 \<and>
   NodeSubnetStake example_registered (4, 5) = 1000"
proof -
  have h: "headroom (network_value example_config example_rewards)"
    by (simp add: headroom_def example_rewards_value)
  have "saturating_add (TotalSubnetNodeUids example_rewards 5) 1 = 4" "NodeSubnetStake example_rewards = (\<lambda>_. 0)"
    "saturating_add 0 1000 = (1000 :: u128)" "calculate_burn_amount 5 example_rewards = 1000"
    using registration_payment [OF example_payment] by (simp_all add: example_rewards_state saturating_add_def)
  with registration_moves_value [OF example_rewards_network_ok h
      example_register_eq [unfolded example_register_def]]
  show ?thesis by (simp add: example_rewards_value)
qed

section \<open>The burn rate\<close>

lemma saturating_add_mono2: "x \<le> x' \<Longrightarrow> y \<le> y' \<Longrightarrow> saturating_add x y \<le> saturating_add x' (y' :: 'a::len word)"
  by (simp add: word_le_nat_alt unat_saturating_add)

lemma percent_div_mono: "x \<le> x' \<Longrightarrow> percent_div x y \<le> percent_div x' y"
  by (simp add: word_le_nat_alt unat_percent_div div_le_mono min.coboundedI1)

lemma ucast_u32_le: "(ucast (a :: u32) :: u128) \<le> ucast b \<longleftrightarrow> a \<le> b"
  by (simp add: word_le_nat_alt unsigned_ucast_eq take_bit_nat_eq_self unat_lt_exp [THEN less_le_trans])

lemma target_burn_rate_range:
  assumes "MinNodeBurnRate s \<le> MaxNodeBurnRate s"
  shows "MinNodeBurnRate s \<le> calculate_target_burn_rate r t s"
    and "calculate_target_burn_rate r t s \<le> MaxNodeBurnRate s"
proof -
  let ?min = "MinNodeBurnRate s" and ?max = "MaxNodeBurnRate s"
  have c: "percent_mul (saturating_sub ?max ?min) (percent_div (ucast r) (ucast t)) \<le> saturating_sub ?max ?min"
    if "r < t" using that by (intro percent_mul_le percent_div_le_one) (simp add: ucast_u32_le)
  have d: "unat (saturating_sub ?max ?min) + unat ?min = unat ?max"
    using assms by (simp add: unat_saturating_sub word_le_nat_alt)
  have "unat ?max < 2 ^ 128" using u128_max [of ?max] by simp
  then have "unat ?min \<le> unat (calculate_target_burn_rate r t s) \<and> unat (calculate_target_burn_rate r t s) \<le> unat ?max"
    using assms c d
    by (auto simp: calculate_target_burn_rate_def Let_def word_le_nat_alt unat_saturating_add not_le word_less_nat_alt)
  then show "?min \<le> calculate_target_burn_rate r t s" and "calculate_target_burn_rate r t s \<le> ?max"
    by (simp_all add: word_le_nat_alt)
qed

lemma target_burn_rate_mono:
  assumes "MinNodeBurnRate s \<le> MaxNodeBurnRate s" and "r \<le> q"
  shows "calculate_target_burn_rate r t s \<le> calculate_target_burn_rate q t s"
proof -
  consider "r = 0" | "t \<le> q" | "r \<noteq> 0" "q < t" by fastforce
  then show ?thesis
  proof cases
    case 1
    then show ?thesis using target_burn_rate_range(1) [OF assms(1)] by (simp add: calculate_target_burn_rate_def)
  next
    case 2
    then have "calculate_target_burn_rate q t s = MaxNodeBurnRate s \<or> q = 0"
      by (simp add: calculate_target_burn_rate_def)
    then show ?thesis using target_burn_rate_range(2) [OF assms(1)] assms(2) by auto
  next
    case 3
    have "percent_div (ucast r) (ucast t) \<le> percent_div (ucast q) (ucast t)"
      using assms(2) by (intro percent_div_mono) (simp add: ucast_u32_le)
    from saturating_add_mono2 [OF order_refl percent_mul_mono [OF order_refl this]] show ?thesis
      using 3 assms(2) by (auto simp: calculate_target_burn_rate_def Let_def)
  qed
qed

lemma burn_rate_update:
  assumes "can_consume W (db_reads_writes W 9 2) w"
  shows "fst (update_burn_rate_for_epoch W i w s) = s\<lparr>
    CurrentNodeBurnRate := (CurrentNodeBurnRate s)(i := min (max (saturating_add
      (percent_mul (calculate_target_burn_rate (NodeRegistrationsThisEpoch s i) (TargetNodeRegistrationsPerEpoch s i) s)
        (NodeBurnRateAlpha s i))
      (percent_mul (CurrentNodeBurnRate s i) (saturating_sub percentage_factor_as_u128 (NodeBurnRateAlpha s i))))
      (MinNodeBurnRate s)) (MaxNodeBurnRate s)),
    NodeRegistrationsThisEpoch := (NodeRegistrationsThisEpoch s)(i := 0)\<rparr>"
  using assms by (simp add: update_burn_rate_for_epoch_def Let_def)

text \<open>
  The burn rate of a subnet follows its demand within its range. When the epoch's update runs, the
  new rate lies between the minimum and the maximum, whatever the parameters of the subnet and the
  rate before; the count of registrations starts again at zero; and had more nodes been registered in the
  epoch, the rate would not be lower.
\<close>

lemma burn_rate_follows_demand:
  assumes "MinNodeBurnRate s \<le> MaxNodeBurnRate s" and "can_consume W (db_reads_writes W 9 2) w"
    and "update_burn_rate_for_epoch W i w s = (s', w')"
  shows "MinNodeBurnRate s \<le> CurrentNodeBurnRate s' i \<and> CurrentNodeBurnRate s' i \<le> MaxNodeBurnRate s \<and>
    NodeRegistrationsThisEpoch s' i = 0 \<and>
    (\<forall>j. j \<noteq> i \<longrightarrow> CurrentNodeBurnRate s' j = CurrentNodeBurnRate s j) \<and>
    (\<forall>q \<ge> NodeRegistrationsThisEpoch s i. CurrentNodeBurnRate s' i \<le> CurrentNodeBurnRate
       (fst (update_burn_rate_for_epoch W i w (s\<lparr>NodeRegistrationsThisEpoch := (NodeRegistrationsThisEpoch s)(i := q)\<rparr>))) i)"
proof -
  have s': "s' = fst (update_burn_rate_for_epoch W i w s)" using assms(3) by simp
  have t: "calculate_target_burn_rate r t (s\<lparr>NodeRegistrationsThisEpoch := f\<rparr>) = calculate_target_burn_rate r t s" for r t f
    by (simp add: calculate_target_burn_rate_def)
  define rate where "rate q = min (max (saturating_add
      (percent_mul (calculate_target_burn_rate q (TargetNodeRegistrationsPerEpoch s i) s) (NodeBurnRateAlpha s i))
      (percent_mul (CurrentNodeBurnRate s i) (saturating_sub percentage_factor_as_u128 (NodeBurnRateAlpha s i))))
      (MinNodeBurnRate s)) (MaxNodeBurnRate s)" for q
  have "rate r \<le> rate q" if "r \<le> q" for r q
    unfolding rate_def
    by (intro min.mono max.mono saturating_add_mono2 percent_mul_mono target_burn_rate_mono assms(1) that order_refl)
  moreover have "CurrentNodeBurnRate s' i = rate (NodeRegistrationsThisEpoch s i)"
    by (simp add: s' burn_rate_update [OF assms(2)] rate_def)
  moreover have "CurrentNodeBurnRate
       (fst (update_burn_rate_for_epoch W i w (s\<lparr>NodeRegistrationsThisEpoch := (NodeRegistrationsThisEpoch s)(i := q)\<rparr>))) i
      = rate q" for q
    by (simp add: burn_rate_update [OF assms(2)] rate_def t)
  moreover have "MinNodeBurnRate s \<le> CurrentNodeBurnRate s' i \<and> CurrentNodeBurnRate s' i \<le> MaxNodeBurnRate s \<and>
    NodeRegistrationsThisEpoch s' i = 0 \<and> (\<forall>j. j \<noteq> i \<longrightarrow> CurrentNodeBurnRate s' j = CurrentNodeBurnRate s j)"
    using assms(1) unfolding s' burn_rate_update [OF assms(2)] by simp
  ultimately show ?thesis by simp
qed

text \<open>Applied: nobody registered, so the rate of subnet 5 falls from 1 to 0.91.\<close>

lemma burn_rate_follows_demand_example:
  "CurrentNodeBurnRate (fst (update_burn_rate_for_epoch example_meters 5 () example_rewards)) 5 = 91 * 10 ^ 16 \<and>
   MinNodeBurnRate example_rewards \<le>
     CurrentNodeBurnRate (fst (update_burn_rate_for_epoch example_meters 5 () example_rewards)) 5"
proof -
  have c: "MinNodeBurnRate example_rewards \<le> MaxNodeBurnRate example_rewards"
    "can_consume example_meters (db_reads_writes example_meters 9 2) ()"
    by (simp_all add: example_rewards_state example_meters_def)
  note u = burn_rate_follows_demand [OF c surjective_pairing, of 5]
  have "percent_mul (10 ^ 17) (10 ^ 17) = 10 ^ 16" "percent_mul (10 ^ 18) (9 * 10 ^ 17) = 9 * 10 ^ 17"
    by (simp_all add: word_unat_eq_iff unat_percent_mul)
  then have "CurrentNodeBurnRate (fst (update_burn_rate_for_epoch example_meters 5 () example_rewards)) 5 = 91 * 10 ^ 16"
    unfolding burn_rate_update [OF c(2)]
    by (simp add: example_rewards_state calculate_target_burn_rate_def saturating_add_def saturating_sub_def
        percentage_factor_as_u128_def)
  with u show ?thesis by blast
qed

section \<open>Updates of a queued node\<close>

text \<open>The queue writes the nodes it holds and leaves the indices alone.\<close>

lemma activate_writes_queued:
  assumes "do_activate_subnet_node W v i Active nd e True w s = (s', w', b)"
  shows "UniqueParamSubnetNodeId s' = UniqueParamSubnetNodeId s"
    and "SubnetNodesData s' (i, m) = Some a \<Longrightarrow>
      SubnetNodesData s (i, m) = Some a \<or> sn_id nd = m \<and> sn_unique a = sn_unique nd"
  using assms by (auto simp: do_activate_subnet_node_def Let_def split: if_splits)

lemma queue_loop_writes_queued:
  assumes "registration_queue_loop W i qe e xs k w s = (s', w', k')"
  shows "UniqueParamSubnetNodeId s' = UniqueParamSubnetNodeId s \<and>
    (SubnetNodesData s' (i, m) = Some a \<longrightarrow>
      SubnetNodesData s (i, m) = Some a \<or> (\<exists>nd \<in> set xs. sn_id nd = m \<and> sn_unique a = sn_unique nd))"
  using assms
proof (induction xs arbitrary: k w s)
  case (Cons nd xs)
  let ?w = "consume W (from_parts W 1500 0) w"
  obtain s1 w1 b where act: "do_activate_subnet_node W (sn_validator_id nd) i Active nd e True ?w s = (s1, w1, b)"
    by (rule prod_cases3)
  note writes = activate_writes_queued [OF act]
  from Cons.prems act have "s' = s \<or> s' = s1 \<or> registration_queue_loop W i qe e xs (k + 1) w1 s1 = (s', w', k')"
    by (auto simp: Let_def split: if_splits)
  then show ?case using writes Cons.IH [of "k + 1" w1 s1] by (elim disjE) fastforce+
qed simp

lemma queue_writes_queued:
  assumes "handle_registration_queue W i e w s = Some (s', w')"
  shows "UniqueParamSubnetNodeId s' = UniqueParamSubnetNodeId s \<and>
    (SubnetNodesData s' (i, m) = Some a \<longrightarrow> SubnetNodesData s (i, m) = Some a \<or>
      (\<exists>nd \<in> set (SubnetNodeQueue s i). sn_id nd = m \<and> sn_unique a = sn_unique nd))"
proof -
  let ?Q = "SubnetNodeQueue s i"
  have "s' = s \<or> (\<exists>n qe w1 s1 w2 k. registration_queue_loop W i qe e (take n ?Q) 0 w1 s = (s1, w2, k) \<and>
      UniqueParamSubnetNodeId s' = UniqueParamSubnetNodeId s1 \<and> SubnetNodesData s' = SubnetNodesData s1)"
    using assms by (auto simp: handle_registration_queue_def Let_def split: if_splits option.splits prod.splits) blast+
  then show ?thesis
  proof (elim disjE exE conjE)
    fix n qe w1 s1 w2 k
    assume "registration_queue_loop W i qe e (take n ?Q) 0 w1 s = (s1, w2, k)"
      and s': "UniqueParamSubnetNodeId s' = UniqueParamSubnetNodeId s1" "SubnetNodesData s' = SubnetNodesData s1"
    from queue_loop_writes_queued [OF this(1), of m a] show ?thesis unfolding s' by (auto dest: in_set_takeD)
  qed simp
qed

text \<open>
  C29: the unique parameter a queued node is given is lost when the node is activated. The queue holds
  the copy made at registration: after the update and the activation, the active node has the parameter
  it was registered with, which the index no longer knows, so that another node may take it, while the
  index leads to the node by a parameter it does not have.
\<close>

theorem queued_update_is_lost:
  assumes "nodes_ok s" and "RegisteredSubnetNodesData s (i, n) = Some nd" and "sn_unique nd = Some u" and "u \<noteq> v"
    and "update_node_unique origin i n (Some v) s = Some (s1, Inr ())"
    and "handle_registration_queue W i e w s1 = Some (s2, w')" and "SubnetNodesData s2 (i, n) = Some nd2"
  shows "sn_unique nd2 = Some u \<and> UniqueParamSubnetNodeId s2 (i, u) = None \<and>
    UniqueParamSubnetNodeId s2 (i, v) = Some n \<and> \<not> nodes_ok s2"
proof -
  have a: "SubnetNodesData s (i, n) = None" by (rule node_ids_disjoint(2) [OF assms(1,2)])
  have "node_queue_ok i s" using assms(1) by (simp add: nodes_ok_def)
  have q: "sn_unique x = Some u" if "x \<in> set (SubnetNodeQueue s i)" "sn_id x = n" for x
  proof -
    have "RegisteredSubnetNodesData s (i, n) = Some x" using that \<open>node_queue_ok i s\<close> by (simp add: node_queue_ok_def)
    with assms(2,3) show ?thesis by simp
  qed
  have s1: "SubnetNodesData s1 = SubnetNodesData s \<and> SubnetNodeQueue s1 = SubnetNodeQueue s \<and>
      UniqueParamSubnetNodeId s1 = (UniqueParamSubnetNodeId s)((i, u) := None, (i, v) \<mapsto> n)"
    using assms(5)
    by (auto simp: update_node_unique_def do_update_node_unique_def update_stored_node_def a assms(2,3)
        perform_update_node_unique_def remove_unique_def insert_unique_def Let_def split: sum.splits option.splits if_splits)
  have s2: "sn_unique nd2 = Some u" "UniqueParamSubnetNodeId s2 = UniqueParamSubnetNodeId s1"
    using queue_writes_queued [OF assms(6), of n nd2] assms(7) a s1 q by auto
  have "\<not> nodes_ok s2"
  proof
    assume "nodes_ok s2"
    then have "indexed (UniqueParamSubnetNodeId s2) i (node_keys unique_key i s2)"
      by (simp add: nodes_ok_def subnet_indexed_def)
    moreover have "u \<in> node_keys unique_key i s2 n" using assms(7) s2(1) by (simp add: node_keys_def node_at_def)
    ultimately have "UniqueParamSubnetNodeId s2 (i, u) = Some n" by (simp add: indexed_def)
    then show False using s1 s2(2) assms(4) by simp
  qed
  with s1 s2 assms(4) show ?thesis by simp
qed

text \<open>Applied: node 4 is registered with parameter [8], gets [9] while it waits, and is activated with [8].\<close>

definition example_updated :: "simple_balances network_rewards" where
  "example_updated = (case update_node_unique (Signed 1) 5 4 (Some [9]) example_registered of
     Some (s, _) \<Rightarrow> s | None \<Rightarrow> example_registered)"

definition example_activated :: "simple_balances network_rewards" where
  "example_activated = (case handle_registration_queue example_meters 5 20 () example_updated of
     Some (s, _) \<Rightarrow> s | None \<Rightarrow> example_updated)"

lemma example_registered_fields:
  "SubnetNodesData example_registered (5, 4) = None"
  "RegisteredSubnetNodesData example_registered (5, 4) = Some example_new_node"
  "SubnetNodeQueue example_registered 5 = [example_new_node]"
  "SubnetNodeValidatorId example_registered (5, 4) = Some 7" "ValidatorColdkey example_registered 7 = Some 1"
  "UniqueParamSubnetNodeId example_registered = [(5, [8]) \<mapsto> 4]" "TxPause example_registered = False"
  "ChurnLimitMultiplier example_registered 5 = 1" "ChurnLimit example_registered 5 = 4"
  "MaxSubnetNodes example_registered = 100" "TotalActiveSubnetNodes example_registered 5 = 1"
  "SubnetNodeQueueEpochs example_registered 5 = 0"
  by (simp_all add: example_registered_def enter_registration_def example_new_node_def Let_def insert_registration_def
      insert_validator_subnet_node_def example_paid_def example_rewards_state insert_peer_info_def insert_multiaddr_def
      insert_bootnode_peer_info_def insert_client_peer_info_def insert_unique_def record_registration_def
      increase_node_stake_def set_last_tx_block_def example_peer_def)

lemma example_registered_ok: "nodes_ok example_registered"
  by (rule nodes_ok_register [OF example_nodes_ok _ example_register_eq [unfolded example_register_def]])
    (simp add: example_rewards_state)

lemma example_updated_fields:
  "update_node_unique (Signed 1) 5 4 (Some [9]) example_registered = Some (example_updated, Inr ())"
  "SubnetNodeQueue example_updated 5 = [example_new_node]" "ChurnLimitMultiplier example_updated 5 = 1"
  "ChurnLimit example_updated 5 = 4" "MaxSubnetNodes example_updated = 100"
  "TotalActiveSubnetNodes example_updated 5 = 1" "SubnetNodeQueueEpochs example_updated 5 = 0"
proof -
  show eq: "update_node_unique (Signed 1) 5 4 (Some [9]) example_registered = Some (example_updated, Inr ())"
    by (simp add: example_updated_def update_node_unique_def ensure_node_coldkey_def ensure_signed_def is_paused_def
        get_subnet_node_associated_coldkey_def do_update_node_unique_def update_stored_node_def
        perform_update_node_unique_def remove_unique_def example_registered_fields example_new_node_def Let_def)
  show "SubnetNodeQueue example_updated 5 = [example_new_node]" "ChurnLimitMultiplier example_updated 5 = 1"
    "ChurnLimit example_updated 5 = 4" "MaxSubnetNodes example_updated = 100"
    "TotalActiveSubnetNodes example_updated 5 = 1" "SubnetNodeQueueEpochs example_updated 5 = 0"
    by (simp_all add: example_updated_def update_node_unique_def ensure_node_coldkey_def ensure_signed_def is_paused_def
        get_subnet_node_associated_coldkey_def do_update_node_unique_def update_stored_node_def insert_unique_def
        perform_update_node_unique_def remove_unique_def example_registered_fields example_new_node_def Let_def)
qed

lemma example_activated_fields:
  "handle_registration_queue example_meters 5 20 () example_updated = Some (example_activated, ())"
  "SubnetNodesData example_activated (5, 4) =
     Some (example_new_node\<lparr>sn_classification := \<lparr>node_class = Idle, class_start_epoch = 20\<rparr>\<rparr>)"
  by (simp_all add: example_activated_def handle_registration_queue_def example_meters_def example_updated_fields
      checked_rem_def saturating_sub_def do_activate_subnet_node_def example_new_node_def Let_def)

theorem queued_update_is_lost_witness:
  "(\<exists>a. SubnetNodesData example_activated (5, 4) = Some a \<and> sn_unique a = Some [8]) \<and>
   UniqueParamSubnetNodeId example_activated (5, [8]) = None \<and>
   UniqueParamSubnetNodeId example_activated (5, [9]) = Some 4"
  using queued_update_is_lost [OF example_registered_ok example_registered_fields(2) _ _ example_updated_fields(1)
      example_activated_fields, of "[8]"] example_activated_fields(2)
  by (simp add: example_new_node_def)

end
