(* ===== verification/Submission_Properties.thy ===== *)
theory Submission_Properties
  imports Complex_Main Consensus_Submission Registration_Properties
begin

text \<open>
  What the consensus of a subnet guarantees: submitted scores are canonical, a submission is final and
  only gains attestations, each validator attests once, and a slash is bounded and accounted for.
\<close>

section \<open>Canonical data\<close>

lemma btree_eqI:
  assumes "btree_ok m" and "btree_ok m'" and "map_of m = map_of m'"
  shows "m = m'"
proof -
  have m: "m = map (\<lambda>k. (k, the (map_of m k))) (map fst m)" if "btree_ok m" for m :: "('a, 'b) btree_map"
    using map_of_is_SomeI [OF btree_ok_distinct [OF that]] by (auto intro!: map_idI [symmetric])
  have "set (map fst m) = set (map fst m')"
    using arg_cong [OF assms(3), of dom] by (simp add: dom_map_of_conv_image_fst)
  then have "map fst m = map fst m'"
    using assms(1,2) by (intro strict_sorted_equal) (simp_all add: btree_ok_def)
  then show ?thesis using m [OF assms(1)] m [OF assms(2)] assms(3) by simp
qed

definition scores_of :: "SubnetNodeConsensusData list \<Rightarrow> u32 \<Rightarrow> u128 set" where
  "scores_of data n = cd_score ` {e \<in> set data. cd_subnet_node_id e = n}"

lemma scores_of_simps [simp]:
  "scores_of [] n = {}"
  "scores_of (e # data) n = (if cd_subnet_node_id e = n then insert (cd_score e) (scores_of data n) else scores_of data n)"
  by (auto simp: scores_of_def)

lemma scores_of_finite [simp]: "finite (scores_of data n)"
  by (simp add: scores_of_def)

text \<open>The lowest score of a node, if it has one.\<close>

definition lowest :: "u128 set \<Rightarrow> u128 option" where
  "lowest S = (if S = {} then None else Some (Min S))"

lemma lowest_scores_lookup:
  "btree_ok m \<Longrightarrow> btree_ok (lowest_scores data m) \<and>
   map_of (lowest_scores data m) n = lowest (set_option (map_of m n) \<union> scores_of data n)"
proof (induction data arbitrary: m)
  case Nil
  then show ?case by (cases "map_of m n") (simp_all add: lowest_def)
next
  case (Cons e data)
  let ?i = "cd_subnet_node_id e"
  let ?m = "case map_of m ?i of None \<Rightarrow> btree_insert ?i (cd_score e) m
    | Some sc \<Rightarrow> if cd_score e < sc then btree_insert ?i (cd_score e) m else m"
  have ok: "btree_ok ?m" using Cons.prems by (simp add: btree_ok_insert split: option.split)
  have at: "map_of ?m n = (if n = ?i then Some (case map_of m n of None \<Rightarrow> cd_score e | Some sc \<Rightarrow> min (cd_score e) sc)
      else map_of m n)"
    using Cons.prems by (auto simp: btree_get_insert min_def split: option.split)
  have "lowest (set_option (map_of ?m n) \<union> scores_of data n) = lowest (set_option (map_of m n) \<union> scores_of (e # data) n)"
    unfolding at by (cases "map_of m n"; cases "scores_of data n = {}") (auto simp: lowest_def ac_simps)
  then show ?case using Cons.IH [OF ok] by simp
qed

lemma push_scores_eq:
  "push_scores m acc w =
     (if unat w + btree_total m < 2 ^ 128
      then Inr (acc @ map (\<lambda>(n, sc). \<lparr>cd_subnet_node_id = n, cd_score = sc\<rparr>) m, of_nat (unat w + btree_total m))
      else Inl ScoreOverflow)"
proof (induction m arbitrary: acc w)
  case Nil
  show ?case using unat_lt_exp [of w] by simp
next
  case (Cons e m)
  obtain n sc where e: "e = (n, sc)" by fastforce
  show ?case
  proof (cases "unat w + unat sc < 2 ^ 128")
    case True
    then have "unat (w + sc) = unat w + unat sc" by (subst unat_add_lem [THEN iffD1]) simp_all
    with True show ?thesis using Cons.IH [of _ "w + sc"] by (simp add: e checked_add_def add.assoc)
  next
    case False
    then show ?thesis by (simp add: e checked_add_def)
  qed
qed

text \<open>The specification: every node that has a score, in order, with its lowest.\<close>

definition canonical_spec :: "SubnetNodeConsensusData list \<Rightarrow> Error + SubnetNodeConsensusData list \<times> u128" where
  "canonical_spec data =
     (let ids = sorted_list_of_set (cd_subnet_node_id ` set data);
          out = map (\<lambda>n. \<lparr>cd_subnet_node_id = n, cd_score = Min (scores_of data n)\<rparr>) ids;
          sum = (\<Sum>e\<leftarrow>out. unat (cd_score e))
      in if sum < 2 ^ 128 then Inr (out, of_nat sum) else Inl ScoreOverflow)"

lemma lowest_scores_eq:
  "lowest_scores data [] = map (\<lambda>n. (n, Min (scores_of data n))) (sorted_list_of_set (cd_subnet_node_id ` set data))"
    (is "_ = map ?f ?ids")
proof (rule btree_eqI)
  show "btree_ok (lowest_scores data [])" using lowest_scores_lookup [of "[]"] by simp
  show "btree_ok (map ?f ?ids)" by (simp add: btree_ok_def comp_def)
  have "map_of (map ?f ?ids) n = lowest (scores_of data n)" for n
    by (auto simp: map_of_map_restrict restrict_map_def lowest_def scores_of_def)
  then show "map_of (lowest_scores data []) = map_of (map ?f ?ids)"
    using lowest_scores_lookup [of "[]" data] by (simp add: fun_eq_iff)
qed

text \<open>
  C11: the loops that make submitted scores canonical compute the specification, for every list of
  entries: each node that has an entry appears once, in increasing order, with the lowest score anyone
  submitted for it, beside the exact sum; the submission is refused if and only if that sum does not
  fit. In particular the result does not depend on the order or the repetition of the entries.
\<close>

theorem consensus_data_canonical: "canonicalize_consensus_data_entries data = canonical_spec data"
  by (simp add: canonicalize_consensus_data_entries_def lowest_scores_eq push_scores_eq canonical_spec_def Let_def
      btree_total_def comp_def)

section \<open>Submissions and attestations\<close>

text \<open>A well-formed submission: ordered lists, attestations of its validators only, factors of at most one.\<close>

definition submission_ok :: "ConsensusData \<Rightarrow> bool" where
  "submission_ok c \<longleftrightarrow>
     sorted_wrt (<) (cs_validator_ids c) \<and> sorted_wrt (<) (map cd_subnet_node_id (cs_data c)) \<and>
     btree_ok (cs_attests c) \<and> cs_validator_id c \<in> fst ` set (cs_attests c) \<and>
     fst ` set (cs_attests c) \<subseteq> insert (cs_validator_id c) (set (cs_validator_ids c)) \<and>
     (\<forall>e \<in> snd ` set (cs_attests c). at_reward_factor e \<le> percentage_factor_as_u128) \<and>
     cs_validator_reward_factor c \<le> percentage_factor_as_u128"

definition submissions_ok :: "('c, 'm) network_rewards_scheme \<Rightarrow> bool" where
  "submissions_ok s \<longleftrightarrow> (\<forall>k c. SubnetConsensusSubmission s k = Some c \<longrightarrow> submission_ok c)"

text \<open>The two calls by any origin, and everything else, which does not write submissions.\<close>

inductive consensus_step ::
  "('f, 'x) F64Curves_scheme \<Rightarrow> 'c Config \<Rightarrow> ('c, 'm) network_rewards_scheme \<Rightarrow> ('c, 'm) network_rewards_scheme \<Rightarrow> bool"
  for F cfg
where
  Propose: "propose_attestation F cfg origin i n data pr rm args ad s = Some (s', r) \<Longrightarrow> consensus_step F cfg s s'"
| Attest: "attest F cfg origin i n data s = Some (s', r) \<Longrightarrow> consensus_step F cfg s s'"
| Other: "SubnetConsensusSubmission s' = SubnetConsensusSubmission s \<Longrightarrow> consensus_step F cfg s s'"

lemma reward_multiplier_le_one:
  "get_validator_reward_multiplier F p s = Some f \<Longrightarrow> f \<le> percentage_factor_as_u128"
  "get_attestor_reward_multiplier F p s = Some f \<Longrightarrow> f \<le> percentage_factor_as_u128"
  by (auto simp: get_validator_reward_multiplier_def get_attestor_reward_multiplier_def)

lemma canonical_validators_sorted: "sorted_wrt (<) (canonicalize_consensus_validator_ids ids)"
proof -
  have "sorted xs \<Longrightarrow> sorted_wrt (<) (remdups_adj xs)" for xs :: "u32 list"
    by (induction xs rule: remdups_adj.induct) auto
  then show ?thesis by (simp add: canonicalize_consensus_validator_ids_def)
qed

lemma canonical_data_sorted:
  "canonicalize_consensus_data_for_submission i e data s = Inr (out, w) \<Longrightarrow> sorted_wrt (<) (map cd_subnet_node_id out)"
  by (auto simp: canonicalize_consensus_data_for_submission_def canonicalize_consensus_data_entries_def
      lowest_scores_eq push_scores_eq comp_def split: if_splits)

lemma epoch_of_data:
  "get_current_subnet_epoch_data cfg i s = Some (Some d) \<Longrightarrow> get_current_subnet_epoch_as_u32 cfg i s = Some (subnet_epoch d)"
  by (auto simp: get_current_subnet_epoch_data_def get_current_subnet_epoch_as_u32_def Let_def
      split: if_splits option.splits)

lemma canonical_data_entries:
  assumes "canonicalize_consensus_data_for_submission i e data s = Inr (out, w)" and "x \<in> set out"
  shows "\<exists>nd. SubnetNodesData s (i, cd_subnet_node_id x) = Some nd \<and> has_classification nd Included e \<and>
    cd_score x = Min (scores_of data (cd_subnet_node_id x))"
proof -
  let ?P = "\<lambda>n. case SubnetNodesData s (i, n) of None \<Rightarrow> False | Some nd \<Rightarrow> has_classification nd Included e"
  let ?data = "filter (\<lambda>y. ?P (cd_subnet_node_id y)) data"
  have S: "?P n \<Longrightarrow> scores_of ?data n = scores_of data n" for n
    unfolding scores_of_def by (intro image_cong) auto
  from assms have "?P (cd_subnet_node_id x) \<and> cd_score x = Min (scores_of ?data (cd_subnet_node_id x))"
    by (auto simp: canonicalize_consensus_data_for_submission_def canonicalize_consensus_data_entries_def
        lowest_scores_eq push_scores_eq split: if_splits)
  then show ?thesis using S by (auto split: option.splits)
qed

lemma propose_success:
  assumes "propose_attestation F cfg origin i n data pr rm args ad s = Some (s', Inr ())"
  obtains who ed d w f where "origin = Signed who" and "get_subnet_node_associated_hotkey i n s = Inr who"
    and "get_current_subnet_epoch_data cfg i s = Some (Some ed)"
    and "SubnetElectedValidator s (i, subnet_epoch ed) = Some n"
    and "SubnetConsensusSubmission s (i, subnet_epoch ed) = None"
    and "canonicalize_consensus_data_for_submission i (subnet_epoch ed) data s = Inr (d, w)"
    and "get_validator_reward_multiplier F (subnet_epoch_progression ed) s = Some f"
    and "s' = s\<lparr>SubnetConsensusSubmission := (SubnetConsensusSubmission s)((i, subnet_epoch ed) \<mapsto>
      new_submission i ed n d pr rm args ad f s)\<rparr>"
  using assms
  by (auto simp: propose_attestation_def do_propose_attestation_def Let_def ensure_signed_Inr
      split: sum.splits option.splits if_splits prod.splits)

lemma propose_failure:
  "propose_attestation F cfg origin i n data pr rm args ad s = Some (s', Inl e) \<Longrightarrow> s' = s"
  by (auto simp: propose_attestation_def do_propose_attestation_def Let_def
      split: sum.splits option.splits if_splits prod.splits)

lemma new_submission_ok:
  assumes "canonicalize_consensus_data_for_submission i (subnet_epoch ed) data s = Inr (d, w)"
    and "get_validator_reward_multiplier F (subnet_epoch_progression ed) s = Some f"
  shows "submission_ok (new_submission i ed n d pr rm args ad f s)"
  using canonical_data_sorted [OF assms(1)] reward_multiplier_le_one(1) [OF assms(2)]
  by (simp add: submission_ok_def new_submission_def Let_def consensus_validators_def canonical_validators_sorted
      btree_ok_Cons)

lemma insert_attestation_success:
  assumes "insert_attestation F cfg i n data c s = Some (Inr c')"
  obtains v where "c' = c\<lparr>cs_attests := btree_insert n v (cs_attests c)\<rparr>" and "n \<in> set (cs_validator_ids c)"
    and "map_of (cs_attests c) n = None" and "at_block v = block_number s" and "at_data v = data"
    and "at_reward_factor v \<le> percentage_factor_as_u128"
  using assms reward_multiplier_le_one(2) [of F _ s]
  by (auto simp: insert_attestation_def Let_def get_current_block_as_u32_def split: if_splits option.splits)

lemma attest_writes:
  assumes "attest F cfg origin i n data s = Some (s', r)" and "s' \<noteq> s"
  obtains e c c' where "s' = s\<lparr>SubnetConsensusSubmission := (SubnetConsensusSubmission s)((i, e) \<mapsto> c')\<rparr>"
    and "SubnetConsensusSubmission s (i, e) = Some c" and "insert_attestation F cfg i n data c s = Some (Inr c')"
    and "get_current_subnet_epoch_as_u32 cfg i s = Some e" and "r = Inr ()"
  using assms
  by (auto simp: attest_def do_attest_def split: sum.splits option.splits if_splits)

lemma submission_ok_insert:
  assumes "submission_ok c" and "n \<in> set (cs_validator_ids c)" and "at_reward_factor v \<le> percentage_factor_as_u128"
  shows "submission_ok (c\<lparr>cs_attests := btree_insert n v (cs_attests c)\<rparr>)"
proof -
  have V: "x \<in> set (btree_insert n v m) \<Longrightarrow> snd x = v \<or> x \<in> set m" for x and m :: "(u32, AttestEntry) btree_map"
    by (induction n v m rule: btree_insert.induct) (auto split: if_splits)
  have "\<forall>x \<in> set (btree_insert n v (cs_attests c)). at_reward_factor (snd x) \<le> percentage_factor_as_u128"
  proof
    fix x assume "x \<in> set (btree_insert n v (cs_attests c))"
    with V [OF this] assms(1,3) show "at_reward_factor (snd x) \<le> percentage_factor_as_u128"
      by (auto simp: submission_ok_def)
  qed
  then show ?thesis using assms(1,2) by (simp add: submission_ok_def btree_ok_insert btree_insert_keys)
qed

text \<open>One submission over time: it stays, and its attestations grow.\<close>

definition extends_submission :: "ConsensusData \<Rightarrow> ConsensusData \<Rightarrow> bool" where
  "extends_submission c c' \<longleftrightarrow> (\<exists>a. c' = c\<lparr>cs_attests := a\<rparr> \<and> map_of (cs_attests c) \<subseteq>\<^sub>m map_of a)"

lemma extends_refl: "extends_submission c c"
  by (auto simp: extends_submission_def intro!: exI [of _ "cs_attests c"])

lemma extends_trans:
  assumes "extends_submission a b" and "extends_submission b c"
  shows "extends_submission a c"
proof -
  from assms obtain x y where "b = a\<lparr>cs_attests := x\<rparr>" "map_of (cs_attests a) \<subseteq>\<^sub>m map_of x"
    "c = b\<lparr>cs_attests := y\<rparr>" "map_of (cs_attests b) \<subseteq>\<^sub>m map_of y"
    by (auto simp: extends_submission_def)
  then have "c = a\<lparr>cs_attests := y\<rparr>" "map_of (cs_attests a) \<subseteq>\<^sub>m map_of y"
    using map_le_trans [of "map_of (cs_attests a)" "map_of x" "map_of y"] by simp_all
  then show ?thesis unfolding extends_submission_def by blast
qed

lemma submission_update:
  assumes "submissions_ok s" and "submission_ok c'"
    and "\<And>c. SubnetConsensusSubmission s k = Some c \<Longrightarrow> extends_submission c c'"
    and "s' = s\<lparr>SubnetConsensusSubmission := (SubnetConsensusSubmission s)(k \<mapsto> c')\<rparr>"
  shows "submissions_ok s' \<and> (\<forall>k c. SubnetConsensusSubmission s k = Some c \<longrightarrow>
    (\<exists>c'. SubnetConsensusSubmission s' k = Some c' \<and> extends_submission c c'))"
  using assms(1-3) unfolding assms(4) by (auto simp: submissions_ok_def extends_refl)

lemma consensus_step_extends:
  assumes "consensus_step F cfg s s'" and "submissions_ok s"
  shows "submissions_ok s' \<and> (\<forall>k c. SubnetConsensusSubmission s k = Some c \<longrightarrow>
    (\<exists>c'. SubnetConsensusSubmission s' k = Some c' \<and> extends_submission c c'))"
  using assms
proof (induction rule: consensus_step.induct)
  case (Propose origin i n data pr rm args ad s s' r)
  show ?case
  proof (cases r)
    case (Inl e)
    then have "s' = s" using Propose.hyps propose_failure by blast
    then show ?thesis using Propose.prems extends_refl by auto
  next
    case (Inr x)
    then have "propose_attestation F cfg origin i n data pr rm args ad s = Some (s', Inr ())"
      using Propose.hyps by simp
    then obtain who ed d w f where "origin = Signed who" "get_subnet_node_associated_hotkey i n s = Inr who"
        "get_current_subnet_epoch_data cfg i s = Some (Some ed)"
        "SubnetElectedValidator s (i, subnet_epoch ed) = Some n"
      and none: "SubnetConsensusSubmission s (i, subnet_epoch ed) = None"
      and c: "canonicalize_consensus_data_for_submission i (subnet_epoch ed) data s = Inr (d, w)"
        "get_validator_reward_multiplier F (subnet_epoch_progression ed) s = Some f"
      and s': "s' = s\<lparr>SubnetConsensusSubmission := (SubnetConsensusSubmission s)((i, subnet_epoch ed) \<mapsto>
        new_submission i ed n d pr rm args ad f s)\<rparr>"
      by (rule propose_success)
    show ?thesis by (rule submission_update [OF Propose.prems new_submission_ok [OF c] _ s']) (simp add: none)
  qed
next
  case (Attest origin i n data s s' r)
  show ?case
  proof (cases "s' = s")
    case False
    obtain e c c' where w: "s' = s\<lparr>SubnetConsensusSubmission := (SubnetConsensusSubmission s)((i, e) \<mapsto> c')\<rparr>"
        "SubnetConsensusSubmission s (i, e) = Some c" "insert_attestation F cfg i n data c s = Some (Inr c')"
        "get_current_subnet_epoch_as_u32 cfg i s = Some e" "r = Inr ()"
      by (rule attest_writes [OF Attest.hyps False])
    from insert_attestation_success [OF w(3)] obtain v where
      c': "c' = c\<lparr>cs_attests := btree_insert n v (cs_attests c)\<rparr>" "n \<in> set (cs_validator_ids c)"
        "map_of (cs_attests c) n = None" "at_reward_factor v \<le> percentage_factor_as_u128" by blast
    have c: "submission_ok c" using Attest.prems w(2) by (simp add: submissions_ok_def)
    then have "btree_ok (cs_attests c)" by (simp add: submission_ok_def)
    then have "extends_submission c c'"
      using c'(3) unfolding extends_submission_def c'(1)
      by (intro exI [of _ "btree_insert n v (cs_attests c)"]) (auto simp: btree_get_insert map_le_def)
    moreover have "submission_ok c'" unfolding c'(1) by (rule submission_ok_insert [OF c c'(2,4)])
    ultimately show ?thesis using w(2) by (intro submission_update [OF Attest.prems _ _ w(1)]) simp_all
  qed (use Attest.prems extends_refl in auto)
qed (auto simp: submissions_ok_def extends_refl)

lemma consensus_run_extends:
  assumes "(consensus_step F cfg)\<^sup>*\<^sup>* s s'" and "submissions_ok s" and "SubnetConsensusSubmission s k = Some c"
  shows "submissions_ok s' \<and> (\<exists>c'. SubnetConsensusSubmission s' k = Some c' \<and> extends_submission c c')"
  using assms
proof (induction rule: rtranclp_induct)
  case (step s1 s2)
  then obtain c1 where "submissions_ok s1" "SubnetConsensusSubmission s1 k = Some c1" "extends_submission c c1" by blast
  with consensus_step_extends [OF step.hyps(2)] show ?case by (blast intro: extends_trans)
qed (auto simp: extends_refl)

text \<open>
  C10: a submission is final. Once a subnet's epoch has one, no sequence of calls replaces or changes
  it: the node that submitted, its scores, the validators, the nodes to reward stay as they are. It
  only gains attestations; one that was made never changes, only validators of the submission attest,
  and every reward factor is at most one.
\<close>

theorem submission_is_final:
  assumes "submissions_ok s" and "SubnetConsensusSubmission s (i, e) = Some c" and "(consensus_step F cfg)\<^sup>*\<^sup>* s s'"
  shows "\<exists>a. SubnetConsensusSubmission s' (i, e) = Some (c\<lparr>cs_attests := a\<rparr>) \<and>
    map_of (cs_attests c) \<subseteq>\<^sub>m map_of a \<and> distinct (map fst a) \<and>
    fst ` set a \<subseteq> insert (cs_validator_id c) (set (cs_validator_ids c)) \<and>
    (\<forall>v \<in> snd ` set a. at_reward_factor v \<le> percentage_factor_as_u128)"
proof -
  from consensus_run_extends [OF assms(3,1,2)] obtain c' where ok: "submissions_ok s'"
    and c': "SubnetConsensusSubmission s' (i, e) = Some c'" "extends_submission c c'" by blast
  then obtain a where a: "c' = c\<lparr>cs_attests := a\<rparr>" "map_of (cs_attests c) \<subseteq>\<^sub>m map_of a"
    by (auto simp: extends_submission_def)
  have "submission_ok (c\<lparr>cs_attests := a\<rparr>)" using ok c'(1) unfolding submissions_ok_def a(1) by blast
  then show ?thesis
    using c'(1) a by (intro exI [of _ a]) (simp add: submission_ok_def btree_ok_distinct)
qed

section \<open>A concrete epoch\<close>

text \<open>Node 3 of subnet 5 is elected for epoch 9, node 6 (hotkey 12) is the other validator; a simple arithmetic unit.\<close>

definition example_curves :: "rat F64Curves" where
  "example_curves = \<lparr>f64_of_u128 = (\<lambda>x. of_nat (unat x)), f64_as_u128 = (\<lambda>x. of_int \<lfloor>x\<rfloor>),
     f64_add = (+), f64_mul = (*), f64_div = (/), f64_1e18 = 10 ^ 18, libm_pow = (\<lambda>x y. x),
     f64_of_u64 = (\<lambda>x. of_nat (unat x)), f64_sub = (-), f64_abs = abs, f64_less = (<), f64_le = (\<le>),
     f64_clamp = (\<lambda>x lo hi. if lo \<le> hi then Some (max lo (min x hi)) else None),
     f64_zero = 0, f64_one = 1, libm_exp = (\<lambda>x. 1 + x)\<rparr>"

definition example_elected :: "simple_balances network_rewards" where
  "example_elected = example_rewards\<lparr>SubnetElectedValidator := [(5, 9) \<mapsto> 3],
     SubnetNodesData := [(5, 3) \<mapsto> example_node, (5, 6) \<mapsto> example_node\<lparr>sn_id := 6\<rparr>],
     SubnetNodeIdHotkey := [(5, 3) \<mapsto> 11, (5, 6) \<mapsto> 12], SubnetNodeElectionSlots := (\<lambda>_. [])(5 := [6, 3])\<rparr>"

definition example_scores :: "SubnetNodeConsensusData list" where
  "example_scores = [\<lparr>cd_subnet_node_id = 6, cd_score = 30\<rparr>, \<lparr>cd_subnet_node_id = 3, cd_score = 10\<rparr>,
     \<lparr>cd_subnet_node_id = 6, cd_score = 20\<rparr>, \<lparr>cd_subnet_node_id = 8, cd_score = 5\<rparr>]"

definition example_submission :: ConsensusData where
  "example_submission =
     \<lparr>cs_validator_id = 3, cs_block = 1000, cs_validator_epoch_progress = 75 * 10 ^ 16,
      cs_validator_reward_factor = min (get_f64_as_percentage example_curves (2 / 9)) percentage_factor_as_u128,
      cs_validator_ids = [3, 6],
      cs_attests = [(3, \<lparr>at_block = 1000, attestor_progress = 0, at_reward_factor = percentage_factor_as_u128,
        at_data = None\<rparr>)],
      cs_subnet_nodes = get_active_classified_subnet_nodes 5 Idle 9 example_elected,
      cs_prioritize_queue_node_id = None, cs_remove_queue_node_id = None,
      cs_data = [\<lparr>cd_subnet_node_id = 3, cd_score = 10\<rparr>, \<lparr>cd_subnet_node_id = 6, cd_score = 20\<rparr>], cs_args = None\<rparr>"

definition example_proposed :: "simple_balances network_rewards" where
  "example_proposed = example_elected\<lparr>SubnetConsensusSubmission := [(5, 9) \<mapsto> example_submission]\<rparr>"

lemmas example_elected_state = example_elected_def example_rewards_state example_config_def

lemma example_epoch_data:
  "get_current_subnet_epoch_data example_config 5 example_elected =
     Some (Some \<lparr>subnet_epoch = 9, subnet_epoch_progression = 75 * 10 ^ 16\<rparr>)"
proof -
  have "percent_div 75 100 = 75 * 10 ^ 16" by (simp add: word_unat_eq_iff unat_percent_div)
  then show ?thesis
    by (simp add: get_current_subnet_epoch_data_def subnet_slot_or_zero_def get_current_block_as_u32_def
        saturating_sub_def saturating_div_def checked_rem_def example_elected_state Let_def)
qed

lemma example_canonical:
  "canonicalize_consensus_data_for_submission 5 9 example_scores example_elected = Inr (cs_data example_submission, 30)"
  by (simp add: canonicalize_consensus_data_for_submission_def canonicalize_consensus_data_entries_def checked_add_def
      example_scores_def example_submission_def example_elected_state example_node_def has_classification_def
      less_eq_SubnetNodeClass_def)

lemma example_factor:
  "get_validator_reward_multiplier example_curves (75 * 10 ^ 16) example_elected =
     Some (cs_validator_reward_factor example_submission)"
  by (simp add: get_validator_reward_multiplier_def sigmoid_decreasing_def example_curves_def get_percent_as_f64_def
      example_submission_def example_elected_state percentage_factor_as_u128_def get_f64_as_percentage_def)

lemma example_propose:
  "propose_attestation example_curves example_config (Signed 11) 5 3 example_scores None None None None example_elected =
     Some (example_proposed, Inr ())"
proof -
  have "consensus_validators 5 example_elected = [3, 6]" "SubnetConsensusSubmission example_elected = (\<lambda>_. None)"
    "SubnetElectedValidator example_elected (5, 9) = Some 3" "TxPause example_elected = False"
    "get_subnet_node_associated_hotkey 5 3 example_elected = Inr 11" "block_number example_elected = 1000"
    by (simp_all add: consensus_validators_def canonicalize_consensus_validator_ids_def
        get_subnet_node_associated_hotkey_def example_elected_state)
  then show ?thesis
    by (simp add: propose_attestation_def do_propose_attestation_def ensure_signed_def is_paused_def example_epoch_data
        example_canonical example_factor [simplified] new_submission_def qualify_queue_nodes_def
        get_current_block_as_u32_def Let_def example_proposed_def)
      (simp add: example_submission_def)
qed

lemma example_submissions_ok: "submissions_ok example_elected" "submissions_ok example_proposed"
proof -
  show ok: "submissions_ok example_elected" by (simp add: submissions_ok_def example_elected_state)
  show "submissions_ok example_proposed"
    using consensus_step_extends [OF consensus_step.Propose [OF example_propose] ok] by blast
qed

definition example_attested :: "simple_balances network_rewards" where
  "example_attested = fst (the (attest example_curves example_config (Signed 12) 5 6 None example_proposed))"

lemma example_attest:
  "attest example_curves example_config (Signed 12) 5 6 None example_proposed = Some (example_attested, Inr ())"
  "\<exists>v. SubnetConsensusSubmission example_attested (5, 9) =
     Some (example_submission\<lparr>cs_attests := cs_attests example_submission @ [(6, v)]\<rparr>)"
proof -
  have f: "get_current_subnet_epoch_as_u32 example_config 5 example_proposed = Some 9" "TxPause example_proposed = False"
    "get_subnet_node_associated_hotkey 5 6 example_proposed = Inr 12"
    "attestor_subnet_epoch_data example_config 5 1000 example_proposed =
       Some (Some \<lparr>subnet_epoch = 9, subnet_epoch_progression = 0\<rparr>)"
    "SubnetNodesData example_proposed (5, 6) = Some (example_node\<lparr>sn_id := 6\<rparr>)"
    "SubnetConsensusSubmission example_proposed (5, 9) = Some example_submission"
    "AttestorMinRewardFactor example_proposed = 10 ^ 17" "AttestorRewardExponent example_proposed = 2"
    by (simp_all add: get_current_subnet_epoch_as_u32_def get_subnet_node_associated_hotkey_def
        attestor_subnet_epoch_data_def subnet_slot_or_zero_def get_current_block_as_u32_def saturating_sub_def
        saturating_div_def checked_rem_def example_elected_state example_proposed_def percent_div_def Let_def)
  have m: "get_attestor_reward_multiplier example_curves 0 example_proposed \<noteq> None"
    by (simp add: get_attestor_reward_multiplier_def concave_down_decreasing_def example_curves_def f
        get_percent_as_f64_def percentage_factor_as_u128_def)
  then have a: "attest example_curves example_config (Signed 12) 5 6 None example_proposed = Some (example_attested, Inr ())
    \<and> (\<exists>v. SubnetConsensusSubmission example_attested (5, 9) =
     Some (example_submission\<lparr>cs_attests := btree_insert 6 v (cs_attests example_submission)\<rparr>))"
    by (auto simp: example_attested_def attest_def do_attest_def ensure_signed_def is_paused_def f insert_attestation_def
        example_submission_def Let_def has_classification_def example_node_def)
  then show "attest example_curves example_config (Signed 12) 5 6 None example_proposed = Some (example_attested, Inr ())"
    by blast
  show "\<exists>v. SubnetConsensusSubmission example_attested (5, 9) =
     Some (example_submission\<lparr>cs_attests := cs_attests example_submission @ [(6, v)]\<rparr>)"
    using a by (auto simp: example_submission_def)
qed

text \<open>Applied: after node 3's submission, node 6 attests.\<close>

theorem submission_is_final_witness:
  "\<exists>a. SubnetConsensusSubmission example_attested (5, 9) = Some (example_submission\<lparr>cs_attests := a\<rparr>) \<and>
     map_of (cs_attests example_submission) \<subseteq>\<^sub>m map_of a \<and> fst ` set a \<subseteq> {3, 6}"
proof -
  have "SubnetConsensusSubmission example_proposed (5, 9) = Some example_submission"
    by (simp add: example_proposed_def)
  from submission_is_final [OF example_submissions_ok(2) this
      r_into_rtranclp [of "consensus_step example_curves example_config", OF consensus_step.Attest [OF example_attest(1)]]]
  show ?thesis by (auto simp: example_submission_def)
qed

text \<open>
  C12: a submission is accepted from the elected node only. If the call succeeds, it was signed by the
  hotkey of the node, the node is the one elected for the subnet's current epoch, and the epoch had no
  submission; what is stored are the canonical scores of nodes that are at least included in this
  epoch, with the node's own attestation, and nothing else changes.
\<close>

theorem only_the_elected_node_submits:
  assumes "propose_attestation F cfg origin i n data pr rm args ad s = Some (s', Inr ())"
  shows "\<exists>who e c. origin = Signed who \<and> get_subnet_node_associated_hotkey i n s = Inr who \<and>
    get_current_subnet_epoch_as_u32 cfg i s = Some e \<and> SubnetElectedValidator s (i, e) = Some n \<and>
    SubnetConsensusSubmission s (i, e) = None \<and>
    s' = s\<lparr>SubnetConsensusSubmission := (SubnetConsensusSubmission s)((i, e) \<mapsto> c)\<rparr> \<and>
    cs_validator_id c = n \<and> map fst (cs_attests c) = [n] \<and>
    (\<forall>x \<in> set (cs_data c). \<exists>nd. SubnetNodesData s (i, cd_subnet_node_id x) = Some nd \<and>
       has_classification nd Included e \<and> cd_score x = Min (scores_of data (cd_subnet_node_id x)))"
proof -
  from assms obtain who ed d w f where o: "origin = Signed who" "get_subnet_node_associated_hotkey i n s = Inr who"
    and ed: "get_current_subnet_epoch_data cfg i s = Some (Some ed)"
    and e: "SubnetElectedValidator s (i, subnet_epoch ed) = Some n"
      "SubnetConsensusSubmission s (i, subnet_epoch ed) = None"
    and d: "canonicalize_consensus_data_for_submission i (subnet_epoch ed) data s = Inr (d, w)"
    and f: "get_validator_reward_multiplier F (subnet_epoch_progression ed) s = Some f"
    and s': "s' = s\<lparr>SubnetConsensusSubmission := (SubnetConsensusSubmission s)((i, subnet_epoch ed) \<mapsto>
      new_submission i ed n d pr rm args ad f s)\<rparr>"
    by (rule propose_success)
  show ?thesis
    using o e s' epoch_of_data [OF ed] canonical_data_entries [OF d]
    by (intro exI [of _ who] exI [of _ "subnet_epoch ed"] exI [of _ "new_submission i ed n d pr rm args ad f s"])
      (simp add: new_submission_def Let_def)
qed

text \<open>Applied: the submission of node 3.\<close>

theorem only_the_elected_node_submits_witness:
  "\<exists>c. example_proposed = example_elected\<lparr>SubnetConsensusSubmission := [(5, 9) \<mapsto> c]\<rparr> \<and>
     map fst (cs_attests c) = [3] \<and> SubnetElectedValidator example_elected (5, 9) = Some 3"
proof -
  have "SubnetConsensusSubmission example_elected = (\<lambda>_. None)"
    "get_current_subnet_epoch_as_u32 example_config 5 example_elected = Some 9"
    using epoch_of_data [OF example_epoch_data] by (simp_all add: example_elected_state)
  with only_the_elected_node_submits [OF example_propose] show ?thesis by auto
qed

section \<open>Slashing\<close>

lemma books_reputations [book_frames]:
  "books (fst (decrease_and_return_node_reputation i n r f g s)) = books s"
  "books (fst (increase_and_return_node_reputation F i n r f g s)) = books s"
  "books (decrease_validator_reputation v a m f e s) = books s"
  "books (increase_validator_reputation F v a m f e s) = books s"
  "books (decrease_subnet_reputation i f h s) = books s"
  "books (increase_subnet_reputation F i f b s) = books s"
  by (simp_all add: decrease_and_return_node_reputation_def increase_and_return_node_reputation_def
      decrease_validator_reputation_def increase_validator_reputation_def decrease_subnet_reputation_def
      increase_subnet_reputation_def Let_def book_frames split: option.split)

lemma books_slash [book_frames]:
  "books (fst (decrease_slashed_node i n f d s)) = books s"
  "books (fst (decrease_slashed_validator i n a m f e s)) = books s"
  by (simp_all add: decrease_slashed_node_def decrease_slashed_validator_def split_def Let_def book_frames
      split: option.split)

lemma slash_amount_bound:
  assumes "BaseSlashPercentage s \<le> percentage_factor_as_u128" and "d \<le> percentage_factor_as_u128"
  shows "get_slash_amount x a m d s \<le> MaxSlashAmount s"
    and "get_slash_amount x a m d s \<le> percent_mul x (BaseSlashPercentage s)"
    and "get_slash_amount x a m d s \<le> x"
proof -
  have b: "percent_mul (percent_mul x (BaseSlashPercentage s)) d \<le> percent_mul x (BaseSlashPercentage s)"
    by (rule percent_mul_le [OF assms(2)])
  show "get_slash_amount x a m d s \<le> MaxSlashAmount s" by (simp add: get_slash_amount_def Let_def not_less)
  show le: "get_slash_amount x a m d s \<le> percent_mul x (BaseSlashPercentage s)"
    using b by (auto simp: get_slash_amount_def Let_def)
  show "get_slash_amount x a m d s \<le> x" using le percent_mul_le [OF assms(1), of x] by (rule order_trans)
qed

lemma slash_books:
  "books (fst (slash_validator W i n a m f mr en ep g s)) =
     books (if m \<le> a then s
            else decrease_node_stake n i (get_slash_amount (NodeSubnetStake s (n, i)) a m
              (saturating_sub percentage_factor_as_u128 (percent_div a m)) s) s)"
proof -
  have zero: "books (decrease_node_stake n i 0 s) = books s" by (simp add: books_def decrease_node_stake_def)
  show ?thesis
    by (simp add: slash_validator_def Let_def split_def book_frames zero word_gt_0 split: option.split)
qed

text \<open>
  C13: a slash takes what it may and no more. A submission that reached the minimum attestation costs
  nothing. Otherwise the stake of the submitting node falls by an amount of at most the base percentage
  of the stake and at most the maximal slash; no other stake changes, every book still agrees with its
  total, and the value of the network falls by the amount.
\<close>

theorem slash_is_bounded:
  assumes "network_ok cfg ok s" and "BaseSlashPercentage s \<le> percentage_factor_as_u128"
    and "slash_validator W i n a m f mr en ep g s = (s', k)"
  shows "\<exists>x. NodeSubnetStake s' = (NodeSubnetStake s)((n, i) := NodeSubnetStake s (n, i) - x) \<and>
    x \<le> percent_mul (NodeSubnetStake s (n, i)) (BaseSlashPercentage s) \<and>
    percent_mul (NodeSubnetStake s (n, i)) (BaseSlashPercentage s) \<le> NodeSubnetStake s (n, i) \<and>
    x \<le> MaxSlashAmount s \<and> (m \<le> a \<longrightarrow> x = 0) \<and>
    network_ok cfg ok s' \<and> network_value cfg s' + unat x \<le> network_value cfg s"
proof (cases "m \<le> a")
  case True
  then have "s' = s" using assms(3) by (simp add: slash_validator_def Let_def)
  then show ?thesis using assms(1) percent_mul_le [OF assms(2)] by (intro exI [of _ 0]) simp
next
  case False
  let ?x = "get_slash_amount (NodeSubnetStake s (n, i)) a m
              (saturating_sub percentage_factor_as_u128 (percent_div a m)) s"
  have "saturating_sub percentage_factor_as_u128 (percent_div a m) \<le> percentage_factor_as_u128"
    by (simp add: word_le_nat_alt unat_saturating_sub)
  note x = slash_amount_bound [OF assms(2) this, of "NodeSubnetStake s (n, i)" a m]
  have bk: "books s' = books (decrease_node_stake n i ?x s)"
    using slash_books [of W i n a m f mr en ep g s] False assms(3) by simp
  have "holds cfg ok (network_value cfg s) s" using assms(1) by (simp add: holds_def)
  note d = holds_decrease_node_stake [OF this x(3)]
  have "holds cfg ok (network_value cfg s - unat ?x) s'" using d(2) by (simp only: holds_books [OF bk])
  then have "network_ok cfg ok s'" "network_value cfg s' + unat ?x \<le> network_value cfg s"
    using d(1) by (auto simp: holds_def)
  moreover have "saturating_sub (NodeSubnetStake s (n, i)) ?x = NodeSubnetStake s (n, i) - ?x"
    using x(3) by (simp add: saturating_sub_def)
  then have "NodeSubnetStake s' = (NodeSubnetStake s)((n, i) := NodeSubnetStake s (n, i) - ?x)"
    using stake_books [OF bk] by (simp add: decrease_node_stake_def)
  ultimately show ?thesis using x False percent_mul_le [OF assms(2)] by (intro exI [of _ ?x]) simp
qed

text \<open>Applied: node 3, with a stake of 1000, is slashed by at most 1 percent of it when nobody attests.\<close>

definition example_reward_meters :: "(unit, unit) RewardMeters" where
  "example_reward_meters = Meters.extend example_meters
     (RewardMeters.fields (\<lambda>_ _ _. ()) (\<lambda>_ _ _. ()) () (\<lambda>_. ()))"

definition example_bonded :: "simple_balances network_rewards" where
  "example_bonded = increase_node_stake 3 5 1000 example_elected"

lemma example_bonded_ok: "network_ok example_config simple_ok example_bonded"
proof -
  have "holds example_config simple_ok (2 * 10 ^ 24) example_elected"
    using example_rewards_network_ok example_rewards_value by (simp add: holds_defs example_elected_def)
  then have "holds example_config simple_ok (2 * 10 ^ 24 + 1000) example_bonded"
    unfolding example_bonded_def by (intro holds_increase_node_stake) (simp_all add: headroom_def)
  then show ?thesis by (simp add: holds_def)
qed

theorem slash_is_bounded_witness:
  "\<exists>x. NodeSubnetStake (fst (slash_validator example_reward_meters 5 3 0 (66 * 10 ^ 16) 0 0 1 9 0 example_bonded)) (3, 5)
      = 1000 - x \<and> x \<le> 10 \<and>
    network_ok example_config simple_ok
      (fst (slash_validator example_reward_meters 5 3 0 (66 * 10 ^ 16) 0 0 1 9 0 example_bonded))"
proof -
  have b: "BaseSlashPercentage example_bonded = 10 ^ 16" "NodeSubnetStake example_bonded (3, 5) = 1000"
    by (simp_all add: example_bonded_def increase_node_stake_def example_elected_state saturating_add_def)
  have "BaseSlashPercentage example_bonded \<le> percentage_factor_as_u128"
    by (simp add: b percentage_factor_as_u128_def)
  note s = slash_is_bounded [OF example_bonded_ok this surjective_pairing, of example_reward_meters 5 3 0 "66 * 10 ^ 16" 0 0 1 9 0]
  have "percent_mul 1000 (10 ^ 16) = 10" by (simp add: word_unat_eq_iff unat_percent_mul)
  with s b show ?thesis by (auto simp: fun_eq_iff)
qed

end
