(* ===== verification/Reward_Distribution.thy ===== *)
theory Reward_Distribution
  imports Consensus_Submission
begin

text \<open>
  The rewards of a subnet (\<open>bank/rewards.rs\<close>, \<open>utilities/slot.rs\<close>): what the submission of the last epoch
  is worth, how the subnet's share of the emissions is divided, and the loop over the nodes that pays,
  promotes, penalizes or removes each of them; the step of a subnet at its slot.
\<close>

section \<open>Data\<close>

record ConsensusSubmissionData =
  sub_validator_subnet_node_id :: u32
  sub_validator_epoch_progress :: u128
  sub_validator_reward_factor :: u128
  sub_attestation_ratio :: u128
  sub_weight_sum :: u128
  sub_data_length :: u32
  sub_data :: "SubnetNodeConsensusData list"
  sub_attests :: "(u32, AttestEntry) btree_map"
  sub_subnet_nodes :: "SubnetNode list"
  sub_prioritize_queue_node_id :: "u32 option"
  sub_remove_queue_node_id :: "u32 option"

record RewardsData =
  overall_subnet_reward :: u128
  subnet_owner_reward :: u128
  subnet_rewards :: u128
  delegate_stake_rewards :: u128
  subnet_node_rewards :: u128

section \<open>What there is to distribute\<close>

definition calculate_rewards ::
  "u32 \<Rightarrow> u128 \<Rightarrow> u128 \<Rightarrow> ('c, 'm) network_rewards_scheme \<Rightarrow> RewardsData" where
  "calculate_rewards subnet_id overall_rewards emission_weight s =
     (let overall_rewards = saturating_add overall_rewards (RewardsCapacitor s subnet_id);
          overall = percent_mul overall_rewards emission_weight;
          owner = percent_mul overall (SubnetOwnerPercentage s);
          rest = saturating_sub overall owner;
          delegates = percent_mul rest (SubnetDelegateStakeRewardsPercentage s subnet_id);
          nodes = saturating_sub rest delegates
      in \<lparr>overall_subnet_reward = overall, subnet_owner_reward = owner, subnet_rewards = rest,
          delegate_stake_rewards = delegates, subnet_node_rewards = nodes\<rparr>)"

text \<open>A submission that is missing costs the subnet and the elected node reputation.\<close>

definition penalize_absent_validator ::
  "u32 \<Rightarrow> u32 \<Rightarrow> ('c, 'm) network_rewards_scheme \<Rightarrow> ('c, 'm) network_rewards_scheme" where
  "penalize_absent_validator subnet_id prev_subnet_epoch s =
     (case SubnetElectedValidator s (subnet_id, prev_subnet_epoch) of None \<Rightarrow> s
      | Some validator_id \<Rightarrow>
      let s = decrease_subnet_reputation subnet_id (ValidatorAbsentSubnetReputationFactor s) None s;
          reputation_factors = get_reputation_factors_for_epoch subnet_id prev_subnet_epoch s
      in case SubnetNodeReputation s (subnet_id, validator_id) of None \<Rightarrow> s
         | Some rep \<Rightarrow> fst (decrease_and_return_node_reputation subnet_id validator_id rep
                         (validator_absent_decrease reputation_factors) None s))"

definition precheck_subnet_consensus_submission ::
  "('w, 'k, 'x) Meters_scheme \<Rightarrow> u32 \<Rightarrow> u32 \<Rightarrow> ('c, 'm) network_rewards_scheme \<Rightarrow>
   ('c, 'm) network_rewards_scheme \<times> ConsensusSubmissionData option \<times> 'k"
where
  "precheck_subnet_consensus_submission W subnet_id prev_subnet_epoch s =
     (let add = weight_saturating_add W;
          weight = add (weight_zero W) (db_reads W 1) in
      case SubnetConsensusSubmission s (subnet_id, prev_subnet_epoch) of
        None \<Rightarrow>
          (penalize_absent_validator subnet_id prev_subnet_epoch s, None,
           let weight = add weight (db_reads W 1)
           in if SubnetElectedValidator s (subnet_id, prev_subnet_epoch) = None then weight
              else add (add weight (db_reads_writes W 2 1)) (db_reads_writes W 2 1))
      | Some submission \<Rightarrow>
      let validator_ids = canonicalize_consensus_validator_ids (cs_validator_ids submission);
          max_attestors = of_nat (length validator_ids);
          weight = add weight (db_reads W 1) in
      case canonicalize_consensus_data_entries (cs_data submission) of
        Inl _ \<Rightarrow> (s, None, weight)
      | Inr (data, weight_sum) \<Rightarrow>
          (s, Some \<lparr>sub_validator_subnet_node_id = cs_validator_id submission,
             sub_validator_epoch_progress = cs_validator_epoch_progress submission,
             sub_validator_reward_factor = cs_validator_reward_factor submission,
             sub_attestation_ratio = min (percent_div (of_nat (length (cs_attests submission))) max_attestors)
               percentage_factor_as_u128,
             sub_weight_sum = weight_sum, sub_data_length = of_nat (length data), sub_data = data,
             sub_attests = cs_attests submission, sub_subnet_nodes = cs_subnet_nodes submission,
             sub_prioritize_queue_node_id = cs_prioritize_queue_node_id submission,
             sub_remove_queue_node_id = cs_remove_queue_node_id submission\<rparr>, weight))"

section \<open>Removal, promotion and the queue\<close>

definition handle_consensus_remove_active_node ::
  "('w, 'k, 'x) RewardMeters_scheme \<Rightarrow> 'w \<Rightarrow> u32 \<Rightarrow> u32 \<Rightarrow> u32 \<Rightarrow> ('c, 'm) network_nodes_scheme \<Rightarrow>
   ('c, 'm) network_nodes_scheme \<times> 'w"
where
  "handle_consensus_remove_active_node W w subnet_id subnet_node_id electable_nodes_count s =
     (let w = consume W (db_reads W 1) w in
      case SubnetNodeValidatorId s (subnet_id, subnet_node_id) of None \<Rightarrow> (s, w)
      | Some validator_id \<Rightarrow>
      let w = consume W (db_reads W 1) w;
          (x, c) = validator_subnet_nodes_weight_params validator_id subnet_id s;
          cost = info_remove_active_subnet_node W x electable_nodes_count c
      in if can_consume W cost w then (remove_active_subnet_node subnet_id subnet_node_id s, consume W cost w)
         else (s, w))"

definition handle_idle_node ::
  "('w, 'k, 'x) RewardMeters_scheme \<Rightarrow> 'w \<Rightarrow> u32 \<Rightarrow> u32 \<Rightarrow> u32 \<Rightarrow> u32 \<Rightarrow> ('c, 'm) network_nodes_scheme \<Rightarrow>
   ('c, 'm) network_nodes_scheme \<times> 'w"
where
  "handle_idle_node W w subnet_id subnet_node_id idle_epochs current_subnet_epoch s =
     (let node_idle_epochs = SubnetNodeIdleConsecutiveEpochs s (subnet_id, subnet_node_id) + 1;
          s = s\<lparr>SubnetNodeIdleConsecutiveEpochs :=
                (SubnetNodeIdleConsecutiveEpochs s)((subnet_id, subnet_node_id) := node_idle_epochs)\<rparr>;
          w = consume W (db_reads_writes W 1 1) w in
      if node_idle_epochs \<ge> idle_epochs
      then let (s, graduated) = graduate_class subnet_id subnet_node_id current_subnet_epoch s
           in if graduated
              then (s\<lparr>SubnetNodeIdleConsecutiveEpochs :=
                      (SubnetNodeIdleConsecutiveEpochs s)((subnet_id, subnet_node_id) := 0)\<rparr>,
                    consume W (db_writes W 1) w)
              else (s, w)
      else (s, w))"

definition handle_included_node ::
  "('w, 'k, 'x) RewardMeters_scheme \<Rightarrow> 'w \<Rightarrow> u32 \<Rightarrow> u32 \<Rightarrow> u128 \<Rightarrow> u128 \<Rightarrow> u32 \<Rightarrow> u32 \<Rightarrow>
   ('c, 'm) network_nodes_scheme \<Rightarrow> ('c, 'm) network_nodes_scheme \<times> 'w"
where
  "handle_included_node W w subnet_id subnet_node_id reputation percentage_factor included_epochs
       current_subnet_epoch s =
     (let node_included_epochs = SubnetNodeConsecutiveIncludedEpochs s (subnet_id, subnet_node_id) + 1;
          s = s\<lparr>SubnetNodeConsecutiveIncludedEpochs :=
                (SubnetNodeConsecutiveIncludedEpochs s)((subnet_id, subnet_node_id) := node_included_epochs)\<rparr>;
          w = consume W (db_reads_writes W 1 1) w in
      if reputation \<ge> percentage_factor \<and> node_included_epochs \<ge> included_epochs
      then let (s, graduated) = graduate_to_validator_class subnet_id subnet_node_id current_subnet_epoch s
           in if graduated
              then (s\<lparr>SubnetNodeConsecutiveIncludedEpochs :=
                      (SubnetNodeConsecutiveIncludedEpochs s)((subnet_id, subnet_node_id) := 0)\<rparr>,
                    consume W (db_writes W 1) w)
              else (s, w)
      else (s, w))"

text \<open>The first node with an identifier moves to the front; nothing happens if there is none.\<close>

definition prioritize_queue_node :: "u32 \<Rightarrow> SubnetNode list \<Rightarrow> SubnetNode list option" where
  "prioritize_queue_node n queue =
     (case List.extract (\<lambda>node. sn_id node = n) queue of None \<Rightarrow> None
      | Some (front, node, rear) \<Rightarrow> Some (node # front @ rear))"

definition handle_node_queue_consensus ::
  "('w, 'k, 'x) RewardMeters_scheme \<Rightarrow> 'w \<Rightarrow> u32 \<Rightarrow> ConsensusSubmissionData \<Rightarrow> u128 \<Rightarrow>
   ('c, 'm) network_nodes_scheme \<Rightarrow> ('c, 'm) network_nodes_scheme \<times> 'w"
where
  "handle_node_queue_consensus W w subnet_id data super_majority_threshold s =
     (if \<not> sub_attestation_ratio data \<ge> super_majority_threshold then (s, w)
      else
      let (s, w) =
        (case sub_prioritize_queue_node_id data of None \<Rightarrow> (s, w)
         | Some n \<Rightarrow>
         let w = consume W (db_reads W 1) w in
         case prioritize_queue_node n (SubnetNodeQueue s subnet_id) of None \<Rightarrow> (s, w)
         | Some queue \<Rightarrow>
             (s\<lparr>SubnetNodeQueue := (SubnetNodeQueue s)(subnet_id := queue)\<rparr>,
              consume W (db_writes W 1) (consume W (from_parts W (of_nat (length queue) * 100) 0) w))) in
      case sub_remove_queue_node_id data of None \<Rightarrow> (s, w)
      | Some n \<Rightarrow>
      case find (\<lambda>node. sn_id node = n) (SubnetNodeQueue s subnet_id) of None \<Rightarrow> (s, w)
      | Some node \<Rightarrow>
      let w = consume W (db_reads W 1) w;
          (x, c) = validator_subnet_nodes_weight_params (sn_validator_id node) subnet_id s;
          cost = info_remove_registered_subnet_node W x (of_nat (length (SubnetNodeQueue s subnet_id))) c
      in if can_consume W cost w then (remove_registered_subnet_node subnet_id n s, consume W cost w)
         else (s, w))"

text \<open>The emergency validators, if there are any, have been at work for another epoch.\<close>

definition maybe_get_forked_subnet_node_ids ::
  "('w, 'k, 'x) Weights_scheme \<Rightarrow> 'w \<Rightarrow> u32 \<Rightarrow> ('c, 'm) network_epochs_scheme \<Rightarrow>
   ('c, 'm) network_epochs_scheme \<times> 'w \<times> u32 set option"
where
  "maybe_get_forked_subnet_node_ids W w subnet_id s =
     (let w = consume W (db_reads W 1) w in
      case EmergencySubnetNodeElectionData s subnet_id of None \<Rightarrow> (s, w, None)
      | Some data \<Rightarrow>
          (s\<lparr>EmergencySubnetNodeElectionData := (EmergencySubnetNodeElectionData s)(subnet_id \<mapsto>
               data\<lparr>total_epochs := saturating_add (total_epochs data) 1\<rparr>)\<rparr>,
           consume W (db_writes W 1) w, Some (set (subnet_node_ids data))))"

section \<open>Payments\<close>

definition handle_validator_reward ::
  "('f, 'y) F64_scheme \<Rightarrow> ('w, 'k, 'x) RewardMeters_scheme \<Rightarrow> 'w \<Rightarrow> u32 \<Rightarrow> u32 \<Rightarrow> u32 \<Rightarrow>
   ConsensusSubmissionData \<Rightarrow> u128 \<Rightarrow> u128 \<Rightarrow> u32 \<Rightarrow> ('c, 'm) network_rewards_scheme \<Rightarrow>
   ('c, 'm) network_rewards_scheme \<times> 'w"
where
  "handle_validator_reward F W w validator_id subnet_id subnet_node_id data min_attestation_percentage
       coldkey_reputation_increase_factor current_epoch s =
     (let w = consume W (db_reads W 1) w;
          validator_reward = get_validator_reward (sub_attestation_ratio data) (sub_validator_reward_factor data) s;
          w = consume W (db_reads W 2) w;
          s = increase_validator_reputation F validator_id (sub_attestation_ratio data)
            min_attestation_percentage coldkey_reputation_increase_factor current_epoch s;
          w = consume W (db_reads W 1) w
      in (increase_node_stake subnet_node_id subnet_id validator_reward s, w))"

definition handle_subnet_owner_reward ::
  "('w, 'k, 'x) RewardMeters_scheme \<Rightarrow> 'c Config \<Rightarrow> 'w \<Rightarrow> u32 \<Rightarrow> u128 \<Rightarrow> ('c, 'm) network_rewards_scheme \<Rightarrow>
   ('c, 'm) network_rewards_scheme \<times> 'w"
where
  "handle_subnet_owner_reward W cfg w subnet_id amount s =
     (let w = consume W (db_reads W 1) w in
      case SubnetOwner s subnet_id of None \<Rightarrow> (s, w)
      | Some the_owner \<Rightarrow>
      case u128_to_balance amount of None \<Rightarrow> (s, w)
      | Some balance \<Rightarrow>
          (add_balance_to_coldkey_account cfg the_owner balance s,
           consume W (info_add_balance_to_coldkey_account W) w))"

definition handle_validator_delegate_stake ::
  "('w, 'k, 'x) RewardMeters_scheme \<Rightarrow> 'w \<Rightarrow> u32 \<Rightarrow> u128 \<Rightarrow> u128 \<Rightarrow> ('c, 'm) network_scheme \<Rightarrow>
   ('c, 'm) network_scheme \<times> 'w \<times> u128"
where
  "handle_validator_delegate_stake W w validator_id delegate_reward_rate account_reward s =
     (let w = consume W (db_reads W 1) w in
      if ValidatorDelegateStakeShares s validator_id \<noteq> 0
      then let node_delegate_reward = percent_mul account_reward delegate_reward_rate;
               updated_account_reward = saturating_sub account_reward node_delegate_reward
           in (do_increase_validator_delegate_stake validator_id node_delegate_reward s,
               consume W (db_reads_writes W 5 3) w, updated_account_reward)
      else (s, w, account_reward))"

definition handle_delegate_account ::
  "u128 \<Rightarrow> account_id \<Rightarrow> u128 \<Rightarrow> ('c, 'm) network_scheme \<Rightarrow> ('c, 'm) network_scheme \<times> u128" where
  "handle_delegate_account account_reward delegate_account_id rate s =
     (let delegate_account_deposit = percent_mul account_reward rate;
          updated_account_reward = saturating_sub account_reward delegate_account_deposit
      in (increase_delegate_account_balance delegate_account_id delegate_account_deposit s,
          updated_account_reward))"

text \<open>The reward of a node is shared with the validator's delegators and reward account; the rest is stake.\<close>

definition pay_node ::
  "('w, 'k, 'x) RewardMeters_scheme \<Rightarrow> 'w \<Rightarrow> u32 \<Rightarrow> SubnetNode \<Rightarrow> u128 \<Rightarrow> ('c, 'm) network_scheme \<Rightarrow>
   ('c, 'm) network_scheme \<times> 'w"
where
  "pay_node W w subnet_id subnet_node account_reward s =
     (let v = sn_validator_id subnet_node;
          (s, w, account_reward) =
            (case ValidatorsData s v of None \<Rightarrow> (s, w, account_reward)
             | Some validator_data \<Rightarrow>
             let (s, w, account_reward) =
                   (if vd_delegate_reward_rate validator_data \<noteq> 0
                    then handle_validator_delegate_stake W w v (vd_delegate_reward_rate validator_data)
                           account_reward s
                    else (s, w, account_reward)) in
             case vd_delegate_account validator_data of None \<Rightarrow> (s, w, account_reward)
             | Some delegate_account \<Rightarrow>
                 let (s, account_reward) = handle_delegate_account account_reward
                       (da_account_id delegate_account) (da_rate delegate_account) s
                 in (s, w, account_reward))
      in (increase_node_stake (sn_id subnet_node) subnet_id account_reward s,
          consume W (db_reads_writes W 3 3) w))"

section \<open>The loop over the nodes\<close>

text \<open>The values that the loop reads and does not change.\<close>

record RewardLoop =
  lp_subnet_id :: u32
  lp_current_subnet_epoch :: u32
  lp_data :: ConsensusSubmissionData
  lp_node_rewards :: u128
  lp_super_majority :: u128
  lp_min_reputation :: u128
  lp_electable_nodes_count :: u32
  lp_forked :: "u32 set option"
  lp_idle_epochs :: u32
  lp_included_epochs :: u32
  lp_weight_threshold :: u128
  lp_factors :: SubnetReputationFactors

definition decrease_if_exists ::
  "('w, 'k, 'x) RewardMeters_scheme \<Rightarrow> bool \<Rightarrow> u32 \<Rightarrow> u32 \<Rightarrow> u128 \<Rightarrow>
   ('c, 'm) network_consensus_scheme \<times> 'w \<times> u128 \<Rightarrow> ('c, 'm) network_consensus_scheme \<times> 'w \<times> u128"
where
  "decrease_if_exists W condition subnet_id n factor = (\<lambda>(s, w, reputation).
     if condition
     then let (s, reputation) = decrease_and_return_node_reputation subnet_id n reputation factor None s
          in (s, consume W (db_writes W 1) w, reputation)
     else (s, w, reputation))"

text \<open>A node that is not in the data loses reputation and starts counting again.\<close>

definition handle_absent_node ::
  "('w, 'k, 'x) RewardMeters_scheme \<Rightarrow> RewardLoop \<Rightarrow> SubnetNode \<Rightarrow> bool \<Rightarrow>
   ('c, 'm) network_nodes_scheme \<times> 'w \<times> u128 \<Rightarrow> ('c, 'm) network_nodes_scheme \<times> 'w"
where
  "handle_absent_node W L subnet_node node_exists state =
     (let i = lp_subnet_id L; n = sn_id subnet_node;
          (s, w, reputation) = decrease_if_exists W node_exists i n (absent_decrease (lp_factors L)) state
      in if node_exists \<and> node_class (sn_classification subnet_node) = Included
         then (s\<lparr>SubnetNodeConsecutiveIncludedEpochs :=
                 (SubnetNodeConsecutiveIncludedEpochs s)((i, n) := 0)\<rparr>, consume W (db_writes W 1) w)
         else (s, w))"

text \<open>How much of its share a node gets: the factor of its attestation, or all of it.\<close>

definition node_reward_factor ::
  "('w, 'k, 'x) RewardMeters_scheme \<Rightarrow> RewardLoop \<Rightarrow> SubnetNode \<Rightarrow> bool \<Rightarrow>
   ('c, 'm) network_consensus_scheme \<times> 'w \<times> u128 \<Rightarrow> (('c, 'm) network_consensus_scheme \<times> 'w \<times> u128) \<times> u128"
where
  "node_reward_factor W L subnet_node node_exists state =
     (let n = sn_id subnet_node; attested = map_of (sub_attests (lp_data L)) n;
          non_attestor = decrease_if_exists W
            (node_exists \<and> sub_attestation_ratio (lp_data L) \<ge> lp_super_majority L) (lp_subnet_id L) n
            (non_attestor_decrease (lp_factors L)) state in
      case lp_forked L of
        Some forked_node_ids \<Rightarrow>
          if n \<in> forked_node_ids
          then (case attested of Some entry \<Rightarrow> (state, at_reward_factor entry)
                | None \<Rightarrow> (non_attestor, percentage_factor_as_u128))
          else (state, percentage_factor_as_u128)
      | None \<Rightarrow>
          (case attested of Some entry \<Rightarrow> (state, at_reward_factor entry)
           | None \<Rightarrow> (non_attestor, percentage_factor_as_u128)))"

definition score_node ::
  "('w, 'k, 'x) RewardMeters_scheme \<Rightarrow> RewardLoop \<Rightarrow> SubnetNode \<Rightarrow> bool \<Rightarrow> u128 \<Rightarrow>
   ('c, 'm) network_nodes_scheme \<times> 'w \<times> u128 \<Rightarrow> ('c, 'm) network_nodes_scheme \<times> 'w"
where
  "score_node W L subnet_node node_exists node_score state =
     (let i = lp_subnet_id L; n = sn_id subnet_node;
          node_weight = percent_div node_score (sub_weight_sum (lp_data L));
          state = decrease_if_exists W (node_exists \<and> node_weight < lp_weight_threshold L) i n
            (below_min_weight_decrease (lp_factors L)) state;
          ((s, w, reputation), reward_factor) = node_reward_factor W L subnet_node node_exists state in
      if node_exists \<and> reputation < lp_min_reputation L
      then handle_consensus_remove_active_node W w i n (lp_electable_nodes_count L) s
      else if reward_factor = 0 then (s, w)
      else if node_weight = 0 then (s, w)
      else
      let account_reward = percent_mul (percent_mul node_weight (lp_node_rewards L)) reward_factor in
      if account_reward = 0 then (s, w)
      else pay_node W w i subnet_node account_reward s)"

definition reward_node ::
  "('f, 'y) F64_scheme \<Rightarrow> ('w, 'k, 'x) RewardMeters_scheme \<Rightarrow> RewardLoop \<Rightarrow> SubnetNode \<Rightarrow>
   ('c, 'm) network_nodes_scheme \<times> 'w \<Rightarrow> ('c, 'm) network_nodes_scheme \<times> 'w"
where
  "reward_node F W L subnet_node = (\<lambda>(s, w).
     (let i = lp_subnet_id L; n = sn_id subnet_node;
          class = node_class (sn_classification subnet_node);
          (reputation, node_exists) = (case SubnetNodeReputation s (i, n) of Some r \<Rightarrow> (r, True) | None \<Rightarrow> (0, False));
          w = consume W (db_reads W 1) w in
      if node_exists \<and> reputation < lp_min_reputation L
      then handle_consensus_remove_active_node W w i n (lp_electable_nodes_count L) s
      else if node_exists \<and> class = Idle \<and> lp_forked L = None
      then handle_idle_node W w i n (lp_idle_epochs L) (lp_current_subnet_epoch L) s
      else case find (\<lambda>data. cd_subnet_node_id data = n) (sub_data (lp_data L)) of
        None \<Rightarrow> handle_absent_node W L subnet_node node_exists (s, w, reputation)
      | Some data \<Rightarrow>
      let (s, w, reputation) =
            (if node_exists \<and> reputation \<noteq> percentage_factor_as_u128
             then let (s, reputation) = increase_and_return_node_reputation F i n reputation
                        (included_increase (lp_factors L)) None s
                  in (s, consume W (db_writes W 1) w, reputation)
             else (s, w, reputation)) in
      if node_exists \<and> class = Included \<and> lp_forked L = None
      then handle_included_node W w i n reputation percentage_factor_as_u128 (lp_included_epochs L)
             (lp_current_subnet_epoch L) s
      else score_node W L subnet_node node_exists (cd_score data) (s, w, reputation)))"

definition reward_nodes ::
  "('f, 'y) F64_scheme \<Rightarrow> ('w, 'k, 'x) RewardMeters_scheme \<Rightarrow> RewardLoop \<Rightarrow> SubnetNode list \<Rightarrow>
   ('c, 'm) network_nodes_scheme \<times> 'w \<Rightarrow> ('c, 'm) network_nodes_scheme \<times> 'w"
where
  "reward_nodes F W L subnet_nodes = fold (reward_node F W L) subnet_nodes"

section \<open>A submission without consensus\<close>

definition penalize_attestor ::
  "('w, 'k, 'x) RewardMeters_scheme \<Rightarrow> u32 \<Rightarrow> u128 \<Rightarrow> u128 \<Rightarrow> u32 \<Rightarrow> u32 \<times> AttestEntry \<Rightarrow>
   ('c, 'm) network_nodes_scheme \<times> 'w \<Rightarrow> ('c, 'm) network_nodes_scheme \<times> 'w"
where
  "penalize_attestor W subnet_id factor min_validator_reputation electable_nodes_count entry = (\<lambda>(s, w).
     let n = fst entry in
     case SubnetNodeReputation s (subnet_id, n) of None \<Rightarrow> (s, w)
     | Some rep \<Rightarrow>
     let (s, new_reputation) = decrease_and_return_node_reputation subnet_id n rep factor None s;
         w = consume W (db_reads_writes W 2 1) w in
     if new_reputation < min_validator_reputation
     then handle_consensus_remove_active_node W w subnet_id n electable_nodes_count s
     else (s, w))"

definition handle_non_consensus ::
  "('w, 'k, 'x) RewardMeters_scheme \<Rightarrow> 'w \<Rightarrow> u32 \<Rightarrow> ConsensusSubmissionData \<Rightarrow> u128 \<Rightarrow> u128 \<Rightarrow> u128 \<Rightarrow> u32 \<Rightarrow> u32 \<Rightarrow>
   u32 \<Rightarrow> u128 \<Rightarrow> ('c, 'm) network_rewards_scheme \<Rightarrow> ('c, 'm) network_rewards_scheme \<times> 'w"
where
  "handle_non_consensus W w subnet_id data min_attestation_percentage coldkey_reputation_decrease_factor
       min_validator_reputation electable_nodes_count current_epoch evaluated_subnet_epoch
       percentage_factor s =
     (let reputation_factors = get_reputation_factors_for_epoch subnet_id evaluated_subnet_epoch s;
          w = consume W (db_reads W 1) w;
          (s, slash_validator_weight) = slash_validator W subnet_id (sub_validator_subnet_node_id data)
            (sub_attestation_ratio data) min_attestation_percentage coldkey_reputation_decrease_factor
            min_validator_reputation electable_nodes_count current_epoch
            (validator_non_consensus_decrease reputation_factors) s;
          w = consume W slash_validator_weight w;
          factor_2 = saturating_sub percentage_factor
            (percent_div (sub_attestation_ratio data) min_attestation_percentage);
          s = decrease_subnet_reputation subnet_id (NotInConsensusSubnetReputationFactor s) (Some factor_2) s;
          w = consume W (db_reads_writes W 2 1) w;
          non_consensus_attestor_factor = get_non_consensus_attestor_factor
            (non_consensus_attestor_decrease reputation_factors) (sub_attestation_ratio data)
            min_attestation_percentage percentage_factor
      in fold (penalize_attestor W subnet_id non_consensus_attestor_factor min_validator_reputation
           electable_nodes_count) (sub_attests data) (s, w))"

section \<open>Distribution\<close>

text \<open>What is done on consensus before any reward of the subnet is distributed.\<close>

definition accept_consensus ::
  "('f, 'y) F64_scheme \<Rightarrow> ('w, 'k, 'x) RewardMeters_scheme \<Rightarrow> 'w \<Rightarrow> u32 \<Rightarrow> u32 \<Rightarrow> ConsensusSubmissionData \<Rightarrow>
   u128 \<Rightarrow> u128 \<Rightarrow> u128 \<Rightarrow> u128 \<Rightarrow> ('c, 'm) network_rewards_scheme \<Rightarrow> ('c, 'm) network_rewards_scheme \<times> 'w"
where
  "accept_consensus F W w subnet_id current_epoch data min_attestation_percentage
       coldkey_reputation_increase_factor super_majority_threshold reputation s =
     (let (s, w) = (case SubnetNodeValidatorId s (subnet_id, sub_validator_subnet_node_id data) of
            Some validator_id \<Rightarrow>
              handle_validator_reward F W w validator_id subnet_id (sub_validator_subnet_node_id data) data
                min_attestation_percentage coldkey_reputation_increase_factor current_epoch s
          | None \<Rightarrow> (s, consume W (db_reads W 1) w));
          w = consume W (db_reads W 4) w;
          (s, w) = handle_node_queue_consensus W w subnet_id data super_majority_threshold s;
          w = consume W (db_reads W 1) w
      in if reputation \<noteq> percentage_factor_as_u128 \<and> sub_data_length data \<ge> MinSubnetNodes s
         then (increase_subnet_reputation F subnet_id (InConsensusSubnetReputationFactor s)
                 (sub_attestation_ratio data) s, consume W (db_reads_writes W 2 1) w)
         else (s, w))"

definition pay_subnet ::
  "('f, 'y) F64_scheme \<Rightarrow> ('w, 'k, 'x) RewardMeters_scheme \<Rightarrow> 'c Config \<Rightarrow> 'w \<Rightarrow> RewardLoop \<Rightarrow> RewardsData \<Rightarrow>
   ('c, 'm) network_rewards_scheme \<Rightarrow> ('c, 'm) network_rewards_scheme \<times> 'w"
where
  "pay_subnet F W cfg w L rewards_data s =
     (let i = lp_subnet_id L; data = lp_data L in
      if sub_weight_sum data = 0
      then (s\<lparr>RewardsCapacitor := (RewardsCapacitor s)(i :=
              saturating_add (RewardsCapacitor s i) (overall_subnet_reward rewards_data))\<rparr>,
            consume W (db_reads_writes W 1 1) w)
      else
      let s = s\<lparr>RewardsCapacitor := (RewardsCapacitor s)(i := 0)\<rparr>;
          w = consume W (db_writes W 1) w;
          (s, w) = handle_subnet_owner_reward W cfg w i (subnet_owner_reward rewards_data) s;
          w = consume W (from_parts W (1000 * of_nat (length (sub_subnet_nodes data))) 0) w;
          (s, w) = reward_nodes F W L (sub_subnet_nodes data) (s, w)
      in if delegate_stake_rewards rewards_data \<noteq> 0
         then (do_increase_delegate_stake i (delegate_stake_rewards rewards_data) s,
               consume W (db_reads_writes W 3 5) w)
         else (s, w))"

definition distribute_rewards ::
  "('f, 'y) F64_scheme \<Rightarrow> ('w, 'k, 'x) RewardMeters_scheme \<Rightarrow> 'c Config \<Rightarrow> 'w \<Rightarrow> u32 \<Rightarrow> u32 \<Rightarrow> u32 \<Rightarrow>
   ConsensusSubmissionData \<Rightarrow> RewardsData \<Rightarrow> u128 \<Rightarrow> u128 \<Rightarrow> u128 \<Rightarrow> u128 \<Rightarrow>
   ('c, 'm) network_rewards_scheme \<Rightarrow> ('c, 'm) network_rewards_scheme \<times> 'w"
where
  "distribute_rewards F W cfg w subnet_id current_epoch current_subnet_epoch data rewards_data
       min_attestation_percentage coldkey_reputation_increase_factor coldkey_reputation_decrease_factor
       super_majority_threshold s =
     (let percentage_factor = percentage_factor_as_u128;
          evaluated_subnet_epoch = saturating_sub current_subnet_epoch 1;
          min_validator_reputation = MinSubnetNodeReputation s subnet_id;
          reputation = SubnetReputation s subnet_id;
          w = consume W (db_reads W 2) w;
          (s, w, forked) = maybe_get_forked_subnet_node_ids W w subnet_id s;
          electable_nodes_count = of_nat (length (SubnetNodeElectionSlots s subnet_id));
          w = consume W (db_reads W 1) w in
      if sub_attestation_ratio data < min_attestation_percentage
      then handle_non_consensus W w subnet_id data min_attestation_percentage
             coldkey_reputation_decrease_factor min_validator_reputation electable_nodes_count
             current_epoch evaluated_subnet_epoch percentage_factor s
      else
      let (s, w) = accept_consensus F W w subnet_id current_epoch data min_attestation_percentage
            coldkey_reputation_increase_factor super_majority_threshold reputation s;
          L = \<lparr>lp_subnet_id = subnet_id, lp_current_subnet_epoch = current_subnet_epoch, lp_data = data,
               lp_node_rewards = subnet_node_rewards rewards_data,
               lp_super_majority = super_majority_threshold,
               lp_min_reputation = min_validator_reputation,
               lp_electable_nodes_count = electable_nodes_count, lp_forked = forked,
               lp_idle_epochs = IdleClassificationEpochs s subnet_id,
               lp_included_epochs = IncludedClassificationEpochs s subnet_id,
               lp_weight_threshold = SubnetNodeMinWeightDecreaseReputationThreshold s subnet_id,
               lp_factors = get_reputation_factors_for_epoch subnet_id evaluated_subnet_epoch s\<rparr>
      in pay_subnet F W cfg w L rewards_data s)"

section \<open>The step of a subnet at its slot\<close>

definition reward_step ::
  "('f, 'y) F64_scheme \<Rightarrow> ('w, 'k, 'x) RewardMeters_scheme \<Rightarrow> 'c Config \<Rightarrow> 'w \<Rightarrow> u32 \<Rightarrow> u32 \<Rightarrow> u32 \<Rightarrow> u128 \<Rightarrow>
   u128 \<Rightarrow> ('c, 'm) network_rewards_scheme \<Rightarrow> ('c, 'm) network_rewards_scheme \<times> 'w"
where
  "reward_step F W cfg w current_epoch current_subnet_epoch subnet_id emissions subnet_weight s =
     (let (s, consensus_submission_data, block_weight) =
            precheck_subnet_consensus_submission W subnet_id (current_subnet_epoch - 1) s;
          w = consume W block_weight w in
      case consensus_submission_data of None \<Rightarrow> (s, w)
      | Some data \<Rightarrow>
      let rewards_data = calculate_rewards subnet_id emissions subnet_weight s;
          add = weight_saturating_add W;
          w = consume W (add (add (add (weight_zero W) (db_reads W 1)) (db_reads W 1)) (db_reads W 1)) w;
          w = consume W (db_reads W 4) w
      in distribute_rewards F W cfg w subnet_id current_epoch current_subnet_epoch data rewards_data
           (MinAttestationPercentage s) (ValidatorReputationIncreaseFactor s)
           (ValidatorReputationDecreaseFactor s) (SuperMajorityAttestationRatio s) s)"

definition emission_step ::
  "('f, 'y) F64_scheme \<Rightarrow> (u32 \<times> u32 \<times> u32) entropy \<Rightarrow> ('w, 'k, 'x) RewardMeters_scheme \<Rightarrow> 'c Config \<Rightarrow> 'w \<Rightarrow> u32 \<Rightarrow>
   u32 \<Rightarrow> u32 \<Rightarrow> u32 \<Rightarrow> ('c, 'm) network_rewards_scheme \<Rightarrow> (('c, 'm) network_rewards_scheme \<times> 'w) option"
where
  "emission_step F E W cfg w block current_epoch current_subnet_epoch subnet_id s =
     (let w = consume W (db_reads W 1) w in
      case FinalSubnetEmissionWeights s current_epoch of None \<Rightarrow> Some (s, w)
      | Some subnet_emission_weights \<Rightarrow>
      case map_of (subnet_weights subnet_emission_weights) subnet_id of None \<Rightarrow> Some (s, w)
      | Some subnet_weight \<Rightarrow>
      let w = consume W (db_reads W 1) w;
          (s, w) = reward_step F W cfg w current_epoch current_subnet_epoch subnet_id
            (subnets_emissions subnet_emission_weights) subnet_weight s in
      if \<not> (case is_subnet_active_and_live subnet_id current_epoch s of None \<Rightarrow> False | Some live \<Rightarrow> live)
      then Some (s, w)
      else
      let s = elect_validator E subnet_id current_subnet_epoch block s;
          w = consume W (db_reads W 1) w;
          w = consume W (info_elect_validator W (TotalSubnetElectableNodes s subnet_id)) w in
      case handle_registration_queue W subnet_id current_subnet_epoch w s of None \<Rightarrow> None
      | Some (s, w) \<Rightarrow> Some (update_burn_rate_for_epoch W subnet_id w s))"

end
