(* ===== verification/Reward_Properties.thy ===== *)
theory Reward_Properties
  imports Submission_Properties Reward_Distribution
begin

text \<open>
  What the distribution of rewards mints: the books stay balanced, and the value of the network grows by
  at most the base reward of the submitting node and the subnet's share of the emissions, which is
  divided without loss.
\<close>

section \<open>Credits\<close>

text \<open>
  A pool that has shares has assets, and no validator passes on more than all of a reward. The
  books with these two assumptions, at a value of at most \<open>v\<close>.
\<close>

definition pools_live :: "('c, 'm) network_scheme \<Rightarrow> bool" where
  "pools_live s \<longleftrightarrow> (\<forall>v. ValidatorDelegateStakeShares s v \<noteq> 0 \<longrightarrow> ValidatorDelegateStakeBalance s v \<noteq> 0)"

definition rates_ok :: "('c, 'm) network_scheme \<Rightarrow> bool" where
  "rates_ok s \<longleftrightarrow> (\<forall>v d. ValidatorsData s v = Some d \<longrightarrow> vd_delegate_reward_rate d \<le> percentage_factor_as_u128 \<and>
     (\<forall>a. vd_delegate_account d = Some a \<longrightarrow> da_rate a \<le> percentage_factor_as_u128))"

definition rewardable :: "'c Config \<Rightarrow> ('c \<Rightarrow> bool) \<Rightarrow> nat \<Rightarrow> ('c, 'm) network_scheme \<Rightarrow> bool" where
  "rewardable cfg ok v s \<longleftrightarrow> holds cfg ok v s \<and> pools_live s \<and> rates_ok s"

lemma rewardable_books: "books s' = books s \<Longrightarrow> rewardable cfg ok v s' = rewardable cfg ok v s"
  using holds_books [of s' s cfg ok v] by (simp add: rewardable_def pools_live_def rates_ok_def books_def)

lemma rewardable_mono: "rewardable cfg ok v s \<Longrightarrow> v \<le> v' \<Longrightarrow> rewardable cfg ok v' s"
  by (auto simp: rewardable_def intro: holds_mono)

lemma rewardable_stake:
  assumes "rewardable cfg ok v s" and "headroom (v + unat a)"
  shows "rewardable cfg ok (v + unat a) (increase_node_stake n i a s)"
proof -
  have "holds cfg ok (v + unat a) (increase_node_stake n i a s)"
    using assms by (intro holds_increase_node_stake) (simp_all add: rewardable_def)
  then show ?thesis
    using assms(1) by (simp add: rewardable_def pools_live_def rates_ok_def increase_node_stake_def)
qed

lemma rewardable_deposit:
  assumes "rewardable cfg ok v s"
  shows "rewardable cfg ok (v + unat a) (add_balance_to_coldkey_account cfg who a s)"
proof -
  have h: "holds cfg ok v s" using assms by (simp add: rewardable_def)
  then have "currency_laws (Cur cfg) ok" "ok (balances s)" by (simp_all add: holds_defs)
  note d = deposit_laws [OF this, of who a]
  have "holds cfg ok (v + unat a) (add_balance_to_coldkey_account cfg who a s)"
    using h d by (auto simp: holds_defs add_balance_to_coldkey_account_def)
  then show ?thesis
    using assms by (simp add: rewardable_def pools_live_def rates_ok_def add_balance_to_coldkey_account_def)
qed

lemma rewardable_account:
  assumes "rewardable cfg ok v s" and "headroom (v + unat a)"
  shows "rewardable cfg ok (v + unat a) (increase_delegate_account_balance who a s)"
proof -
  let ?s = "increase_delegate_account_balance who a s"
  have h: "holds cfg ok (v + unat a - unat a) s" using assms(1) by (simp add: rewardable_def)
  note room = credit_room(3) [OF h _ assms(2)]
  have b: "delegate_account.balanced s" using h by (simp add: holds_defs balanced_book_ok)
  have "delegate_account.balanced ?s" using delegate_account.credit_balanced [OF b] room by simp
  moreover have "unat (TotalAccountDelegateStake ?s) = unat (TotalAccountDelegateStake s) + unat a"
    using room by (simp add: increase_delegate_account_balance_def unat_saturating_add)
  ultimately have "holds cfg ok (v + unat a) ?s"
    using h unfolding balanced_book_ok by (auto simp: holds_defs increase_delegate_account_balance_def)
  then show ?thesis
    using assms(1) by (simp add: rewardable_def pools_live_def rates_ok_def increase_delegate_account_balance_def)
qed

lemma rewardable_pool:
  assumes "rewardable cfg ok v s" and "headroom (v + unat a)" and "ValidatorDelegateStakeShares s p \<noteq> 0"
  shows "rewardable cfg ok (v + unat a) (do_increase_validator_delegate_stake p a s)"
proof -
  let ?s = "do_increase_validator_delegate_stake p a s"
  have h: "holds cfg ok v s" and live: "ValidatorDelegateStakeBalance s p \<noteq> 0"
    using assms(1,3) by (simp_all add: rewardable_def pools_live_def)
  have eq: "?s = s\<lparr>ValidatorDelegateStakeBalance := (ValidatorDelegateStakeBalance s)(p :=
             saturating_add (ValidatorDelegateStakeBalance s p) a),
           TotalValidatorDelegateStakeBalance := saturating_add (TotalValidatorDelegateStakeBalance s) a\<rparr>"
    using live assms(3) by (simp add: do_increase_validator_delegate_stake_def)
  have "holds cfg ok (v + unat a) ?s"
  proof (cases "a = 0")
    case True
    then have "?s = s" unfolding eq by simp
    with True h show ?thesis by simp
  next
    case False
    then show ?thesis using h assms(2) by (intro holds_validator_reward) simp_all
  qed
  moreover have "unat (saturating_add (ValidatorDelegateStakeBalance s p) a) \<noteq> 0"
    using live unat_eq_zero [of "ValidatorDelegateStakeBalance s p"] by (simp add: unat_saturating_add)
  then have "saturating_add (ValidatorDelegateStakeBalance s p) a \<noteq> 0" by auto
  ultimately show ?thesis
    using assms(1) by (simp add: rewardable_def pools_live_def rates_ok_def eq)
qed

section \<open>One node\<close>

lemma headroom_le: "headroom v \<Longrightarrow> u \<le> v \<Longrightarrow> headroom u"
  by (simp add: headroom_def)

lemma percent_part:
  assumes "f \<le> percentage_factor_as_u128"
  shows "unat (saturating_sub r (percent_mul r f)) + unat (percent_mul r f) = unat r"
  using percent_mul_le [OF assms, of r] by (simp add: unat_saturating_sub word_le_nat_alt)

lemma rewardable_delegates:
  assumes "rewardable cfg ok v s" and "headroom (v + unat r)" and "f \<le> percentage_factor_as_u128"
    and "handle_validator_delegate_stake W w p f r s = (s', w', r')"
  shows "unat r' \<le> unat r \<and> rewardable cfg ok (v + (unat r - unat r')) s'"
proof (cases "ValidatorDelegateStakeShares s p = 0")
  case True
  then show ?thesis using assms by (simp add: handle_validator_delegate_stake_def Let_def)
next
  case False
  note p = percent_part [OF assms(3), of r]
  have "headroom (v + unat (percent_mul r f))" by (rule headroom_le [OF assms(2)]) (use p in linarith)
  note c = rewardable_pool [OF assms(1) this False]
  have "s' = do_increase_validator_delegate_stake p (percent_mul r f) s" "r' = saturating_sub r (percent_mul r f)"
    using assms(4) False by (simp_all add: handle_validator_delegate_stake_def Let_def)
  then show ?thesis using p c by (metis add_diff_cancel_left' le_add1)
qed

lemma rewardable_delegate_account:
  assumes "rewardable cfg ok v s" and "headroom (v + unat r)" and "f \<le> percentage_factor_as_u128"
    and "handle_delegate_account r who f s = (s', r')"
  shows "unat r' \<le> unat r \<and> rewardable cfg ok (v + (unat r - unat r')) s'"
proof -
  note p = percent_part [OF assms(3), of r]
  have "headroom (v + unat (percent_mul r f))" by (rule headroom_le [OF assms(2)]) (use p in linarith)
  note c = rewardable_account [OF assms(1) this]
  have "s' = increase_delegate_account_balance who (percent_mul r f) s" "r' = saturating_sub r (percent_mul r f)"
    using assms(4) by (simp_all add: handle_delegate_account_def Let_def)
  then show ?thesis using p c by (metis add_diff_cancel_left' le_add1)
qed

lemma rewardable_pay_node:
  assumes "rewardable cfg ok v s" and "headroom (v + unat r)"
  shows "rewardable cfg ok (v + unat r) (fst (pay_node W w i nd r s))"
proof -
  have shared: "\<exists>s2 r2. fst (pay_node W w i nd r s) = increase_node_stake (sn_id nd) i r2 s2 \<and>
      unat r2 \<le> unat r \<and> rewardable cfg ok (v + (unat r - unat r2)) s2"
  proof (cases "ValidatorsData s (sn_validator_id nd)")
    case None
    then show ?thesis using assms by (intro exI [of _ s] exI [of _ r]) (simp add: pay_node_def Let_def)
  next
    case (Some d)
    let ?v = "sn_validator_id nd" and ?f = "vd_delegate_reward_rate d"
    have rates: "?f \<le> percentage_factor_as_u128"
        "\<And>a. vd_delegate_account d = Some a \<Longrightarrow> da_rate a \<le> percentage_factor_as_u128"
      using assms(1) Some by (auto simp: rewardable_def rates_ok_def)
    obtain s1 w1 r1 where h1: "(if ?f \<noteq> 0 then handle_validator_delegate_stake W w ?v ?f r s else (s, w, r)) = (s1, w1, r1)"
      by (rule prod_cases3)
    then have c1: "unat r1 \<le> unat r" "rewardable cfg ok (v + (unat r - unat r1)) s1"
      using rewardable_delegates [OF assms rates(1), of W w ?v s1 w1 r1] assms(1) by (auto split: if_splits)
    show ?thesis
    proof (cases "vd_delegate_account d")
      case None
      with Some h1 c1 show ?thesis by (intro exI [of _ s1] exI [of _ r1]) (simp add: pay_node_def Let_def)
    next
      case (Some a)
      obtain s2 r2 where h2: "handle_delegate_account r1 (da_account_id a) (da_rate a) s1 = (s2, r2)" by fastforce
      have "headroom (v + (unat r - unat r1) + unat r1)" using assms(2) c1(1) by simp
      note c2 = rewardable_delegate_account [OF c1(2) this rates(2) [OF Some] h2]
      have "v + (unat r - unat r1) + (unat r1 - unat r2) = v + (unat r - unat r2)" using c1(1) c2 by linarith
      with c2 have "rewardable cfg ok (v + (unat r - unat r2)) s2" by metis
      moreover have "fst (pay_node W w i nd r s) = increase_node_stake (sn_id nd) i r2 s2"
        using \<open>ValidatorsData s ?v = Some d\<close> Some h1 h2 by (simp add: pay_node_def Let_def)
      ultimately show ?thesis using c1(1) c2 by (intro exI [of _ s2] exI [of _ r2]) simp
    qed
  qed
  then obtain s2 r2 where e: "fst (pay_node W w i nd r s) = increase_node_stake (sn_id nd) i r2 s2"
    and le: "unat r2 \<le> unat r" and c: "rewardable cfg ok (v + (unat r - unat r2)) s2" by blast
  have v: "v + (unat r - unat r2) + unat r2 = v + unat r" using le by linarith
  show ?thesis unfolding e using rewardable_stake [OF c, of r2 "sn_id nd" i] assms(2) unfolding v by blast
qed

lemma books_decrease [book_frames]: "books (fst (decrease_if_exists W b i n f (s, w, r))) = books s"
  by (simp add: decrease_if_exists_def split_def Let_def book_frames)

lemma books_node_handlers [book_frames]:
  "books (fst (handle_consensus_remove_active_node W w i n c s)) = books s"
  "books (fst (handle_idle_node W w i n e k s)) = books s"
  "books (fst (handle_included_node W w i n r f e k s)) = books s"
  by (simp_all add: handle_consensus_remove_active_node_def handle_idle_node_def handle_included_node_def
      Let_def split_def book_frames split: option.split)

lemma books_absent [book_frames]: "books (fst (handle_absent_node W L nd b (s, w, r))) = books s"
  by (simp add: handle_absent_node_def Let_def split_def book_frames)

definition loop_ok :: "RewardLoop \<Rightarrow> bool" where
  "loop_ok L \<longleftrightarrow> (\<forall>v \<in> snd ` set (sub_attests (lp_data L)). at_reward_factor v \<le> percentage_factor_as_u128)"

lemma node_factor:
  assumes "loop_ok L"
  shows "books (fst (fst (node_reward_factor W L nd b (s, w, r)))) = books s"
    and "snd (node_reward_factor W L nd b (s, w, r)) \<le> percentage_factor_as_u128"
proof -
  have "at_reward_factor v \<le> percentage_factor_as_u128" if "map_of (sub_attests (lp_data L)) n = Some v" for n v
    using assms map_of_SomeD [OF that] by (force simp: loop_ok_def)
  then show "snd (node_reward_factor W L nd b (s, w, r)) \<le> percentage_factor_as_u128"
    by (auto simp: node_reward_factor_def Let_def split: option.split)
  show "books (fst (fst (node_reward_factor W L nd b (s, w, r)))) = books s"
    by (simp add: node_reward_factor_def Let_def book_frames split: option.split)
qed

text \<open>The share of a node in the rewards of the nodes.\<close>

definition score_share :: "RewardLoop \<Rightarrow> u128 \<Rightarrow> u128" where
  "score_share L x = percent_mul (percent_div x (sub_weight_sum (lp_data L))) (lp_node_rewards L)"

lemma rewardable_score_node:
  assumes "rewardable cfg ok v s" and "headroom (v + unat (score_share L x))" and "loop_ok L"
  shows "rewardable cfg ok (v + unat (score_share L x)) (fst (score_node W L nd b x (s, w, r)))"
proof -
  define st where "st = decrease_if_exists W (b \<and> percent_div x (sub_weight_sum (lp_data L)) < lp_weight_threshold L)
      (lp_subnet_id L) (sn_id nd) (below_min_weight_decrease (lp_factors L)) (s, w, r)"
  obtain s1 w1 r1 where st': "st = (s1, w1, r1)" by (rule prod_cases3)
  have b1: "books s1 = books s" using books_decrease st' unfolding st_def by (metis fst_conv)
  obtain s2 w2 r2 f where nf: "node_reward_factor W L nd b (s1, w1, r1) = ((s2, w2, r2), f)"
    by (metis prod_cases3 surj_pair)
  have b2: "books s2 = books s" and f: "f \<le> percentage_factor_as_u128"
    using node_factor [OF assms(3), of W nd b s1 w1 r1] b1 by (simp_all add: nf)
  have "score_node W L nd b x (s, w, r) =
     (if b \<and> r2 < lp_min_reputation L
      then handle_consensus_remove_active_node W w2 (lp_subnet_id L) (sn_id nd) (lp_electable_nodes_count L) s2
      else if f = 0 then (s2, w2) else if percent_div x (sub_weight_sum (lp_data L)) = 0 then (s2, w2)
      else if percent_mul (score_share L x) f = 0 then (s2, w2)
      else pay_node W w2 (lp_subnet_id L) nd (percent_mul (score_share L x) f) s2)"
    unfolding score_node_def Let_def st_def [symmetric] st' nf by (simp add: score_share_def)
  moreover have r: "rewardable cfg ok v s2" using assms(1) by (simp only: rewardable_books [OF b2])
  moreover have "rewardable cfg ok (v + unat (score_share L x))
      (fst (pay_node W w2 (lp_subnet_id L) nd (percent_mul (score_share L x) f) s2))"
  proof -
    have le: "unat (percent_mul (score_share L x) f) \<le> unat (score_share L x)"
      using percent_mul_le [OF f] by (simp add: word_le_nat_alt)
    have "headroom (v + unat (percent_mul (score_share L x) f))" by (rule headroom_le [OF assms(2)]) (use le in simp)
    from rewardable_pay_node [OF r this] show ?thesis by (rule rewardable_mono) (use le in simp)
  qed
  moreover have same: "rewardable cfg ok (v + unat (score_share L x)) s3" if "books s3 = books s2" for s3
    using r rewardable_mono [of cfg ok v s2] by (simp add: rewardable_books [OF that])
  ultimately show ?thesis by (auto simp: book_frames intro!: same)
qed

definition node_share :: "RewardLoop \<Rightarrow> SubnetNode \<Rightarrow> nat" where
  "node_share L nd = (case find (\<lambda>d. cd_subnet_node_id d = sn_id nd) (sub_data (lp_data L)) of None \<Rightarrow> 0
     | Some d \<Rightarrow> unat (score_share L (cd_score d)))"

lemma rewardable_reward_node:
  assumes "rewardable cfg ok v s" and "headroom (v + node_share L nd)" and "loop_ok L"
  shows "rewardable cfg ok (v + node_share L nd) (fst (reward_node F W L nd (s, w)))"
proof -
  have same: "rewardable cfg ok (v + node_share L nd) s'" if "books s' = books s" for s'
    using assms(1) rewardable_mono [of cfg ok v s] by (simp add: rewardable_books [OF that])
  have scored: "rewardable cfg ok (v + node_share L nd) (fst (score_node W L nd b (cd_score d) (s', w', r)))"
    if "books s' = books s" "find (\<lambda>d. cd_subnet_node_id d = sn_id nd) (sub_data (lp_data L)) = Some d" for s' w' r b d
    using rewardable_score_node [of cfg ok v s' L "cd_score d" W nd b w' r] assms that(2)
    by (simp add: node_share_def rewardable_books [OF that(1)])
  show ?thesis
    unfolding reward_node_def Let_def split_def prod.case
    by (simp split: option.split) (intro conjI allI impI; (rule scored | rule same); simp add: book_frames)
qed

section \<open>All nodes\<close>

lemma rewardable_reward_nodes:
  assumes "rewardable cfg ok v s" and "headroom (v + (\<Sum>nd\<leftarrow>nodes. node_share L nd))" and "loop_ok L"
  shows "rewardable cfg ok (v + (\<Sum>nd\<leftarrow>nodes. node_share L nd)) (fst (reward_nodes F W L nodes (s, w)))"
  using assms(1,2)
proof (induction nodes arbitrary: v s w)
  case (Cons nd nodes)
  obtain s1 w1 where n: "reward_node F W L nd (s, w) = (s1, w1)" by fastforce
  have "headroom (v + node_share L nd)" by (rule headroom_le [OF Cons.prems(2)]) simp
  from rewardable_reward_node [OF Cons.prems(1) this assms(3), of F W w]
  have "rewardable cfg ok (v + node_share L nd) s1" by (simp add: n)
  from Cons.IH [OF this, of w1] Cons.prems(2) show ?case by (simp add: n reward_nodes_def add.assoc)
qed (simp add: reward_nodes_def)

text \<open>The shares of the scores add up to at most the rewards of the nodes.\<close>

lemma score_shares_bound:
  assumes "(\<Sum>d\<leftarrow>sub_data (lp_data L). unat (cd_score d)) = unat (sub_weight_sum (lp_data L))"
  shows "(\<Sum>d\<leftarrow>sub_data (lp_data L). unat (score_share L (cd_score d))) \<le> unat (lp_node_rewards L)"
  unfolding score_share_def by (rule percent_shares_bound [OF assms])

lemma find_unique:
  "distinct (map f xs) \<Longrightarrow> x \<in> set xs \<Longrightarrow> find (\<lambda>y. f y = f x) xs = Some x"
  by (induction xs) auto

lemma node_shares_bound:
  assumes "distinct (map sn_id nodes)" and "distinct (map cd_subnet_node_id (sub_data (lp_data L)))"
    and "(\<Sum>d\<leftarrow>sub_data (lp_data L). unat (cd_score d)) = unat (sub_weight_sum (lp_data L))"
  shows "(\<Sum>nd\<leftarrow>nodes. node_share L nd) \<le> unat (lp_node_rewards L)"
proof -
  let ?D = "sub_data (lp_data L)"
  define g where "g n = (case find (\<lambda>d. cd_subnet_node_id d = n) ?D of None \<Rightarrow> 0
     | Some d \<Rightarrow> unat (score_share L (cd_score d)))" for n
  let ?A = "set (map sn_id nodes)" and ?B = "set (map cd_subnet_node_id ?D)"
  have z: "g n = 0" if "n \<notin> ?B" for n
    using that by (auto simp: g_def find_None_iff split: option.split dest!: find_SomeD) 
  have "(\<Sum>nd\<leftarrow>nodes. node_share L nd) = sum_list (map g (map sn_id nodes))"
    by (simp add: node_share_def g_def comp_def)
  also have "\<dots> = sum g ?A" by (rule sum_list_distinct_conv_sum_set [OF assms(1)])
  also have "\<dots> = sum g (?A \<inter> ?B)" using z by (intro sum.mono_neutral_right) auto
  also have "\<dots> \<le> sum g ?B" by (rule sum_mono2) auto
  also have "\<dots> = sum_list (map g (map cd_subnet_node_id ?D))"
    by (rule sum_list_distinct_conv_sum_set [OF assms(2), symmetric])
  also have "\<dots> = (\<Sum>d\<leftarrow>?D. unat (score_share L (cd_score d)))"
    using find_unique [OF assms(2)] by (auto simp: g_def comp_def intro!: arg_cong [of _ _ sum_list] map_cong)
  also have "\<dots> \<le> unat (lp_node_rewards L)" by (rule score_shares_bound [OF assms(3)])
  finally show ?thesis .
qed

section \<open>A subnet\<close>

lemma rewards_split:
  assumes "SubnetOwnerPercentage s \<le> percentage_factor_as_u128"
    and "SubnetDelegateStakeRewardsPercentage s i \<le> percentage_factor_as_u128"
    and "r = calculate_rewards i emissions weight s"
  shows "unat (subnet_owner_reward r) + unat (delegate_stake_rewards r) + unat (subnet_node_rewards r) =
    unat (overall_subnet_reward r)"
proof -
  let ?rest = "saturating_sub (overall_subnet_reward r) (subnet_owner_reward r)"
  have "unat ?rest + unat (subnet_owner_reward r) = unat (overall_subnet_reward r)"
    using percent_part [OF assms(1)] by (simp add: assms(3) calculate_rewards_def Let_def)
  moreover have "unat (subnet_node_rewards r) + unat (delegate_stake_rewards r) = unat ?rest"
    using percent_part [OF assms(2)] by (simp add: assms(3) calculate_rewards_def Let_def)
  ultimately show ?thesis by linarith
qed

lemma books_queue_consensus [book_frames]:
  "books (fst (handle_node_queue_consensus W w i data t s)) = books s"
  by (simp add: handle_node_queue_consensus_def Let_def split_def book_frames split: option.split)

lemma rewardable_validator:
  assumes "rewardable cfg ok v s" and "headroom (v + unat (BaseValidatorReward s))"
    and "sub_validator_reward_factor data \<le> percentage_factor_as_u128"
  shows "rewardable cfg ok (v + unat (BaseValidatorReward s)) (fst (handle_validator_reward F W w u i n data m f e s))"
proof -
  let ?a = "get_validator_reward (sub_attestation_ratio data) (sub_validator_reward_factor data) s"
  let ?s = "increase_validator_reputation F u (sub_attestation_ratio data) m f e s"
  have le: "unat ?a \<le> unat (BaseValidatorReward s)"
    using percent_mul_le [OF assms(3)] by (simp add: get_validator_reward_def word_le_nat_alt)
  have r: "rewardable cfg ok v ?s" using assms(1) by (simp only: rewardable_books [OF books_reputations(4)])
  have "headroom (v + unat ?a)" by (rule headroom_le [OF assms(2)]) (use le in simp)
  from rewardable_stake [OF r this, of n i]
  have "rewardable cfg ok (v + unat ?a) (fst (handle_validator_reward F W w u i n data m f e s))"
    by (simp add: handle_validator_reward_def Let_def)
  then show ?thesis by (rule rewardable_mono) (use le in simp)
qed

lemma rewardable_accept:
  assumes "rewardable cfg ok v s" and "headroom (v + unat (BaseValidatorReward s))"
    and "sub_validator_reward_factor data \<le> percentage_factor_as_u128"
  shows "rewardable cfg ok (v + unat (BaseValidatorReward s)) (fst (accept_consensus F W w i e data m f t r s))"
proof -
  let ?n = "sub_validator_subnet_node_id data"
  define st where "st = (case SubnetNodeValidatorId s (i, ?n) of
      Some u \<Rightarrow> handle_validator_reward F W w u i ?n data m f e s | None \<Rightarrow> (s, consume W (db_reads W 1) w))"
  obtain s1 w1 where st': "st = (s1, w1)" by fastforce
  have "rewardable cfg ok (v + unat (BaseValidatorReward s)) (fst st)"
    using rewardable_validator [OF assms] rewardable_mono [OF assms(1)] by (auto simp: st_def split: option.split)
  then have r1: "rewardable cfg ok (v + unat (BaseValidatorReward s)) s1" by (simp add: st')
  obtain s2 w2 where q: "handle_node_queue_consensus W (consume W (db_reads W 4) w1) i data t s1 = (s2, w2)" by fastforce
  have b2: "books s2 = books s1" using books_queue_consensus q by (metis fst_conv)
  have "books (fst (accept_consensus F W w i e data m f t r s)) = books s1"
    unfolding accept_consensus_def Let_def st_def [symmetric] st' prod.case q
    by (simp add: books_reputations b2)
  from r1 show ?thesis by (simp only: rewardable_books [OF \<open>books (fst _) = books s1\<close>])
qed

lemma rewardable_delegate_pool:
  assumes "rewardable cfg ok v s" and "headroom (v + unat a)"
  shows "rewardable cfg ok (v + unat a) (if a \<noteq> 0 then do_increase_delegate_stake i a s else s)"
proof (cases "a = 0")
  case False
  have "holds cfg ok (v + unat a) (do_increase_delegate_stake i a s)"
    using assms False by (intro holds_subnet_reward) (simp_all add: rewardable_def)
  then show ?thesis
    using assms(1) False by (simp add: rewardable_def pools_live_def rates_ok_def
        do_increase_delegate_stake_def mint_subnet_dead_shares_def Let_def)
qed (use assms in simp)

lemma rewardable_pay_subnet:
  assumes "rewardable cfg ok v s" and "loop_ok L" and "distinct (map sn_id (sub_subnet_nodes (lp_data L)))"
    and "distinct (map cd_subnet_node_id (sub_data (lp_data L)))"
    and "(\<Sum>d\<leftarrow>sub_data (lp_data L). unat (cd_score d)) = unat (sub_weight_sum (lp_data L))"
    and "lp_node_rewards L = subnet_node_rewards r"
    and "headroom (v + unat (subnet_owner_reward r) + unat (delegate_stake_rewards r) + unat (subnet_node_rewards r))"
  shows "rewardable cfg ok
    (v + unat (subnet_owner_reward r) + unat (delegate_stake_rewards r) + unat (subnet_node_rewards r))
    (fst (pay_subnet F W cfg w L r s))"
proof (cases "sub_weight_sum (lp_data L) = 0")
  case True
  then show ?thesis
    using rewardable_mono [OF assms(1)]
    by (simp add: pay_subnet_def Let_def rewardable_books [OF books_fields(29)])
next
  case False
  let ?i = "lp_subnet_id L" and ?o = "unat (subnet_owner_reward r)" and ?d = "unat (delegate_stake_rewards r)"
    and ?N = "unat (subnet_node_rewards r)" and ?nodes = "sub_subnet_nodes (lp_data L)"
  let ?s0 = "s\<lparr>RewardsCapacitor := (RewardsCapacitor s)(?i := 0)\<rparr>"
  obtain s1 w1 where o: "handle_subnet_owner_reward W cfg (consume W (db_writes W 1) w) ?i (subnet_owner_reward r) ?s0 = (s1, w1)"
    by fastforce
  define w2 where "w2 = consume W (from_parts W (1000 * of_nat (length ?nodes)) 0) w1"
  obtain s3 w3 where n: "reward_nodes F W L ?nodes (s1, w2) = (s3, w3)" by fastforce
  have r0: "rewardable cfg ok v ?s0" using assms(1) by (simp add: rewardable_books [OF books_fields(29)])
  have r1: "rewardable cfg ok (v + ?o) s1"
    using o rewardable_deposit [OF r0, of "subnet_owner_reward r"] rewardable_mono [OF r0]
    by (auto simp: handle_subnet_owner_reward_def Let_def u128_to_balance_def split: option.splits)
  have shares: "(\<Sum>nd\<leftarrow>?nodes. node_share L nd) \<le> ?N"
    using node_shares_bound [OF assms(3-5)] by (simp add: assms(6))
  have "headroom (v + ?o + (\<Sum>nd\<leftarrow>?nodes. node_share L nd))" by (rule headroom_le [OF assms(7)]) (use shares in simp)
  from rewardable_reward_nodes [OF r1 this assms(2), of F W w2]
  have r3: "rewardable cfg ok (v + ?o + ?N) s3" unfolding n fst_conv by (rule rewardable_mono) (use shares in simp)
  have eq: "fst (pay_subnet F W cfg w L r s) =
      (if delegate_stake_rewards r \<noteq> 0 then do_increase_delegate_stake ?i (delegate_stake_rewards r) s3 else s3)"
    unfolding pay_subnet_def Let_def using False o n [unfolded w2_def] by simp
  have "v + ?o + ?N + ?d = v + ?o + ?d + ?N" by simp
  with rewardable_delegate_pool [OF r3, of "delegate_stake_rewards r" ?i] assms(7) show ?thesis
    unfolding eq by metis
qed

section \<open>No consensus\<close>

lemma rewardable_slash:
  assumes "rewardable cfg ok v s" and "BaseSlashPercentage s \<le> percentage_factor_as_u128"
  shows "rewardable cfg ok v (fst (slash_validator W i n a m f mr en ep g s))"
proof -
  let ?x = "get_slash_amount (NodeSubnetStake s (n, i)) a m
              (saturating_sub percentage_factor_as_u128 (percent_div a m)) s"
  have "saturating_sub percentage_factor_as_u128 (percent_div a m) \<le> percentage_factor_as_u128"
    by (simp add: word_le_nat_alt unat_saturating_sub)
  note x = slash_amount_bound(3) [OF assms(2) this, of "NodeSubnetStake s (n, i)" a m]
  have "holds cfg ok (v - unat ?x) (decrease_node_stake n i ?x s)"
    using assms(1) by (intro holds_decrease_node_stake(2) [OF _ x]) (simp add: rewardable_def)
  then have "holds cfg ok v (decrease_node_stake n i ?x s)" by (rule holds_mono) simp
  then have "rewardable cfg ok v (if m \<le> a then s else decrease_node_stake n i ?x s)"
    using assms(1) by (simp add: rewardable_def pools_live_def rates_ok_def decrease_node_stake_def)
  then show ?thesis by (simp only: rewardable_books [OF slash_books])
qed

lemma books_penalize_attestors [book_frames]:
  "books (fst (fold (penalize_attestor W i f m c) attests (s, w))) = books s"
proof (induction attests arbitrary: s w)
  case (Cons x attests)
  obtain s1 w1 where p: "penalize_attestor W i f m c x (s, w) = (s1, w1)" by fastforce
  have "books (fst (penalize_attestor W i f m c x (s, w))) = books s"
    by (simp add: penalize_attestor_def split_def Let_def book_frames split: option.split)
  then have "books s1 = books s" by (simp add: p)
  with Cons.IH [of s1 w1] show ?case by (simp add: p)
qed simp

lemma rewardable_non_consensus:
  assumes "rewardable cfg ok v s" and "BaseSlashPercentage s \<le> percentage_factor_as_u128"
  shows "rewardable cfg ok v (fst (handle_non_consensus W w i data m f mr en ce e p s))"
proof -
  let ?F = "get_reputation_factors_for_epoch i e s"
  obtain s1 k where sl: "slash_validator W i (sub_validator_subnet_node_id data) (sub_attestation_ratio data) m f mr en ce
      (validator_non_consensus_decrease ?F) s = (s1, k)" by fastforce
  have r1: "rewardable cfg ok v s1"
    using rewardable_slash [OF assms, of W i "sub_validator_subnet_node_id data" "sub_attestation_ratio data" m f mr en ce
      "validator_non_consensus_decrease ?F"] by (simp add: sl)
  have bk: "books (fst (handle_non_consensus W w i data m f mr en ce e p s)) = books s1"
    unfolding handle_non_consensus_def Let_def sl prod.case by (simp only: books_penalize_attestors books_reputations)
  from r1 show ?thesis by (simp only: rewardable_books [OF bk])
qed

section \<open>The step of a subnet\<close>

lemma books_forked [book_frames]:
  "books (fst (maybe_get_forked_subnet_node_ids W w i s)) = books s"
  by (simp add: maybe_get_forked_subnet_node_ids_def Let_def books_def split: option.split)

lemma forked_parameters:
  "BaseSlashPercentage (fst (maybe_get_forked_subnet_node_ids W w i s)) = BaseSlashPercentage s"
  "BaseValidatorReward (fst (maybe_get_forked_subnet_node_ids W w i s)) = BaseValidatorReward s"
  by (simp_all add: maybe_get_forked_subnet_node_ids_def Let_def split: option.split)

text \<open>What a submission that is rewarded looks like.\<close>

definition rewarded_ok :: "ConsensusSubmissionData \<Rightarrow> bool" where
  "rewarded_ok data \<longleftrightarrow> sub_validator_reward_factor data \<le> percentage_factor_as_u128 \<and>
     (\<forall>v \<in> snd ` set (sub_attests data). at_reward_factor v \<le> percentage_factor_as_u128) \<and>
     distinct (map sn_id (sub_subnet_nodes data)) \<and> distinct (map cd_subnet_node_id (sub_data data)) \<and>
     (\<Sum>d\<leftarrow>sub_data data. unat (cd_score d)) = unat (sub_weight_sum data)"

lemma rewardable_distribute:
  fixes s :: "('c, 'm) network_rewards_scheme"
  assumes "rewardable cfg ok v s" and "rewarded_ok data" and "BaseSlashPercentage s \<le> percentage_factor_as_u128"
    and "unat (subnet_owner_reward r) + unat (delegate_stake_rewards r) + unat (subnet_node_rewards r) = R"
    and "headroom (v + unat (BaseValidatorReward s) + R)"
  shows "rewardable cfg ok (v + unat (BaseValidatorReward s) + R)
    (fst (distribute_rewards F W cfg w i ce e data r m up down t s))"
proof -
  obtain s0 w0 fk where f: "maybe_get_forked_subnet_node_ids W (consume W (db_reads W 2) w) i s = (s0, w0, fk)"
    by (rule prod_cases3)
  have b0: "books s0 = books s" and par: "BaseSlashPercentage s0 = BaseSlashPercentage s"
    "BaseValidatorReward s0 = BaseValidatorReward s"
    using books_forked [of W "consume W (db_reads W 2) w" i s] forked_parameters [of W "consume W (db_reads W 2) w" i s]
    by (simp_all add: f)
  have r0: "rewardable cfg ok v s0" using assms(1) by (simp only: rewardable_books [OF b0])
  let ?w = "consume W (db_reads W 1) w0" and ?n = "of_nat (length (SubnetNodeElectionSlots s0 i)) :: u32"
  show ?thesis
  proof (cases "sub_attestation_ratio data < m")
    case True
    then have eq: "fst (distribute_rewards F W cfg w i ce e data r m up down t s) =
        fst (handle_non_consensus W ?w i data m down (MinSubnetNodeReputation s i) ?n ce (saturating_sub e 1)
          percentage_factor_as_u128 s0)"
      unfolding distribute_rewards_def Let_def f prod.case by simp
    show ?thesis
      unfolding eq by (rule rewardable_mono [OF rewardable_non_consensus [OF r0]]) (use assms(3) par in simp_all)
  next
    case False
    obtain s1 w1 where a: "accept_consensus F W ?w i ce data m up t (SubnetReputation s i) s0 = (s1, w1)" by fastforce
    have "headroom (v + unat (BaseValidatorReward s0))" by (rule headroom_le [OF assms(5)]) (simp add: par)
    from rewardable_accept [OF r0 this, of data F W ?w i ce m up t "SubnetReputation s i"] assms(2)
    have r1: "rewardable cfg ok (v + unat (BaseValidatorReward s)) s1"
      unfolding a fst_conv par by (simp add: rewarded_ok_def)
    define L where "L = \<lparr>lp_subnet_id = i, lp_current_subnet_epoch = e, lp_data = data,
               lp_node_rewards = subnet_node_rewards r, lp_super_majority = t,
               lp_min_reputation = MinSubnetNodeReputation s i, lp_electable_nodes_count = ?n, lp_forked = fk,
               lp_idle_epochs = IdleClassificationEpochs s1 i, lp_included_epochs = IncludedClassificationEpochs s1 i,
               lp_weight_threshold = SubnetNodeMinWeightDecreaseReputationThreshold s1 i,
               lp_factors = get_reputation_factors_for_epoch i (saturating_sub e 1) s1\<rparr>"
    have eq: "distribute_rewards F W cfg w i ce e data r m up down t s = pay_subnet F W cfg w1 L r s1"
      unfolding distribute_rewards_def Let_def f prod.case a L_def using False by simp
    have "v + unat (BaseValidatorReward s) + unat (subnet_owner_reward r) + unat (delegate_stake_rewards r) +
        unat (subnet_node_rewards r) = v + unat (BaseValidatorReward s) + R" using assms(4) by simp
    with rewardable_pay_subnet [OF r1, of L r F W w1] assms(2,5) show ?thesis
      unfolding eq by (simp add: L_def rewarded_ok_def loop_ok_def)
  qed
qed

lemma books_precheck:
  "books (fst (precheck_subnet_consensus_submission W i e s)) = books s"
  by (simp add: precheck_subnet_consensus_submission_def penalize_absent_validator_def Let_def split_def book_frames
      split: option.split sum.split)

lemma precheck_submission:
  assumes "precheck_subnet_consensus_submission W i e s = (s', Some data, k)"
  obtains c where "SubnetConsensusSubmission s (i, e) = Some c" and "s' = s"
    and "canonicalize_consensus_data_entries (cs_data c) = Inr (sub_data data, sub_weight_sum data)"
    and "sub_validator_reward_factor data = cs_validator_reward_factor c" and "sub_attests data = cs_attests c"
    and "sub_subnet_nodes data = cs_subnet_nodes c"
  using assms by (auto simp: precheck_subnet_consensus_submission_def Let_def split: option.splits sum.splits)

lemma canonical_sum:
  assumes "canonicalize_consensus_data_entries data = Inr (out, w)"
  shows "distinct (map cd_subnet_node_id out)" and "(\<Sum>d\<leftarrow>out. unat (cd_score d)) = unat w"
  using assms by (auto simp: canonicalize_consensus_data_entries_def lowest_scores_eq push_scores_eq comp_def
      btree_total_def unat_of_nat split: if_splits)

text \<open>
  C9: the step that rewards a subnet mints no more than it may. From balanced books, with percentages
  and delegate rates of at most 100 percent, the step leaves balanced books again, whatever branch it
  takes for the subnet and for each of its nodes, and the value of the network has grown by at most the
  base reward of the submitting node and the subnet's share of the emissions: the owner's, the
  delegators' and the nodes' parts, with what the nodes pass on, never add up to more.
\<close>

theorem rewards_mint_bounded:
  fixes s :: "('c, 'm) network_rewards_scheme"
  assumes "network_ok cfg ok s" and "pools_live s" and "rates_ok s"
    and "SubnetOwnerPercentage s \<le> percentage_factor_as_u128"
    and "SubnetDelegateStakeRewardsPercentage s i \<le> percentage_factor_as_u128"
    and "BaseSlashPercentage s \<le> percentage_factor_as_u128"
    and "\<And>c. SubnetConsensusSubmission s (i, e - 1) = Some c \<Longrightarrow>
      submission_ok c \<and> distinct (map sn_id (cs_subnet_nodes c))"
    and "headroom (network_value cfg s + unat (BaseValidatorReward s) +
      unat (overall_subnet_reward (calculate_rewards i emissions weight s)))"
    and "reward_step F W cfg w ce e i emissions weight s = (s', w')"
  shows "network_ok cfg ok s' \<and> pools_live s' \<and> rates_ok s' \<and>
    network_value cfg s' \<le> network_value cfg s + unat (BaseValidatorReward s) +
      unat (overall_subnet_reward (calculate_rewards i emissions weight s))"
proof -
  let ?r = "calculate_rewards i emissions weight s"
  let ?v = "network_value cfg s + unat (BaseValidatorReward s) + unat (overall_subnet_reward ?r)"
  have r: "rewardable cfg ok (network_value cfg s) s" using assms(1-3) by (simp add: rewardable_def holds_def)
  obtain s1 d k where p: "precheck_subnet_consensus_submission W i (e - 1) s = (s1, d, k)" by (rule prod_cases3)
  have "rewardable cfg ok ?v (fst (reward_step F W cfg w ce e i emissions weight s))"
  proof (cases d)
    case None
    have b: "books s1 = books s" using books_precheck [of W i "e - 1" s] by (simp add: p)
    have "rewardable cfg ok ?v s1" by (simp only: rewardable_books [OF b]) (rule rewardable_mono [OF r]; simp)
    then show ?thesis by (simp add: reward_step_def p None)
  next
    case (Some data)
    from p [unfolded Some] obtain c where c: "SubnetConsensusSubmission s (i, e - 1) = Some c" and s1: "s1 = s"
      and cn: "canonicalize_consensus_data_entries (cs_data c) = Inr (sub_data data, sub_weight_sum data)"
      and fs: "sub_validator_reward_factor data = cs_validator_reward_factor c" "sub_attests data = cs_attests c"
        "sub_subnet_nodes data = cs_subnet_nodes c"
      by (rule precheck_submission)
    have "rewarded_ok data"
      using assms(7) [OF c] canonical_sum [OF cn] by (simp add: rewarded_ok_def fs submission_ok_def)
    note D = rewardable_distribute [OF r this assms(6) rewards_split [OF assms(4,5) refl] assms(8)]
    show ?thesis unfolding reward_step_def Let_def p prod.case Some option.case s1 by (rule D)
  qed
  then show ?thesis using assms(9) by (simp add: rewardable_def holds_def)
qed

section \<open>The snapshot of the nodes\<close>

lemma snapshot_distinct:
  assumes "\<And>n nd. m (i, n) = Some nd \<Longrightarrow> sn_id nd = n"
  shows "distinct (map sn_id (iter_prefix_values m i))"
proof -
  let ?ids = "sort_key le_bytes (sorted_list_of_set {n. m (i, n) \<noteq> None})"
  have "map sn_id (iter_prefix_values m i) = ?ids"
    using assms by (auto simp: iter_prefix_values_def comp_def intro!: map_idI)
  then show ?thesis by simp
qed

section \<open>Applied\<close>

text \<open>Node 3 submitted for epoch 9 and node 6 attested; the subnet gets a tenth of the emissions in epoch 10.\<close>

lemma example_attested_state: "\<exists>S. example_attested = example_elected\<lparr>SubnetConsensusSubmission := S\<rparr>"
proof (cases "example_attested = example_proposed")
  case False
  from attest_writes [OF example_attest(1) False] obtain e c where
    "example_attested = example_proposed\<lparr>SubnetConsensusSubmission := (SubnetConsensusSubmission example_proposed)((5, e) \<mapsto> c)\<rparr>"
    by metis
  then show ?thesis by (auto simp: example_proposed_def)
qed (auto simp: example_proposed_def)

lemma example_attested_rewardable: "rewardable example_config simple_ok (2 * 10 ^ 24) example_attested"
proof -
  have "holds example_config simple_ok (2 * 10 ^ 24) example_elected"
    using example_rewards_network_ok example_rewards_value by (simp add: holds_defs example_elected_def)
  then have "rewardable example_config simple_ok (2 * 10 ^ 24) example_elected"
    by (simp add: rewardable_def pools_live_def rates_ok_def example_elected_state example_validator_def
        percentage_factor_as_u128_def)
  moreover obtain S where S: "example_attested = example_elected\<lparr>SubnetConsensusSubmission := S\<rparr>"
    using example_attested_state by blast
  have bk: "books example_attested = books example_elected" unfolding S by (simp add: books_def)
  ultimately show ?thesis by (simp only: rewardable_books [OF bk])
qed

lemma example_attested_submission:
  assumes "SubnetConsensusSubmission example_attested (5, 10 - 1) = Some c"
  shows "submission_ok c \<and> distinct (map sn_id (cs_subnet_nodes c))"
proof -
  have "submissions_ok example_attested"
    using consensus_step_extends [OF consensus_step.Attest [OF example_attest(1)] example_submissions_ok(2)] by blast
  moreover have "cs_subnet_nodes c = get_active_classified_subnet_nodes 5 Idle 9 example_elected"
    using assms example_attest(2) by (auto simp: example_submission_def)
  moreover have "distinct (map sn_id (iter_prefix_values (SubnetNodesData example_elected) 5))"
    by (rule snapshot_distinct) (auto simp: example_elected_def example_node_def split: if_splits)
  ultimately show ?thesis
    using assms by (simp add: submissions_ok_def get_active_classified_subnet_nodes_def distinct_map_filter)
qed

theorem rewards_mint_bounded_witness:
  "network_value example_config (fst (reward_step example_curves example_reward_meters example_config () 10 10 5
     (10 ^ 24) (10 ^ 17) example_attested)) \<le> 2 * 10 ^ 24 + 10 ^ 18 + 10 ^ 23 \<and>
   network_ok example_config simple_ok (fst (reward_step example_curves example_reward_meters example_config () 10 10 5
     (10 ^ 24) (10 ^ 17) example_attested))"
proof -
  obtain S where S: "example_attested = example_elected\<lparr>SubnetConsensusSubmission := S\<rparr>"
    using example_attested_state by blast
  have o: "overall_subnet_reward (calculate_rewards 5 (10 ^ 24) (10 ^ 17) example_attested) = 10 ^ 23"
    "BaseValidatorReward example_attested = 10 ^ 18"
    by (simp_all add: S calculate_rewards_def Let_def example_elected_state word_unat_eq_iff unat_percent_mul)
  note ok = example_attested_rewardable [unfolded rewardable_def holds_def]
  have h: "headroom (network_value example_config example_attested + unat (BaseValidatorReward example_attested) +
      unat (overall_subnet_reward (calculate_rewards 5 (10 ^ 24) (10 ^ 17) example_attested)))"
    unfolding o using ok by (simp add: headroom_def)
  have p: "SubnetOwnerPercentage example_attested \<le> percentage_factor_as_u128"
    "SubnetDelegateStakeRewardsPercentage example_attested 5 \<le> percentage_factor_as_u128"
    "BaseSlashPercentage example_attested \<le> percentage_factor_as_u128"
    by (simp_all add: S example_elected_state percentage_factor_as_u128_def)
  have "network_ok example_config simple_ok example_attested" "pools_live example_attested" "rates_ok example_attested"
    using ok by simp_all
  note B = rewards_mint_bounded [OF this p example_attested_submission h surjective_pairing,
      where F = example_curves and W = example_reward_meters and w = "()" and ce = 10 and e = 10, unfolded o]
  have "network_value example_config example_attested + unat (10 ^ 18 :: u128) + unat (10 ^ 23 :: u128)
      \<le> 2 * 10 ^ 24 + 10 ^ 18 + 10 ^ 23" using ok by simp
  with B show ?thesis by linarith
qed

section \<open>A rate above 100 percent\<close>

text \<open>
  C14: the bound of the rewards rests on the delegate rates, and nothing in the payment enforces them.
  Paying a node whose validator passes on more than 100 percent, as a registration may ask for, credits
  the delegators with the whole product, at least the reward itself, and leaves the node's stake as it
  was: the excess is minted.
\<close>

theorem unbounded_rate_mints:
  fixes nd
  defines "p \<equiv> sn_validator_id nd"
  assumes "ValidatorsData s p = Some d" and "vd_delegate_account d = None"
    and "percentage_factor_as_u128 \<le> vd_delegate_reward_rate d"
    and "ValidatorDelegateStakeShares s p \<noteq> 0" and "ValidatorDelegateStakeBalance s p \<noteq> 0"
    and "unat (ValidatorDelegateStakeBalance s p) + unat (percent_mul r (vd_delegate_reward_rate d)) < 2 ^ 128"
  shows "unat (ValidatorDelegateStakeBalance (fst (pay_node W w i nd r s)) p) =
      unat (ValidatorDelegateStakeBalance s p) + unat (percent_mul r (vd_delegate_reward_rate d)) \<and>
    r \<le> percent_mul r (vd_delegate_reward_rate d) \<and>
    NodeSubnetStake (fst (pay_node W w i nd r s)) = NodeSubnetStake s"
proof -
  let ?f = "vd_delegate_reward_rate d"
  have f: "10 ^ 18 \<le> unat ?f" using assms(4) by (simp add: percentage_factor_as_u128_def word_le_nat_alt)
  then have "unat r * 10 ^ 18 div 10 ^ 18 \<le> unat r * unat ?f div 10 ^ 18" by (intro div_le_mono mult_le_mono2)
  then have le: "r \<le> percent_mul r ?f"
    using unat_lt_exp [of r] by (simp add: word_le_nat_alt unat_percent_mul)
  then have z: "saturating_sub r (percent_mul r ?f) = 0" by (simp add: word_unat_eq_iff unat_saturating_sub word_le_nat_alt)
  have "?f \<noteq> 0" using f by auto
  then have "fst (pay_node W w i nd r s) =
      increase_node_stake (sn_id nd) i 0 (do_increase_validator_delegate_stake p (percent_mul r ?f) s)"
    using assms(2,3,5) z by (simp add: pay_node_def Let_def handle_validator_delegate_stake_def p_def)
  then show ?thesis
    using le assms(5-7) by (simp add: increase_node_stake_def do_increase_validator_delegate_stake_def
        unat_saturating_add)
qed

text \<open>Applied: at 300 percent a reward of 100 adds 300 to the pool.\<close>

definition example_generous :: "simple_balances network_rewards" where
  "example_generous = example_rewards\<lparr>ValidatorsData := [7 \<mapsto> example_validator\<lparr>vd_delegate_reward_rate := 3 * 10 ^ 18\<rparr>],
     ValidatorDelegateStakeShares := (\<lambda>_. 0)(7 := 5000), ValidatorDelegateStakeBalance := (\<lambda>_. 0)(7 := 5000)\<rparr>"

theorem unbounded_rate_mints_witness:
  "unat (ValidatorDelegateStakeBalance (fst (pay_node example_reward_meters () 5 example_node 100 example_generous)) 7) = 5300"
proof -
  have v: "sn_validator_id example_node = 7" by (simp add: example_node_def)
  have m: "unat (percent_mul 100 (3 * 10 ^ 18)) = 300" by (simp add: unat_percent_mul)
  show ?thesis
    using unbounded_rate_mints [of example_generous example_node "example_validator\<lparr>vd_delegate_reward_rate := 3 * 10 ^ 18\<rparr>"
        100 example_reward_meters "()" 5] m
    by (simp add: v example_generous_def example_validator_def percentage_factor_as_u128_def)
qed

end
