(* ===== verification/Collective.thy ===== *)
theory Collective
  imports Election_Slots
begin

text \<open>
  The collective pallet (\<open>src/pallets/collective/src/lib.rs\<close>): the council whose motions reach the
  privileged calls of the network pallet. Members propose, vote and close; an approved proposal is
  dispatched with an origin that carries the number of approvals. The calls of the runtime, their
  weights and sizes, the hash and the framework's difference of member lists are parameters; the weight
  that a call refunds is not modelled, the fee it waives is.
\<close>

section \<open>Data\<close>

type_synonym call_hash = "256 word"

datatype Pays = Pays_Yes | Pays_No

datatype CollectiveError =
    CollectiveBadOrigin | NotMember | DuplicateProposal | ProposalMissing | WrongIndex | DuplicateVote
  | TooEarly | TooManyProposals | WrongProposalWeight | WrongProposalLength | PrimeAccountNotMember

datatype RawOrigin = OriginMembers u32 u32 | OriginMember account_id

record Votes =
  motion_index :: u32
  motion_threshold :: u32
  ayes :: "account_id list"
  nays :: "account_id list"
  motion_end :: u32

record 'p collective =
  collective_block :: u32
  Proposals :: "call_hash list"
  ProposalOf :: "call_hash \<rightharpoonup> 'p"
  Voting :: "call_hash \<rightharpoonup> Votes"
  ProposalCount :: u32
  Members :: "account_id list"
  Prime :: "account_id option"

record ('p, 's, 'k) CollectiveConfig =
  MotionDuration :: u32
  MaxProposals :: u32
  MaxMembers :: u32
  DefaultVote :: "bool option \<Rightarrow> u32 \<Rightarrow> u32 \<Rightarrow> u32 \<Rightarrow> bool"
  SetMembersOrigin :: "RuntimeOrigin \<Rightarrow> bool"
  MaxProposalWeight :: 'k
  call_weight :: "'p \<Rightarrow> 'k"
  all_lte :: "'k \<Rightarrow> 'k \<Rightarrow> bool"
  encoded_size :: "'p \<Rightarrow> u32"
  stored_size :: "'p \<Rightarrow> u32"
  hash_of :: "'p \<Rightarrow> call_hash"
  dispatch_proposal :: "RawOrigin \<Rightarrow> 'p \<Rightarrow> 's \<Rightarrow> 's"
  compute_members_diff_sorted :: "account_id list \<Rightarrow> account_id list \<Rightarrow> account_id list \<times> account_id list"

section \<open>Default votes and origins\<close>

definition PrimeDefaultVote :: "bool option \<Rightarrow> u32 \<Rightarrow> u32 \<Rightarrow> u32 \<Rightarrow> bool" where
  "PrimeDefaultVote prime_vote yes_votes no_votes len = (prime_vote = Some True)"

definition MoreThanMajorityThenPrimeDefaultVote :: "bool option \<Rightarrow> u32 \<Rightarrow> u32 \<Rightarrow> u32 \<Rightarrow> bool" where
  "MoreThanMajorityThenPrimeDefaultVote prime_vote yes_votes no_votes len =
     (let more_than_majority = yes_votes * 2 > len in more_than_majority \<or> prime_vote = Some True)"

definition ensure_members :: "RawOrigin \<Rightarrow> u32 \<Rightarrow> u32 option" where
  "ensure_members o' n = (case o' of OriginMembers x _ \<Rightarrow> if x \<ge> n then Some n else None | _ \<Rightarrow> None)"

definition EnsureMember :: "RawOrigin \<Rightarrow> account_id option" where
  "EnsureMember o' = (case o' of OriginMember who \<Rightarrow> Some who | _ \<Rightarrow> None)"

definition EnsureMembers :: "u32 \<Rightarrow> RawOrigin \<Rightarrow> (u32 \<times> u32) option" where
  "EnsureMembers N o' = (case o' of OriginMembers n m \<Rightarrow> if n \<ge> N then Some (n, m) else None | _ \<Rightarrow> None)"

definition EnsureProportionMoreThan :: "u32 \<Rightarrow> u32 \<Rightarrow> RawOrigin \<Rightarrow> bool" where
  "EnsureProportionMoreThan N D o' = (case o' of OriginMembers n m \<Rightarrow> n * D > N * m | _ \<Rightarrow> False)"

definition EnsureProportionAtLeast :: "u32 \<Rightarrow> u32 \<Rightarrow> RawOrigin \<Rightarrow> bool" where
  "EnsureProportionAtLeast N D o' = (case o' of OriginMembers n m \<Rightarrow> n * D \<ge> N * m | _ \<Rightarrow> False)"

section \<open>Members\<close>

definition is_member :: "account_id \<Rightarrow> ('p, 'm) collective_scheme \<Rightarrow> bool" where
  "is_member who s \<longleftrightarrow> who \<in> set (Members s)"

text \<open>The votes of members who leave are taken back.\<close>

definition retract_votes :: "account_id list \<Rightarrow> Votes \<Rightarrow> Votes" where
  "retract_votes outgoing votes =
     votes\<lparr>ayes := filter (\<lambda>a. a \<notin> set outgoing) (ayes votes), nays := filter (\<lambda>a. a \<notin> set outgoing) (nays votes)\<rparr>"

fun retract_from_motions ::
  "account_id list \<Rightarrow> call_hash list \<Rightarrow> (call_hash \<rightharpoonup> Votes) \<Rightarrow> (call_hash \<rightharpoonup> Votes)" where
  "retract_from_motions outgoing [] m = m"
| "retract_from_motions outgoing (h # hs) m =
     retract_from_motions outgoing hs (m(h := map_option (retract_votes outgoing) (m h)))"

definition change_members_sorted ::
  "account_id list \<Rightarrow> account_id list \<Rightarrow> account_id list \<Rightarrow> ('p, 'm) collective_scheme \<Rightarrow>
   ('p, 'm) collective_scheme" where
  "change_members_sorted incoming outgoing new s =
     (let outgoing = sort outgoing
      in s\<lparr>Voting := retract_from_motions outgoing (Proposals s) (Voting s), Members := new, Prime := None\<rparr>)"

definition set_members ::
  "('p, ('p, 'm) collective_scheme, 'k) CollectiveConfig \<Rightarrow> RuntimeOrigin \<Rightarrow> account_id list \<Rightarrow> account_id option \<Rightarrow>
   u32 \<Rightarrow> ('p, 'm) collective_scheme \<Rightarrow> ('p, 'm) collective_scheme \<times> (CollectiveError + unit)"
where
  "set_members cfg origin new_members prime old_count s =
     (if \<not> SetMembersOrigin cfg origin then (s, Inl CollectiveBadOrigin)
      else if \<not> (case prime of None \<Rightarrow> True | Some p \<Rightarrow> p \<in> set new_members) then (s, Inl PrimeAccountNotMember)
      else
      let old = Members s;
          new_members = sort new_members;
          (incoming, outgoing) = compute_members_diff_sorted cfg new_members old;
          s = change_members_sorted incoming outgoing new_members s
      in (s\<lparr>Prime := prime\<rparr>, Inr ()))"

text \<open>The genesis; a violated assertion stops the node, \<open>None\<close>.\<close>

definition initialize_members ::
  "account_id list \<Rightarrow> ('p, 'm) collective_scheme \<Rightarrow> ('p, 'm) collective_scheme option" where
  "initialize_members members s =
     (if members = [] then Some s
      else if Members s \<noteq> [] then None
      else Some (s\<lparr>Members := sort members\<rparr>))"

definition genesis_build ::
  "('p, ('p, 'm) collective_scheme, 'k) CollectiveConfig \<Rightarrow> account_id list \<Rightarrow> ('p, 'm) collective_scheme \<Rightarrow>
   ('p, 'm) collective_scheme option"
where
  "genesis_build cfg members s =
     (if card (set members) \<noteq> length members then None
      else if \<not> length members \<le> unat (MaxMembers cfg) then None
      else initialize_members members s)"

section \<open>Proposals\<close>

definition execute ::
  "('p, ('p, 'm) collective_scheme, 'k) CollectiveConfig \<Rightarrow> RuntimeOrigin \<Rightarrow> 'p \<Rightarrow> u32 \<Rightarrow>
   ('p, 'm) collective_scheme \<Rightarrow> ('p, 'm) collective_scheme \<times> (CollectiveError + unit)"
where
  "execute cfg origin proposal length_bound s =
     (case ensure_signed origin of Inl _ \<Rightarrow> (s, Inl CollectiveBadOrigin)
      | Inr who \<Rightarrow>
      if who \<notin> set (Members s) then (s, Inl NotMember)
      else if \<not> encoded_size cfg proposal \<le> length_bound then (s, Inl WrongProposalLength)
      else (dispatch_proposal cfg (OriginMember who) proposal s, Inr ()))"

text \<open>The checks that both ways of proposing make.\<close>

definition check_proposal ::
  "('p, ('p, 'm) collective_scheme, 'k) CollectiveConfig \<Rightarrow> 'p \<Rightarrow> u32 \<Rightarrow> ('p, 'm) collective_scheme \<Rightarrow>
   CollectiveError + call_hash"
where
  "check_proposal cfg proposal length_bound s =
     (if \<not> encoded_size cfg proposal \<le> length_bound then Inl WrongProposalLength
      else if \<not> all_lte cfg (call_weight cfg proposal) (MaxProposalWeight cfg) then Inl WrongProposalWeight
      else
      let proposal_hash = hash_of cfg proposal
      in if ProposalOf s proposal_hash \<noteq> None then Inl DuplicateProposal else Inr proposal_hash)"

definition do_propose_execute ::
  "('p, ('p, 'm) collective_scheme, 'k) CollectiveConfig \<Rightarrow> 'p \<Rightarrow> u32 \<Rightarrow> ('p, 'm) collective_scheme \<Rightarrow>
   ('p, 'm) collective_scheme \<times> (CollectiveError + unit)"
where
  "do_propose_execute cfg proposal length_bound s =
     (case check_proposal cfg proposal length_bound s of Inl e \<Rightarrow> (s, Inl e)
      | Inr _ \<Rightarrow>
      let seats = of_nat (length (Members s))
      in (dispatch_proposal cfg (OriginMembers 1 seats) proposal s, Inr ()))"

definition do_propose_proposed ::
  "('p, ('p, 'm) collective_scheme, 'k) CollectiveConfig \<Rightarrow> account_id \<Rightarrow> u32 \<Rightarrow> 'p \<Rightarrow> u32 \<Rightarrow>
   ('p, 'm) collective_scheme \<Rightarrow> ('p, 'm) collective_scheme \<times> (CollectiveError + unit)"
where
  "do_propose_proposed cfg who threshold proposal length_bound s =
     (case check_proposal cfg proposal length_bound s of Inl e \<Rightarrow> (s, Inl e)
      | Inr proposal_hash \<Rightarrow>
      if \<not> length (Proposals s) < unat (MaxProposals cfg) then (s, Inl TooManyProposals)
      else
      let index = ProposalCount s;
          votes = \<lparr>motion_index = index, motion_threshold = threshold, ayes = [], nays = [],
                   motion_end = collective_block s + MotionDuration cfg\<rparr>
      in (s\<lparr>Proposals := Proposals s @ [proposal_hash], ProposalCount := ProposalCount s + 1,
            ProposalOf := (ProposalOf s)(proposal_hash \<mapsto> proposal),
            Voting := (Voting s)(proposal_hash \<mapsto> votes)\<rparr>, Inr ()))"

definition propose ::
  "('p, ('p, 'm) collective_scheme, 'k) CollectiveConfig \<Rightarrow> RuntimeOrigin \<Rightarrow> u32 \<Rightarrow> 'p \<Rightarrow> u32 \<Rightarrow>
   ('p, 'm) collective_scheme \<Rightarrow> ('p, 'm) collective_scheme \<times> (CollectiveError + unit)"
where
  "propose cfg origin threshold proposal length_bound s =
     (case ensure_signed origin of Inl _ \<Rightarrow> (s, Inl CollectiveBadOrigin)
      | Inr who \<Rightarrow>
      if who \<notin> set (Members s) then (s, Inl NotMember)
      else if threshold < 2 then do_propose_execute cfg proposal length_bound s
      else do_propose_proposed cfg who threshold proposal length_bound s)"

section \<open>Votes\<close>

definition do_vote ::
  "account_id \<Rightarrow> call_hash \<Rightarrow> u32 \<Rightarrow> bool \<Rightarrow> ('p, 'm) collective_scheme \<Rightarrow>
   ('p, 'm) collective_scheme \<times> (CollectiveError + bool)"
where
  "do_vote who proposal index approve s =
     (case Voting s proposal of None \<Rightarrow> (s, Inl ProposalMissing)
      | Some voting \<Rightarrow>
      if motion_index voting \<noteq> index then (s, Inl WrongIndex)
      else
      let position_yes = position (\<lambda>a. a = who) (ayes voting);
          position_no = position (\<lambda>a. a = who) (nays voting);
          is_account_voting_first_time = (position_yes = None \<and> position_no = None) in
      if approve
      then (if position_yes \<noteq> None then (s, Inl DuplicateVote)
            else (s\<lparr>Voting := (Voting s)(proposal \<mapsto> voting\<lparr>ayes := ayes voting @ [who],
                    nays := (case position_no of None \<Rightarrow> nays voting | Some pos \<Rightarrow> swap_remove pos (nays voting))\<rparr>)\<rparr>,
                  Inr is_account_voting_first_time))
      else (if position_no \<noteq> None then (s, Inl DuplicateVote)
            else (s\<lparr>Voting := (Voting s)(proposal \<mapsto> voting\<lparr>nays := nays voting @ [who],
                    ayes := (case position_yes of None \<Rightarrow> ayes voting | Some pos \<Rightarrow> swap_remove pos (ayes voting))\<rparr>)\<rparr>,
                  Inr is_account_voting_first_time)))"

definition vote ::
  "RuntimeOrigin \<Rightarrow> call_hash \<Rightarrow> u32 \<Rightarrow> bool \<Rightarrow> ('p, 'm) collective_scheme \<Rightarrow>
   ('p, 'm) collective_scheme \<times> (CollectiveError + Pays)"
where
  "vote origin proposal index approve s =
     (case ensure_signed origin of Inl _ \<Rightarrow> (s, Inl CollectiveBadOrigin)
      | Inr who \<Rightarrow>
      if who \<notin> set (Members s) then (s, Inl NotMember)
      else case do_vote who proposal index approve s of
        (s, Inl e) \<Rightarrow> (s, Inl e)
      | (s, Inr is_account_voting_first_time) \<Rightarrow>
          (s, Inr (if is_account_voting_first_time then Pays_No else Pays_Yes)))"

section \<open>Closing\<close>

definition remove_proposal :: "call_hash \<Rightarrow> ('p, 'm) collective_scheme \<Rightarrow> ('p, 'm) collective_scheme" where
  "remove_proposal proposal_hash s =
     s\<lparr>ProposalOf := (ProposalOf s)(proposal_hash := None), Voting := (Voting s)(proposal_hash := None),
       Proposals := filter (\<lambda>h. h \<noteq> proposal_hash) (Proposals s)\<rparr>"

definition do_approve_proposal ::
  "('p, ('p, 'm) collective_scheme, 'k) CollectiveConfig \<Rightarrow> u32 \<Rightarrow> u32 \<Rightarrow> call_hash \<Rightarrow> 'p \<Rightarrow>
   ('p, 'm) collective_scheme \<Rightarrow> ('p, 'm) collective_scheme"
where
  "do_approve_proposal cfg seats yes_votes proposal_hash proposal s =
     remove_proposal proposal_hash (dispatch_proposal cfg (OriginMembers yes_votes seats) proposal s)"

definition do_disapprove_proposal :: "call_hash \<Rightarrow> ('p, 'm) collective_scheme \<Rightarrow> ('p, 'm) collective_scheme" where
  "do_disapprove_proposal proposal_hash s = remove_proposal proposal_hash s"

definition disapprove_proposal ::
  "RuntimeOrigin \<Rightarrow> call_hash \<Rightarrow> ('p, 'm) collective_scheme \<Rightarrow>
   ('p, 'm) collective_scheme \<times> (CollectiveError + unit)"
where
  "disapprove_proposal origin proposal_hash s =
     (if origin \<noteq> Root then (s, Inl CollectiveBadOrigin)
      else (do_disapprove_proposal proposal_hash s, Inr ()))"

definition validate_and_get_proposal ::
  "('p, ('p, 'm) collective_scheme, 'k) CollectiveConfig \<Rightarrow> call_hash \<Rightarrow> u32 \<Rightarrow> 'k \<Rightarrow>
   ('p, 'm) collective_scheme \<Rightarrow> CollectiveError + 'p"
where
  "validate_and_get_proposal cfg h length_bound weight_bound s =
     (case ProposalOf s h of None \<Rightarrow> Inl ProposalMissing
      | Some proposal \<Rightarrow>
      if \<not> stored_size cfg proposal \<le> length_bound then Inl WrongProposalLength
      else if \<not> all_lte cfg (call_weight cfg proposal) weight_bound then Inl WrongProposalWeight
      else Inr proposal)"

text \<open>The tally at the end of the voting: abstentions count as the default vote.\<close>

definition final_yes_votes ::
  "('p, ('p, 'm) collective_scheme, 'k) CollectiveConfig \<Rightarrow> Votes \<Rightarrow> ('p, 'm) collective_scheme \<Rightarrow> u32" where
  "final_yes_votes cfg voting s =
     (let no_votes = of_nat (length (nays voting)); yes_votes = of_nat (length (ayes voting));
          seats = of_nat (length (Members s));
          prime_vote = map_option (\<lambda>who. who \<in> set (ayes voting)) (Prime s);
          default = DefaultVote cfg prime_vote yes_votes no_votes seats;
          abstentions = seats - (yes_votes + no_votes)
      in if default then yes_votes + abstentions else yes_votes)"

definition close_approved ::
  "('p, ('p, 'm) collective_scheme, 'k) CollectiveConfig \<Rightarrow> call_hash \<Rightarrow> u32 \<Rightarrow> 'k \<Rightarrow> u32 \<Rightarrow>
   ('p, 'm) collective_scheme \<Rightarrow> ('p, 'm) collective_scheme \<times> (CollectiveError + Pays)"
where
  "close_approved cfg proposal_hash length_bound proposal_weight_bound yes_votes s =
     (case validate_and_get_proposal cfg proposal_hash length_bound proposal_weight_bound s of
        Inl e \<Rightarrow> (s, Inl e)
      | Inr proposal \<Rightarrow>
          (do_approve_proposal cfg (of_nat (length (Members s))) yes_votes proposal_hash proposal s, Inr Pays_Yes))"

definition do_close ::
  "('p, ('p, 'm) collective_scheme, 'k) CollectiveConfig \<Rightarrow> call_hash \<Rightarrow> u32 \<Rightarrow> 'k \<Rightarrow> u32 \<Rightarrow>
   ('p, 'm) collective_scheme \<Rightarrow> ('p, 'm) collective_scheme \<times> (CollectiveError + Pays)"
where
  "do_close cfg proposal_hash index proposal_weight_bound length_bound s =
     (case Voting s proposal_hash of None \<Rightarrow> (s, Inl ProposalMissing)
      | Some voting \<Rightarrow>
      if motion_index voting \<noteq> index then (s, Inl WrongIndex)
      else
      let no_votes = of_nat (length (nays voting)); yes_votes = of_nat (length (ayes voting));
          seats = of_nat (length (Members s));
          approved = (yes_votes \<ge> motion_threshold voting);
          disapproved = (saturating_sub seats no_votes < motion_threshold voting) in
      if approved then close_approved cfg proposal_hash length_bound proposal_weight_bound yes_votes s
      else if disapproved then (do_disapprove_proposal proposal_hash s, Inr Pays_No)
      else if \<not> collective_block s \<ge> motion_end voting then (s, Inl TooEarly)
      else
      let yes_votes = final_yes_votes cfg voting s in
      if yes_votes \<ge> motion_threshold voting
      then close_approved cfg proposal_hash length_bound proposal_weight_bound yes_votes s
      else (do_disapprove_proposal proposal_hash s, Inr Pays_No))"

definition close ::
  "('p, ('p, 'm) collective_scheme, 'k) CollectiveConfig \<Rightarrow> RuntimeOrigin \<Rightarrow> call_hash \<Rightarrow> u32 \<Rightarrow> 'k \<Rightarrow> u32 \<Rightarrow>
   ('p, 'm) collective_scheme \<Rightarrow> ('p, 'm) collective_scheme \<times> (CollectiveError + Pays)"
where
  "close cfg origin proposal_hash index proposal_weight_bound length_bound s =
     (case ensure_signed origin of Inl _ \<Rightarrow> (s, Inl CollectiveBadOrigin)
      | Inr _ \<Rightarrow> do_close cfg proposal_hash index proposal_weight_bound length_bound s)"

section \<open>The pallet's own check\<close>

definition do_try_state ::
  "('p, ('p, 'm) collective_scheme, 'k) CollectiveConfig \<Rightarrow> ('p, 'm) collective_scheme \<Rightarrow> bool" where
  "do_try_state cfg s \<longleftrightarrow>
     (\<forall>h \<in> set (Proposals s). ProposalOf s h \<noteq> None) \<and>
     length (Proposals s) \<le> unat (ProposalCount s) \<and>
     length (Proposals s) = card (dom (ProposalOf s)) \<and>
     (\<forall>h \<in> set (Proposals s). case Voting s h of None \<Rightarrow> True
        | Some votes \<Rightarrow> length (ayes votes) + length (nays votes) \<le> unat (MaxMembers cfg)) \<and>
     distinct (map motion_index (List.map_filter (Voting s) (Proposals s))) \<and>
     (\<forall>h \<in> dom (Voting s). h \<in> set (Proposals s)) \<and>
     length (Members s) \<le> unat (MaxMembers cfg) \<and> sorted (Members s) \<and>
     (case Prime s of None \<Rightarrow> True | Some prime \<Rightarrow> prime \<in> set (Members s))"

end
