(* ===== verification/Collective_Properties.thy ===== *)
theory Collective_Properties
  imports Collective
begin

text \<open>
  The council: its storage stays consistent in every run, which gives the check that the pallet makes of
  itself; votes are counted once; a motion passes by votes only, and can always be closed.
\<close>

section \<open>The invariant\<close>

definition votes_ok :: "account_id list \<Rightarrow> Votes \<Rightarrow> bool" where
  "votes_ok ms v \<longleftrightarrow> distinct (ayes v @ nays v) \<and> set (ayes v @ nays v) \<subseteq> set ms"

definition index_of :: "('p, 'm) collective_scheme \<Rightarrow> call_hash \<Rightarrow> u32 option" where
  "index_of s h = map_option motion_index (Voting s h)"

definition collective_ok ::
  "('p, ('p, 'm) collective_scheme, 'k) CollectiveConfig \<Rightarrow> ('p, 'm) collective_scheme \<Rightarrow> bool" where
  "collective_ok cfg s \<longleftrightarrow>
     distinct (Proposals s) \<and> dom (ProposalOf s) = set (Proposals s) \<and> dom (Voting s) = set (Proposals s) \<and>
     length (Proposals s) \<le> unat (MaxProposals cfg) \<and>
     (\<forall>h v. Voting s h = Some v \<longrightarrow> votes_ok (Members s) v \<and> motion_index v < ProposalCount s) \<and>
     inj_on (index_of s) (set (Proposals s)) \<and>
     sorted (Members s) \<and> length (Members s) \<le> unat (MaxMembers cfg) \<and> set_option (Prime s) \<subseteq> set (Members s)"

text \<open>
  What is assumed of the runtime: the framework's difference of two sorted lists names everyone who
  leaves, and no call that a proposal may contain breaks this pallet's storage.
\<close>

definition runtime_laws :: "('p, ('p, 'm) collective_scheme, 'k) CollectiveConfig \<Rightarrow> bool" where
  "runtime_laws cfg \<longleftrightarrow>
     (\<forall>new old. sorted new \<and> sorted old \<longrightarrow>
        set old - set new \<subseteq> set (snd (compute_members_diff_sorted cfg new old))) \<and>
     (\<forall>o' p s. collective_ok cfg s \<longrightarrow> collective_ok cfg (dispatch_proposal cfg o' p s))"

lemma runtime_lawsD:
  assumes "runtime_laws cfg"
  shows "sorted new \<Longrightarrow> sorted old \<Longrightarrow> compute_members_diff_sorted cfg new old = (i, out) \<Longrightarrow> set old - set new \<subseteq> set out"
    and "collective_ok cfg s \<Longrightarrow> collective_ok cfg (dispatch_proposal cfg o' p s)"
  using assms by (force simp: runtime_laws_def)+

section \<open>Every operation keeps it\<close>

lemma retract_from_motions_eq:
  "distinct hs \<Longrightarrow> retract_from_motions out hs m h =
     (if h \<in> set hs then map_option (retract_votes out) (m h) else m h)"
  by (induction hs arbitrary: m) auto

lemma retract_votes_ok:
  assumes "votes_ok old v" and "set old - set new \<subseteq> set out"
  shows "votes_ok new (retract_votes out v)"
  using assms by (auto simp: votes_ok_def retract_votes_def)

lemma retract_index [simp]: "motion_index (retract_votes out v) = motion_index v"
  by (simp add: retract_votes_def)

lemma set_members_ok:
  assumes "collective_ok cfg s" and "runtime_laws cfg" and "length new \<le> unat (MaxMembers cfg)"
    and "set_members cfg origin new prime c s = (s', r)"
  shows "collective_ok cfg s'"
proof (cases r)
  case (Inl e)
  then show ?thesis using assms(1,4) by (auto simp: set_members_def Let_def split: if_splits prod.splits)
next
  case (Inr u)
  obtain i out where d: "compute_members_diff_sorted cfg (sort new) (Members s) = (i, out)" by fastforce
  have none: "h \<notin> set (Proposals s) \<Longrightarrow> Voting s h = None" for h
    using assms(1) by (auto simp: collective_ok_def)
  have V: "Voting s' h = map_option (retract_votes (sort out)) (Voting s h)" for h
    using assms(1,4) Inr none [of h] retract_from_motions_eq [of "Proposals s" "sort out" "Voting s" h]
    by (auto simp: set_members_def change_members_sorted_def d collective_ok_def Let_def domIff
        split: if_splits option.splits)
  have s': "Proposals s' = Proposals s" "ProposalOf s' = ProposalOf s" "ProposalCount s' = ProposalCount s"
      "Members s' = sort new" "Prime s' = prime" "set_option prime \<subseteq> set new"
    using assms(4) Inr by (auto simp: set_members_def change_members_sorted_def d Let_def split: if_splits option.splits)
  have "set (Members s) - set (sort new) \<subseteq> set (sort out)"
    using runtime_lawsD(1) [OF assms(2) _ _ d] assms(1) by (simp add: collective_ok_def)
  note keep = retract_votes_ok [OF _ this]
  have "dom (Voting s') = dom (Voting s)" "index_of s' = index_of s"
    by (auto simp: V index_of_def fun_eq_iff option.map_comp comp_def)
  then show ?thesis
    using assms(1,3) keep s'(6) unfolding collective_ok_def s' by (auto simp: V)
qed

lemma remove_proposal_ok:
  assumes "collective_ok cfg s"
  shows "collective_ok cfg (remove_proposal h s)"
proof -
  have "inj_on (index_of (remove_proposal h s)) (set (Proposals s) - {h}) \<longleftrightarrow> inj_on (index_of s) (set (Proposals s) - {h})"
    by (rule inj_on_cong) (simp add: index_of_def remove_proposal_def)
  moreover have "inj_on (index_of s) (set (Proposals s) - {h})"
    using assms by (auto simp: collective_ok_def intro: inj_on_subset)
  ultimately show ?thesis
    using assms by (auto simp: collective_ok_def remove_proposal_def set_diff_eq intro: le_trans [OF length_filter_le])
qed

lemma check_proposal_fresh:
  "check_proposal cfg p l s = Inr h \<Longrightarrow> ProposalOf s h = None"
  by (auto simp: check_proposal_def Let_def split: if_splits)

lemma propose_ok:
  assumes "collective_ok cfg s" and "runtime_laws cfg" and "ProposalCount s \<noteq> - 1"
    and "propose cfg origin t p l s = (s', r)"
  shows "collective_ok cfg s'"
proof -
  have "collective_ok cfg (fst (do_propose_execute cfg p l s))"
    using assms(1) runtime_lawsD(2) [OF assms(2,1)]
    by (simp add: do_propose_execute_def Let_def split: sum.split)
  moreover have "collective_ok cfg (fst (do_propose_proposed cfg who t p l s))" for who
  proof (cases "check_proposal cfg p l s")
    case (Inr h)
    have "1 + ProposalCount s \<noteq> 0" using assms(3) by (simp add: add_eq_0_iff)
    then have "unat (ProposalCount s + 1) = Suc (unat (ProposalCount s))" using unatSuc [of "ProposalCount s"] by (simp add: add.commute)
    then have lt: "x < ProposalCount s + 1" if "x \<le> ProposalCount s" for x
      using that by (simp add: word_less_nat_alt word_le_nat_alt)
    have "h \<notin> set (Proposals s)" using check_proposal_fresh [OF Inr] assms(1) by (auto simp: collective_ok_def)
    show ?thesis
    proof (cases "length (Proposals s) < unat (MaxProposals cfg)")
      case True
      let ?v = "\<lparr>motion_index = ProposalCount s, motion_threshold = t, ayes = [], nays = [],
                   motion_end = collective_block s + MotionDuration cfg\<rparr>"
      have old: "motion_index v < ProposalCount s" if "Voting s h' = Some v" for h' v
        using assms(1) that by (auto simp: collective_ok_def)
      have "votes_ok (Members s) ?v" by (simp add: votes_ok_def)
      moreover have "inj_on ((index_of s)(h := Some (ProposalCount s))) (insert h (set (Proposals s)))"
      proof -
        have "inj_on (index_of s) (set (Proposals s))" using assms(1) by (simp add: collective_ok_def)
        moreover have "Some (ProposalCount s) \<notin> index_of s ` set (Proposals s)"
        proof
          assume "Some (ProposalCount s) \<in> index_of s ` set (Proposals s)"
          then obtain h' where "index_of s h' = Some (ProposalCount s)" by force
          then show False using old [of h'] by (auto simp: index_of_def)
        qed
        ultimately show ?thesis by (auto simp: inj_on_fun_updI)
      qed
      moreover have "index_of (fst (do_propose_proposed cfg who t p l s)) = (index_of s)(h := Some (ProposalCount s))"
        using True by (auto simp: do_propose_proposed_def Inr Let_def index_of_def fun_eq_iff)
      ultimately show ?thesis
        using assms(1) True \<open>h \<notin> set (Proposals s)\<close> lt
        unfolding do_propose_proposed_def Inr collective_ok_def by (simp add: Let_def less_imp_le)
    qed (use assms(1) in \<open>simp add: do_propose_proposed_def Inr\<close>)
  qed (use assms(1) in \<open>simp add: do_propose_proposed_def\<close>)
  ultimately show ?thesis
    using assms(1,4) by (auto simp: propose_def split: sum.splits if_splits dest!: arg_cong [where f = fst])
qed

text \<open>The lists of a motion after a vote.\<close>

definition cast_vote :: "account_id \<Rightarrow> bool \<Rightarrow> Votes \<Rightarrow> Votes" where
  "cast_vote who approve v =
     (let drop = (\<lambda>xs. case position (\<lambda>a. a = who) xs of None \<Rightarrow> xs | Some pos \<Rightarrow> swap_remove pos xs)
      in if approve then v\<lparr>ayes := ayes v @ [who], nays := drop (nays v)\<rparr>
         else v\<lparr>nays := nays v @ [who], ayes := drop (ayes v)\<rparr>)"

lemma drop_vote:
  fixes who :: account_id and xs :: "account_id list"
  assumes "distinct xs"
  defines "ys \<equiv> (case position (\<lambda>a. a = who) xs of None \<Rightarrow> xs | Some pos \<Rightarrow> swap_remove pos xs)"
  shows "distinct ys" and "set ys = set xs - {who}"
  using assms(1) swap_remove_distinct [OF assms(1)] position_Some [of "\<lambda>a. a = who" xs]
  by (auto simp: ys_def position_None split: option.split)

lemma cast_vote_ok:
  assumes "votes_ok ms v" and "who \<in> set ms" and "who \<notin> set (if approve then ayes v else nays v)"
  shows "votes_ok ms (cast_vote who approve v)"
    and "set (ayes (cast_vote who approve v)) = (if approve then insert who (set (ayes v)) else set (ayes v) - {who})"
    and "set (nays (cast_vote who approve v)) = (if approve then set (nays v) - {who} else insert who (set (nays v)))"
  using assms drop_vote [of "ayes v" who] drop_vote [of "nays v" who]
  by (auto simp: cast_vote_def votes_ok_def Let_def)

lemma do_vote_eq:
  "do_vote who h i approve s =
     (case Voting s h of None \<Rightarrow> (s, Inl ProposalMissing)
      | Some v \<Rightarrow> if motion_index v \<noteq> i then (s, Inl WrongIndex)
        else if who \<in> set (if approve then ayes v else nays v) then (s, Inl DuplicateVote)
        else (s\<lparr>Voting := (Voting s)(h \<mapsto> cast_vote who approve v)\<rparr>, Inr (who \<notin> set (ayes v) \<union> set (nays v))))"
  by (auto simp: do_vote_def cast_vote_def Let_def position_None split: option.split)

lemma vote_success:
  assumes "vote origin h i approve s = (s', Inr pays)"
  obtains who v where "origin = Signed who" and "who \<in> set (Members s)" and "Voting s h = Some v"
    and "motion_index v = i" and "who \<notin> set (if approve then ayes v else nays v)"
    and "s' = s\<lparr>Voting := (Voting s)(h \<mapsto> cast_vote who approve v)\<rparr>"
    and "pays = (if who \<in> set (ayes v) \<union> set (nays v) then Pays_Yes else Pays_No)"
  using assms by (auto simp: vote_def do_vote_eq ensure_signed_Inr split: sum.splits option.splits if_splits)

lemma vote_failure: "vote origin h i approve s = (s', Inl e) \<Longrightarrow> s' = s"
  by (auto simp: vote_def do_vote_eq split: sum.splits option.splits if_splits)

lemma cast_vote_index [simp]: "motion_index (cast_vote who approve v) = motion_index v"
  by (simp add: cast_vote_def Let_def)

lemma vote_ok:
  assumes "collective_ok cfg s" and "vote origin h i approve s = (s', r)"
  shows "collective_ok cfg s'"
proof (cases r)
  case (Inl e)
  with assms show ?thesis using vote_failure by metis
next
  case (Inr pays)
  from assms(2) [unfolded Inr] obtain who v where w: "who \<in> set (Members s)" and v: "Voting s h = Some v"
    and n: "who \<notin> set (if approve then ayes v else nays v)"
    and s': "s' = s\<lparr>Voting := (Voting s)(h \<mapsto> cast_vote who approve v)\<rparr>"
    by (rule vote_success)
  have "votes_ok (Members s) v" using assms(1) v by (auto simp: collective_ok_def)
  note c = cast_vote_ok(1) [OF this w n]
  have "dom (Voting s') = dom (Voting s)" "index_of s' = index_of s"
    using v by (auto simp: s' index_of_def fun_eq_iff)
  then show ?thesis using assms(1) c v unfolding collective_ok_def by (simp add: s')
qed

lemma approve_ok:
  "collective_ok cfg s \<Longrightarrow> runtime_laws cfg \<Longrightarrow> collective_ok cfg (do_approve_proposal cfg n y h p s)"
  by (simp add: do_approve_proposal_def remove_proposal_ok runtime_lawsD(2))

lemma close_ok:
  assumes "collective_ok cfg s" and "runtime_laws cfg" and "close cfg origin h i w l s = (s', r)"
  shows "collective_ok cfg s'"
  using assms approve_ok [OF assms(1,2)] remove_proposal_ok [OF assms(1)]
  by (auto simp: close_def do_close_def close_approved_def do_disapprove_proposal_def Let_def
      split: sum.splits option.splits if_splits)

section \<open>Runs\<close>

inductive collective_step ::
  "('p, ('p, 'm) collective_scheme, 'k) CollectiveConfig \<Rightarrow> ('p, 'm) collective_scheme \<Rightarrow> ('p, 'm) collective_scheme \<Rightarrow> bool"
  for cfg
where
  SetMembers: "set_members cfg origin new prime c s = (s', r) \<Longrightarrow> length new \<le> unat (MaxMembers cfg) \<Longrightarrow>
    collective_step cfg s s'"
| Execute: "execute cfg origin p l s = (s', r) \<Longrightarrow> collective_step cfg s s'"
| Propose: "propose cfg origin t p l s = (s', r) \<Longrightarrow> ProposalCount s \<noteq> - 1 \<Longrightarrow> collective_step cfg s s'"
| Vote: "vote origin h i approve s = (s', r') \<Longrightarrow> collective_step cfg s s'"
| Disapprove: "disapprove_proposal origin h s = (s', r) \<Longrightarrow> collective_step cfg s s'"
| Close: "close cfg origin h i w l s = (s', r') \<Longrightarrow> collective_step cfg s s'"
| NextBlock: "collective_step cfg s (s\<lparr>collective_block := collective_block s + 1\<rparr>)"
| Elsewhere: "collective_step cfg s (collective.more_update f s)"

lemma step_ok:
  assumes "collective_step cfg s s'" and "runtime_laws cfg" and "collective_ok cfg s"
  shows "collective_ok cfg s'"
  using assms(1)
proof cases
  case (SetMembers origin new prime c r)
  then show ?thesis using set_members_ok [OF assms(3,2)] by blast
next
  case (Execute origin p l r)
  then show ?thesis using assms(3) runtime_lawsD(2) [OF assms(2,3)]
    by (auto simp: execute_def split: sum.splits if_splits)
next
  case (Propose origin t p l r)
  then show ?thesis using propose_ok [OF assms(3,2)] by blast
next
  case (Vote origin h i approve r)
  then show ?thesis using vote_ok [OF assms(3)] by blast
next
  case (Disapprove origin h r)
  then show ?thesis using assms(3) remove_proposal_ok [OF assms(3)]
    by (auto simp: disapprove_proposal_def do_disapprove_proposal_def split: if_splits)
next
  case (Close origin h i w l r)
  then show ?thesis using close_ok [OF assms(3,2)] by blast
qed (use assms(3) in \<open>simp_all add: collective_ok_def index_of_def [abs_def]\<close>)

lemma try_state_ok:
  assumes "collective_ok cfg s"
  shows "do_try_state cfg s"
proof -
  have d: "distinct (Proposals s)" "dom (ProposalOf s) = set (Proposals s)" "dom (Voting s) = set (Proposals s)"
    and v: "\<And>h v. Voting s h = Some v \<Longrightarrow> votes_ok (Members s) v \<and> motion_index v < ProposalCount s"
    and i: "inj_on (index_of s) (set (Proposals s))" and m: "length (Members s) \<le> unat (MaxMembers cfg)"
    using assms by (auto simp: collective_ok_def)
  have some: "\<exists>v. Voting s h = Some v" if "h \<in> set (Proposals s)" for h using d(3) that by auto
  define f where "f h = motion_index (the (Voting s h))" for h
  have idx: "index_of s h = Some (f h)" "f h < ProposalCount s" if "h \<in> set (Proposals s)" for h
    using some [OF that] v by (auto simp: index_of_def f_def)
  have f: "inj_on f (set (Proposals s))" using i idx(1) by (simp add: inj_on_def)
  have "(\<lambda>h. unat (f h)) ` set (Proposals s) \<subseteq> {..<unat (ProposalCount s)}"
    using idx(2) by (auto simp: word_less_nat_alt)
  moreover have "inj_on (\<lambda>h. unat (f h)) (set (Proposals s))" 
    using inj_onD [OF f] by (intro inj_onI) (simp add: word_unat_eq_iff [symmetric])
  ultimately have "card (set (Proposals s)) \<le> unat (ProposalCount s)"
    using card_inj_on_le [of "\<lambda>h. unat (f h)" "set (Proposals s)" "{..<unat (ProposalCount s)}"] by simp
  then have count: "length (Proposals s) \<le> unat (ProposalCount s)" by (simp add: distinct_card d(1))
  have "map motion_index (List.map_filter (Voting s) (Proposals s)) = map f (Proposals s)"
    using some by (auto simp: List.map_filter_def f_def filter_id_conv intro!: map_cong)
  then have "distinct (map motion_index (List.map_filter (Voting s) (Proposals s)))"
    using d(1) f by (simp add: distinct_map)
  moreover have "length (ayes u) + length (nays u) \<le> unat (MaxMembers cfg)" if "Voting s h = Some u" for h u
  proof -
    have "distinct (ayes u @ nays u)" "set (ayes u @ nays u) \<subseteq> set (Members s)"
      using v [OF that] by (auto simp: votes_ok_def)
    then have "length (ayes u @ nays u) \<le> card (set (Members s))" by (metis List.finite_set card_mono distinct_card)
    also have "\<dots> \<le> length (Members s)" by (rule card_length)
    finally show ?thesis using m by simp
  qed
  ultimately show ?thesis
    using assms count d by (auto simp: do_try_state_def collective_ok_def distinct_card split: option.split)
qed

definition empty_collective :: "'m \<Rightarrow> ('p, 'm) collective_scheme" where
  "empty_collective r = \<lparr>collective_block = 0, Proposals = [], ProposalOf = Map.empty, Voting = Map.empty,
     ProposalCount = 0, Members = [], Prime = None, \<dots> = r\<rparr>"

lemma genesis_ok: "genesis_build cfg ms (empty_collective r) = Some s \<Longrightarrow> collective_ok cfg s"
  by (auto simp: genesis_build_def initialize_members_def empty_collective_def collective_ok_def split: if_splits)

text \<open>
  C24: the council stays consistent. From any genesis and through any sequence of its calls, successful
  or not, of blocks and of changes elsewhere, the lists and maps of motions agree, votes are votes of
  members and cast once, the prime is a member; and the state check that the pallet defines for itself
  holds. This is for a runtime whose calls keep the pallet's storage intact, while the number of
  members set by the root stays within the limit and fewer than \<open>2 ^ 32\<close> motions have been made.
\<close>

theorem council_stays_consistent:
  assumes "runtime_laws cfg" and "genesis_build cfg ms (empty_collective r) = Some s" and "(collective_step cfg)\<^sup>*\<^sup>* s s'"
  shows "collective_ok cfg s' \<and> do_try_state cfg s'"
proof -
  from assms(3) have "collective_ok cfg s'"
    by (induction rule: rtranclp_induct) (use genesis_ok [OF assms(2)] step_ok assms(1) in blast)+
  then show ?thesis using try_state_ok by blast
qed

section \<open>Votes and closing\<close>

text \<open>
  One member, one vote. A successful vote was signed by a member for the motion with the given hash and
  index; afterwards the member is on the chosen side and not on the other, everyone else is where they were,
  nothing but this motion changed, and the fee is waived exactly for a member that had not voted.
\<close>

lemma vote_counts_once:
  assumes "collective_ok cfg s" and "vote origin h i approve s = (s', Inr pays)"
  shows "\<exists>who v v'. origin = Signed who \<and> who \<in> set (Members s) \<and> Voting s h = Some v \<and> motion_index v = i \<and>
    s' = s\<lparr>Voting := (Voting s)(h \<mapsto> v')\<rparr> \<and> v' = v\<lparr>ayes := ayes v', nays := nays v'\<rparr> \<and> votes_ok (Members s) v' \<and>
    set (ayes v') = (if approve then insert who (set (ayes v)) else set (ayes v) - {who}) \<and>
    set (nays v') = (if approve then set (nays v) - {who} else insert who (set (nays v))) \<and>
    (pays = Pays_No \<longleftrightarrow> who \<notin> set (ayes v) \<union> set (nays v))"
proof -
  from assms(2) obtain who v where o: "origin = Signed who" "who \<in> set (Members s)" "Voting s h = Some v"
    "motion_index v = i" "who \<notin> set (if approve then ayes v else nays v)"
    "s' = s\<lparr>Voting := (Voting s)(h \<mapsto> cast_vote who approve v)\<rparr>"
    "pays = (if who \<in> set (ayes v) \<union> set (nays v) then Pays_Yes else Pays_No)"
    by (rule vote_success)
  have "votes_ok (Members s) v" using assms(1) o(3) by (auto simp: collective_ok_def)
  note c = cast_vote_ok [OF this o(2,5)]
  have "cast_vote who approve v = v\<lparr>ayes := ayes (cast_vote who approve v), nays := nays (cast_vote who approve v)\<rparr>"
    by (simp add: cast_vote_def Let_def)
  with o c show ?thesis by (intro exI [of _ who] exI [of _ v] exI [of _ "cast_vote who approve v"]) simp
qed

lemma tallies:
  assumes "collective_ok cfg s" and "Voting s h = Some v"
  shows "length (ayes v) + length (nays v) \<le> length (Members s)"
    and "unat (of_nat (length (ayes v)) :: u32) = length (ayes v)"
    and "unat (of_nat (length (nays v)) :: u32) = length (nays v)"
    and "unat (of_nat (length (Members s)) :: u32) = length (Members s)"
    and "card (set (ayes v)) = length (ayes v)" and "card (set (nays v)) = length (nays v)"
    and "set (ayes v) \<union> set (nays v) \<subseteq> set (Members s)"
proof -
  have d: "distinct (ayes v @ nays v)" and sub: "set (ayes v @ nays v) \<subseteq> set (Members s)"
    and m: "length (Members s) \<le> unat (MaxMembers cfg)"
    using assms by (auto simp: collective_ok_def votes_ok_def)
  have "length (ayes v @ nays v) \<le> card (set (Members s))" using d sub by (metis List.finite_set card_mono distinct_card)
  also have "\<dots> \<le> length (Members s)" by (rule card_length)
  finally show le: "length (ayes v) + length (nays v) \<le> length (Members s)" by simp
  have "length (Members s) < 2 ^ 32" using m unat_lt_exp [of "MaxMembers cfg"] by simp
  then show "unat (of_nat (length (ayes v)) :: u32) = length (ayes v)"
    "unat (of_nat (length (nays v)) :: u32) = length (nays v)"
    "unat (of_nat (length (Members s)) :: u32) = length (Members s)"
    using le by (simp_all add: unat_of_nat)
  show "card (set (ayes v)) = length (ayes v)" "card (set (nays v)) = length (nays v)"
    "set (ayes v) \<union> set (nays v) \<subseteq> set (Members s)"
    using d sub by (simp_all add: distinct_card)
qed

lemma final_tally:
  assumes "collective_ok cfg s" and "Voting s h = Some v"
  shows "unat (final_yes_votes cfg v s) =
    (if DefaultVote cfg (map_option (\<lambda>who. who \<in> set (ayes v)) (Prime s)) (of_nat (length (ayes v)))
         (of_nat (length (nays v))) (of_nat (length (Members s)))
     then length (Members s) - length (nays v) else length (ayes v))"
proof -
  note t = tallies [OF assms]
  have "(of_nat (length (nays v)) :: u32) \<le> of_nat (length (Members s))" using t by (simp add: word_le_nat_alt)
  then have "unat (of_nat (length (Members s)) - of_nat (length (nays v)) :: u32) = length (Members s) - length (nays v)"
    using t by (simp add: unat_sub)
  then show ?thesis using t by (simp add: final_yes_votes_def Let_def)
qed

lemma close_executes:
  assumes "collective_ok cfg s" and "close cfg origin h i w l s = (s', Inr Pays_Yes)"
  shows "\<exists>who v p y. origin = Signed who \<and> Voting s h = Some v \<and> motion_index v = i \<and> ProposalOf s h = Some p \<and>
    s' = remove_proposal h (dispatch_proposal cfg (OriginMembers y (of_nat (length (Members s)))) p s) \<and>
    motion_threshold v \<le> y \<and> set (ayes v) \<union> set (nays v) \<subseteq> set (Members s) \<and>
    (unat y = card (set (ayes v)) \<or>
     motion_end v \<le> collective_block s \<and> unat y = length (Members s) - card (set (nays v)) \<and>
     DefaultVote cfg (map_option (\<lambda>who. who \<in> set (ayes v)) (Prime s)) (of_nat (length (ayes v)))
       (of_nat (length (nays v))) (of_nat (length (Members s))))"
proof -
  from assms(2) obtain who v where o: "origin = Signed who" "Voting s h = Some v" "motion_index v = i"
    by (auto simp: close_def do_close_def ensure_signed_Inr split: sum.splits option.splits if_splits)
  note t = tallies [OF assms(1) o(2)] and f = final_tally [OF assms(1) o(2)]
  have "\<exists>y. close_approved cfg h l w y s = (s', Inr Pays_Yes) \<and> motion_threshold v \<le> y \<and>
      (y = of_nat (length (ayes v)) \<or> motion_end v \<le> collective_block s \<and> y = final_yes_votes cfg v s)"
    using assms(2) o by (auto simp: close_def do_close_def ensure_signed_def Let_def split: if_splits)
  then obtain y where y: "close_approved cfg h l w y s = (s', Inr Pays_Yes)" "motion_threshold v \<le> y"
    "y = of_nat (length (ayes v)) \<or> motion_end v \<le> collective_block s \<and> y = final_yes_votes cfg v s" by blast
  from y(1) obtain p where "ProposalOf s h = Some p"
    "s' = remove_proposal h (dispatch_proposal cfg (OriginMembers y (of_nat (length (Members s)))) p s)"
    by (auto simp: close_approved_def validate_and_get_proposal_def do_approve_proposal_def
        split: option.splits sum.splits if_splits)
  with o y t f show ?thesis
    by (intro exI [of _ who] exI [of _ v] exI [of _ p] exI [of _ y]) (auto split: if_splits)
qed

text \<open>
  A motion passes by votes only. If closing a motion executes it, the proposal that was stored under the
  hash is dispatched with the number of approvals \<open>y\<close> out of the number of seats, and the motion is gone; \<open>y\<close>
  reaches the threshold, and it is the number of different members that voted for the motion, or, after the
  end of the voting and when the default vote is yes, the number of seats that did not vote against it.
\<close>

lemma motion_passes_by_votes:
  assumes "collective_ok cfg s" and "close cfg origin h i w l s = (s', Inr Pays_Yes)"
  shows "\<exists>who v p y. origin = Signed who \<and> Voting s h = Some v \<and> motion_index v = i \<and> ProposalOf s h = Some p \<and>
    s' = remove_proposal h (dispatch_proposal cfg (OriginMembers y (of_nat (length (Members s)))) p s) \<and>
    motion_threshold v \<le> y \<and> set (ayes v) \<union> set (nays v) \<subseteq> set (Members s) \<and>
    (unat y = card (set (ayes v)) \<or>
     motion_end v \<le> collective_block s \<and> unat y = length (Members s) - card (set (nays v)) \<and>
     DefaultVote cfg (map_option (\<lambda>who. who \<in> set (ayes v)) (Prime s)) (of_nat (length (ayes v)))
       (of_nat (length (nays v))) (of_nat (length (Members s))))"
  by (rule close_executes [OF assms])

text \<open>
  C26: every motion can be closed. After the end of its voting, anyone who gives its index and sufficient bounds
  for length and weight closes it, whatever the votes are: the call succeeds and the motion is gone.
\<close>

theorem motion_can_be_closed:
  assumes "collective_ok cfg s" and "Voting s h = Some v" and "motion_end v \<le> collective_block s"
    and "ProposalOf s h = Some p" and "stored_size cfg p \<le> l" and "all_lte cfg (call_weight cfg p) w"
  shows "\<exists>s' pays. close cfg (Signed who) h (motion_index v) w l s = (s', Inr pays) \<and>
    Voting s' h = None \<and> ProposalOf s' h = None \<and> h \<notin> set (Proposals s')"
proof -
  have gone: "Voting (remove_proposal h u) h = None \<and> ProposalOf (remove_proposal h u) h = None \<and>
      h \<notin> set (Proposals (remove_proposal h u))" for u :: "('a, 'b) collective_scheme"
    by (simp add: remove_proposal_def)
  have "validate_and_get_proposal cfg h l w s = Inr p" using assms(4-6) by (simp add: validate_and_get_proposal_def)
  then show ?thesis
    using assms(2,3) gone
    by (simp add: close_def ensure_signed_def do_close_def close_approved_def do_disapprove_proposal_def
        do_approve_proposal_def Let_def)
qed

lemma proportion_nat:
  assumes "unat n \<le> M" and "unat y \<le> M" and "unat N * M < 2 ^ 32" and "unat D * M < 2 ^ 32"
  shows "EnsureProportionAtLeast N D (OriginMembers y n) \<longleftrightarrow> unat N * unat n \<le> unat D * unat y"
proof -
  have "unat N * unat n < 2 ^ 32" "unat D * unat y < 2 ^ 32"
    using mult_le_mono2 [OF assms(1), of "unat N"] mult_le_mono2 [OF assms(2), of "unat D"] assms(3,4) by linarith+
  then have "unat (y * D) = unat y * unat D" "unat (N * n) = unat N * unat n"
    by (simp_all add: unat_word_ariths(2) mult.commute)
  then show ?thesis by (simp add: EnsureProportionAtLeast_def word_le_nat_alt mult.commute)
qed

text \<open>
  C25: a privileged call needs its majority of the council. In a council whose default vote is that of the
  prime, take a motion whose call has an effect for at least N of D parts of the council only (the runtime
  has calls for two thirds and calls for four fifths). If closing this motion does anything but remove
  it, then at least N of D parts of the seats were votes of different members for it; or the voting had
  ended, the prime had voted for it, and at most the other D - N parts of the seats had voted against it.
  Seats times D fit in 32 bits.
\<close>

theorem privileged_call_needs_supermajority:
  assumes "collective_ok cfg s" and "DefaultVote cfg = PrimeDefaultVote"
    and "N \<le> D" and "unat D * unat (MaxMembers cfg) < 2 ^ 32" and "ProposalOf s h = Some p"
    and "\<And>o'. dispatch_proposal cfg o' p s \<noteq> s \<Longrightarrow> EnsureProportionAtLeast N D o'"
    and "close cfg origin h i w l s = (s', Inr Pays_Yes)" and "s' \<noteq> remove_proposal h s"
  shows "\<exists>v. Voting s h = Some v \<and> set (ayes v) \<union> set (nays v) \<subseteq> set (Members s) \<and>
    (unat N * length (Members s) \<le> unat D * card (set (ayes v)) \<or>
     motion_end v \<le> collective_block s \<and> set_option (Prime s) \<subseteq> set (ayes v) \<and> Prime s \<noteq> None \<and>
     unat D * card (set (nays v)) \<le> (unat D - unat N) * length (Members s))"
proof -
  from close_executes [OF assms(1,7)] obtain who v y where v: "Voting s h = Some v"
    and s': "s' = remove_proposal h (dispatch_proposal cfg (OriginMembers y (of_nat (length (Members s)))) p s)"
    and sub: "set (ayes v) \<union> set (nays v) \<subseteq> set (Members s)"
    and y: "unat y = card (set (ayes v)) \<or>
     motion_end v \<le> collective_block s \<and> unat y = length (Members s) - card (set (nays v)) \<and>
     PrimeDefaultVote (map_option (\<lambda>who. who \<in> set (ayes v)) (Prime s)) (of_nat (length (ayes v)))
       (of_nat (length (nays v))) (of_nat (length (Members s)))"
    unfolding assms(2,5) by blast
  note t = tallies [OF assms(1) v]
  have m: "length (Members s) \<le> unat (MaxMembers cfg)" using assms(1) by (simp add: collective_ok_def)
  have nd: "unat N \<le> unat D" using assms(3) by (simp add: word_le_nat_alt)
  have "EnsureProportionAtLeast N D (OriginMembers y (of_nat (length (Members s))))"
    using assms(6,8) s' by metis
  moreover have "unat N * unat (MaxMembers cfg) < 2 ^ 32"
    using mult_le_mono1 [OF nd, of "unat (MaxMembers cfg)"] assms(4) by linarith
  moreover have "unat y \<le> unat (MaxMembers cfg)" using y t m by auto
  ultimately have q: "unat N * length (Members s) \<le> unat D * unat y"
    using proportion_nat [of "of_nat (length (Members s))" "unat (MaxMembers cfg)" y N D] t m assms(4) by simp
  from y show ?thesis
  proof
    assume "unat y = card (set (ayes v))"
    with q v sub show ?thesis by auto
  next
    assume d: "motion_end v \<le> collective_block s \<and> unat y = length (Members s) - card (set (nays v)) \<and>
     PrimeDefaultVote (map_option (\<lambda>who. who \<in> set (ayes v)) (Prime s)) (of_nat (length (ayes v)))
       (of_nat (length (nays v))) (of_nat (length (Members s)))"
    then have "set_option (Prime s) \<subseteq> set (ayes v) \<and> Prime s \<noteq> None" by (auto simp: PrimeDefaultVote_def)
    moreover have "card (set (nays v)) \<le> length (Members s)" using t by auto
    then have "unat D * card (set (nays v)) \<le> (unat D - unat N) * length (Members s)"
      using q d by (simp add: diff_mult_distrib diff_mult_distrib2 le_diff_conv2)
    ultimately show ?thesis using d v sub by auto
  qed
qed

section \<open>A concrete council\<close>

text \<open>
  A runtime whose only calls replace the members of the council, for four fifths of it; the council of 1, 2
  and 3, where 1 moves that 3 leaves.
\<close>

definition members_diff :: "account_id list \<Rightarrow> account_id list \<Rightarrow> account_id list \<times> account_id list" where
  "members_diff new old = (filter (\<lambda>a. a \<notin> set old) new, filter (\<lambda>a. a \<notin> set new) old)"

definition idle_council :: "(account_id list, account_id list collective, nat) CollectiveConfig" where
  "idle_council = \<lparr>MotionDuration = 100, MaxProposals = 4, MaxMembers = 5, DefaultVote = PrimeDefaultVote,
     SetMembersOrigin = (\<lambda>o'. o' = Root), MaxProposalWeight = 10, call_weight = length, all_lte = (\<le>),
     encoded_size = of_nat \<circ> length, stored_size = of_nat \<circ> length, hash_of = of_nat \<circ> length,
     dispatch_proposal = (\<lambda>o' p s. s), compute_members_diff_sorted = members_diff\<rparr>"

definition example_council :: "(account_id list, account_id list collective, nat) CollectiveConfig" where
  "example_council = idle_council\<lparr>dispatch_proposal := (\<lambda>o' p s.
     if EnsureProportionAtLeast 4 5 o' \<and> length p \<le> 5 then fst (set_members idle_council Root p None 5 s) else s)\<rparr>"

lemma idle_council_ok: "collective_ok idle_council s = collective_ok example_council s"
  by (simp add: collective_ok_def example_council_def idle_council_def)

lemma example_council_laws: "runtime_laws example_council"
proof -
  have idle: "runtime_laws idle_council"
    by (auto simp: runtime_laws_def idle_council_def members_diff_def)
  have "collective_ok example_council (fst (set_members idle_council Root p None 5 s))"
    if "collective_ok example_council s" "length p \<le> 5" for s p
    using set_members_ok [of idle_council s p Root None 5] that idle unfolding idle_council_ok
    by (simp add: idle_council_def split_beta) (metis prod.collapse)
  then show ?thesis
    using idle by (auto simp: runtime_laws_def example_council_def idle_council_def)
qed

definition council_start :: "account_id list collective" where
  "council_start = (empty_collective ())\<lparr>Members := [1, 2, 3]\<rparr>"

definition council_voting :: "account_id list \<Rightarrow> account_id list collective" where
  "council_voting yes = council_start\<lparr>Proposals := [2], ProposalOf := [2 \<mapsto> [1, 2]], ProposalCount := 1,
     Voting := [2 \<mapsto> \<lparr>motion_index = 0, motion_threshold = 2, ayes = yes, nays = [], motion_end = 100\<rparr>]\<rparr>"

lemmas council_defs = council_voting_def council_start_def empty_collective_def example_council_def idle_council_def

lemma council_genesis: "genesis_build example_council [3, 1, 2] (empty_collective ()) = Some council_start"
  by (simp add: genesis_build_def initialize_members_def council_defs word_le_nat_alt)

lemma council_proposes: "propose example_council (Signed 1) 2 [1, 2] 10 council_start = (council_voting [], Inr ())"
  by (simp add: propose_def ensure_signed_def do_propose_proposed_def check_proposal_def council_defs Let_def)

lemma council_votes:
  "vote (Signed 1) 2 0 True (council_voting []) = (council_voting [1], Inr Pays_No)"
  "vote (Signed 2) 2 0 True (council_voting [1]) = (council_voting [1, 2], Inr Pays_No)"
  "vote (Signed 3) 2 0 True (council_voting [1, 2]) = (council_voting [1, 2, 3], Inr Pays_No)"
  by (simp_all add: vote_def ensure_signed_def do_vote_def council_defs)

lemma council_ok:
  "collective_ok example_council (council_voting [])" "collective_ok example_council (council_voting [1, 2, 3])"
proof -
  have "collective_ok example_council council_start" using genesis_ok [OF council_genesis] .
  from propose_ok [OF this example_council_laws _ council_proposes]
  show c: "collective_ok example_council (council_voting [])" by (simp add: council_defs)
  show "collective_ok example_council (council_voting [1, 2, 3])"
    using vote_ok [OF vote_ok [OF vote_ok [OF c council_votes(1)] council_votes(2)] council_votes(3)] .
qed

definition council_closed :: "account_id list collective" where
  "council_closed = council_start\<lparr>ProposalCount := 1, Members := [1, 2]\<rparr>"

lemma council_closes:
  "close example_council (Signed 9) 2 0 10 10 (council_voting [1, 2, 3]) = (council_closed, Inr Pays_Yes)"
  by (simp add: close_def ensure_signed_def do_close_def close_approved_def validate_and_get_proposal_def
      do_approve_proposal_def remove_proposal_def EnsureProportionAtLeast_def set_members_def change_members_sorted_def
      members_diff_def council_closed_def council_defs Let_def)

text \<open>Applied: to the proposal, to the first vote, and to closing with and without all votes.\<close>

theorem council_stays_consistent_witness: "do_try_state example_council (council_voting [])"
  using council_stays_consistent [OF example_council_laws council_genesis,
      OF r_into_rtranclp [of "collective_step example_council", OF collective_step.Propose [OF council_proposes]]]
  by (simp add: council_defs)

lemma council_motion:
  "Voting (council_voting yes) 2 =
     Some \<lparr>motion_index = 0, motion_threshold = 2, ayes = yes, nays = [], motion_end = 100\<rparr>"
  "Members (council_voting yes) = [1, 2, 3]"
  by (simp_all add: council_voting_def council_start_def)

lemma vote_counts_once_example:
  "\<exists>v. Voting (council_voting [1]) 2 = Some v \<and> set (ayes v) = insert 1 {} \<and> votes_ok [1, 2, 3] v"
proof -
  from vote_counts_once [OF council_ok(1) council_votes(1)]
  obtain v v' where v: "Voting (council_voting []) 2 = Some v"
    and v': "council_voting [1] = council_voting []\<lparr>Voting := (Voting (council_voting []))(2 \<mapsto> v')\<rparr>"
    "votes_ok (Members (council_voting [])) v'" "set (ayes v') = insert 1 (set (ayes v))" by auto
  have "Voting (council_voting [1]) 2 = Some v'" by (simp add: v')
  with v v' show ?thesis by (auto simp: council_motion)
qed

lemma motion_passes_by_votes_example:
  "\<exists>p y. ProposalOf (council_voting [1, 2, 3]) 2 = Some p \<and> 2 \<le> y \<and>
     council_closed = remove_proposal 2 (dispatch_proposal example_council (OriginMembers y 3) p (council_voting [1, 2, 3]))"
proof -
  have "length (Members (council_voting [1, 2, 3])) = 3" by (simp add: council_motion)
  with motion_passes_by_votes [OF council_ok(2) council_closes] show ?thesis by (auto simp: council_motion)
qed

theorem motion_can_be_closed_witness:
  "\<exists>s' pays. close example_council (Signed 9) 2 0 10 10 ((council_voting [])\<lparr>collective_block := 100\<rparr>) = (s', Inr pays) \<and>
     Voting s' 2 = None"
proof -
  let ?s = "(council_voting [])\<lparr>collective_block := 100\<rparr>"
  have ok: "collective_ok example_council ?s" using council_ok(1) by (simp add: collective_ok_def index_of_def [abs_def])
  have "Voting ?s 2 = Some \<lparr>motion_index = 0, motion_threshold = 2, ayes = [], nays = [], motion_end = 100\<rparr>"
    "ProposalOf ?s 2 = Some [1, 2]" by (simp_all add: council_defs)
  from motion_can_be_closed [OF ok this(1) _ this(2), of 10 10 9] show ?thesis
    by (auto simp: example_council_def idle_council_def)
qed

theorem privileged_call_needs_supermajority_witness:
  "\<exists>v. Voting (council_voting [1, 2, 3]) 2 = Some v \<and> 4 * (3 :: nat) \<le> 5 * card (set (ayes v))"
proof -
  let ?s = "council_voting [1, 2, 3]"
  have ne: "council_closed \<noteq> remove_proposal 2 ?s"
    by (simp add: council_closed_def council_defs remove_proposal_def)
  have dis: "EnsureProportionAtLeast 4 5 o'" if "dispatch_proposal example_council o' [1, 2] ?s \<noteq> ?s" for o'
    using that by (auto simp: example_council_def split: if_splits)
  have c: "DefaultVote example_council = PrimeDefaultVote" "unat (5 :: u32) * unat (MaxMembers example_council) < 2 ^ 32"
    "(4 :: u32) \<le> 5" by (simp_all add: example_council_def idle_council_def)
  have "ProposalOf ?s 2 = Some [1, 2]" "Prime ?s = None" by (simp_all add: council_defs)
  then obtain v where "Voting ?s 2 = Some v" "unat (4 :: u32) * length (Members ?s) \<le> unat (5 :: u32) * card (set (ayes v))"
    using privileged_call_needs_supermajority [OF council_ok(2) c(1,3,2) _ dis council_closes ne] by blast
  then show ?thesis by (auto simp: council_motion)
qed

end
