(* ===== verification/Subnet_Lifecycle.thy ===== *)
theory Subnet_Lifecycle
  imports Consensus_Submission
begin

text \<open>
  Subnets (\<open>lib.rs\<close>, \<open>utilities/subnet.rs\<close>): what a registration costs and how it is made, activation, and
  removal with everything that is stored for the subnet; the bootnodes. The weights the source returns
  are left out; the transfer to the treasury is the framework's, a parameter.
\<close>

section \<open>Storage\<close>

record RegistrationSubnetData =
  rsd_name :: bytes
  rsd_repo :: bytes
  rsd_description :: bytes
  rsd_misc :: bytes
  rsd_min_stake :: u128
  rsd_max_stake :: u128
  rsd_delegate_stake_percentage :: u128
  rsd_initial_validators :: "(u32, u32) btree_map"
  rsd_bootnodes :: "(PeerId \<times> bytes) list"

datatype SubnetRemovalReason =
    MinReputation | MinSubnetNodesReason | MinSubnetDelegateStake | Council | EnactmentPeriod | MaxSubnetsReason
  | OwnerReason | PauseExpired

record 'c network_subnets = "'c network_rewards" +
  TotalSubnetUids :: u32
  TotalSubnets :: u32
  MaxSubnets :: u32
  MaxBootnodes :: u32
  SubnetName :: "bytes \<rightharpoonup> u32"
  SubnetRepo :: "bytes \<rightharpoonup> u32"
  SubnetBootnodes :: "u32 \<Rightarrow> PeerId \<rightharpoonup> bytes"
  SubnetBootnodeAccess :: "u32 \<Rightarrow> account_id set"
  PendingSubnetOwner :: "u32 \<rightharpoonup> account_id"
  PreviousSubnetPauseEpoch :: "u32 \<Rightarrow> u32"
  LastSubnetDelegateStakeRewardsUpdate :: "u32 \<Rightarrow> u32"
  SubnetIdFriendlyUid :: "u32 \<rightharpoonup> u32"
  FriendlyUidSubnetId :: "u32 \<rightharpoonup> u32"
  LastRegistrationCost :: u128
  MinRegistrationCost :: u128
  LastSubnetRegistrationBlock :: u32
  RegistrationCostDecayBlocks :: u32
  RegistrationCostAlpha :: u128
  NewRegistrationCostMultiplier :: u128
  RequireSubnetRegistrationWhitelist :: bool
  SubnetRegistrationWhitelist :: "account_id \<times> u32 \<Rightarrow> bool"
  MinSubnetReputation :: u128
  MinSubnetRegistrationEpochs :: u32
  PrevSubnetActivationEpoch :: u32
  MinSubnetMinStake :: u128
  MaxSubnetMinStake :: u128
  NetworkMaxStakeBalance :: u128
  MinDelegateStakePercentage :: u128

text \<open>The defaults of the maps that a removal resets.\<close>

definition DefaultSubnetReputationFactors :: SubnetReputationFactors where
  "DefaultSubnetReputationFactors =
     \<lparr>absent_decrease = 100000000000000000, included_increase = 100000000000000000,
      below_min_weight_decrease = 100000000000000000, non_attestor_decrease = 100000000000000000,
      non_consensus_attestor_decrease = 100000000000000000, validator_absent_decrease = 50000000000000000,
      validator_non_consensus_decrease = 50000000000000000\<rparr>"

definition DefaultSubnetReputationFactorSchedule :: SubnetReputationFactorSchedule where
  "DefaultSubnetReputationFactorSchedule = \<lparr>srf_current = DefaultSubnetReputationFactors, srf_pending = None\<rparr>"

definition DefaultChurnLimit :: u32 where
  "DefaultChurnLimit = 4"

definition DefaultChurnLimitMultiplier :: u32 where
  "DefaultChurnLimitMultiplier = 1"

definition DefaultMinRegistrationQueueEpochs :: u32 where
  "DefaultMinRegistrationQueueEpochs = 3"

definition DefaultIdleClassificationEpochs :: u32 where
  "DefaultIdleClassificationEpochs = 2"

definition DefaultIncludedClassificationEpochs :: u32 where
  "DefaultIncludedClassificationEpochs = 2"

definition DefaultSubnetMinStakeBalance :: u128 where
  "DefaultSubnetMinStakeBalance = 100 * 10 ^ 18"

definition DefaultNetworkMaxStakeBalance :: u128 where
  "DefaultNetworkMaxStakeBalance = 1000 * 10 ^ 18"

definition DefaultDelegateStakeRewardsPercentage :: u128 where
  "DefaultDelegateStakeRewardsPercentage = 100000000000000000"

definition DefaultMaxMaxRegisteredNodes :: u32 where
  "DefaultMaxMaxRegisteredNodes = 64"

definition DefaultNodeBurnRateAlpha :: u128 where
  "DefaultNodeBurnRateAlpha = 500000000000000000"

definition DefaultCurrentNodeBurnRate :: u128 where
  "DefaultCurrentNodeBurnRate = 1000000000000000000"

definition DefaultMinSubnetNodeReputation :: u128 where
  "DefaultMinSubnetNodeReputation = 100000000000000000"

definition is_subnet_owner :: "account_id \<Rightarrow> u32 \<Rightarrow> ('c, 'm) network_rewards_scheme \<Rightarrow> bool option" where
  "is_subnet_owner who subnet_id s = map_option (\<lambda>the_owner. the_owner = who) (SubnetOwner s subnet_id)"

section \<open>The cost of a registration\<close>

record 'f F64Costs = "'f F64Curves" +
  f64_min :: "'f \<Rightarrow> 'f \<Rightarrow> 'f"
  libm_log :: "'f \<Rightarrow> 'f"
  libm_ceil :: "'f \<Rightarrow> 'f"
  f64_as_u32 :: "'f \<Rightarrow> u32"

definition get_current_registration_cost ::
  "('f, 'x) F64Costs_scheme \<Rightarrow> u32 \<Rightarrow> ('c, 'm) network_subnets_scheme \<Rightarrow> u128 option" where
  "get_current_registration_cost F block s =
     (let last_registration_cost = LastRegistrationCost s;
          min_price = MinRegistrationCost s;
          last_updated = LastSubnetRegistrationBlock s;
          decay_blocks = RegistrationCostDecayBlocks s;
          alpha = RegistrationCostAlpha s;
          delta_blocks = saturating_sub block last_updated in
      if decay_blocks = 0 \<or> last_registration_cost \<le> min_price then Some (max last_registration_cost min_price)
      else if delta_blocks \<ge> decay_blocks then Some min_price
      else
      let diff = saturating_sub last_registration_cost min_price;
          remaining_frac = percent_div (ucast (saturating_sub decay_blocks delta_blocks)) (ucast decay_blocks);
          concave_factor = pow_f64 F (get_percent_as_f64 F remaining_frac) (get_percent_as_f64 F alpha);
          safe_diff_f64 = f64_min F (f64_of_u128 F diff) (f64_div F (f64_of_u128 F (- 1)) concave_factor) in
      case f64_clamp F (f64_mul F safe_diff_f64 concave_factor) (f64_zero F) (f64_of_u128 F (- 1)) of
        None \<Rightarrow> None
      | Some clamped \<Rightarrow>
          let addend = f64_as_u128 F clamped;
              decayed = saturating_add min_price addend
          in Some (max (min decayed (- 1)) min_price))"

definition update_last_registration_cost ::
  "u128 \<Rightarrow> u32 \<Rightarrow> ('c, 'm) network_subnets_scheme \<Rightarrow> ('c, 'm) network_subnets_scheme" where
  "update_last_registration_cost current_cost block s =
     (let new_cost = percent_mul current_cost (NewRegistrationCostMultiplier s)
      in s\<lparr>LastRegistrationCost := new_cost, LastSubnetRegistrationBlock := block\<rparr>)"

record 'c Treasury =
  TreasuryAccount :: account_id
  currency_transfer :: "'c \<Rightarrow> account_id \<Rightarrow> account_id \<Rightarrow> u128 \<Rightarrow> Error + 'c"

definition send_to_treasury ::
  "'c Treasury \<Rightarrow> account_id \<Rightarrow> u128 \<Rightarrow> ('c, 'm) network_scheme \<Rightarrow> Error + ('c, 'm) network_scheme" where
  "send_to_treasury T who amount s =
     (case currency_transfer T (balances s) who (TreasuryAccount T) amount of Inl e \<Rightarrow> Inl e
      | Inr c \<Rightarrow> Inr (s\<lparr>balances := c\<rparr>))"

section \<open>Registration\<close>

definition get_total_subnets :: "('c, 'm) network_scheme \<Rightarrow> u32" where
  "get_total_subnets s = of_nat (card (dom (SubnetsData s)))"

definition ensure_subnet_registration_allowed ::
  "account_id \<Rightarrow> u32 \<Rightarrow> ('c, 'm) network_subnets_scheme \<Rightarrow> Error + unit" where
  "ensure_subnet_registration_allowed coldkey subnet_id s =
     (if \<not> RequireSubnetRegistrationWhitelist s then Inr ()
      else if \<not> SubnetRegistrationWhitelist s (coldkey, subnet_id) then Inl (SubnetErr ColdkeyRegistrationWhitelist)
      else Inr ())"

fun check_bootnodes :: "(PeerId \<times> bytes) list \<Rightarrow> (Error + unit) option" where
  "check_bootnodes [] = Some (Inr ())"
| "check_bootnodes ((the_peer, multiaddr) # bootnodes) =
     (case do_verify_multiaddr multiaddr of None \<Rightarrow> None
      | Some (Inl e) \<Rightarrow> Some (Inl e)
      | Some (Inr _) \<Rightarrow>
          if \<not> validate_peer_id the_peer then Some (Inl (SubnetErr InvalidBootnodePeerId))
          else check_bootnodes bootnodes)"

definition check_subnet_parameters ::
  "RegistrationSubnetData \<Rightarrow> ('c, 'm) network_subnets_scheme \<Rightarrow> Error + unit" where
  "check_subnet_parameters data s =
     (if \<not> (rsd_min_stake data \<ge> MinSubnetMinStake s \<and> rsd_min_stake data \<le> MaxSubnetMinStake s)
      then Inl (SubnetErr InvalidSubnetMinStake)
      else if \<not> rsd_max_stake data \<le> NetworkMaxStakeBalance s then Inl (SubnetErr InvalidSubnetMaxStake)
      else if \<not> rsd_min_stake data \<le> rsd_max_stake data then Inl (SubnetErr InvalidSubnetStakeParameters)
      else if \<not> (rsd_delegate_stake_percentage data \<ge> MinDelegateStakePercentage s
                 \<and> rsd_delegate_stake_percentage data \<le> MaxDelegateStakePercentage s
                 \<and> rsd_delegate_stake_percentage data \<le> percentage_factor_as_u128)
      then Inl (SubnetErr InvalidMinDelegateStakePercentage)
      else if \<not> ((\<forall>e \<in> set (rsd_initial_validators data). snd e \<ge> 1)
                 \<and> of_nat (length (rsd_initial_validators data)) \<ge> MinSubnetNodes s)
      then Inl (SubnetErr InvalidSubnetRegistrationInitialColdkeys)
      else Inr ())"

definition check_subnet_registration ::
  "account_id \<Rightarrow> u32 \<Rightarrow> RegistrationSubnetData \<Rightarrow> ('c, 'm) network_subnets_scheme \<Rightarrow> (Error + unit) option" where
  "check_subnet_registration who subnet_id data s =
     (case ensure_subnet_registration_allowed who subnet_id s of Inl e \<Rightarrow> Some (Inl e) | Inr _ \<Rightarrow>
      if SubnetName s (rsd_name data) \<noteq> None then Some (Inl (SubnetErr SubnetNameExist))
      else if \<not> get_total_subnets s < saturating_add (MaxSubnets s) 1 then Some (Inl (SubnetErr MaxSubnetsError))
      else if SubnetRepo s (rsd_repo data) \<noteq> None then Some (Inl (SubnetErr SubnetRepoExist))
      else if rsd_bootnodes data = [] then Some (Inl (SubnetErr BootnodesEmpty))
      else if \<not> of_nat (length (rsd_bootnodes data)) \<le> MaxBootnodes s then Some (Inl (SubnetErr TooManyBootnodes))
      else
      case check_bootnodes (rsd_bootnodes data) of None \<Rightarrow> None
      | Some (Inl e) \<Rightarrow> Some (Inl e)
      | Some (Inr _) \<Rightarrow> Some (check_subnet_parameters data s))"

definition pay_subnet_registration ::
  "'c Treasury \<Rightarrow> account_id \<Rightarrow> u128 \<Rightarrow> ('c, 'm) network_scheme \<Rightarrow> Error + ('c, 'm) network_scheme" where
  "pay_subnet_registration T who cost s = (if cost > 0 then send_to_treasury T who cost s else Inr s)"

text \<open>What a registration stores.\<close>

definition enter_subnet ::
  "account_id \<Rightarrow> u32 \<Rightarrow> u32 \<Rightarrow> u32 \<Rightarrow> u32 \<Rightarrow> RegistrationSubnetData \<Rightarrow> ('c, 'm) network_subnets_scheme \<Rightarrow>
   ('c, 'm) network_subnets_scheme"
where
  "enter_subnet who subnet_id slot friendly_uid epoch data s =
     (let s = s\<lparr>TotalSubnetUids := subnet_id\<rparr>;
          s = insert_subnet_slot_assignment subnet_id slot s
      in s\<lparr>SubnetIdFriendlyUid := (SubnetIdFriendlyUid s)(subnet_id \<mapsto> friendly_uid),
           FriendlyUidSubnetId := (FriendlyUidSubnetId s)(friendly_uid \<mapsto> subnet_id),
           SubnetsData := (SubnetsData s)(subnet_id \<mapsto>
             \<lparr>sd_id = subnet_id, sd_friendly_id = friendly_uid, sd_name = rsd_name data, sd_repo = rsd_repo data,
              sd_description = rsd_description data, sd_misc = rsd_misc data, sd_state = Registered,
              sd_start_epoch = - 1\<rparr>),
           SubnetOwner := (SubnetOwner s)(subnet_id \<mapsto> who),
           SubnetMinStakeBalance := (SubnetMinStakeBalance s)(subnet_id := rsd_min_stake data),
           SubnetMaxStakeBalance := (SubnetMaxStakeBalance s)(subnet_id := rsd_max_stake data),
           SubnetDelegateStakeRewardsPercentage :=
             (SubnetDelegateStakeRewardsPercentage s)(subnet_id := rsd_delegate_stake_percentage data),
           NodeRegistrationInitialValidatorIds :=
             (NodeRegistrationInitialValidatorIds s)(subnet_id \<mapsto> rsd_initial_validators data),
           SubnetBootnodes := (SubnetBootnodes s)(subnet_id := map_of (rsd_bootnodes data)),
           SubnetName := (SubnetName s)(rsd_name data \<mapsto> subnet_id),
           SubnetRepo := (SubnetRepo s)(rsd_repo data \<mapsto> subnet_id),
           SubnetRegistrationEpoch := (SubnetRegistrationEpoch s)(subnet_id \<mapsto> epoch),
           TotalSubnets := saturating_add (TotalSubnets s) 1\<rparr>)"

definition do_register_subnet ::
  "('f, 'x) F64Costs_scheme \<Rightarrow> 'c Treasury \<Rightarrow> 'c Config \<Rightarrow> account_id \<Rightarrow> u128 \<Rightarrow> RegistrationSubnetData \<Rightarrow>
   ('c, 'm) network_subnets_scheme \<Rightarrow> (('c, 'm) network_subnets_scheme, unit) outcome option"
where
  "do_register_subnet F T cfg who max_cost data s =
     (let subnet_id = saturating_add (TotalSubnetUids s) 1 in
      case check_subnet_registration who subnet_id data s of None \<Rightarrow> None
      | Some (Inl e) \<Rightarrow> Some (s, Inl e)
      | Some (Inr _) \<Rightarrow>
      let block = get_current_block_as_u32 s in
      case get_current_registration_cost F block s of None \<Rightarrow> None
      | Some cost \<Rightarrow>
      if \<not> max_cost \<ge> cost then Some (s, Inl (SubnetErr CostGreaterThanMaxCost))
      else if cost > 0 \<and> \<not> can_remove_balance_from_coldkey_account cfg who cost s
      then Some (s, Inl (SubnetErr NotEnoughBalanceToRegisterSubnet))
      else case get_available_subnet_slot cfg s of Inl e \<Rightarrow> Some (s, Inl e)
      | Inr slot \<Rightarrow>
      let friendly_uid = saturating_sub slot (DesignatedEpochSlots cfg) + 1 in
      case pay_subnet_registration T who cost s of Inl e \<Rightarrow> Some (s, Inl e)
      | Inr paid \<Rightarrow>
      let s = update_last_registration_cost cost block paid in
      case get_current_epoch_as_u32 cfg s of None \<Rightarrow> None
      | Some epoch \<Rightarrow> Some (enter_subnet who subnet_id slot friendly_uid epoch data s, Inr ()))"

definition register_subnet ::
  "('f, 'x) F64Costs_scheme \<Rightarrow> 'c Treasury \<Rightarrow> 'c Config \<Rightarrow> RuntimeOrigin \<Rightarrow> u128 \<Rightarrow> RegistrationSubnetData \<Rightarrow>
   ('c, 'm) network_subnets_scheme \<Rightarrow> (('c, 'm) network_subnets_scheme, unit) outcome option"
where
  "register_subnet F T cfg origin max_cost data s =
     (case ensure_signed origin of Inl e \<Rightarrow> Some (s, Inl e) | Inr who \<Rightarrow>
      case is_paused s of Inl e \<Rightarrow> Some (s, Inl e) | Inr _ \<Rightarrow> do_register_subnet F T cfg who max_cost data s)"

section \<open>Removal\<close>

definition clear_prefix :: "u32 \<Rightarrow> (u32 \<times> 'k \<rightharpoonup> 'v) \<Rightarrow> (u32 \<times> 'k \<rightharpoonup> 'v)" where
  "clear_prefix i m = (\<lambda>k. if fst k = i then None else m k)"

text \<open>
  The last statement of the source computes the new total of electable nodes but does not store it:
  the closure given to \<open>mutate\<close> leaves its argument as it is.
\<close>

definition clean_subnet_nodes ::
  "u32 \<Rightarrow> ('c, 'm) network_nodes_scheme \<Rightarrow> ('c, 'm) network_nodes_scheme" where
  "clean_subnet_nodes subnet_id s =
     s\<lparr>RegisteredSubnetNodesData := clear_prefix subnet_id (RegisteredSubnetNodesData s),
       SubnetNodesData := clear_prefix subnet_id (SubnetNodesData s),
       TotalActiveSubnetNodes := (TotalActiveSubnetNodes s)(subnet_id := 0),
       TotalActiveNodes := saturating_sub (TotalActiveNodes s) (TotalActiveSubnetNodes s subnet_id),
       TotalSubnetNodes := (TotalSubnetNodes s)(subnet_id := 0),
       TotalSubnetNodeUids := (TotalSubnetNodeUids s)(subnet_id := 0),
       PeerIdSubnetNodeId := clear_prefix subnet_id (PeerIdSubnetNodeId s),
       BootnodePeerIdSubnetNodeId := clear_prefix subnet_id (BootnodePeerIdSubnetNodeId s),
       ClientPeerIdSubnetNodeId := clear_prefix subnet_id (ClientPeerIdSubnetNodeId s),
       MultiaddrSubnetNodeId := clear_prefix subnet_id (MultiaddrSubnetNodeId s),
       UniqueParamSubnetNodeId := clear_prefix subnet_id (UniqueParamSubnetNodeId s),
       SubnetNodeIdHotkey := clear_prefix subnet_id (SubnetNodeIdHotkey s),
       SubnetNodeReputation := clear_prefix subnet_id (SubnetNodeReputation s),
       SubnetNodeConsecutiveIncludedEpochs :=
         (\<lambda>k. if fst k = subnet_id then 0 else SubnetNodeConsecutiveIncludedEpochs s k),
       SubnetElectedValidator := clear_prefix subnet_id (SubnetElectedValidator s),
       NodeSlotIndex := clear_prefix subnet_id (NodeSlotIndex s),
       SubnetNodeElectionSlots := (SubnetNodeElectionSlots s)(subnet_id := []),
       SubnetNodeQueue := (SubnetNodeQueue s)(subnet_id := []),
       TotalSubnetElectableNodes := (TotalSubnetElectableNodes s)(subnet_id := 0)\<rparr>"

definition clear_subnet ::
  "u32 \<Rightarrow> SubnetData \<Rightarrow> ('c, 'm) network_subnets_scheme \<Rightarrow> ('c, 'm) network_subnets_scheme" where
  "clear_subnet subnet_id subnet s =
     s\<lparr>SubnetName := (SubnetName s)(sd_name subnet := None), SubnetRepo := (SubnetRepo s)(sd_repo subnet := None),
       SubnetsData := (SubnetsData s)(subnet_id := None), SubnetOwner := (SubnetOwner s)(subnet_id := None),
       PendingSubnetOwner := (PendingSubnetOwner s)(subnet_id := None),
       SubnetRegistrationEpoch := (SubnetRegistrationEpoch s)(subnet_id := None),
       PreviousSubnetPauseEpoch := (PreviousSubnetPauseEpoch s)(subnet_id := 0),
       ChurnLimit := (ChurnLimit s)(subnet_id := DefaultChurnLimit),
       ChurnLimitMultiplier := (ChurnLimitMultiplier s)(subnet_id := DefaultChurnLimitMultiplier),
       SubnetNodeQueueEpochs := (SubnetNodeQueueEpochs s)(subnet_id := DefaultMinRegistrationQueueEpochs),
       IdleClassificationEpochs := (IdleClassificationEpochs s)(subnet_id := DefaultIdleClassificationEpochs),
       IncludedClassificationEpochs := (IncludedClassificationEpochs s)(subnet_id := DefaultIncludedClassificationEpochs),
       SubnetMinStakeBalance := (SubnetMinStakeBalance s)(subnet_id := DefaultSubnetMinStakeBalance),
       SubnetMaxStakeBalance := (SubnetMaxStakeBalance s)(subnet_id := DefaultNetworkMaxStakeBalance),
       SubnetDelegateStakeRewardsPercentage :=
         (SubnetDelegateStakeRewardsPercentage s)(subnet_id := DefaultDelegateStakeRewardsPercentage),
       LastSubnetDelegateStakeRewardsUpdate := (LastSubnetDelegateStakeRewardsUpdate s)(subnet_id := 0),
       InitialValidatorData := (InitialValidatorData s)(subnet_id := None),
       MaxRegisteredNodesOf := (MaxRegisteredNodesOf s)(subnet_id := DefaultMaxMaxRegisteredNodes),
       TargetNodeRegistrationsPerEpoch := (TargetNodeRegistrationsPerEpoch s)(subnet_id := DefaultMaxMaxRegisteredNodes),
       NodeBurnRateAlpha := (NodeBurnRateAlpha s)(subnet_id := DefaultNodeBurnRateAlpha),
       CurrentNodeBurnRate := (CurrentNodeBurnRate s)(subnet_id := DefaultCurrentNodeBurnRate),
       QueueImmunityEpochs := (QueueImmunityEpochs s)(subnet_id := DefaultMinRegistrationQueueEpochs),
       SubnetBootnodeAccess := (SubnetBootnodeAccess s)(subnet_id := {}),
       SubnetBootnodes := (SubnetBootnodes s)(subnet_id := Map.empty),
       EmergencySubnetNodeElectionData := (EmergencySubnetNodeElectionData s)(subnet_id := None),
       SubnetReputation := (SubnetReputation s)(subnet_id := percentage_factor_as_u128),
       MinSubnetNodeReputation := (MinSubnetNodeReputation s)(subnet_id := DefaultMinSubnetNodeReputation),
       NodeRegistrationsThisEpoch := (NodeRegistrationsThisEpoch s)(subnet_id := 0),
       SubnetNodeMinWeightDecreaseReputationThreshold :=
         (SubnetNodeMinWeightDecreaseReputationThreshold s)(subnet_id := 0),
       SubnetReputationFactorSchedules :=
         (SubnetReputationFactorSchedules s)(subnet_id := DefaultSubnetReputationFactorSchedule)\<rparr>"

definition take_friendly_uid :: "u32 \<Rightarrow> ('c, 'm) network_subnets_scheme \<Rightarrow> ('c, 'm) network_subnets_scheme" where
  "take_friendly_uid subnet_id s =
     (case SubnetIdFriendlyUid s subnet_id of None \<Rightarrow> s
      | Some friendly_uid \<Rightarrow>
          s\<lparr>SubnetIdFriendlyUid := (SubnetIdFriendlyUid s)(subnet_id := None),
            FriendlyUidSubnetId := (FriendlyUidSubnetId s)(friendly_uid := None)\<rparr>)"

definition do_remove_subnet ::
  "u32 \<Rightarrow> SubnetRemovalReason \<Rightarrow> ('c, 'm) network_subnets_scheme \<Rightarrow> ('c, 'm) network_subnets_scheme" where
  "do_remove_subnet subnet_id reason s =
     (case SubnetsData s subnet_id of None \<Rightarrow> s
      | Some subnet \<Rightarrow>
      let s = clear_subnet subnet_id subnet s;
          s = take_friendly_uid subnet_id s;
          s = free_slot_of_subnet subnet_id s;
          s = (if sd_state subnet \<noteq> Registered
               then s\<lparr>TotalActiveSubnets := saturating_sub (TotalActiveSubnets s) 1\<rparr> else s);
          s = s\<lparr>TotalSubnets := saturating_sub (TotalSubnets s) 1\<rparr>
      in clean_subnet_nodes subnet_id s)"

section \<open>Activation\<close>

definition can_subnet_be_active ::
  "'c Config \<Rightarrow> u32 \<Rightarrow> ('c, 'm) network_subnets_scheme \<Rightarrow> bool \<times> SubnetRemovalReason option" where
  "can_subnet_be_active cfg subnet_id s =
     (if SubnetReputation s subnet_id < MinSubnetReputation s then (False, Some MinReputation)
      else if TotalActiveSubnetNodes s subnet_id < MinSubnetNodes s then (False, Some MinSubnetNodesReason)
      else
      let subnet_delegate_stake_balance = TotalSubnetDelegateStakeBalance s subnet_id;
          min_subnet_delegate_stake_balance = get_min_subnet_delegate_stake_balance cfg subnet_id s
      in if subnet_delegate_stake_balance < min_subnet_delegate_stake_balance
         then (False, Some MinSubnetDelegateStake)
         else (True, None))"

definition past_min_registration_epochs :: "u32 \<Rightarrow> u32 \<Rightarrow> ('c, 'm) network_subnets_scheme \<Rightarrow> bool" where
  "past_min_registration_epochs subnet_id epoch s =
     (case SubnetRegistrationEpoch s subnet_id of None \<Rightarrow> False
      | Some registered_epoch \<Rightarrow> saturating_add registered_epoch (MinSubnetRegistrationEpochs s) \<le> epoch)"

definition activate_at ::
  "u32 \<Rightarrow> u32 \<Rightarrow> SubnetData \<Rightarrow> ('c, 'm) network_subnets_scheme \<Rightarrow> ('c, 'm) network_subnets_scheme" where
  "activate_at subnet_id epoch subnet s =
     s\<lparr>SubnetsData := (SubnetsData s)(subnet_id \<mapsto> subnet\<lparr>sd_state := Active, sd_start_epoch := epoch + 1\<rparr>),
       TotalActiveSubnets := TotalActiveSubnets s + 1,
       SubnetRegistrationEpoch := (SubnetRegistrationEpoch s)(subnet_id := None),
       NodeRegistrationInitialValidatorIds := (NodeRegistrationInitialValidatorIds s)(subnet_id := None),
       InitialValidatorData := (InitialValidatorData s)(subnet_id := None),
       LastSubnetDelegateStakeRewardsUpdate :=
         (LastSubnetDelegateStakeRewardsUpdate s)(subnet_id := get_current_block_as_u32 s),
       PreviousSubnetPauseEpoch := (PreviousSubnetPauseEpoch s)(subnet_id := epoch),
       PrevSubnetActivationEpoch := epoch\<rparr>"

definition do_activate_subnet ::
  "'c Config \<Rightarrow> u32 \<Rightarrow> ('c, 'm) network_subnets_scheme \<Rightarrow> (('c, 'm) network_subnets_scheme, unit) outcome option" where
  "do_activate_subnet cfg subnet_id s =
     (case SubnetsData s subnet_id of None \<Rightarrow> Some (s, Inl InvalidSubnetId)
      | Some subnet \<Rightarrow>
      if sd_state subnet \<noteq> Registered then Some (s, Inl (SubnetErr SubnetActivatedAlready))
      else
      case get_current_epoch_as_u32 cfg s of None \<Rightarrow> None
      | Some epoch \<Rightarrow>
      if \<not> past_min_registration_epochs subnet_id epoch s
      then Some (s, Inl (SubnetErr MinSubnetRegistrationEpochsNotMet))
      else
      let in_registration_period = is_subnet_registering subnet_id (sd_state subnet) epoch s;
          (can_be_active, reason) = can_subnet_be_active cfg subnet_id s;
          in_enactment_period = is_subnet_in_enactment subnet_id (sd_state subnet) epoch s in
      if \<not> in_registration_period \<and> \<not> in_enactment_period
      then Some (do_remove_subnet subnet_id EnactmentPeriod s, Inr ())
      else if \<not> can_be_active \<and> in_registration_period
      then Some (s, Inl (SubnetErr SubnetActivationConditionsNotMetYet))
      else case (\<not> can_be_active \<and> in_enactment_period, reason) of
        (True, Some removal_reason) \<Rightarrow> Some (do_remove_subnet subnet_id removal_reason s, Inr ())
      | _ \<Rightarrow> Some (activate_at subnet_id epoch subnet s, Inr ()))"

definition activate_subnet ::
  "'c Config \<Rightarrow> RuntimeOrigin \<Rightarrow> u32 \<Rightarrow> ('c, 'm) network_subnets_scheme \<Rightarrow>
   (('c, 'm) network_subnets_scheme, unit) outcome option"
where
  "activate_subnet cfg origin subnet_id s =
     (case ensure_signed origin of Inl e \<Rightarrow> Some (s, Inl e) | Inr coldkey \<Rightarrow>
      case is_paused s of Inl e \<Rightarrow> Some (s, Inl e) | Inr _ \<Rightarrow>
      if is_subnet_owner coldkey subnet_id s \<noteq> Some True then Some (s, Inl (SubnetErr NotSubnetOwner))
      else do_activate_subnet cfg subnet_id s)"

section \<open>Bootnodes\<close>

fun insert_bootnodes ::
  "(PeerId \<times> bytes) list \<Rightarrow> (PeerId \<rightharpoonup> bytes) \<Rightarrow> (Error + (PeerId \<rightharpoonup> bytes)) option" where
  "insert_bootnodes [] bootnodes = Some (Inr bootnodes)"
| "insert_bootnodes ((the_peer, multiaddr) # add) bootnodes =
     (case verify multiaddr of None \<Rightarrow> None
      | Some (Inl _) \<Rightarrow> Some (Inl (SubnetErr InvalidMultiaddr))
      | Some (Inr _) \<Rightarrow> insert_bootnodes add (bootnodes(the_peer \<mapsto> multiaddr)))"

definition do_update_bootnodes ::
  "RuntimeOrigin \<Rightarrow> u32 \<Rightarrow> (PeerId \<times> bytes) list \<Rightarrow> PeerId set \<Rightarrow> ('c, 'm) network_subnets_scheme \<Rightarrow>
   (('c, 'm) network_subnets_scheme, unit) outcome option"
where
  "do_update_bootnodes origin subnet_id add remove s =
     (case ensure_signed origin of Inl e \<Rightarrow> Some (s, Inl e) | Inr who \<Rightarrow>
      if SubnetsData s subnet_id = None then Some (s, Inl InvalidSubnetId)
      else if \<not> (is_subnet_owner who subnet_id s = Some True \<or> who \<in> SubnetBootnodeAccess s subnet_id)
      then Some (s, Inl (SubnetErr InvalidAccess))
      else
      case insert_bootnodes add (SubnetBootnodes s subnet_id |` (- remove)) of None \<Rightarrow> None
      | Some (Inl e) \<Rightarrow> Some (s, Inl e)
      | Some (Inr bootnodes) \<Rightarrow>
          if \<not> card (dom bootnodes) \<le> unat (MaxBootnodes s) then Some (s, Inl (SubnetErr TooManyBootnodes))
          else Some (s\<lparr>SubnetBootnodes := (SubnetBootnodes s)(subnet_id := bootnodes)\<rparr>, Inr ()))"

definition update_bootnodes ::
  "RuntimeOrigin \<Rightarrow> u32 \<Rightarrow> (PeerId \<times> bytes) list \<Rightarrow> PeerId set \<Rightarrow> ('c, 'm) network_subnets_scheme \<Rightarrow>
   (('c, 'm) network_subnets_scheme, unit) outcome option"
where
  "update_bootnodes origin subnet_id add remove s =
     (case is_paused s of Inl e \<Rightarrow> Some (s, Inl e) | Inr _ \<Rightarrow> do_update_bootnodes origin subnet_id add remove s)"

end
