(* ===== verification/Owner_Calls.thy ===== *)
theory Owner_Calls
  imports Subnet_Lifecycle
begin

text \<open>
  What the owner of a subnet can call (\<open>utilities/owner.rs\<close>): pausing and removing the subnet, the
  set of emergency validators, the description, the parameters within the bounds of the network, the
  reputation factors that take effect after a cooldown, and the transfer of ownership in two steps.
\<close>

section \<open>Storage\<close>

record 'c network_owners = "'c network_subnets" +
  SubnetPauseCooldownEpochs :: u32
  MaxEmergencySubnetNodes :: u32
  MaxEmergencyValidatorEpochsMultiplier :: u128
  MinMinSubnetNodeReputation :: u128
  MaxMinSubnetNodeReputation :: u128
  MinNodeReputationFactor :: u128
  MaxNodeReputationFactor :: u128
  MinChurnLimit :: u32
  MaxChurnLimit :: u32
  MinChurnLimitMultiplier :: u32
  MaxChurnLimitMultiplier :: u32
  MinQueueEpochs :: u32
  MaxQueueEpochs :: u32
  MinIdleClassificationEpochs :: u32
  MaxIdleClassificationEpochs :: u32
  MinIncludedClassificationEpochs :: u32
  MaxIncludedClassificationEpochs :: u32
  SubnetDelegateStakeRewardsUpdatePeriod :: u32
  MaxSubnetDelegateStakeRewardsPercentageChange :: u128
  MinMaxRegisteredNodes :: u32
  MaxMaxRegisteredNodes :: u32
  MaxSubnetBootnodeAccess :: u32
  SubnetOwnerFactorCooldownEpochs :: u32
  MaxSubnetNodeMinWeightDecreaseReputationThreshold :: u128

record SubnetReputationFactorUpdates =
  upd_absent_decrease :: "u128 option"
  upd_included_increase :: "u128 option"
  upd_below_min_weight_decrease :: "u128 option"
  upd_non_attestor_decrease :: "u128 option"
  upd_non_consensus_attestor_decrease :: "u128 option"
  upd_validator_absent_decrease :: "u128 option"
  upd_validator_non_consensus_decrease :: "u128 option"

definition has_update :: "SubnetReputationFactorUpdates \<Rightarrow> bool" where
  "has_update u \<longleftrightarrow>
     upd_absent_decrease u \<noteq> None \<or> upd_included_increase u \<noteq> None \<or> upd_below_min_weight_decrease u \<noteq> None
     \<or> upd_non_attestor_decrease u \<noteq> None \<or> upd_non_consensus_attestor_decrease u \<noteq> None
     \<or> upd_validator_absent_decrease u \<noteq> None \<or> upd_validator_non_consensus_decrease u \<noteq> None"

definition requires_no_emergency_validators :: "SubnetReputationFactorUpdates \<Rightarrow> bool" where
  "requires_no_emergency_validators u \<longleftrightarrow>
     upd_absent_decrease u \<noteq> None \<or> upd_below_min_weight_decrease u \<noteq> None
     \<or> upd_non_attestor_decrease u \<noteq> None \<or> upd_non_consensus_attestor_decrease u \<noteq> None
     \<or> upd_validator_absent_decrease u \<noteq> None \<or> upd_validator_non_consensus_decrease u \<noteq> None"

section \<open>Who calls\<close>

text \<open>The two statements every call of an owner begins with.\<close>

definition ensure_subnet_owner ::
  "RuntimeOrigin \<Rightarrow> u32 \<Rightarrow> ('c, 'm) network_rewards_scheme \<Rightarrow> Error + account_id" where
  "ensure_subnet_owner origin subnet_id s =
     (case ensure_signed origin of Inl e \<Rightarrow> Inl e
      | Inr coldkey \<Rightarrow>
          if is_subnet_owner coldkey subnet_id s \<noteq> Some True then Inl (SubnetErr NotSubnetOwner) else Inr coldkey)"

section \<open>Pausing\<close>

definition do_owner_pause_subnet ::
  "'c Config \<Rightarrow> RuntimeOrigin \<Rightarrow> u32 \<Rightarrow> ('c, 'm) network_owners_scheme \<Rightarrow>
   (('c, 'm) network_owners_scheme, unit) outcome option"
where
  "do_owner_pause_subnet cfg origin subnet_id s =
     (case ensure_subnet_owner origin subnet_id s of Inl e \<Rightarrow> Some (s, Inl e) | Inr _ \<Rightarrow>
      if is_subnet_active subnet_id s \<noteq> Some True then Some (s, Inl (OwnerErr SubnetMustBeActive))
      else
      case get_current_epoch_as_u32 cfg s of None \<Rightarrow> None
      | Some epoch \<Rightarrow>
      if \<not> PreviousSubnetPauseEpoch s subnet_id + SubnetPauseCooldownEpochs s \<le> epoch
      then Some (s, Inl (OwnerErr SubnetPauseCooldownActive))
      else
      case SubnetsData s subnet_id of None \<Rightarrow> Some (s, Inl InvalidSubnetId)
      | Some params \<Rightarrow>
          Some (s\<lparr>SubnetsData := (SubnetsData s)(subnet_id \<mapsto>
                    params\<lparr>sd_state := SubnetPaused, sd_start_epoch := epoch\<rparr>)\<rparr>, Inr ()))"

text \<open>
  The loop of the source binds its own \<open>subnet_id\<close>, so that it runs over the registered nodes of every
  subnet.
\<close>

definition shift_start :: "u32 \<Rightarrow> SubnetNode \<Rightarrow> SubnetNode" where
  "shift_start delta subnet_node =
     subnet_node\<lparr>sn_classification := (sn_classification subnet_node)
       \<lparr>class_start_epoch := saturating_add (class_start_epoch (sn_classification subnet_node)) delta\<rparr>\<rparr>"

definition shift_registered ::
  "u32 \<Rightarrow> ('c, 'm) network_nodes_scheme \<Rightarrow> ('c, 'm) network_nodes_scheme" where
  "shift_registered delta s =
     s\<lparr>RegisteredSubnetNodesData := (\<lambda>k. map_option (shift_start delta) (RegisteredSubnetNodesData s k))\<rparr>"

definition extend_emergency ::
  "'c Config \<Rightarrow> u32 \<Rightarrow> ('c, 'm) network_owners_scheme \<Rightarrow> ('c, 'm) network_owners_scheme option" where
  "extend_emergency cfg subnet_id s =
     (case EmergencySubnetNodeElectionData s subnet_id of None \<Rightarrow> Some s
      | Some data \<Rightarrow>
      case get_current_subnet_epoch_as_u32 cfg subnet_id s of None \<Rightarrow> None
      | Some the_subnet_epoch \<Rightarrow>
          let max_epoch = saturating_add the_subnet_epoch
                (ucast (percent_mul (ucast (target_emergency_validators_epochs data))
                          (MaxEmergencyValidatorEpochsMultiplier s)))
          in Some (s\<lparr>EmergencySubnetNodeElectionData := (EmergencySubnetNodeElectionData s)
                      (subnet_id \<mapsto> data\<lparr>max_emergency_validators_epoch := max_epoch\<rparr>)\<rparr>))"

definition do_owner_unpause_subnet ::
  "'c Config \<Rightarrow> RuntimeOrigin \<Rightarrow> u32 \<Rightarrow> ('c, 'm) network_owners_scheme \<Rightarrow>
   (('c, 'm) network_owners_scheme, unit) outcome option"
where
  "do_owner_unpause_subnet cfg origin subnet_id s =
     (case ensure_subnet_owner origin subnet_id s of Inl e \<Rightarrow> Some (s, Inl e) | Inr _ \<Rightarrow>
      if is_subnet_paused subnet_id s \<noteq> Some True then Some (s, Inl (OwnerErr SubnetMustBePaused))
      else
      case get_current_epoch_as_u32 cfg s of None \<Rightarrow> None
      | Some epoch \<Rightarrow>
      case SubnetsData s subnet_id of None \<Rightarrow> Some (s, Inl InvalidSubnetId)
      | Some params \<Rightarrow>
      let pause_epoch = sd_start_epoch params;
          delta = saturating_add (saturating_sub epoch pause_epoch) 1;
          s = shift_registered delta s;
          s = s\<lparr>SubnetsData := (SubnetsData s)(subnet_id \<mapsto>
                  params\<lparr>sd_state := Active, sd_start_epoch := epoch + 1\<rparr>),
                PreviousSubnetPauseEpoch := (PreviousSubnetPauseEpoch s)(subnet_id := epoch)\<rparr>
      in case extend_emergency cfg subnet_id s of None \<Rightarrow> None
      | Some s \<Rightarrow> Some (s, Inr ()))"

definition do_owner_deactivate_subnet ::
  "RuntimeOrigin \<Rightarrow> u32 \<Rightarrow> ('c, 'm) network_owners_scheme \<Rightarrow> (('c, 'm) network_owners_scheme, unit) outcome" where
  "do_owner_deactivate_subnet origin subnet_id s =
     (case ensure_subnet_owner origin subnet_id s of Inl e \<Rightarrow> (s, Inl e) | Inr _ \<Rightarrow>
      if SubnetsData s subnet_id = None then (s, Inl InvalidSubnetId)
      else (do_remove_subnet subnet_id OwnerReason s, Inr ()))"

section \<open>Emergency validators\<close>

text \<open>\<open>Vec::dedup_by\<close> drops an element that equals the one kept before it.\<close>

fun dedup_by :: "'a list \<Rightarrow> 'a list" where
  "dedup_by [] = []"
| "dedup_by [x] = [x]"
| "dedup_by (x # y # xs) = (if x = y then dedup_by (x # xs) else x # dedup_by (y # xs))"

definition emergency_candidates :: "u32 \<Rightarrow> u32 \<Rightarrow> u32 list \<Rightarrow> ('c, 'm) network_nodes_scheme \<Rightarrow> u32 list" where
  "emergency_candidates subnet_id the_subnet_epoch ids s =
     filter (\<lambda>id. case SubnetNodesData s (subnet_id, id) of None \<Rightarrow> False
                  | Some subnet_node \<Rightarrow> has_classification subnet_node Validator the_subnet_epoch) (dedup_by ids)"

definition steps_for_removal :: "('f, 'x) F64Costs_scheme \<Rightarrow> u128 \<Rightarrow> u128 \<Rightarrow> u32" where
  "steps_for_removal F reputation factor =
     (let one = get_percent_as_f64 F percentage_factor_as_u128;
          min_reputation = get_percent_as_f64 F reputation;
          r = f64_sub F one (get_percent_as_f64 F factor)
      in f64_as_u32 F (libm_ceil F (f64_div F (libm_log F (f64_div F min_reputation one)) (libm_log F r))) + 1)"

definition get_max_steps_for_node_removal ::
  "('f, 'x) F64Costs_scheme \<Rightarrow> 'c Config \<Rightarrow> u32 \<Rightarrow> ('c, 'm) network_owners_scheme \<Rightarrow> u32 option" where
  "get_max_steps_for_node_removal F cfg subnet_id s =
     (let n = steps_for_removal F (MinMinSubnetNodeReputation s) (MinNodeReputationFactor s) in
      case get_current_subnet_epoch_as_u32 cfg subnet_id s of None \<Rightarrow> None
      | Some the_subnet_epoch \<Rightarrow>
          let reputation_factors = get_reputation_factors_for_epoch subnet_id the_subnet_epoch s;
              n2 = steps_for_removal F (MinSubnetNodeReputation s subnet_id) (absent_decrease reputation_factors)
          in Some (if n < n2 then n else n2))"

definition do_owner_set_emergency_validator_set ::
  "('f, 'x) F64Costs_scheme \<Rightarrow> 'c Config \<Rightarrow> RuntimeOrigin \<Rightarrow> u32 \<Rightarrow> u32 list \<Rightarrow> ('c, 'm) network_owners_scheme \<Rightarrow>
   (('c, 'm) network_owners_scheme, unit) outcome option"
where
  "do_owner_set_emergency_validator_set F cfg origin subnet_id ids s =
     (case ensure_subnet_owner origin subnet_id s of Inl e \<Rightarrow> Some (s, Inl e) | Inr _ \<Rightarrow>
      if is_subnet_paused subnet_id s \<noteq> Some True then Some (s, Inl (OwnerErr SubnetMustBePaused))
      else
      case get_current_subnet_epoch_as_u32 cfg subnet_id s of None \<Rightarrow> None
      | Some the_subnet_epoch \<Rightarrow>
      let ids = emergency_candidates subnet_id the_subnet_epoch ids s in
      if \<not> of_nat (length ids) \<ge> MinSubnetNodes s then Some (s, Inl (OwnerErr InvalidMinEmergencySubnetNodes))
      else if \<not> of_nat (length ids) \<le> MaxEmergencySubnetNodes s
      then Some (s, Inl (OwnerErr InvalidMaxEmergencySubnetNodes))
      else
      case get_max_steps_for_node_removal F cfg subnet_id s of None \<Rightarrow> None
      | Some steps \<Rightarrow>
          let target_emergency_epochs = steps + 1
          in Some (s\<lparr>EmergencySubnetNodeElectionData := (EmergencySubnetNodeElectionData s)(subnet_id \<mapsto>
                      \<lparr>subnet_node_ids = ids, target_emergency_validators_epochs = target_emergency_epochs,
                       max_emergency_validators_epoch = 0, total_epochs = 0\<rparr>)\<rparr>, Inr ()))"

definition do_owner_revert_emergency_validator_set ::
  "RuntimeOrigin \<Rightarrow> u32 \<Rightarrow> ('c, 'm) network_owners_scheme \<Rightarrow> (('c, 'm) network_owners_scheme, unit) outcome" where
  "do_owner_revert_emergency_validator_set origin subnet_id s =
     (case ensure_subnet_owner origin subnet_id s of Inl e \<Rightarrow> (s, Inl e) | Inr _ \<Rightarrow>
      if is_subnet_paused subnet_id s \<noteq> Some True then (s, Inl (OwnerErr SubnetMustBePaused))
      else (s\<lparr>EmergencySubnetNodeElectionData := (EmergencySubnetNodeElectionData s)(subnet_id := None)\<rparr>, Inr ()))"

section \<open>Description\<close>

definition do_owner_update_name ::
  "RuntimeOrigin \<Rightarrow> u32 \<Rightarrow> bytes \<Rightarrow> ('c, 'm) network_owners_scheme \<Rightarrow>
   (('c, 'm) network_owners_scheme, unit) outcome"
where
  "do_owner_update_name origin subnet_id v s =
     (case ensure_subnet_owner origin subnet_id s of Inl e \<Rightarrow> (s, Inl e) | Inr _ \<Rightarrow>
      if SubnetName s v \<noteq> None then (s, Inl (SubnetErr SubnetNameExist))
      else case SubnetsData s subnet_id of None \<Rightarrow> (s, Inl InvalidSubnetId)
      | Some params \<Rightarrow>
          let prev_name = sd_name params
          in (s\<lparr>SubnetsData := (SubnetsData s)(subnet_id \<mapsto> params\<lparr>sd_name := v\<rparr>),
                SubnetName := (SubnetName s)(prev_name := None, v \<mapsto> subnet_id)\<rparr>, Inr ()))"

definition do_owner_update_repo ::
  "RuntimeOrigin \<Rightarrow> u32 \<Rightarrow> bytes \<Rightarrow> ('c, 'm) network_owners_scheme \<Rightarrow>
   (('c, 'm) network_owners_scheme, unit) outcome"
where
  "do_owner_update_repo origin subnet_id v s =
     (case ensure_subnet_owner origin subnet_id s of Inl e \<Rightarrow> (s, Inl e) | Inr _ \<Rightarrow>
      if SubnetRepo s v \<noteq> None then (s, Inl (SubnetErr SubnetRepoExist))
      else case SubnetsData s subnet_id of None \<Rightarrow> (s, Inl InvalidSubnetId)
      | Some params \<Rightarrow>
          let prev_repo = sd_repo params
          in (s\<lparr>SubnetsData := (SubnetsData s)(subnet_id \<mapsto> params\<lparr>sd_repo := v\<rparr>),
                SubnetRepo := (SubnetRepo s)(prev_repo := None, v \<mapsto> subnet_id)\<rparr>, Inr ()))"

definition do_owner_update_description ::
  "RuntimeOrigin \<Rightarrow> u32 \<Rightarrow> bytes \<Rightarrow> ('c, 'm) network_owners_scheme \<Rightarrow>
   (('c, 'm) network_owners_scheme, unit) outcome"
where
  "do_owner_update_description origin subnet_id v s =
     (case ensure_subnet_owner origin subnet_id s of Inl e \<Rightarrow> (s, Inl e) | Inr _ \<Rightarrow>
      case SubnetsData s subnet_id of None \<Rightarrow> (s, Inl InvalidSubnetId)
      | Some params \<Rightarrow>
          (s\<lparr>SubnetsData := (SubnetsData s)(subnet_id \<mapsto> params\<lparr>sd_description := v\<rparr>)\<rparr>, Inr ()))"

definition do_owner_update_misc ::
  "RuntimeOrigin \<Rightarrow> u32 \<Rightarrow> bytes \<Rightarrow> ('c, 'm) network_owners_scheme \<Rightarrow>
   (('c, 'm) network_owners_scheme, unit) outcome"
where
  "do_owner_update_misc origin subnet_id v s =
     (case ensure_subnet_owner origin subnet_id s of Inl e \<Rightarrow> (s, Inl e) | Inr _ \<Rightarrow>
      case SubnetsData s subnet_id of None \<Rightarrow> (s, Inl InvalidSubnetId)
      | Some params \<Rightarrow> (s\<lparr>SubnetsData := (SubnetsData s)(subnet_id \<mapsto> params\<lparr>sd_misc := v\<rparr>)\<rparr>, Inr ()))"

section \<open>Parameters\<close>

definition do_owner_update_churn_limit ::
  "RuntimeOrigin \<Rightarrow> u32 \<Rightarrow> u32 \<Rightarrow> ('c, 'm) network_owners_scheme \<Rightarrow>
   (('c, 'm) network_owners_scheme, unit) outcome"
where
  "do_owner_update_churn_limit origin subnet_id v s =
     (case ensure_subnet_owner origin subnet_id s of Inl e \<Rightarrow> (s, Inl e) | Inr _ \<Rightarrow>
      if \<not> (v \<ge> MinChurnLimit s \<and> v \<le> MaxChurnLimit s) then (s, Inl (OwnerErr InvalidChurnLimit))
      else (s\<lparr>ChurnLimit := (ChurnLimit s)(subnet_id := v)\<rparr>, Inr ()))"

definition do_owner_update_churn_limit_multiplier ::
  "RuntimeOrigin \<Rightarrow> u32 \<Rightarrow> u32 \<Rightarrow> ('c, 'm) network_owners_scheme \<Rightarrow>
   (('c, 'm) network_owners_scheme, unit) outcome"
where
  "do_owner_update_churn_limit_multiplier origin subnet_id v s =
     (case ensure_subnet_owner origin subnet_id s of Inl e \<Rightarrow> (s, Inl e) | Inr _ \<Rightarrow>
      if \<not> (v \<ge> MinChurnLimitMultiplier s \<and> v \<le> MaxChurnLimitMultiplier s) then (s, Inl (OwnerErr InvalidChurnLimitMultiplier))
      else (s\<lparr>ChurnLimitMultiplier := (ChurnLimitMultiplier s)(subnet_id := v)\<rparr>, Inr ()))"

definition do_owner_update_registration_queue_epochs ::
  "RuntimeOrigin \<Rightarrow> u32 \<Rightarrow> u32 \<Rightarrow> ('c, 'm) network_owners_scheme \<Rightarrow>
   (('c, 'm) network_owners_scheme, unit) outcome"
where
  "do_owner_update_registration_queue_epochs origin subnet_id v s =
     (case ensure_subnet_owner origin subnet_id s of Inl e \<Rightarrow> (s, Inl e) | Inr _ \<Rightarrow>
      if \<not> (v \<ge> MinQueueEpochs s \<and> v \<le> MaxQueueEpochs s) then (s, Inl (OwnerErr InvalidRegistrationQueueEpochs))
      else (s\<lparr>SubnetNodeQueueEpochs := (SubnetNodeQueueEpochs s)(subnet_id := v)\<rparr>, Inr ()))"

definition do_owner_update_idle_classification_epochs ::
  "RuntimeOrigin \<Rightarrow> u32 \<Rightarrow> u32 \<Rightarrow> ('c, 'm) network_owners_scheme \<Rightarrow>
   (('c, 'm) network_owners_scheme, unit) outcome"
where
  "do_owner_update_idle_classification_epochs origin subnet_id v s =
     (case ensure_subnet_owner origin subnet_id s of Inl e \<Rightarrow> (s, Inl e) | Inr _ \<Rightarrow>
      if \<not> (v \<ge> MinIdleClassificationEpochs s \<and> v \<le> MaxIdleClassificationEpochs s) then (s, Inl (OwnerErr InvalidIdleClassificationEpochs))
      else (s\<lparr>IdleClassificationEpochs := (IdleClassificationEpochs s)(subnet_id := v)\<rparr>, Inr ()))"

definition do_owner_update_included_classification_epochs ::
  "RuntimeOrigin \<Rightarrow> u32 \<Rightarrow> u32 \<Rightarrow> ('c, 'm) network_owners_scheme \<Rightarrow>
   (('c, 'm) network_owners_scheme, unit) outcome"
where
  "do_owner_update_included_classification_epochs origin subnet_id v s =
     (case ensure_subnet_owner origin subnet_id s of Inl e \<Rightarrow> (s, Inl e) | Inr _ \<Rightarrow>
      if \<not> (v \<ge> MinIncludedClassificationEpochs s \<and> v \<le> MaxIncludedClassificationEpochs s) then (s, Inl (OwnerErr InvalidIncludedClassificationEpochs))
      else (s\<lparr>IncludedClassificationEpochs := (IncludedClassificationEpochs s)(subnet_id := v)\<rparr>, Inr ()))"

definition extend_validators ::
  "(u32, u32) btree_map \<Rightarrow> (u32, u32) btree_map option \<Rightarrow> (u32, u32) btree_map option" where
  "extend_validators validators maybe_validators =
     Some (fold (\<lambda>(k, v) m. btree_insert k v m) validators
             (case maybe_validators of Some m \<Rightarrow> m | None \<Rightarrow> []))"

definition do_owner_add_or_update_initial_validators ::
  "RuntimeOrigin \<Rightarrow> u32 \<Rightarrow> (u32, u32) btree_map \<Rightarrow> ('c, 'm) network_owners_scheme \<Rightarrow>
   (('c, 'm) network_owners_scheme, unit) outcome"
where
  "do_owner_add_or_update_initial_validators origin subnet_id validators s =
     (case ensure_subnet_owner origin subnet_id s of Inl e \<Rightarrow> (s, Inl e) | Inr _ \<Rightarrow>
      if is_subnet_registered subnet_id s \<noteq> Some True then (s, Inl (OwnerErr SubnetMustBeRegistering))
      else if \<not> (\<forall>e \<in> set validators. snd e \<ge> 1)
      then (s, Inl (SubnetErr InvalidSubnetRegistrationInitialColdkeys))
      else (s\<lparr>NodeRegistrationInitialValidatorIds := (NodeRegistrationInitialValidatorIds s)
               (subnet_id := extend_validators validators (NodeRegistrationInitialValidatorIds s subnet_id))\<rparr>,
            Inr ()))"

definition drop_validators ::
  "u32 set \<Rightarrow> (u32, u32) btree_map option \<Rightarrow> (u32, u32) btree_map option" where
  "drop_validators validators maybe_validators =
     (case maybe_validators of None \<Rightarrow> None
      | Some existing_validators \<Rightarrow>
          let kept = filter (\<lambda>e. fst e \<notin> validators) existing_validators
          in if kept = [] then None else Some kept)"

definition do_owner_remove_initial_validators ::
  "RuntimeOrigin \<Rightarrow> u32 \<Rightarrow> u32 set \<Rightarrow> ('c, 'm) network_owners_scheme \<Rightarrow>
   (('c, 'm) network_owners_scheme, unit) outcome"
where
  "do_owner_remove_initial_validators origin subnet_id validators s =
     (case ensure_subnet_owner origin subnet_id s of Inl e \<Rightarrow> (s, Inl e) | Inr _ \<Rightarrow>
      if is_subnet_registered subnet_id s \<noteq> Some True then (s, Inl (OwnerErr SubnetMustBeRegistering))
      else (s\<lparr>NodeRegistrationInitialValidatorIds := (NodeRegistrationInitialValidatorIds s)
               (subnet_id := drop_validators validators (NodeRegistrationInitialValidatorIds s subnet_id))\<rparr>,
            Inr ()))"

definition do_owner_update_min_max_stake ::
  "RuntimeOrigin \<Rightarrow> u32 \<Rightarrow> u128 \<Rightarrow> u128 \<Rightarrow> ('c, 'm) network_owners_scheme \<Rightarrow>
   (('c, 'm) network_owners_scheme, unit) outcome"
where
  "do_owner_update_min_max_stake origin subnet_id lo hi s =
     (case ensure_subnet_owner origin subnet_id s of Inl e \<Rightarrow> (s, Inl e) | Inr _ \<Rightarrow>
      if \<not> lo \<le> hi then (s, Inl (OwnerErr InvalidValues))
      else if \<not> (lo \<ge> MinSubnetMinStake s \<and> lo \<le> MaxSubnetMinStake s)
      then (s, Inl (SubnetErr InvalidSubnetMinStake))
      else if \<not> hi \<le> NetworkMaxStakeBalance s then (s, Inl (SubnetErr InvalidSubnetMaxStake))
      else (s\<lparr>SubnetMinStakeBalance := (SubnetMinStakeBalance s)(subnet_id := lo),
              SubnetMaxStakeBalance := (SubnetMaxStakeBalance s)(subnet_id := hi)\<rparr>, Inr ()))"

definition abs_diff :: "u128 \<Rightarrow> u128 \<Rightarrow> u128" where
  "abs_diff a b = (if a < b then b - a else a - b)"

definition do_owner_update_delegate_stake_percentage ::
  "RuntimeOrigin \<Rightarrow> u32 \<Rightarrow> u128 \<Rightarrow> ('c, 'm) network_owners_scheme \<Rightarrow>
   (('c, 'm) network_owners_scheme, unit) outcome"
where
  "do_owner_update_delegate_stake_percentage origin subnet_id v s =
     (case ensure_subnet_owner origin subnet_id s of Inl e \<Rightarrow> (s, Inl e) | Inr _ \<Rightarrow>
      let block = get_current_block_as_u32 s;
          last_update = LastSubnetDelegateStakeRewardsUpdate s subnet_id;
          update_period = SubnetDelegateStakeRewardsUpdatePeriod s in
      if \<not> last_update + update_period < block then (s, Inl (OwnerErr DelegateStakePercentageUpdateTooSoon))
      else
      let current_rate = SubnetDelegateStakeRewardsPercentage s subnet_id;
          max_change = MaxSubnetDelegateStakeRewardsPercentageChange s in
      if \<not> abs_diff current_rate v \<le> max_change
      then (s, Inl (OwnerErr DelegateStakePercentageAbsDiffTooLarge))
      else if \<not> (v \<ge> MinDelegateStakePercentage s \<and> v \<le> MaxDelegateStakePercentage s
                 \<and> v \<le> percentage_factor_as_u128)
      then (s, Inl (OwnerErr InvalidDelegateStakePercentage))
      else (s\<lparr>LastSubnetDelegateStakeRewardsUpdate := (LastSubnetDelegateStakeRewardsUpdate s)(subnet_id := block),
              SubnetDelegateStakeRewardsPercentage := (SubnetDelegateStakeRewardsPercentage s)(subnet_id := v)\<rparr>,
            Inr ()))"

definition do_owner_update_max_registered_nodes ::
  "RuntimeOrigin \<Rightarrow> u32 \<Rightarrow> u32 \<Rightarrow> ('c, 'm) network_owners_scheme \<Rightarrow>
   (('c, 'm) network_owners_scheme, unit) outcome"
where
  "do_owner_update_max_registered_nodes origin subnet_id v s =
     (case ensure_subnet_owner origin subnet_id s of Inl e \<Rightarrow> (s, Inl e) | Inr _ \<Rightarrow>
      if \<not> (v \<ge> MinMaxRegisteredNodes s \<and> v \<le> MaxMaxRegisteredNodes s \<and> v \<le> TargetNodeRegistrationsPerEpoch s subnet_id) then (s, Inl (OwnerErr InvalidMaxRegisteredNodes))
      else (s\<lparr>MaxRegisteredNodesOf := (MaxRegisteredNodesOf s)(subnet_id := v)\<rparr>, Inr ()))"

definition do_owner_update_target_node_registrations_per_epoch ::
  "RuntimeOrigin \<Rightarrow> u32 \<Rightarrow> u32 \<Rightarrow> ('c, 'm) network_owners_scheme \<Rightarrow>
   (('c, 'm) network_owners_scheme, unit) outcome"
where
  "do_owner_update_target_node_registrations_per_epoch origin subnet_id v s =
     (case ensure_subnet_owner origin subnet_id s of Inl e \<Rightarrow> (s, Inl e) | Inr _ \<Rightarrow>
      if \<not> (v \<le> MaxRegisteredNodesOf s subnet_id \<and> v > 0) then (s, Inl (OwnerErr InvalidTargetNodeRegistrationsPerEpoch))
      else (s\<lparr>TargetNodeRegistrationsPerEpoch := (TargetNodeRegistrationsPerEpoch s)(subnet_id := v)\<rparr>, Inr ()))"

definition do_owner_update_node_burn_rate_alpha ::
  "RuntimeOrigin \<Rightarrow> u32 \<Rightarrow> u128 \<Rightarrow> ('c, 'm) network_owners_scheme \<Rightarrow>
   (('c, 'm) network_owners_scheme, unit) outcome"
where
  "do_owner_update_node_burn_rate_alpha origin subnet_id v s =
     (case ensure_subnet_owner origin subnet_id s of Inl e \<Rightarrow> (s, Inl e) | Inr _ \<Rightarrow>
      if \<not> (v \<le> percentage_factor_as_u128) then (s, Inl (OwnerErr InvalidPercent))
      else (s\<lparr>NodeBurnRateAlpha := (NodeBurnRateAlpha s)(subnet_id := v)\<rparr>, Inr ()))"

definition do_owner_update_queue_immunity_epochs ::
  "RuntimeOrigin \<Rightarrow> u32 \<Rightarrow> u32 \<Rightarrow> ('c, 'm) network_owners_scheme \<Rightarrow>
   (('c, 'm) network_owners_scheme, unit) outcome"
where
  "do_owner_update_queue_immunity_epochs origin subnet_id v s =
     (case ensure_subnet_owner origin subnet_id s of Inl e \<Rightarrow> (s, Inl e) | Inr _ \<Rightarrow>
      (s\<lparr>QueueImmunityEpochs := (QueueImmunityEpochs s)(subnet_id := v)\<rparr>, Inr ()))"

definition do_owner_update_min_subnet_node_reputation ::
  "RuntimeOrigin \<Rightarrow> u32 \<Rightarrow> u128 \<Rightarrow> ('c, 'm) network_owners_scheme \<Rightarrow>
   (('c, 'm) network_owners_scheme, unit) outcome"
where
  "do_owner_update_min_subnet_node_reputation origin subnet_id v s =
     (case ensure_subnet_owner origin subnet_id s of Inl e \<Rightarrow> (s, Inl e) | Inr _ \<Rightarrow>
      if \<not> v \<le> percentage_factor_as_u128 then (s, Inl (OwnerErr InvalidPercent))
      else if \<not> (v \<ge> MinMinSubnetNodeReputation s \<and> v \<le> MaxMinSubnetNodeReputation s)
      then (s, Inl (OwnerErr MinSubnetNodeReputationError))
      else (s\<lparr>MinSubnetNodeReputation := (MinSubnetNodeReputation s)(subnet_id := v)\<rparr>, Inr ()))"

definition do_owner_update_subnet_node_min_weight_decrease_reputation_threshold ::
  "RuntimeOrigin \<Rightarrow> u32 \<Rightarrow> u128 \<Rightarrow> ('c, 'm) network_owners_scheme \<Rightarrow>
   (('c, 'm) network_owners_scheme, unit) outcome"
where
  "do_owner_update_subnet_node_min_weight_decrease_reputation_threshold origin subnet_id v s =
     (case ensure_subnet_owner origin subnet_id s of Inl e \<Rightarrow> (s, Inl e) | Inr _ \<Rightarrow>
      if \<not> (v \<le> MaxSubnetNodeMinWeightDecreaseReputationThreshold s) then (s, Inl (OwnerErr InvalidPercent))
      else (s\<lparr>SubnetNodeMinWeightDecreaseReputationThreshold := (SubnetNodeMinWeightDecreaseReputationThreshold s)(subnet_id := v)\<rparr>, Inr ()))"

section \<open>Reputation factors\<close>

definition validate_reputation_factor_update ::
  "u128 option \<Rightarrow> OwnerError \<Rightarrow> ('c, 'm) network_owners_scheme \<Rightarrow> Error + unit" where
  "validate_reputation_factor_update maybe_value err s =
     (case maybe_value of None \<Rightarrow> Inr ()
      | Some v \<Rightarrow>
          if \<not> v \<le> percentage_factor_as_u128 then Inl (OwnerErr InvalidPercent)
          else if \<not> (v \<ge> MinNodeReputationFactor s \<and> v \<le> MaxNodeReputationFactor s) then Inl (OwnerErr err)
          else Inr ())"

definition validate_reputation_factors ::
  "SubnetReputationFactorUpdates \<Rightarrow> ('c, 'm) network_owners_scheme \<Rightarrow> Error + unit" where
  "validate_reputation_factors u s =
     (case validate_reputation_factor_update (upd_absent_decrease u) InvalidAbsentDecreaseReputationFactor s
      of Inl e \<Rightarrow> Inl e | Inr _ \<Rightarrow>
      case validate_reputation_factor_update (upd_included_increase u) InvalidIncludedIncreaseReputationFactor s
      of Inl e \<Rightarrow> Inl e | Inr _ \<Rightarrow>
      case validate_reputation_factor_update (upd_below_min_weight_decrease u)
             InvalidBelowMinWeightDecreaseReputationFactor s
      of Inl e \<Rightarrow> Inl e | Inr _ \<Rightarrow>
      case validate_reputation_factor_update (upd_non_attestor_decrease u)
             InvalidNonAttestorDecreaseReputationFactor s
      of Inl e \<Rightarrow> Inl e | Inr _ \<Rightarrow>
      case validate_reputation_factor_update (upd_non_consensus_attestor_decrease u)
             InvalidNonConsensusAttestorDecreaseReputationFactor s
      of Inl e \<Rightarrow> Inl e | Inr _ \<Rightarrow>
      case validate_reputation_factor_update (upd_validator_absent_decrease u)
             InvalidNonValidatorAbsentDecreaseReputationFactor s
      of Inl e \<Rightarrow> Inl e | Inr _ \<Rightarrow>
      validate_reputation_factor_update (upd_validator_non_consensus_decrease u)
        InvalidValidatorNonConsensusSubnetNodeReputationFactor s)"

definition promote_pending :: "u32 \<Rightarrow> SubnetReputationFactorSchedule \<Rightarrow> SubnetReputationFactorSchedule" where
  "promote_pending current_subnet_epoch schedule =
     (case srf_pending schedule of None \<Rightarrow> schedule
      | Some pending \<Rightarrow>
          if effective_subnet_epoch pending \<le> current_subnet_epoch
          then schedule\<lparr>srf_current := pending_factors pending, srf_pending := None\<rparr> else schedule)"

definition updated :: "u128 option \<Rightarrow> u128 \<Rightarrow> u128" where
  "updated maybe_value old = (case maybe_value of Some v \<Rightarrow> v | None \<Rightarrow> old)"

definition apply_updates :: "SubnetReputationFactorUpdates \<Rightarrow> SubnetReputationFactors \<Rightarrow> SubnetReputationFactors" where
  "apply_updates u f =
     \<lparr>absent_decrease = updated (upd_absent_decrease u) (absent_decrease f),
      included_increase = updated (upd_included_increase u) (included_increase f),
      below_min_weight_decrease = updated (upd_below_min_weight_decrease u) (below_min_weight_decrease f),
      non_attestor_decrease = updated (upd_non_attestor_decrease u) (non_attestor_decrease f),
      non_consensus_attestor_decrease =
        updated (upd_non_consensus_attestor_decrease u) (non_consensus_attestor_decrease f),
      validator_absent_decrease = updated (upd_validator_absent_decrease u) (validator_absent_decrease f),
      validator_non_consensus_decrease =
        updated (upd_validator_non_consensus_decrease u) (validator_non_consensus_decrease f)\<rparr>"

definition schedule_updates ::
  "u32 \<Rightarrow> u32 \<Rightarrow> SubnetReputationFactorUpdates \<Rightarrow> SubnetReputationFactorSchedule \<Rightarrow> SubnetReputationFactorSchedule" where
  "schedule_updates cooldown_epochs current_subnet_epoch u schedule =
     (let schedule = promote_pending current_subnet_epoch schedule;
          next_factors = apply_updates u
            (case srf_pending schedule of Some pending \<Rightarrow> pending_factors pending | None \<Rightarrow> srf_current schedule);
          cooldown = max cooldown_epochs 1;
          the_epoch = saturating_add current_subnet_epoch cooldown
      in schedule\<lparr>srf_pending := Some \<lparr>effective_subnet_epoch = the_epoch, pending_factors = next_factors\<rparr>\<rparr>)"

definition do_owner_update_reputation_factors ::
  "'c Config \<Rightarrow> RuntimeOrigin \<Rightarrow> u32 \<Rightarrow> SubnetReputationFactorUpdates \<Rightarrow> ('c, 'm) network_owners_scheme \<Rightarrow>
   (('c, 'm) network_owners_scheme, unit) outcome option"
where
  "do_owner_update_reputation_factors cfg origin subnet_id u s =
     (case ensure_subnet_owner origin subnet_id s of Inl e \<Rightarrow> Some (s, Inl e) | Inr _ \<Rightarrow>
      if \<not> has_update u then Some (s, Inl (OwnerErr InvalidValues))
      else if requires_no_emergency_validators u \<and> EmergencySubnetNodeElectionData s subnet_id \<noteq> None
      then Some (s, Inl (OwnerErr EmergencyValidatorsSet))
      else case validate_reputation_factors u s of Inl e \<Rightarrow> Some (s, Inl e) | Inr _ \<Rightarrow>
      case get_current_subnet_epoch_as_u32 cfg subnet_id s of None \<Rightarrow> None
      | Some current_subnet_epoch \<Rightarrow>
          Some (s\<lparr>SubnetReputationFactorSchedules := (SubnetReputationFactorSchedules s)
                   (subnet_id := schedule_updates (SubnetOwnerFactorCooldownEpochs s) current_subnet_epoch u
                                   (SubnetReputationFactorSchedules s subnet_id))\<rparr>, Inr ()))"

section \<open>Ownership\<close>

definition do_transfer_subnet_ownership ::
  "RuntimeOrigin \<Rightarrow> u32 \<Rightarrow> account_id \<Rightarrow> ('c, 'm) network_owners_scheme \<Rightarrow>
   (('c, 'm) network_owners_scheme, unit) outcome"
where
  "do_transfer_subnet_ownership origin subnet_id new_owner s =
     (case ensure_subnet_owner origin subnet_id s of Inl e \<Rightarrow> (s, Inl e) | Inr _ \<Rightarrow>
      (s\<lparr>PendingSubnetOwner := (PendingSubnetOwner s)(subnet_id \<mapsto> new_owner)\<rparr>, Inr ()))"

definition do_accept_subnet_ownership ::
  "RuntimeOrigin \<Rightarrow> u32 \<Rightarrow> ('c, 'm) network_owners_scheme \<Rightarrow> (('c, 'm) network_owners_scheme, unit) outcome" where
  "do_accept_subnet_ownership origin subnet_id s =
     (case ensure_signed origin of Inl e \<Rightarrow> (s, Inl e) | Inr coldkey \<Rightarrow>
      case PendingSubnetOwner s subnet_id of None \<Rightarrow> (s, Inl (OwnerErr NoPendingSubnetOwner))
      | Some pending_owner \<Rightarrow>
      if coldkey \<noteq> pending_owner then (s, Inl (OwnerErr NotPendingSubnetOwner))
      else case SubnetOwner s subnet_id of None \<Rightarrow> (s, Inl InvalidSubnetId)
      | Some _ \<Rightarrow>
          (s\<lparr>SubnetOwner := (SubnetOwner s)(subnet_id \<mapsto> pending_owner),
             PendingSubnetOwner := (PendingSubnetOwner s)(subnet_id := None)\<rparr>, Inr ()))"

definition do_owner_add_bootnode_access ::
  "RuntimeOrigin \<Rightarrow> u32 \<Rightarrow> account_id \<Rightarrow> ('c, 'm) network_owners_scheme \<Rightarrow>
   (('c, 'm) network_owners_scheme, unit) outcome"
where
  "do_owner_add_bootnode_access origin subnet_id new_account s =
     (case ensure_subnet_owner origin subnet_id s of Inl e \<Rightarrow> (s, Inl e) | Inr _ \<Rightarrow>
      let access_list = SubnetBootnodeAccess s subnet_id in
      if new_account \<in> access_list then (s, Inl (OwnerErr InBootnodeAccessList))
      else if \<not> card (insert new_account access_list) \<le> unat (MaxSubnetBootnodeAccess s)
      then (s, Inl (OwnerErr MaxSubnetBootnodeAccessError))
      else (s\<lparr>SubnetBootnodeAccess := (SubnetBootnodeAccess s)(subnet_id := insert new_account access_list)\<rparr>,
            Inr ()))"

definition do_owner_remove_bootnode_access ::
  "RuntimeOrigin \<Rightarrow> u32 \<Rightarrow> account_id \<Rightarrow> ('c, 'm) network_owners_scheme \<Rightarrow>
   (('c, 'm) network_owners_scheme, unit) outcome"
where
  "do_owner_remove_bootnode_access origin subnet_id remove_account s =
     (case ensure_subnet_owner origin subnet_id s of Inl e \<Rightarrow> (s, Inl e) | Inr _ \<Rightarrow>
      let access_list = SubnetBootnodeAccess s subnet_id in
      if remove_account \<notin> access_list then (s, Inl (OwnerErr NotInAccessList))
      else (s\<lparr>SubnetBootnodeAccess := (SubnetBootnodeAccess s)(subnet_id := access_list - {remove_account})\<rparr>,
            Inr ()))"

section \<open>Dispatchables\<close>

text \<open>The calls of the pallet whose argument is a subnet, besides its activation.\<close>

datatype (plugins only: code size) OwnerCall =
    PauseSubnet
  | UnpauseSubnet
  | DeactivateSubnet
  | UpdateName bytes
  | UpdateRepo bytes
  | UpdateDescription bytes
  | UpdateMisc bytes
  | UpdateChurnLimit u32
  | UpdateChurnLimitMultiplier u32
  | UpdateRegistrationQueueEpochs u32
  | UpdateIdleClassificationEpochs u32
  | UpdateIncludedClassificationEpochs u32
  | UpdateMinWeightDecreaseThreshold u128
  | UpdateMinSubnetNodeReputation u128
  | AddOrUpdateInitialValidators "(u32, u32) btree_map"
  | RemoveInitialValidators "u32 set"
  | SetEmergencyValidatorSet "u32 list"
  | RevertEmergencyValidatorSet
  | UpdateMinMaxStake u128 u128
  | UpdateDelegateStakePercentage u128
  | UpdateMaxRegisteredNodes u32
  | TransferSubnetOwnership account_id
  | AcceptSubnetOwnership
  | AddBootnodeAccess account_id
  | RemoveBootnodeAccess account_id
  | UpdateTargetNodeRegistrationsPerEpoch u32
  | UpdateNodeBurnRateAlpha u128
  | UpdateQueueImmunityEpochs u32
  | UpdateBootnodes "(PeerId \<times> bytes) list" "PeerId set"
  | UpdateReputationFactors SubnetReputationFactorUpdates

fun owner_operation ::
  "('f, 'x) F64Costs_scheme \<Rightarrow> 'c Config \<Rightarrow> RuntimeOrigin \<Rightarrow> u32 \<Rightarrow> OwnerCall \<Rightarrow> ('c, 'm) network_owners_scheme \<Rightarrow>
   (('c, 'm) network_owners_scheme, unit) outcome option"
where
  "owner_operation F cfg origin subnet_id PauseSubnet s =
     do_owner_pause_subnet cfg origin subnet_id s"
| "owner_operation F cfg origin subnet_id UnpauseSubnet s =
     do_owner_unpause_subnet cfg origin subnet_id s"
| "owner_operation F cfg origin subnet_id DeactivateSubnet s =
     Some (do_owner_deactivate_subnet origin subnet_id s)"
| "owner_operation F cfg origin subnet_id (UpdateName v) s =
     Some (do_owner_update_name origin subnet_id v s)"
| "owner_operation F cfg origin subnet_id (UpdateRepo v) s =
     Some (do_owner_update_repo origin subnet_id v s)"
| "owner_operation F cfg origin subnet_id (UpdateDescription v) s =
     Some (do_owner_update_description origin subnet_id v s)"
| "owner_operation F cfg origin subnet_id (UpdateMisc v) s =
     Some (do_owner_update_misc origin subnet_id v s)"
| "owner_operation F cfg origin subnet_id (UpdateChurnLimit v) s =
     Some (do_owner_update_churn_limit origin subnet_id v s)"
| "owner_operation F cfg origin subnet_id (UpdateChurnLimitMultiplier v) s =
     Some (do_owner_update_churn_limit_multiplier origin subnet_id v s)"
| "owner_operation F cfg origin subnet_id (UpdateRegistrationQueueEpochs v) s =
     Some (do_owner_update_registration_queue_epochs origin subnet_id v s)"
| "owner_operation F cfg origin subnet_id (UpdateIdleClassificationEpochs v) s =
     Some (do_owner_update_idle_classification_epochs origin subnet_id v s)"
| "owner_operation F cfg origin subnet_id (UpdateIncludedClassificationEpochs v) s =
     Some (do_owner_update_included_classification_epochs origin subnet_id v s)"
| "owner_operation F cfg origin subnet_id (UpdateMinWeightDecreaseThreshold v) s =
     Some (do_owner_update_subnet_node_min_weight_decrease_reputation_threshold origin subnet_id v s)"
| "owner_operation F cfg origin subnet_id (UpdateMinSubnetNodeReputation v) s =
     Some (do_owner_update_min_subnet_node_reputation origin subnet_id v s)"
| "owner_operation F cfg origin subnet_id (AddOrUpdateInitialValidators v) s =
     Some (do_owner_add_or_update_initial_validators origin subnet_id v s)"
| "owner_operation F cfg origin subnet_id (RemoveInitialValidators v) s =
     Some (do_owner_remove_initial_validators origin subnet_id v s)"
| "owner_operation F cfg origin subnet_id (SetEmergencyValidatorSet v) s =
     do_owner_set_emergency_validator_set F cfg origin subnet_id v s"
| "owner_operation F cfg origin subnet_id RevertEmergencyValidatorSet s =
     Some (do_owner_revert_emergency_validator_set origin subnet_id s)"
| "owner_operation F cfg origin subnet_id (UpdateMinMaxStake lo hi) s =
     Some (do_owner_update_min_max_stake origin subnet_id lo hi s)"
| "owner_operation F cfg origin subnet_id (UpdateDelegateStakePercentage v) s =
     Some (do_owner_update_delegate_stake_percentage origin subnet_id v s)"
| "owner_operation F cfg origin subnet_id (UpdateMaxRegisteredNodes v) s =
     Some (do_owner_update_max_registered_nodes origin subnet_id v s)"
| "owner_operation F cfg origin subnet_id (TransferSubnetOwnership new_owner) s =
     Some (do_transfer_subnet_ownership origin subnet_id new_owner s)"
| "owner_operation F cfg origin subnet_id AcceptSubnetOwnership s =
     Some (do_accept_subnet_ownership origin subnet_id s)"
| "owner_operation F cfg origin subnet_id (AddBootnodeAccess new_account) s =
     Some (do_owner_add_bootnode_access origin subnet_id new_account s)"
| "owner_operation F cfg origin subnet_id (RemoveBootnodeAccess remove_account) s =
     Some (do_owner_remove_bootnode_access origin subnet_id remove_account s)"
| "owner_operation F cfg origin subnet_id (UpdateTargetNodeRegistrationsPerEpoch v) s =
     Some (do_owner_update_target_node_registrations_per_epoch origin subnet_id v s)"
| "owner_operation F cfg origin subnet_id (UpdateNodeBurnRateAlpha v) s =
     Some (do_owner_update_node_burn_rate_alpha origin subnet_id v s)"
| "owner_operation F cfg origin subnet_id (UpdateQueueImmunityEpochs v) s =
     Some (do_owner_update_queue_immunity_epochs origin subnet_id v s)"
| "owner_operation F cfg origin subnet_id (UpdateBootnodes add remove) s =
     do_update_bootnodes origin subnet_id add remove s"
| "owner_operation F cfg origin subnet_id (UpdateReputationFactors u) s =
     do_owner_update_reputation_factors cfg origin subnet_id u s"

definition owner_call ::
  "('f, 'x) F64Costs_scheme \<Rightarrow> 'c Config \<Rightarrow> RuntimeOrigin \<Rightarrow> u32 \<Rightarrow> OwnerCall \<Rightarrow> ('c, 'm) network_owners_scheme \<Rightarrow>
   (('c, 'm) network_owners_scheme, unit) outcome option"
where
  "owner_call F cfg origin subnet_id call s =
     (case is_paused s of Inl e \<Rightarrow> Some (s, Inl e) | Inr _ \<Rightarrow> owner_operation F cfg origin subnet_id call s)"

end
