(* ===== verification/Subnet_Registry.thy ===== *)
theory Subnet_Registry
  imports Owner_Calls
begin

text \<open>
  What holds of the registry of subnets over registration, activation, removal and every call of an
  owner: the maps and counters that describe the subnets agree, and so do their parameters with the
  ranges other components rely on.
\<close>

section \<open>The registry\<close>

text \<open>
  Names, repositories, owners, slots and friendly identifiers belong to exactly the subnets that exist,
  none of them to two, and the counters count the subnets.
\<close>

definition friendly_of :: "'c Config \<Rightarrow> u32 \<Rightarrow> u32" where
  "friendly_of cfg slot = saturating_sub slot (DesignatedEpochSlots cfg) + 1"

definition activated :: "(u32 \<rightharpoonup> SubnetData) \<Rightarrow> u32 set" where
  "activated m = {i. \<exists>d. m i = Some d \<and> sd_state d \<noteq> Registered}"

definition registry_ok :: "'c Config \<Rightarrow> ('c, 'm) network_subnets_scheme \<Rightarrow> bool" where
  "registry_ok cfg s \<longleftrightarrow>
     slots_ok cfg s \<and>
     dom (SubnetSlot s) = dom (SubnetsData s) \<and>
     dom (SubnetOwner s) = dom (SubnetsData s) \<and>
     dom (PendingSubnetOwner s) \<subseteq> dom (SubnetsData s) \<and>
     (\<forall>n i. SubnetName s n = Some i \<longleftrightarrow> map_option sd_name (SubnetsData s i) = Some n) \<and>
     (\<forall>n i. SubnetRepo s n = Some i \<longleftrightarrow> map_option sd_repo (SubnetsData s i) = Some n) \<and>
     (\<forall>i. SubnetIdFriendlyUid s i = map_option (friendly_of cfg) (SubnetSlot s i)) \<and>
     (\<forall>u i. FriendlyUidSubnetId s u = Some i \<longleftrightarrow> SubnetIdFriendlyUid s i = Some u) \<and>
     (\<forall>i \<in> dom (SubnetsData s). 0 < i \<and> i \<le> TotalSubnetUids s) \<and>
     unat (TotalSubnets s) = card (dom (SubnetsData s)) \<and>
     unat (TotalActiveSubnets s) = card (activated (SubnetsData s))"

lemma registry_okD:
  assumes "registry_ok cfg s"
  shows "slots_ok cfg s"
    and "SubnetName s n = Some i \<longleftrightarrow> map_option sd_name (SubnetsData s i) = Some n"
    and "SubnetRepo s n = Some i \<longleftrightarrow> map_option sd_repo (SubnetsData s i) = Some n"
    and "SubnetIdFriendlyUid s i = map_option (friendly_of cfg) (SubnetSlot s i)"
    and "FriendlyUidSubnetId s u = Some i \<longleftrightarrow> SubnetIdFriendlyUid s i = Some u"
    and "SubnetSlot s i = None \<longleftrightarrow> SubnetsData s i = None"
    and "SubnetOwner s i = None \<longleftrightarrow> SubnetsData s i = None"
  using assms by (simp_all only: registry_ok_def simp_thms set_eq_iff domIff not_Some_eq)

lemma registry_ok_frame [simp]:
  "registry_ok cfg (s\<lparr>ChurnLimit := a\<rparr>) = registry_ok cfg s"
  "registry_ok cfg (s\<lparr>ChurnLimitMultiplier := a\<rparr>) = registry_ok cfg s"
  "registry_ok cfg (s\<lparr>SubnetNodeQueueEpochs := a\<rparr>) = registry_ok cfg s"
  "registry_ok cfg (s\<lparr>IdleClassificationEpochs := a\<rparr>) = registry_ok cfg s"
  "registry_ok cfg (s\<lparr>IncludedClassificationEpochs := a\<rparr>) = registry_ok cfg s"
  "registry_ok cfg (s\<lparr>NodeRegistrationInitialValidatorIds := b\<rparr>) = registry_ok cfg s"
  "registry_ok cfg (s\<lparr>SubnetMinStakeBalance := c\<rparr>) = registry_ok cfg s"
  "registry_ok cfg (s\<lparr>SubnetMaxStakeBalance := c\<rparr>) = registry_ok cfg s"
  "registry_ok cfg (s\<lparr>SubnetDelegateStakeRewardsPercentage := c\<rparr>) = registry_ok cfg s"
  "registry_ok cfg (s\<lparr>LastSubnetDelegateStakeRewardsUpdate := a\<rparr>) = registry_ok cfg s"
  "registry_ok cfg (s\<lparr>MaxRegisteredNodesOf := a\<rparr>) = registry_ok cfg s"
  "registry_ok cfg (s\<lparr>TargetNodeRegistrationsPerEpoch := a\<rparr>) = registry_ok cfg s"
  "registry_ok cfg (s\<lparr>NodeBurnRateAlpha := c\<rparr>) = registry_ok cfg s"
  "registry_ok cfg (s\<lparr>QueueImmunityEpochs := a\<rparr>) = registry_ok cfg s"
  "registry_ok cfg (s\<lparr>MinSubnetNodeReputation := c\<rparr>) = registry_ok cfg s"
  "registry_ok cfg (s\<lparr>SubnetNodeMinWeightDecreaseReputationThreshold := c\<rparr>) = registry_ok cfg s"
  "registry_ok cfg (s\<lparr>SubnetReputationFactorSchedules := d\<rparr>) = registry_ok cfg s"
  "registry_ok cfg (s\<lparr>EmergencySubnetNodeElectionData := e\<rparr>) = registry_ok cfg s"
  "registry_ok cfg (s\<lparr>SubnetBootnodeAccess := f\<rparr>) = registry_ok cfg s"
  "registry_ok cfg (s\<lparr>SubnetBootnodes := g\<rparr>) = registry_ok cfg s"
  "registry_ok cfg (s\<lparr>PreviousSubnetPauseEpoch := a\<rparr>) = registry_ok cfg s"
  "registry_ok cfg (s\<lparr>RegisteredSubnetNodesData := h\<rparr>) = registry_ok cfg s"
  "registry_ok cfg (s\<lparr>SubnetRegistrationEpoch := k\<rparr>) = registry_ok cfg s"
  "registry_ok cfg (s\<lparr>InitialValidatorData := b\<rparr>) = registry_ok cfg s"
  "registry_ok cfg (s\<lparr>PrevSubnetActivationEpoch := l\<rparr>) = registry_ok cfg s"
  "registry_ok cfg (s\<lparr>LastRegistrationCost := m\<rparr>) = registry_ok cfg s"
  "registry_ok cfg (s\<lparr>LastSubnetRegistrationBlock := l\<rparr>) = registry_ok cfg s"
  "registry_ok cfg (s\<lparr>balances := n\<rparr>) = registry_ok cfg s"
  by (simp_all add: registry_ok_def slots_ok_def)

lemma slots_ok_cong:
  assumes "slots_ok cfg s" and "SubnetSlot t = SubnetSlot s" and "SlotAssignment t = SlotAssignment s"
    and "AssignedSlots t = AssignedSlots s"
  shows "slots_ok cfg t"
  using assms(1) unfolding slots_ok_def assms(2-4) .

text \<open>Friendly identifiers tell the slots apart.\<close>

lemma friendly_inj:
  assumes "slots_ok cfg s" and "SubnetSlot s i = Some k" and "SubnetSlot s j = Some l"
    and "friendly_of cfg k = friendly_of cfg l"
  shows "i = j"
proof -
  from assms(1-3) have "SlotAssignment s k = Some i" "SlotAssignment s l = Some j"
    "DesignatedEpochSlots cfg \<le> k" "DesignatedEpochSlots cfg \<le> l"
    by (auto simp: slots_ok_def)
  with assms(4) show ?thesis by (simp add: friendly_of_def saturating_sub_def)
qed

lemma card_subnets_le:
  assumes "\<forall>i \<in> A. 0 < i \<and> i \<le> (u :: u32)"
  shows "card A \<le> unat u"
proof -
  have "unat ` A \<subseteq> {1..unat u}"
    using assms by (auto simp: word_le_nat_alt word_less_nat_alt Suc_le_eq)
  then have "card (unat ` A) \<le> unat u" using card_mono [of "{1..unat u}" "unat ` A"] by simp
  then show ?thesis by (simp add: card_image inj_on_def word_unat_eq_iff)
qed

lemma activated_upd:
  "activated (m(i \<mapsto> d)) = (if sd_state d \<noteq> Registered then insert i (activated m) else activated m - {i})"
  "activated (m(i := None)) = activated m - {i}"
  by (auto simp: activated_def)

lemma activated_sub: "activated m \<subseteq> dom m"
  by (auto simp: activated_def)

text \<open>A change of the data of a subnet that keeps its name, its repository and whether it was activated.\<close>

lemma registry_ok_data:
  assumes "registry_ok cfg s" and "SubnetsData s i = Some d"
    and "sd_name d' = sd_name d" and "sd_repo d' = sd_repo d"
    and "sd_state d' = Registered \<longleftrightarrow> sd_state d = Registered"
  shows "registry_ok cfg (s\<lparr>SubnetsData := (SubnetsData s)(i \<mapsto> d')\<rparr>)"
proof -
  let ?m = "(SubnetsData s)(i \<mapsto> d')"
  have "dom ?m = dom (SubnetsData s)" using assms(2) by auto
  moreover have "map_option sd_name (?m j) = map_option sd_name (SubnetsData s j)"
    "map_option sd_repo (?m j) = map_option sd_repo (SubnetsData s j)" for j
    using assms(2-4) by simp_all
  moreover have "activated ?m = activated (SubnetsData s)"
    using assms(2,5) by (auto simp: activated_def)
  ultimately show ?thesis using assms(1) by (simp add: registry_ok_def slots_ok_def)
qed

lemma activate_counts:
  assumes "registry_ok cfg s" and "SubnetsData s i = Some d" and "sd_state d = Registered"
  shows "unat (TotalActiveSubnets s + 1) = Suc (card (activated (SubnetsData s)))"
proof -
  have "i \<in> dom (SubnetsData s)" "i \<notin> activated (SubnetsData s)"
    using assms(2,3) by (auto simp: activated_def)
  then have "activated (SubnetsData s) \<subset> dom (SubnetsData s)"
    using activated_sub by blast
  then have "card (activated (SubnetsData s)) < card (dom (SubnetsData s))"
    by (intro psubset_card_mono) auto
  also have "\<dots> = unat (TotalSubnets s)" using assms(1) by (simp add: registry_ok_def)
  finally have "unat (TotalActiveSubnets s) + 1 \<le> unat (TotalSubnets s)"
    using assms(1) by (simp add: registry_ok_def)
  then have "unat (TotalActiveSubnets s) + 1 < 2 ^ 32" using unat_lt_exp [of "TotalSubnets s"] by simp
  then show ?thesis using assms(1) by (simp add: registry_ok_def unat_word_ariths)
qed

lemma registry_ok_activate:
  assumes "registry_ok cfg s" and "SubnetsData s i = Some d" and "sd_state d = Registered"
  shows "registry_ok cfg (activate_at i epoch d s)"
proof -
  let ?m = "(SubnetsData s)(i \<mapsto> d\<lparr>sd_state := Active, sd_start_epoch := epoch + 1\<rparr>)"
  have "dom ?m = dom (SubnetsData s)" using assms(2) by auto
  moreover have "map_option sd_name (?m j) = map_option sd_name (SubnetsData s j)"
    "map_option sd_repo (?m j) = map_option sd_repo (SubnetsData s j)" for j
    using assms(2) by simp_all
  moreover have "activated ?m = insert i (activated (SubnetsData s))"
    by (simp add: activated_upd)
  moreover have "i \<notin> activated (SubnetsData s)" using assms(2,3) by (simp add: activated_def)
  ultimately show ?thesis
    using assms(1) activate_counts [OF assms]
    by (simp add: activate_at_def registry_ok_def slots_ok_def)
qed

lemma registry_ok_enter:
  assumes "registry_ok cfg s" and "TotalSubnetUids s \<noteq> - 1" and "i = saturating_add (TotalSubnetUids s) 1"
    and "SubnetName s (rsd_name data) = None" and "SubnetRepo s (rsd_repo data) = None"
    and "slot \<notin> AssignedSlots s" and "DesignatedEpochSlots cfg \<le> slot" and "slot < EpochLength cfg"
  shows "registry_ok cfg (enter_subnet who i slot (friendly_of cfg slot) epoch data s)"
proof -
  have U: "unat i = unat (TotalSubnetUids s) + 1"
    using assms(2,3) unat_suc_lt [OF assms(2)] by (simp add: unat_saturating_add)
  have new: "SubnetsData s i = None"
  proof (rule ccontr)
    assume "SubnetsData s i \<noteq> None"
    then have "i \<le> TotalSubnetUids s" using assms(1) by (auto simp: registry_ok_def)
    with U show False by (simp add: word_le_nat_alt)
  qed
  then have slot: "SubnetSlot s i = None" using assms(1) by (auto simp: registry_ok_def)
  have "slots_ok cfg (insert_subnet_slot_assignment i slot s)"
    using assms(1,6-8) slot by (intro slots_ok_insert) (simp_all add: registry_ok_def)
  then have slots: "slots_ok cfg (enter_subnet who i slot (friendly_of cfg slot) epoch data s)"
    by (rule slots_ok_cong) (simp_all add: enter_subnet_def insert_subnet_slot_assignment_def)
  have fresh: "SubnetIdFriendlyUid s j \<noteq> Some (friendly_of cfg slot)" for j
  proof
    assume "SubnetIdFriendlyUid s j = Some (friendly_of cfg slot)"
    then obtain l where l: "SubnetSlot s j = Some l" "friendly_of cfg l = friendly_of cfg slot"
      using assms(1) by (auto simp: registry_ok_def)
    then have "l \<in> AssignedSlots s" "DesignatedEpochSlots cfg \<le> l"
      using assms(1) by (auto simp: registry_ok_def slots_ok_def)
    moreover have "l = slot" using l(2) calculation(2) assms(7) by (simp add: friendly_of_def saturating_sub_def)
    ultimately show False using assms(6) by simp
  qed
  have none: "SubnetIdFriendlyUid s i = None" using assms(1) slot by (simp add: registry_ok_def)
  have "card (dom (SubnetsData s)) \<le> unat (TotalSubnetUids s)"
    using assms(1) by (intro card_subnets_le) (simp add: registry_ok_def)
  then have "unat (TotalSubnets s) + 1 < 2 ^ 32"
    using assms(1) U unat_lt_exp [of i] by (simp add: registry_ok_def)
  then have count: "unat (saturating_add (TotalSubnets s) 1) = Suc (card (dom (SubnetsData s)))"
    using assms(1) by (simp add: unat_saturating_add registry_ok_def)
  have old: "0 < j \<and> j \<le> TotalSubnetUids s" if "j \<in> dom (SubnetsData s)" for j
    using assms(1) that by (simp add: registry_ok_def)
  have ids: "0 < i" "\<forall>j \<in> dom (SubnetsData s). 0 < j \<and> j \<le> i"
    using old U by (force simp: word_less_nat_alt word_le_nat_alt)+
  have act: "i \<notin> activated (SubnetsData s)" using new by (simp add: activated_def)
  have names: "map_option sd_name (SubnetsData s j) \<noteq> Some (rsd_name data)"
    "map_option sd_repo (SubnetsData s j) \<noteq> Some (rsd_repo data)" for j
    unfolding registry_okD(2,3) [OF assms(1), symmetric] using assms(4,5) by simp_all
  show ?thesis
    using assms(1) slots new slot fresh none count ids act names
    unfolding registry_ok_def
    by (simp add: enter_subnet_def insert_subnet_slot_assignment_def Let_def activated_upd domIff
        card_insert_if insert_absorb subset_insertI2)
qed

section \<open>Removal\<close>

lemma clear_subnet_registry [simp]:
  "SubnetsData (clear_subnet i d s) = (SubnetsData s)(i := None)"
  "SubnetOwner (clear_subnet i d s) = (SubnetOwner s)(i := None)"
  "PendingSubnetOwner (clear_subnet i d s) = (PendingSubnetOwner s)(i := None)"
  "SubnetName (clear_subnet i d s) = (SubnetName s)(sd_name d := None)"
  "SubnetRepo (clear_subnet i d s) = (SubnetRepo s)(sd_repo d := None)"
  "SubnetSlot (clear_subnet i d s) = SubnetSlot s"
  "SlotAssignment (clear_subnet i d s) = SlotAssignment s"
  "AssignedSlots (clear_subnet i d s) = AssignedSlots s"
  "SubnetIdFriendlyUid (clear_subnet i d s) = SubnetIdFriendlyUid s"
  "FriendlyUidSubnetId (clear_subnet i d s) = FriendlyUidSubnetId s"
  "TotalSubnetUids (clear_subnet i d s) = TotalSubnetUids s"
  "TotalSubnets (clear_subnet i d s) = TotalSubnets s"
  "TotalActiveSubnets (clear_subnet i d s) = TotalActiveSubnets s"
  by (simp_all add: clear_subnet_def)

lemma clean_subnet_nodes_registry [simp]:
  "SubnetsData (clean_subnet_nodes i s) = SubnetsData s"
  "SubnetOwner (clean_subnet_nodes i s) = SubnetOwner s"
  "PendingSubnetOwner (clean_subnet_nodes i s) = PendingSubnetOwner s"
  "SubnetName (clean_subnet_nodes i s) = SubnetName s"
  "SubnetRepo (clean_subnet_nodes i s) = SubnetRepo s"
  "SubnetSlot (clean_subnet_nodes i s) = SubnetSlot s"
  "SlotAssignment (clean_subnet_nodes i s) = SlotAssignment s"
  "AssignedSlots (clean_subnet_nodes i s) = AssignedSlots s"
  "SubnetIdFriendlyUid (clean_subnet_nodes i s) = SubnetIdFriendlyUid s"
  "FriendlyUidSubnetId (clean_subnet_nodes i s) = FriendlyUidSubnetId s"
  "TotalSubnetUids (clean_subnet_nodes i s) = TotalSubnetUids s"
  "TotalSubnets (clean_subnet_nodes i s) = TotalSubnets s"
  "TotalActiveSubnets (clean_subnet_nodes i s) = TotalActiveSubnets s"
  by (simp_all add: clean_subnet_nodes_def)

text \<open>What a removal leaves of the registry.\<close>

lemma do_remove_subnet_registry:
  assumes "registry_ok cfg s" and "SubnetsData s i = Some d" and "SubnetSlot s i = Some k"
    and "t = do_remove_subnet i reason s"
  shows "SubnetsData t = (SubnetsData s)(i := None)" and "SubnetOwner t = (SubnetOwner s)(i := None)"
    and "PendingSubnetOwner t = (PendingSubnetOwner s)(i := None)"
    and "SubnetName t = (SubnetName s)(sd_name d := None)"
    and "SubnetRepo t = (SubnetRepo s)(sd_repo d := None)"
    and "SubnetSlot t = (SubnetSlot s)(i := None)"
    and "SlotAssignment t = (SlotAssignment s)(k := None)" and "AssignedSlots t = AssignedSlots s - {k}"
    and "SubnetIdFriendlyUid t = (SubnetIdFriendlyUid s)(i := None)"
    and "FriendlyUidSubnetId t = (FriendlyUidSubnetId s)(friendly_of cfg k := None)"
    and "TotalSubnetUids t = TotalSubnetUids s" and "TotalSubnets t = saturating_sub (TotalSubnets s) 1"
    and "TotalActiveSubnets t =
      (if sd_state d \<noteq> Registered then saturating_sub (TotalActiveSubnets s) 1 else TotalActiveSubnets s)"
  using assms(2,3) registry_okD(4) [OF assms(1), of i]
  unfolding assms(4) do_remove_subnet_def take_friendly_uid_def free_slot_of_subnet_def
  by (simp_all add: Let_def)

lemma removal_counts:
  assumes "registry_ok cfg s" and "SubnetsData s i = Some d"
  shows "unat (saturating_sub (TotalSubnets s) 1) = card (dom (SubnetsData s) - {i})"
    and "sd_state d \<noteq> Registered \<Longrightarrow>
      unat (saturating_sub (TotalActiveSubnets s) 1) = card (activated (SubnetsData s) - {i})"
    and "sd_state d = Registered \<Longrightarrow> activated (SubnetsData s) - {i} = activated (SubnetsData s)"
  using assms by (auto simp: registry_ok_def activated_def unat_saturating_sub card_Diff_singleton_if)

lemma registry_ok_remove:
  assumes "registry_ok cfg s"
  shows "registry_ok cfg (do_remove_subnet i reason s)"
proof (cases "SubnetsData s i")
  case None
  then show ?thesis using assms by (simp add: do_remove_subnet_def)
next
  case (Some d)
  then obtain k where k: "SubnetSlot s i = Some k" using registry_okD(6) [OF assms, of i] by auto
  note r = do_remove_subnet_registry [OF assms Some k refl]
  note ok = registry_okD [OF assms]
  have other: "SubnetSlot s j \<noteq> Some k" if "j \<noteq> i" for j
    using k that ok(1) unfolding slots_ok_def by (metis option.inject)
  have "slots_ok cfg (free_slot_of_subnet i s)" by (rule slots_ok_free [OF ok(1)])
  then have slots: "slots_ok cfg (do_remove_subnet i reason s)"
    by (rule slots_ok_cong) (simp_all add: r free_slot_of_subnet_def k)
  have names: "((SubnetName s)(sd_name d := None)) n = Some j \<longleftrightarrow>
      map_option sd_name (((SubnetsData s)(i := None)) j) = Some n" for n j
    using ok(2) [of n j] ok(2) [of "sd_name d" i] Some by auto
  have repos: "((SubnetRepo s)(sd_repo d := None)) n = Some j \<longleftrightarrow>
      map_option sd_repo (((SubnetsData s)(i := None)) j) = Some n" for n j
    using ok(3) [of n j] ok(3) [of "sd_repo d" i] Some by auto
  have uids: "((FriendlyUidSubnetId s)(friendly_of cfg k := None)) u = Some j \<longleftrightarrow>
      ((SubnetIdFriendlyUid s)(i := None)) j = Some u" for u j
    using ok(5) [of u j] ok(5) [of "friendly_of cfg k" i] ok(4) [of i] k by auto
  have doms: "dom ((SubnetSlot s)(i := None)) = dom ((SubnetsData s)(i := None))"
    "dom ((SubnetOwner s)(i := None)) = dom ((SubnetsData s)(i := None))"
    "dom ((PendingSubnetOwner s)(i := None)) \<subseteq> dom ((SubnetsData s)(i := None))"
    "\<forall>j \<in> dom ((SubnetsData s)(i := None)). 0 < j \<and> j \<le> TotalSubnetUids s"
    using assms by (simp_all add: registry_ok_def Diff_mono)
  show ?thesis
    unfolding registry_ok_def r
    using slots doms names repos uids ok(4) assms removal_counts [OF assms Some]
    by (intro conjI allI) (simp_all add: activated_upd registry_ok_def del: fun_upd_apply, simp)
qed

section \<open>Registration and activation\<close>

lemma pay_subnet_registration_frame:
  assumes "pay_subnet_registration T who cost s = Inr p"
  obtains c where "p = s\<lparr>balances := c\<rparr>"
    and "if cost = 0 then c = balances s
      else currency_transfer T (balances s) who (TreasuryAccount T) cost = Inr c"
proof (cases "0 < cost")
  case True
  with assms obtain c where "p = s\<lparr>balances := c\<rparr>"
    "currency_transfer T (balances s) who (TreasuryAccount T) cost = Inr c"
    by (auto simp: pay_subnet_registration_def send_to_treasury_def split: sum.splits)
  with True show ?thesis by (intro that) auto
next
  case False
  then have "cost = 0" by (simp add: word_gt_0)
  with assms that [of "balances s"] show ?thesis by (simp add: pay_subnet_registration_def)
qed

text \<open>How a registration ends: with an error that changes nothing, or with the subnet entered.\<close>

lemma do_register_subnet_cases:
  assumes "do_register_subnet F T cfg who max_cost data s = Some (s', r)"
  obtains (failed) e where "s' = s" and "r = Inl e"
  | (entered) cost slot paid epoch where "r = Inr ()"
    and "check_subnet_registration who (saturating_add (TotalSubnetUids s) 1) data s = Some (Inr ())"
    and "get_current_registration_cost F (get_current_block_as_u32 s) s = Some cost" and "cost \<le> max_cost"
    and "get_available_subnet_slot cfg s = Inr slot"
    and "pay_subnet_registration T who cost s = Inr paid"
    and "s' = enter_subnet who (saturating_add (TotalSubnetUids s) 1) slot (friendly_of cfg slot) epoch data
      (update_last_registration_cost cost (get_current_block_as_u32 s) paid)"
proof (cases r)
  case (Inl e)
  then have "s' = s"
    using assms by (simp add: do_register_subnet_def Let_def split: option.split_asm sum.split_asm if_split_asm)
  with Inl show ?thesis by (rule_tac failed)
next
  case (Inr u)
  then have "\<exists>cost slot paid epoch.
      check_subnet_registration who (saturating_add (TotalSubnetUids s) 1) data s = Some (Inr ()) \<and>
      get_current_registration_cost F (get_current_block_as_u32 s) s = Some cost \<and> cost \<le> max_cost \<and>
      get_available_subnet_slot cfg s = Inr slot \<and> pay_subnet_registration T who cost s = Inr paid \<and>
      s' = enter_subnet who (saturating_add (TotalSubnetUids s) 1) slot (friendly_of cfg slot) epoch data
        (update_last_registration_cost cost (get_current_block_as_u32 s) paid)"
    using assms
    by (simp add: do_register_subnet_def Let_def friendly_of_def
        split: option.split_asm sum.split_asm if_split_asm) blast
  then show ?thesis using Inr that(2) by auto
qed

lemma check_subnet_registration_names:
  assumes "check_subnet_registration who i data s = Some (Inr ())"
  shows "SubnetName s (rsd_name data) = None" and "SubnetRepo s (rsd_repo data) = None"
  using assms by (auto simp: check_subnet_registration_def split: sum.splits if_splits)

lemma registry_ok_register:
  assumes "registry_ok cfg s" and "TotalSubnetUids s \<noteq> - 1" and "DesignatedEpochSlots cfg \<le> EpochLength cfg"
    and "do_register_subnet F T cfg who max_cost data s = Some (s', r)"
  shows "registry_ok cfg s'"
  using assms(4)
proof (cases rule: do_register_subnet_cases)
  case failed
  then show ?thesis using assms(1) by simp
next
  case (entered cost slot paid epoch)
  from entered(6) obtain c where c: "paid = s\<lparr>balances := c\<rparr>" by (rule pay_subnet_registration_frame)
  note slot = get_available_subnet_slot_free(1) [OF registry_okD(1) [OF assms(1)] assms(3) entered(5)]
  let ?t = "update_last_registration_cost cost (get_current_block_as_u32 s) paid"
  have "registry_ok cfg ?t" using assms(1) by (simp add: update_last_registration_cost_def c Let_def)
  moreover have "TotalSubnetUids ?t = TotalSubnetUids s" "AssignedSlots ?t = AssignedSlots s"
    "SubnetName ?t = SubnetName s" "SubnetRepo ?t = SubnetRepo s"
    by (simp_all add: update_last_registration_cost_def c Let_def)
  ultimately show ?thesis
    using assms(2) slot check_subnet_registration_names [OF entered(2)]
    unfolding entered(7) by (intro registry_ok_enter) simp_all
qed

text \<open>The three ways an activation of a registered subnet can end.\<close>

lemma do_activate_subnet_cases:
  assumes "do_activate_subnet cfg i s = Some (s', r)"
  obtains (failed) e where "s' = s" and "r = Inl e"
  | (removed) d reason where "r = Inr ()" and "SubnetsData s i = Some d" and "s' = do_remove_subnet i reason s"
  | (activated_now) d epoch where "r = Inr ()" and "SubnetsData s i = Some d" and "sd_state d = Registered"
    and "get_current_epoch_as_u32 cfg s = Some epoch" and "past_min_registration_epochs i epoch s"
    and "is_subnet_registering i (sd_state d) epoch s \<or> is_subnet_in_enactment i (sd_state d) epoch s"
    and "fst (can_subnet_be_active cfg i s)" and "s' = activate_at i epoch d s"
proof (cases r)
  case (Inl e)
  then have "s' = s"
    using assms by (simp add: do_activate_subnet_def Let_def split: option.split_asm prod.split_asm if_split_asm bool.split_asm)
  with Inl show ?thesis by (rule_tac failed)
next
  case (Inr u)
  obtain b reason where ca: "can_subnet_be_active cfg i s = (b, reason)" by fastforce
  have "b \<or> reason \<noteq> None"
    using ca by (auto simp: can_subnet_be_active_def Let_def split: if_splits)
  moreover obtain d where d: "SubnetsData s i = Some d" "sd_state d = Registered"
    using assms Inr by (auto simp: do_activate_subnet_def split: option.splits if_splits)
  moreover obtain epoch where epoch: "get_current_epoch_as_u32 cfg s = Some epoch"
    "past_min_registration_epochs i epoch s"
    using assms Inr d by (auto simp: do_activate_subnet_def split: option.splits if_splits)
  ultimately have "(\<exists>reason. s' = do_remove_subnet i reason s) \<or>
      b \<and> s' = activate_at i epoch d s \<and>
      (is_subnet_registering i (sd_state d) epoch s \<or> is_subnet_in_enactment i (sd_state d) epoch s)"
    using assms Inr ca
    by (auto simp: do_activate_subnet_def Let_def split: option.split_asm prod.split_asm if_split_asm bool.split_asm)
  then show ?thesis using Inr d epoch ca removed activated_now by auto
qed

lemma registry_ok_activation:
  assumes "registry_ok cfg s" and "do_activate_subnet cfg i s = Some (s', r)"
  shows "registry_ok cfg s'"
  using assms(2)
  by (cases rule: do_activate_subnet_cases)
    (use assms(1) in \<open>simp_all add: registry_ok_remove registry_ok_activate\<close>)

section \<open>The calls of an owner\<close>

lemmas parameter_calls =
  do_owner_update_churn_limit_def do_owner_update_churn_limit_multiplier_def
  do_owner_update_registration_queue_epochs_def do_owner_update_idle_classification_epochs_def
  do_owner_update_included_classification_epochs_def do_owner_add_or_update_initial_validators_def
  do_owner_remove_initial_validators_def do_owner_update_min_max_stake_def
  do_owner_update_delegate_stake_percentage_def do_owner_update_max_registered_nodes_def
  do_owner_update_target_node_registrations_per_epoch_def do_owner_update_node_burn_rate_alpha_def
  do_owner_update_queue_immunity_epochs_def do_owner_update_min_subnet_node_reputation_def
  do_owner_update_subnet_node_min_weight_decrease_reputation_threshold_def
  do_owner_revert_emergency_validator_set_def do_owner_add_bootnode_access_def
  do_owner_remove_bootnode_access_def

lemmas partial_calls =
  do_owner_set_emergency_validator_set_def do_owner_update_reputation_factors_def do_update_bootnodes_def

lemmas data_calls =
  do_owner_pause_subnet_def do_owner_unpause_subnet_def do_owner_update_name_def do_owner_update_repo_def
  do_owner_update_description_def do_owner_update_misc_def

lemmas ownership_calls =
  do_owner_deactivate_subnet_def do_transfer_subnet_ownership_def do_accept_subnet_ownership_def

lemmas call_splits = option.split_asm sum.split_asm if_split_asm

lemma registry_ok_pause:
  assumes "registry_ok cfg s" and "do_owner_pause_subnet cfg' origin i s = Some (s', r)"
  shows "registry_ok cfg s'"
  using assms(2,1)
  by (auto simp: do_owner_pause_subnet_def is_subnet_active_def intro!: registry_ok_data split: call_splits)

lemma extend_emergency_frame:
  assumes "extend_emergency cfg i s = Some t"
  obtains e where "t = s\<lparr>EmergencySubnetNodeElectionData := e\<rparr>"
proof (cases "EmergencySubnetNodeElectionData s i")
  case None
  with assms that [of "EmergencySubnetNodeElectionData s"] show ?thesis by (simp add: extend_emergency_def)
next
  case (Some data)
  with assms that show ?thesis by (auto simp: extend_emergency_def Let_def split: option.splits)
qed

text \<open>How an unpause ends, before the emergency validators are extended.\<close>

definition resumed :: "u32 \<Rightarrow> u32 \<Rightarrow> SubnetData \<Rightarrow> ('c, 'm) network_owners_scheme \<Rightarrow> ('c, 'm) network_owners_scheme" where
  "resumed i epoch d s =
     (shift_registered (saturating_add (saturating_sub epoch (sd_start_epoch d)) 1) s)
       \<lparr>SubnetsData := (SubnetsData s)(i \<mapsto> d\<lparr>sd_state := Active, sd_start_epoch := epoch + 1\<rparr>),
        PreviousSubnetPauseEpoch := (PreviousSubnetPauseEpoch s)(i := epoch)\<rparr>"

lemma do_owner_unpause_subnet_cases:
  assumes "do_owner_unpause_subnet cfg origin i s = Some (s', r)"
  obtains (failed) e where "s' = s" and "r = Inl e"
  | (resumed) d epoch e where "r = Inr ()" and "SubnetsData s i = Some d" and "sd_state d = SubnetPaused"
    and "get_current_epoch_as_u32 cfg s = Some epoch"
    and "s' = (resumed i epoch d s)\<lparr>EmergencySubnetNodeElectionData := e\<rparr>"
proof (cases r)
  case (Inl e)
  then have "s' = s"
    using assms by (simp add: do_owner_unpause_subnet_def Let_def split: call_splits)
  with Inl show ?thesis by (rule_tac failed)
next
  case (Inr u)
  obtain d where d: "SubnetsData s i = Some d" "sd_state d = SubnetPaused"
    using assms Inr by (auto simp: do_owner_unpause_subnet_def is_subnet_paused_def split: call_splits)
  obtain epoch where epoch: "get_current_epoch_as_u32 cfg s = Some epoch"
    using assms Inr d by (auto simp: do_owner_unpause_subnet_def is_subnet_paused_def split: call_splits)
  have "extend_emergency cfg i (resumed i epoch d s) = Some s'"
    using assms Inr d epoch
    by (simp add: do_owner_unpause_subnet_def is_subnet_paused_def resumed_def shift_registered_def Let_def
        split: call_splits)
  then obtain e where "s' = (resumed i epoch d s)\<lparr>EmergencySubnetNodeElectionData := e\<rparr>"
    by (rule extend_emergency_frame)
  with Inr d epoch show ?thesis by (intro that(2)) simp_all
qed

lemma registry_ok_unpause:
  assumes "registry_ok cfg s" and "do_owner_unpause_subnet cfg' origin i s = Some (s', r)"
  shows "registry_ok cfg s'"
  using assms(2)
proof (cases rule: do_owner_unpause_subnet_cases)
  case failed
  then show ?thesis using assms(1) by simp
next
  case (resumed d epoch e)
  have "registry_ok cfg (s\<lparr>SubnetsData := (SubnetsData s)(i \<mapsto> d\<lparr>sd_state := Active, sd_start_epoch := epoch + 1\<rparr>)\<rparr>)"
    using resumed(3) by (intro registry_ok_data [OF assms(1) resumed(2)]) simp_all
  then show ?thesis
    unfolding resumed(5) resumed_def shift_registered_def
    by (simp add: registry_ok_def slots_ok_def)
qed

lemma registry_ok_rename:
  assumes "registry_ok cfg s" and "SubnetsData s i = Some d"
  shows "SubnetName s v = None \<Longrightarrow>
      registry_ok cfg (s\<lparr>SubnetsData := (SubnetsData s)(i \<mapsto> d\<lparr>sd_name := v\<rparr>),
        SubnetName := (SubnetName s)(sd_name d := None, v \<mapsto> i)\<rparr>)"
    and "SubnetRepo s v = None \<Longrightarrow>
      registry_ok cfg (s\<lparr>SubnetsData := (SubnetsData s)(i \<mapsto> d\<lparr>sd_repo := v\<rparr>),
        SubnetRepo := (SubnetRepo s)(sd_repo d := None, v \<mapsto> i)\<rparr>)"
proof -
  note ok = registry_okD(2,3) [OF assms(1)]
  have doms: "insert i (dom (SubnetsData s)) = dom (SubnetsData s)" using assms(2) by auto
  have act: "activated ((SubnetsData s)(i \<mapsto> d\<lparr>sd_name := v\<rparr>)) = activated (SubnetsData s)"
    "activated ((SubnetsData s)(i \<mapsto> d\<lparr>sd_repo := v\<rparr>)) = activated (SubnetsData s)"
    using assms(2) by (auto simp: activated_def)
  have names: "((SubnetName s)(sd_name d := None, v \<mapsto> i)) n = Some j \<longleftrightarrow>
      map_option sd_name (((SubnetsData s)(i \<mapsto> d\<lparr>sd_name := v\<rparr>)) j) = Some n"
    if "SubnetName s v = None" for n j
    using that ok(1) [of n j] ok(1) [of v j] ok(1) [of "sd_name d" i] assms(2) by auto
  have repos: "((SubnetRepo s)(sd_repo d := None, v \<mapsto> i)) n = Some j \<longleftrightarrow>
      map_option sd_repo (((SubnetsData s)(i \<mapsto> d\<lparr>sd_repo := v\<rparr>)) j) = Some n"
    if "SubnetRepo s v = None" for n j
    using that ok(2) [of n j] ok(2) [of v j] ok(2) [of "sd_repo d" i] assms(2) by auto
  have same: "map_option sd_repo (((SubnetsData s)(i \<mapsto> d\<lparr>sd_name := v\<rparr>)) j) = map_option sd_repo (SubnetsData s j)"
    "map_option sd_name (((SubnetsData s)(i \<mapsto> d\<lparr>sd_repo := v\<rparr>)) j) = map_option sd_name (SubnetsData s j)" for j
    using assms(2) by simp_all
  show "registry_ok cfg (s\<lparr>SubnetsData := (SubnetsData s)(i \<mapsto> d\<lparr>sd_name := v\<rparr>),
        SubnetName := (SubnetName s)(sd_name d := None, v \<mapsto> i)\<rparr>)" if "SubnetName s v = None"
    using assms(1) doms act names [OF that] same unfolding registry_ok_def slots_ok_def
    by (simp del: fun_upd_apply)
  show "registry_ok cfg (s\<lparr>SubnetsData := (SubnetsData s)(i \<mapsto> d\<lparr>sd_repo := v\<rparr>),
        SubnetRepo := (SubnetRepo s)(sd_repo d := None, v \<mapsto> i)\<rparr>)" if "SubnetRepo s v = None"
    using assms(1) doms act repos [OF that] same unfolding registry_ok_def slots_ok_def
    by (simp del: fun_upd_apply)
qed

lemma registry_ok_owners:
  assumes "registry_ok cfg s" and "i \<in> dom (SubnetsData s)"
  shows "registry_ok cfg (s\<lparr>PendingSubnetOwner := (PendingSubnetOwner s)(i \<mapsto> w)\<rparr>)"
    and "registry_ok cfg (s\<lparr>SubnetOwner := (SubnetOwner s)(i \<mapsto> w),
      PendingSubnetOwner := (PendingSubnetOwner s)(i := None)\<rparr>)"
  using assms subset_trans [OF Diff_subset, of "dom (PendingSubnetOwner s)" "dom (SubnetsData s)" "{i}"]
  by (simp_all add: registry_ok_def slots_ok_def insert_absorb)

lemma registry_ok_ownership:
  assumes "registry_ok cfg s"
  shows "do_owner_deactivate_subnet origin i s = (s', r) \<Longrightarrow> registry_ok cfg s'"
    and "do_transfer_subnet_ownership origin i w s = (s', r) \<Longrightarrow> registry_ok cfg s'"
    and "do_accept_subnet_ownership origin i s = (s', r) \<Longrightarrow> registry_ok cfg s'"
proof -
  show "registry_ok cfg s'" if "do_owner_deactivate_subnet origin i s = (s', r)"
    using that assms by (auto simp: do_owner_deactivate_subnet_def registry_ok_remove split: call_splits)
  show "registry_ok cfg s'" if c: "do_transfer_subnet_ownership origin i w s = (s', r)"
  proof (cases "ensure_subnet_owner origin i s")
    case Inl
    with c assms show ?thesis by (simp add: do_transfer_subnet_ownership_def)
  next
    case (Inr who)
    then have "SubnetOwner s i \<noteq> None"
      by (auto simp: ensure_subnet_owner_def is_subnet_owner_def split: call_splits)
    then have "i \<in> dom (SubnetsData s)" using registry_okD(7) [OF assms, of i] by auto
    with Inr c assms show ?thesis
      by (auto simp: do_transfer_subnet_ownership_def intro: registry_ok_owners)
  qed
  show "registry_ok cfg s'" if c: "do_accept_subnet_ownership origin i s = (s', r)"
  proof (cases "s' = s")
    case False
    with c obtain who where "ensure_signed origin = Inr who"
      by (cases "ensure_signed origin") (auto simp: do_accept_subnet_ownership_def)
    with c False obtain w where "PendingSubnetOwner s i = Some w" "who = w"
      by (cases "PendingSubnetOwner s i") (auto simp: do_accept_subnet_ownership_def split: if_splits)
    moreover with c False \<open>ensure_signed origin = Inr who\<close> obtain v where "SubnetOwner s i = Some v"
      by (cases "SubnetOwner s i") (auto simp: do_accept_subnet_ownership_def)
    moreover from this have "i \<in> dom (SubnetsData s)" using registry_okD(7) [OF assms, of i] by auto
    ultimately show ?thesis
      using c assms \<open>ensure_signed origin = Inr who\<close>
      by (auto simp: do_accept_subnet_ownership_def intro: registry_ok_owners)
  qed (use assms in simp)
qed

lemma registry_ok_parameters:
  assumes "registry_ok cfg s" and "owner_operation F cfg' origin i call s = Some (s', r)"
    and "call \<notin> {PauseSubnet, UnpauseSubnet, DeactivateSubnet, AcceptSubnetOwnership}"
    and "\<forall>v. call \<notin> {UpdateName v, UpdateRepo v, UpdateDescription v, UpdateMisc v}"
    and "\<forall>w. call \<noteq> TransferSubnetOwnership w"
  shows "registry_ok cfg s'"
  using assms
  by (cases call) (auto simp: parameter_calls partial_calls Let_def split: call_splits)

lemma registry_ok_data_calls:
  assumes "registry_ok cfg s"
  shows "do_owner_update_name origin i v s = (s', r) \<Longrightarrow> registry_ok cfg s'"
    and "do_owner_update_repo origin i v s = (s', r) \<Longrightarrow> registry_ok cfg s'"
    and "do_owner_update_description origin i v s = (s', r) \<Longrightarrow> registry_ok cfg s'"
    and "do_owner_update_misc origin i v s = (s', r) \<Longrightarrow> registry_ok cfg s'"
proof -
  show "registry_ok cfg s'" if "do_owner_update_name origin i v s = (s', r)"
    using that assms registry_ok_rename(1) [OF assms]
    by (auto simp: do_owner_update_name_def Let_def simp del: fun_upd_apply split: call_splits)
  show "registry_ok cfg s'" if "do_owner_update_repo origin i v s = (s', r)"
    using that assms registry_ok_rename(2) [OF assms]
    by (auto simp: do_owner_update_repo_def Let_def simp del: fun_upd_apply split: call_splits)
  show "registry_ok cfg s'" if "do_owner_update_description origin i v s = (s', r)"
    using that assms by (auto simp: do_owner_update_description_def intro!: registry_ok_data split: call_splits)
  show "registry_ok cfg s'" if "do_owner_update_misc origin i v s = (s', r)"
    using that assms by (auto simp: do_owner_update_misc_def intro!: registry_ok_data split: call_splits)
qed

lemma registry_ok_owner_call:
  assumes "registry_ok cfg s" and "owner_call F cfg' origin i call s = Some (s', r)"
  shows "registry_ok cfg s'"
proof (cases "TxPause s")
  case True
  with assms show ?thesis by (simp add: owner_call_def is_paused_def)
next
  case False
  then have op: "owner_operation F cfg' origin i call s = Some (s', r)"
    using assms(2) by (simp add: owner_call_def is_paused_def)
  show ?thesis
  proof (cases "call \<in> {PauseSubnet, UnpauseSubnet, DeactivateSubnet, AcceptSubnetOwnership} \<or>
      (\<exists>v. call \<in> {UpdateName v, UpdateRepo v, UpdateDescription v, UpdateMisc v}) \<or>
      (\<exists>w. call = TransferSubnetOwnership w)")
    case True
    with op show ?thesis
      using registry_ok_pause [OF assms(1)] registry_ok_unpause [OF assms(1)]
        registry_ok_ownership [OF assms(1)] registry_ok_data_calls [OF assms(1)]
      by auto
  next
    case False
    then show ?thesis by (intro registry_ok_parameters [OF assms(1) op]) auto
  qed
qed

section \<open>Runs\<close>

text \<open>
  The storage of the registry and the parameters of subnets, which no other part of the pallet writes,
  and the steps that do: a registration, an activation, a call of an owner and a removal the network
  decides. In between anything else may happen.
\<close>

definition registry_view where
  "registry_view s = (SubnetSlot s, SlotAssignment s, AssignedSlots s, SubnetsData s, SubnetOwner s,
     PendingSubnetOwner s, SubnetName s, SubnetRepo s, SubnetIdFriendlyUid s, FriendlyUidSubnetId s,
     TotalSubnetUids s, TotalSubnets s, TotalActiveSubnets s)"

definition parameter_view where
  "parameter_view s = (SubnetMinStakeBalance s, SubnetMaxStakeBalance s, SubnetDelegateStakeRewardsPercentage s,
     NodeBurnRateAlpha s, MinSubnetNodeReputation s, TargetNodeRegistrationsPerEpoch s,
     SubnetReputationFactorSchedules s)"

inductive subnet_step ::
  "('f, 'x) F64Costs_scheme \<Rightarrow> 'c Treasury \<Rightarrow> 'c Config \<Rightarrow> ('c, 'm) network_owners_scheme \<Rightarrow>
   ('c, 'm) network_owners_scheme \<Rightarrow> bool"
  for F T cfg where
  register: "register_subnet F T cfg origin max_cost data s = Some (s', r) \<Longrightarrow> TotalSubnetUids s \<noteq> - 1 \<Longrightarrow>
     subnet_step F T cfg s s'"
| activate: "activate_subnet cfg origin i s = Some (s', r) \<Longrightarrow> subnet_step F T cfg s s'"
| owner: "owner_call F cfg origin i call s = Some (s', r) \<Longrightarrow> subnet_step F T cfg s s'"
| removal: "subnet_step F T cfg s (do_remove_subnet i reason s)"
| elsewhere: "registry_view s' = registry_view s \<Longrightarrow> parameter_view s' = parameter_view s \<Longrightarrow>
     subnet_step F T cfg s s'"

lemma register_subnet_eq:
  assumes "register_subnet F T cfg origin max_cost data s = Some (s', r)"
  shows "s' = s \<or> (\<exists>who. do_register_subnet F T cfg who max_cost data s = Some (s', r))"
  using assms by (auto simp: register_subnet_def split: sum.splits)

lemma activate_subnet_eq:
  assumes "activate_subnet cfg origin i s = Some (s', r)"
  shows "s' = s \<or> do_activate_subnet cfg i s = Some (s', r)"
  using assms by (auto simp: activate_subnet_def split: sum.splits if_splits)

lemma registry_ok_step:
  assumes "subnet_step F T cfg s s'" and "registry_ok cfg s" and "DesignatedEpochSlots cfg \<le> EpochLength cfg"
  shows "registry_ok cfg s'"
  using assms
proof cases
  case (register origin max_cost data r)
  then show ?thesis using register_subnet_eq registry_ok_register assms(2,3) by metis
next
  case (activate origin i r)
  then show ?thesis using activate_subnet_eq registry_ok_activation assms(2) by metis
next
  case (owner origin i call r)
  then show ?thesis by (rule registry_ok_owner_call [OF assms(2)])
next
  case (removal i reason)
  then show ?thesis using registry_ok_remove [OF assms(2)] by simp
next
  case elsewhere
  then show ?thesis using assms(2) by (simp add: registry_view_def registry_ok_def slots_ok_def)
qed

lemma registry_ok_run:
  assumes "(subnet_step F T cfg)\<^sup>*\<^sup>* s t" and "registry_ok cfg s"
    and "DesignatedEpochSlots cfg \<le> EpochLength cfg"
  shows "registry_ok cfg t"
  using assms by (induction rule: rtranclp_induct) (blast intro: registry_ok_step)+

end
