(* ===== verification/Subnet_Parameters.thy ===== *)
theory Subnet_Parameters
  imports Subnet_Registry
begin

text \<open>
  The parameters of subnets: whatever owners set, they stay in the ranges that staking, elections and
  rewards compute with; what an owner changes of the reputation factors, and when it counts.
\<close>

section \<open>Ranges\<close>

definition factors_ok :: "SubnetReputationFactors \<Rightarrow> bool" where
  "factors_ok f \<longleftrightarrow>
     absent_decrease f \<le> 10 ^ 18 \<and> included_increase f \<le> 10 ^ 18 \<and> below_min_weight_decrease f \<le> 10 ^ 18 \<and>
     non_attestor_decrease f \<le> 10 ^ 18 \<and> non_consensus_attestor_decrease f \<le> 10 ^ 18 \<and>
     validator_absent_decrease f \<le> 10 ^ 18 \<and> validator_non_consensus_decrease f \<le> 10 ^ 18"

definition schedule_ok :: "SubnetReputationFactorSchedule \<Rightarrow> bool" where
  "schedule_ok c \<longleftrightarrow> factors_ok (srf_current c) \<and> (\<forall>p. srf_pending c = Some p \<longrightarrow> factors_ok (pending_factors p))"

definition subnet_parameters_ok :: "u32 \<Rightarrow> ('c, 'm) network_rewards_scheme \<Rightarrow> bool" where
  "subnet_parameters_ok i s \<longleftrightarrow>
     SubnetMinStakeBalance s i \<le> SubnetMaxStakeBalance s i \<and>
     SubnetDelegateStakeRewardsPercentage s i \<le> 10 ^ 18 \<and>
     NodeBurnRateAlpha s i \<le> 10 ^ 18 \<and> MinSubnetNodeReputation s i \<le> 10 ^ 18 \<and>
     0 < TargetNodeRegistrationsPerEpoch s i \<and> schedule_ok (SubnetReputationFactorSchedules s i)"

definition parameters_ok :: "('c, 'm) network_rewards_scheme \<Rightarrow> bool" where
  "parameters_ok s \<longleftrightarrow> (\<forall>i. subnet_parameters_ok i s)"

lemma parameters_ok_view:
  assumes "parameter_view t = parameter_view s" and "parameters_ok s"
  shows "parameters_ok t"
  using assms unfolding parameters_ok_def subnet_parameters_ok_def parameter_view_def by simp

text \<open>Only the parameters of one subnet change.\<close>

lemma parameters_ok_at:
  assumes "parameters_ok s" and "subnet_parameters_ok i t"
    and "\<And>j. j \<noteq> i \<Longrightarrow> SubnetMinStakeBalance t j = SubnetMinStakeBalance s j \<and>
      SubnetMaxStakeBalance t j = SubnetMaxStakeBalance s j \<and>
      SubnetDelegateStakeRewardsPercentage t j = SubnetDelegateStakeRewardsPercentage s j \<and>
      NodeBurnRateAlpha t j = NodeBurnRateAlpha s j \<and> MinSubnetNodeReputation t j = MinSubnetNodeReputation s j \<and>
      TargetNodeRegistrationsPerEpoch t j = TargetNodeRegistrationsPerEpoch s j \<and>
      SubnetReputationFactorSchedules t j = SubnetReputationFactorSchedules s j"
  shows "parameters_ok t"
  unfolding parameters_ok_def
proof
  fix j
  show "subnet_parameters_ok j t"
  proof (cases "j = i")
    case False
    have "subnet_parameters_ok j s" using assms(1) by (simp add: parameters_ok_def)
    then show ?thesis using assms(3) [OF False] by (simp add: subnet_parameters_ok_def)
  qed (use assms(2) in simp)
qed

lemma percentage_factor_word: "percentage_factor_as_u128 = 10 ^ 18"
  by (simp add: percentage_factor_as_u128_def)

section \<open>Reputation factors\<close>

lemma validate_reputation_factor_update_ok:
  assumes "validate_reputation_factor_update u err s = Inr ()" and "f \<le> 10 ^ 18"
  shows "updated u f \<le> 10 ^ 18"
  using assms
  by (auto simp: validate_reputation_factor_update_def updated_def percentage_factor_word split: option.splits if_splits)

lemma apply_updates_ok:
  assumes "validate_reputation_factors u s = Inr ()" and "factors_ok f"
  shows "factors_ok (apply_updates u f)"
proof -
  have step: "(case x of Inl e \<Rightarrow> Inl e | Inr _ \<Rightarrow> y) = Inr () \<longleftrightarrow> x = Inr () \<and> y = Inr ()"
    for x y :: "Error + unit" by (cases x) auto
  show ?thesis
    using assms(2) assms(1) [unfolded validate_reputation_factors_def step]
    unfolding factors_ok_def apply_updates_def SubnetReputationFactors.simps
    by (blast intro: validate_reputation_factor_update_ok)
qed

lemma schedule_updates_ok:
  assumes "validate_reputation_factors u s = Inr ()" and "schedule_ok c"
  shows "schedule_ok (schedule_updates n epoch u c)"
proof -
  have p: "schedule_ok (promote_pending epoch c)"
    using assms(2) by (auto simp: promote_pending_def schedule_ok_def split: option.splits)
  then have "factors_ok (case srf_pending (promote_pending epoch c) of
      Some pending \<Rightarrow> pending_factors pending | None \<Rightarrow> srf_current (promote_pending epoch c))"
    by (auto simp: schedule_ok_def split: option.splits)
  then show ?thesis
    using p apply_updates_ok [OF assms(1)] by (simp add: schedule_updates_def Let_def schedule_ok_def)
qed

section \<open>Steps\<close>

lemma parameters_ok_remove:
  assumes "parameters_ok s"
  shows "parameters_ok (do_remove_subnet i reason s)"
proof (cases "SubnetsData s i")
  case None
  then show ?thesis using assms by (simp add: do_remove_subnet_def)
next
  case (Some d)
  have "parameter_view (do_remove_subnet i reason s) = parameter_view (clear_subnet i d s)"
    using Some
    by (auto simp: do_remove_subnet_def parameter_view_def clean_subnet_nodes_def take_friendly_uid_def
        free_slot_of_subnet_def Let_def split: option.splits)
  moreover have "parameters_ok (clear_subnet i d s)"
  proof (rule parameters_ok_at [OF assms])
    show "subnet_parameters_ok i (clear_subnet i d s)"
      by (simp add: subnet_parameters_ok_def clear_subnet_def schedule_ok_def factors_ok_def
          DefaultSubnetReputationFactorSchedule_def DefaultSubnetReputationFactors_def
          DefaultSubnetMinStakeBalance_def DefaultNetworkMaxStakeBalance_def
          DefaultDelegateStakeRewardsPercentage_def DefaultNodeBurnRateAlpha_def
          DefaultMinSubnetNodeReputation_def DefaultMaxMaxRegisteredNodes_def)
  qed (simp add: clear_subnet_def)
  ultimately show ?thesis by (rule parameters_ok_view)
qed

lemma parameters_ok_enter:
  assumes "parameters_ok s" and "check_subnet_parameters data s' = Inr ()"
  shows "parameters_ok (enter_subnet who i slot uid epoch data s)"
proof (rule parameters_ok_at [OF assms(1)])
  have "subnet_parameters_ok i s" using assms(1) by (simp add: parameters_ok_def)
  then show "subnet_parameters_ok i (enter_subnet who i slot uid epoch data s)"
    using assms(2)
    by (simp add: enter_subnet_def insert_subnet_slot_assignment_def subnet_parameters_ok_def
        check_subnet_parameters_def percentage_factor_word split: if_splits)
qed (simp add: enter_subnet_def insert_subnet_slot_assignment_def)

lemma parameters_ok_register:
  assumes "parameters_ok s" and "do_register_subnet F T cfg who max_cost data s = Some (s', r)"
  shows "parameters_ok s'"
  using assms(2)
proof (cases rule: do_register_subnet_cases)
  case failed
  then show ?thesis using assms(1) by simp
next
  case (entered cost slot paid epoch)
  from entered(6) obtain c where "paid = s\<lparr>balances := c\<rparr>" by (rule pay_subnet_registration_frame)
  then have "parameters_ok (update_last_registration_cost cost (get_current_block_as_u32 s) paid)"
    using assms(1)
    by (intro parameters_ok_view [OF _ assms(1)]) (simp add: update_last_registration_cost_def parameter_view_def Let_def)
  moreover have "check_subnet_parameters data s = Inr ()"
    using entered(2) by (auto simp: check_subnet_registration_def split: sum.splits option.splits if_splits)
  ultimately show ?thesis unfolding entered(7) by (rule parameters_ok_enter)
qed

lemma parameters_ok_activation:
  assumes "parameters_ok s" and "do_activate_subnet cfg i s = Some (s', r)"
  shows "parameters_ok s'"
  using assms(2)
proof (cases rule: do_activate_subnet_cases)
  case (activated_now d epoch)
  have "parameter_view s' = parameter_view s"
    unfolding activated_now(8) by (simp add: activate_at_def parameter_view_def)
  then show ?thesis using assms(1) by (rule parameters_ok_view)
qed (use assms(1) in \<open>simp_all add: parameters_ok_remove\<close>)

lemma owner_call_operation:
  assumes "owner_call F cfg origin i call s = Some (s', r)"
  shows "s' = s \<or> owner_operation F cfg origin i call s = Some (s', r)"
  using assms by (auto simp: owner_call_def split: sum.splits)

lemma parameters_ok_unpause:
  assumes "parameters_ok s" and "do_owner_unpause_subnet cfg origin i s = Some (s', r)"
  shows "parameters_ok s'"
  using assms(2)
proof (cases rule: do_owner_unpause_subnet_cases)
  case (resumed d epoch e)
  have "parameter_view s' = parameter_view s"
    unfolding resumed(5) by (simp add: resumed_def shift_registered_def parameter_view_def)
  then show ?thesis using assms(1) by (rule parameters_ok_view)
qed (use assms(1) in simp)

text \<open>The calls that set a parameter of the ranges, one subnet each.\<close>

lemma parameters_ok_setters:
  assumes "parameters_ok s"
  shows "do_owner_update_min_max_stake origin i lo hi s = (s', r) \<Longrightarrow> parameters_ok s'"
    and "do_owner_update_delegate_stake_percentage origin i v s = (s', r) \<Longrightarrow> parameters_ok s'"
    and "do_owner_update_node_burn_rate_alpha origin i v s = (s', r) \<Longrightarrow> parameters_ok s'"
    and "do_owner_update_min_subnet_node_reputation origin i v s = (s', r) \<Longrightarrow> parameters_ok s'"
    and "do_owner_update_target_node_registrations_per_epoch origin i n s = (s', r) \<Longrightarrow> parameters_ok s'"
    and "do_owner_update_reputation_factors cfg origin i u s = Some (s', r) \<Longrightarrow> parameters_ok s'"
proof -
  have i: "subnet_parameters_ok i s" using assms by (simp add: parameters_ok_def)
  note at = parameters_ok_at [OF assms, of i]
  show "parameters_ok s'" if "do_owner_update_min_max_stake origin i lo hi s = (s', r)"
    using that i assms
    by (auto simp: do_owner_update_min_max_stake_def subnet_parameters_ok_def intro!: at split: call_splits)
  show "parameters_ok s'" if "do_owner_update_delegate_stake_percentage origin i v s = (s', r)"
    using that i assms
    by (auto simp: do_owner_update_delegate_stake_percentage_def subnet_parameters_ok_def Let_def
        percentage_factor_word intro!: at split: call_splits)
  show "parameters_ok s'" if "do_owner_update_node_burn_rate_alpha origin i v s = (s', r)"
    using that i assms
    by (auto simp: do_owner_update_node_burn_rate_alpha_def subnet_parameters_ok_def percentage_factor_word
        intro!: at split: call_splits)
  show "parameters_ok s'" if "do_owner_update_min_subnet_node_reputation origin i v s = (s', r)"
    using that i assms
    by (auto simp: do_owner_update_min_subnet_node_reputation_def subnet_parameters_ok_def percentage_factor_word
        intro!: at split: call_splits)
  show "parameters_ok s'" if "do_owner_update_target_node_registrations_per_epoch origin i n s = (s', r)"
    using that i assms
    by (auto simp: do_owner_update_target_node_registrations_per_epoch_def subnet_parameters_ok_def
        intro!: at split: call_splits)
  show "parameters_ok s'" if "do_owner_update_reputation_factors cfg origin i u s = Some (s', r)"
    using that i assms
    by (auto simp: do_owner_update_reputation_factors_def subnet_parameters_ok_def
        intro!: at schedule_updates_ok split: call_splits)
qed

lemma parameter_view_frame [simp]:
  "parameter_view (s\<lparr>ChurnLimit := x0\<rparr>) = parameter_view s"
  "parameter_view (s\<lparr>ChurnLimitMultiplier := x1\<rparr>) = parameter_view s"
  "parameter_view (s\<lparr>SubnetNodeQueueEpochs := x2\<rparr>) = parameter_view s"
  "parameter_view (s\<lparr>IdleClassificationEpochs := x3\<rparr>) = parameter_view s"
  "parameter_view (s\<lparr>IncludedClassificationEpochs := x4\<rparr>) = parameter_view s"
  "parameter_view (s\<lparr>NodeRegistrationInitialValidatorIds := x5\<rparr>) = parameter_view s"
  "parameter_view (s\<lparr>LastSubnetDelegateStakeRewardsUpdate := x6\<rparr>) = parameter_view s"
  "parameter_view (s\<lparr>MaxRegisteredNodesOf := x7\<rparr>) = parameter_view s"
  "parameter_view (s\<lparr>QueueImmunityEpochs := x8\<rparr>) = parameter_view s"
  "parameter_view (s\<lparr>SubnetNodeMinWeightDecreaseReputationThreshold := x9\<rparr>) = parameter_view s"
  "parameter_view (s\<lparr>EmergencySubnetNodeElectionData := x10\<rparr>) = parameter_view s"
  "parameter_view (s\<lparr>SubnetBootnodeAccess := x11\<rparr>) = parameter_view s"
  "parameter_view (s\<lparr>SubnetBootnodes := x12\<rparr>) = parameter_view s"
  "parameter_view (s\<lparr>SubnetsData := x13\<rparr>) = parameter_view s"
  "parameter_view (s\<lparr>SubnetName := x14\<rparr>) = parameter_view s"
  "parameter_view (s\<lparr>SubnetRepo := x15\<rparr>) = parameter_view s"
  "parameter_view (s\<lparr>SubnetOwner := x16\<rparr>) = parameter_view s"
  "parameter_view (s\<lparr>PendingSubnetOwner := x17\<rparr>) = parameter_view s"
  by (simp_all add: parameter_view_def)

lemma parameter_view_kept:
  assumes "owner_operation F cfg origin i call s = Some (s', r)"
    and "call \<notin> {UnpauseSubnet, DeactivateSubnet}" and "\<forall>lo hi. call \<noteq> UpdateMinMaxStake lo hi"
    and "\<forall>v. call \<notin> {UpdateDelegateStakePercentage v, UpdateNodeBurnRateAlpha v, UpdateMinSubnetNodeReputation v}"
    and "\<forall>n. call \<noteq> UpdateTargetNodeRegistrationsPerEpoch n" and "\<forall>u. call \<noteq> UpdateReputationFactors u"
  shows "parameter_view s' = parameter_view s"
  using assms
  by (cases call) (auto simp: parameter_calls partial_calls ownership_calls data_calls Let_def split: call_splits)

lemma parameters_ok_owner_call:
  assumes "parameters_ok s" and "owner_call F cfg origin i call s = Some (s', r)"
  shows "parameters_ok s'"
  using owner_call_operation [OF assms(2)]
proof
  assume op: "owner_operation F cfg origin i call s = Some (s', r)"
  show ?thesis
  proof (cases "call \<in> {UnpauseSubnet, DeactivateSubnet} \<or> (\<exists>lo hi. call = UpdateMinMaxStake lo hi) \<or>
      (\<exists>v. call \<in> {UpdateDelegateStakePercentage v, UpdateNodeBurnRateAlpha v, UpdateMinSubnetNodeReputation v}) \<or>
      (\<exists>n. call = UpdateTargetNodeRegistrationsPerEpoch n) \<or> (\<exists>u. call = UpdateReputationFactors u)")
    case True
    have "parameters_ok s'" if "do_owner_deactivate_subnet origin i s = (s', r)"
      using that assms(1) parameters_ok_remove [OF assms(1)]
      by (auto simp: do_owner_deactivate_subnet_def split: call_splits)
    with True op show ?thesis
      using parameters_ok_setters [OF assms(1)] parameters_ok_unpause [OF assms(1)] by auto
  next
    case False
    then have "parameter_view s' = parameter_view s" by (intro parameter_view_kept [OF op]) auto
    then show ?thesis using assms(1) by (rule parameters_ok_view)
  qed
qed (use assms(1) in simp)

lemma parameters_ok_run:
  assumes "(subnet_step F T cfg)\<^sup>*\<^sup>* s t" and "parameters_ok s"
  shows "parameters_ok t"
  using assms
proof (induction rule: rtranclp_induct)
  case (step t u)
  then have ok: "parameters_ok t" by simp
  from step(2) show ?case
  proof cases
    case (register origin max_cost data r)
    then show ?thesis using register_subnet_eq parameters_ok_register ok by metis
  next
    case (activate origin i r)
    then show ?thesis using activate_subnet_eq parameters_ok_activation ok by metis
  next
    case (owner origin i call r)
    then show ?thesis by (rule parameters_ok_owner_call [OF ok])
  next
    case (removal i reason)
    then show ?thesis using parameters_ok_remove [OF ok] by simp
  next
    case elsewhere
    then show ?thesis using parameters_ok_view ok by blast
  qed
qed

end
