(* ===== verification/Concrete_Subnets.thy ===== *)
theory Concrete_Subnets
  imports Complex_Main Subnet_Parameters Concrete_Rewards Multiaddr_Properties
begin

text \<open>
  The concrete network with its registry: subnet 5, owned by account 2, is active in slot 25; a
  registration costs ten tokens, which a transfer of the simple currency moves to account 99.
\<close>

definition example_costs :: "rat F64Costs" where
  "example_costs = \<lparr>f64_of_u128 = (\<lambda>x. of_nat (unat x)), f64_as_u128 = (\<lambda>x. of_int \<lfloor>x\<rfloor>),
     f64_add = (+), f64_mul = (*), f64_div = (/), f64_1e18 = 10 ^ 18, libm_pow = (\<lambda>x y. x),
     f64_of_u64 = (\<lambda>x. of_nat (unat x)), f64_sub = (-), f64_abs = abs, f64_less = (<), f64_le = (\<le>),
     f64_clamp = (\<lambda>x lo hi. if lo \<le> hi then Some (max lo (min x hi)) else None),
     f64_zero = 0, f64_one = 1, libm_exp = (\<lambda>x. 1 + x), f64_min = min, libm_log = (\<lambda>x. x - 1),
     libm_ceil = (\<lambda>x. of_int \<lceil>x\<rceil>), f64_as_u32 = (\<lambda>x. of_int \<lfloor>x\<rfloor>)\<rparr>"

definition simple_transfer ::
  "simple_balances \<Rightarrow> account_id \<Rightarrow> account_id \<Rightarrow> u128 \<Rightarrow> Error + simple_balances" where
  "simple_transfer c a b v =
     (if v \<le> fst c a then Inr (let f = (fst c)(a := fst c a - v) in f(b := f b + v), snd c)
      else Inl NotEnoughBalance)"

definition example_treasury :: "simple_balances Treasury" where
  "example_treasury = \<lparr>TreasuryAccount = 99, currency_transfer = simple_transfer\<rparr>"

definition example_subnets :: "simple_balances network_subnets" where
  "example_subnets = network_rewards.extend example_rewards
     (network_subnets.fields 5 1 10 8 [[] \<mapsto> 5] [[] \<mapsto> 5] (\<lambda>_ _. None) (\<lambda>_. {}) (\<lambda>_. None) (\<lambda>_. 0) (\<lambda>_. 0)
        [5 \<mapsto> 23] [23 \<mapsto> 5] (10 ^ 19) (10 ^ 19) 900 1000 (5 * 10 ^ 17) (2 * 10 ^ 18) False (\<lambda>_. False)
        (10 ^ 17) 2 0 100 (10 ^ 21) (10 ^ 21) (10 ^ 16))"

definition example_owners :: "simple_balances network_owners" where
  "example_owners = network_subnets.extend example_subnets
     (network_owners.fields 1 20 (10 ^ 18) (10 ^ 16) (9 * 10 ^ 17) (10 ^ 15) (5 * 10 ^ 17) 1 8 1 8 1 20 1 8 1 8
        50 (10 ^ 16) 4 64 4 3 (10 ^ 18))"

lemmas example_owners_state = example_owners_def example_subnets_def example_rewards_state
  network_rewards.extend_def network_subnets.extend_def network_subnets.fields_def network_owners.fields_def

lemma example_registry: "registry_ok example_config example_owners"
proof -
  have "slots_ok example_config example_owners"
    using example_slots_ok by (rule slots_ok_cong) (simp_all add: example_owners_state)
  moreover have "activated (SubnetsData example_owners) = {5}"
    by (auto simp: activated_def example_owners_state example_subnet_def)
  ultimately show ?thesis
    by (auto simp: registry_ok_def example_owners_state example_subnet_def example_config_def friendly_of_def
        saturating_sub_def)
qed

lemma example_parameters: "parameters_ok example_owners"
  by (simp add: parameters_ok_def subnet_parameters_ok_def schedule_ok_def factors_ok_def example_owners_state)

text \<open>A subnet that account 1 registers, with one bootnode and ten initial validators.\<close>

definition example_bootnode :: bytes where
  "example_bootnode = component_bytes (421, [18, 32])"

lemma example_bootnode_verifies: "verify example_bootnode = Some (Inr example_bootnode)"
proof -
  have l: "length example_bootnode < 2 ^ 32"
    using encode_varint_length(2) [of 421] encode_varint_length(2) [of 2]
    by (simp add: example_bootnode_def length_prefixed_def)
  have "parse_components example_bootnode 0 = Inr 421"
    using parse_concat [of "[(421, [18, 32])]" 0] by (simp add: example_bootnode_def length_prefixed_def)
  then show ?thesis using verify_parse [OF l] by (simp add: parse_multiaddr_def)
qed

definition example_registration :: RegistrationSubnetData where
  "example_registration = \<lparr>rsd_name = [1], rsd_repo = [2], rsd_description = [], rsd_misc = [],
     rsd_min_stake = 100, rsd_max_stake = 10 ^ 21, rsd_delegate_stake_percentage = 10 ^ 17,
     rsd_initial_validators = map (\<lambda>n. (of_nat n, 1)) [1..<11],
     rsd_bootnodes = [(replicate 40 49, example_bootnode)]\<rparr>"

lemma example_check: "check_subnet_registration 1 6 example_registration example_owners = Some (Inr ())"
proof -
  have "check_bootnodes (rsd_bootnodes example_registration) = Some (Inr ())"
    by (simp add: example_registration_def do_verify_multiaddr_def example_bootnode_verifies validate_peer_id_def)
  then show ?thesis
    by (simp add: check_subnet_registration_def ensure_subnet_registration_allowed_def get_total_subnets_def
        check_subnet_parameters_def example_registration_def example_owners_state saturating_add_def
        percentage_factor_as_u128_def)
qed

lemma example_cost: "get_current_registration_cost example_costs 1000 example_owners = Some (10 ^ 19)"
  by (simp add: get_current_registration_cost_def example_owners_state Let_def)

definition example_new_subnet :: "simple_balances network_owners" where
  "example_new_subnet = enter_subnet 1 6 3 1 10 example_registration (update_last_registration_cost (10 ^ 19) 1000
     (example_owners\<lparr>balances := ((\<lambda>_. 0)(1 := 10 ^ 24 - 10 ^ 19, 2 := 10 ^ 24, 99 := 10 ^ 19), 2 * 10 ^ 24)\<rparr>))"

lemma example_register_subnet:
  "do_register_subnet example_costs example_treasury example_config 1 (10 ^ 20) example_registration example_owners =
     Some (example_new_subnet, Inr ())"
proof -
  have "get_available_subnet_slot example_config example_owners = Inr 3"
    by (simp add: get_available_subnet_slot_def example_config_def example_owners_state upt_rec)
  moreover have "pay_subnet_registration example_treasury 1 (10 ^ 19) example_owners =
      Inr (example_owners\<lparr>balances := ((\<lambda>_. 0)(1 := 10 ^ 24 - 10 ^ 19, 2 := 10 ^ 24, 99 := 10 ^ 19), 2 * 10 ^ 24)\<rparr>)"
    by (simp add: pay_subnet_registration_def send_to_treasury_def example_treasury_def simple_transfer_def
        example_owners_state Let_def fun_upd_twist)
  moreover have "can_remove_balance_from_coldkey_account example_config 1 (10 ^ 19) example_owners"
    by (simp add: can_remove_balance_from_coldkey_account_def get_coldkey_balance_def example_config_def
        example_owners_state)
  moreover have "get_current_block_as_u32 example_owners = 1000" "TotalSubnetUids example_owners = 5"
    by (simp_all add: example_owners_state get_current_block_as_u32_def)
  ultimately show ?thesis
    using example_check example_cost
    by (simp add: do_register_subnet_def example_new_subnet_def Let_def saturating_add_def example_config_def
        get_current_epoch_as_u32_def get_current_block_as_u32_def saturating_div_def saturating_sub_def
        update_last_registration_cost_def)
qed

end
