(* ===== verification/Subnet_Ownership.thy ===== *)
theory Subnet_Ownership
  imports Subnet_Parameters
begin

text \<open>
  Who owns a subnet along sequences of calls, and how many nodes an owner can let register.
\<close>

section \<open>Ownership\<close>

text \<open>What concerns ownership and the capacity for registrations, and the calls that leave it alone.\<close>

definition owner_view where
  "owner_view s = (SubnetOwner s, PendingSubnetOwner s)"

definition capacity_view where
  "capacity_view s = (MaxRegisteredNodesOf s, TargetNodeRegistrationsPerEpoch s)"

lemma owner_view_frame [simp]:
  "owner_view (s\<lparr>ChurnLimit := x0\<rparr>) = owner_view s"
  "owner_view (s\<lparr>ChurnLimitMultiplier := x1\<rparr>) = owner_view s"
  "owner_view (s\<lparr>SubnetNodeQueueEpochs := x2\<rparr>) = owner_view s"
  "owner_view (s\<lparr>IdleClassificationEpochs := x3\<rparr>) = owner_view s"
  "owner_view (s\<lparr>IncludedClassificationEpochs := x4\<rparr>) = owner_view s"
  "owner_view (s\<lparr>NodeRegistrationInitialValidatorIds := x5\<rparr>) = owner_view s"
  "owner_view (s\<lparr>SubnetMinStakeBalance := x6\<rparr>) = owner_view s"
  "owner_view (s\<lparr>SubnetMaxStakeBalance := x7\<rparr>) = owner_view s"
  "owner_view (s\<lparr>SubnetDelegateStakeRewardsPercentage := x8\<rparr>) = owner_view s"
  "owner_view (s\<lparr>LastSubnetDelegateStakeRewardsUpdate := x9\<rparr>) = owner_view s"
  "owner_view (s\<lparr>NodeBurnRateAlpha := x10\<rparr>) = owner_view s"
  "owner_view (s\<lparr>QueueImmunityEpochs := x11\<rparr>) = owner_view s"
  "owner_view (s\<lparr>MinSubnetNodeReputation := x12\<rparr>) = owner_view s"
  "owner_view (s\<lparr>SubnetNodeMinWeightDecreaseReputationThreshold := x13\<rparr>) = owner_view s"
  "owner_view (s\<lparr>SubnetReputationFactorSchedules := x14\<rparr>) = owner_view s"
  "owner_view (s\<lparr>EmergencySubnetNodeElectionData := x15\<rparr>) = owner_view s"
  "owner_view (s\<lparr>SubnetBootnodeAccess := x16\<rparr>) = owner_view s"
  "owner_view (s\<lparr>SubnetBootnodes := x17\<rparr>) = owner_view s"
  "owner_view (s\<lparr>SubnetsData := x18\<rparr>) = owner_view s"
  "owner_view (s\<lparr>SubnetName := x19\<rparr>) = owner_view s"
  "owner_view (s\<lparr>SubnetRepo := x20\<rparr>) = owner_view s"
  "owner_view (s\<lparr>RegisteredSubnetNodesData := x21\<rparr>) = owner_view s"
  "owner_view (s\<lparr>PreviousSubnetPauseEpoch := x22\<rparr>) = owner_view s"
  "owner_view (s\<lparr>MaxRegisteredNodesOf := x23\<rparr>) = owner_view s"
  "owner_view (s\<lparr>TargetNodeRegistrationsPerEpoch := x24\<rparr>) = owner_view s"
  by (simp_all add: owner_view_def)

lemma capacity_view_frame [simp]:
  "capacity_view (s\<lparr>ChurnLimit := x0\<rparr>) = capacity_view s"
  "capacity_view (s\<lparr>ChurnLimitMultiplier := x1\<rparr>) = capacity_view s"
  "capacity_view (s\<lparr>SubnetNodeQueueEpochs := x2\<rparr>) = capacity_view s"
  "capacity_view (s\<lparr>IdleClassificationEpochs := x3\<rparr>) = capacity_view s"
  "capacity_view (s\<lparr>IncludedClassificationEpochs := x4\<rparr>) = capacity_view s"
  "capacity_view (s\<lparr>NodeRegistrationInitialValidatorIds := x5\<rparr>) = capacity_view s"
  "capacity_view (s\<lparr>SubnetMinStakeBalance := x6\<rparr>) = capacity_view s"
  "capacity_view (s\<lparr>SubnetMaxStakeBalance := x7\<rparr>) = capacity_view s"
  "capacity_view (s\<lparr>SubnetDelegateStakeRewardsPercentage := x8\<rparr>) = capacity_view s"
  "capacity_view (s\<lparr>LastSubnetDelegateStakeRewardsUpdate := x9\<rparr>) = capacity_view s"
  "capacity_view (s\<lparr>NodeBurnRateAlpha := x10\<rparr>) = capacity_view s"
  "capacity_view (s\<lparr>QueueImmunityEpochs := x11\<rparr>) = capacity_view s"
  "capacity_view (s\<lparr>MinSubnetNodeReputation := x12\<rparr>) = capacity_view s"
  "capacity_view (s\<lparr>SubnetNodeMinWeightDecreaseReputationThreshold := x13\<rparr>) = capacity_view s"
  "capacity_view (s\<lparr>SubnetReputationFactorSchedules := x14\<rparr>) = capacity_view s"
  "capacity_view (s\<lparr>EmergencySubnetNodeElectionData := x15\<rparr>) = capacity_view s"
  "capacity_view (s\<lparr>SubnetBootnodeAccess := x16\<rparr>) = capacity_view s"
  "capacity_view (s\<lparr>SubnetBootnodes := x17\<rparr>) = capacity_view s"
  "capacity_view (s\<lparr>SubnetsData := x18\<rparr>) = capacity_view s"
  "capacity_view (s\<lparr>SubnetName := x19\<rparr>) = capacity_view s"
  "capacity_view (s\<lparr>SubnetRepo := x20\<rparr>) = capacity_view s"
  "capacity_view (s\<lparr>RegisteredSubnetNodesData := x21\<rparr>) = capacity_view s"
  "capacity_view (s\<lparr>PreviousSubnetPauseEpoch := x22\<rparr>) = capacity_view s"
  "capacity_view (s\<lparr>SubnetOwner := x23\<rparr>) = capacity_view s"
  "capacity_view (s\<lparr>PendingSubnetOwner := x24\<rparr>) = capacity_view s"
  by (simp_all add: capacity_view_def)

lemma views_kept_unpause:
  assumes "do_owner_unpause_subnet cfg origin i s = Some (s', r)"
  shows "owner_view s' = owner_view s" and "capacity_view s' = capacity_view s"
  using assms
  by (cases rule: do_owner_unpause_subnet_cases; simp add: resumed_def shift_registered_def)+

lemma owner_view_kept:
  assumes "owner_operation F cfg origin i call s = Some (s', r)"
    and "call \<notin> {DeactivateSubnet, AcceptSubnetOwnership}" and "\<forall>w. call \<noteq> TransferSubnetOwnership w"
  shows "owner_view s' = owner_view s"
proof (cases "call = UnpauseSubnet")
  case True
  with assms(1) show ?thesis using views_kept_unpause(1) by auto
next
  case False
  with assms show ?thesis
    by (cases call)
      (auto simp: parameter_calls partial_calls do_owner_pause_subnet_def do_owner_update_name_def
        do_owner_update_repo_def do_owner_update_description_def do_owner_update_misc_def Let_def split: call_splits)
qed

lemma capacity_view_kept:
  assumes "owner_operation F cfg origin i call s = Some (s', r)" and "call \<noteq> DeactivateSubnet"
    and "\<forall>n. call \<notin> {UpdateMaxRegisteredNodes n, UpdateTargetNodeRegistrationsPerEpoch n}"
  shows "capacity_view s' = capacity_view s"
proof (cases "call = UnpauseSubnet")
  case True
  with assms(1) show ?thesis using views_kept_unpause(2) by auto
next
  case False
  with assms show ?thesis
    by (cases call)
      (auto simp: parameter_calls partial_calls ownership_calls do_owner_pause_subnet_def do_owner_update_name_def
        do_owner_update_repo_def do_owner_update_description_def do_owner_update_misc_def Let_def split: call_splits)
qed

lemma ensure_subnet_owner_iff:
  "ensure_subnet_owner origin i s = Inr v \<longleftrightarrow> origin = Signed v \<and> SubnetOwner s i = Some v"
  by (cases origin) (auto simp: ensure_subnet_owner_def ensure_signed_def is_subnet_owner_def)

text \<open>The three calls that change who owns a subnet or is to own it.\<close>

lemma ownership_cases:
  assumes "owner_call F cfg origin i call s = Some (s', r)" and "owner_view s' \<noteq> owner_view s"
  obtains (deactivated) v where "call = DeactivateSubnet" and "origin = Signed v" and "SubnetOwner s i = Some v"
      and "owner_view s' = ((SubnetOwner s)(i := None), (PendingSubnetOwner s)(i := None))"
  | (accepted) w where "call = AcceptSubnetOwnership" and "origin = Signed w" and "PendingSubnetOwner s i = Some w"
      and "owner_view s' = ((SubnetOwner s)(i \<mapsto> w), (PendingSubnetOwner s)(i := None))"
  | (nominated) v w where "call = TransferSubnetOwnership w" and "origin = Signed v" and "SubnetOwner s i = Some v"
      and "owner_view s' = (SubnetOwner s, (PendingSubnetOwner s)(i \<mapsto> w))"
proof -
  have op: "owner_operation F cfg origin i call s = Some (s', r)" and ne: "s' \<noteq> s"
    using owner_call_operation [OF assms(1)] assms(2) by auto
  then consider "call = DeactivateSubnet" | "call = AcceptSubnetOwnership" | u where "call = TransferSubnetOwnership u"
    using owner_view_kept [OF op] assms(2) by auto
  then show ?thesis
  proof cases
    case 1
    with op ne obtain v d where v: "ensure_subnet_owner origin i s = Inr v" "SubnetsData s i = Some d"
      "s' = do_remove_subnet i OwnerReason s"
      by (auto simp: do_owner_deactivate_subnet_def split: call_splits)
    then have "owner_view s' = ((SubnetOwner s)(i := None), (PendingSubnetOwner s)(i := None))"
      by (simp add: owner_view_def do_remove_subnet_def take_friendly_uid_def free_slot_of_subnet_def Let_def
          split: option.splits)
    with 1 v(1) show ?thesis by (intro deactivated) (simp_all add: ensure_subnet_owner_iff)
  next
    case 2
    with op ne obtain w where "ensure_signed origin = Inr w" "PendingSubnetOwner s i = Some w"
      "owner_view s' = ((SubnetOwner s)(i \<mapsto> w), (PendingSubnetOwner s)(i := None))"
      by (auto simp: do_accept_subnet_ownership_def owner_view_def split: call_splits)
    moreover from this(1) have "origin = Signed w" by (cases origin) (simp_all add: ensure_signed_def)
    ultimately show ?thesis using 2 by (intro accepted) simp_all
  next
    case 3
    with op ne obtain v where "ensure_subnet_owner origin i s = Inr v"
      "owner_view s' = (SubnetOwner s, (PendingSubnetOwner s)(i \<mapsto> u))"
      by (auto simp: do_transfer_subnet_ownership_def owner_view_def split: call_splits)
    with 3 show ?thesis by (intro nominated) (simp_all add: ensure_subnet_owner_iff)
  qed
qed

lemma pending_owner_step:
  assumes "owner_call F cfg origin i call s = Some (s', r)" and "PendingSubnetOwner s' j = Some w"
    and "PendingSubnetOwner s j \<noteq> Some w"
  shows "j = i \<and> call = TransferSubnetOwnership w \<and> (\<exists>v. origin = Signed v \<and> SubnetOwner s i = Some v)"
proof -
  have "owner_view s' \<noteq> owner_view s" using assms(2,3) by (auto simp: owner_view_def)
  with assms(1) show ?thesis
    by (cases rule: ownership_cases) (use assms(2,3) in \<open>auto simp: owner_view_def split: if_splits\<close>)
qed

lemma subnet_owner_step:
  assumes "owner_call F cfg origin i call s = Some (s', r)" and "SubnetOwner s' j = Some w"
    and "SubnetOwner s j \<noteq> Some w"
  shows "j = i \<and> call = AcceptSubnetOwnership \<and> origin = Signed w \<and> PendingSubnetOwner s i = Some w"
proof -
  have "owner_view s' \<noteq> owner_view s" using assms(2,3) by (auto simp: owner_view_def)
  with assms(1) show ?thesis
    by (cases rule: ownership_cases) (use assms(2,3) in \<open>auto simp: owner_view_def split: if_splits\<close>)
qed

section \<open>Sequences of calls\<close>

inductive owner_trace ::
  "('f, 'x) F64Costs_scheme \<Rightarrow> 'c Config \<Rightarrow> ('c, 'm) network_owners_scheme \<Rightarrow>
   (RuntimeOrigin \<times> u32 \<times> OwnerCall) list \<Rightarrow> ('c, 'm) network_owners_scheme \<Rightarrow> bool"
  for F cfg s where
  start: "owner_trace F cfg s [] s"
| call: "owner_trace F cfg s es t \<Longrightarrow> owner_call F cfg origin i call t = Some (u, r) \<Longrightarrow>
     owner_trace F cfg s (es @ [(origin, i, call)]) u"

section \<open>Histories\<close>

text \<open>
  What happens to subnets: a call of an owner, a registration, an activation, the removal of a subnet in
  the block hook, by the council or by its owner, and any step of another part of the program, which
  leaves owners and nominations alone. Calls are made by any account and end in any way.
\<close>

datatype SubnetEvent =
    OwnerCalled RuntimeOrigin u32 OwnerCall
  | RegisterCalled RuntimeOrigin u128 RegistrationSubnetData
  | ActivateCalled RuntimeOrigin u32
  | SubnetRemoved u32 SubnetRemovalReason
  | Elsewhere

inductive subnet_history ::
  "('f, 'x) F64Costs_scheme \<Rightarrow> 'c Treasury \<Rightarrow> 'c Config \<Rightarrow> ('c, 'm) network_owners_scheme \<Rightarrow>
   SubnetEvent list \<Rightarrow> ('c, 'm) network_owners_scheme \<Rightarrow> bool"
  for F T cfg s where
  nothing: "subnet_history F T cfg s [] s"
| owner: "subnet_history F T cfg s es t \<Longrightarrow> owner_call F cfg origin i call t = Some (u, r) \<Longrightarrow>
     subnet_history F T cfg s (es @ [OwnerCalled origin i call]) u"
| register: "subnet_history F T cfg s es t \<Longrightarrow> register_subnet F T cfg origin max_cost data t = Some (u, r) \<Longrightarrow>
     subnet_history F T cfg s (es @ [RegisterCalled origin max_cost data]) u"
| activate: "subnet_history F T cfg s es t \<Longrightarrow> activate_subnet cfg origin i t = Some (u, r) \<Longrightarrow>
     subnet_history F T cfg s (es @ [ActivateCalled origin i]) u"
| removal: "subnet_history F T cfg s es t \<Longrightarrow>
     subnet_history F T cfg s (es @ [SubnetRemoved i reason]) (do_remove_subnet i reason t)"
| elsewhere: "subnet_history F T cfg s es t \<Longrightarrow> owner_view u = owner_view t \<Longrightarrow>
     subnet_history F T cfg s (es @ [Elsewhere]) u"

text \<open>
  In a history: a call of the owner of the subnet at the time makes an account the nominated one; a call
  of an account, nominated before, makes it the owner; an account registers the subnet.
\<close>

definition nominated_in where
  "nominated_in F T cfg s i w es \<longleftrightarrow>
     (\<exists>xs ys v t u r. es = xs @ OwnerCalled (Signed v) i (TransferSubnetOwnership w) # ys \<and>
        subnet_history F T cfg s xs t \<and> SubnetOwner t i = Some v \<and>
        owner_call F cfg (Signed v) i (TransferSubnetOwnership w) t = Some (u, r) \<and> PendingSubnetOwner u i = Some w)"

definition accepted_in where
  "accepted_in F T cfg s i w es \<longleftrightarrow>
     (\<exists>xs ys t u r. es = xs @ OwnerCalled (Signed w) i AcceptSubnetOwnership # ys \<and> nominated_in F T cfg s i w xs \<and>
        subnet_history F T cfg s xs t \<and>
        owner_call F cfg (Signed w) i AcceptSubnetOwnership t = Some (u, r) \<and> SubnetOwner u i = Some w)"

definition registered_in where
  "registered_in F T cfg s i w es \<longleftrightarrow>
     (\<exists>xs ys max_cost data t u. es = xs @ RegisterCalled (Signed w) max_cost data # ys \<and>
        subnet_history F T cfg s xs t \<and>
        register_subnet F T cfg (Signed w) max_cost data t = Some (u, Inr ()) \<and>
        i = saturating_add (TotalSubnetUids t) 1)"

lemma in_append:
  "nominated_in F T cfg s i w es \<Longrightarrow> nominated_in F T cfg s i w (es @ fs)"
  "accepted_in F T cfg s i w es \<Longrightarrow> accepted_in F T cfg s i w (es @ fs)"
  "registered_in F T cfg s i w es \<Longrightarrow> registered_in F T cfg s i w (es @ fs)"
  unfolding nominated_in_def accepted_in_def registered_in_def by (metis append.assoc append_Cons)+

text \<open>What each event does to owners and nominations.\<close>

lemma register_ownership:
  assumes "register_subnet F T cfg origin max_cost data s = Some (s', r)"
  shows "s' = s \<or> (\<exists>w. origin = Signed w \<and> r = Inr () \<and>
    owner_view s' = ((SubnetOwner s)(saturating_add (TotalSubnetUids s) 1 \<mapsto> w), PendingSubnetOwner s))"
proof -
  consider "s' = s" | w where "origin = Signed w" "do_register_subnet F T cfg w max_cost data s = Some (s', r)"
    using assms by (cases origin) (auto simp: register_subnet_def ensure_signed_def split: sum.splits)
  then show ?thesis
  proof cases
    case (2 w)
    from 2(2) show ?thesis
    proof (cases rule: do_register_subnet_cases)
      case (entered cost slot paid epoch)
      from entered(6) obtain c where "paid = s\<lparr>balances := c\<rparr>" by (rule pay_subnet_registration_frame)
      then have "owner_view s' = ((SubnetOwner s)(saturating_add (TotalSubnetUids s) 1 \<mapsto> w), PendingSubnetOwner s)"
        unfolding entered(7)
        by (simp add: owner_view_def enter_subnet_def insert_subnet_slot_assignment_def
            update_last_registration_cost_def Let_def)
      with 2(1) entered(1) show ?thesis by blast
    qed simp
  qed simp
qed

lemma removal_ownership:
  "owner_view (do_remove_subnet i reason s) = owner_view s \<or>
   owner_view (do_remove_subnet i reason s) = ((SubnetOwner s)(i := None), (PendingSubnetOwner s)(i := None))"
  by (simp add: owner_view_def do_remove_subnet_def take_friendly_uid_def free_slot_of_subnet_def Let_def
      split: option.splits)

lemma activation_ownership:
  assumes "activate_subnet cfg origin i s = Some (s', r)"
  shows "owner_view s' = owner_view s \<or>
    owner_view s' = ((SubnetOwner s)(i := None), (PendingSubnetOwner s)(i := None))"
proof -
  consider "s' = s" | "do_activate_subnet cfg i s = Some (s', r)" using activate_subnet_eq [OF assms] by blast
  then show ?thesis
  proof cases
    case 2
    then show ?thesis
    proof (cases rule: do_activate_subnet_cases)
      case (removed d reason)
      then show ?thesis using removal_ownership by simp
    next
      case (activated_now d epoch)
      then show ?thesis by (simp add: activate_at_def owner_view_def)
    qed simp
  qed simp
qed

text \<open>Only a nomination by the owner adds a nomination; only an acceptance or a registration adds an owner.\<close>

lemma removed_entry:
  assumes "owner_view s' = owner_view s \<or>
    owner_view s' = ((SubnetOwner s)(j := None), (PendingSubnetOwner s)(j := None))"
  shows "PendingSubnetOwner s' i = Some w \<Longrightarrow> PendingSubnetOwner s i = Some w"
    and "SubnetOwner s' i = Some w \<Longrightarrow> SubnetOwner s i = Some w"
  using assms by (auto simp: owner_view_def split: if_splits)

definition owners_explained where
  "owners_explained F T cfg s i es t \<longleftrightarrow>
     (\<forall>w. PendingSubnetOwner t i = Some w \<longrightarrow> nominated_in F T cfg s i w es) \<and>
     (\<forall>w. SubnetOwner t i = Some w \<longrightarrow>
        SubnetOwner s i = Some w \<or> accepted_in F T cfg s i w es \<or> registered_in F T cfg s i w es)"

lemma owners_explained_step:
  assumes "owners_explained F T cfg s i es t"
    and "\<And>w. PendingSubnetOwner u i = Some w \<Longrightarrow>
      PendingSubnetOwner t i = Some w \<or> nominated_in F T cfg s i w (es @ fs)"
    and "\<And>w. SubnetOwner u i = Some w \<Longrightarrow> SubnetOwner t i = Some w \<or>
      accepted_in F T cfg s i w (es @ fs) \<or> registered_in F T cfg s i w (es @ fs)"
  shows "owners_explained F T cfg s i (es @ fs) u"
  using assms in_append unfolding owners_explained_def by metis

lemma owners_explained_owner_call:
  assumes "subnet_history F T cfg s es t" and "owners_explained F T cfg s i es t"
    and "owner_call F cfg origin j call t = Some (u, r)"
  shows "owners_explained F T cfg s i (es @ [OwnerCalled origin j call]) u"
proof (rule owners_explained_step [OF assms(2)])
  fix w
  assume "PendingSubnetOwner u i = Some w"
  then show "PendingSubnetOwner t i = Some w \<or> nominated_in F T cfg s i w (es @ [OwnerCalled origin j call])"
    using pending_owner_step [OF assms(3)] assms(1,3) unfolding nominated_in_def by blast
next
  fix w
  assume "SubnetOwner u i = Some w"
  then have "SubnetOwner t i = Some w \<or> accepted_in F T cfg s i w (es @ [OwnerCalled origin j call])"
    using subnet_owner_step [OF assms(3)] assms unfolding accepted_in_def owners_explained_def by blast
  then show "SubnetOwner t i = Some w \<or> accepted_in F T cfg s i w (es @ [OwnerCalled origin j call]) \<or>
    registered_in F T cfg s i w (es @ [OwnerCalled origin j call])" by blast
qed

lemma owners_explained_register:
  assumes "subnet_history F T cfg s es t" and "owners_explained F T cfg s i es t"
    and "register_subnet F T cfg origin max_cost data t = Some (u, r)"
  shows "owners_explained F T cfg s i (es @ [RegisterCalled origin max_cost data]) u"
proof (rule owners_explained_step [OF assms(2)])
  fix w
  assume "PendingSubnetOwner u i = Some w"
  then show "PendingSubnetOwner t i = Some w \<or> nominated_in F T cfg s i w (es @ [RegisterCalled origin max_cost data])"
    using register_ownership [OF assms(3)] by (auto simp: owner_view_def)
next
  fix w
  assume w: "SubnetOwner u i = Some w"
  show "SubnetOwner t i = Some w \<or> accepted_in F T cfg s i w (es @ [RegisterCalled origin max_cost data]) \<or>
    registered_in F T cfg s i w (es @ [RegisterCalled origin max_cost data])"
  proof (cases "SubnetOwner t i = Some w")
    case False
    then have "origin = Signed w" "r = Inr ()" "i = saturating_add (TotalSubnetUids t) 1"
      using w register_ownership [OF assms(3)] by (auto simp: owner_view_def split: if_splits)
    then show ?thesis using assms(1,3) unfolding registered_in_def by blast
  qed simp
qed

lemma owners_explained_history:
  assumes "subnet_history F T cfg s es t" and "PendingSubnetOwner s i = None"
  shows "owners_explained F T cfg s i es t"
  using assms(1)
proof induction
  case nothing
  then show ?case using assms(2) by (simp add: owners_explained_def)
next
  case (owner es t origin j call u r)
  then show ?case by (blast intro: owners_explained_owner_call)
next
  case (register es t origin max_cost data u r)
  then show ?case by (blast intro: owners_explained_register)
next
  case (activate es t origin j u r)
  then show ?case using removed_entry [OF activation_ownership] by (blast intro: owners_explained_step)
next
  case (removal es t j reason)
  then show ?case using removed_entry [OF removal_ownership] by (blast intro: owners_explained_step)
next
  case (elsewhere es t u)
  then show ?case by (intro owners_explained_step) (auto simp: owner_view_def)
qed

section \<open>Capacity\<close>

definition capacity :: "u32 \<Rightarrow> ('c, 'm) network_burn_scheme \<Rightarrow> u32" where
  "capacity i s = max (MaxRegisteredNodesOf s i) (TargetNodeRegistrationsPerEpoch s i)"

lemma capacity_view_removed:
  assumes "j \<noteq> i"
  shows "capacity i (do_remove_subnet j reason s) = capacity i s"
proof -
  have "capacity i (clear_subnet j d s) = capacity i s" for d
    using assms by (simp add: capacity_def clear_subnet_def)
  then show ?thesis
    by (simp add: do_remove_subnet_def clean_subnet_nodes_def take_friendly_uid_def free_slot_of_subnet_def
        capacity_def Let_def split: option.splits)
qed

lemma capacity_step:
  assumes "owner_call F cfg origin j call s = Some (s', r)" and "(j, call) \<noteq> (i, DeactivateSubnet)"
  shows "capacity i s' \<le> capacity i s"
proof (cases "capacity_view s' = capacity_view s")
  case True
  then show ?thesis by (simp add: capacity_view_def capacity_def)
next
  case False
  then have op: "owner_operation F cfg origin j call s = Some (s', r)" and ne: "s' \<noteq> s"
    using owner_call_operation [OF assms(1)] by auto
  then consider "call = DeactivateSubnet"
    | n where "call = UpdateMaxRegisteredNodes n \<or> call = UpdateTargetNodeRegistrationsPerEpoch n"
    using capacity_view_kept [OF op] False by auto
  then show ?thesis
  proof cases
    case 1
    with op ne have "s' = do_remove_subnet j OwnerReason s"
      by (auto simp: do_owner_deactivate_subnet_def split: call_splits)
    then show ?thesis using 1 assms(2) by (simp add: capacity_view_removed)
  next
    case 2
    with op have "s' = s \<or>
        s' = s\<lparr>MaxRegisteredNodesOf := (MaxRegisteredNodesOf s)(j := n)\<rparr> \<and> n \<le> TargetNodeRegistrationsPerEpoch s j \<or>
        s' = s\<lparr>TargetNodeRegistrationsPerEpoch := (TargetNodeRegistrationsPerEpoch s)(j := n)\<rparr> \<and>
          n \<le> MaxRegisteredNodesOf s j"
      by (auto simp: do_owner_update_max_registered_nodes_def
          do_owner_update_target_node_registrations_per_epoch_def split: call_splits)
    then show ?thesis by (elim disjE conjE) (simp_all add: capacity_def max.coboundedI1 max.coboundedI2)
  qed
qed

lemma capacity_trace:
  assumes "owner_trace F cfg s es t" and "\<forall>origin. (origin, i, DeactivateSubnet) \<notin> set es"
  shows "capacity i t \<le> capacity i s"
  using assms
proof induction
  case (call es t origin j c u r)
  then have "capacity i u \<le> capacity i t" by (intro capacity_step [OF call.hyps(2)]) auto
  also have "\<dots> \<le> capacity i s" using call by simp
  finally show ?case .
qed simp

end
