(* ===== verification/Subnet_Properties.thy ===== *)
theory Subnet_Properties
  imports Concrete_Subnets Subnet_Ownership
begin

text \<open>
  Properties of subnets: the registry and the parameters along runs, what a registration pays, what an
  activation requires, how a subnet changes hands, and what a removal leaves behind.
\<close>

section \<open>Runs\<close>

text \<open>
  C15: the registry of subnets stays consistent along every run: registrations (while the 32-bit
  identifiers last), activations, removals and calls of owners, with any results, and steps elsewhere that
  change neither the registry nor the parameters. Each subnet has one owner, one slot, one
  name, one repository and one friendly identifier; the maps from a name, a repository, a slot and an
  identifier lead back to it and to nothing else; the counters count the subnets and those activated.
\<close>

theorem subnet_registry_stays_consistent:
  assumes "registry_ok cfg s" and "DesignatedEpochSlots cfg \<le> EpochLength cfg"
    and "(subnet_step F T cfg)\<^sup>*\<^sup>* s t"
  shows "registry_ok cfg t"
  using assms(3,1,2) by (rule registry_ok_run)

text \<open>Applied: account 1 registers subnet 6 and account 2 removes subnet 5.\<close>

definition example_after_removal :: "simple_balances network_owners" where
  "example_after_removal = do_remove_subnet 5 OwnerReason example_new_subnet"

lemma example_subnet_run:
  "(subnet_step example_costs example_treasury example_config)\<^sup>*\<^sup>* example_owners example_after_removal"
proof -
  have "register_subnet example_costs example_treasury example_config (Signed 1) (10 ^ 20) example_registration
      example_owners = Some (example_new_subnet, Inr ())"
    using example_register_subnet
    by (simp add: register_subnet_def ensure_signed_def is_paused_def example_owners_state)
  moreover have "TotalSubnetUids example_owners \<noteq> - 1" by (simp add: example_owners_state)
  ultimately have "subnet_step example_costs example_treasury example_config example_owners example_new_subnet"
    by (rule subnet_step.register)
  moreover have "subnet_step example_costs example_treasury example_config example_new_subnet example_after_removal"
    unfolding example_after_removal_def by (rule subnet_step.removal)
  ultimately show ?thesis by (rule converse_rtranclp_into_rtranclp [OF _ r_into_rtranclp])
qed

theorem subnet_registry_stays_consistent_witness: "registry_ok example_config example_after_removal"
  using subnet_registry_stays_consistent [OF example_registry _ example_subnet_run] by (simp add: example_config_def)

text \<open>
  C17: the parameters of every subnet stay in their ranges along the same runs: the minimum stake is at
  most the maximum, the share of the delegates, the burn rate's weight, the minimum reputation and every
  reputation factor, the pending ones too, are at most one, and the target of registrations is positive.
\<close>

theorem subnet_parameters_stay_valid:
  assumes "parameters_ok s" and "(subnet_step F T cfg)\<^sup>*\<^sup>* s t"
  shows "parameters_ok t"
  using assms(2,1) by (rule parameters_ok_run)

text \<open>Applied to the same run.\<close>

theorem subnet_parameters_stay_valid_witness: "parameters_ok example_after_removal"
  using subnet_parameters_stay_valid [OF example_parameters example_subnet_run] .

section \<open>Registration and activation\<close>

lemma registration_cost_min:
  assumes "get_current_registration_cost F block s = Some cost"
  shows "MinRegistrationCost s \<le> cost"
  using assms by (auto simp: get_current_registration_cost_def Let_def split: if_splits option.splits)

text \<open>
  C19: a registration pays its price. When it succeeds, the price, the one that is current at the block of
  the call, lies between the minimum and what the caller agreed to; exactly the price went from the caller to the treasury (nothing for a price of zero);
  the next price starts from it, raised by the multiplier; and the caller owns a new subnet, which is
  registered and not active, under the name and the repository given.
\<close>

theorem registration_pays_the_price:
  assumes "do_register_subnet F T cfg who max_cost data s = Some (s', Inr ())"
  shows "\<exists>cost i d. get_current_registration_cost F (get_current_block_as_u32 s) s = Some cost \<and>
    MinRegistrationCost s \<le> cost \<and> cost \<le> max_cost \<and>
    (if cost = 0 then balances s' = balances s
     else currency_transfer T (balances s) who (TreasuryAccount T) cost = Inr (balances s')) \<and>
    LastRegistrationCost s' = percent_mul cost (NewRegistrationCostMultiplier s) \<and>
    i = saturating_add (TotalSubnetUids s) 1 \<and> SubnetOwner s' i = Some who \<and> SubnetsData s' i = Some d \<and>
    sd_state d = Registered \<and> sd_name d = rsd_name data \<and> sd_repo d = rsd_repo data"
  using assms
proof (cases rule: do_register_subnet_cases)
  case (entered cost slot paid epoch)
  note pay = entered(6)
  from pay obtain c where c: "paid = s\<lparr>balances := c\<rparr>"
    "if cost = 0 then c = balances s else currency_transfer T (balances s) who (TreasuryAccount T) cost = Inr c"
    by (rule pay_subnet_registration_frame)
  have "balances s' = c" "LastRegistrationCost s' = percent_mul cost (NewRegistrationCostMultiplier s)"
    unfolding entered(7)
    by (simp_all add: enter_subnet_def insert_subnet_slot_assignment_def update_last_registration_cost_def c(1) Let_def)
  moreover have "SubnetOwner s' (saturating_add (TotalSubnetUids s) 1) = Some who"
    unfolding entered(7) by (simp add: enter_subnet_def insert_subnet_slot_assignment_def Let_def)
  moreover have "\<exists>d. SubnetsData s' (saturating_add (TotalSubnetUids s) 1) = Some d \<and>
      sd_state d = Registered \<and> sd_name d = rsd_name data \<and> sd_repo d = rsd_repo data"
    unfolding entered(7) by (simp add: enter_subnet_def insert_subnet_slot_assignment_def Let_def)
  ultimately show ?thesis
    using entered(3,4) registration_cost_min [OF entered(3)] c(2) by (auto split: if_splits)
qed simp

text \<open>Applied: the registration of subnet 6.\<close>

theorem registration_pays_the_price_witness:
  "\<exists>cost i d. get_current_registration_cost example_costs (get_current_block_as_u32 example_owners) example_owners =
       Some cost \<and> 10 ^ 19 \<le> cost \<and> cost \<le> 10 ^ 20 \<and> SubnetOwner example_new_subnet i = Some 1 \<and>
     SubnetsData example_new_subnet i = Some d \<and> sd_name d = [1] \<and>
     LastRegistrationCost example_new_subnet = percent_mul cost (2 * 10 ^ 18)"
  using registration_pays_the_price [OF example_register_subnet]
  by (auto simp: example_registration_def example_owners_state)

text \<open>
  C18: an activation decides the fate of a registered subnet. If it makes the subnet active, from the next
  epoch on, the minimal time since the registration has passed, the subnet is still in its registration
  or enactment period, and it has the reputation, the nodes and the delegate stake the network asks for.
  Any other call either fails and changes nothing, or removes the subnet.
\<close>

theorem activation_requires_conditions:
  assumes "do_activate_subnet cfg i s = Some (s', r)"
  shows "(\<exists>e. r = Inl e \<and> s' = s) \<or> (r = Inr () \<and> SubnetsData s' i = None) \<or>
    (\<exists>d epoch. r = Inr () \<and> SubnetsData s i = Some d \<and> sd_state d = Registered \<and>
       SubnetsData s' i = Some (d\<lparr>sd_state := Active, sd_start_epoch := epoch + 1\<rparr>) \<and>
       get_current_epoch_as_u32 cfg s = Some epoch \<and> past_min_registration_epochs i epoch s \<and>
       (is_subnet_registering i Registered epoch s \<or> is_subnet_in_enactment i Registered epoch s) \<and>
       MinSubnetReputation s \<le> SubnetReputation s i \<and> MinSubnetNodes s \<le> TotalActiveSubnetNodes s i \<and>
       get_min_subnet_delegate_stake_balance cfg i s \<le> TotalSubnetDelegateStakeBalance s i)"
  using assms
proof (cases rule: do_activate_subnet_cases)
  case failed
  then show ?thesis by simp
next
  case (removed d reason)
  then show ?thesis
    by (simp add: do_remove_subnet_def take_friendly_uid_def free_slot_of_subnet_def Let_def split: option.splits)
next
  case (activated_now d epoch)
  then show ?thesis
    by (simp add: activate_at_def can_subnet_be_active_def Let_def not_less split: if_splits)
qed

text \<open>Applied: three epochs after its registration, subnet 6 has ten nodes and more delegate stake than needed.\<close>

definition example_grown :: "simple_balances network_owners" where
  "example_grown = example_new_subnet\<lparr>block_number := 1300, TotalActiveSubnetNodes := (\<lambda>_. 10),
     TotalSubnetDelegateStakeBalance := (\<lambda>_. - 1)\<rparr>"

lemma example_grown_fields:
  "SubnetReputation example_grown = (\<lambda>_. 10 ^ 18)" "MinSubnetReputation example_grown = 10 ^ 17"
  "MinSubnetNodes example_grown = 10" "block_number example_grown = 1300"
  "SubnetRegistrationEpoch example_grown 6 = Some 10" "MinSubnetRegistrationEpochs example_grown = 2"
  "SubnetRegistrationEpochs example_grown = 10" "TotalActiveSubnetNodes example_grown = (\<lambda>_. 10)"
  "TotalSubnetDelegateStakeBalance example_grown = (\<lambda>_. - 1)" "SubnetOwner example_grown 6 = Some 1"
  "SubnetsData example_grown 6 = Some \<lparr>sd_id = 6, sd_friendly_id = 1, sd_name = [1], sd_repo = [2],
     sd_description = [], sd_misc = [], sd_state = Registered, sd_start_epoch = - 1\<rparr>"
  by (simp_all add: example_grown_def example_new_subnet_def enter_subnet_def insert_subnet_slot_assignment_def
      update_last_registration_cost_def example_registration_def example_owners_state Let_def)

theorem activation_requires_conditions_witness:
  "\<exists>s' d. do_activate_subnet example_config 6 example_grown = Some (s', Inr ()) \<and>
     SubnetsData s' 6 = Some d \<and> sd_state d = Active \<and> MinSubnetNodes example_grown \<le> TotalActiveSubnetNodes example_grown 6"
proof -
  let ?d = "\<lparr>sd_id = 6, sd_friendly_id = 1, sd_name = [1], sd_repo = [2],
     sd_description = [], sd_misc = [], sd_state = Registered, sd_start_epoch = - 1\<rparr>"
  let ?s = "activate_at 6 13 ?d example_grown"
  have "can_subnet_be_active example_config 6 example_grown = (True, None)"
    by (simp add: can_subnet_be_active_def example_grown_fields Let_def)
  then have a: "do_activate_subnet example_config 6 example_grown = Some (?s, Inr ())"
    by (simp add: do_activate_subnet_def example_grown_fields get_current_epoch_as_u32_def
        get_current_block_as_u32_def saturating_div_def example_config_def past_min_registration_epochs_def
        is_subnet_registering_def is_subnet_in_enactment_def saturating_add_def Let_def)
  have "SubnetsData ?s 6 \<noteq> None" by (simp add: activate_at_def)
  with activation_requires_conditions [OF a] a show ?thesis by auto
qed

section \<open>Owners\<close>

text \<open>
  C16: a subnet changes hands with the consent of both. Take any history of calls of owners, registrations,
  activations, removals and steps elsewhere that touch no owner and no nomination, by any accounts and with
  any results, from a state in which no account is nominated for the subnet. If at its end an account owns the subnet that did not own it at
  the start, then in between either the owner at the time has nominated this account, and the account
  itself has accepted since; or the account itself has registered the subnet, with the next identifier.
\<close>

theorem ownership_needs_both:
  assumes "subnet_history F T cfg s es t" and "PendingSubnetOwner s i = None"
    and "SubnetOwner t i = Some w" and "SubnetOwner s i \<noteq> Some w"
  shows "accepted_in F T cfg s i w es \<or> registered_in F T cfg s i w es"
  using owners_explained_history [OF assms(1,2)] assms(3,4) by (auto simp: owners_explained_def)

text \<open>
  Applied: account 2 nominates account 3, which accepts subnet 5 after a removal of a subnet that does not
  exist. No registration takes place, so that the nomination is found before the acceptance.
\<close>

definition example_transferred :: "simple_balances network_owners" where
  "example_transferred = example_owners\<lparr>SubnetOwner := [5 \<mapsto> 3]\<rparr>"

definition example_handover :: "SubnetEvent list" where
  "example_handover = [OwnerCalled (Signed 2) 5 (TransferSubnetOwnership 3), SubnetRemoved 7 OwnerReason,
     OwnerCalled (Signed 3) 5 AcceptSubnetOwnership]"

lemma example_transfer:
  "subnet_history example_costs T example_config example_owners example_handover example_transferred"
proof -
  let ?s = "example_owners\<lparr>PendingSubnetOwner := [5 \<mapsto> 3]\<rparr>"
  have "owner_call example_costs example_config (Signed 2) 5 (TransferSubnetOwnership 3) example_owners =
      Some (?s, Inr ())"
    by (simp add: owner_call_def is_paused_def do_transfer_subnet_ownership_def ensure_subnet_owner_def
        ensure_signed_def is_subnet_owner_def example_owners_state)
  then have "subnet_history example_costs T example_config example_owners
      [OwnerCalled (Signed 2) 5 (TransferSubnetOwnership 3)] ?s"
    using subnet_history.owner [OF subnet_history.nothing] by (metis append_Nil)
  from subnet_history.removal [OF this, of 7 OwnerReason]
  have "subnet_history example_costs T example_config example_owners
      [OwnerCalled (Signed 2) 5 (TransferSubnetOwnership 3), SubnetRemoved 7 OwnerReason] ?s"
    by (simp add: do_remove_subnet_def example_owners_state)
  moreover have "owner_call example_costs example_config (Signed 3) 5 AcceptSubnetOwnership ?s =
      Some (example_transferred, Inr ())"
    by (simp add: owner_call_def is_paused_def do_accept_subnet_ownership_def ensure_signed_def
        example_transferred_def example_owners_state)
  ultimately show ?thesis
    using subnet_history.owner unfolding example_handover_def by (metis append_Cons append_Nil)
qed

theorem ownership_needs_both_witness:
  "accepted_in example_costs example_treasury example_config example_owners 5 3 example_handover"
proof -
  have "\<not> registered_in example_costs example_treasury example_config example_owners 5 3 example_handover"
    by (auto simp: registered_in_def example_handover_def append_eq_Cons_conv Cons_eq_append_conv)
  moreover have "PendingSubnetOwner example_owners 5 = None" "SubnetOwner example_transferred 5 = Some 3"
    "SubnetOwner example_owners 5 \<noteq> Some 3" by (simp_all add: example_transferred_def example_owners_state)
  ultimately show ?thesis using ownership_needs_both [OF example_transfer] by blast
qed

text \<open>
  C23: an owner can only shrink the room for registrations. The maximum of registered nodes is set to at
  most the target per epoch, and the target to at most the maximum, so that no sequence of owner calls that
  leaves the subnet in place takes either of them above the greater of the two at its start: once both
  are low, they stay low.
\<close>

theorem capacity_never_grows:
  assumes "owner_trace F cfg s es t" and "\<forall>origin. (origin, i, DeactivateSubnet) \<notin> set es"
  shows "max (MaxRegisteredNodesOf t i) (TargetNodeRegistrationsPerEpoch t i) \<le>
    max (MaxRegisteredNodesOf s i) (TargetNodeRegistrationsPerEpoch s i)"
  using capacity_trace [OF assms] by (simp add: capacity_def)

text \<open>Applied: the owner of subnet 5 lowers the maximum to four; an attempt to raise the target above it fails.\<close>

definition example_shrunk :: "simple_balances network_owners" where
  "example_shrunk = example_owners\<lparr>MaxRegisteredNodesOf := (MaxRegisteredNodesOf example_owners)(5 := 4)\<rparr>"

lemma example_shrinking:
  "owner_trace example_costs example_config example_owners
     [(Signed 2, 5, UpdateMaxRegisteredNodes 4), (Signed 2, 5, UpdateTargetNodeRegistrationsPerEpoch 9)] example_shrunk"
proof -
  have "owner_call example_costs example_config (Signed 2) 5 (UpdateMaxRegisteredNodes 4) example_owners =
      Some (example_shrunk, Inr ())"
    by (simp add: owner_call_def is_paused_def do_owner_update_max_registered_nodes_def ensure_subnet_owner_def
        ensure_signed_def is_subnet_owner_def example_shrunk_def example_owners_state)
  moreover have "\<exists>e. owner_call example_costs example_config (Signed 2) 5 (UpdateTargetNodeRegistrationsPerEpoch 9)
      example_shrunk = Some (example_shrunk, Inl e)"
    by (simp add: owner_call_def is_paused_def do_owner_update_target_node_registrations_per_epoch_def
        ensure_subnet_owner_def ensure_signed_def is_subnet_owner_def example_shrunk_def example_owners_state)
  ultimately show ?thesis
    using owner_trace.call [OF owner_trace.call [OF owner_trace.start]] by (metis append_Cons append_Nil)
qed

theorem capacity_never_grows_witness:
  "owner_trace example_costs example_config example_owners
     [(Signed 2, 5, UpdateMaxRegisteredNodes 4), (Signed 2, 5, UpdateTargetNodeRegistrationsPerEpoch 9)] example_shrunk \<and>
   MaxRegisteredNodesOf example_shrunk 5 = 4 \<and> TargetNodeRegistrationsPerEpoch example_shrunk 5 \<le> 16"
  using capacity_never_grows [OF example_shrinking, of 5] example_shrinking
  by (simp add: example_shrunk_def example_owners_state)

text \<open>
  C20: new reputation factors wait. After a successful update in some epoch of the subnet, the factors that
  apply from this epoch on are unchanged until the cooldown, of at least one epoch, is over; from then on
  they are the factors last scheduled, with the given values in place of the old ones.
\<close>

theorem factor_updates_wait:
  assumes "do_owner_update_reputation_factors cfg origin i u s = Some (s', Inr ())"
    and "get_current_subnet_epoch_as_u32 cfg i s = Some c" and "c \<le> e"
  shows "get_reputation_factors_for_epoch i e s' =
    (if saturating_add c (max (SubnetOwnerFactorCooldownEpochs s) 1) \<le> e
     then apply_updates u (get_reputation_factors_for_epoch i (- 1) s)
     else get_reputation_factors_for_epoch i c s)"
proof -
  have "SubnetReputationFactorSchedules s' i =
      schedule_updates (SubnetOwnerFactorCooldownEpochs s) c u (SubnetReputationFactorSchedules s i)"
    using assms(1,2) by (auto simp: do_owner_update_reputation_factors_def split: call_splits)
  then show ?thesis
    using assms(3)
    by (auto simp: get_reputation_factors_for_epoch_def factors_for_epoch_def schedule_updates_def
        promote_pending_def Let_def split: option.splits)
qed

text \<open>Applied: the owner of subnet 5 raises one factor, which counts three epochs later.\<close>

definition example_updates :: SubnetReputationFactorUpdates where
  "example_updates = \<lparr>upd_absent_decrease = Some (10 ^ 17), upd_included_increase = None,
     upd_below_min_weight_decrease = None, upd_non_attestor_decrease = None,
     upd_non_consensus_attestor_decrease = None, upd_validator_absent_decrease = None,
     upd_validator_non_consensus_decrease = None\<rparr>"

theorem factor_updates_wait_witness:
  "\<exists>s' c. do_owner_update_reputation_factors example_config (Signed 2) 5 example_updates example_owners = Some (s', Inr ()) \<and>
     get_current_subnet_epoch_as_u32 example_config 5 example_owners = Some c \<and> c = 9 \<and>
     absent_decrease (get_reputation_factors_for_epoch 5 11 s') = 0 \<and>
     absent_decrease (get_reputation_factors_for_epoch 5 12 s') = 10 ^ 17"
proof -
  have c: "get_current_subnet_epoch_as_u32 example_config 5 example_owners = Some 9"
    by (simp add: get_current_subnet_epoch_as_u32_def subnet_slot_or_zero_def example_config_def
        get_current_block_as_u32_def saturating_div_def saturating_sub_def example_owners_state Let_def)
  have "ensure_subnet_owner (Signed 2) 5 example_owners = Inr 2"
    by (simp add: ensure_subnet_owner_iff example_owners_state)
  moreover have "validate_reputation_factors example_updates example_owners = Inr ()"
    by (simp add: validate_reputation_factors_def validate_reputation_factor_update_def example_updates_def
        percentage_factor_as_u128_def example_owners_state)
  moreover have "EmergencySubnetNodeElectionData example_owners 5 = None" by (simp add: example_owners_state)
  ultimately obtain s' where s': "do_owner_update_reputation_factors example_config (Signed 2) 5 example_updates
      example_owners = Some (s', Inr ())"
    using c by (simp add: do_owner_update_reputation_factors_def has_update_def example_updates_def)
  show ?thesis
    using factor_updates_wait [OF s' c, of 11] factor_updates_wait [OF s' c, of 12] s' c
    by (simp add: get_reputation_factors_for_epoch_def factors_for_epoch_def saturating_add_def apply_updates_def
        updated_def example_updates_def example_owners_state)
qed

section \<open>What goes wrong\<close>

lemma do_remove_subnet_elections:
  assumes "SubnetsData s i = Some d"
  shows "TotalElectableNodes (do_remove_subnet i reason s) = TotalElectableNodes s"
    and "TotalSubnetElectableNodes (do_remove_subnet i reason s) = (TotalSubnetElectableNodes s)(i := 0)"
    and "SubnetNodeElectionSlots (do_remove_subnet i reason s) = (SubnetNodeElectionSlots s)(i := [])"
proof -
  have "TotalElectableNodes (clear_subnet i d s) = TotalElectableNodes s"
    "TotalSubnetElectableNodes (clear_subnet i d s) = TotalSubnetElectableNodes s"
    "SubnetNodeElectionSlots (clear_subnet i d s) = SubnetNodeElectionSlots s"
    by (simp_all add: clear_subnet_def)
  then show "TotalElectableNodes (do_remove_subnet i reason s) = TotalElectableNodes s"
    and "TotalSubnetElectableNodes (do_remove_subnet i reason s) = (TotalSubnetElectableNodes s)(i := 0)"
    and "SubnetNodeElectionSlots (do_remove_subnet i reason s) = (SubnetNodeElectionSlots s)(i := [])"
    using assms
    by (simp_all add: do_remove_subnet_def clean_subnet_nodes_def take_friendly_uid_def free_slot_of_subnet_def
        Let_def split: option.splits)
qed

text \<open>
  C21: the nodes of a removed subnet stay in the total of electable nodes. From consistent counters, the
  removal empties the list of the subnet and its own counter, but the total over the network, which the
  weights of emissions are computed with, remains too high by exactly the nodes that were electable.
\<close>

theorem removed_subnet_still_counted:
  assumes "election_ok s" and "SubnetsData s i = Some d" and "s' = do_remove_subnet i reason s"
  shows "SubnetNodeElectionSlots s' i = [] \<and> TotalSubnetElectableNodes s' i = 0 \<and>
    unat (TotalElectableNodes s') = total (TotalSubnetElectableNodes s') + length (SubnetNodeElectionSlots s i)"
proof -
  have "total ((TotalSubnetElectableNodes s)(i := 0)) + unat (TotalSubnetElectableNodes s i) =
      total (TotalSubnetElectableNodes s)"
    using total_upd [of "TotalSubnetElectableNodes s" i 0] by simp
  then show ?thesis
    using assms(1) unfolding assms(3) do_remove_subnet_elections [OF assms(2)] by (simp add: election_ok_def)
qed

text \<open>Applied: subnet 5 is removed, its node 3 stays in the total.\<close>

theorem removed_subnet_still_counted_witness:
  "total (TotalSubnetElectableNodes (do_remove_subnet 5 OwnerReason example_owners)) = 0 \<and>
   TotalElectableNodes (do_remove_subnet 5 OwnerReason example_owners) = 1"
proof -
  have "election_ok example_owners"
    using example_election_ok by (simp add: election_ok_def example_owners_state)
  moreover have d: "SubnetsData example_owners 5 = Some example_subnet" by (simp add: example_owners_state)
  moreover have "SubnetNodeElectionSlots example_owners 5 = [3]" "TotalElectableNodes example_owners = 1"
    by (simp_all add: example_owners_state)
  ultimately show ?thesis
    using removed_subnet_still_counted [OF _ _ refl, of example_owners 5 example_subnet OwnerReason]
    by (simp add: do_remove_subnet_elections [OF d])
qed

text \<open>What the registration queue decides on, and what it leaves: two storages that agree on it stay so.\<close>

definition same_queue where
  "same_queue s t \<longleftrightarrow> SubnetNodesData s = SubnetNodesData t \<and> SubnetNodeQueue s = SubnetNodeQueue t"

lemma same_queue_activation:
  assumes "same_queue s t" and "do_activate_subnet_node W v i Active nd e True w s = (s', w', b)"
    and "do_activate_subnet_node W v i Active nd e True w t = (t', w2, b2)"
  shows "same_queue s' t' \<and> w2 = w' \<and> b2 = b"
  using assms by (auto simp: do_activate_subnet_node_def same_queue_def Let_def split: if_splits)

lemma same_queue_loop:
  assumes "same_queue s t" and "registration_queue_loop W i qe e xs k w s = (s', w', k')"
    and "registration_queue_loop W i qe e xs k w t = (t', w2, k2)"
  shows "same_queue s' t' \<and> w2 = w' \<and> k2 = k'"
  using assms
proof (induction xs arbitrary: k w s t)
  case (Cons nd xs)
  let ?w = "consume W (from_parts W 1500 0) w"
  obtain s1 w1 b where s1: "do_activate_subnet_node W (sn_validator_id nd) i Active nd e True ?w s = (s1, w1, b)"
    by (rule prod_cases3)
  obtain t1 v1 c where t1: "do_activate_subnet_node W (sn_validator_id nd) i Active nd e True ?w t = (t1, v1, c)"
    by (rule prod_cases3)
  have eq: "same_queue s1 t1" "v1 = w1" "c = b" using same_queue_activation [OF Cons.prems(1) s1 t1] by simp_all
  show ?case
    using Cons.prems Cons.IH [OF eq(1), of "k + 1" w1] s1 t1 eq
    by (simp add: Let_def split: if_split_asm)
qed simp

text \<open>What is seen of a run of the queue: the active nodes, the queue it leaves and the weight left.\<close>

definition queue_result where
  "queue_result W i e w s =
     map_option (\<lambda>(s', w'). (SubnetNodesData s', SubnetNodeQueue s', w')) (handle_registration_queue W i e w s)"

lemma same_queue_result:
  assumes "same_queue s t" and "ChurnLimitMultiplier s = ChurnLimitMultiplier t" and "ChurnLimit s = ChurnLimit t"
    and "SubnetNodeQueueEpochs s = SubnetNodeQueueEpochs t" and "MaxSubnetNodes s = MaxSubnetNodes t"
    and "TotalActiveSubnetNodes s = TotalActiveSubnetNodes t"
  shows "queue_result W i e w s = queue_result W i e w t"
proof -
  have q: "SubnetNodesData s = SubnetNodesData t" "SubnetNodeQueue s = SubnetNodeQueue t"
    using assms(1) by (simp_all add: same_queue_def)
  have loop: "\<exists>s' t' w' k. registration_queue_loop W i qe e xs 0 v s = (s', w', k) \<and>
      registration_queue_loop W i qe e xs 0 v t = (t', w', k) \<and>
      SubnetNodesData s' = SubnetNodesData t' \<and> SubnetNodeQueue s' = SubnetNodeQueue t'" for qe xs v
    using same_queue_loop [OF assms(1), of W i qe e xs 0 v] unfolding same_queue_def by (metis prod_cases3)
  let ?n = "unat (if saturating_sub (MaxSubnetNodes t) (TotalActiveSubnetNodes t i) < ChurnLimit t i
      then saturating_sub (MaxSubnetNodes t) (TotalActiveSubnetNodes t i) else ChurnLimit t i)"
  let ?w = "consume W (from_parts W 2000 0) (consume W (db_reads W 1) (consume W (db_reads W 4) (consume W (db_reads W 1) w)))"
  obtain s' t' w' k where L: "registration_queue_loop W i (SubnetNodeQueueEpochs t i) e (take ?n (SubnetNodeQueue t i)) 0 ?w s = (s', w', k)"
      "registration_queue_loop W i (SubnetNodeQueueEpochs t i) e (take ?n (SubnetNodeQueue t i)) 0 ?w t = (t', w', k)"
      "SubnetNodesData s' = SubnetNodesData t'" "SubnetNodeQueue s' = SubnetNodeQueue t'"
    using loop by blast
  show ?thesis
    unfolding queue_result_def handle_registration_queue_def assms(2-) q(2) Let_def L(1,2) prod.case
    by (cases "checked_rem e (ChurnLimitMultiplier t i)")
      (simp_all add: q L(3,4) del: registration_queue_loop.simps)
qed

text \<open>
  C22: resuming a paused subnet does not delay the nodes that wait. The call adds the epochs of the pause and
  one more to the start epoch in the record of every registered node, of every subnet and not only of the
  resumed one; but the queue, whose copies of the nodes decide, is left as it is. Whatever the subnet, the
  epoch and the weight, the queue handled after the call activates the same nodes, leaves the same
  queue and the same weight as it would have before.
\<close>

theorem resume_does_not_delay_queue:
  assumes "do_owner_unpause_subnet cfg origin i s = Some (s', Inr ())"
  shows "(\<exists>d epoch. SubnetsData s i = Some d \<and> sd_state d = SubnetPaused \<and>
      get_current_epoch_as_u32 cfg s = Some epoch \<and>
      (\<forall>j n. RegisteredSubnetNodesData s' (j, n) =
        map_option (shift_start (saturating_add (saturating_sub epoch (sd_start_epoch d)) 1))
          (RegisteredSubnetNodesData s (j, n)))) \<and>
    (\<forall>W j e w. map_option (\<lambda>(t, w'). (SubnetNodesData t, SubnetNodeQueue t, w')) (handle_registration_queue W j e w s') =
      map_option (\<lambda>(t, w'). (SubnetNodesData t, SubnetNodeQueue t, w')) (handle_registration_queue W j e w s))"
  using assms
proof (cases rule: do_owner_unpause_subnet_cases)
  case (resumed d epoch x)
  have "queue_result W j e w s' = queue_result W j e w s" for W j e w
    unfolding resumed(5) by (rule same_queue_result) (simp_all add: same_queue_def resumed_def shift_registered_def)
  moreover have "RegisteredSubnetNodesData s' (j, n) =
      map_option (shift_start (saturating_add (saturating_sub epoch (sd_start_epoch d)) 1))
        (RegisteredSubnetNodesData s (j, n))" for j n
    unfolding resumed(5) by (simp add: resumed_def shift_registered_def)
  ultimately show ?thesis using resumed(2-4) by (auto simp: queue_result_def)
qed simp

text \<open>
  Applied: subnet 5, paused in epoch 7, is resumed in epoch 10. The record of its node 4 then says epoch 14,
  as does the record of a node of subnet 6; yet the queue activates node 4 in epoch 12.
\<close>

definition example_paused :: "simple_balances network_owners" where
  "example_paused = example_owners
     \<lparr>SubnetsData := [5 \<mapsto> example_subnet\<lparr>sd_state := SubnetPaused, sd_start_epoch := 7\<rparr>],
      RegisteredSubnetNodesData := [(5, 4) \<mapsto> example_new_node, (6, 1) \<mapsto> example_new_node],
      SubnetNodeQueue := (\<lambda>_. [])(5 := [example_new_node]), SubnetNodeQueueEpochs := (\<lambda>_. 1)\<rparr>"

lemma example_paused_queue:
  "\<exists>t. handle_registration_queue example_meters 5 12 () example_paused = Some (t, ()) \<and>
     SubnetNodesData t (5, 4) =
       Some (example_new_node\<lparr>sn_classification := \<lparr>node_class = Idle, class_start_epoch = 12\<rparr>\<rparr>)"
  by (simp add: handle_registration_queue_def example_meters_def example_paused_def example_owners_state
      checked_rem_def saturating_sub_def do_activate_subnet_node_def example_new_node_def Let_def)

theorem resume_does_not_delay_queue_witness:
  "\<exists>s' node other t. do_owner_unpause_subnet example_config (Signed 2) 5 example_paused = Some (s', Inr ()) \<and>
     RegisteredSubnetNodesData s' (5, 4) = Some node \<and> class_start_epoch (sn_classification node) = 14 \<and>
     RegisteredSubnetNodesData s' (6, 1) = Some other \<and> class_start_epoch (sn_classification other) = 14 \<and>
     handle_registration_queue example_meters 5 12 () s' = Some (t, ()) \<and> SubnetNodesData t (5, 4) \<noteq> None"
proof -
  have "ensure_subnet_owner (Signed 2) 5 example_paused = Inr 2"
    by (simp add: ensure_subnet_owner_iff example_paused_def example_owners_state)
  moreover have e: "get_current_epoch_as_u32 example_config example_paused = Some 10"
    by (simp add: get_current_epoch_as_u32_def example_config_def get_current_block_as_u32_def
        saturating_div_def example_paused_def example_owners_state)
  moreover have d: "SubnetsData example_paused 5 =
      Some (example_subnet\<lparr>sd_state := SubnetPaused, sd_start_epoch := 7\<rparr>)"
    by (simp add: example_paused_def)
  moreover have "EmergencySubnetNodeElectionData example_paused 5 = None"
    by (simp add: example_paused_def example_owners_state)
  ultimately obtain s' where s': "do_owner_unpause_subnet example_config (Signed 2) 5 example_paused = Some (s', Inr ())"
    by (simp add: do_owner_unpause_subnet_def is_subnet_paused_def extend_emergency_def shift_registered_def Let_def)
  have r: "RegisteredSubnetNodesData example_paused (5, 4) = Some example_new_node"
    "RegisteredSubnetNodesData example_paused (6, 1) = Some example_new_node" by (simp_all add: example_paused_def)
  note resume = resume_does_not_delay_queue [OF s']
  have "RegisteredSubnetNodesData s' (5, 4) = Some (shift_start 4 example_new_node)"
    "RegisteredSubnetNodesData s' (6, 1) = Some (shift_start 4 example_new_node)"
    using resume [THEN conjunct1] d e r by (auto simp: saturating_sub_def saturating_add_def)
  moreover obtain t where "handle_registration_queue example_meters 5 12 () s' = Some (t, ())" "SubnetNodesData t (5, 4) \<noteq> None"
    using resume [THEN conjunct2, rule_format, of example_meters 5 12 "()"] example_paused_queue by auto
  ultimately show ?thesis
    using s' by (simp add: shift_start_def saturating_add_def example_new_node_def)
qed

text \<open>Only neighbours are compared: a list that names a validator twice passes, and counts it twice.\<close>

lemma emergency_set_keeps_repetitions: "dedup_by [1, 2, 1 :: u32] = [1, 2, 1]"
  by simp

end
