(* ===== verification/Spec2Isabelle.thy ===== *)
theory Spec2Isabelle
  imports Staking_Guards Consensus_Properties Swap_Properties Multiaddr_Properties Node_Properties Reward_Properties Collective_Properties Subnet_Properties
begin

text \<open>
  A verification development for the Hypertensor blockchain, a Substrate runtime in Rust: the network pallet
  (\<open>src/pallets/network\<close>), and the collective, atomic swap and author subsidy pallets
  (\<open>src/pallets/collective\<close>, \<open>src/pallets/atomic-swap\<close>, \<open>src/pallets/author-subsidy\<close>).

  \<^bold>\<open>The program.\<close> Accounts stake on subnet nodes (\<open>stake/node_staking.rs\<close>), on overwatch nodes
  (\<open>stake/overwatch_node_staking.rs\<close>) and, through share pools, on subnets and validators
  (\<open>stake/delegate_staking.rs\<close>, \<open>stake/validator_delegate_staking.rs\<close>). What leaves a stake waits in an
  unbonding ledger (\<open>stake/staking_utils.rs\<close>) or, when it moves to another pool, in a swap queue
  (\<open>stake/staking_queue.rs\<close>, \<open>stake/transfer_utils.rs\<close>) that the block hook of \<open>lib.rs\<close> executes.
  A subnet is registered for a price, activated once it has nodes and stake, and removed (\<open>lib.rs\<close>,
  \<open>utilities/subnet.rs\<close>); its owner sets its parameters, pauses it, or hands it over
  (\<open>utilities/owner.rs\<close>). Validators (\<open>lib.rs\<close>, \<open>utilities/validator.rs\<close>) register nodes in a subnet for a
  fee, which wait in a queue, are activated, updated and removed (\<open>utilities/subnet_node.rs\<close>,
  \<open>utilities/slot.rs\<close>), and are found by their peer identifiers and multiaddresses
  (\<open>utilities/multiaddr.rs\<close>). Every epoch (\<open>utilities/era.rs\<close>) a node of a subnet is elected at random
  (\<open>utilities/randomness.rs\<close>) among its election slots; it submits consensus data, the others attest
  (\<open>consensus/subnet_validator.rs\<close>), and at the subnet's slot of the next epoch the rewards are paid
  (\<open>bank/rewards.rs\<close>) or the elected node is slashed. Reputations (\<open>utilities/reputation.rs\<close>) record how
  nodes, validators and subnets do. A council of members (\<open>src/pallets/collective\<close>) votes on motions that
  are dispatched with the share of the council that approved.

  \<^bold>\<open>How it is modelled.\<close> Storage is one record, declared group by group, each group extending the one
  before, so that an operation is typed by the last group it needs; a storage map with a default is a
  total function, one without a partial map. Integers are words of the source's width; checked, wrapping
  and saturating arithmetic is what the source writes. An operation takes the storage and returns the
  storage it leaves together with an error or a result; a dispatched call restores the storage when it
  fails; a panic or a loop that does not end is \<open>None\<close>. The parts of the runtime below the pallets are
  parameters: the currency (\<open>Currency\<close>, with the laws \<open>currency_laws\<close>, which \<open>simple_currency\<close> satisfies),
  the transfer to the treasury (\<open>Treasury\<close>), the weights of the framework (\<open>Weights\<close> and the records that
  extend it), the randomness and hash functions, the floating-point unit (\<open>F64\<close> and its extensions), the
  dispatch of a motion (\<open>dispatch_proposal\<close>) and, for atomic swaps, the reservable currency.

  \<^bold>\<open>The theories.\<close>
  \<^item> \<open>Chain_Prelude\<close>, \<open>Fixed_Point\<close>: words, sums over maps, ordered maps; percentages at 18 decimals
    (\<open>utilities/math.rs\<close>).
  \<^item> \<open>Network_Storage\<close>, \<open>Node_Storage\<close>: data, errors and storage of \<open>lib.rs\<close>; rate limit, pause, balances.
  \<^item> \<open>Share_Math\<close>, \<open>Stake_Interfaces\<close>, \<open>Unbonding\<close>, \<open>Node_Staking\<close>, \<open>Delegate_Account\<close>, \<open>Overwatch_Staking\<close>,
    \<open>Delegate_Staking\<close>, \<open>Validator_Delegate_Staking\<close>, \<open>Swap_Queue\<close>: one theory per file of \<open>stake/\<close>. The
    interfaces between them are locales (an account book with a total, a share pool, a queue with an
    abstract list), interpreted on the definitions of each component.
  \<^item> \<open>Network_Invariant\<close>: the books of the whole pallet, \<open>network_ok\<close>, their value, \<open>network_value\<close>, and the
    predicate \<open>holds\<close> with which value is moved from one book to another. \<open>Book_Frames\<close>: what leaves them alone.
  \<^item> \<open>Staking_Calls\<close>: the nineteen staking calls, and runs of calls and blocks (\<open>staking_run\<close>).
  \<^item> \<open>Network_Metrics\<close>, \<open>Reputation_Scores\<close>, \<open>Epochs\<close>: figures, reputations, epochs and elections.
  \<^item> \<open>Multiaddr\<close>, \<open>Election_Slots\<close>, \<open>Validator_Registry\<close>: addresses, slots and validators.
  \<^item> \<open>Subnet_Nodes\<close>, \<open>Node_Registration\<close>, \<open>Node_Updates\<close>: nodes, with the queue and the burn rate;
    \<open>Node_Indices\<close>, \<open>Node_Lifecycle\<close>: the invariant \<open>nodes_ok\<close> of their indices, call by call.
  \<^item> \<open>Consensus_Submission\<close>, \<open>Reward_Distribution\<close>: submissions, attestations, slashing; the step of a subnet
    at its slot, which divides and pays the rewards.
  \<^item> \<open>Subnet_Lifecycle\<close>, \<open>Owner_Calls\<close>: registration, activation and removal of subnets; the calls of owners.
    \<open>Subnet_Registry\<close>, \<open>Subnet_Parameters\<close>, \<open>Subnet_Ownership\<close>: the invariants \<open>registry_ok\<close> and
    \<open>parameters_ok\<close>, and histories of what happens to owners (\<open>subnet_history\<close>).
  \<^item> \<open>Collective\<close>, \<open>Atomic_Swap\<close>, \<open>Author_Subsidy\<close>: the other three pallets.
  \<^item> \<open>Concrete_Network\<close>, \<open>Concrete_Nodes\<close>, \<open>Concrete_Rewards\<close>, \<open>Concrete_Subnets\<close>: a small network on which the
    properties are applied.
  \<^item> \<open>Staking_Properties\<close>, \<open>Staking_Guards\<close>, \<open>Consensus_Properties\<close>, \<open>Swap_Properties\<close>,
    \<open>Multiaddr_Properties\<close>, \<open>Node_Properties\<close>, \<open>Registration_Properties\<close>, \<open>Submission_Properties\<close>,
    \<open>Reward_Properties\<close>, \<open>Subnet_Properties\<close>, \<open>Collective_Properties\<close> and this theory: the properties.

  \<^bold>\<open>What is shown.\<close>
  \<^item> Staking: no call and no run mints value or breaks the books, as long as transfers are covered by the
    sender's shares, which the code does not check; shares convert exactly as rational arithmetic rounded
    down, and nothing others do dilutes an account; the swap queue refines a first-in first-out list and
    is emptied in order; withdrawals are exact and go through.
  \<^item> Consensus and rewards: only the elected node submits, submissions are final and canonical; a step of a
    subnet mints no more than the rewards it is given when the rates are at most one; slashes are bounded.
  \<^item> Nodes and validators: indices, election slots and keys stay consistent; a registration takes exactly the
    fee and the stake from its signer; addresses are accepted exactly according to their format, and the
    check diverges on crafted addresses.
  \<^item> Subnets: registry and parameters stay consistent; a registration pays the current price; an activation
    requires its conditions; a subnet changes hands with the consent of both sides only.
  \<^item> The council stays consistent, every motion can be closed, and a privileged call needs its majority.
  \<^item> Atomic swaps stay backed by reserves, reputations stay bounded, elections pick a slot.
  \<^item> Where the code does something else than it means to, the theorem states what it does.

  \<^bold>\<open>Bounds.\<close> Totals are sums of 128-bit words that the code saturates, so conservation is stated under
  \<open>headroom\<close>: the value held leaves room below \<open>2 ^ 128\<close> for the virtual shares and the dead shares.
  Identifiers are counters of 32 bits; a property that needs another identifier says so.
  Loops of the source are recursions over the list or the counter they run over; the check of
  multiaddresses, which may run forever, returns an option, with \<open>None\<close> for divergence.

  \<^bold>\<open>Not modelled.\<close> Events; the supply curve of \<open>supply/inflation.rs\<close> and the weights of emissions; the
  commitments and reveals of overwatch nodes (\<open>overwatch_nodes\<close>); the setters of parameters in \<open>admin\<close>;
  migrations; the precompiles, the RPC layer, the node and the runtime's configuration, which are glue;
  \<open>weights.rs\<close> and \<open>benchmarking.rs\<close>, which are generated.
\<close>

section \<open>The chain\<close>

text \<open>
  C1: no staking call of any origin mints value or breaks the books. Whatever its result, the storage
  stays well formed (every total is the sum of its entries, the share pools, the unbonding ledger and
  the swap queue are consistent), and balances, stakes, pools, unbondings and queued swaps together
  hold no more than before. The transfer of shares the sender does not have is excluded; the value held
  leaves headroom below the width of the totals, and there is another identifier for a queued swap.
\<close>

theorem staking_call_conserves:
  assumes "network_ok cfg ok s" and "headroom (network_value cfg s)" and "NextSwapQueueId s \<noteq> - 1"
    and "covered origin call s" and "dispatch_call cfg origin call s = (s', r)"
  shows "network_ok cfg ok s' \<and> network_value cfg s' \<le> network_value cfg s"
  using holds_dispatch_call [OF _ assms(2-5), of ok] assms(1) by (simp add: holds_def)

text \<open>Applied: account 1 delegates 5000 to subnet 5.\<close>

theorem staking_call_conserves_witness:
  "\<exists>s' r. dispatch_call example_config (Signed 1) (AddDelegateStake 5 5000) example_network = (s', r) \<and>
     network_ok example_config simple_ok s' \<and> network_value example_config s' \<le> 2 * 10 ^ 24"
proof -
  obtain s' r where d: "dispatch_call example_config (Signed 1) (AddDelegateStake 5 5000) example_network = (s', r)"
    by (rule prod.exhaust)
  have "NextSwapQueueId example_network \<noteq> - 1" by (simp add: example_network_def)
  from staking_call_conserves [OF example_network_ok example_headroom this _ d] show ?thesis
    using d by (auto simp: example_network_value)
qed



end
